(* ===== verification/Bt_Prelude.thy ===== *)
theory Bt_Prelude
  imports Complex_Main "HOL-Library.Word" "HOL-Library.Char_ord"
begin

text \<open>
  Shared vocabulary of the development: names for the C++ types the source uses, the
  ASCII character classes of the C locale, the string searches of \<open>std::string\<close> the
  source calls, and two interfaces that several components provide: operations that
  keep an invariant (\<open>invariant_machine\<close>) and a wire format with its reader
  (\<open>wire_format\<close>).

  Conventions. \<open>std::string\<close> is \<open>string\<close> (a list of bytes), \<open>std::vector<uint8_t>\<close> is
  \<open>u8 list\<close>, \<open>uintN_t\<close> is \<open>N word\<close>, \<open>double\<close> seconds and rates are \<open>rat\<close> (every finite
  double is a rational; sums and products are exact here, the rounding of the last bit
  is not modelled), \<open>steady_clock\<close> time points and durations are \<open>int\<close> nanoseconds with
  \<open>time_point{}\<close> as 0, \<open>std::map\<close> is a partial function, and a thrown exception is the
  left value of a sum.
\<close>

unbundle bit_operations_syntax

type_synonym u8 = "8 word"
type_synonym u16 = "16 word"
type_synonym u24 = "24 word"
type_synonym u32 = "32 word"
type_synonym u64 = "64 word"
type_synonym seconds = rat
type_synonym ticks = int

definition ns_per_s :: int where
  "ns_per_s = 1000000000"

definition secs :: "int \<Rightarrow> ticks" where
  "secs n = n * ns_per_s"

definition ticks_to_seconds :: "ticks \<Rightarrow> seconds" where
  "ticks_to_seconds t = of_int t / of_int ns_per_s"

definition trunc_rat :: "rat \<Rightarrow> int" where
  "trunc_rat r = (if r < 0 then - \<lfloor>- r\<rfloor> else \<lfloor>r\<rfloor>)"

definition seconds_to_ticks :: "seconds \<Rightarrow> ticks" where
  "seconds_to_ticks r = trunc_rat (r * of_int ns_per_s)"

lemma seconds_to_ticks_nonneg: "0 \<le> r \<Longrightarrow> 0 \<le> seconds_to_ticks r"
  by (simp add: seconds_to_ticks_def trunc_rat_def ns_per_s_def not_less)

section \<open>Characters of the C locale\<close>

definition char_code :: "char \<Rightarrow> nat" where
  "char_code c = of_char c"

definition is_upper :: "char \<Rightarrow> bool" where
  "is_upper c \<longleftrightarrow> 65 \<le> char_code c \<and> char_code c \<le> 90"

definition is_lower :: "char \<Rightarrow> bool" where
  "is_lower c \<longleftrightarrow> 97 \<le> char_code c \<and> char_code c \<le> 122"

definition is_digit :: "char \<Rightarrow> bool" where
  "is_digit c \<longleftrightarrow> 48 \<le> char_code c \<and> char_code c \<le> 57"

definition is_alpha :: "char \<Rightarrow> bool" where
  "is_alpha c \<longleftrightarrow> is_upper c \<or> is_lower c"

definition is_alnum :: "char \<Rightarrow> bool" where
  "is_alnum c \<longleftrightarrow> is_alpha c \<or> is_digit c"

definition is_xdigit :: "char \<Rightarrow> bool" where
  "is_xdigit c \<longleftrightarrow> is_digit c \<or> (65 \<le> char_code c \<and> char_code c \<le> 70) \<or> (97 \<le> char_code c \<and> char_code c \<le> 102)"

definition is_space :: "char \<Rightarrow> bool" where
  "is_space c \<longleftrightarrow> char_code c = 32 \<or> (9 \<le> char_code c \<and> char_code c \<le> 13)"

definition is_ascii_ws :: "char \<Rightarrow> bool" where
  "is_ascii_ws c \<longleftrightarrow> char_code c = 32 \<or> char_code c = 9 \<or> char_code c = 13 \<or> char_code c = 10"

definition to_lower :: "char \<Rightarrow> char" where
  "to_lower c = (if is_upper c then char_of (char_code c + 32) else c)"

definition to_upper :: "char \<Rightarrow> char" where
  "to_upper c = (if is_lower c then char_of (char_code c - 32) else c)"

lemmas char_class_defs = is_upper_def is_lower_def is_digit_def is_alpha_def is_alnum_def
  is_xdigit_def is_space_def is_ascii_ws_def

lemma char_code_less: "char_code c < 256"
  by (simp add: char_code_def)

lemma char_code_char_of [simp]: "char_code (char_of n) = n mod 256"
  by (simp add: char_code_def)

lemma char_of_char_code [simp]: "char_of (char_code c) = c"
  by (simp add: char_code_def)

lemma char_code_inject: "char_code c = char_code d \<longleftrightarrow> c = d"
  by (metis char_of_char_code)

lemma to_lower_idem [simp]: "to_lower (to_lower c) = to_lower c"
  using char_code_less [of c] by (auto simp: to_lower_def is_upper_def)

lemma ascii_ws_not_alnum: "is_ascii_ws c \<Longrightarrow> \<not> is_alnum c"
  by (auto simp: char_class_defs)

lemma to_lower_ws [simp]: "is_ascii_ws (to_lower c) = is_ascii_ws c"
  using char_code_less [of c] by (auto simp: to_lower_def is_upper_def is_ascii_ws_def)

lemma to_lower_alnum [simp]: "is_alnum (to_lower c) = is_alnum c"
  using char_code_less [of c] by (auto simp: to_lower_def char_class_defs)

section \<open>Exceptions and decimal text\<close>

datatype std_error =
    Runtime_error string
  | Invalid_argument string
  | Out_of_range string
  | Length_error string

fun show_nat :: "nat \<Rightarrow> string" where
  "show_nat n = (if n < 10 then [char_of (48 + n)] else show_nat (n div 10) @ [char_of (48 + n mod 10)])"

declare show_nat.simps [simp del]

lemma show_nat_nonempty [simp]: "show_nat n \<noteq> []"
  by (subst show_nat.simps) simp

lemma is_digit_char_of: "k < 10 \<Longrightarrow> is_digit (char_of (48 + k :: nat))"
  by (simp add: is_digit_def)

lemma show_nat_digits: "list_all is_digit (show_nat n)"
proof (induction n rule: show_nat.induct)
  case (1 n)
  show ?case
  proof (cases "n < 10")
    case True
    then show ?thesis by (subst show_nat.simps) (simp add: is_digit_char_of)
  next
    case False
    with "1.IH" show ?thesis by (subst show_nat.simps) (simp add: is_digit_char_of)
  qed
qed

text \<open>Reading decimal digits back: \<open>show_nat\<close> loses nothing.\<close>

definition digit_value :: "char \<Rightarrow> nat" where
  "digit_value c = char_code c - 48"

definition digits_value :: "string \<Rightarrow> nat" where
  "digits_value s = foldl (\<lambda>a c. a * 10 + digit_value c) 0 s"

lemma digits_value_show_nat [simp]: "digits_value (show_nat n) = n"
proof (induction n rule: show_nat.induct)
  case (1 n)
  show ?case
  proof (cases "n < 10")
    case True
    then show ?thesis by (subst show_nat.simps) (simp add: digits_value_def digit_value_def)
  next
    case False
    with "1.IH" show ?thesis
      by (subst show_nat.simps) (simp add: digits_value_def digit_value_def)
  qed
qed

lemma show_nat_inject [simp]: "show_nat m = show_nat n \<longleftrightarrow> m = n"
  by (metis digits_value_show_nat)

section \<open>String searches and trimming\<close>

fun find_first :: "('a \<Rightarrow> bool) \<Rightarrow> 'a list \<Rightarrow> nat option" where
  "find_first P [] = None"
| "find_first P (x # xs) = (if P x then Some 0 else map_option Suc (find_first P xs))"

fun find_last :: "('a \<Rightarrow> bool) \<Rightarrow> 'a list \<Rightarrow> nat option" where
  "find_last P [] = None"
| "find_last P (x # xs) =
     (case find_last P xs of Some i \<Rightarrow> Some (Suc i) | None \<Rightarrow> if P x then Some 0 else None)"

definition substr :: "'a list \<Rightarrow> nat \<Rightarrow> nat \<Rightarrow> 'a list" where
  "substr s pos n = take n (drop pos s)"

definition strip :: "('a \<Rightarrow> bool) \<Rightarrow> 'a list \<Rightarrow> 'a list" where
  "strip P s = rev (dropWhile P (rev (dropWhile P s)))"

definition trim_ws :: "string \<Rightarrow> string" where
  "trim_ws s =
     (case find_first (\<lambda>c. \<not> is_ascii_ws c) s of
        None \<Rightarrow> []
      | Some b \<Rightarrow> (case find_last (\<lambda>c. \<not> is_ascii_ws c) s of
          None \<Rightarrow> []
        | Some e \<Rightarrow> substr s b (e - b + 1)))"

lemma find_first_None: "find_first P xs = None \<longleftrightarrow> list_all (\<lambda>x. \<not> P x) xs"
  by (induction xs) auto

lemma find_last_None: "find_last P xs = None \<longleftrightarrow> list_all (\<lambda>x. \<not> P x) xs"
  by (induction xs) (auto split: option.splits)

lemma find_first_drop: "find_first (\<lambda>x. \<not> P x) xs = Some b \<Longrightarrow> drop b xs = dropWhile P xs \<and> b < length xs"
  by (induction xs arbitrary: b) (auto split: if_splits)

lemma find_last_snoc:
  "find_last P (xs @ [x]) = (if P x then Some (length xs) else find_last P xs)"
  by (induction xs) (auto split: option.splits)

lemma find_last_take:
  "find_last (\<lambda>x. \<not> P x) xs = Some e \<Longrightarrow> take (Suc e) xs = rev (dropWhile P (rev xs)) \<and> e < length xs"
proof (induction xs arbitrary: e rule: rev_induct)
  case Nil
  then show ?case by simp
next
  case (snoc x xs)
  then show ?case by (auto simp: find_last_snoc split: if_splits)
qed

lemma strip_infix:
  assumes "b \<le> e" and "drop b xs = dropWhile P xs" and "take (Suc e) xs = rev (dropWhile P (rev xs))"
    and "list_ex (\<lambda>x. \<not> P x) xs" and "e < length xs"
  shows "take (Suc e - b) (drop b xs) = strip P xs"
proof -
  obtain us where us: "xs = us @ drop b xs" and lb: "length us = b"
    using assms(1,5) by (metis append_take_drop_id length_take less_imp_le min.absorb2 order_trans)
  have "\<exists>x\<in>set (dropWhile P xs). \<not> P x"
    using assms(4) by (metis (no_types, lifting) list_ex_iff set_dropWhileD set_takeWhileD takeWhile_dropWhile_id
        Un_iff set_append)
  then obtain x where x: "x \<in> set (drop b xs)" "\<not> P x" using assms(2) by auto
  have "dropWhile P (rev xs) = dropWhile P (rev (drop b xs) @ rev us)"
    by (subst us) simp
  also have "\<dots> = dropWhile P (rev (drop b xs)) @ rev us"
    using x by (simp add: dropWhile_append1)
  finally have "take (Suc e) xs = us @ strip P xs"
    using assms(2,3) by (simp add: strip_def)
  then have "drop b (take (Suc e) xs) = strip P xs" using lb by simp
  then show ?thesis by (simp add: drop_take)
qed

lemma find_first_le_last:
  "find_first P xs = Some b \<Longrightarrow> find_last P xs = Some e \<Longrightarrow> b \<le> e"
  by (induction xs arbitrary: b e) (auto split: if_splits option.splits)

lemma find_substr_strip:
  assumes b: "find_first (\<lambda>x. \<not> P x) s = Some b" and e: "find_last (\<lambda>x. \<not> P x) s = Some e"
  shows "take (Suc (e - b)) (drop b s) = strip P s"
proof -
  have "list_ex (\<lambda>x. \<not> P x) s"
    using b by (metis (no_types, lifting) find_first_None list_all_iff list_ex_iff option.distinct(1))
  then have "take (Suc e - b) (drop b s) = strip P s"
    using find_first_drop [OF b] find_last_take [OF e] find_first_le_last [OF b e]
    by (intro strip_infix) simp_all
  with find_first_le_last [OF b e] show ?thesis by (simp add: Suc_diff_le)
qed

lemma trim_ws_strip: "trim_ws s = strip is_ascii_ws s"
proof (cases "list_all is_ascii_ws s")
  case True
  then have "find_first (\<lambda>c. \<not> is_ascii_ws c) s = None" and "dropWhile is_ascii_ws s = []"
    by (simp_all add: list_all_iff find_first_None)
  then show ?thesis unfolding trim_ws_def strip_def by (simp only: option.case rev.simps dropWhile.simps)
next
  case False
  then obtain b e where b: "find_first (\<lambda>c. \<not> is_ascii_ws c) s = Some b"
    and e: "find_last (\<lambda>c. \<not> is_ascii_ws c) s = Some e"
    by (metis (no_types, lifting) find_first_None find_last_None list_all_iff not_None_eq)
  with find_substr_strip [OF b e] show ?thesis by (simp add: trim_ws_def substr_def)
qed

lemma strip_Nil [simp]: "strip P [] = []"
  by (simp add: strip_def)

lemma strip_strip [simp]: "strip P (strip P s) = strip P s"
proof (cases "strip P s = []")
  case False
  let ?t = "dropWhile P s"
  have "?t \<noteq> []" using False unfolding strip_def by (metis dropWhile.simps(1) rev.simps(1))
  then have hd: "\<not> P (hd ?t)" by (rule hd_dropWhile)
  have last: "\<not> P (last (strip P s))"
    using False by (metis hd_dropWhile hd_rev rev_is_Nil_conv rev_rev_ident strip_def)
  obtain vs where vs: "?t = strip P s @ vs"
    by (metis rev_append rev_rev_ident strip_def takeWhile_dropWhile_id)
  then have "\<not> P (hd (strip P s))" using hd False by simp
  then have "dropWhile P (strip P s) = strip P s" using False by (cases "strip P s") auto
  moreover have "dropWhile P (rev (strip P s)) = rev (strip P s)"
    using False last by (cases "strip P s" rule: rev_cases) auto
  ultimately show ?thesis by (subst strip_def) simp
next
  case True
  then show ?thesis by (simp only: strip_Nil)
qed

lemma hd_strip: "strip P s \<noteq> [] \<Longrightarrow> \<not> P (hd (strip P s))"
  by (metis dropWhile.simps(1) dropWhile_eq_Nil_conv hd_append2 hd_dropWhile rev.simps(1) rev_append
      rev_rev_ident strip_def takeWhile_dropWhile_id)

lemma last_strip: "strip P s \<noteq> [] \<Longrightarrow> \<not> P (last (strip P s))"
  by (metis hd_dropWhile hd_rev rev_is_Nil_conv rev_rev_ident strip_def)

lemma dropWhile_id: "s = [] \<or> \<not> P (hd s) \<Longrightarrow> dropWhile P s = s"
  by (cases s) auto

lemma strip_commute: "dropWhile P (rev (dropWhile P (rev s))) = strip P s"
proof (cases "dropWhile P s = []")
  case True
  then have "dropWhile P (rev s) = []" by simp
  with True show ?thesis unfolding strip_def by (simp only: rev.simps dropWhile.simps)
next
  case False
  let ?t = "dropWhile P s" and ?u = "takeWhile P s"
  from False obtain x where x: "x \<in> set ?t" "\<not> P x" using hd_dropWhile hd_in_set by metis
  have "dropWhile P (rev s) = dropWhile P (rev ?t @ rev ?u)"
    by (metis rev_append takeWhile_dropWhile_id)
  also have "\<dots> = dropWhile P (rev ?t) @ rev ?u"
    using x by (simp add: dropWhile_append1)
  finally have "rev (dropWhile P (rev s)) = ?u @ strip P s"
    by (simp add: strip_def)
  moreover have "dropWhile P (strip P s) = strip P s"
    by (cases "strip P s = []") (simp_all add: hd_strip dropWhile_id)
  ultimately show ?thesis
    by (metis (no_types, lifting) dropWhile_append2 set_takeWhileD)
qed

lemma set_strip: "set (strip P s) \<subseteq> set s"
  by (auto simp: strip_def dest!: set_dropWhileD)

lemma strip_id: "s = [] \<or> (\<not> P (hd s) \<and> \<not> P (last s)) \<Longrightarrow> strip P s = s"
  by (auto simp: strip_def dropWhile_id hd_rev)

lemma strip_map:
  assumes "\<And>c. P (f c) = P c"
  shows "strip P (map f s) = map f (strip P s)"
proof -
  have "dropWhile P (map f xs) = map f (dropWhile P xs)" for xs
    using assms by (simp add: dropWhile_map comp_def)
  then show ?thesis by (simp add: strip_def rev_map)
qed

section \<open>Interfaces\<close>

text \<open>
  A component driven by events: a start state, a total step function, the events its
  environment may send and an invariant that the start state has and every such event
  keeps.
\<close>

locale invariant_machine =
  fixes start :: 's
    and step :: "'e \<Rightarrow> 's \<Rightarrow> 's"
    and event_ok :: "'e \<Rightarrow> bool"
    and inv :: "'s \<Rightarrow> bool"
  assumes inv_start: "inv start"
    and inv_step: "event_ok e \<Longrightarrow> inv s \<Longrightarrow> inv (step e s)"
begin

lemma inv_fold: "list_all event_ok es \<Longrightarrow> inv s \<Longrightarrow> inv (fold step es s)"
  by (induction es arbitrary: s) (auto intro: inv_step)

lemma inv_run: "list_all event_ok es \<Longrightarrow> inv (fold step es start)"
  by (simp add: inv_fold inv_start)

end

text \<open>A byte format: what the writer produces, the reader returns.\<close>

locale wire_format =
  fixes enc :: "'a \<Rightarrow> 'b"
    and dec :: "'b \<Rightarrow> 'a option"
    and valid :: "'a \<Rightarrow> bool"
  assumes dec_enc: "valid x \<Longrightarrow> dec (enc x) = Some x"
begin

lemma enc_inject: "valid x \<Longrightarrow> valid y \<Longrightarrow> enc x = enc y \<longleftrightarrow> x = y"
  by (metis dec_enc option.inject)

end

text \<open>A format that is exact: the reader accepts nothing the writer does not produce.\<close>

locale exact_wire_format = wire_format +
  assumes enc_dec: "dec b = Some x \<Longrightarrow> valid x \<and> enc x = b"
begin

lemma dec_Some_iff: "dec b = Some x \<longleftrightarrow> valid x \<and> enc x = b"
  using dec_enc enc_dec by blast

lemma dec_None_iff: "dec b = None \<longleftrightarrow> (\<forall>x. valid x \<longrightarrow> enc x \<noteq> b)"
  by (metis dec_Some_iff not_None_eq)

end

end
