(* ===== verification/Util_Strings.thy ===== *)
theory Util_Strings
  imports Bt_Prelude
begin

text \<open>
  The string helpers of \<open>src/util\<close>: trimming and case folding, ROS topic names, UAV host
  name policy, device names, and the bridge naming of \<open>src/gatt/bridge_naming.cpp\<close>.
  \<open>std::regex\<close> is a parameter: \<open>regex_match pattern subject\<close> is \<open>None\<close> where the
  constructor throws \<open>regex_error\<close> and otherwise the result of the full, case-insensitive
  match.
\<close>

section \<open>Trimming and case (src/util/string_utils.cpp)\<close>

definition trim_ascii_copy :: "string \<Rightarrow> string" where
  "trim_ascii_copy value =
     (let popped = rev (dropWhile is_ascii_ws (rev value))
      in dropWhile is_ascii_ws popped)"

definition lower_trim_copy :: "string \<Rightarrow> string" where
  "lower_trim_copy value = map to_lower (trim_ascii_copy value)"

section \<open>ROS topic names (src/util/topic_utils.cpp)\<close>

definition sanitize_char :: "char \<Rightarrow> char" where
  "sanitize_char c = (if is_alnum c \<or> c = CHR ''_'' then c else CHR ''_'')"

definition sanitize_topic_suffix :: "string \<Rightarrow> string" where
  "sanitize_topic_suffix value =
     (if find_first (\<lambda>c. \<not> is_ascii_ws c) value = None then ''ble_device''
      else
        let cleaned = map sanitize_char (trim_ws value)
        in case find_first (\<lambda>c. c \<noteq> CHR ''_'') cleaned of
             None \<Rightarrow> ''ble_device''
           | Some first \<Rightarrow>
               (case find_last (\<lambda>c. c \<noteq> CHR ''_'') cleaned of
                  None \<Rightarrow> ''ble_device''
                | Some final \<Rightarrow>
                    (let result = substr cleaned first (final - first + 1)
                     in if result = [] then ''ble_device'' else result)))"

fun collapse_slashes :: "bool \<Rightarrow> string \<Rightarrow> string" where
  "collapse_slashes last_was_slash [] = []"
| "collapse_slashes last_was_slash (c # cs) =
     (if c = CHR ''/''
      then (if last_was_slash then collapse_slashes last_was_slash cs
            else c # collapse_slashes True cs)
      else c # collapse_slashes False cs)"

fun strip_trailing_slash :: "string \<Rightarrow> string" where
  "strip_trailing_slash s =
     (if 1 < length s \<and> last s = CHR ''/'' then strip_trailing_slash (butlast s) else s)"

declare strip_trailing_slash.simps [simp del]

definition normalize_ros_topic :: "string \<Rightarrow> string" where
  "normalize_ros_topic value =
     (if find_first (\<lambda>c. \<not> is_ascii_ws c) value = None then ''/''
      else
        let candidate = trim_ws value
        in if candidate = [] then ''/''
           else
             let collapsed = collapse_slashes False candidate;
                 rooted = (if collapsed = [] \<or> hd collapsed \<noteq> CHR ''/''
                           then CHR ''/'' # collapsed else collapsed);
                 stripped = strip_trailing_slash rooted
             in if stripped = [] then ''/'' else stripped)"

definition node_prefix :: "string \<Rightarrow> std_error + string" where
  "node_prefix hostname =
     (if hostname = [] then Inl (Runtime_error ''hostname must be provided by the launch file'')
      else Inr (''/'' @ sanitize_topic_suffix hostname @ ''/bluetooth''))"

definition hostname_placeholder :: string where
  "hostname_placeholder = ''{hostname}''"

text \<open>
  The \<open>find\<close>/\<open>replace\<close> loop resumes the search behind the inserted name, so it is one
  pass over the remaining text.
\<close>

fun replace_placeholder :: "string \<Rightarrow> string \<Rightarrow> string" where
  "replace_placeholder name [] = []"
| "replace_placeholder name (c # cs) =
     (if take 10 (c # cs) = hostname_placeholder
      then name @ replace_placeholder name (drop 9 cs)
      else c # replace_placeholder name cs)"

definition resolve_topic_path :: "string \<Rightarrow> string \<Rightarrow> std_error + string" where
  "resolve_topic_path value hostname =
     (let name = sanitize_topic_suffix hostname;
          path = replace_placeholder name value
      in if path \<noteq> [] \<and> hd path = CHR ''~''
         then (if 1 < length path \<and> path ! 1 \<noteq> CHR ''/''
               then Inl (Runtime_error
                 ''ROS topic paths must use ~ or ~/ before the package-relative path'')
               else (case node_prefix hostname of
                       Inl e \<Rightarrow> Inl e
                     | Inr prefix \<Rightarrow> Inr (normalize_ros_topic (prefix @ tl path))))
         else Inr (normalize_ros_topic path))"

section \<open>Host names and device names\<close>

definition is_uav_hostname :: "(string \<Rightarrow> string \<Rightarrow> bool option) \<Rightarrow> string \<Rightarrow> string \<Rightarrow> bool" where
  "is_uav_hostname regex_match value pattern =
     (if find_first (\<lambda>c. \<not> is_ascii_ws c) value = None then False
      else (case regex_match pattern (map to_lower (trim_ws value)) of
              None \<Rightarrow> False
            | Some b \<Rightarrow> b))"

definition device_display_name :: "string \<Rightarrow> string \<Rightarrow> string" where
  "device_display_name name alias =
     (if alias \<noteq> [] then alias else if name \<noteq> [] then name else ''?'')"

definition resolves_hostname ::
    "(string \<Rightarrow> string \<Rightarrow> bool option) \<Rightarrow> string \<Rightarrow> string list \<Rightarrow> string \<Rightarrow> bool" where
  "resolves_hostname regex_match pattern known_peers candidate =
     (if candidate = [] \<or> CHR '':'' \<in> set candidate then False
      else
        let normalized = lower_trim_copy candidate
        in is_uav_hostname regex_match candidate pattern \<or>
           list_ex (\<lambda>peer. lower_trim_copy peer = normalized) known_peers)"

definition device_hostname_guess ::
    "(string \<Rightarrow> string \<Rightarrow> bool option) \<Rightarrow> string \<Rightarrow> string \<Rightarrow> string \<Rightarrow> string list \<Rightarrow> string" where
  "device_hostname_guess regex_match name alias pattern known_peers =
     (if resolves_hostname regex_match pattern known_peers name then name
      else if resolves_hostname regex_match pattern known_peers alias then alias
      else [])"

definition bridge_characteristic_name_for_service :: "string \<Rightarrow> string" where
  "bridge_characteristic_name_for_service bridge_name =
     (if take 7 bridge_name = ''bridge:'' then drop 7 bridge_name
      else bridge_name @ ''/value'')"

section \<open>Facts about trimming\<close>

lemma trim_ascii_copy_strip: "trim_ascii_copy s = strip is_ascii_ws s"
  by (simp add: trim_ascii_copy_def strip_commute)

lemma trim_ascii_copy_trim_ws: "trim_ascii_copy s = trim_ws s"
  by (simp add: trim_ascii_copy_strip trim_ws_strip)

lemma lower_trim_copy_idem [simp]: "lower_trim_copy (lower_trim_copy s) = lower_trim_copy s"
  by (simp add: lower_trim_copy_def trim_ascii_copy_strip strip_map comp_def)

section \<open>Facts about topic components\<close>

definition topic_char :: "char \<Rightarrow> bool" where
  "topic_char c \<longleftrightarrow> is_alnum c \<or> c = CHR ''_''"

lemma topic_char_sanitize [simp]: "topic_char (sanitize_char c)"
  by (simp add: topic_char_def sanitize_char_def)

lemma sanitize_char_id: "topic_char c \<Longrightarrow> sanitize_char c = c"
  by (auto simp: topic_char_def sanitize_char_def)

lemma topic_char_not_ws: "topic_char c \<Longrightarrow> \<not> is_ascii_ws c"
  by (auto simp: topic_char_def dest: ascii_ws_not_alnum) (simp add: is_ascii_ws_def char_code_def)

lemma find_strip:
  "(case find_first (\<lambda>c. \<not> P c) s of None \<Rightarrow> d
    | Some b \<Rightarrow> (case find_last (\<lambda>c. \<not> P c) s of None \<Rightarrow> d
        | Some e \<Rightarrow> (let r = substr s b (e - b + 1) in if r = [] then d else r)))
   = (if strip P s = [] then d else strip P s)"
proof (cases "find_first (\<lambda>c. \<not> P c) s")
  case None
  then have "dropWhile P s = []" by (simp add: find_first_None list_all_iff)
  then have "strip P s = []" unfolding strip_def by (simp only: rev.simps dropWhile.simps)
  with None show ?thesis by simp
next
  case (Some b)
  then have "find_last (\<lambda>c. \<not> P c) s \<noteq> None"
    by (metis find_first_None find_last_None option.distinct(1))
  then obtain e where e: "find_last (\<lambda>c. \<not> P c) s = Some e" by blast
  have "substr s b (e - b + 1) = strip P s"
    using find_substr_strip [OF Some e] by (simp add: substr_def)
  with Some e show ?thesis by simp
qed

lemma sanitize_topic_suffix_strip:
  "sanitize_topic_suffix s =
     (let r = strip (\<lambda>c. c = CHR ''_'') (map sanitize_char (strip is_ascii_ws s))
      in if r = [] then ''ble_device'' else r)"
proof (cases "find_first (\<lambda>c. \<not> is_ascii_ws c) s")
  case None
  then have "dropWhile is_ascii_ws s = []" by (simp add: find_first_None list_all_iff)
  then have "strip is_ascii_ws s = []" unfolding strip_def by (simp only: rev.simps dropWhile.simps)
  with None show ?thesis by (simp add: sanitize_topic_suffix_def)
next
  case (Some b)
  then show ?thesis
    by (simp add: sanitize_topic_suffix_def trim_ws_strip Let_def
        find_strip [where P = "\<lambda>c. c = CHR ''_''"])
qed

lemma sanitize_chars: "list_all topic_char (sanitize_topic_suffix s)"
proof -
  have d: "list_all topic_char ''ble_device''"
    by (simp add: topic_char_def char_class_defs char_code_def)
  have "list_all topic_char (strip (\<lambda>c. c = CHR ''_'') (map sanitize_char t))" for t
    using set_strip [of "\<lambda>c. c = CHR ''_''" "map sanitize_char t"] by (auto simp: list_all_iff)
  with d show ?thesis by (simp add: sanitize_topic_suffix_strip Let_def)
qed

lemma sanitize_nonempty [simp]: "sanitize_topic_suffix s \<noteq> []"
  by (simp add: sanitize_topic_suffix_strip Let_def)

lemma sanitize_ends:
  "hd (sanitize_topic_suffix s) \<noteq> CHR ''_'' \<and> last (sanitize_topic_suffix s) \<noteq> CHR ''_''"
  using hd_strip [of "\<lambda>c. c = CHR ''_''"] last_strip [of "\<lambda>c. c = CHR ''_''"]
  by (simp add: sanitize_topic_suffix_strip Let_def)

lemma sanitize_fixpoint:
  assumes "list_all topic_char s" and "s \<noteq> []" and "hd s \<noteq> CHR ''_''" and "last s \<noteq> CHR ''_''"
  shows "sanitize_topic_suffix s = s"
proof -
  have "strip is_ascii_ws s = s"
    using assms by (intro strip_id) (auto simp: list_all_iff topic_char_not_ws)
  moreover have "map sanitize_char s = s"
    using assms(1) by (intro map_idI) (auto simp: list_all_iff sanitize_char_id)
  moreover have "strip (\<lambda>c. c = CHR ''_'') s = s"
    using assms by (intro strip_id) auto
  ultimately show ?thesis using assms(2) by (simp add: sanitize_topic_suffix_strip Let_def)
qed

section \<open>Facts about topic paths\<close>

fun no_double_slash :: "string \<Rightarrow> bool" where
  "no_double_slash (c # d # cs) = (\<not> (c = CHR ''/'' \<and> d = CHR ''/'') \<and> no_double_slash (d # cs))"
| "no_double_slash s = True"

definition canonical_topic :: "string \<Rightarrow> bool" where
  "canonical_topic t \<longleftrightarrow> t \<noteq> [] \<and> hd t = CHR ''/'' \<and> no_double_slash t \<and>
     (1 < length t \<longrightarrow> last t \<noteq> CHR ''/'')"

lemma no_double_slash_Cons:
  "no_double_slash (c # s) \<longleftrightarrow> no_double_slash s \<and> (c = CHR ''/'' \<longrightarrow> s = [] \<or> hd s \<noteq> CHR ''/'')"
  by (cases s) auto

lemma no_double_slash_butlast: "no_double_slash s \<Longrightarrow> no_double_slash (butlast s)"
  by (induction s rule: no_double_slash.induct) (auto simp: no_double_slash_Cons)

lemma collapse_slashes_no_double:
  "no_double_slash (collapse_slashes b s) \<and>
   (b \<longrightarrow> collapse_slashes b s = [] \<or> hd (collapse_slashes b s) \<noteq> CHR ''/'')"
  by (induction b s rule: collapse_slashes.induct) (auto simp: no_double_slash_Cons)

lemma collapse_slashes_id:
  "no_double_slash s \<Longrightarrow> \<not> b \<or> s = [] \<or> hd s \<noteq> CHR ''/'' \<Longrightarrow> collapse_slashes b s = s"
  by (induction s arbitrary: b) (auto simp: no_double_slash_Cons)

lemma strip_trailing_slash_props:
  assumes "s \<noteq> []" and "hd s = CHR ''/''" and "no_double_slash s"
  shows "canonical_topic (strip_trailing_slash s)"
  using assms
proof (induction s rule: strip_trailing_slash.induct)
  case (1 s)
  show ?case
  proof (cases "1 < length s \<and> last s = CHR ''/''")
    case True
    then have "butlast s \<noteq> []" by (cases s rule: rev_cases) auto
    moreover have "hd (butlast s) = CHR ''/''"
      using "1.prems" True by (cases s; cases "tl s") auto
    ultimately have "canonical_topic (strip_trailing_slash (butlast s))"
      using "1.IH" True "1.prems" no_double_slash_butlast by blast
    with True show ?thesis by (simp add: strip_trailing_slash.simps [of s])
  next
    case False
    with "1.prems" show ?thesis
      by (auto simp: strip_trailing_slash.simps [of s] canonical_topic_def)
  qed
qed

lemma normalize_ros_topic_canonical: "canonical_topic (normalize_ros_topic s)"
proof -
  have root: "canonical_topic ''/''" by (simp add: canonical_topic_def)
  have "canonical_topic (strip_trailing_slash
          (if t = [] \<or> hd t \<noteq> CHR ''/'' then CHR ''/'' # t else t))"
    if "no_double_slash t" for t
    using that by (intro strip_trailing_slash_props) (auto simp: no_double_slash_Cons)
  then have "canonical_topic (strip_trailing_slash
          (if collapse_slashes False u = [] \<or> hd (collapse_slashes False u) \<noteq> CHR ''/''
           then CHR ''/'' # collapse_slashes False u else collapse_slashes False u))" for u
    using collapse_slashes_no_double by blast
  with root show ?thesis by (simp add: normalize_ros_topic_def Let_def)
qed

lemma canonical_strip_trailing: "canonical_topic s \<Longrightarrow> strip_trailing_slash s = s"
  by (subst strip_trailing_slash.simps) (auto simp: canonical_topic_def)

lemma normalize_ros_topic_fixpoint:
  assumes "canonical_topic s" and "\<not> is_ascii_ws (last s)"
  shows "normalize_ros_topic s = s"
proof -
  have ne: "s \<noteq> []" and hd: "hd s = CHR ''/''" and nd: "no_double_slash s"
    using assms(1) by (simp_all add: canonical_topic_def)
  have "\<not> is_ascii_ws (hd s)" using hd by (simp add: is_ascii_ws_def char_code_def)
  then have "strip is_ascii_ws s = s" using assms(2) by (intro strip_id) simp
  moreover have "find_first (\<lambda>c. \<not> is_ascii_ws c) s \<noteq> None"
    using ne \<open>\<not> is_ascii_ws (hd s)\<close> by (auto simp: find_first_None list_all_iff)
  moreover have "collapse_slashes False s = s"
    using nd by (intro collapse_slashes_id) simp_all
  ultimately show ?thesis
    using ne hd canonical_strip_trailing [OF assms(1)]
    by (auto simp: normalize_ros_topic_def trim_ws_strip Let_def)
qed

lemma resolve_topic_path_canonical:
  "resolve_topic_path value hostname = Inr t \<Longrightarrow> canonical_topic t"
  by (auto simp: resolve_topic_path_def Let_def normalize_ros_topic_canonical
      split: if_splits sum.splits)

lemma replace_placeholder_none:
  assumes "CHR ''{'' \<notin> set s"
  shows "replace_placeholder name s = s"
  using assms
  by (induction name s rule: replace_placeholder.induct) (auto simp: hostname_placeholder_def)

lemma replace_placeholder_append:
  assumes "CHR ''{'' \<notin> set pre"
  shows "replace_placeholder name (pre @ hostname_placeholder @ rest) =
    pre @ name @ replace_placeholder name rest"
  using assms
proof (induction pre)
  case Nil
  then show ?case by (simp add: hostname_placeholder_def)
next
  case (Cons c pre)
  then show ?case by (auto simp: hostname_placeholder_def)
qed

section \<open>Facts about device names\<close>

lemma device_hostname_guess_cases:
  "device_hostname_guess re name alias pattern known = g \<Longrightarrow>
   g = [] \<or> (g \<in> {name, alias} \<and> resolves_hostname re pattern known g)"
  by (auto simp: device_hostname_guess_def)

lemma resolves_hostname_no_colon:
  "resolves_hostname re pattern known c \<Longrightarrow> c \<noteq> [] \<and> CHR '':'' \<notin> set c"
  by (auto simp: resolves_hostname_def split: if_splits)

end
