(* ===== verification/Config_Models.thy ===== *)
theory Config_Models
  imports Bt_Prelude
begin

text \<open>
  The configuration records of \<open>include/mrs_uav_bluetooth/config/config_models.hpp\<close>, with
  the source's fields in the source's order, and the default configuration its member
  initialisers give.
\<close>

record bridge_assignment_spec =
  as_target :: string
  as_expression :: string

record bridge_member_spec =
  ms_target :: string
  ms_value_type :: string
  ms_expression :: string

record shared_topic_config =
  st_name :: string
  st_mode :: string
  st_bridge_key :: string
  st_bridge_name :: string
  st_bridge_topic_path :: string
  st_export_topic :: string
  st_import_topic_suffix :: string
  st_message_type :: string
  st_rate_hz :: rat
  st_payload_format :: string
  st_member_specs :: "bridge_member_spec list"
  st_decode_assignments :: "bridge_assignment_spec list"
  st_transport :: string
  st_channel_id :: u16
  st_advertisement_bare :: bool
  st_mesh_destination :: u16
  st_mesh_swarm_reliable :: bool
  st_mesh_app_key_index :: u16
  st_mesh_element_index :: u8
  st_mesh_force_segmented :: bool
  st_mesh_vendor_opcode :: u8
  st_mesh_company_id :: u16

record node_config =
  peers_prefix :: string
  scan_publish_period :: seconds
  time_update_period :: seconds
  wifi_refresh_period :: seconds
  auto_connect_period :: seconds
  discoverable_timeout :: u32
  auto_pair :: bool
  auto_trust :: bool
  enable_time_service :: bool
  enable_wifi_service :: bool
  enable_serial_port_profile :: bool
  serial_port_channel :: u16
  serial_sshd_path :: string
  enable_mesh :: bool
  mesh_auto_attach :: bool
  mesh_auto_join :: bool
  mesh_auto_create_network :: bool
  mesh_provisioner :: bool
  mesh_auto_configure_relay :: bool
  mesh_default_ttl :: u8
  mesh_relay_retransmit_count :: u8
  mesh_relay_retransmit_interval_steps :: u8
  mesh_network_retransmit_count :: u8
  mesh_network_retransmit_interval_steps :: u8
  mesh_swarm_auto_provisioning :: bool
  mesh_swarm_id :: u16
  mesh_swarm_participating :: bool
  mesh_swarm_state_path :: string
  mesh_provisioner_preference :: string
  mesh_swarm_startup_grace :: seconds
  mesh_swarm_heartbeat_period :: seconds
  mesh_swarm_provisioner_timeout :: seconds
  mesh_swarm_group_address :: u16
  mesh_swarm_network_index :: u16
  mesh_swarm_app_key_index :: u16
  mesh_unicast_cursor_path :: string
  mesh_device_uuid :: string
  mesh_token :: u64
  mesh_token_path :: string
  mesh_company_id :: u16
  mesh_product_id :: u16
  mesh_version_id :: u16
  mesh_crpl :: u16
  mesh_vendor_model_id :: u16
  mesh_next_unicast :: u16
  mesh_agent_capabilities :: "string list"
  mesh_agent_oob_info :: "string list"
  mesh_agent_static_oob :: "u8 list"
  mesh_agent_private_key :: "u8 list"
  mesh_agent_public_key :: "u8 list"
  mesh_agent_numeric_oob :: u32
  mesh_agent_uri :: string
  gatt_profile_uuids :: "string list"
  auto_connect_enable :: bool
  peer_whitelist :: "string list"
  auto_connect_pattern :: string
  peer_connection_timeout :: seconds
  wifi_netplan_config_path :: string
  allowed_wifi_networks :: "string list"
  status_report_period :: seconds
  log_topic_enable :: bool
  expire_connections_with_overlay :: bool
  overlay_keepalive_topic_suffix :: string
  verbose_log_file :: string
  advertise_mode :: string
  advertise_size :: string
  advertise_update_strategy :: string
  advertise_local_name :: string
  advertise_discoverable :: "bool option"
  advertise_includes :: "string list"
  advertise_service_uuids :: "string list"
  advertise_solicit_uuids :: "string list"
  advertise_manufacturer_data :: "u16 \<rightharpoonup> u8 list"
  advertise_service_data :: "string \<rightharpoonup> u8 list"
  advertise_data :: "u8 \<rightharpoonup> u8 list"
  advertise_scan_response_service_uuids :: "string list"
  advertise_scan_response_manufacturer_data :: "u16 \<rightharpoonup> u8 list"
  advertise_scan_response_solicit_uuids :: "string list"
  advertise_scan_response_service_data :: "string \<rightharpoonup> u8 list"
  advertise_scan_response_data :: "u8 \<rightharpoonup> u8 list"
  advertise_appearance :: "u16 option"
  advertise_duration :: "u16 option"
  advertise_timeout :: "u16 option"
  advertise_min_interval :: "u32 option"
  advertise_max_interval :: "u32 option"
  advertise_tx_power :: "u16 option"
  advertise_extra_data_topic :: string
  pairing_agent :: string
  enable_server :: bool
  enable_scan :: bool
  scan_mode :: string
  shared_topics :: "shared_topic_config list"

definition default_shared_topic_config :: shared_topic_config where
  "default_shared_topic_config = \<lparr>
     st_name = [],
     st_mode = [],
     st_bridge_key = [],
     st_bridge_name = [],
     st_bridge_topic_path = [],
     st_export_topic = [],
     st_import_topic_suffix = [],
     st_message_type = [],
     st_rate_hz = 0,
     st_payload_format = [],
     st_member_specs = [],
     st_decode_assignments = [],
     st_transport = ''gatt'',
     st_channel_id = 0,
     st_advertisement_bare = False,
     st_mesh_destination = 49152,
     st_mesh_swarm_reliable = False,
     st_mesh_app_key_index = 0,
     st_mesh_element_index = 0,
     st_mesh_force_segmented = True,
     st_mesh_vendor_opcode = 193,
     st_mesh_company_id = 1521\<rparr>"

definition default_node_config :: node_config where
  "default_node_config = \<lparr>
     peers_prefix = ''~/peers'',
     scan_publish_period = 2,
     time_update_period = 1,
     wifi_refresh_period = 2,
     auto_connect_period = 3,
     discoverable_timeout = 0,
     auto_pair = True,
     auto_trust = True,
     enable_time_service = True,
     enable_wifi_service = True,
     enable_serial_port_profile = True,
     serial_port_channel = 22,
     serial_sshd_path = ''/usr/sbin/sshd'',
     enable_mesh = False,
     mesh_auto_attach = True,
     mesh_auto_join = False,
     mesh_auto_create_network = False,
     mesh_provisioner = False,
     mesh_auto_configure_relay = False,
     mesh_default_ttl = 127,
     mesh_relay_retransmit_count = 1,
     mesh_relay_retransmit_interval_steps = 2,
     mesh_network_retransmit_count = 1,
     mesh_network_retransmit_interval_steps = 19,
     mesh_swarm_auto_provisioning = False,
     mesh_swarm_id = 1,
     mesh_swarm_participating = True,
     mesh_swarm_state_path = ''/var/lib/mrs_uav_bluetooth/swarm-{hostname}.txt'',
     mesh_provisioner_preference = ''ordered'',
     mesh_swarm_startup_grace = 5,
     mesh_swarm_heartbeat_period = 1,
     mesh_swarm_provisioner_timeout = 20,
     mesh_swarm_group_address = 49152,
     mesh_swarm_network_index = 0,
     mesh_swarm_app_key_index = 0,
     mesh_unicast_cursor_path = ''/var/lib/mrs_uav_bluetooth/mesh-unicast-{hostname}.cursor'',
     mesh_device_uuid = [],
     mesh_token = 0,
     mesh_token_path = ''/var/lib/mrs_uav_bluetooth/mesh-{hostname}.token'',
     mesh_company_id = 1521,
     mesh_product_id = 1,
     mesh_version_id = 1,
     mesh_crpl = 100,
     mesh_vendor_model_id = 1,
     mesh_next_unicast = 256,
     mesh_agent_capabilities = [],
     mesh_agent_oob_info = [],
     mesh_agent_static_oob = [],
     mesh_agent_private_key = [],
     mesh_agent_public_key = [],
     mesh_agent_numeric_oob = 0,
     mesh_agent_uri = [],
     gatt_profile_uuids = [],
     auto_connect_enable = False,
     peer_whitelist = [],
     auto_connect_pattern = ''^uav[0-9]{1,5}$'',
     peer_connection_timeout = 30,
     wifi_netplan_config_path = ''/etc/netplan/01-netcfg.yaml'',
     allowed_wifi_networks = [],
     status_report_period = 1,
     log_topic_enable = False,
     expire_connections_with_overlay = True,
     overlay_keepalive_topic_suffix = ''overlay_keepalive'',
     verbose_log_file = [],
     advertise_mode = ''peripheral'',
     advertise_size = ''legacy'',
     advertise_update_strategy = ''reregister'',
     advertise_local_name = ''{hostname}'',
     advertise_discoverable = None,
     advertise_includes = [],
     advertise_service_uuids = [],
     advertise_solicit_uuids = [],
     advertise_manufacturer_data = Map.empty,
     advertise_service_data = Map.empty,
     advertise_data = Map.empty,
     advertise_scan_response_service_uuids = [],
     advertise_scan_response_manufacturer_data = Map.empty,
     advertise_scan_response_solicit_uuids = [],
     advertise_scan_response_service_data = Map.empty,
     advertise_scan_response_data = Map.empty,
     advertise_appearance = None,
     advertise_duration = None,
     advertise_timeout = None,
     advertise_min_interval = None,
     advertise_max_interval = None,
     advertise_tx_power = None,
     advertise_extra_data_topic = ''~/le/advertisement'',
     pairing_agent = ''NoInputNoOutput'',
     enable_server = True,
     enable_scan = True,
     scan_mode = ''le'',
     shared_topics = []\<rparr>"

end
