(* ===== verification/Bluez_Types.thy ===== *)
theory Bluez_Types
  imports Bt_Prelude
begin

text \<open>
  The BlueZ object snapshots of \<open>include/mrs_uav_bluetooth/bluez/bluez_types.hpp\<close> with the source's fields and member initialisers.
\<close>

record device_info =
  dv_object_path :: string
  dv_adapter :: string
  dv_mac :: string
  dv_address_type :: string
  dv_name :: string
  dv_alias :: string
  dv_icon :: string
  dv_appearance :: u32
  dv_rssi :: u16
  dv_tx_power :: u16
  dv_connected :: bool
  dv_paired :: bool
  dv_bonded :: bool
  dv_trusted :: bool
  dv_blocked :: bool
  dv_services_resolved :: bool
  dv_uuids :: "string list"
  dv_manufacturer_data :: "u16 \<rightharpoonup> u8 list"
  dv_service_data :: "string \<rightharpoonup> u8 list"
  dv_advertising_flags :: "u8 list"
  dv_advertising_data :: "u8 \<rightharpoonup> u8 list"
  dv_last_seen :: ticks
  dv_last_advertisement_seen :: ticks

definition default_device_info :: device_info where
  "default_device_info = \<lparr>
     dv_object_path = [], dv_adapter = [], dv_mac = [], dv_address_type = [], dv_name = [],
     dv_alias = [], dv_icon = [], dv_appearance = 0, dv_rssi = 0, dv_tx_power = 0,
     dv_connected = False, dv_paired = False, dv_bonded = False, dv_trusted = False,
     dv_blocked = False, dv_services_resolved = False, dv_uuids = [],
     dv_manufacturer_data = Map.empty, dv_service_data = Map.empty,
     dv_advertising_flags = [], dv_advertising_data = Map.empty,
     dv_last_seen = 0, dv_last_advertisement_seen = 0\<rparr>"

record gatt_service_info =
  gs_object_path :: string
  gs_uuid :: string
  gs_primary :: bool
  gs_device_path :: string
  gs_includes :: "string list"

record gatt_characteristic_info =
  gc_object_path :: string
  gc_service_path :: string
  gc_uuid :: string
  gc_flags :: "string list"
  gc_notifying :: bool
  gc_mtu :: u16
  gc_value :: "u8 list"

record gatt_descriptor_info =
  gd_object_path :: string
  gd_characteristic_path :: string
  gd_uuid :: string
  gd_flags :: "string list"
  gd_value :: "u8 list"

record adapter_info =
  ad_object_path :: string
  ad_address :: string
  ad_address_type :: string
  ad_name :: string
  ad_alias :: string
  ad_powered :: bool
  ad_connectable :: bool
  ad_discoverable :: bool
  ad_discoverable_timeout :: u32
  ad_pairable :: bool
  ad_discovering :: bool
  ad_uuids :: "string list"
  ad_supported_advertising_secondary_channels :: "string list"
  ad_max_advertisement_length :: u8
  ad_max_scan_response_length :: u8

definition default_adapter_info :: adapter_info where
  "default_adapter_info = \<lparr>
     ad_object_path = [], ad_address = [], ad_address_type = [], ad_name = [], ad_alias = [],
     ad_powered = False, ad_connectable = False, ad_discoverable = False,
     ad_discoverable_timeout = 0, ad_pairable = False, ad_discovering = False, ad_uuids = [],
     ad_supported_advertising_secondary_channels = [],
     ad_max_advertisement_length = 31, ad_max_scan_response_length = 31\<rparr>"

end
