(* ===== verification/Peer_Session.thy ===== *)
theory Peer_Session
  imports Util_Strings Config_Models Bluez_Types
begin

text \<open>
  The state of the peer lifecycle layer (\<open>include/mrs_uav_bluetooth/peer\<close>): one
  \<open>PeerConnectionSession\<close> per Bluetooth address, the time bridge of a peer, and the two
  maps of \<open>PeerManager\<close>. Counters of type \<open>int\<close> are unbounded here; no operation of the
  manager makes one large.
\<close>

record peer_session =
  ps_mac :: string
  ps_desired :: bool
  ps_explicit_target :: bool
  ps_peer_candidate :: bool
  ps_peer_initiated :: bool
  ps_peer_name :: string
  ps_phase :: string
  ps_detail :: string
  ps_first_seen :: seconds
  ps_last_seen :: seconds
  ps_desired_since :: seconds
  ps_last_connect_attempt :: seconds
  ps_connect_started :: seconds
  ps_connected_since :: seconds
  ps_last_security_attempt :: seconds
  ps_pairing_wait_started :: seconds
  ps_last_policy_action :: seconds
  ps_last_repair :: seconds
  ps_repair_requested_at :: seconds
  ps_last_service_retry :: seconds
  ps_last_pairing_request :: seconds
  ps_missing_since :: seconds
  ps_bridge_wait_started :: seconds
  ps_last_notify_failure :: seconds
  ps_init_notify_failure :: seconds
  ps_bridge_wait_reason :: string
  ps_pairing_failures :: int
  ps_notify_failure_count :: int
  ps_init_notify_failure_count :: int
  ps_pairing_in_progress :: bool
  ps_repair_requested :: bool
  ps_pairing_reset_pending :: bool
  ps_repair_in_progress :: bool
  ps_repair_remove_issued :: bool
  ps_repair_awaiting_cache_removal :: bool
  ps_forget_pending :: bool
  ps_time_bridge_healthy :: bool
  ps_local_time_notify_active :: bool
  ps_repair_reason :: string
  ps_services_wait_started :: seconds
  ps_services_wait_grace_s :: seconds
  ps_services_resolved_since :: seconds
  ps_service_regression_started :: seconds
  ps_last_notify_failure_path :: string
  ps_remote_gatt_missing_since :: seconds
  ps_remote_gatt_missing_checks :: int
  ps_import_bridge_missing_since :: "string \<rightharpoonup> seconds"

definition default_session :: peer_session where
  "default_session = \<lparr>
     ps_mac = [], ps_desired = False, ps_explicit_target = False, ps_peer_candidate = False,
     ps_peer_initiated = False, ps_peer_name = [], ps_phase = ''idle'', ps_detail = [],
     ps_first_seen = 0, ps_last_seen = 0, ps_desired_since = 0, ps_last_connect_attempt = 0,
     ps_connect_started = 0, ps_connected_since = 0, ps_last_security_attempt = 0,
     ps_pairing_wait_started = 0, ps_last_policy_action = 0, ps_last_repair = 0,
     ps_repair_requested_at = 0, ps_last_service_retry = 0, ps_last_pairing_request = 0,
     ps_missing_since = 0, ps_bridge_wait_started = 0, ps_last_notify_failure = 0,
     ps_init_notify_failure = 0, ps_bridge_wait_reason = [], ps_pairing_failures = 0,
     ps_notify_failure_count = 0, ps_init_notify_failure_count = 0,
     ps_pairing_in_progress = False, ps_repair_requested = False,
     ps_pairing_reset_pending = False, ps_repair_in_progress = False,
     ps_repair_remove_issued = False, ps_repair_awaiting_cache_removal = False,
     ps_forget_pending = False, ps_time_bridge_healthy = False,
     ps_local_time_notify_active = False, ps_repair_reason = [],
     ps_services_wait_started = 0, ps_services_wait_grace_s = 0,
     ps_services_resolved_since = 0, ps_service_regression_started = 0,
     ps_last_notify_failure_path = [], ps_remote_gatt_missing_since = 0,
     ps_remote_gatt_missing_checks = 0, ps_import_bridge_missing_since = Map.empty\<rparr>"

definition pairing_fallback_due :: "peer_session \<Rightarrow> seconds \<Rightarrow> bool" where
  "pairing_fallback_due session now \<longleftrightarrow>
     0 < ps_pairing_wait_started session \<and> 10 \<le> now - ps_pairing_wait_started session"

definition begin_bridge_wait :: "peer_session \<Rightarrow> seconds \<Rightarrow> peer_session" where
  "begin_bridge_wait session now =
     (if ps_bridge_wait_started session \<le> 0 then session\<lparr>ps_bridge_wait_started := now\<rparr>
      else session)"

record peer_time_bridge =
  tb_mac :: string
  tb_peer_name :: string
  tb_status_topic_name :: string
  tb_characteristic_path :: string
  tb_writeback_descriptor_path :: string
  tb_publisher :: "string option"
  tb_last_activity :: seconds
  tb_last_publish :: seconds
  tb_first_publish :: seconds
  tb_recent_publish_times :: "seconds list"
  tb_current_hz :: rat
  tb_last_time_value_ns :: u64
  tb_last_rtt_s :: rat
  tb_time_notification_received :: bool
  tb_time_writeback_received :: bool
  tb_status :: string
  tb_detail :: string
  tb_services_wait_started :: seconds
  tb_services_wait_grace_s :: seconds
  tb_pairing_requested :: seconds
  tb_pairing_failures :: int

record peer_manager =
  pm_sessions :: "string \<rightharpoonup> peer_session"
  pm_time_bridges :: "string \<rightharpoonup> peer_time_bridge"

end
