(* ===== verification/Peer_Policy.thy ===== *)
theory Peer_Policy
  imports Peer_Session
begin

text \<open>
  The file-local helpers of \<open>src/peer/peer_manager.cpp\<close>, the phase and repair primitives
  of \<open>PeerManager\<close> and its retry decisions: which peers policy admits, when a session may
  connect, pair, trust, and when stored credentials are repaired.
\<close>

definition kConnectAttemptGraceMin :: seconds where "kConnectAttemptGraceMin = 15"
definition kConnectAttemptGraceMultiplier :: rat where "kConnectAttemptGraceMultiplier = 5"
definition kServicesWaitGraceMin :: seconds where "kServicesWaitGraceMin = 15"
definition kPairCooldownMin :: seconds where "kPairCooldownMin = 10"
definition kPairAfterConnectGraceMin :: seconds where "kPairAfterConnectGraceMin = 5"
definition kTrustCooldownMin :: seconds where "kTrustCooldownMin = 1 / 2"

lemmas peer_constants = kConnectAttemptGraceMin_def kConnectAttemptGraceMultiplier_def
  kServicesWaitGraceMin_def kPairCooldownMin_def kPairAfterConnectGraceMin_def
  kTrustCooldownMin_def

section \<open>Phase and address helpers\<close>

definition is_phase :: "peer_session \<Rightarrow> string list \<Rightarrow> bool" where
  "is_phase session values = list_ex (\<lambda>value. ps_phase session = value) values"

definition lower_copy :: "string \<Rightarrow> string" where
  "lower_copy value = map to_lower value"

fun mac_chars_ok :: "nat \<Rightarrow> string \<Rightarrow> bool" where
  "mac_chars_ok index [] = True"
| "mac_chars_ok index (ch # rest) =
     (if index mod 3 = 2
      then (if ch \<noteq> CHR '':'' then False else mac_chars_ok (index + 1) rest)
      else (if \<not> is_xdigit ch then False else mac_chars_ok (index + 1) rest))"

definition looks_like_mac_address :: "string \<Rightarrow> bool" where
  "looks_like_mac_address value = (if length value \<noteq> 17 then False else mac_chars_ok 0 value)"

definition normalize_mac :: "string \<Rightarrow> string" where
  "normalize_mac value = map to_upper (trim_ws value)"

definition normalize_whitelist_token :: "string \<Rightarrow> string" where
  "normalize_whitelist_token value =
     (let value = trim_ws value
      in if looks_like_mac_address value then normalize_mac value else lower_copy value)"

fun whitelist_scan :: "string \<Rightarrow> string \<Rightarrow> string list \<Rightarrow> bool" where
  "whitelist_scan normalized_mac normalized_peer_name [] = False"
| "whitelist_scan normalized_mac normalized_peer_name (entry # rest) =
     (let normalized_entry = normalize_whitelist_token entry
      in if normalized_entry = [] then whitelist_scan normalized_mac normalized_peer_name rest
         else if normalized_entry = normalized_mac then True
         else if normalized_peer_name \<noteq> [] \<and> normalized_entry = normalized_peer_name then True
         else whitelist_scan normalized_mac normalized_peer_name rest)"

definition whitelist_contains :: "string list \<Rightarrow> string \<Rightarrow> string \<Rightarrow> bool" where
  "whitelist_contains whitelist mac peer_name =
     (let normalized_mac = normalize_mac mac;
          normalized_peer_name = lower_copy (trim_ws peer_name)
      in whitelist_scan normalized_mac normalized_peer_name whitelist)"

section \<open>Security helpers\<close>

definition device_has_local_security :: "device_info \<Rightarrow> bool" where
  "device_has_local_security device \<longleftrightarrow> dv_paired device \<or> dv_bonded device \<or> dv_trusted device"

definition pairing_required :: "node_config \<Rightarrow> bool" where
  "pairing_required config = auto_pair config"

definition trust_required :: "node_config \<Rightarrow> bool" where
  "trust_required config = auto_trust config"

definition device_has_required_pairing :: "device_info \<Rightarrow> node_config \<Rightarrow> bool" where
  "device_has_required_pairing device config \<longleftrightarrow>
     \<not> pairing_required config \<or> dv_paired device \<or> dv_bonded device"

definition device_has_required_trust :: "device_info \<Rightarrow> node_config \<Rightarrow> bool" where
  "device_has_required_trust device config \<longleftrightarrow> \<not> trust_required config \<or> dv_trusted device"

definition device_needs_forget :: "device_info \<Rightarrow> bool" where
  "device_needs_forget device \<longleftrightarrow>
     dv_connected device \<or> dv_services_resolved device \<or> device_has_local_security device"

definition repair_blocks_regular_actions :: "peer_session \<Rightarrow> bool" where
  "repair_blocks_regular_actions session \<longleftrightarrow>
     ps_repair_requested session \<and>
     (\<not> ps_repair_remove_issued session \<or> ps_repair_awaiting_cache_removal session)"

section \<open>Session primitives\<close>

definition matches_auto_connect_policy ::
    "(string \<Rightarrow> string \<Rightarrow> bool option) \<Rightarrow> device_info \<Rightarrow> node_config \<Rightarrow> string \<Rightarrow> bool" where
  "matches_auto_connect_policy regex_match device config peer_name =
     (let normalized_peer_name = lower_copy (trim_ws peer_name)
      in normalized_peer_name \<noteq> [] \<and>
         is_uav_hostname regex_match normalized_peer_name (auto_connect_pattern config))"

definition set_session_phase :: "peer_session \<Rightarrow> string \<Rightarrow> string \<Rightarrow> peer_session" where
  "set_session_phase session phase detail = session\<lparr>ps_phase := phase, ps_detail := detail\<rparr>"

definition note_local_connect_attempt :: "peer_session \<Rightarrow> seconds \<Rightarrow> peer_session" where
  "note_local_connect_attempt session now_mono =
     session\<lparr>ps_peer_initiated := False, ps_last_connect_attempt := now_mono,
             ps_connect_started := now_mono\<rparr>"

definition request_device_reset ::
    "peer_session \<Rightarrow> seconds \<Rightarrow> string \<Rightarrow> bool \<Rightarrow> peer_session" where
  "request_device_reset session now reason reset_pairing_state =
     (if ps_repair_requested session
      then
        let session = (if ps_repair_reason session = [] \<and> reason \<noteq> []
                       then session\<lparr>ps_repair_reason := reason\<rparr> else session);
            session = (if reset_pairing_state
                       then session\<lparr>ps_pairing_reset_pending := True\<rparr> else session)
        in (if ps_detail session = []
            then session\<lparr>ps_detail := (if ps_repair_reason session = []
                   then ''resetting peer device state'' else ps_repair_reason session)\<rparr>
            else session)
      else
        set_session_phase
          (session\<lparr>ps_repair_requested := True,
             ps_pairing_reset_pending := reset_pairing_state,
             ps_repair_in_progress := False,
             ps_repair_remove_issued := False,
             ps_repair_awaiting_cache_removal := False,
             ps_repair_requested_at := now,
             ps_repair_reason := reason,
             ps_services_wait_started := 0,
             ps_bridge_wait_started := 0,
             ps_bridge_wait_reason := [],
             ps_last_notify_failure := 0,
             ps_notify_failure_count := 0,
             ps_last_notify_failure_path := [],
             ps_init_notify_failure := 0,
             ps_init_notify_failure_count := 0,
             ps_service_regression_started := 0,
             ps_local_time_notify_active := False,
             ps_remote_gatt_missing_since := 0,
             ps_remote_gatt_missing_checks := 0\<rparr>)
          ''recovering''
          (if reason = [] then ''resetting peer device state'' else reason))"

definition clear_device_reset :: "peer_session \<Rightarrow> bool \<Rightarrow> peer_session" where
  "clear_device_reset session clear_pairing_reset_pending =
     (let session = session\<lparr>ps_repair_requested := False,
             ps_repair_in_progress := False,
             ps_repair_remove_issued := False,
             ps_repair_awaiting_cache_removal := False,
             ps_repair_requested_at := 0\<rparr>;
          session = (if clear_pairing_reset_pending
                     then session\<lparr>ps_pairing_reset_pending := False\<rparr> else session)
      in session\<lparr>ps_forget_pending := False,
             ps_repair_reason := [],
             ps_remote_gatt_missing_since := 0,
             ps_remote_gatt_missing_checks := 0,
             ps_last_service_retry := 0,
             ps_services_resolved_since := 0,
             ps_last_notify_failure := 0,
             ps_notify_failure_count := 0,
             ps_last_notify_failure_path := [],
             ps_init_notify_failure := 0,
             ps_init_notify_failure_count := 0,
             ps_service_regression_started := 0\<rparr>)"

section \<open>Retry decisions\<close>

definition should_attempt_trust ::
    "peer_session \<Rightarrow> device_info \<Rightarrow> node_config \<Rightarrow> seconds \<Rightarrow> seconds \<Rightarrow> bool" where
  "should_attempt_trust session device config now_mono retry_period_s =
     (if \<not> auto_trust config then False
      else if \<not> ps_desired session then False
      else if repair_blocks_regular_actions session \<or> ps_repair_in_progress session then False
      else if \<not> dv_connected device \<or> dv_blocked device \<or> dv_trusted device then False
      else if ps_connected_since session \<le> 0 then False
      else if ps_pairing_in_progress session then False
      else if pairing_required config \<and> \<not> device_has_required_pairing device config then False
      else if is_phase session [''connecting'', ''connect_pending'', ''discovered'',
                ''disconnected'', ''blocked'', ''policy_blocked'', ''recovering'', ''stale'']
           then False
      else if now_mono - ps_connected_since session < kTrustCooldownMin then False
      else ps_last_security_attempt session \<le> 0 \<or>
           max kTrustCooldownMin (retry_period_s * (1 / 4)) \<le> now_mono - ps_last_security_attempt session)"

definition should_attempt_connect :: "peer_session \<Rightarrow> seconds \<Rightarrow> seconds \<Rightarrow> bool" where
  "should_attempt_connect session now_mono retry_period_s =
     (if \<not> ps_desired session then False
      else if repair_blocks_regular_actions session \<or> ps_repair_in_progress session then False
      else if 0 < ps_missing_since session then False
      else if is_phase session [''ready'', ''connected_unready'', ''securing'', ''blocked'',
                ''policy_blocked''] then False
      else if 0 < ps_connect_started session \<and>
              is_phase session [''connecting'', ''connect_pending''] \<and>
              now_mono - ps_connect_started session <
                max kConnectAttemptGraceMin (retry_period_s * kConnectAttemptGraceMultiplier)
           then False
      else ps_last_connect_attempt session \<le> 0 \<or>
           retry_period_s \<le> now_mono - ps_last_connect_attempt session)"

definition should_attempt_pair ::
    "peer_session \<Rightarrow> device_info \<Rightarrow> node_config \<Rightarrow> seconds \<Rightarrow> seconds \<Rightarrow> bool" where
  "should_attempt_pair session device config now_mono retry_period_s =
     (if \<not> auto_pair config then False
      else if \<not> ps_desired session then False
      else if repair_blocks_regular_actions session \<or> ps_repair_in_progress session then False
      else if ps_pairing_in_progress session then False
      else if dv_blocked device then False
      else if \<not> dv_connected device then False
      else if ps_connected_since session \<le> 0 then False
      else if device_has_required_pairing device config then False
      else
        let pair_grace_s = max kPairAfterConnectGraceMin retry_period_s;
            services_wait_started = (if 0 < ps_services_wait_started session
                                     then ps_services_wait_started session
                                     else ps_connected_since session)
        in if \<not> pairing_fallback_due session now_mono \<and>
              (services_wait_started \<le> 0 \<or> now_mono - services_wait_started < pair_grace_s)
           then False
           else
             let cooldown = max kPairCooldownMin
                   (retry_period_s * of_int (max 1 (ps_pairing_failures session + 1)))
             in ps_last_security_attempt session \<le> 0 \<or>
                cooldown \<le> now_mono - ps_last_security_attempt session)"

definition should_repair_authentication_disconnect ::
    "peer_session \<Rightarrow> device_info \<Rightarrow> node_config \<Rightarrow> string \<Rightarrow> bool" where
  "should_repair_authentication_disconnect session device config reason \<longleftrightarrow>
     reason = ''org.bluez.Reason.Authentication'' \<and>
     auto_pair config \<and> auto_connect_enable config \<and> \<not> enable_mesh config \<and>
     advertise_mode config \<noteq> ''broadcast'' \<and> ps_desired session \<and>
     \<not> dv_blocked device \<and> (dv_paired device \<or> dv_bonded device) \<and>
     \<not> ps_repair_requested session \<and> \<not> ps_repair_in_progress session"

end
