(* ===== verification/Peer_Manager.thy ===== *)
theory Peer_Manager
  imports Peer_Policy
begin

text \<open>
  \<open>PeerManager\<close> of \<open>src/peer/peer_manager.cpp\<close>: how one BlueZ snapshot of a device, its
  disappearance from the cache, a pairing-agent event and the pruning of old sessions
  change the session map. Clock reads are arguments. \<open>sync_device\<close> is composed of its
  stages in the source's order: \<open>sync_policy\<close> (always), then exactly one of
  \<open>sync_undesired\<close>, the blocked branch, \<open>sync_disconnected\<close> and \<open>sync_connected\<close>.
\<close>

definition get_or_create_session ::
    "(string \<rightharpoonup> peer_session) \<Rightarrow> seconds \<Rightarrow> string \<Rightarrow> string \<Rightarrow> peer_session" where
  "get_or_create_session sessions now mac peer_name =
     (case sessions mac of
        None \<Rightarrow> default_session\<lparr>ps_mac := mac, ps_first_seen := now, ps_last_seen := now,
                                ps_peer_name := peer_name\<rparr>
      | Some session \<Rightarrow>
          (let session = session\<lparr>ps_last_seen := now\<rparr>
           in if peer_name \<noteq> [] then session\<lparr>ps_peer_name := peer_name\<rparr> else session))"

definition sync_policy ::
    "(string \<Rightarrow> string \<Rightarrow> bool option) \<Rightarrow> peer_session \<Rightarrow> device_info \<Rightarrow> node_config \<Rightarrow> seconds \<Rightarrow>
     peer_session" where
  "sync_policy regex_match session device config now =
     (let was_desired = ps_desired session;
          session = session\<lparr>ps_missing_since := 0\<rparr>;
          whitelist_enabled = (peer_whitelist config \<noteq> []);
          session = session\<lparr>ps_explicit_target :=
            whitelist_contains (peer_whitelist config) (dv_mac device) (ps_peer_name session)\<rparr>;
          session = session\<lparr>ps_peer_candidate :=
            matches_auto_connect_policy regex_match device config (ps_peer_name session)\<rparr>;
          session = session\<lparr>ps_desired := auto_connect_enable config \<and>
            (ps_explicit_target session \<or> (ps_peer_candidate session \<and> \<not> whitelist_enabled))\<rparr>;
          session = (if ps_desired session
            then (let session = (if \<not> was_desired \<or> ps_desired_since session \<le> 0
                                 then session\<lparr>ps_desired_since := now\<rparr> else session)
                  in session\<lparr>ps_forget_pending := False\<rparr>)
            else session\<lparr>ps_desired_since := 0, ps_forget_pending := False\<rparr>);
          session = session\<lparr>ps_services_wait_grace_s :=
            max kServicesWaitGraceMin (peer_connection_timeout config)\<rparr>;
          session = (if \<not> dv_paired device \<and> \<not> dv_bonded device
            then session\<lparr>ps_init_notify_failure := 0, ps_init_notify_failure_count := 0\<rparr>
            else session)
      in if \<not> dv_connected device \<and> \<not> device_has_local_security device \<and>
            \<not> dv_services_resolved device \<and> \<not> ps_repair_requested session
         then (let session = session\<lparr>ps_forget_pending := False\<rparr>
               in if ps_repair_in_progress session
                  then session\<lparr>ps_repair_in_progress := False\<rparr> else session)
         else session)"

definition sync_undesired ::
    "peer_session \<Rightarrow> device_info \<Rightarrow> node_config \<Rightarrow> peer_session" where
  "sync_undesired session device config =
     (let session = session\<lparr>ps_pairing_in_progress := False,
            ps_time_bridge_healthy := False,
            ps_local_time_notify_active := False,
            ps_connected_since := 0,
            ps_services_wait_started := 0,
            ps_bridge_wait_started := 0,
            ps_bridge_wait_reason := [],
            ps_last_notify_failure := 0,
            ps_notify_failure_count := 0,
            ps_last_notify_failure_path := [],
            ps_init_notify_failure := 0,
            ps_init_notify_failure_count := 0,
            ps_last_service_retry := 0,
            ps_services_resolved_since := 0,
            ps_service_regression_started := 0,
            ps_remote_gatt_missing_since := 0,
            ps_remote_gatt_missing_checks := 0\<rparr>;
          session = (if \<not> device_needs_forget device
            then clear_device_reset (session\<lparr>ps_forget_pending := False\<rparr>) True
            else session)
      in if dv_connected device
         then set_session_phase session ''passive''
                ''peer-initiated or manually managed connection''
         else if ps_peer_candidate session
         then set_session_phase session ''idle''
                (if auto_connect_enable config then ''not selected for automatic connection''
                 else ''automatic connection disabled'')
         else set_session_phase session ''idle''
                (if ps_peer_name session = [] then ''device does not match peer policy''
                 else ''not a peer candidate''))"

definition sync_disconnected :: "peer_session \<Rightarrow> peer_session" where
  "sync_disconnected session =
     (let session = session\<lparr>ps_peer_initiated := False,
            ps_pairing_in_progress := False,
            ps_time_bridge_healthy := False,
            ps_local_time_notify_active := False,
            ps_connected_since := 0,
            ps_services_wait_started := 0,
            ps_bridge_wait_started := 0,
            ps_bridge_wait_reason := [],
            ps_last_notify_failure := 0,
            ps_notify_failure_count := 0,
            ps_last_notify_failure_path := [],
            ps_last_service_retry := 0,
            ps_services_resolved_since := 0,
            ps_service_regression_started := 0,
            ps_remote_gatt_missing_since := 0,
            ps_remote_gatt_missing_checks := 0\<rparr>
      in if is_phase session [''connecting'', ''connect_pending'']
         then set_session_phase session ''connect_pending'' ''awaiting connection''
         else set_session_phase session
                (if 0 < ps_last_connect_attempt session then ''disconnected'' else ''discovered'')
                ''awaiting connection'')"

definition note_connection ::
    "peer_session \<Rightarrow> node_config \<Rightarrow> seconds \<Rightarrow> peer_session" where
  "note_connection session config now =
     (let first_connection_observed = (ps_connected_since session \<le> 0);
          connect_grace_s = max kConnectAttemptGraceMin
            (auto_connect_period config * kConnectAttemptGraceMultiplier);
          local_connect_in_flight = (0 < ps_connect_started session \<and>
            now - ps_connect_started session < connect_grace_s);
          session = (if first_connection_observed \<and> \<not> local_connect_in_flight
            then clear_device_reset (session\<lparr>ps_peer_initiated := True\<rparr>) True else session)
      in session\<lparr>ps_connected_since :=
           (if 0 < ps_connected_since session then ps_connected_since session else now)\<rparr>)"

definition sync_unpaired :: "peer_session \<Rightarrow> peer_session" where
  "sync_unpaired session =
     (let session = session\<lparr>ps_last_service_retry := 0,
            ps_bridge_wait_started := 0,
            ps_bridge_wait_reason := [],
            ps_remote_gatt_missing_since := 0,
            ps_remote_gatt_missing_checks := 0\<rparr>
      in if ps_pairing_in_progress session
         then (let session = (if ps_detail session = [] \<or>
                                 ps_detail session = ''connected, waiting for pairing''
                              then session\<lparr>ps_detail := ''awaiting pairing completion''\<rparr>
                              else session)
               in session\<lparr>ps_phase := ''securing''\<rparr>)
         else set_session_phase session ''connected_unready'' ''connected, waiting for pairing'')"

definition sync_unresolved :: "peer_session \<Rightarrow> seconds \<Rightarrow> bool \<Rightarrow> bool \<Rightarrow> peer_session" where
  "sync_unresolved session now preserve_ready_runtime preserve_active_bridge_runtime =
     (let session = session\<lparr>ps_last_service_retry := 0\<rparr>
      in if preserve_ready_runtime
         then (let session = (if ps_service_regression_started session \<le> 0
                              then session\<lparr>ps_service_regression_started := now\<rparr> else session);
                   session = session\<lparr>ps_services_wait_started := 0,
                     ps_bridge_wait_started := 0,
                     ps_bridge_wait_reason := [],
                     ps_last_notify_failure := 0,
                     ps_notify_failure_count := 0,
                     ps_last_notify_failure_path := [],
                     ps_remote_gatt_missing_since := 0,
                     ps_remote_gatt_missing_checks := 0\<rparr>
               in set_session_phase session ''ready''
                    ''peer time bridge active during expected services rediscovery'')
         else if preserve_active_bridge_runtime
         then (let session = (if ps_service_regression_started session \<le> 0
                              then session\<lparr>ps_service_regression_started := now\<rparr> else session);
                   session = session\<lparr>ps_services_wait_started := 0,
                     ps_last_service_retry := 0,
                     ps_remote_gatt_missing_since := 0,
                     ps_remote_gatt_missing_checks := 0,
                     ps_phase := ''connected_unready''\<rparr>
               in if ps_detail session = []
                  then session\<lparr>ps_detail :=
                         ''peer time bridge active during expected services rediscovery''\<rparr>
                  else session)
         else (let session = session\<lparr>ps_services_resolved_since := 0,
                     ps_service_regression_started := 0,
                     ps_bridge_wait_started := 0,
                     ps_bridge_wait_reason := [],
                     ps_last_notify_failure := 0,
                     ps_notify_failure_count := 0,
                     ps_last_notify_failure_path := [],
                     ps_remote_gatt_missing_since := 0,
                     ps_remote_gatt_missing_checks := 0\<rparr>;
                   session = (if ps_services_wait_started session \<le> 0
                              then session\<lparr>ps_services_wait_started := now\<rparr> else session)
               in set_session_phase session ''connected_unready''
                    ''connected, waiting for services''))"

definition sync_resolved :: "peer_session \<Rightarrow> seconds \<Rightarrow> bool \<Rightarrow> peer_session" where
  "sync_resolved session now preserve_ready_runtime =
     (let session = (if ps_services_resolved_since session \<le> 0
                     then session\<lparr>ps_services_resolved_since := now\<rparr> else session);
          session = session\<lparr>ps_service_regression_started := 0\<rparr>
      in if preserve_ready_runtime
         then (set_session_phase session ''ready'' ''peer time bridge active'')
                \<lparr>ps_services_wait_started := 0\<rparr>
         else (set_session_phase session ''connected_unready''
                ''connected, services resolved, awaiting peer time bridge'')
                \<lparr>ps_services_wait_started := 0\<rparr>)"

definition sync_connected ::
    "peer_session \<Rightarrow> device_info \<Rightarrow> node_config \<Rightarrow> seconds \<Rightarrow> bool \<Rightarrow> bool \<Rightarrow> peer_session" where
  "sync_connected session device config now preserve_ready_runtime preserve_active_bridge_runtime =
     (let session = note_connection session config now
      in if device_has_required_pairing device config
         then (let session = session\<lparr>ps_pairing_in_progress := False,
                                     ps_pairing_wait_started := 0\<rparr>
               in if \<not> dv_services_resolved device
                  then sync_unresolved session now preserve_ready_runtime
                         preserve_active_bridge_runtime
                  else sync_resolved session now preserve_ready_runtime)
         else sync_unpaired session)"

definition sync_session ::
    "(string \<Rightarrow> string \<Rightarrow> bool option) \<Rightarrow> peer_session \<Rightarrow> device_info \<Rightarrow> node_config \<Rightarrow> seconds \<Rightarrow>
     bool \<Rightarrow> bool \<Rightarrow> peer_session" where
  "sync_session regex_match session device config now preserve_ready_runtime
       preserve_active_bridge_runtime =
     (let session = sync_policy regex_match session device config now
      in if \<not> ps_desired session then sync_undesired session device config
         else if dv_blocked device
         then set_session_phase session ''blocked'' ''device is blocked by BlueZ''
         else if \<not> dv_connected device then sync_disconnected session
         else sync_connected session device config now preserve_ready_runtime
                preserve_active_bridge_runtime)"

definition sync_device ::
    "(string \<Rightarrow> string \<Rightarrow> bool option) \<Rightarrow> peer_manager \<Rightarrow> seconds \<Rightarrow> seconds \<Rightarrow> device_info \<Rightarrow>
     node_config \<Rightarrow> string \<Rightarrow> bool \<Rightarrow> bool \<Rightarrow> peer_manager" where
  "sync_device regex_match pm now_seen now device config peer_name preserve_ready_runtime
       preserve_active_bridge_runtime =
     (let has_connection_state = (dv_connected device \<or> dv_services_resolved device \<or>
                                  device_has_local_security device)
      in if pm_sessions pm (dv_mac device) = None \<and> \<not> has_connection_state \<and>
            (\<not> auto_connect_enable config \<or> peer_name = [])
         then pm
         else
           let session = get_or_create_session (pm_sessions pm) now_seen (dv_mac device) peer_name;
               session = sync_session regex_match session device config now
                           preserve_ready_runtime preserve_active_bridge_runtime
           in pm\<lparr>pm_sessions := (pm_sessions pm)(dv_mac device \<mapsto> session)\<rparr>)"

definition note_missing_session :: "peer_session \<Rightarrow> seconds \<Rightarrow> peer_session" where
  "note_missing_session session now_mono =
     (let session = (if ps_missing_since session \<le> 0
                     then session\<lparr>ps_missing_since := now_mono\<rparr> else session);
          session = session\<lparr>ps_forget_pending := False,
            ps_time_bridge_healthy := False,
            ps_local_time_notify_active := False,
            ps_connected_since := 0,
            ps_pairing_in_progress := False,
            ps_services_wait_started := 0,
            ps_bridge_wait_started := 0,
            ps_bridge_wait_reason := [],
            ps_last_notify_failure := 0,
            ps_notify_failure_count := 0,
            ps_last_notify_failure_path := [],
            ps_last_service_retry := 0,
            ps_services_resolved_since := 0,
            ps_service_regression_started := 0,
            ps_remote_gatt_missing_since := 0,
            ps_remote_gatt_missing_checks := 0\<rparr>
      in if ps_repair_requested session \<and> ps_repair_awaiting_cache_removal session
         then (let repair_detail = (if ps_repair_reason session = []
                     then ''awaiting fresh discovery after security reset''
                     else ps_repair_reason session)
               in set_session_phase (clear_device_reset session True) ''stale'' repair_detail)
         else set_session_phase session ''stale'' ''device missing from cache'')"

definition note_missing_device :: "peer_manager \<Rightarrow> string \<Rightarrow> seconds \<Rightarrow> peer_manager" where
  "note_missing_device pm mac now_mono =
     (case pm_sessions pm mac of
        None \<Rightarrow> pm
      | Some session \<Rightarrow>
          pm\<lparr>pm_sessions := (pm_sessions pm)(mac \<mapsto> note_missing_session session now_mono)\<rparr>)"

definition pairing_event_session ::
    "peer_session \<Rightarrow> device_info \<Rightarrow> string \<Rightarrow> seconds \<Rightarrow> peer_session" where
  "pairing_event_session session device event now =
     (let session = session\<lparr>ps_last_security_attempt := now\<rparr>
      in if event = ''request_authorization''
         then (if is_phase session [''ready''] \<and> ps_detail session = []
               then session\<lparr>ps_detail := event\<rparr> else session)
         else if event = ''request_confirmation'' \<or> event = ''request_passkey'' \<or>
                 event = ''request_pin''
         then (let session = session\<lparr>ps_pairing_in_progress := True,
                                     ps_last_pairing_request := now\<rparr>
               in if device_has_local_security device
                  then (if \<not> is_phase session [''ready'', ''connected_unready'']
                        then set_session_phase session ''securing'' event
                        else if ps_detail session = [] then session\<lparr>ps_detail := event\<rparr>
                        else session)
                  else if is_phase session [''ready''] then session\<lparr>ps_detail := event\<rparr>
                  else set_session_phase session ''securing'' event)
         else if event = ''cancel''
         then set_session_phase
                (session\<lparr>ps_pairing_in_progress := False,
                         ps_pairing_failures := ps_pairing_failures session + 1\<rparr>)
                ''recovering'' ''pairing cancelled''
         else if event = ''agent_release''
         then session\<lparr>ps_pairing_in_progress := False, ps_detail := ''pairing agent released''\<rparr>
         else session)"

definition note_pairing_event ::
    "(string \<Rightarrow> device_info option) \<Rightarrow> peer_manager \<Rightarrow> seconds \<Rightarrow> seconds \<Rightarrow> string \<Rightarrow> string \<Rightarrow>
     peer_manager" where
  "note_pairing_event cache_device pm now_seen now device_path event =
     (case cache_device device_path of
        None \<Rightarrow> pm
      | Some device \<Rightarrow>
          (let session = get_or_create_session (pm_sessions pm) now_seen (dv_mac device) []
           in pm\<lparr>pm_sessions := (pm_sessions pm)
                  (dv_mac device \<mapsto> pairing_event_session session device event now)\<rparr>))"

definition prune_sessions ::
    "peer_manager \<Rightarrow> string set \<Rightarrow> seconds \<Rightarrow> seconds \<Rightarrow> peer_manager" where
  "prune_sessions pm current_macs now_mono ttl_s =
     pm\<lparr>pm_sessions := (\<lambda>mac. case pm_sessions pm mac of
          None \<Rightarrow> None
        | Some session \<Rightarrow>
            (if mac \<in> current_macs \<or> pm_time_bridges pm mac \<noteq> None \<or>
                now_mono - ps_last_seen session \<le> ttl_s
             then Some session else None))\<rparr>"

definition remove_time_bridge :: "peer_manager \<Rightarrow> string \<Rightarrow> peer_manager" where
  "remove_time_bridge pm mac =
     (case pm_time_bridges pm mac of
        None \<Rightarrow> pm
      | Some bridge \<Rightarrow> pm\<lparr>pm_time_bridges := (pm_time_bridges pm)(mac := None)\<rparr>)"

end
