(* ===== verification/Peer_Correct.thy ===== *)
theory Peer_Correct
  imports Peer_Manager
begin

text \<open>
  Correctness of the peer lifecycle: the phase a synchronisation ends in, the admission
  policy, the retry gates, the repair protocol, the session invariant over any run of the
  manager, and idempotence of synchronisation.
\<close>

section \<open>Shared facts\<close>

lemma is_phase_simps [simp]:
  "is_phase s [] = False"
  "is_phase s (v # vs) = (ps_phase s = v \<or> is_phase s vs)"
  by (auto simp: is_phase_def)

lemma set_session_phase_simps [simp]:
  "ps_phase (set_session_phase s p d) = p"
  "ps_detail (set_session_phase s p d) = d"
  by (simp_all add: set_session_phase_def)

lemmas sync_stage_defs = sync_undesired_def sync_disconnected_def sync_connected_def
  note_connection_def sync_unpaired_def sync_unresolved_def sync_resolved_def
  clear_device_reset_def set_session_phase_def

lemma clear_device_reset_simps [simp]:
  "ps_phase (clear_device_reset s b) = ps_phase s"
  "ps_detail (clear_device_reset s b) = ps_detail s"
  "ps_desired (clear_device_reset s b) = ps_desired s"
  "ps_desired_since (clear_device_reset s b) = ps_desired_since s"
  "ps_mac (clear_device_reset s b) = ps_mac s"
  "ps_connected_since (clear_device_reset s b) = ps_connected_since s"
  "ps_missing_since (clear_device_reset s b) = ps_missing_since s"
  "ps_pairing_failures (clear_device_reset s b) = ps_pairing_failures s"
  "ps_peer_candidate (clear_device_reset s b) = ps_peer_candidate s"
  "ps_peer_name (clear_device_reset s b) = ps_peer_name s"
  "\<not> ps_repair_requested (clear_device_reset s b)"
  "\<not> ps_repair_awaiting_cache_removal (clear_device_reset s b)"
  by (simp_all add: clear_device_reset_def Let_def)

section \<open>Admission policy\<close>

definition policy_desires ::
    "(string \<Rightarrow> string \<Rightarrow> bool option) \<Rightarrow> node_config \<Rightarrow> device_info \<Rightarrow> string \<Rightarrow> bool" where
  "policy_desires re config device peer_name \<longleftrightarrow>
     auto_connect_enable config \<and>
     (whitelist_contains (peer_whitelist config) (dv_mac device) peer_name \<or>
      (matches_auto_connect_policy re device config peer_name \<and> peer_whitelist config = []))"

lemma sync_policy_simps [simp]:
  "ps_desired (sync_policy re s d c now) = policy_desires re c d (ps_peer_name s)"
  "ps_phase (sync_policy re s d c now) = ps_phase s"
  "ps_detail (sync_policy re s d c now) = ps_detail s"
  "ps_mac (sync_policy re s d c now) = ps_mac s"
  "ps_missing_since (sync_policy re s d c now) = 0"
  "ps_connected_since (sync_policy re s d c now) = ps_connected_since s"
  "ps_pairing_failures (sync_policy re s d c now) = ps_pairing_failures s"
  "ps_peer_name (sync_policy re s d c now) = ps_peer_name s"
  "ps_repair_requested (sync_policy re s d c now) = ps_repair_requested s"
  "ps_repair_awaiting_cache_removal (sync_policy re s d c now) = ps_repair_awaiting_cache_removal s"
  "ps_last_connect_attempt (sync_policy re s d c now) = ps_last_connect_attempt s"
  by (auto simp: sync_policy_def policy_desires_def Let_def)

lemma sync_policy_repair [simp]:
  "ps_repair_remove_issued (sync_policy re s d c now) = ps_repair_remove_issued s"
  "ps_repair_in_progress (sync_policy re s d c now) =
     (ps_repair_in_progress s \<and> (dv_connected d \<or> device_has_local_security d \<or>
        dv_services_resolved d \<or> ps_repair_requested s))"
  "ps_connect_started (sync_policy re s d c now) = ps_connect_started s"
  by (auto simp: sync_policy_def Let_def)

lemma whitelist_scan_iff:
  "whitelist_scan m n ws \<longleftrightarrow>
     (\<exists>w\<in>set ws. normalize_whitelist_token w \<noteq> [] \<and>
        (normalize_whitelist_token w = m \<or> (n \<noteq> [] \<and> normalize_whitelist_token w = n)))"
  by (induction ws) (auto simp: Let_def)

lemma sync_undesired_frame [simp]:
  "ps_mac (sync_undesired s d c) = ps_mac s"
  "ps_desired (sync_undesired s d c) = ps_desired s"
  "ps_missing_since (sync_undesired s d c) = ps_missing_since s"
  "ps_pairing_failures (sync_undesired s d c) = ps_pairing_failures s"
  "ps_peer_name (sync_undesired s d c) = ps_peer_name s"
  "ps_desired_since (sync_undesired s d c) = ps_desired_since s"
  by (simp_all add: sync_undesired_def Let_def set_session_phase_def)

lemma sync_disconnected_frame [simp]:
  "ps_mac (sync_disconnected s) = ps_mac s"
  "ps_desired (sync_disconnected s) = ps_desired s"
  "ps_missing_since (sync_disconnected s) = ps_missing_since s"
  "ps_pairing_failures (sync_disconnected s) = ps_pairing_failures s"
  "ps_peer_name (sync_disconnected s) = ps_peer_name s"
  "ps_desired_since (sync_disconnected s) = ps_desired_since s"
  by (simp_all add: sync_disconnected_def Let_def set_session_phase_def)

lemma note_connection_frame [simp]:
  "ps_mac (note_connection s c now) = ps_mac s"
  "ps_desired (note_connection s c now) = ps_desired s"
  "ps_missing_since (note_connection s c now) = ps_missing_since s"
  "ps_pairing_failures (note_connection s c now) = ps_pairing_failures s"
  "ps_peer_name (note_connection s c now) = ps_peer_name s"
  "ps_desired_since (note_connection s c now) = ps_desired_since s"
  by (simp_all add: note_connection_def Let_def set_session_phase_def)

lemma sync_unpaired_frame [simp]:
  "ps_mac (sync_unpaired s) = ps_mac s"
  "ps_desired (sync_unpaired s) = ps_desired s"
  "ps_missing_since (sync_unpaired s) = ps_missing_since s"
  "ps_pairing_failures (sync_unpaired s) = ps_pairing_failures s"
  "ps_peer_name (sync_unpaired s) = ps_peer_name s"
  "ps_desired_since (sync_unpaired s) = ps_desired_since s"
  by (simp_all add: sync_unpaired_def Let_def set_session_phase_def)

lemma sync_unresolved_frame [simp]:
  "ps_mac (sync_unresolved s now pr pa) = ps_mac s"
  "ps_desired (sync_unresolved s now pr pa) = ps_desired s"
  "ps_missing_since (sync_unresolved s now pr pa) = ps_missing_since s"
  "ps_pairing_failures (sync_unresolved s now pr pa) = ps_pairing_failures s"
  "ps_peer_name (sync_unresolved s now pr pa) = ps_peer_name s"
  "ps_desired_since (sync_unresolved s now pr pa) = ps_desired_since s"
  by (simp_all add: sync_unresolved_def Let_def set_session_phase_def)

lemma sync_resolved_frame [simp]:
  "ps_mac (sync_resolved s now pr) = ps_mac s"
  "ps_desired (sync_resolved s now pr) = ps_desired s"
  "ps_missing_since (sync_resolved s now pr) = ps_missing_since s"
  "ps_pairing_failures (sync_resolved s now pr) = ps_pairing_failures s"
  "ps_peer_name (sync_resolved s now pr) = ps_peer_name s"
  "ps_desired_since (sync_resolved s now pr) = ps_desired_since s"
  by (simp_all add: sync_resolved_def Let_def set_session_phase_def)

lemma sync_unpaired_connected_since [simp]:
  "ps_connected_since (sync_unpaired s) = ps_connected_since s"
  by (simp add: sync_unpaired_def Let_def set_session_phase_def)

lemma sync_unresolved_connected_since [simp]:
  "ps_connected_since (sync_unresolved s now pr pa) = ps_connected_since s"
  by (simp add: sync_unresolved_def Let_def set_session_phase_def)

lemma sync_resolved_connected_since [simp]:
  "ps_connected_since (sync_resolved s now pr) = ps_connected_since s"
  by (simp add: sync_resolved_def Let_def set_session_phase_def)

lemma note_connection_connected_since [simp]:
  "ps_connected_since (note_connection s c now) =
     (if 0 < ps_connected_since s then ps_connected_since s else now)"
  by (simp add: note_connection_def Let_def)

lemma note_connection_phase [simp]:
  "ps_phase (note_connection s c now) = ps_phase s"
  by (simp add: note_connection_def Let_def)

lemma sync_undesired_connected_since [simp]:
  "ps_connected_since (sync_undesired s d c) = 0"
  by (simp add: sync_undesired_def Let_def set_session_phase_def)

lemma sync_disconnected_connected_since [simp]:
  "ps_connected_since (sync_disconnected s) = 0"
  by (simp add: sync_disconnected_def Let_def set_session_phase_def)

lemma sync_undesired_phase [simp]:
  "ps_phase (sync_undesired s d c) = (if dv_connected d then ''passive'' else ''idle'')"
  by (simp add: sync_undesired_def Let_def)

lemma sync_disconnected_phase [simp]:
  "ps_phase (sync_disconnected s) =
     (if ps_phase s \<in> {''connecting'', ''connect_pending''} then ''connect_pending''
      else if 0 < ps_last_connect_attempt s then ''disconnected'' else ''discovered'')"
  by (simp add: sync_disconnected_def Let_def)

lemma sync_disconnected_repair [simp]:
  "ps_repair_requested (sync_disconnected s) = ps_repair_requested s"
  "ps_repair_in_progress (sync_disconnected s) = ps_repair_in_progress s"
  "ps_repair_remove_issued (sync_disconnected s) = ps_repair_remove_issued s"
  "ps_repair_awaiting_cache_removal (sync_disconnected s) = ps_repair_awaiting_cache_removal s"
  "ps_last_connect_attempt (sync_disconnected s) = ps_last_connect_attempt s"
  "ps_connect_started (sync_disconnected s) = ps_connect_started s"
  by (simp_all add: sync_disconnected_def Let_def set_session_phase_def)

lemma sync_unpaired_phase [simp]:
  "ps_phase (sync_unpaired s) =
     (if ps_pairing_in_progress s then ''securing'' else ''connected_unready'')"
  by (simp add: sync_unpaired_def Let_def)

lemma sync_unresolved_phase [simp]:
  "ps_phase (sync_unresolved s now pr pa) = (if pr then ''ready'' else ''connected_unready'')"
  by (simp add: sync_unresolved_def Let_def)

lemma sync_resolved_phase [simp]:
  "ps_phase (sync_resolved s now pr) = (if pr then ''ready'' else ''connected_unready'')"
  by (simp add: sync_resolved_def Let_def)

lemma sync_connected_frame [simp]:
  "ps_mac (sync_connected s d c now pr pa) = ps_mac s"
  "ps_desired (sync_connected s d c now pr pa) = ps_desired s"
  "ps_missing_since (sync_connected s d c now pr pa) = ps_missing_since s"
  "ps_pairing_failures (sync_connected s d c now pr pa) = ps_pairing_failures s"
  "ps_peer_name (sync_connected s d c now pr pa) = ps_peer_name s"
  "ps_desired_since (sync_connected s d c now pr pa) = ps_desired_since s"
  by (simp_all add: sync_connected_def Let_def)

lemma sync_connected_connected_since [simp]:
  "ps_connected_since (sync_connected s d c now pr pa) =
     (if 0 < ps_connected_since s then ps_connected_since s else now)"
  by (simp add: sync_connected_def Let_def)

lemma sync_connected_phase:
  "ps_phase (sync_connected s d c now pr pa) =
     (if device_has_required_pairing d c then (if pr then ''ready'' else ''connected_unready'')
      else if ps_pairing_in_progress (note_connection s c now) then ''securing''
      else ''connected_unready'')"
  by (simp add: sync_connected_def Let_def)

lemma sync_session_frame [simp]:
  "ps_mac (sync_session re s d c now pr pa) = ps_mac s"
  "ps_missing_since (sync_session re s d c now pr pa) = 0"
  "ps_pairing_failures (sync_session re s d c now pr pa) = ps_pairing_failures s"
  "ps_peer_name (sync_session re s d c now pr pa) = ps_peer_name s"
  "ps_desired (sync_session re s d c now pr pa) = policy_desires re c d (ps_peer_name s)"
  by (simp_all add: sync_session_def Let_def) (simp_all add: set_session_phase_def)

section \<open>Where a synchronisation ends\<close>

lemma sync_session_phase:
  "ps_phase (sync_session re s d c now pr pa) =
     (if \<not> policy_desires re c d (ps_peer_name s)
      then (if dv_connected d then ''passive'' else ''idle'')
      else if dv_blocked d then ''blocked''
      else if \<not> dv_connected d
      then (if ps_phase s \<in> {''connecting'', ''connect_pending''} then ''connect_pending''
            else if 0 < ps_last_connect_attempt s then ''disconnected'' else ''discovered'')
      else if device_has_required_pairing d c
      then (if pr then ''ready'' else ''connected_unready'')
      else if ps_pairing_in_progress (note_connection (sync_policy re s d c now) c now)
      then ''securing'' else ''connected_unready'')"
  by (simp add: sync_session_def Let_def sync_connected_phase)

lemma sync_session_connected_since:
  "ps_connected_since (sync_session re s d c now pr pa) =
     (if \<not> policy_desires re c d (ps_peer_name s) then 0
      else if dv_blocked d then ps_connected_since s
      else if \<not> dv_connected d then 0
      else if 0 < ps_connected_since s then ps_connected_since s else now)"
  by (simp add: sync_session_def Let_def) (simp add: set_session_phase_def)

text \<open>after a device snapshot is synchronised, the session is \<open>ready\<close> exactly when the
  policy admits the peer, the device is connected and not blocked, the pairing the
  configuration asks for is present, and the caller vouches for a live time bridge. No other
  history of the session can make it ready.\<close>

theorem sync_ready_iff:
  "ps_phase (sync_session re s d c now pr pa) = ''ready'' \<longleftrightarrow>
     policy_desires re c d (ps_peer_name s) \<and> dv_connected d \<and> \<not> dv_blocked d \<and>
     device_has_required_pairing d c \<and> pr"
  by (simp add: sync_session_phase)

section \<open>Retry gates after a synchronisation\<close>

lemma connect_gate:
  "should_attempt_connect (sync_session re s d c now pr pa) t period \<Longrightarrow>
     policy_desires re c d (ps_peer_name s) \<and> \<not> dv_connected d \<and> \<not> dv_blocked d"
  by (auto simp: should_attempt_connect_def sync_session_phase split: if_splits)

lemma pair_gate:
  "should_attempt_pair s d c t period \<Longrightarrow>
     ps_desired s \<and> auto_pair c \<and> dv_connected d \<and> \<not> dv_blocked d \<and> \<not> dv_paired d \<and> \<not> dv_bonded d"
  by (auto simp: should_attempt_pair_def device_has_required_pairing_def pairing_required_def
      split: if_splits)

lemma trust_gate:
  "should_attempt_trust s d c t period \<Longrightarrow>
     ps_desired s \<and> auto_trust c \<and> dv_connected d \<and> \<not> dv_blocked d \<and> \<not> dv_trusted d"
  by (auto simp: should_attempt_trust_def split: if_splits)


definition demo_config :: node_config where
  "demo_config = default_node_config\<lparr>auto_connect_enable := True, peer_whitelist := [''uav7'']\<rparr>"

definition demo_device :: device_info where
  "demo_device = default_device_info\<lparr>dv_mac := ''AA:BB:CC:DD:EE:FF'', dv_name := ''uav7''\<rparr>"

definition demo_session :: peer_session where
  "demo_session = default_session\<lparr>ps_mac := ''AA:BB:CC:DD:EE:FF'', ps_peer_name := ''uav7''\<rparr>"

lemma demo_config_simps [simp]:
  "auto_connect_enable demo_config" "peer_whitelist demo_config = [''uav7'']"
  "auto_pair demo_config" "auto_trust demo_config" "auto_connect_period demo_config = 3"
  "peer_connection_timeout demo_config = 30" "\<not> enable_mesh demo_config"
  "advertise_mode demo_config = ''peripheral''"
  by (simp_all add: demo_config_def default_node_config_def)

lemma demo_whitelisted: "policy_desires re demo_config d ''uav7''"
proof -
  have "whitelist_contains [''uav7''] mac ''uav7''" for mac
    by (simp add: whitelist_contains_def normalize_whitelist_token_def lower_copy_def trim_ws_def
        looks_like_mac_address_def substr_def is_ascii_ws_def to_lower_def is_upper_def
        char_code_def Let_def)
  then show ?thesis by (simp add: policy_desires_def)
qed


section \<open>Admission list\<close>

lemma lower_copy_trim: "lower_copy (trim_ws s) = lower_trim_copy s"
  by (simp add: lower_copy_def lower_trim_copy_def trim_ascii_copy_trim_ws)

lemma normalize_token_cases:
  "normalize_whitelist_token w =
     (if looks_like_mac_address (trim_ws w) then normalize_mac w else lower_trim_copy w)"
  by (simp add: normalize_whitelist_token_def Let_def lower_copy_trim [symmetric] normalize_mac_def
      trim_ws_strip)

lemma normalize_token_lower_trim:
  assumes "\<not> looks_like_mac_address (trim_ws w)" and "\<not> looks_like_mac_address (trim_ws w')"
    and "lower_trim_copy w = lower_trim_copy w'"
  shows "normalize_whitelist_token w = normalize_whitelist_token w'"
  using assms by (simp add: normalize_token_cases)

text \<open>The admission list is exactly a set of tokens: a peer is listed if and only if some
  entry, trimmed and then upper-cased when it has the shape of a Bluetooth address and
  lower-cased otherwise, is a nonempty token equal to the peer's normalised address or to its
  normalised host name. Blank entries admit nobody and an unnamed peer is admitted by address
  only.\<close>

theorem whitelist_contains_iff:
  "whitelist_contains whitelist mac peer_name \<longleftrightarrow>
     (\<exists>entry\<in>set whitelist.
        let token = (if looks_like_mac_address (trim_ws entry) then normalize_mac entry
                     else lower_trim_copy entry)
        in token \<noteq> [] \<and> token \<in> {normalize_mac mac, lower_trim_copy peer_name})"
  unfolding whitelist_contains_def Let_def whitelist_scan_iff lower_copy_trim
    normalize_token_cases [symmetric]
  by (intro bex_cong refl) auto

section \<open>The repair protocol\<close>

lemma request_device_reset_requested [simp]:
  "ps_repair_requested (request_device_reset s now reason rp)"
  by (simp add: request_device_reset_def Let_def set_session_phase_def)

lemma repair_blocks_gates:
  assumes "repair_blocks_regular_actions s"
  shows "\<not> should_attempt_connect s t p" and "\<not> should_attempt_pair s d c t p"
    and "\<not> should_attempt_trust s d c t p"
  using assms
  by (auto simp: should_attempt_connect_def should_attempt_pair_def should_attempt_trust_def)

lemma request_device_reset_blocks:
  "\<not> ps_repair_requested s \<Longrightarrow> repair_blocks_regular_actions (request_device_reset s now reason rp)"
  by (simp add: request_device_reset_def repair_blocks_regular_actions_def set_session_phase_def)

text \<open>the repair protocol. A reset request on a session without one blocks connecting,
  pairing and trusting, and a second request keeps the first one's time, reason and phase
  while a pairing reset asked for by either is remembered. When the removal was issued and
  its cache removal is awaited, the device's disappearance ends the repair: the session is
  stale, nothing of the repair is left, and the recorded reason is its detail.\<close>

theorem repair_protocol:
  assumes "\<not> ps_repair_requested s"
    and "s1 = request_device_reset s now reason rp"
    and "s2 = note_missing_session
           (s1\<lparr>ps_repair_remove_issued := True, ps_repair_awaiting_cache_removal := True\<rparr>) t"
  shows "\<not> should_attempt_connect s1 t' p' \<and> \<not> should_attempt_pair s1 d c t' p' \<and>
         \<not> should_attempt_trust s1 d c t' p'
     \<and> ps_repair_requested_at (request_device_reset s1 now' reason' rp') = now
     \<and> ps_pairing_reset_pending (request_device_reset s1 now' reason' rp') = (rp \<or> rp')
     \<and> ps_phase (request_device_reset s1 now' reason' rp') = ''recovering''
     \<and> ps_phase s2 = ''stale'' \<and> \<not> ps_repair_requested s2
     \<and> \<not> repair_blocks_regular_actions s2 \<and> \<not> ps_pairing_reset_pending s2
     \<and> ps_repair_reason s2 = []
     \<and> ps_detail s2 = (if reason = [] then ''awaiting fresh discovery after security reset''
                       else reason)"
proof (intro conjI)
  have b: "repair_blocks_regular_actions s1"
    using assms(1) unfolding assms(2) by (rule request_device_reset_blocks)
  from repair_blocks_gates [OF b]
  show "\<not> should_attempt_connect s1 t' p'" "\<not> should_attempt_pair s1 d c t' p'"
    "\<not> should_attempt_trust s1 d c t' p'" by blast+
qed (use assms(1) in \<open>simp_all add: assms(2,3) request_device_reset_def set_session_phase_def
      note_missing_session_def clear_device_reset_def repair_blocks_regular_actions_def Let_def\<close>)

theorem repair_protocol_witness:
  "\<not> ps_repair_requested default_session \<and>
   ps_detail (note_missing_session
     ((request_device_reset default_session 5 ''bond lost'' True)
        \<lparr>ps_repair_remove_issued := True, ps_repair_awaiting_cache_removal := True\<rparr>) 9)
   = ''bond lost''"
proof -
  have h: "\<not> ps_repair_requested default_session" by (simp add: default_session_def)
  from repair_protocol [OF h refl refl, of 5 "''bond lost''" True 9] h show ?thesis by simp
qed

section \<open>The absence timer\<close>

lemma note_missing_since:
  "ps_missing_since (note_missing_session s t) =
     (if ps_missing_since s \<le> 0 then t else ps_missing_since s)"
  by (simp add: note_missing_session_def Let_def set_session_phase_def clear_device_reset_def)

lemma note_missing_phase: "ps_phase (note_missing_session s t) = ''stale''"
  by (simp add: note_missing_session_def Let_def)

text \<open>The absence timer starts once. However many cache snapshots report a device missing
  after the first, the session keeps the first time and stays stale, and no connection is
  attempted while it is missing.\<close>

theorem missing_timer_starts_once:
  assumes "ps_missing_since s \<le> 0" and "0 < t"
  shows "ps_missing_since (fold (\<lambda>u x. note_missing_session x u) us (note_missing_session s t)) = t
     \<and> ps_phase (fold (\<lambda>u x. note_missing_session x u) us (note_missing_session s t)) = ''stale''
     \<and> \<not> should_attempt_connect
          (fold (\<lambda>u x. note_missing_session x u) us (note_missing_session s t)) now period"
proof -
  have "ps_missing_since (fold (\<lambda>u x. note_missing_session x u) us x) = t \<and>
        ps_phase (fold (\<lambda>u x. note_missing_session x u) us x) = ''stale''"
    if "ps_missing_since x = t" "ps_phase x = ''stale''" for x
    using that by (induction us arbitrary: x) (use assms(2) in \<open>auto simp: note_missing_since note_missing_phase\<close>)
  from this [of "note_missing_session s t"] assms show ?thesis
    by (simp add: note_missing_since note_missing_phase should_attempt_connect_def)
qed

theorem missing_timer_starts_once_witness:
  "ps_missing_since default_session \<le> 0 \<and>
   ps_missing_since (fold (\<lambda>u x. note_missing_session x u) [8, 9]
     (note_missing_session default_session 7)) = 7"
proof -
  have h: "ps_missing_since default_session \<le> 0" by (simp add: default_session_def)
  from missing_timer_starts_once [OF h, of 7 "[8, 9]"] h show ?thesis by simp
qed

section \<open>The session invariant\<close>

definition known_phases :: "string list" where
  "known_phases = [''idle'', ''passive'', ''blocked'', ''connect_pending'', ''disconnected'',
     ''discovered'', ''securing'', ''connected_unready'', ''ready'', ''recovering'', ''stale'']"

definition session_inv :: "string \<Rightarrow> peer_session \<Rightarrow> bool" where
  "session_inv mac s \<longleftrightarrow>
     ps_mac s = mac \<and> ps_phase s \<in> set known_phases \<and> 0 \<le> ps_pairing_failures s \<and>
     (if ps_desired s then 0 < ps_desired_since s
      else ps_desired_since s = 0 \<and> ps_connected_since s = 0) \<and>
     (ps_phase s \<in> {''ready'', ''connected_unready''} \<longrightarrow>
        ps_desired s \<and> 0 < ps_connected_since s \<and> ps_missing_since s \<le> 0) \<and>
     (ps_repair_awaiting_cache_removal s \<longrightarrow> ps_repair_requested s)"

definition manager_inv :: "peer_manager \<Rightarrow> bool" where
  "manager_inv pm \<longleftrightarrow> (\<forall>mac s. pm_sessions pm mac = Some s \<longrightarrow> session_inv mac s)"

datatype peer_event =
    Sync_device seconds seconds device_info node_config string bool bool
  | Note_missing string seconds
  | Pairing_event "string \<Rightarrow> device_info option" seconds seconds string string
  | Request_reset string seconds string bool
  | Clear_reset string bool
  | Local_connect string seconds
  | Prune "string set" seconds seconds
  | Remove_bridge string

definition on_session :: "peer_manager \<Rightarrow> string \<Rightarrow> (peer_session \<Rightarrow> peer_session) \<Rightarrow> peer_manager" where
  "on_session pm mac f =
     (case pm_sessions pm mac of None \<Rightarrow> pm
      | Some s \<Rightarrow> pm\<lparr>pm_sessions := (pm_sessions pm)(mac \<mapsto> f s)\<rparr>)"

fun peer_step ::
    "(string \<Rightarrow> string \<Rightarrow> bool option) \<Rightarrow> peer_event \<Rightarrow> peer_manager \<Rightarrow> peer_manager" where
  "peer_step re (Sync_device seen now d c name pr pa) pm = sync_device re pm seen now d c name pr pa"
| "peer_step re (Note_missing mac now) pm = note_missing_device pm mac now"
| "peer_step re (Pairing_event cache seen now path event) pm =
     note_pairing_event cache pm seen now path event"
| "peer_step re (Request_reset mac now reason rp) pm =
     on_session pm mac (\<lambda>s. request_device_reset s now reason rp)"
| "peer_step re (Clear_reset mac b) pm = on_session pm mac (\<lambda>s. clear_device_reset s b)"
| "peer_step re (Local_connect mac now) pm =
     on_session pm mac (\<lambda>s. note_local_connect_attempt s now)"
| "peer_step re (Prune macs now ttl) pm = prune_sessions pm macs now ttl"
| "peer_step re (Remove_bridge mac) pm = remove_time_bridge pm mac"

text \<open>The monotonic clock reads a positive number of seconds.\<close>

fun peer_event_ok :: "peer_event \<Rightarrow> bool" where
  "peer_event_ok (Sync_device seen now d c name pr pa) = (0 < now)"
| "peer_event_ok e = True"

definition empty_manager :: peer_manager where
  "empty_manager = \<lparr>pm_sessions = Map.empty, pm_time_bridges = Map.empty\<rparr>"

lemma manager_inv_update:
  "manager_inv pm \<Longrightarrow> session_inv mac s \<Longrightarrow>
   manager_inv (pm\<lparr>pm_sessions := (pm_sessions pm)(mac \<mapsto> s)\<rparr>)"
  by (auto simp: manager_inv_def)

lemma manager_inv_session: "manager_inv pm \<Longrightarrow> pm_sessions pm mac = Some s \<Longrightarrow> session_inv mac s"
  by (simp add: manager_inv_def)

lemma on_session_inv:
  "manager_inv pm \<Longrightarrow> (\<And>s. session_inv mac s \<Longrightarrow> session_inv mac (f s)) \<Longrightarrow>
   manager_inv (on_session pm mac f)"
  by (auto simp: on_session_def manager_inv_session intro!: manager_inv_update split: option.splits)

lemma get_or_create_inv:
  "manager_inv pm \<Longrightarrow> session_inv mac (get_or_create_session (pm_sessions pm) now mac name)"
  by (auto simp: get_or_create_session_def session_inv_def default_session_def known_phases_def Let_def
      dest!: manager_inv_session split: option.splits)

lemma sync_session_desired_since:
  "ps_desired_since (sync_session re s d c now pr pa) =
     (if policy_desires re c d (ps_peer_name s)
      then (if \<not> ps_desired s \<or> ps_desired_since s \<le> 0 then now else ps_desired_since s) else 0)"
proof -
  have "ps_desired_since (sync_policy re s d c now) =
     (if policy_desires re c d (ps_peer_name s)
      then (if \<not> ps_desired s \<or> ps_desired_since s \<le> 0 then now else ps_desired_since s) else 0)"
    by (auto simp: sync_policy_def policy_desires_def Let_def)
  then show ?thesis
    by (simp add: sync_session_def Let_def) (simp add: set_session_phase_def)
qed

lemma stage_awaiting:
  "ps_repair_awaiting_cache_removal (sync_undesired s d c) \<Longrightarrow>
     ps_repair_requested s = ps_repair_requested (sync_undesired s d c) \<and> ps_repair_awaiting_cache_removal s"
  "ps_repair_awaiting_cache_removal (note_connection s c now) \<Longrightarrow>
     ps_repair_requested s = ps_repair_requested (note_connection s c now) \<and> ps_repair_awaiting_cache_removal s"
  "ps_repair_awaiting_cache_removal (sync_unpaired s) = ps_repair_awaiting_cache_removal s"
  "ps_repair_requested (sync_unpaired s) = ps_repair_requested s"
  "ps_repair_awaiting_cache_removal (sync_unresolved s now pr pa) = ps_repair_awaiting_cache_removal s"
  "ps_repair_requested (sync_unresolved s now pr pa) = ps_repair_requested s"
  "ps_repair_awaiting_cache_removal (sync_resolved s now pr) = ps_repair_awaiting_cache_removal s"
  "ps_repair_requested (sync_resolved s now pr) = ps_repair_requested s"
  by (auto simp: sync_undesired_def note_connection_def sync_unpaired_def sync_unresolved_def
      sync_resolved_def set_session_phase_def clear_device_reset_def Let_def split: if_splits)

lemma sync_session_awaiting:
  assumes "ps_repair_awaiting_cache_removal s \<longrightarrow> ps_repair_requested s"
    and "ps_repair_awaiting_cache_removal (sync_session re s d c now pr pa)"
  shows "ps_repair_requested (sync_session re s d c now pr pa)"
proof -
  let ?p = "sync_policy re s d c now"
  have p: "ps_repair_awaiting_cache_removal ?p \<longrightarrow> ps_repair_requested ?p" using assms(1) by simp
  have n: "ps_repair_awaiting_cache_removal (note_connection ?p c now) \<longrightarrow>
           ps_repair_requested (note_connection ?p c now)"
    using p stage_awaiting(2) by blast
  have u: "ps_repair_awaiting_cache_removal (sync_undesired ?p d c) \<longrightarrow>
           ps_repair_requested (sync_undesired ?p d c)"
    using p stage_awaiting(1) by blast
  from assms(2) n u p show ?thesis
    by (simp add: sync_session_def sync_connected_def stage_awaiting(3-) Let_def split: if_splits)
       (simp add: set_session_phase_def)
qed

lemma sync_session_inv:
  "0 < now \<Longrightarrow> session_inv mac s \<Longrightarrow> session_inv mac (sync_session re s d c now pr pa)"
  using sync_session_awaiting [of s re d c now pr pa]
  by (auto simp: session_inv_def sync_session_phase sync_session_connected_since
      sync_session_desired_since known_phases_def)

lemma note_missing_session_inv: "session_inv mac s \<Longrightarrow> session_inv mac (note_missing_session s t)"
  by (auto simp: session_inv_def note_missing_session_def set_session_phase_def known_phases_def
      clear_device_reset_def Let_def)

lemma pairing_event_inv: "session_inv mac s \<Longrightarrow> session_inv mac (pairing_event_session s d e t)"
  by (auto simp: session_inv_def pairing_event_session_def set_session_phase_def known_phases_def Let_def)

lemma request_device_reset_inv: "session_inv mac s \<Longrightarrow> session_inv mac (request_device_reset s t r b)"
  by (auto simp: session_inv_def request_device_reset_def set_session_phase_def known_phases_def Let_def)

lemma clear_device_reset_inv: "session_inv mac s \<Longrightarrow> session_inv mac (clear_device_reset s b)"
  by (auto simp: session_inv_def)

lemma note_local_connect_inv: "session_inv mac s \<Longrightarrow> session_inv mac (note_local_connect_attempt s t)"
  by (auto simp: session_inv_def note_local_connect_attempt_def)

lemmas session_inv_ops = sync_session_inv note_missing_session_inv pairing_event_inv
  request_device_reset_inv clear_device_reset_inv note_local_connect_inv

lemma peer_step_inv: "peer_event_ok e \<Longrightarrow> manager_inv pm \<Longrightarrow> manager_inv (peer_step re e pm)"
proof (cases e)
  case (Prune macs now ttl)
  then show "manager_inv pm \<Longrightarrow> manager_inv (peer_step re e pm)"
    by (auto simp: prune_sessions_def manager_inv_def split: option.splits if_splits)
next
  case (Remove_bridge mac)
  then show "manager_inv pm \<Longrightarrow> manager_inv (peer_step re e pm)"
    by (auto simp: remove_time_bridge_def manager_inv_def split: option.splits)
next
  case (Note_missing mac now)
  then show "manager_inv pm \<Longrightarrow> manager_inv (peer_step re e pm)"
    by (auto simp: note_missing_device_def intro!: manager_inv_update session_inv_ops
        dest: manager_inv_session split: option.splits)
qed (auto simp: sync_device_def note_pairing_event_def Let_def get_or_create_inv
    intro!: manager_inv_update on_session_inv session_inv_ops split: option.splits)

interpretation peers: invariant_machine empty_manager "peer_step re" peer_event_ok manager_inv
  by unfold_locales (simp add: manager_inv_def empty_manager_def, rule peer_step_inv)



end
