(* ===== verification/Peer_Sync.thy ===== *)
theory Peer_Sync
  imports Peer_Correct
begin

text \<open>
  Synchronisation as an operation of the whole manager: it is idempotent on a repeated
  snapshot, it touches one session only, it ignores devices that are irrelevant, and
  pruning forgets exactly the sessions nobody refers to.
\<close>

section \<open>Idempotence\<close>

definition policy_settled ::
    "(string \<Rightarrow> string \<Rightarrow> bool option) \<Rightarrow> peer_session \<Rightarrow> device_info \<Rightarrow> node_config \<Rightarrow> bool" where
  "policy_settled re s d c \<longleftrightarrow>
     ps_missing_since s = 0 \<and>
     ps_explicit_target s = whitelist_contains (peer_whitelist c) (dv_mac d) (ps_peer_name s) \<and>
     ps_peer_candidate s = matches_auto_connect_policy re d c (ps_peer_name s) \<and>
     ps_desired s = policy_desires re c d (ps_peer_name s) \<and>
     (if ps_desired s then 0 < ps_desired_since s else ps_desired_since s = 0) \<and>
     \<not> ps_forget_pending s \<and>
     ps_services_wait_grace_s s = max kServicesWaitGraceMin (peer_connection_timeout c) \<and>
     (\<not> dv_paired d \<and> \<not> dv_bonded d \<longrightarrow>
        ps_init_notify_failure s = 0 \<and> ps_init_notify_failure_count s = 0) \<and>
     (\<not> dv_connected d \<and> \<not> device_has_local_security d \<and> \<not> dv_services_resolved d \<and>
      \<not> ps_repair_requested s \<longrightarrow> \<not> ps_repair_in_progress s)"

lemma sync_policy_touched [simp]:
  "ps_explicit_target (sync_policy re s d c now) = whitelist_contains (peer_whitelist c) (dv_mac d) (ps_peer_name s)"
  "ps_peer_candidate (sync_policy re s d c now) = matches_auto_connect_policy re d c (ps_peer_name s)"
  "\<not> ps_forget_pending (sync_policy re s d c now)"
  "ps_services_wait_grace_s (sync_policy re s d c now) = max kServicesWaitGraceMin (peer_connection_timeout c)"
  "ps_init_notify_failure (sync_policy re s d c now) =
     (if dv_paired d \<or> dv_bonded d then ps_init_notify_failure s else 0)"
  "ps_init_notify_failure_count (sync_policy re s d c now) =
     (if dv_paired d \<or> dv_bonded d then ps_init_notify_failure_count s else 0)"
  "ps_desired_since (sync_policy re s d c now) =
     (if policy_desires re c d (ps_peer_name s)
      then (if \<not> ps_desired s \<or> ps_desired_since s \<le> 0 then now else ps_desired_since s) else 0)"
  by (auto simp: sync_policy_def policy_desires_def Let_def)

lemma sync_policy_untouched [simp]:
  "ps_peer_initiated (sync_policy re s d c now) = ps_peer_initiated s"
  "ps_first_seen (sync_policy re s d c now) = ps_first_seen s"
  "ps_last_seen (sync_policy re s d c now) = ps_last_seen s"
  "ps_last_security_attempt (sync_policy re s d c now) = ps_last_security_attempt s"
  "ps_pairing_wait_started (sync_policy re s d c now) = ps_pairing_wait_started s"
  "ps_last_policy_action (sync_policy re s d c now) = ps_last_policy_action s"
  "ps_last_repair (sync_policy re s d c now) = ps_last_repair s"
  "ps_repair_requested_at (sync_policy re s d c now) = ps_repair_requested_at s"
  "ps_last_service_retry (sync_policy re s d c now) = ps_last_service_retry s"
  "ps_last_pairing_request (sync_policy re s d c now) = ps_last_pairing_request s"
  "ps_bridge_wait_started (sync_policy re s d c now) = ps_bridge_wait_started s"
  "ps_last_notify_failure (sync_policy re s d c now) = ps_last_notify_failure s"
  "ps_bridge_wait_reason (sync_policy re s d c now) = ps_bridge_wait_reason s"
  "ps_notify_failure_count (sync_policy re s d c now) = ps_notify_failure_count s"
  "ps_pairing_in_progress (sync_policy re s d c now) = ps_pairing_in_progress s"
  "ps_pairing_reset_pending (sync_policy re s d c now) = ps_pairing_reset_pending s"
  "ps_time_bridge_healthy (sync_policy re s d c now) = ps_time_bridge_healthy s"
  "ps_local_time_notify_active (sync_policy re s d c now) = ps_local_time_notify_active s"
  "ps_repair_reason (sync_policy re s d c now) = ps_repair_reason s"
  "ps_services_wait_started (sync_policy re s d c now) = ps_services_wait_started s"
  "ps_services_resolved_since (sync_policy re s d c now) = ps_services_resolved_since s"
  "ps_service_regression_started (sync_policy re s d c now) = ps_service_regression_started s"
  "ps_last_notify_failure_path (sync_policy re s d c now) = ps_last_notify_failure_path s"
  "ps_remote_gatt_missing_since (sync_policy re s d c now) = ps_remote_gatt_missing_since s"
  "ps_remote_gatt_missing_checks (sync_policy re s d c now) = ps_remote_gatt_missing_checks s"
  "ps_import_bridge_missing_since (sync_policy re s d c now) = ps_import_bridge_missing_since s"
  by (simp_all add: sync_policy_def Let_def)

lemma sync_policy_settled: "policy_settled re s d c \<Longrightarrow> sync_policy re s d c now = s"
  by (rule peer_session.equality) (auto simp: policy_settled_def)

lemma policy_settled_sync_policy: "0 < now \<Longrightarrow> policy_settled re (sync_policy re s d c now) d c"
  by (simp add: policy_settled_def)

lemma settled_phase: "policy_settled re (set_session_phase s p t) d c = policy_settled re s d c"
  by (simp add: policy_settled_def set_session_phase_def)

lemma settled_disconnected: "policy_settled re (sync_disconnected s) d c = policy_settled re s d c"
  by (simp add: policy_settled_def sync_disconnected_def set_session_phase_def Let_def)

lemma settled_clear: "policy_settled re s d c \<Longrightarrow> policy_settled re (clear_device_reset s b) d c"
  by (auto simp: policy_settled_def clear_device_reset_def Let_def)

lemma settled_undesired: "policy_settled re s d c \<Longrightarrow> policy_settled re (sync_undesired s d c) d c"
  by (auto simp: policy_settled_def sync_undesired_def clear_device_reset_def set_session_phase_def Let_def)

lemma settled_note_connection: "policy_settled re s d c \<Longrightarrow> policy_settled re (note_connection s c now) d c"
  by (auto simp: policy_settled_def note_connection_def clear_device_reset_def Let_def)

lemma settled_unpaired: "policy_settled re (sync_unpaired s) d c = policy_settled re s d c"
  by (simp add: policy_settled_def sync_unpaired_def set_session_phase_def Let_def)

lemma settled_unresolved: "policy_settled re (sync_unresolved s now pr pa) d c = policy_settled re s d c"
  by (simp add: policy_settled_def sync_unresolved_def set_session_phase_def Let_def)

lemma settled_resolved: "policy_settled re (sync_resolved s now pr) d c = policy_settled re s d c"
  by (simp add: policy_settled_def sync_resolved_def set_session_phase_def Let_def)

lemma settled_pairing_done:
  "policy_settled re (s\<lparr>ps_pairing_in_progress := False, ps_pairing_wait_started := 0\<rparr>) d c =
   policy_settled re s d c"
  by (simp add: policy_settled_def)

lemma settled_sync_session:
  assumes "0 < now"
  shows "policy_settled re (sync_session re s d c now pr pa) d c"
  using policy_settled_sync_policy [OF assms, of re s d c]
  by (auto simp: sync_session_def sync_connected_def settled_phase settled_disconnected settled_undesired
      settled_note_connection settled_unpaired settled_unresolved settled_resolved settled_pairing_done Let_def)

lemma undesired_idem: "sync_undesired (sync_undesired s d c) d c = sync_undesired s d c"
  by (cases "device_needs_forget d"; cases "dv_connected d"; cases "ps_peer_candidate s")
     (simp_all add: sync_undesired_def clear_device_reset_def set_session_phase_def)

lemma disconnected_idem: "sync_disconnected (sync_disconnected s) = sync_disconnected s"
  by (cases "ps_phase s \<in> {''connecting'', ''connect_pending''}"; cases "0 < ps_last_connect_attempt s")
     (auto simp: sync_disconnected_def set_session_phase_def)

lemma note_connection_id: "0 < ps_connected_since s \<Longrightarrow> note_connection s c now = s"
  by (cases s) (simp add: note_connection_def Let_def)

lemma unpaired_idem: "sync_unpaired (sync_unpaired s) = sync_unpaired s"
  by (cases "ps_pairing_in_progress s";
      cases "ps_detail s = [] \<or> ps_detail s = ''connected, waiting for pairing''")
     (simp_all add: sync_unpaired_def set_session_phase_def)

lemma unresolved_idem:
  "0 < now \<Longrightarrow> sync_unresolved (sync_unresolved s now pr pa) now pr pa = sync_unresolved s now pr pa"
  by (cases pr; cases pa; cases "ps_detail s = []"; cases "ps_service_regression_started s \<le> 0";
      cases "ps_services_wait_started s \<le> 0")
     (simp_all add: sync_unresolved_def set_session_phase_def)

lemma resolved_idem:
  "0 < now \<Longrightarrow> sync_resolved (sync_resolved s now pr) now pr = sync_resolved s now pr"
  by (cases pr; cases "ps_services_resolved_since s \<le> 0")
     (simp_all add: sync_resolved_def set_session_phase_def)

lemma pairing_done_unresolved:
  "sync_unresolved (s\<lparr>ps_pairing_in_progress := False, ps_pairing_wait_started := 0\<rparr>) now pr pa =
   (sync_unresolved s now pr pa)\<lparr>ps_pairing_in_progress := False, ps_pairing_wait_started := 0\<rparr>"
  by (simp add: sync_unresolved_def set_session_phase_def Let_def)

lemma pairing_done_resolved:
  "sync_resolved (s\<lparr>ps_pairing_in_progress := False, ps_pairing_wait_started := 0\<rparr>) now pr =
   (sync_resolved s now pr)\<lparr>ps_pairing_in_progress := False, ps_pairing_wait_started := 0\<rparr>"
  by (simp add: sync_resolved_def set_session_phase_def Let_def)

lemma connected_idem:
  assumes "0 < now"
  shows "sync_connected (sync_connected s d c now pr pa) d c now pr pa = sync_connected s d c now pr pa"
proof -
  have "0 < ps_connected_since (sync_connected s d c now pr pa)" using assms by simp
  then have n: "note_connection (sync_connected s d c now pr pa) c now = sync_connected s d c now pr pa"
    by (rule note_connection_id)
  show ?thesis
  proof (cases "device_has_required_pairing d c")
    case True
    then show ?thesis
      using assms n by (cases "dv_services_resolved d")
        (simp_all add: sync_connected_def Let_def pairing_done_unresolved pairing_done_resolved
          unresolved_idem resolved_idem)
  next
    case False
    then show ?thesis using n by (simp add: sync_connected_def Let_def unpaired_idem)
  qed
qed

text \<open>Synchronising the same snapshot again at the same instant changes nothing, for every
  session, device and configuration: timers are not restarted, counters are not bumped and
  no phase oscillates.\<close>

theorem sync_session_idem:
  assumes "0 < now"
  shows "sync_session re (sync_session re s d c now pr pa) d c now pr pa =
         sync_session re s d c now pr pa"
proof -
  let ?S = "sync_session re s d c now pr pa"
  let ?p = "sync_policy re s d c now"
  have p: "sync_policy re ?S d c now = ?S"
    by (rule sync_policy_settled) (rule settled_sync_session [OF assms])
  have phase_idem: "set_session_phase (set_session_phase x a b) a b = set_session_phase x a b" for x a b
    by (simp add: set_session_phase_def)
  have "?S = (if \<not> policy_desires re c d (ps_peer_name s) then sync_undesired ?p d c
     else if dv_blocked d then set_session_phase ?p ''blocked'' ''device is blocked by BlueZ''
     else if \<not> dv_connected d then sync_disconnected ?p else sync_connected ?p d c now pr pa)"
    by (simp add: sync_session_def Let_def)
  moreover have "sync_session re ?S d c now pr pa =
    (if \<not> policy_desires re c d (ps_peer_name s) then sync_undesired ?S d c
     else if dv_blocked d then set_session_phase ?S ''blocked'' ''device is blocked by BlueZ''
     else if \<not> dv_connected d then sync_disconnected ?S else sync_connected ?S d c now pr pa)"
    by (subst sync_session_def) (simp add: p Let_def)
  ultimately show ?thesis
    by (simp add: undesired_idem disconnected_idem connected_idem [OF assms] phase_idem)
qed

theorem sync_session_idem_witness:
  "sync_session (\<lambda>_ _. None) (sync_session (\<lambda>_ _. None) demo_session demo_device demo_config 4 False True)
     demo_device demo_config 4 False True =
   sync_session (\<lambda>_ _. None) demo_session demo_device demo_config 4 False True"
proof -
  have "(0::seconds) < 4" by simp
  then show ?thesis by (rule sync_session_idem)
qed

section \<open>The session map\<close>

lemma sync_device_other:
  "mac \<noteq> dv_mac d \<Longrightarrow>
   pm_sessions (sync_device re pm seen now d c name pr pa) mac = pm_sessions pm mac"
  by (simp add: sync_device_def Let_def)

lemma sync_device_bridges [simp]:
  "pm_time_bridges (sync_device re pm seen now d c name pr pa) = pm_time_bridges pm"
  by (simp add: sync_device_def Let_def)

definition tracks_device ::
    "peer_manager \<Rightarrow> device_info \<Rightarrow> node_config \<Rightarrow> string \<Rightarrow> bool" where
  "tracks_device pm d c name \<longleftrightarrow>
     pm_sessions pm (dv_mac d) \<noteq> None \<or> dv_connected d \<or> dv_services_resolved d \<or>
     device_has_local_security d \<or> (auto_connect_enable c \<and> name \<noteq> [])"

lemma sync_device_untracked:
  "\<not> tracks_device pm d c name \<Longrightarrow> sync_device re pm seen now d c name pr pa = pm"
  by (auto simp: sync_device_def tracks_device_def Let_def)

text \<open>One snapshot changes the sessions of one address. Every other session and every
  time bridge is untouched; a session exists afterwards exactly when the device was tracked
  already, carries connection or security state, or is a named device while automatic
  connection is on, so rotating private addresses heard in broadcast mode do not grow the
  map.\<close>

theorem sync_device_frame:
  "dom (pm_sessions (sync_device re pm seen now d c name pr pa)) =
     (if tracks_device pm d c name then insert (dv_mac d) (dom (pm_sessions pm))
      else dom (pm_sessions pm))
   \<and> pm_sessions (sync_device re pm seen now d c name pr pa) |` (- {dv_mac d}) =
       pm_sessions pm |` (- {dv_mac d})
   \<and> pm_time_bridges (sync_device re pm seen now d c name pr pa) = pm_time_bridges pm"
proof (cases "tracks_device pm d c name")
  case True
  then have "sync_device re pm seen now d c name pr pa =
    pm\<lparr>pm_sessions := (pm_sessions pm)(dv_mac d \<mapsto>
      sync_session re (get_or_create_session (pm_sessions pm) seen (dv_mac d) name) d c now pr pa)\<rparr>"
    by (auto simp: sync_device_def tracks_device_def Let_def)
  with True show ?thesis by (auto simp: restrict_map_def fun_eq_iff)
next
  case False
  then show ?thesis by (simp add: sync_device_untracked)
qed

text \<open>Pruning removes exactly the sessions whose device is not in the current cache, which
  own no time bridge and which were last seen more than the time-to-live ago; all others are
  kept as they are, and a second pruning with the same arguments removes nothing.\<close>

theorem prune_sessions_exact:
  "(pm_sessions (prune_sessions pm macs now ttl) mac = Some s \<longleftrightarrow>
     pm_sessions pm mac = Some s \<and>
     (mac \<in> macs \<union> dom (pm_time_bridges pm) \<or> now - ps_last_seen s \<le> ttl))
   \<and> prune_sessions (prune_sessions pm macs now ttl) macs now ttl = prune_sessions pm macs now ttl"
  by (auto simp: prune_sessions_def fun_eq_iff split: option.splits if_splits)

end
