(* ===== verification/Bridge_Frame.thy ===== *)
theory Bridge_Frame
  imports Util_Strings Config_Models
begin

text \<open>
  The channel frame of \<open>src/bridge/transport_bridge_manager.cpp\<close> (magic, version, channel,
  payload), the direction tests, map keys and peer tokens, and the two access layouts a
  frame travels in: an advertisement field and a Mesh vendor access message.
\<close>

definition kFrameMagic0 :: u8 where "kFrameMagic0 = 77"
definition kFrameMagic1 :: u8 where "kFrameMagic1 = 66"
definition kFrameVersion :: u8 where "kFrameVersion = 1"
definition kFrameHeaderSize :: nat where "kFrameHeaderSize = 5"

lemmas frame_constants = kFrameMagic0_def kFrameMagic1_def kFrameVersion_def kFrameHeaderSize_def

definition lo_byte :: "u16 \<Rightarrow> u8" where
  "lo_byte w = ucast (w AND 255)"

definition hi_byte :: "u16 \<Rightarrow> u8" where
  "hi_byte w = ucast (drop_bit 8 w)"

definition join_bytes :: "u8 \<Rightarrow> u8 \<Rightarrow> u16" where
  "join_bytes lo hi = ucast lo OR push_bit 8 (ucast hi)"

definition exports_topic :: "shared_topic_config \<Rightarrow> bool" where
  "exports_topic item \<longleftrightarrow> st_mode item = ''export'' \<or> st_mode item = ''both''"

definition imports_topic :: "shared_topic_config \<Rightarrow> bool" where
  "imports_topic item \<longleftrightarrow> st_mode item = ''import'' \<or> st_mode item = ''both''"

definition entry_key :: "string \<Rightarrow> u16 \<Rightarrow> string" where
  "entry_key transport channel_id = transport @ '':'' @ show_nat (unat channel_id)"

definition frame_payload :: "u16 \<Rightarrow> u8 list \<Rightarrow> u8 list" where
  "frame_payload channel_id payload =
     [kFrameMagic0, kFrameMagic1, kFrameVersion, lo_byte channel_id, hi_byte channel_id] @ payload"

definition unframe_payload :: "u8 list \<Rightarrow> nat \<Rightarrow> (u16 \<times> u8 list) option" where
  "unframe_payload data offset =
     (if length data < offset + kFrameHeaderSize \<or>
         data ! offset \<noteq> kFrameMagic0 \<or> data ! (offset + 1) \<noteq> kFrameMagic1 \<or>
         data ! (offset + 2) \<noteq> kFrameVersion
      then None
      else Some (join_bytes (data ! (offset + 3)) (data ! (offset + 4)),
                 drop (offset + kFrameHeaderSize) data))"

definition safe_peer_token :: "string \<Rightarrow> string" where
  "safe_peer_token peer =
     (let peer = sanitize_topic_suffix peer;
          peer = (if peer = [] then ''unknown'' else peer)
      in if is_digit (hd peer) then ''peer_'' @ peer else peer)"

section \<open>Facts about frames\<close>

lemma join_bytes_split [simp]: "join_bytes (lo_byte w) (hi_byte w) = w"
proof (rule bit_word_eqI)
  fix n assume n: "n < LENGTH(16)"
  have "bit (255::16 word) n \<longleftrightarrow> n < 8"
    using n bit_mask_iff [where 'a = "16 word", of 8 n] by (simp add: mask_eq_exp_minus_1)
  with n show "bit (join_bytes (lo_byte w) (hi_byte w)) n \<longleftrightarrow> bit w n"
    by (auto simp: join_bytes_def lo_byte_def hi_byte_def bit_simps)
qed

lemma lo_byte_join [simp]: "lo_byte (join_bytes a b) = a"
proof (rule bit_word_eqI)
  fix n assume n: "n < LENGTH(8)"
  have "bit (255::16 word) n"
    using n bit_mask_iff [where 'a = "16 word", of 8 n] by (simp add: mask_eq_exp_minus_1)
  with n show "bit (lo_byte (join_bytes a b)) n \<longleftrightarrow> bit a n"
    by (auto simp: join_bytes_def lo_byte_def bit_simps)
qed

lemma hi_byte_join [simp]: "hi_byte (join_bytes a b) = b"
  by (rule bit_word_eqI) (auto simp: join_bytes_def hi_byte_def bit_simps dest: bit_imp_le_length)

lemma unframe_frame: "unframe_payload (pre @ frame_payload ch payload) (length pre) = Some (ch, payload)"
  by (simp add: unframe_payload_def frame_payload_def frame_constants nth_append)

lemma unframe_exact:
  assumes "unframe_payload data n = Some (ch, payload)"
  shows "drop n data = frame_payload ch payload"
proof -
  from assms have l: "n + 5 \<le> length data" and h: "data ! n = kFrameMagic0"
    "data ! (n + 1) = kFrameMagic1" "data ! (n + 2) = kFrameVersion"
    and c: "ch = join_bytes (data ! (n + 3)) (data ! (n + 4))" and p: "payload = drop (n + 5) data"
    by (auto simp: unframe_payload_def kFrameHeaderSize_def split: if_splits)
  have "drop n data = [data ! n, data ! (n + 1), data ! (n + 2), data ! (n + 3), data ! (n + 4)] @ drop (n + 5) data"
    using l by (simp add: Cons_nth_drop_Suc [symmetric] eval_nat_numeral)
  then show ?thesis by (simp add: frame_payload_def h [simplified] c p)
qed

interpretation channel_frame: exact_wire_format
  "\<lambda>(ch, payload). frame_payload ch payload" "\<lambda>data. unframe_payload data 0" "\<lambda>_. True"
  by unfold_locales
     (auto simp: unframe_frame [of "[]", simplified] dest: unframe_exact [of _ 0, simplified])

text \<open>the channel frame is an exact format: the reader returns a channel and payload if and
  only if the bytes are exactly the frame of that channel and payload, for every channel
  number and every payload; two different (channel, payload) pairs have different frames.\<close>

theorem channel_frame_exact:
  "(unframe_payload data 0 = Some (ch, payload) \<longleftrightarrow> data = frame_payload ch payload)
   \<and> (frame_payload ch payload = frame_payload ch' payload' \<longleftrightarrow> ch = ch' \<and> payload = payload')"
  using channel_frame.dec_Some_iff [of data "(ch, payload)"]
    channel_frame.enc_inject [of "(ch, payload)" "(ch', payload')"] by auto

section \<open>Facts about keys and peer tokens\<close>

lemma show_nat_no_colon: "CHR '':'' \<notin> set (show_nat n)"
  using show_nat_digits [of n] by (auto simp: list_all_iff is_digit_def char_code_def)

lemma append_sep_inject:
  "c \<notin> set a \<Longrightarrow> c \<notin> set a' \<Longrightarrow> b @ c # a = b' @ c # a' \<longleftrightarrow> b = b' \<and> a = a'"
  by (auto simp: append_eq_append_conv2 Cons_eq_append_conv append_eq_Cons_conv)

lemma entry_key_inject [simp]: "entry_key t c = entry_key t' c' \<longleftrightarrow> t = t' \<and> c = c'"
  using append_sep_inject [OF show_nat_no_colon show_nat_no_colon, of t "unat c" t' "unat c'"]
  by (simp add: entry_key_def word_unat_eq_iff)

lemma safe_peer_token_chars: "list_all topic_char (safe_peer_token p) \<and> safe_peer_token p \<noteq> []"
  using sanitize_chars [of p]
  by (simp add: safe_peer_token_def Let_def topic_char_def char_class_defs char_code_def)

lemma safe_peer_token_start: "\<not> is_digit (hd (safe_peer_token p)) \<and> hd (safe_peer_token p) \<noteq> CHR ''_''"
  using sanitize_ends [of p] by (simp add: safe_peer_token_def Let_def is_digit_def char_code_def)

end
