(* ===== verification/Transport_Bridge.thy ===== *)
theory Transport_Bridge
  imports Bridge_Frame
begin

text \<open>
  \<open>TransportBridgeManager\<close> of \<open>src/bridge/transport_bridge_manager.cpp\<close>: the bridge entries
  of one configuration generation, the export path from a local ROS sample to a transport,
  and the import path from advertisement and Mesh bytes to a ROS publication.

  The ROS side (the type-erased codec of \<open>GenericMessageBridge\<close> with its runtime type
  support, subscriptions, publishers) is the environment \<open>ros_env\<close>: each field says what one
  call returns or which exception it throws. A transport sender is a function that accepts,
  declines or throws. \<open>flush\<close> releases the entry lock around the sender call, so it is two
  steps here, \<open>flush_begin\<close> and \<open>flush_end\<close>, with the dispatch in flight between them.
  Generations and revisions are unbounded counters (the code's are 64 bits wide and only
  incremented).
\<close>

record 'msg ros_env =
  ros_type_support :: "string \<Rightarrow> std_error option"
  ros_encode :: "string \<Rightarrow> 'msg \<Rightarrow> bridge_member_spec list \<Rightarrow> string \<Rightarrow> std_error + u8 list"
  ros_decode :: "string \<Rightarrow> u8 list \<Rightarrow> bridge_member_spec list \<Rightarrow> string \<Rightarrow>
                 bridge_assignment_spec list \<Rightarrow> std_error + 'msg"
  ros_subscribe :: "string \<Rightarrow> string \<Rightarrow> std_error option"
  ros_create_publisher :: "string \<Rightarrow> string \<Rightarrow> std_error option"
  ros_publish :: "string \<Rightarrow> 'msg \<Rightarrow> std_error option"

type_synonym advertisement_sender = "u8 list \<Rightarrow> std_error + bool"
type_synonym mesh_sender = "shared_topic_config \<Rightarrow> u8 list \<Rightarrow> std_error + bool"

record entry =
  en_config :: shared_topic_config
  en_generation :: nat
  en_revision :: nat
  en_subscription :: "string option"
  en_timer_period :: "seconds option"
  en_pending_payload :: "u8 list option"
  en_next_dispatch_at :: ticks
  en_publishers :: "string \<rightharpoonup> string"
  en_recent_payloads :: "string \<rightharpoonup> (ticks \<times> u8 list) list"

record bridge_impl =
  im_next_generation :: nat
  im_peers_prefix :: string
  im_peer_whitelist :: "string list"
  im_mesh_peer_by_address :: "u16 \<rightharpoonup> string"
  im_entries :: "string \<rightharpoonup> entry"

definition empty_entry :: "shared_topic_config \<Rightarrow> nat \<Rightarrow> entry" where
  "empty_entry config generation = \<lparr>en_config = config, en_generation = generation,
     en_revision = 0, en_subscription = None, en_timer_period = None,
     en_pending_payload = None, en_next_dispatch_at = 0, en_publishers = Map.empty,
     en_recent_payloads = Map.empty\<rparr>"

definition empty_impl :: bridge_impl where
  "empty_impl = \<lparr>im_next_generation = 0, im_peers_prefix = [], im_peer_whitelist = [],
     im_mesh_peer_by_address = Map.empty, im_entries = Map.empty\<rparr>"

section \<open>Export path\<close>

definition mesh_access_payload :: "shared_topic_config \<Rightarrow> u8 list \<Rightarrow> u8 list" where
  "mesh_access_payload config payload =
     [st_mesh_vendor_opcode config, lo_byte (st_mesh_company_id config),
      hi_byte (st_mesh_company_id config)] @ frame_payload (st_channel_id config) payload"

definition dispatch ::
    "shared_topic_config \<Rightarrow> u8 list \<Rightarrow> advertisement_sender option \<Rightarrow> mesh_sender option \<Rightarrow>
     std_error + bool" where
  "dispatch config payload advertisement_sender mesh_sender =
     (if st_transport config = ''advertisement''
      then (case advertisement_sender of
              None \<Rightarrow> Inl (Runtime_error ''advertisement bridge sender is unavailable'')
            | Some send \<Rightarrow> send (if st_advertisement_bare config then payload
                                 else frame_payload (st_channel_id config) payload))
      else (case mesh_sender of
              None \<Rightarrow> Inl (Runtime_error ''Mesh bridge sender is unavailable'')
            | Some send \<Rightarrow> send config (mesh_access_payload config payload)))"

text \<open>The part of \<open>handle_local_message\<close> under the entry lock; \<open>True\<close> asks for a flush.\<close>

definition store_local_message ::
    "'msg ros_env \<Rightarrow> string \<Rightarrow> nat \<Rightarrow> 'msg \<Rightarrow> bridge_impl \<Rightarrow> bridge_impl \<times> bool" where
  "store_local_message env key generation message im =
     (case im_entries im key of
        None \<Rightarrow> (im, False)
      | Some entry \<Rightarrow>
          if en_generation entry \<noteq> generation then (im, False)
          else (let config = en_config entry
                in case ros_encode env (st_message_type config) message (st_member_specs config)
                          (st_payload_format config) of
                     Inl error \<Rightarrow> (im, False)
                   | Inr payload \<Rightarrow>
                       (im\<lparr>im_entries := (im_entries im)(key \<mapsto>
                          entry\<lparr>en_pending_payload := Some payload,
                                en_revision := en_revision entry + 1\<rparr>)\<rparr>,
                        \<not> 0 < st_rate_hz config)))"

record in_flight =
  fl_key :: string
  fl_generation :: nat
  fl_config :: shared_topic_config
  fl_payload :: "u8 list"
  fl_revision :: nat

definition flush_begin ::
    "string \<Rightarrow> nat \<Rightarrow> ticks \<Rightarrow> bridge_impl \<Rightarrow> (bridge_impl \<times> in_flight) option" where
  "flush_begin key generation now im =
     (case im_entries im key of
        None \<Rightarrow> None
      | Some entry \<Rightarrow>
          if en_generation entry \<noteq> generation then None
          else (case en_pending_payload entry of
                  None \<Rightarrow> None
                | Some payload \<Rightarrow>
                    if 0 < st_rate_hz (en_config entry) \<and> now < en_next_dispatch_at entry then None
                    else Some
                      (im\<lparr>im_entries := (im_entries im)(key \<mapsto> entry\<lparr>en_pending_payload := None\<rparr>)\<rparr>,
                       \<lparr>fl_key = key, fl_generation = generation, fl_config = en_config entry,
                        fl_payload = payload, fl_revision = en_revision entry\<rparr>)))"

definition dispatch_spacing :: "rat \<Rightarrow> ticks" where
  "dispatch_spacing rate_hz = max 1 (seconds_to_ticks (1 / rate_hz))"

function advance_deadline :: "rat \<Rightarrow> ticks \<Rightarrow> ticks \<Rightarrow> ticks" where
  "advance_deadline rate_hz now deadline =
     (let deadline = deadline + dispatch_spacing rate_hz
      in if deadline \<le> now then advance_deadline rate_hz now deadline else deadline)"
  by pat_completeness auto
termination
  by (relation "measure (\<lambda>(rate_hz, now, deadline). nat (now - deadline))")
     (auto simp: dispatch_spacing_def)

declare advance_deadline.simps [simp del]

definition flush_end :: "in_flight \<Rightarrow> std_error + bool \<Rightarrow> ticks \<Rightarrow> bridge_impl \<Rightarrow> bridge_impl" where
  "flush_end fl outcome now im =
     (let accepted = (case outcome of Inl error \<Rightarrow> False | Inr b \<Rightarrow> b)
      in if accepted
         then (case im_entries im (fl_key fl) of
                 None \<Rightarrow> im
               | Some entry \<Rightarrow>
                   if en_generation entry = fl_generation fl \<and> 0 < st_rate_hz (fl_config fl)
                   then im\<lparr>im_entries := (im_entries im)(fl_key fl \<mapsto>
                          entry\<lparr>en_next_dispatch_at :=
                            (if en_next_dispatch_at entry = 0
                             then now + dispatch_spacing (st_rate_hz (fl_config fl))
                             else advance_deadline (st_rate_hz (fl_config fl)) now
                                    (en_next_dispatch_at entry))\<rparr>)\<rparr>
                   else im)
         else (case im_entries im (fl_key fl) of
                 None \<Rightarrow> im
               | Some entry \<Rightarrow>
                   if en_generation entry = fl_generation fl \<and>
                      en_revision entry = fl_revision fl \<and> en_pending_payload entry = None
                   then im\<lparr>im_entries := (im_entries im)(fl_key fl \<mapsto>
                          entry\<lparr>en_pending_payload := Some (fl_payload fl)\<rparr>)\<rparr>
                   else im))"

section \<open>Import path\<close>

definition kReplayHistory :: nat where
  "kReplayHistory = 4096"

definition remember :: "ticks \<Rightarrow> entry \<Rightarrow> string \<Rightarrow> u8 list \<Rightarrow> entry" where
  "remember now entry token payload =
     (let recent = (case en_recent_payloads entry token of None \<Rightarrow> [] | Some r \<Rightarrow> r)
      in if list_ex (\<lambda>seen. snd seen = payload) recent
         then entry\<lparr>en_recent_payloads := (en_recent_payloads entry)(token \<mapsto> recent)\<rparr>
         else
           let recent = recent @ [(now, payload)];
               recent = (if kReplayHistory < length recent then tl recent else recent)
           in entry\<lparr>en_recent_payloads := (en_recent_payloads entry)(token \<mapsto> recent)\<rparr>)"

text \<open>\<open>publish\<close> returns the entry, the publications it made (topic and message) and its
  result.\<close>

definition publish ::
    "'msg ros_env \<Rightarrow> string \<Rightarrow> ticks \<Rightarrow> entry \<Rightarrow> string \<Rightarrow> u8 list \<Rightarrow> bool \<Rightarrow>
     entry \<times> (string \<times> 'msg) list \<times> bool" where
  "publish env prefix now entry peer payload deduplicate =
     (let token = safe_peer_token peer;
          recent = (case en_recent_payloads entry token of None \<Rightarrow> [] | Some r \<Rightarrow> r);
          config = en_config entry;
          entry = (if deduplicate
                   then entry\<lparr>en_recent_payloads := (en_recent_payloads entry)(token \<mapsto> recent)\<rparr>
                   else entry)
      in if deduplicate \<and> list_ex (\<lambda>seen. snd seen = payload) recent
         then (entry, [], True)
         else
           let known = en_publishers entry token;
               topic = (case known of
                          Some t \<Rightarrow> t
                        | None \<Rightarrow> normalize_ros_topic
                            (prefix @ ''/'' @ token @ ''/'' @ st_import_topic_suffix config));
               failed = (known = None \<and> ros_create_publisher env (st_message_type config) topic \<noteq> None)
           in if failed then (entry, [], False)
              else
                let entry = entry\<lparr>en_publishers := (en_publishers entry)(token \<mapsto> topic)\<rparr>
                in case ros_decode env (st_message_type config) payload (st_member_specs config)
                          (st_payload_format config) (st_decode_assignments config) of
                     Inl error \<Rightarrow> (entry, [], False)
                   | Inr message \<Rightarrow>
                       (case ros_publish env topic message of
                          Some error \<Rightarrow> (entry, [], False)
                        | None \<Rightarrow>
                            (if deduplicate then remember now entry token payload else entry,
                             [(topic, message)], True)))"

section \<open>Configuration\<close>

definition whitelist_mesh_number :: "string \<Rightarrow> u16 option" where
  "whitelist_mesh_number normalized =
     (case find_last (\<lambda>c. \<not> is_digit c) normalized of
        None \<Rightarrow> None
      | Some non_digit \<Rightarrow>
          if non_digit + 1 = length normalized then None
          else (let number = digits_value (drop (non_digit + 1) normalized)
                in if 2 ^ 64 \<le> number then None
                   else if 0 < number \<and> number \<le> 0x7fff then Some (of_nat number) else None))"

fun add_whitelist :: "string list \<Rightarrow> bridge_impl \<Rightarrow> bridge_impl" where
  "add_whitelist [] im = im"
| "add_whitelist (peer # peers) im =
     (let normalized = lower_trim_copy peer;
          im = im\<lparr>im_peer_whitelist := im_peer_whitelist im @ [normalized]\<rparr>;
          im = (case whitelist_mesh_number normalized of
                  None \<Rightarrow> im
                | Some number \<Rightarrow>
                    if im_mesh_peer_by_address im number = None
                    then im\<lparr>im_mesh_peer_by_address := (im_mesh_peer_by_address im)(number \<mapsto> normalized)\<rparr>
                    else im)
      in add_whitelist peers im)"

text \<open>One iteration of the configuration loop; \<open>Some\<close> error is the exception that leaves
  \<open>configure\<close> with the state built so far.\<close>

definition configure_topic ::
    "'msg ros_env \<Rightarrow> shared_topic_config \<Rightarrow> bridge_impl \<Rightarrow> bridge_impl \<times> std_error option" where
  "configure_topic env configured im =
     (if st_transport configured = ''gatt'' then (im, None)
      else
        let key = entry_key (st_transport configured) (st_channel_id configured)
        in if im_entries im key \<noteq> None
           then (im, Some (Runtime_error (''Duplicate '' @ st_transport configured @
                   '' bridge channel_id '' @ show_nat (unat (st_channel_id configured)))))
           else
             let generation = im_next_generation im + 1;
                 entry = empty_entry configured generation;
                 im = im\<lparr>im_next_generation := generation,
                         im_entries := (im_entries im)(key \<mapsto> entry)\<rparr>
             in case ros_type_support env (st_message_type configured) of
                  Some error \<Rightarrow> (im, Some error)
                | None \<Rightarrow>
                    if \<not> exports_topic configured then (im, None)
                    else (case ros_subscribe env (st_message_type configured)
                                 (st_export_topic configured) of
                            Some error \<Rightarrow> (im, Some error)
                          | None \<Rightarrow>
                              (im\<lparr>im_entries := (im_entries im)(key \<mapsto>
                                 entry\<lparr>en_subscription := Some (st_export_topic configured),
                                       en_timer_period := Some
                                         (if 0 < st_rate_hz configured
                                          then min (1 / 10) (1 / st_rate_hz configured)
                                          else 2 / 100)\<rparr>)\<rparr>, None)))"

fun configure_topics ::
    "'msg ros_env \<Rightarrow> shared_topic_config list \<Rightarrow> bridge_impl \<Rightarrow> bridge_impl \<times> std_error option" where
  "configure_topics env [] im = (im, None)"
| "configure_topics env (configured # topics) im =
     (case configure_topic env configured im of
        (im, Some error) \<Rightarrow> (im, Some error)
      | (im, None) \<Rightarrow> configure_topics env topics im)"

definition configure ::
    "'msg ros_env \<Rightarrow> shared_topic_config list \<Rightarrow> string \<Rightarrow> string list \<Rightarrow> bridge_impl \<Rightarrow>
     bridge_impl \<times> std_error option" where
  "configure env topics prefix whitelist im =
     (let im = im\<lparr>im_entries := Map.empty, im_peers_prefix := prefix,
                  im_peer_whitelist := [], im_mesh_peer_by_address := Map.empty\<rparr>;
          im = add_whitelist whitelist im;
          advertisement_exports = length (filter (\<lambda>item.
            st_transport item = ''advertisement'' \<and> exports_topic item) topics)
      in if 1 < advertisement_exports
         then (im, Some (Runtime_error
                (''Only one advertisement shared-topic exporter can be active; '' @
                 ''a BLE advertisement has one dynamic user-data field'')))
         else configure_topics env topics im)"

definition clear :: "bridge_impl \<Rightarrow> bridge_impl" where
  "clear im = im\<lparr>im_entries := Map.empty\<rparr>"

section \<open>Receive handlers\<close>

definition advertisement_admitted :: "bridge_impl \<Rightarrow> string \<Rightarrow> string \<Rightarrow> bool" where
  "advertisement_admitted im hostname mac \<longleftrightarrow>
     \<not> (im_peer_whitelist im \<noteq> [] \<and>
        \<not> list_ex (\<lambda>w. w = lower_trim_copy hostname) (im_peer_whitelist im) \<and>
        \<not> list_ex (\<lambda>w. w = lower_trim_copy mac) (im_peer_whitelist im))"

definition publish_entry ::
    "'msg ros_env \<Rightarrow> ticks \<Rightarrow> bridge_impl \<Rightarrow> string \<Rightarrow> entry \<Rightarrow> string \<Rightarrow> u8 list \<Rightarrow> bool \<Rightarrow>
     bridge_impl \<times> (string \<times> 'msg) list \<times> bool" where
  "publish_entry env now im key entry peer payload deduplicate =
     (case publish env (im_peers_prefix im) now entry peer payload deduplicate of
        (entry, published, ok) \<Rightarrow>
          (im\<lparr>im_entries := (im_entries im)(key \<mapsto> entry)\<rparr>, published, ok))"

definition handle_advertisement ::
    "'msg ros_env \<Rightarrow> ticks \<Rightarrow> string \<Rightarrow> string \<Rightarrow> u8 list \<Rightarrow> bridge_impl \<Rightarrow>
     bridge_impl \<times> (string \<times> 'msg) list \<times> bool" where
  "handle_advertisement env now hostname mac payload im =
     (if \<not> advertisement_admitted im hostname mac then (im, [], False)
      else
        let peer = (if hostname = [] then ''mac_'' @ mac else hostname);
            bare_key = entry_key ''advertisement'' 0;
            framed = (case unframe_payload payload 0 of
                None \<Rightarrow> (im, [], False)
              | Some (channel_id, body) \<Rightarrow>
                  (case im_entries im (entry_key ''advertisement'' channel_id) of
                     None \<Rightarrow> (im, [], False)
                   | Some entry \<Rightarrow>
                       if \<not> imports_topic (en_config entry) then (im, [], False)
                       else publish_entry env now im (entry_key ''advertisement'' channel_id) entry
                              peer body True))
        in case im_entries im bare_key of
             None \<Rightarrow> framed
           | Some bare \<Rightarrow>
               if st_advertisement_bare (en_config bare)
               then (if \<not> imports_topic (en_config bare) then (im, [], False)
                     else publish_entry env now im bare_key bare peer payload True)
               else framed)"

definition remember_advertisement ::
    "ticks \<Rightarrow> string \<Rightarrow> string \<Rightarrow> u8 list \<Rightarrow> bridge_impl \<Rightarrow> bridge_impl" where
  "remember_advertisement now hostname mac payload im =
     (if \<not> advertisement_admitted im hostname mac then im
      else
        let token = safe_peer_token (if hostname = [] then ''mac_'' @ mac else hostname);
            bare_key = entry_key ''advertisement'' 0;
            framed = (case unframe_payload payload 0 of
                None \<Rightarrow> im
              | Some (channel_id, body) \<Rightarrow>
                  (case im_entries im (entry_key ''advertisement'' channel_id) of
                     None \<Rightarrow> im
                   | Some entry \<Rightarrow>
                       if \<not> imports_topic (en_config entry) then im
                       else im\<lparr>im_entries := (im_entries im)
                              (entry_key ''advertisement'' channel_id \<mapsto> remember now entry token body)\<rparr>))
        in case im_entries im bare_key of
             None \<Rightarrow> framed
           | Some bare \<Rightarrow>
               if st_advertisement_bare (en_config bare)
               then (if imports_topic (en_config bare)
                     then im\<lparr>im_entries := (im_entries im)(bare_key \<mapsto> remember now bare token payload)\<rparr>
                     else im)
               else framed)"

definition handle_mesh ::
    "'msg ros_env \<Rightarrow> ticks \<Rightarrow> u16 \<Rightarrow> u16 \<Rightarrow> u8 list \<Rightarrow> bridge_impl \<Rightarrow>
     bridge_impl \<times> (string \<times> 'msg) list \<times> bool" where
  "handle_mesh env now source key_index data im =
     (let frame_offset = (if 3 \<le> length data \<and> 0xc0 \<le> data ! 0 then 3 else 0)
      in case unframe_payload data frame_offset of
           None \<Rightarrow> (im, [], False)
         | Some (channel_id, body) \<Rightarrow>
             (case im_entries im (entry_key ''mesh'' channel_id) of
                None \<Rightarrow> (im, [], False)
              | Some entry \<Rightarrow>
                  if \<not> imports_topic (en_config entry) then (im, [], False)
                  else
                    let configured = en_config entry
                    in if key_index \<noteq> st_mesh_app_key_index configured then (im, [], False)
                       else if frame_offset = 3 \<and>
                          (data ! 0 \<noteq> st_mesh_vendor_opcode configured \<or>
                           data ! 1 \<noteq> lo_byte (st_mesh_company_id configured) \<or>
                           data ! 2 \<noteq> hi_byte (st_mesh_company_id configured))
                       then (im, [], False)
                       else (case im_mesh_peer_by_address im source of
                               None \<Rightarrow>
                                 if im_peer_whitelist im \<noteq> [] then (im, [], False)
                                 else publish_entry env now im (entry_key ''mesh'' channel_id) entry
                                        (''unicast_'' @ show_nat (unat source)) body False
                             | Some peer_name \<Rightarrow>
                                 publish_entry env now im (entry_key ''mesh'' channel_id) entry
                                   peer_name body False)))"

end
