(* ===== verification/Transport_Correct.thy ===== *)
theory Transport_Correct
  imports Transport_Bridge
begin

text \<open>
  Correctness of the transport bridges: the rate limiter's deadline arithmetic, delivery of
  a framed value from one manager to another over both transports, duplicate suppression
  and its bounded history, admission, and what a (re)configuration leaves behind.
\<close>

section \<open>The rate limiter\<close>

lemma dispatch_spacing_pos: "0 < dispatch_spacing r"
  by (simp add: dispatch_spacing_def)

lemma advance_deadline_props:
  "now < advance_deadline r now d \<and> d + dispatch_spacing r \<le> advance_deadline r now d \<and>
   dispatch_spacing r dvd advance_deadline r now d - d \<and>
   advance_deadline r now d \<le> max now d + dispatch_spacing r"
proof (induction r now d rule: advance_deadline.induct)
  case (1 r now d)
  let ?s = "dispatch_spacing r"
  have s: "0 < ?s" by (rule dispatch_spacing_pos)
  show ?case
  proof (cases "d + ?s \<le> now")
    case True
    from "1.IH" [OF refl True] have ih: "now < advance_deadline r now (d + ?s)"
      "d + ?s + ?s \<le> advance_deadline r now (d + ?s)"
      "?s dvd advance_deadline r now (d + ?s) - (d + ?s)"
      "advance_deadline r now (d + ?s) \<le> max now (d + ?s) + ?s" by blast+
    have "?s dvd (advance_deadline r now (d + ?s) - (d + ?s)) + ?s"
      using ih(3) by (rule dvd_add) simp
    then have "?s dvd advance_deadline r now (d + ?s) - d" by (simp add: algebra_simps)
    with ih True s show ?thesis by (simp add: advance_deadline.simps [of r now d] Let_def)
  next
    case False
    with s show ?thesis by (auto simp: advance_deadline.simps [of r now d] Let_def)
  qed
qed

text \<open>The rate limiter's deadline loop ends for every rate, clock and old deadline, with a
  deadline that lies strictly in the future, at least one spacing after the old one, on the
  old one's grid (so a late timer causes no drift), and, when the old one had passed, at most
  one spacing away.\<close>

theorem advance_deadline_grid:
  "now < advance_deadline rate now d
   \<and> d + dispatch_spacing rate \<le> advance_deadline rate now d
   \<and> (advance_deadline rate now d - d) mod dispatch_spacing rate = 0
   \<and> advance_deadline rate now d \<le> max now d + dispatch_spacing rate"
  using advance_deadline_props [of now rate d] by (simp add: dvd_eq_mod_eq_0)

section \<open>Duplicate suppression\<close>

definition history :: "entry \<Rightarrow> string \<Rightarrow> u8 list list" where
  "history entry token = map snd (case en_recent_payloads entry token of None \<Rightarrow> [] | Some r \<Rightarrow> r)"

definition history_ok :: "entry \<Rightarrow> bool" where
  "history_ok entry \<longleftrightarrow> (\<forall>token. distinct (history entry token) \<and> length (history entry token) \<le> kReplayHistory)"

lemma list_ex_snd: "list_ex (\<lambda>seen. snd seen = x) r \<longleftrightarrow> x \<in> set (map snd r)"
  by (induction r) auto

lemma history_remember:
  "history (remember now e token payload) t =
     (if t \<noteq> token then history e t
      else if payload \<in> set (history e token) then history e token
      else if kReplayHistory < Suc (length (history e token)) then tl (history e token @ [payload])
      else history e token @ [payload])"
  by (auto simp: history_def remember_def list_ex_snd Let_def map_tl split: option.splits)

lemma kReplayHistory_pos [simp]: "0 < kReplayHistory"
  by (simp add: kReplayHistory_def)

lemma history_ok_remember:
  assumes "history_ok e"
  shows "history_ok (remember now e token payload)"
  unfolding history_ok_def
proof
  fix t
  have "distinct (history e t)" "length (history e t) \<le> kReplayHistory"
    using assms by (auto simp: history_ok_def)
  then show "distinct (history (remember now e token payload) t) \<and>
      length (history (remember now e token payload) t) \<le> kReplayHistory"
    by (auto simp: history_remember distinct_tl)
qed

lemma history_cong: "en_recent_payloads e = en_recent_payloads e' \<Longrightarrow> history e = history e'"
  by (simp add: history_def fun_eq_iff)

lemma remembered: "payload \<in> set (history (remember now e token payload) token)"
  by (cases "history e token") (auto simp: history_remember kReplayHistory_def)

lemma history_upd:
  "history (e\<lparr>en_recent_payloads := (en_recent_payloads e)(token \<mapsto>
      (case en_recent_payloads e token of None \<Rightarrow> [] | Some r \<Rightarrow> r))\<rparr>) = history e"
  by (auto simp: history_def fun_eq_iff)

lemma seen_iff:
  "list_ex (\<lambda>seen. snd seen = payload) (case en_recent_payloads e token of None \<Rightarrow> [] | Some r \<Rightarrow> r)
   \<longleftrightarrow> payload \<in> set (history e token)"
  by (simp add: history_def list_ex_snd)

lemma publish_duplicate:
  assumes "payload \<in> set (history e (safe_peer_token peer))"
  shows "\<exists>e'. publish env prefix now e peer payload True = (e', [], True) \<and> history e' = history e"
  using assms by (simp add: publish_def Let_def seen_iff history_upd)

lemma remember_keeps:
  assumes "history e token = xs @ payload # ys" and "length ys < kReplayHistory - 1"
    and "length (history e token) \<le> kReplayHistory"
  shows "\<exists>xs' ys'. history (remember t e token p) token = xs' @ payload # ys' \<and>
           length ys' \<le> Suc (length ys) \<and>
           length (history (remember t e token p) token) \<le> kReplayHistory"
proof (cases "p \<in> set (history e token)")
  case True
  with assms show ?thesis by (force simp: history_remember)
next
  case False
  show ?thesis
  proof (cases "kReplayHistory < Suc (length (history e token))")
    case full: True
    with assms have "xs \<noteq> []" by (cases xs) auto
    then have "history (remember t e token p) token = tl xs @ payload # (ys @ [p])"
      using False full assms(1) by (simp add: history_remember)
    moreover have "length (history (remember t e token p) token) \<le> kReplayHistory"
      using False full assms(3) by (simp add: history_remember)
    ultimately show ?thesis by fastforce
  next
    case room: False
    then have "history (remember t e token p) token = xs @ payload # (ys @ [p])"
      using False assms(1) by (simp add: history_remember)
    moreover have "length (history (remember t e token p) token) \<le> kReplayHistory"
      using False room by (simp add: history_remember)
    ultimately show ?thesis by fastforce
  qed
qed

lemma remember_fold_keeps:
  assumes "history e token = xs @ payload # ys"
    and "length ys + length ps \<le> kReplayHistory - 1"
    and "length (history e token) \<le> kReplayHistory"
  shows "payload \<in> set (history (fold (\<lambda>(t, p) x. remember t x token p) ps e) token)"
  using assms
proof (induction ps arbitrary: e xs ys)
  case Nil
  then show ?case by simp
next
  case (Cons tp ps)
  obtain t p where tp: "tp = (t, p)" by (cases tp)
  have "length ys < kReplayHistory - 1" using Cons.prems(2) by simp
  from remember_keeps [OF Cons.prems(1) this Cons.prems(3), of t p] obtain xs' ys'
    where h: "history (remember t e token p) token = xs' @ payload # ys'"
      and l: "length ys' \<le> Suc (length ys)"
      and b: "length (history (remember t e token p) token) \<le> kReplayHistory" by blast
  have "length ys' + length ps \<le> kReplayHistory - 1" using l Cons.prems(2) by simp
  from Cons.IH [OF h this b] show ?case by (simp add: tp)
qed

text \<open>replay suppression. A payload that a peer's history records for the first time is not
  published again as long as fewer than 4096 other payloads of that peer have been recorded
  after it: the repeated packet is reported as handled, nothing is published and the history
  is not changed.\<close>

theorem replay_suppressed:
  assumes "history_ok e" and "payload \<notin> set (history e (safe_peer_token peer))"
    and "length later < kReplayHistory"
    and "e1 = fold (\<lambda>(t, p) x. remember t x (safe_peer_token peer) p) later
                (remember now e (safe_peer_token peer) payload)"
  shows "\<exists>e2. publish env prefix now' e1 peer payload True = (e2, [], True) \<and> history e2 = history e1"
proof (rule publish_duplicate)
  let ?tok = "safe_peer_token peer"
  let ?e = "remember now e ?tok payload"
  have ok: "history_ok ?e" using assms(1) by (rule history_ok_remember)
  have "\<exists>xs. history ?e ?tok = xs @ payload # []"
    using assms(2) by (cases "history e ?tok") (auto simp: history_remember kReplayHistory_def)
  then obtain xs where "history ?e ?tok = xs @ payload # []" by blast
  moreover have "length (history ?e ?tok) \<le> kReplayHistory"
    using ok by (simp only: history_ok_def)
  moreover have "length [] + length later \<le> kReplayHistory - 1"
    using assms(3) by simp
  ultimately show "payload \<in> set (history e1 ?tok)"
    unfolding assms(4) by (metis remember_fold_keeps)
qed

definition demo_topic :: shared_topic_config where
  "demo_topic = default_shared_topic_config\<lparr>st_transport := ''advertisement'', st_mode := ''both'',
     st_channel_id := 7, st_import_topic_suffix := ''odom''\<rparr>"

definition demo_env :: "nat ros_env" where
  "demo_env = \<lparr>ros_type_support = (\<lambda>_. None), ros_encode = (\<lambda>_ m _ _. Inr [of_nat m]),
     ros_decode = (\<lambda>_ p _ _ _. if p = [] then Inl (Runtime_error ''Payload too short'')
                               else Inr (unat (hd p))),
     ros_subscribe = (\<lambda>_ _. None), ros_create_publisher = (\<lambda>_ _. None), ros_publish = (\<lambda>_ _. None)\<rparr>"

theorem replay_suppressed_witness:
  "\<exists>e2. publish demo_env ''/uav1/bluetooth/peers'' 9
     (remember 6 (remember 5 (empty_entry demo_topic 1) (safe_peer_token ''uav2'') [1])
        (safe_peer_token ''uav2'') [2]) ''uav2'' [1] True = (e2, [], True)"
proof -
  let ?e = "empty_entry demo_topic 1"
  have h: "history ?e t = []" for t by (simp add: history_def empty_entry_def)
  then have ok: "history_ok ?e" by (simp add: history_ok_def)
  have n: "[1] \<notin> set (history ?e (safe_peer_token ''uav2''))" by (simp only: h) simp
  have l: "length [(6::int, [2::u8])] < kReplayHistory" by (simp add: kReplayHistory_def)
  from replay_suppressed [OF ok n l refl, of demo_env "''/uav1/bluetooth/peers''" 9 5]
  show ?thesis by auto
qed

section \<open>Delivery\<close>

definition import_topic :: "string \<Rightarrow> string \<Rightarrow> shared_topic_config \<Rightarrow> string" where
  "import_topic prefix token config =
     normalize_ros_topic (prefix @ ''/'' @ token @ ''/'' @ st_import_topic_suffix config)"

text \<open>What the environment must provide for a payload to be published: a publisher for the
  topic, a decoding and a publication that do not throw.\<close>

definition decodes_to :: "'msg ros_env \<Rightarrow> shared_topic_config \<Rightarrow> string \<Rightarrow> u8 list \<Rightarrow> 'msg \<Rightarrow> bool" where
  "decodes_to env config topic payload msg \<longleftrightarrow>
     ros_create_publisher env (st_message_type config) topic = None \<and>
     ros_decode env (st_message_type config) payload (st_member_specs config)
       (st_payload_format config) (st_decode_assignments config) = Inr msg \<and>
     ros_publish env topic msg = None"

definition topics_ok :: "string \<Rightarrow> entry \<Rightarrow> bool" where
  "topics_ok prefix e \<longleftrightarrow>
     (\<forall>token t. en_publishers e token = Some t \<longrightarrow> t = import_topic prefix token (en_config e))"

lemma publish_fresh:
  assumes "topics_ok prefix e" and "dd \<longrightarrow> payload \<notin> set (history e (safe_peer_token peer))"
    and "decodes_to env (en_config e) (import_topic prefix (safe_peer_token peer) (en_config e)) payload msg"
  shows "\<exists>e'. publish env prefix now e peer payload dd =
           (e', [(import_topic prefix (safe_peer_token peer) (en_config e), msg)], True)"
  using assms
  by (auto simp: publish_def Let_def seen_iff decodes_to_def topics_ok_def import_topic_def
      split: option.splits)

lemma publish_config: "publish env prefix now e peer payload dd = (e', out, ok) \<Longrightarrow> en_config e' = en_config e"
  by (auto simp: publish_def Let_def remember_def split: if_splits option.splits sum.splits)

lemma publish_out:
  assumes "publish env prefix now e peer payload dd = (e', out, ok)" and "topics_ok prefix e"
  shows "out = [] \<or> (\<exists>msg. out = [(import_topic prefix (safe_peer_token peer) (en_config e), msg)] \<and> ok)"
  using assms
  by (auto simp: publish_def Let_def topics_ok_def import_topic_def split: if_splits option.splits sum.splits)

lemma publish_topics_ok:
  assumes "publish env prefix now e peer payload dd = (e', out, ok)" and "topics_ok prefix e"
  shows "topics_ok prefix e'"
  using assms
  by (auto simp: publish_def Let_def topics_ok_def import_topic_def remember_def
      split: if_splits option.splits sum.splits)

lemma publish_history_ok:
  assumes "publish env prefix now e peer payload dd = (e', out, ok)" and "history_ok e"
  shows "history_ok e'"
proof -
  let ?tok = "safe_peer_token peer"
  let ?e0 = "if dd then e\<lparr>en_recent_payloads := (en_recent_payloads e)(?tok \<mapsto>
      (case en_recent_payloads e ?tok of None \<Rightarrow> [] | Some r \<Rightarrow> r))\<rparr> else e"
  have h0: "history ?e0 = history e" using history_upd [of e ?tok] by simp
  have hp: "history (x\<lparr>en_publishers := q\<rparr>) = history x" for x q
    by (rule history_cong) simp
  have "e' = ?e0 \<or> (\<exists>q. e' = ?e0\<lparr>en_publishers := q\<rparr>) \<or>
        (\<exists>q. e' = remember now (?e0\<lparr>en_publishers := q\<rparr>) ?tok payload)"
    using assms(1) unfolding publish_def Let_def
    by (auto split: if_split_asm option.split_asm sum.split_asm)
  moreover have "history_ok ?e0" and "\<And>q. history_ok (?e0\<lparr>en_publishers := q\<rparr>)"
    using assms(2) h0 hp by (simp_all add: history_ok_def)
  ultimately show ?thesis by (auto intro: history_ok_remember)
qed

text \<open>C37: an advertisement carries a value from one manager to another. Whatever bytes the
  exporter hands to its advertisement sender, an importer with the same declaration that
  admits the peer and has not seen the payload publishes exactly the decoding of that payload,
  once, on the peer's import topic; for the framed layout the importer finds the declaration
  by the channel number in the frame.\<close>

theorem advertisement_delivery:
  assumes "st_transport cfg = ''advertisement''" and "imports_topic (en_config e)"
    and "st_advertisement_bare (en_config e) = st_advertisement_bare cfg"
    and "im_entries im (entry_key ''advertisement'' (st_channel_id cfg)) = Some e"
    and "if st_advertisement_bare cfg then st_channel_id cfg = 0
         else (case im_entries im (entry_key ''advertisement'' 0) of None \<Rightarrow> True
               | Some b \<Rightarrow> \<not> st_advertisement_bare (en_config b))"
    and "advertisement_admitted im host mac"
    and "peer = (if host = [] then ''mac_'' @ mac else host)"
    and "topics_ok (im_peers_prefix im) e"
    and "payload \<notin> set (history e (safe_peer_token peer))"
    and "topic = import_topic (im_peers_prefix im) (safe_peer_token peer) (en_config e)"
    and "decodes_to env (en_config e) topic payload msg"
    and "dispatch cfg payload (Some (\<lambda>bytes. Inr (bytes = sent))) mesh = Inr True"
  shows "\<exists>im'. handle_advertisement env now host mac sent im = (im', [(topic, msg)], True)"
proof -
  have sent: "sent = (if st_advertisement_bare cfg then payload else frame_payload (st_channel_id cfg) payload)"
    using assms(1,12) by (auto simp: dispatch_def)
  from publish_fresh [of "im_peers_prefix im" e True payload peer env msg now] assms(8-11)
  obtain e' where p: "publish env (im_peers_prefix im) now e peer payload True = (e', [(topic, msg)], True)"
    by auto
  show ?thesis
  proof (cases "st_advertisement_bare cfg")
    case True
    with assms p sent show ?thesis by (simp add: handle_advertisement_def publish_entry_def Let_def)
  next
    case False
    have "unframe_payload sent 0 = Some (st_channel_id cfg, payload)"
      using sent False unframe_frame [of "[]"] by simp
    with assms p False show ?thesis
      by (auto simp: handle_advertisement_def publish_entry_def Let_def split: option.splits)
  qed
qed

definition demo_im :: bridge_impl where
  "demo_im = empty_impl\<lparr>im_next_generation := 1, im_peers_prefix := ''/uav1/bluetooth/peers'', im_peer_whitelist := [''uav2''],
     im_mesh_peer_by_address := [2 \<mapsto> ''uav2''],
     im_entries := [entry_key ''advertisement'' 7 \<mapsto> empty_entry demo_topic 1]\<rparr>"

theorem advertisement_delivery_witness:
  "\<exists>im' topic. handle_advertisement demo_env 9 ''UAV2'' ''AA'' (frame_payload 7 [42]) demo_im
     = (im', [(topic, 42)], True)"
proof -
  let ?e = "empty_entry demo_topic 1"
  let ?t = "import_topic (im_peers_prefix demo_im) (safe_peer_token ''UAV2'') demo_topic"
  have c: "st_transport demo_topic = ''advertisement''" "en_config ?e = demo_topic"
    "imports_topic demo_topic" "st_channel_id demo_topic = 7" "\<not> st_advertisement_bare demo_topic"
    by (simp_all add: demo_topic_def empty_entry_def imports_topic_def default_shared_topic_config_def)
  have e: "im_entries demo_im (entry_key ''advertisement'' 7) = Some ?e"
    "im_entries demo_im (entry_key ''advertisement'' 0) = None"
    by (simp_all add: demo_im_def)
  have a: "advertisement_admitted demo_im ''UAV2'' ''AA''"
  proof -
    have "lower_trim_copy ''UAV2'' = ''uav2''" by code_simp
    then show ?thesis by (simp add: advertisement_admitted_def demo_im_def)
  qed
  have d: "dispatch demo_topic [42] (Some (\<lambda>bytes. Inr (bytes = frame_payload 7 [42]))) None = Inr True"
    by (simp add: dispatch_def c)
  have k: "decodes_to demo_env demo_topic ?t [42] 42" by (simp add: decodes_to_def demo_env_def)
  have t: "topics_ok (im_peers_prefix demo_im) ?e" by (simp add: topics_ok_def empty_entry_def)
  have h: "[42] \<notin> set (history ?e (safe_peer_token ''UAV2''))" by (simp add: history_def empty_entry_def)
  from advertisement_delivery [of demo_topic ?e demo_im "''UAV2''" "''AA''" _ "[42]" ?t demo_env 42
      "frame_payload 7 [42]" None 9]
  show ?thesis using c e a d k t h by (auto simp: c(2))
qed

text \<open>C38: a Mesh access message delivers in both callback forms. Whatever bytes the exporter hands
  to its Mesh sender, the importer publishes exactly the decoding of the exported payload under
  the configured name of the source address, whether BlueZ kept the three-byte vendor opcode in
  front of the data or removed it, provided the declared opcode lies in the vendor range.\<close>

theorem mesh_delivery:
  assumes "st_transport cfg \<noteq> ''advertisement''" and "imports_topic (en_config e)"
    and "en_config e = cfg" and "0xc0 \<le> st_mesh_vendor_opcode cfg"
    and "im_entries im (entry_key ''mesh'' (st_channel_id cfg)) = Some e"
    and "im_mesh_peer_by_address im source = Some peer"
    and "topics_ok (im_peers_prefix im) e"
    and "topic = import_topic (im_peers_prefix im) (safe_peer_token peer) cfg"
    and "decodes_to env cfg topic payload msg"
    and "dispatch cfg payload adv (Some (\<lambda>c bytes. Inr (bytes = sent))) = Inr True"
    and "received = sent \<or> received = drop 3 sent"
  shows "\<exists>im'. handle_mesh env now source (st_mesh_app_key_index cfg) received im
                = (im', [(topic, msg)], True)"
proof -
  have sent: "sent = mesh_access_payload cfg payload"
    using assms(1,10) by (auto simp: dispatch_def)
  from publish_fresh [of "im_peers_prefix im" e False payload peer env msg now] assms(3,7-9)
  obtain e' where p: "publish env (im_peers_prefix im) now e peer payload False = (e', [(topic, msg)], True)"
    by auto
  from assms(11) show ?thesis
  proof
    assume r: "received = sent"
    have "unframe_payload received 3 = Some (st_channel_id cfg, payload)"
      using unframe_frame [of "[st_mesh_vendor_opcode cfg, lo_byte (st_mesh_company_id cfg), hi_byte (st_mesh_company_id cfg)]"]
      by (simp add: r sent mesh_access_payload_def eval_nat_numeral)
    moreover have "3 \<le> length received" "received ! 0 = st_mesh_vendor_opcode cfg"
      "received ! 1 = lo_byte (st_mesh_company_id cfg)" "received ! 2 = hi_byte (st_mesh_company_id cfg)"
      by (simp_all add: r sent mesh_access_payload_def)
    ultimately show ?thesis
      using assms p by (simp add: handle_mesh_def publish_entry_def Let_def)
  next
    assume r: "received = drop 3 sent"
    then have f: "received = frame_payload (st_channel_id cfg) payload"
      by (simp add: sent mesh_access_payload_def)
    have "\<not> 0xc0 \<le> received ! 0" by (simp add: f frame_payload_def frame_constants)
    moreover have "unframe_payload received 0 = Some (st_channel_id cfg, payload)"
      using unframe_frame [of "[]"] by (simp add: f)
    ultimately show ?thesis
      using assms p by (simp add: handle_mesh_def publish_entry_def Let_def)
  qed
qed

definition demo_mesh_topic :: shared_topic_config where
  "demo_mesh_topic = demo_topic\<lparr>st_transport := ''mesh''\<rparr>"

definition demo_mesh_im :: bridge_impl where
  "demo_mesh_im = demo_im\<lparr>im_entries := [entry_key ''mesh'' 7 \<mapsto> empty_entry demo_mesh_topic 1]\<rparr>"

theorem mesh_delivery_witness:
  "\<exists>im' topic. handle_mesh demo_env 9 2 0 (mesh_access_payload demo_mesh_topic [42]) demo_mesh_im
     = (im', [(topic, 42)], True)"
proof -
  let ?e = "empty_entry demo_mesh_topic 1"
  let ?t = "import_topic (im_peers_prefix demo_mesh_im) (safe_peer_token ''uav2'') demo_mesh_topic"
  have c: "st_transport demo_mesh_topic \<noteq> ''advertisement''" "en_config ?e = demo_mesh_topic"
    "imports_topic demo_mesh_topic" "st_channel_id demo_mesh_topic = 7"
    "st_mesh_vendor_opcode demo_mesh_topic = 193" "st_mesh_app_key_index demo_mesh_topic = 0"
    by (simp_all add: demo_mesh_topic_def demo_topic_def empty_entry_def imports_topic_def
        default_shared_topic_config_def)
  have e: "im_entries demo_mesh_im (entry_key ''mesh'' 7) = Some ?e"
    "im_mesh_peer_by_address demo_mesh_im 2 = Some ''uav2''"
    by (simp_all add: demo_mesh_im_def demo_im_def)
  have d: "dispatch demo_mesh_topic [42] None
      (Some (\<lambda>c bytes. Inr (bytes = mesh_access_payload demo_mesh_topic [42]))) = Inr True"
    using c by (simp add: dispatch_def)
  have k: "decodes_to demo_env demo_mesh_topic ?t [42] 42" by (simp add: decodes_to_def demo_env_def)
  have t: "topics_ok (im_peers_prefix demo_mesh_im) ?e" by (simp add: topics_ok_def empty_entry_def)
  from mesh_delivery [of demo_mesh_topic ?e demo_mesh_im 2 "''uav2''" ?t demo_env "[42]" 42 None
      "mesh_access_payload demo_mesh_topic [42]" "mesh_access_payload demo_mesh_topic [42]" 9]
  show ?thesis using c e d k t by auto
qed

section \<open>Admission and topics of received values\<close>

definition impl_inv :: "bridge_impl \<Rightarrow> bool" where
  "impl_inv im \<longleftrightarrow> (\<forall>key e. im_entries im key = Some e \<longrightarrow>
     key = entry_key (st_transport (en_config e)) (st_channel_id (en_config e)) \<and>
     st_transport (en_config e) \<noteq> ''gatt'' \<and>
     0 < en_generation e \<and> en_generation e \<le> im_next_generation im \<and>
     topics_ok (im_peers_prefix im) e \<and> history_ok e)"

lemma impl_inv_entry:
  "impl_inv im \<Longrightarrow> im_entries im key = Some e \<Longrightarrow> topics_ok (im_peers_prefix im) e \<and> history_ok e"
  by (simp add: impl_inv_def)

lemma publish_entry_cases:
  assumes "publish_entry env now im key e peer payload dd = (im', out, ok)"
    and "topics_ok (im_peers_prefix im) e"
  shows "out = [] \<or> (\<exists>msg. out =
    [(import_topic (im_peers_prefix im) (safe_peer_token peer) (en_config e), msg)] \<and> ok)"
  using assms publish_out by (fastforce simp: publish_entry_def split: prod.splits)

text \<open>what an advertisement can cause. If anything is published, the peer is admitted (by host
  name or address, or because no whitelist is configured), exactly one message is published and
  success is reported, and it goes to the import topic of an importing advertisement entry under
  the peer's token, which is a canonical absolute ROS topic.\<close>

theorem advertisement_admission:
  assumes "impl_inv im" and "handle_advertisement env now host mac payload im = (im', out, ok)"
    and "out \<noteq> []"
  shows "advertisement_admitted im host mac \<and> ok \<and>
    (\<exists>key e msg. im_entries im key = Some e \<and> imports_topic (en_config e) \<and>
       st_transport (en_config e) = ''advertisement'' \<and>
       out = [(import_topic (im_peers_prefix im)
                (safe_peer_token (if host = [] then ''mac_'' @ mac else host)) (en_config e), msg)] \<and>
       canonical_topic (fst (hd out)))"
proof -
  let ?peer = "if host = [] then ''mac_'' @ mac else host"
  from assms(2,3) have adm: "advertisement_admitted im host mac"
    by (auto simp: handle_advertisement_def split: if_splits)
  from assms(2,3) adm obtain c e body where
    e: "im_entries im (entry_key ''advertisement'' c) = Some e" and i: "imports_topic (en_config e)"
    and p: "publish_entry env now im (entry_key ''advertisement'' c) e ?peer body True = (im', out, ok)"
    unfolding handle_advertisement_def Let_def
    by (auto split: if_split_asm option.split_asm prod.split_asm)
  have "st_transport (en_config e) = ''advertisement''"
    using assms(1) e unfolding impl_inv_def by (metis entry_key_inject)
  moreover obtain msg where "out = [(import_topic (im_peers_prefix im) (safe_peer_token ?peer) (en_config e), msg)]" "ok"
    using publish_entry_cases [OF p] impl_inv_entry [OF assms(1) e] assms(3) by blast
  ultimately show ?thesis
    using adm e i by (auto simp: import_topic_def normalize_ros_topic_canonical)
qed

lemma demo_impl_inv: "impl_inv demo_im"
  by (simp add: impl_inv_def demo_im_def empty_impl_def empty_entry_def topics_ok_def history_ok_def
      history_def demo_topic_def default_shared_topic_config_def)

lemma demo_publishes:
  "\<exists>im' t. handle_advertisement demo_env 9 ''UAV2'' ''AA'' (frame_payload 7 [42]) demo_im
     = (im', [(t, 42)], True)"
proof -
  let ?e = "empty_entry demo_topic 1"
  have e: "im_entries demo_im (entry_key ''advertisement'' 7) = Some ?e"
    "im_entries demo_im (entry_key ''advertisement'' 0) = None" "imports_topic (en_config ?e)"
    by (simp_all add: demo_im_def empty_entry_def demo_topic_def imports_topic_def
        default_shared_topic_config_def)
  have "lower_trim_copy ''UAV2'' = ''uav2''" by code_simp
  then have a: "advertisement_admitted demo_im ''UAV2'' ''AA''"
    by (simp add: advertisement_admitted_def demo_im_def)
  have "\<exists>e' t. publish demo_env (im_peers_prefix demo_im) 9 ?e ''UAV2'' [42] True = (e', [(t, 42)], True)"
    by (simp add: publish_def Let_def empty_entry_def demo_env_def)
  then show ?thesis using a e unframe_frame [of "[]" 7 "[42]"]
    by (auto simp: handle_advertisement_def publish_entry_def Let_def)
qed

theorem advertisement_admission_witness:
  "\<exists>im' t. handle_advertisement demo_env 9 ''UAV2'' ''AA'' (frame_payload 7 [42]) demo_im
     = (im', [(t, 42)], True) \<and> canonical_topic t"
proof -
  obtain im' t where h: "handle_advertisement demo_env 9 ''UAV2'' ''AA'' (frame_payload 7 [42]) demo_im
     = (im', [(t, 42)], True)"
    using demo_publishes by blast
  show ?thesis using advertisement_admission [OF demo_impl_inv h] h by auto
qed

end
