(* ===== verification/Transport_System.thy ===== *)
theory Transport_System
  imports Transport_Correct
begin

text \<open>
  \<open>TransportBridgeManager\<close> as a system: every interleaving of subscription callbacks, flush
  attempts with their sender call in flight, receive callbacks and reconfigurations. The
  mutex \<open>dispatch_mutex\<close> is the single flight slot: a flush, a \<open>configure\<close> or a \<open>clear\<close> that
  finds it taken does not run. Two logs observe the run and never influence it: the newest
  encoded sample of each generation and the transfers a sender accepted.
\<close>

record transfer =
  tr_generation :: nat
  tr_revision :: nat
  tr_payload :: "u8 list"
  tr_rate :: rat
  tr_start :: ticks
  tr_end :: ticks

record transport_system =
  sy_impl :: bridge_impl
  sy_flight :: "(in_flight \<times> ticks) option"
  sy_newest :: "nat \<rightharpoonup> u8 list"
  sy_accepted :: "transfer list"

datatype 'msg transport_event =
    Local_message string nat 'msg
  | Flush_begin string nat ticks
  | Flush_end "std_error + bool" ticks
  | Advertisement ticks string string "u8 list"
  | Remember_advertisement ticks string string "u8 list"
  | Mesh_message ticks u16 u16 "u8 list"
  | Configure "shared_topic_config list" string "string list"
  | Clear_bridges

definition start_system :: transport_system where
  "start_system = \<lparr>sy_impl = empty_impl, sy_flight = None, sy_newest = Map.empty, sy_accepted = []\<rparr>"

definition encoded_sample :: "'msg ros_env \<Rightarrow> string \<Rightarrow> nat \<Rightarrow> 'msg \<Rightarrow> bridge_impl \<Rightarrow> u8 list option" where
  "encoded_sample env key generation message im =
     (case im_entries im key of
        None \<Rightarrow> None
      | Some e \<Rightarrow> if en_generation e \<noteq> generation then None
          else (case ros_encode env (st_message_type (en_config e)) message
                  (st_member_specs (en_config e)) (st_payload_format (en_config e)) of
                  Inl error \<Rightarrow> None | Inr payload \<Rightarrow> Some payload))"

fun transport_step :: "'msg ros_env \<Rightarrow> 'msg transport_event \<Rightarrow> transport_system \<Rightarrow> transport_system" where
  "transport_step env (Local_message key generation message) s =
     s\<lparr>sy_impl := fst (store_local_message env key generation message (sy_impl s)),
       sy_newest := (case encoded_sample env key generation message (sy_impl s) of
          None \<Rightarrow> sy_newest s | Some payload \<Rightarrow> (sy_newest s)(generation \<mapsto> payload))\<rparr>"
| "transport_step env (Flush_begin key generation now) s =
     (if sy_flight s \<noteq> None then s
      else case flush_begin key generation now (sy_impl s) of
             None \<Rightarrow> s
           | Some (im, fl) \<Rightarrow> s\<lparr>sy_impl := im, sy_flight := Some (fl, now)\<rparr>)"
| "transport_step env (Flush_end outcome now) s =
     (case sy_flight s of
        None \<Rightarrow> s
      | Some (fl, begun) \<Rightarrow>
          s\<lparr>sy_impl := flush_end fl outcome now (sy_impl s), sy_flight := None,
            sy_accepted := sy_accepted s @
              (if outcome = Inr True
               then [\<lparr>tr_generation = fl_generation fl, tr_revision = fl_revision fl,
                      tr_payload = fl_payload fl, tr_rate = st_rate_hz (fl_config fl),
                      tr_start = begun, tr_end = now\<rparr>]
               else [])\<rparr>)"
| "transport_step env (Advertisement now host mac payload) s =
     s\<lparr>sy_impl := fst (handle_advertisement env now host mac payload (sy_impl s))\<rparr>"
| "transport_step env (Remember_advertisement now host mac payload) s =
     s\<lparr>sy_impl := remember_advertisement now host mac payload (sy_impl s)\<rparr>"
| "transport_step env (Mesh_message now source key_index data) s =
     s\<lparr>sy_impl := fst (handle_mesh env now source key_index data (sy_impl s))\<rparr>"
| "transport_step env (Configure topics prefix whitelist) s =
     (if sy_flight s \<noteq> None then s
      else s\<lparr>sy_impl := fst (configure env topics prefix whitelist (sy_impl s))\<rparr>)"
| "transport_step env Clear_bridges s =
     (if sy_flight s \<noteq> None then s else s\<lparr>sy_impl := clear (sy_impl s)\<rparr>)"

text \<open>The steady clock is never negative.\<close>

fun transport_event_ok :: "'msg transport_event \<Rightarrow> bool" where
  "transport_event_ok (Flush_end outcome now) \<longleftrightarrow> 0 \<le> now"
| "transport_event_ok _ \<longleftrightarrow> True"

section \<open>The receive path leaves the export side alone\<close>

definition export_view :: "entry \<Rightarrow> shared_topic_config \<times> nat \<times> nat \<times> u8 list option \<times> ticks" where
  "export_view e = (en_config e, en_generation e, en_revision e, en_pending_payload e,
     en_next_dispatch_at e)"

definition view :: "bridge_impl \<Rightarrow> string \<Rightarrow> (shared_topic_config \<times> nat \<times> nat \<times> u8 list option \<times> ticks) option" where
  "view im key = map_option export_view (im_entries im key)"

definition same_exports :: "bridge_impl \<Rightarrow> bridge_impl \<Rightarrow> bool" where
  "same_exports im im' \<longleftrightarrow> im_next_generation im' = im_next_generation im \<and> view im' = view im"

lemma same_exports_refl [simp]: "same_exports im im"
  by (simp add: same_exports_def)

lemma same_exports_upd:
  "im_entries im key = Some e \<Longrightarrow> export_view e' = export_view e \<Longrightarrow>
   same_exports im (im\<lparr>im_entries := (im_entries im)(key \<mapsto> e')\<rparr>)"
  by (auto simp: same_exports_def view_def fun_eq_iff)

lemma export_view_remember: "export_view (remember now e token payload) = export_view e"
  by (simp add: export_view_def remember_def Let_def split: option.splits)

lemma export_view_publish:
  "publish env prefix now e peer payload dd = (e', out, ok) \<Longrightarrow> export_view e' = export_view e"
  unfolding publish_def Let_def
  by (auto simp: export_view_remember split: if_split_asm option.split_asm sum.split_asm)
     (simp_all add: export_view_def)

lemma same_exports_publish_entry:
  assumes "im_entries im key = Some e"
  shows "same_exports im (fst (publish_entry env now im key e peer payload dd))"
  using assms export_view_publish
  by (fastforce simp: publish_entry_def intro!: same_exports_upd split: prod.splits)

lemma same_exports_advertisement: "same_exports im (fst (handle_advertisement env now host mac payload im))"
  unfolding handle_advertisement_def Let_def
  by (auto intro: same_exports_publish_entry split: option.splits)

lemma same_exports_remember: "same_exports im (remember_advertisement now host mac payload im)"
  unfolding remember_advertisement_def Let_def
  by (auto intro!: same_exports_upd simp: export_view_remember split: option.splits)

lemma same_exports_mesh: "same_exports im (fst (handle_mesh env now source key_index data im))"
proof (cases "unframe_payload data (if 3 \<le> length data \<and> 0xc0 \<le> data ! 0 then 3 else 0)")
  case None
  then show ?thesis by (simp add: handle_mesh_def Let_def)
next
  case (Some cb)
  obtain c b where cb: "cb = (c, b)" by (cases cb)
  show ?thesis
  proof (cases "im_entries im (entry_key ''mesh'' c)")
    case None
    with Some show ?thesis by (simp add: handle_mesh_def Let_def cb)
  next
    case e: (Some e)
    note pub = same_exports_publish_entry [OF e]
    from Some e show ?thesis
      unfolding handle_mesh_def Let_def cb
      by (simp only: option.case prod.case) (auto intro: pub split: option.splits)
  qed
qed

end
