(* ===== verification/Transport_Config.thy ===== *)
theory Transport_Config
  imports Transport_System
begin

text \<open>
  What \<open>TransportBridgeManager::configure\<close> leaves behind: which configurations it accepts, the
  entries of an accepted one, and what a refused one has already replaced.
\<close>

definition topic_key :: "shared_topic_config \<Rightarrow> string" where
  "topic_key c = entry_key (st_transport c) (st_channel_id c)"

definition fresh_entry :: "entry \<Rightarrow> bool" where
  "fresh_entry e \<longleftrightarrow> en_revision e = 0 \<and> en_pending_payload e = None \<and> en_next_dispatch_at e = 0 \<and>
     en_publishers e = Map.empty \<and> en_recent_payloads e = Map.empty"

definition built_after :: "nat \<Rightarrow> bridge_impl \<Rightarrow> bool" where
  "built_after n im \<longleftrightarrow> n \<le> im_next_generation im \<and>
     (\<forall>key e. im_entries im key = Some e \<longrightarrow>
        n < en_generation e \<and> en_generation e \<le> im_next_generation im \<and> fresh_entry e \<and>
        key = topic_key (en_config e) \<and> st_transport (en_config e) \<noteq> ''gatt'') \<and>
     (\<forall>key key' e e'. im_entries im key = Some e \<longrightarrow> im_entries im key' = Some e' \<longrightarrow>
        en_generation e = en_generation e' \<longrightarrow> key = key')"

definition configured_entry :: "shared_topic_config \<Rightarrow> nat \<Rightarrow> entry" where
  "configured_entry c g = (if exports_topic c
     then (empty_entry c g)\<lparr>en_subscription := Some (st_export_topic c),
            en_timer_period := Some (if 0 < st_rate_hz c then min (1 / 10) (1 / st_rate_hz c) else 2 / 100)\<rparr>
     else empty_entry c g)"

lemma configured_entry_simps [simp]:
  "en_config (configured_entry c g) = c" "en_generation (configured_entry c g) = g"
  "fresh_entry (configured_entry c g)" "fresh_entry (empty_entry c g)"
  "en_config (empty_entry c g) = c" "en_generation (empty_entry c g) = g"
  by (simp_all add: configured_entry_def fresh_entry_def empty_entry_def)

definition topic_error :: "'msg ros_env \<Rightarrow> shared_topic_config \<Rightarrow> bridge_impl \<Rightarrow> bool" where
  "topic_error env c im \<longleftrightarrow> st_transport c \<noteq> ''gatt'' \<and>
     (im_entries im (topic_key c) \<noteq> None \<or> ros_type_support env (st_message_type c) \<noteq> None \<or>
      (exports_topic c \<and> ros_subscribe env (st_message_type c) (st_export_topic c) \<noteq> None))"

lemma configure_topic_ok:
  assumes "\<not> topic_error env c im"
  shows "configure_topic env c im =
    (if st_transport c = ''gatt'' then im
     else im\<lparr>im_next_generation := Suc (im_next_generation im),
             im_entries := (im_entries im)(topic_key c \<mapsto> configured_entry c (Suc (im_next_generation im)))\<rparr>,
     None)"
  using assms
  by (auto simp: configure_topic_def topic_error_def topic_key_def configured_entry_def Let_def)

lemma configure_topic_error:
  "snd (configure_topic env c im) \<noteq> None \<longleftrightarrow> topic_error env c im"
  by (auto simp: configure_topic_def topic_error_def topic_key_def Let_def split: option.splits)

lemma configure_topic_failed:
  assumes "topic_error env c im"
  shows "fst (configure_topic env c im) = im \<or>
    (im_entries im (topic_key c) = None \<and> st_transport c \<noteq> ''gatt'' \<and>
     fst (configure_topic env c im) =
       im\<lparr>im_next_generation := Suc (im_next_generation im),
          im_entries := (im_entries im)(topic_key c \<mapsto> empty_entry c (Suc (im_next_generation im)))\<rparr>)"
  using assms
  by (auto simp: configure_topic_def topic_error_def topic_key_def Let_def split: option.splits)

lemma built_after_add:
  assumes "built_after n im" and "im_entries im (topic_key c) = None" and "st_transport c \<noteq> ''gatt''"
    and "fresh_entry e" and "en_config e = c" and "en_generation e = Suc (im_next_generation im)"
  shows "built_after n (im\<lparr>im_next_generation := Suc (im_next_generation im),
           im_entries := (im_entries im)(topic_key c \<mapsto> e)\<rparr>)"
  using assms unfolding built_after_def by (fastforce split: if_splits)

lemma built_after_topic:
  assumes "built_after n im"
  shows "built_after n (fst (configure_topic env c im))"
proof (cases "topic_error env c im")
  case True
  from configure_topic_failed [OF True] show ?thesis
  proof
    assume "fst (configure_topic env c im) = im"
    with assms show ?thesis by simp
  next
    assume *: "im_entries im (topic_key c) = None \<and> st_transport c \<noteq> ''gatt'' \<and>
     fst (configure_topic env c im) =
       im\<lparr>im_next_generation := Suc (im_next_generation im),
          im_entries := (im_entries im)(topic_key c \<mapsto> empty_entry c (Suc (im_next_generation im)))\<rparr>"
    then have "built_after n (im\<lparr>im_next_generation := Suc (im_next_generation im),
          im_entries := (im_entries im)(topic_key c \<mapsto> empty_entry c (Suc (im_next_generation im)))\<rparr>)"
      by (intro built_after_add [OF assms]) simp_all
    with * show ?thesis by simp
  qed
next
  case False
  show ?thesis
  proof (cases "st_transport c = ''gatt''")
    case True
    then show ?thesis using assms configure_topic_ok [OF False] by simp
  next
    case gatt: False
    with False have "im_entries im (topic_key c) = None" by (simp add: topic_error_def)
    with gatt configure_topic_ok [OF False] show ?thesis by (simp add: built_after_add [OF assms])
  qed
qed

lemma built_after_topics: "built_after n im \<Longrightarrow> built_after n (fst (configure_topics env topics im))"
proof (induction topics arbitrary: im)
  case (Cons c topics)
  from built_after_topic [OF Cons.prems, of env c] Cons.IH show ?case
    by (auto split: prod.splits option.splits)
qed simp

lemma add_whitelist_keeps [simp]:
  "im_entries (add_whitelist ps im) = im_entries im"
  "im_next_generation (add_whitelist ps im) = im_next_generation im"
  "im_peers_prefix (add_whitelist ps im) = im_peers_prefix im"
  by (induction ps arbitrary: im) (simp_all add: Let_def split: option.splits)

lemma built_after_empty: "im_entries im = Map.empty \<Longrightarrow> n \<le> im_next_generation im \<Longrightarrow> built_after n im"
  by (simp add: built_after_def)

lemma built_after_configure: "built_after (im_next_generation im) (fst (configure env topics prefix wl im))"
  unfolding configure_def Let_def
  by (auto intro!: built_after_topics built_after_empty)

lemma configure_topic_tables:
  "im_peers_prefix (fst (configure_topic env c i)) = im_peers_prefix i \<and>
   im_peer_whitelist (fst (configure_topic env c i)) = im_peer_whitelist i \<and>
   im_mesh_peer_by_address (fst (configure_topic env c i)) = im_mesh_peer_by_address i"
  by (simp add: configure_topic_def Let_def split: option.splits)

lemma configure_topics_tables:
  "im_peers_prefix (fst (configure_topics env topics i)) = im_peers_prefix i \<and>
   im_peer_whitelist (fst (configure_topics env topics i)) = im_peer_whitelist i \<and>
   im_mesh_peer_by_address (fst (configure_topics env topics i)) = im_mesh_peer_by_address i"
proof (induction topics arbitrary: i)
  case (Cons c topics)
  from configure_topic_tables [of env c i] Cons.IH show ?case
    by (auto split: prod.splits option.splits)
qed simp

section \<open>Success\<close>

definition active_topics :: "shared_topic_config list \<Rightarrow> shared_topic_config list" where
  "active_topics topics = filter (\<lambda>c. st_transport c \<noteq> ''gatt'') topics"

definition topic_available :: "'msg ros_env \<Rightarrow> shared_topic_config \<Rightarrow> bool" where
  "topic_available env c \<longleftrightarrow> ros_type_support env (st_message_type c) = None \<and>
     (exports_topic c \<longrightarrow> ros_subscribe env (st_message_type c) (st_export_topic c) = None)"

lemma fresh_keys:
  "(\<forall>d\<in>A. P d \<and> (if f d = k then Some v else m (f d)) = None) \<longleftrightarrow>
     k \<notin> f ` A \<and> (\<forall>d\<in>A. P d \<and> m (f d) = None)"
  by auto

lemma configure_topics_ok:
  "snd (configure_topics env topics im) = None \<longleftrightarrow>
     distinct (map topic_key (active_topics topics)) \<and>
     (\<forall>c\<in>set (active_topics topics). topic_available env c \<and> im_entries im (topic_key c) = None)"
proof (induction topics arbitrary: im)
  case Nil
  then show ?case by (simp add: active_topics_def)
next
  case (Cons c topics)
  show ?case
  proof (cases "topic_error env c im")
    case True
    then obtain im' e where "configure_topic env c im = (im', Some e)"
      using configure_topic_error [of env c im] by (cases "configure_topic env c im") auto
    with True show ?thesis by (auto simp: topic_error_def active_topics_def topic_available_def)
  next
    case False
    show ?thesis
    proof (cases "st_transport c = ''gatt''")
      case True
      then show ?thesis using Cons.IH configure_topic_ok [OF False]
        by (simp add: active_topics_def)
    next
      case gatt: False
      have "active_topics (c # topics) = c # active_topics topics"
        using gatt by (simp add: active_topics_def)
      with gatt False show ?thesis
        using configure_topic_ok [OF False]
        by (auto simp: Cons.IH fresh_keys topic_error_def topic_available_def) (metis imageI)+
    qed
  qed
qed

lemma configure_topics_entries:
  assumes "snd (configure_topics env topics im) = None"
  shows "\<exists>gen. im_entries (fst (configure_topics env topics im)) =
     im_entries im ++ map_of (map (\<lambda>c. (topic_key c, configured_entry c (gen c))) (active_topics topics))
   \<and> im_next_generation (fst (configure_topics env topics im)) =
       im_next_generation im + length (active_topics topics)"
  using assms
proof (induction topics arbitrary: im)
  case Nil
  then show ?case by (simp add: active_topics_def)
next
  case (Cons c topics)
  have ne: "\<not> topic_error env c im"
    using Cons.prems configure_topic_error [of env c im]
    by (cases "configure_topic env c im") (auto split: option.splits)
  show ?case
  proof (cases "st_transport c = ''gatt''")
    case True
    then show ?thesis using Cons configure_topic_ok [OF ne] by (simp add: active_topics_def)
  next
    case gatt: False
    let ?g = "Suc (im_next_generation im)"
    let ?im = "im\<lparr>im_next_generation := ?g, im_entries := (im_entries im)(topic_key c \<mapsto> configured_entry c ?g)\<rparr>"
    have ok: "snd (configure_topics env topics ?im) = None"
      using Cons.prems gatt configure_topic_ok [OF ne] by simp
    from Cons.IH [OF ok] obtain gen where gen:
      "im_entries (fst (configure_topics env topics ?im)) = im_entries ?im ++
         map_of (map (\<lambda>c. (topic_key c, configured_entry c (gen c))) (active_topics topics))"
      "im_next_generation (fst (configure_topics env topics ?im)) =
         im_next_generation ?im + length (active_topics topics)" by blast
    have d: "topic_key c \<notin> topic_key ` set (active_topics topics)"
      using ok unfolding configure_topics_ok by force
    then have "c \<notin> set (active_topics topics)" by blast
    then have m: "map (\<lambda>d. (topic_key d, configured_entry d ((gen(c := ?g)) d))) (active_topics topics)
      = map (\<lambda>c. (topic_key c, configured_entry c (gen c))) (active_topics topics)" by auto
    let ?M = "map_of (map (\<lambda>c. (topic_key c, configured_entry c (gen c))) (active_topics topics))"
    have k: "topic_key c \<notin> dom ?M"
      using d by (auto simp: dom_map_of_conv_image_fst)
    have a: "active_topics (c # topics) = c # active_topics topics"
      using gatt by (simp add: active_topics_def)
    have "im_entries (fst (configure_topics env (c # topics) im)) = im_entries ?im ++ ?M"
      using gen(1) gatt configure_topic_ok [OF ne] by simp
    also have "\<dots> = im_entries im ++ ?M(topic_key c \<mapsto> configured_entry c ?g)"
      using k by (simp add: map_add_upd_left)
    finally have "im_entries (fst (configure_topics env (c # topics) im)) = im_entries im ++
        map_of (map (\<lambda>d. (topic_key d, configured_entry d ((gen(c := ?g)) d))) (active_topics (c # topics)))"
      unfolding a list.map m by (simp del: map_add_upd)
    moreover have "im_next_generation (fst (configure_topics env (c # topics) im)) =
        im_next_generation im + length (active_topics (c # topics))"
      using gen(2) gatt configure_topic_ok [OF ne] by (simp add: active_topics_def)
    ultimately show ?thesis by blast
  qed
qed


lemma add_whitelist_list: "im_peer_whitelist (add_whitelist ps im) = im_peer_whitelist im @ map lower_trim_copy ps"
  by (induction ps arbitrary: im) (simp_all add: Let_def split: option.splits)

lemma add_whitelist_mesh:
  "im_mesh_peer_by_address (add_whitelist ps im) n =
     (case im_mesh_peer_by_address im n of Some p \<Rightarrow> Some p
      | None \<Rightarrow> find (\<lambda>p. whitelist_mesh_number p = Some n) (map lower_trim_copy ps))"
  by (induction ps arbitrary: im) (auto simp: Let_def split: option.splits)

text \<open>\<open>configure\<close> accepts a topic list exactly when at most one advertisement entry exports, no
  two connectionless entries share a transport and a channel, and the ROS calls it makes for
  them succeed; GATT entries do not matter.\<close>

theorem configure_accepts_iff:
  "snd (configure env topics prefix wl im) = None \<longleftrightarrow>
     length (filter (\<lambda>c. st_transport c = ''advertisement'' \<and> exports_topic c) topics) \<le> 1 \<and>
     distinct (map topic_key (active_topics topics)) \<and>
     list_all (topic_available env) (active_topics topics)"
  by (auto simp: configure_def Let_def configure_topics_ok list_all_iff)

text \<open>an accepted configuration is installed as declared. There is one entry for each
  connectionless topic, under its transport and channel, with that topic's configuration, no
  buffered value, an empty replay history, a subscription and a timer exactly for exporters; the
  generations are new; and the peer tables hold the lower-case trimmed whitelist, a Mesh
  address going to the first whitelisted name whose numeric suffix it is.\<close>

theorem configure_installs:
  assumes "configure env topics prefix wl im = (im', None)"
  shows "(\<exists>gen. im_entries im' =
            map_of (map (\<lambda>c. (topic_key c, configured_entry c (gen c))) (active_topics topics)))
    \<and> im_next_generation im' = im_next_generation im + length (active_topics topics)
    \<and> built_after (im_next_generation im) im'
    \<and> im_peers_prefix im' = prefix \<and> im_peer_whitelist im' = map lower_trim_copy wl
    \<and> im_mesh_peer_by_address im' =
        (\<lambda>n. find (\<lambda>p. whitelist_mesh_number p = Some n) (map lower_trim_copy wl))"
proof -
  let ?im0 = "add_whitelist wl (im\<lparr>im_entries := Map.empty, im_peers_prefix := prefix,
                  im_peer_whitelist := [], im_mesh_peer_by_address := Map.empty\<rparr>)"
  have c: "configure_topics env topics ?im0 = (im', None)"
    using assms by (auto simp: configure_def Let_def split: if_splits)
  have tables: "im_peers_prefix (fst (configure_topics env topics i)) = im_peers_prefix i \<and>
      im_peer_whitelist (fst (configure_topics env topics i)) = im_peer_whitelist i \<and>
      im_mesh_peer_by_address (fst (configure_topics env topics i)) = im_mesh_peer_by_address i" for i
    by (rule configure_topics_tables)
  from configure_topics_entries [of env topics ?im0] c obtain gen where
    "im_entries im' = map_of (map (\<lambda>c. (topic_key c, configured_entry c (gen c))) (active_topics topics))"
    "im_next_generation im' = im_next_generation im + length (active_topics topics)"
    by auto
  moreover have "built_after (im_next_generation im) im'"
    using built_after_configure [of im env topics prefix wl] assms by simp
  moreover have "im_mesh_peer_by_address ?im0 =
      (\<lambda>n. find (\<lambda>p. whitelist_mesh_number p = Some n) (map lower_trim_copy wl))"
    by (simp add: fun_eq_iff add_whitelist_mesh)
  ultimately show ?thesis using tables [of ?im0] c by (auto simp: add_whitelist_list)
qed

text \<open>a reconfiguration retires every older callback, also when it throws. Whatever
  \<open>configure\<close> returns, a subscription or timer callback bound to a generation given out
  before it neither stores a sample nor starts a dispatch.\<close>

theorem configure_retires:
  assumes "g \<le> im_next_generation im"
  shows "store_local_message env key g message (fst (configure env topics prefix wl im))
           = (fst (configure env topics prefix wl im), False)
       \<and> flush_begin key g now (fst (configure env topics prefix wl im)) = None"
proof -
  have "en_generation e \<noteq> g" if "im_entries (fst (configure env topics prefix wl im)) key = Some e" for e
    using built_after_configure [of im env topics prefix wl] that assms
    unfolding built_after_def by fastforce
  then show ?thesis
    by (auto simp: store_local_message_def flush_begin_def split: option.splits)
qed

theorem configure_installs_witness:
  "\<exists>im' gen. configure demo_env [demo_topic] ''/uav1/bluetooth/peers'' [''UAV2 ''] demo_im = (im', None) \<and>
     im_entries im' = [topic_key demo_topic \<mapsto> configured_entry demo_topic (gen demo_topic)] \<and>
     im_next_generation im' = 2"
proof -
  have at: "active_topics [demo_topic] = [demo_topic]"
    by (simp add: active_topics_def demo_topic_def)
  have "snd (configure_topics demo_env [demo_topic] i) = None \<longleftrightarrow> im_entries i (topic_key demo_topic) = None" for i
    unfolding configure_topics_ok at by (simp add: topic_available_def demo_env_def)
  then have "snd (configure demo_env [demo_topic] ''/uav1/bluetooth/peers'' [''UAV2 ''] demo_im) = None"
    by (simp add: configure_def Let_def del: configure_topics.simps add_whitelist.simps)
  then obtain im' where c:
    "configure demo_env [demo_topic] ''/uav1/bluetooth/peers'' [''UAV2 ''] demo_im = (im', None)"
    by (cases "configure demo_env [demo_topic] ''/uav1/bluetooth/peers'' [''UAV2 ''] demo_im") auto
  from configure_installs [OF c] c show ?thesis
    by (auto simp: at demo_im_def empty_impl_def)
qed

theorem configure_retires_witness:
  "flush_begin (topic_key demo_topic) 1 9
     (fst (configure demo_env [demo_topic, demo_topic] ''/a'' [] demo_im)) = None"
proof -
  have "1 \<le> im_next_generation demo_im" by (simp add: demo_im_def)
  then show ?thesis by (rule configure_retires [THEN conjunct2])
qed

end
