(* ===== verification/Transport_Safety.thy ===== *)
theory Transport_Safety
  imports Transport_Config
begin

text \<open>
  Safety of the export path over whole runs of \<open>Transport_System\<close>: the newest sample of an
  entry is never lost, an older sample is never handed over after a newer one, and accepted
  hand-overs respect the declared rate. The invariant is stated for one generation at a time.
\<close>

definition transfers :: "nat \<Rightarrow> transfer list \<Rightarrow> transfer list" where
  "transfers g L = filter (\<lambda>t. tr_generation t = g) L"

definition log_ok :: "transfer list \<Rightarrow> bool" where
  "log_ok L \<longleftrightarrow> sorted_wrt (\<lambda>a b. tr_revision a < tr_revision b) L \<and>
     (\<forall>n. 0 < n \<and> n < length L \<and> 0 < tr_rate (hd L) \<longrightarrow>
        tr_end (hd L) + int n * dispatch_spacing (tr_rate (hd L)) \<le> tr_start (L ! n))"

definition entry_ok ::
    "(in_flight \<times> ticks) option \<Rightarrow> u8 list option \<Rightarrow> transfer list \<Rightarrow> string \<Rightarrow>
     shared_topic_config \<times> nat \<times> nat \<times> u8 list option \<times> ticks \<Rightarrow> bool" where
  "entry_ok flight newest L key x \<longleftrightarrow>
     (case x of (config, g, r, pending, deadline) \<Rightarrow>
        (newest = None \<longleftrightarrow> r = 0) \<and>
        (\<forall>t\<in>set L. tr_revision t \<le> r \<and> tr_rate t = st_rate_hz config \<and>
           (tr_revision t = r \<longrightarrow> newest = Some (tr_payload t))) \<and>
        (\<forall>p. pending = Some p \<longrightarrow> newest = Some p \<and> (\<forall>t\<in>set L. tr_revision t < r)) \<and>
        (case flight of
           None \<Rightarrow> pending = None \<longrightarrow> newest \<noteq> None \<longrightarrow> (\<exists>t\<in>set L. tr_revision t = r)
         | Some (fl, begun) \<Rightarrow>
             fl_key fl = key \<and> fl_generation fl = g \<and> fl_config fl = config \<and> 0 < fl_revision fl \<and>
             fl_revision fl \<le> r \<and> (\<forall>t\<in>set L. tr_revision t < fl_revision fl) \<and>
             (if fl_revision fl = r then pending = None \<and> newest = Some (fl_payload fl)
              else pending \<noteq> None) \<and>
             (0 < st_rate_hz config \<longrightarrow> deadline \<le> begun)) \<and>
        (0 < st_rate_hz config \<longrightarrow>
           (if L = [] then deadline = 0
            else 0 < deadline \<and>
              tr_end (hd L) + int (length L) * dispatch_spacing (st_rate_hz config) \<le> deadline)))"

definition flight_of :: "nat \<Rightarrow> (in_flight \<times> ticks) option \<Rightarrow> (in_flight \<times> ticks) option" where
  "flight_of g flight = (case flight of None \<Rightarrow> None
     | Some (fl, begun) \<Rightarrow> if fl_generation fl = g then Some (fl, begun) else None)"

definition system_inv :: "transport_system \<Rightarrow> bool" where
  "system_inv s \<longleftrightarrow>
     (\<forall>g. log_ok (transfers g (sy_accepted s)) \<and>
        (im_next_generation (sy_impl s) < g \<longrightarrow>
           sy_newest s g = None \<and> transfers g (sy_accepted s) = [])) \<and>
     (\<forall>key x. view (sy_impl s) key = Some x \<longrightarrow>
        0 < fst (snd x) \<and> fst (snd x) \<le> im_next_generation (sy_impl s) \<and>
        entry_ok (flight_of (fst (snd x)) (sy_flight s)) (sy_newest s (fst (snd x)))
          (transfers (fst (snd x)) (sy_accepted s)) key x) \<and>
     (\<forall>key key' x x'. view (sy_impl s) key = Some x \<longrightarrow> view (sy_impl s) key' = Some x' \<longrightarrow>
        fst (snd x) = fst (snd x') \<longrightarrow> key = key') \<and>
     (\<forall>fl begun. sy_flight s = Some (fl, begun) \<longrightarrow>
        (\<exists>x. view (sy_impl s) (fl_key fl) = Some x \<and> fst (snd x) = fl_generation fl))"

section \<open>One entry\<close>

lemma entry_ok_store:
  assumes "entry_ok fl newest L key (c, g, r, pending, d)"
  shows "entry_ok fl (Some p) L key (c, g, Suc r, Some p, d)"
  using assms by (auto simp: entry_ok_def less_Suc_eq_le split: option.splits)

lemma entry_ok_begin:
  assumes "entry_ok None newest L key (c, g, r, Some p, d)"
    and "0 < st_rate_hz c \<longrightarrow> d \<le> now"
  shows "entry_ok (Some (\<lparr>fl_key = key, fl_generation = g, fl_config = c, fl_payload = p,
           fl_revision = r\<rparr>, now)) newest L key (c, g, r, None, d)"
  using assms by (auto simp: entry_ok_def)

lemma entry_ok_refused:
  assumes "entry_ok (Some (fl, begun)) newest L key (c, g, r, pending, d)"
  shows "entry_ok None newest L key
    (c, g, r, if r = fl_revision fl \<and> pending = None then Some (fl_payload fl) else pending, d)"
  using assms by (auto simp: entry_ok_def split: if_splits)

lemma entry_ok_accepted:
  assumes "entry_ok (Some (fl, begun)) newest L key (c, g, r, pending, d)" and "0 \<le> now"
    and "d' = (if 0 < st_rate_hz c
               then if d = 0 then now + dispatch_spacing (st_rate_hz c)
                    else advance_deadline (st_rate_hz c) now d
               else d)"
    and "t = \<lparr>tr_generation = g, tr_revision = fl_revision fl, tr_payload = fl_payload fl,
              tr_rate = st_rate_hz c, tr_start = begun, tr_end = now\<rparr>"
  shows "entry_ok None newest (L @ [t]) key (c, g, r, pending, d')"
proof -
  have sp: "0 < dispatch_spacing (st_rate_hz c)" by (rule dispatch_spacing_pos)
  have adv: "d + dispatch_spacing (st_rate_hz c) \<le> advance_deadline (st_rate_hz c) now d"
    using advance_deadline_props by blast
  show ?thesis
  proof (cases "L = []")
    case True
    with assms sp show ?thesis by (auto simp: entry_ok_def split: if_splits)
  next
    case False
    with assms sp adv show ?thesis
      by (auto simp: entry_ok_def hd_append distrib_right split: if_splits)
  qed
qed

lemma log_ok_accepted:
  assumes "entry_ok (Some (fl, begun)) newest L key (c, g, r, pending, d)" and "log_ok L"
    and "t = \<lparr>tr_generation = g, tr_revision = fl_revision fl, tr_payload = fl_payload fl,
              tr_rate = st_rate_hz c, tr_start = begun, tr_end = now\<rparr>"
  shows "log_ok (L @ [t])"
proof (cases "L = []")
  case True
  then show ?thesis by (simp add: log_ok_def)
next
  case False
  then have rate: "tr_rate (hd L) = st_rate_hz c"
    using assms(1) hd_in_set by (fastforce simp: entry_ok_def)
  have "sorted_wrt (\<lambda>a b. tr_revision a < tr_revision b) (L @ [t])"
    using assms by (auto simp: sorted_wrt_append log_ok_def entry_ok_def)
  moreover have "tr_end (hd L) + int n * dispatch_spacing (st_rate_hz c) \<le> tr_start ((L @ [t]) ! n)"
    if n: "0 < n" "n < length (L @ [t])" and pos: "0 < st_rate_hz c" for n
  proof (cases "n < length L")
    case True
    then show ?thesis using assms(2) n pos rate by (auto simp: log_ok_def nth_append)
  next
    case last: False
    with n have "n = length L" by simp
    then show ?thesis using assms(1,3) False pos by (auto simp: entry_ok_def)
  qed
  ultimately show ?thesis using False rate by (simp add: log_ok_def)
qed

section \<open>The system\<close>

lemma system_invD:
  assumes "system_inv s" and "view (sy_impl s) key = Some (c, g, r, pending, d)"
  shows "0 < g" "g \<le> im_next_generation (sy_impl s)"
    "entry_ok (flight_of g (sy_flight s)) (sy_newest s g) (transfers g (sy_accepted s)) key
       (c, g, r, pending, d)"
    "log_ok (transfers g (sy_accepted s))"
  using assms unfolding system_inv_def by fastforce+

lemma transfers_append [simp]: "transfers g (L @ M) = transfers g L @ transfers g M"
  by (simp add: transfers_def)

lemma transfers_other: "\<forall>t\<in>set M. tr_generation t = g \<Longrightarrow> h \<noteq> g \<Longrightarrow> transfers h M = []"
  by (auto simp: transfers_def filter_empty_conv)

lemma system_inv_upd:
  assumes inv: "system_inv s"
    and old: "view (sy_impl s) key = Some (c, g, r, pending, d)"
    and gen: "im_next_generation (sy_impl s') = im_next_generation (sy_impl s)"
    and new: "view (sy_impl s') = (view (sy_impl s))(key \<mapsto> (c, g, r', pending', d'))"
    and newest: "\<And>h. h \<noteq> g \<Longrightarrow> sy_newest s' h = sy_newest s h"
    and acc: "sy_accepted s' = sy_accepted s @ M" "\<forall>t\<in>set M. tr_generation t = g"
    and fl: "\<And>h. h \<noteq> g \<Longrightarrow> flight_of h (sy_flight s') = flight_of h (sy_flight s)"
    and ok: "entry_ok (flight_of g (sy_flight s')) (sy_newest s' g) (transfers g (sy_accepted s')) key
               (c, g, r', pending', d')"
    and log: "log_ok (transfers g (sy_accepted s'))"
    and link: "\<And>fl begun. sy_flight s' = Some (fl, begun) \<Longrightarrow>
        sy_flight s = Some (fl, begun) \<or> fl_key fl = key \<and> fl_generation fl = g"
  shows "system_inv s'"
proof -
  have g: "0 < g" "g \<le> im_next_generation (sy_impl s)" using system_invD [OF inv old] by blast+
  have t: "transfers h (sy_accepted s') = transfers h (sy_accepted s)" if "h \<noteq> g" for h
    using acc transfers_other [OF acc(2) that] by simp
  have 1: "log_ok (transfers h (sy_accepted s')) \<and> (im_next_generation (sy_impl s') < h \<longrightarrow>
      sy_newest s' h = None \<and> transfers h (sy_accepted s') = [])" for h
    using inv log t [of h] newest [of h] g gen by (cases "h = g") (auto simp: system_inv_def)
  have u: "fst (snd x) \<noteq> g" if "key' \<noteq> key" "view (sy_impl s) key' = Some x" for key' x
    using inv old that unfolding system_inv_def by fastforce
  have 2: "0 < fst (snd x) \<and> fst (snd x) \<le> im_next_generation (sy_impl s') \<and>
      entry_ok (flight_of (fst (snd x)) (sy_flight s')) (sy_newest s' (fst (snd x)))
        (transfers (fst (snd x)) (sy_accepted s')) key' x"
    if v: "view (sy_impl s') key' = Some x" for key' x
  proof (cases "key' = key")
    case True
    with v new ok g gen show ?thesis by auto
  next
    case False
    with v new have v': "view (sy_impl s) key' = Some x" by simp
    note n = u [OF False v']
    from inv v' show ?thesis unfolding system_inv_def fl [OF n] newest [OF n] t [OF n] gen by blast
  qed
  have 3: "key1 = key2" if h: "view (sy_impl s') key1 = Some x1" "view (sy_impl s') key2 = Some x2"
    "fst (snd x1) = fst (snd x2)" for key1 key2 x1 x2
  proof -
    have bk: "\<exists>y. view (sy_impl s) k = Some y \<and> fst (snd y) = fst (snd x)"
      if "view (sy_impl s') k = Some x" for k x
      using that new old by (cases "k = key") auto
    from bk [OF h(1)] bk [OF h(2)] obtain y1 y2 where
      "view (sy_impl s) key1 = Some y1" "fst (snd y1) = fst (snd x1)"
      "view (sy_impl s) key2 = Some y2" "fst (snd y2) = fst (snd x2)" by blast
    with inv h(3) show ?thesis unfolding system_inv_def by metis
  qed
  have 4: "\<exists>x. view (sy_impl s') (fl_key fl) = Some x \<and> fst (snd x) = fl_generation fl"
    if "sy_flight s' = Some (fl, begun)" for fl begun
  proof -
    have "\<exists>x. view (sy_impl s) (fl_key fl) = Some x \<and> fst (snd x) = fl_generation fl"
      using link [OF that] inv old unfolding system_inv_def by fastforce
    then show ?thesis using new old by auto
  qed
  show ?thesis unfolding system_inv_def using 1 2 3 4 by blast
qed

lemma system_inv_same:
  assumes "system_inv s" and "same_exports (sy_impl s) im"
  shows "system_inv (s\<lparr>sy_impl := im\<rparr>)"
  using assms by (simp add: system_inv_def same_exports_def)

lemma viewE:
  assumes "im_entries im key = Some e"
  shows "view im key = Some (en_config e, en_generation e, en_revision e, en_pending_payload e, en_next_dispatch_at e)"
  using assms by (simp add: view_def export_view_def)

lemma view_upd:
  "view (im\<lparr>im_entries := (im_entries im)(key \<mapsto> e)\<rparr>) = (view im)(key \<mapsto> export_view e)"
  by (simp add: view_def fun_eq_iff)

lemma step_local:
  assumes "system_inv s"
  shows "system_inv (transport_step env (Local_message key g message) s)"
proof (cases "encoded_sample env key g message (sy_impl s)")
  case None
  then have "fst (store_local_message env key g message (sy_impl s)) = sy_impl s"
    by (auto simp: encoded_sample_def store_local_message_def Let_def split: option.splits if_splits sum.splits)
  with None assms show ?thesis by simp
next
  case (Some p)
  then obtain e where e: "im_entries (sy_impl s) key = Some e" "en_generation e = g"
    and st: "fst (store_local_message env key g message (sy_impl s)) =
      (sy_impl s)\<lparr>im_entries := (im_entries (sy_impl s))(key \<mapsto>
         e\<lparr>en_pending_payload := Some p, en_revision := en_revision e + 1\<rparr>)\<rparr>"
    by (auto simp: encoded_sample_def store_local_message_def Let_def split: option.splits if_splits sum.splits)
  note v = viewE [OF e(1), unfolded e(2)]
  note D = system_invD [OF assms v]
  show ?thesis
    by (rule system_inv_upd [OF assms v, where M = "[]" and r' = "Suc (en_revision e)"
          and pending' = "Some p" and d' = "en_next_dispatch_at e"])
       (use D entry_ok_store [OF D(3), of p] in \<open>simp_all add: Some st view_upd export_view_def e(2)\<close>)
qed

lemma step_begin:
  assumes "system_inv s"
  shows "system_inv (transport_step env (Flush_begin key g now) s)"
proof (cases "sy_flight s = None \<and> flush_begin key g now (sy_impl s) \<noteq> None")
  case False
  with assms show ?thesis by (auto split: option.splits)
next
  case True
  then obtain e p where e: "im_entries (sy_impl s) key = Some e" "en_generation e = g"
    and p: "en_pending_payload e = Some p"
    and due: "0 < st_rate_hz (en_config e) \<longrightarrow> en_next_dispatch_at e \<le> now"
    and fb: "flush_begin key g now (sy_impl s) = Some
       ((sy_impl s)\<lparr>im_entries := (im_entries (sy_impl s))(key \<mapsto> e\<lparr>en_pending_payload := None\<rparr>)\<rparr>,
        \<lparr>fl_key = key, fl_generation = g, fl_config = en_config e, fl_payload = p,
         fl_revision = en_revision e\<rparr>)"
    by (auto simp: flush_begin_def split: option.splits if_splits)
  note v = viewE [OF e(1), unfolded e(2) p]
  note D = system_invD [OF assms v]
  have "flight_of g (sy_flight s) = None" using True by (simp add: flight_of_def)
  note ok = entry_ok_begin [OF D(3) [unfolded this] due]
  show ?thesis
    by (rule system_inv_upd [OF assms v, where M = "[]" and r' = "en_revision e"
          and pending' = None and d' = "en_next_dispatch_at e"])
       (use D ok True in \<open>simp_all add: fb view_upd export_view_def e(2) flight_of_def\<close>)
qed

lemma flush_end_entry:
  assumes "im_entries im (fl_key fl) = Some e" and "en_generation e = fl_generation fl"
    and "fl_config fl = en_config e"
  shows "view (flush_end fl outcome now im) = (view im)(fl_key fl \<mapsto>
    (en_config e, en_generation e, en_revision e,
     if outcome = Inr True then en_pending_payload e
     else if en_revision e = fl_revision fl \<and> en_pending_payload e = None
     then Some (fl_payload fl) else en_pending_payload e,
     if outcome = Inr True \<and> 0 < st_rate_hz (en_config e)
     then if en_next_dispatch_at e = 0 then now + dispatch_spacing (st_rate_hz (en_config e))
          else advance_deadline (st_rate_hz (en_config e)) now (en_next_dispatch_at e)
     else en_next_dispatch_at e))"
  using assms viewE [OF assms(1)]
  by (cases outcome) (auto simp: flush_end_def view_upd export_view_def)

lemma flush_end_generation: "im_next_generation (flush_end fl outcome now im) = im_next_generation im"
  by (simp add: flush_end_def Let_def split: option.splits)

lemma step_end:
  assumes "system_inv s" and "0 \<le> now"
  shows "system_inv (transport_step env (Flush_end outcome now) s)"
proof (cases "sy_flight s")
  case None
  with assms show ?thesis by simp
next
  case (Some fb)
  obtain fl begun where fl: "sy_flight s = Some (fl, begun)" using Some by (cases fb) auto
  then obtain x where x: "view (sy_impl s) (fl_key fl) = Some x" "fst (snd x) = fl_generation fl"
    using assms(1) unfolding system_inv_def by blast
  then obtain e where e: "im_entries (sy_impl s) (fl_key fl) = Some e"
    and g: "en_generation e = fl_generation fl"
    by (auto simp: view_def export_view_def)
  note v = viewE [OF e, unfolded g]
  note D = system_invD [OF assms(1) v]
  have f: "flight_of (fl_generation fl) (sy_flight s) = Some (fl, begun)"
    by (simp add: flight_of_def fl)
  note ok = D(3) [unfolded f]
  have c: "fl_config fl = en_config e" using ok by (simp add: entry_ok_def)
  note fv = flush_end_entry [OF e g c, of outcome now]
  let ?s' = "transport_step env (Flush_end outcome now) s"
  show ?thesis
  proof (cases "outcome = Inr True")
    case True
    let ?t = "\<lparr>tr_generation = fl_generation fl, tr_revision = fl_revision fl,
      tr_payload = fl_payload fl, tr_rate = st_rate_hz (en_config e), tr_start = begun, tr_end = now\<rparr>"
    have ok': "entry_ok None (sy_newest s (fl_generation fl))
        (transfers (fl_generation fl) (sy_accepted s) @ [?t]) (fl_key fl)
        (en_config e, fl_generation fl, en_revision e, en_pending_payload e,
         if 0 < st_rate_hz (en_config e)
         then if en_next_dispatch_at e = 0 then now + dispatch_spacing (st_rate_hz (en_config e))
              else advance_deadline (st_rate_hz (en_config e)) now (en_next_dispatch_at e)
         else en_next_dispatch_at e)"
      by (rule entry_ok_accepted [OF ok assms(2) refl refl])
    have log: "log_ok (transfers (fl_generation fl) (sy_accepted s) @ [?t])"
      by (rule log_ok_accepted [OF ok D(4) refl])
    have fv': "view (flush_end fl outcome now (sy_impl s)) = (view (sy_impl s))(fl_key fl \<mapsto>
        (en_config e, fl_generation fl, en_revision e, en_pending_payload e,
         if 0 < st_rate_hz (en_config e)
         then if en_next_dispatch_at e = 0 then now + dispatch_spacing (st_rate_hz (en_config e))
              else advance_deadline (st_rate_hz (en_config e)) now (en_next_dispatch_at e)
         else en_next_dispatch_at e))"
      using fv True by (simp add: g)
    show ?thesis
      by (rule system_inv_upd [OF assms(1) v, where M = "[?t]" and r' = "en_revision e"
          and pending' = "en_pending_payload e"
          and d' = "if 0 < st_rate_hz (en_config e)
         then if en_next_dispatch_at e = 0 then now + dispatch_spacing (st_rate_hz (en_config e))
              else advance_deadline (st_rate_hz (en_config e)) now (en_next_dispatch_at e)
         else en_next_dispatch_at e"])
         (use D ok' log fv' True in \<open>simp_all add: fl flush_end_generation c flight_of_def transfers_def\<close>)
  next
    case False
    show ?thesis
      by (rule system_inv_upd [OF assms(1) v, where M = "[]" and r' = "en_revision e"
          and pending' = "if en_revision e = fl_revision fl \<and> en_pending_payload e = None
                          then Some (fl_payload fl) else en_pending_payload e"
          and d' = "en_next_dispatch_at e"])
         (use D entry_ok_refused [OF ok] False in
            \<open>simp_all add: fl flush_end_generation c flight_of_def transfers_def fv g\<close>)
  qed
qed

lemma step_configure:
  assumes "system_inv s"
  shows "system_inv (transport_step env (Configure topics prefix wl) s)"
proof (cases "sy_flight s")
  case (Some f)
  with assms show ?thesis by simp
next
  case None
  let ?im = "fst (configure env topics prefix wl (sy_impl s))" and ?n = "im_next_generation (sy_impl s)"
  have b: "built_after ?n ?im" by (rule built_after_configure)
  have new: "\<exists>c g. x = (c, g, 0, None, 0) \<and> ?n < g \<and> g \<le> im_next_generation ?im"
    if "view ?im key = Some x" for key x
    using that b by (auto simp: view_def export_view_def built_after_def fresh_entry_def)
  have old: "sy_newest s g = None" "transfers g (sy_accepted s) = []" if "?n < g" for g
    using that assms by (simp_all add: system_inv_def)
  have 1: "log_ok (transfers g (sy_accepted s))" for g using assms by (simp add: system_inv_def)
  have 2: "entry_ok None None [] key (c, g, 0, None, 0)" for key c g by (simp add: entry_ok_def)
  have 3: "key = key'" if h: "view ?im key = Some x" "view ?im key' = Some x'" "fst (snd x) = fst (snd x')"
    for key key' x x'
    using b h unfolding built_after_def by (auto simp: view_def export_view_def)
  have 4: "?n \<le> im_next_generation ?im" using b by (simp add: built_after_def)
  show ?thesis
    unfolding system_inv_def
    using None 1 3 4 old new 2 by (fastforce simp: flight_of_def)
qed

lemma transport_step_inv:
  assumes "transport_event_ok ev" and "system_inv s"
  shows "system_inv (transport_step env ev s)"
proof (cases ev)
  case (Local_message key g m)
  show ?thesis unfolding Local_message by (rule step_local [OF assms(2)])
next
  case (Flush_begin key g now)
  show ?thesis unfolding Flush_begin by (rule step_begin [OF assms(2)])
next
  case (Flush_end outcome now)
  then show ?thesis using step_end [OF assms(2)] assms(1) by simp
next
  case (Configure topics prefix wl)
  show ?thesis unfolding Configure by (rule step_configure [OF assms(2)])
next
  case Clear_bridges
  have "system_inv (s\<lparr>sy_impl := clear (sy_impl s)\<rparr>)" if "sy_flight s = None"
    using assms(2) that by (simp add: system_inv_def clear_def view_def)
  with Clear_bridges assms(2) show ?thesis by (cases "sy_flight s") simp_all
qed (simp_all add: assms(2) system_inv_same same_exports_advertisement same_exports_remember same_exports_mesh)

interpretation export_machine: invariant_machine start_system "transport_step env" transport_event_ok system_inv
proof unfold_locales
  show "system_inv start_system"
    by (simp add: system_inv_def start_system_def view_def empty_impl_def transfers_def log_ok_def)
qed (rule transport_step_inv)

lemma reachable_entry:
  assumes "list_all transport_event_ok es" and "s = fold (transport_step env) es start_system"
    and "im_entries (sy_impl s) key = Some e"
  shows "entry_ok (flight_of (en_generation e) (sy_flight s)) (sy_newest s (en_generation e))
    (transfers (en_generation e) (sy_accepted s)) key
    (en_config e, en_generation e, en_revision e, en_pending_payload e, en_next_dispatch_at e)"
  using system_invD(3) [OF _ viewE] export_machine.inv_run [OF assms(1)] assms(2,3) by blast

lemma reachable_log:
  assumes "list_all transport_event_ok es" and "s = fold (transport_step env) es start_system"
  shows "log_ok (transfers g (sy_accepted s))"
  using export_machine.inv_run [OF assms(1)] assms(2) by (simp add: system_inv_def)

text \<open>C1: the newest sample is never lost. In every reachable state the newest encoded sample of a
  configured entry is buffered, or is the one in flight, or has been accepted by the transport;
  declined and throwing senders, late timers and samples that arrive while an older one is in
  flight included.\<close>

theorem newest_never_lost:
  assumes "list_all transport_event_ok es" and "s = fold (transport_step env) es start_system"
    and "im_entries (sy_impl s) key = Some e" and "sy_newest s (en_generation e) = Some p"
  shows "en_pending_payload e = Some p
    \<or> (\<exists>fl begun. sy_flight s = Some (fl, begun) \<and> fl_generation fl = en_generation e \<and>
          fl_revision fl = en_revision e \<and> fl_payload fl = p)
    \<or> (\<exists>t\<in>set (sy_accepted s). tr_generation t = en_generation e \<and>
          tr_revision t = en_revision e \<and> tr_payload t = p)"
proof -
  note ok = reachable_entry [OF assms(1-3), unfolded assms(4)]
  show ?thesis
  proof (cases "flight_of (en_generation e) (sy_flight s)")
    case None
    with ok show ?thesis
      by (cases "en_pending_payload e") (auto simp: entry_ok_def transfers_def)
  next
    case (Some f)
    then obtain fl begun where f: "sy_flight s = Some (fl, begun)" "fl_generation fl = en_generation e"
      by (auto simp: flight_of_def split: option.splits if_splits)
    with ok have "if fl_revision fl = en_revision e
        then en_pending_payload e = None \<and> p = fl_payload fl else en_pending_payload e = Some p"
      by (auto simp: entry_ok_def flight_of_def split: if_splits)
    with f show ?thesis by (auto split: if_splits)
  qed
qed

text \<open>C2: hand-overs are in order and at the declared rate. In every run the samples of one
  generation that the transport accepted are in strictly increasing order of their arrival (so no
  value is handed over twice, nor after a newer one), and the n-th accepted hand-over after the
  first starts at least n spacings after the first one was accepted.\<close>

theorem handovers_ordered_and_paced:
  assumes "list_all transport_event_ok es" and "s = fold (transport_step env) es start_system"
    and "L = transfers g (sy_accepted s)" and "i < n" and "n < length L"
  shows "tr_revision (L ! i) < tr_revision (L ! n)
    \<and> (0 < tr_rate (L ! 0) \<longrightarrow>
         tr_end (L ! 0) + int n * dispatch_spacing (tr_rate (L ! 0)) \<le> tr_start (L ! n))"
proof -
  have ok: "log_ok L" using reachable_log [OF assms(1,2)] by (simp add: assms(3))
  then have "tr_revision (L ! i) < tr_revision (L ! n)"
    using assms(4,5) by (simp add: log_ok_def sorted_wrt_iff_nth_less)
  moreover have "L ! 0 = hd L" using assms(5) by (cases L) auto
  ultimately show ?thesis using ok assms(4,5) by (simp add: log_ok_def)
qed

text \<open>a due value is delivered. In a reachable state with no dispatch under way, a flush of an
  entry whose buffered value is due starts a dispatch of exactly that value; if the sender
  accepts it, it is logged as handed over and the buffer is empty, and if the sender declines or
  throws, every entry's export state is as before the flush.\<close>

theorem due_value_delivered:
  assumes "list_all transport_event_ok es" and "s = fold (transport_step env) es start_system"
    and "sy_flight s = None" and "im_entries (sy_impl s) key = Some e"
    and "en_pending_payload e = Some p"
    and "0 < st_rate_hz (en_config e) \<longrightarrow> en_next_dispatch_at e \<le> now" and "0 \<le> now'"
    and "s' = transport_step env (Flush_end outcome now')
                (transport_step env (Flush_begin key (en_generation e) now) s)"
  shows "if outcome = Inr True
    then sy_accepted s' = sy_accepted s @ [\<lparr>tr_generation = en_generation e,
           tr_revision = en_revision e, tr_payload = p, tr_rate = st_rate_hz (en_config e),
           tr_start = now, tr_end = now'\<rparr>] \<and>
         map_option en_pending_payload (im_entries (sy_impl s') key) = Some None
    else sy_accepted s' = sy_accepted s \<and> view (sy_impl s') = view (sy_impl s)"
proof -
  have fb: "flush_begin key (en_generation e) now (sy_impl s) = Some
     ((sy_impl s)\<lparr>im_entries := (im_entries (sy_impl s))(key \<mapsto> e\<lparr>en_pending_payload := None\<rparr>)\<rparr>,
      \<lparr>fl_key = key, fl_generation = en_generation e, fl_config = en_config e, fl_payload = p,
       fl_revision = en_revision e\<rparr>)"
    using assms(4-6) by (auto simp: flush_begin_def)
  show ?thesis
    using assms(3-5,8) fb viewE [OF assms(4)]
    by (cases outcome)
       (auto simp: flush_end_def view_upd export_view_def view_def fun_eq_iff)
qed

section \<open>Witness runs\<close>

definition demo_export :: shared_topic_config where
  "demo_export = demo_topic\<lparr>st_export_topic := ''/uav1/odom'', st_rate_hz := 2\<rparr>"

definition demo_run :: "nat transport_event list" where
  "demo_run = [Configure [demo_export] ''/uav1/bluetooth/peers'' [],
     Local_message (topic_key demo_export) 1 42, Flush_begin (topic_key demo_export) 1 5,
     Flush_end (Inr True) 6, Local_message (topic_key demo_export) 1 43]"

lemma demo_run_ok: "list_all transport_event_ok demo_run"
  by (simp add: demo_run_def)

lemma demo_export_facts:
  "exports_topic demo_export" "st_transport demo_export = ''advertisement''"
  "st_rate_hz demo_export = 2" "\<not> topic_error demo_env demo_export im \<longleftrightarrow> im_entries im (topic_key demo_export) = None"
  by (simp_all add: demo_export_def demo_topic_def exports_topic_def default_shared_topic_config_def
      topic_error_def demo_env_def)

lemma demo_configured:
  "fst (configure demo_env [demo_export] p [] im) =
     im\<lparr>im_peers_prefix := p, im_peer_whitelist := [], im_mesh_peer_by_address := Map.empty,
        im_next_generation := Suc (im_next_generation im),
        im_entries := [topic_key demo_export \<mapsto> configured_entry demo_export (Suc (im_next_generation im))]\<rparr>"
  by (simp add: configure_def Let_def configure_topic_ok demo_export_facts)

lemma demo_encode: "ros_encode demo_env t m ms f = Inr [of_nat m]"
  by (simp add: demo_env_def)

lemma configured_entry_fields:
  "en_revision (configured_entry c g) = 0" "en_next_dispatch_at (configured_entry c g) = 0"
  "en_pending_payload (configured_entry c g) = None"
  by (simp_all add: configured_entry_def empty_entry_def)

lemma demo_state_facts:
  assumes "s = fold (transport_step demo_env) demo_run start_system"
  shows "im_entries (sy_impl s) (topic_key demo_export) =
      Some ((configured_entry demo_export 1)\<lparr>en_pending_payload := Some [43], en_revision := 2,
             en_next_dispatch_at := 6 + dispatch_spacing 2\<rparr>)"
    and "sy_newest s 1 = Some [43]" "sy_flight s = None"
    and "sy_accepted s = [\<lparr>tr_generation = 1, tr_revision = 1, tr_payload = [42], tr_rate = 2,
       tr_start = 5, tr_end = 6\<rparr>]"
  unfolding assms demo_run_def
  by (simp_all add: start_system_def demo_configured empty_impl_def store_local_message_def
      encoded_sample_def flush_begin_def flush_end_def demo_encode configured_entry_fields
      demo_export_facts)

theorem newest_never_lost_witness:
  "\<exists>s e. s = fold (transport_step demo_env) demo_run start_system \<and>
     im_entries (sy_impl s) (topic_key demo_export) = Some e \<and> sy_newest s 1 = Some [43] \<and>
     en_pending_payload e = Some [43]"
proof -
  let ?s = "fold (transport_step demo_env) demo_run start_system"
  note f = demo_state_facts [OF refl]
  from newest_never_lost [OF demo_run_ok refl f(1), of "[43]"] f show ?thesis by auto
qed

theorem handovers_ordered_and_paced_witness:
  "\<exists>s L. s = fold (transport_step demo_env)
        (demo_run @ [Flush_begin (topic_key demo_export) 1 10000000000, Flush_end (Inr True) 10000000001])
        start_system \<and>
     L = transfers 1 (sy_accepted s) \<and> length L = 2 \<and> tr_revision (L ! 0) < tr_revision (L ! 1)"
proof -
  let ?es = "demo_run @ [Flush_begin (topic_key demo_export) 1 10000000000, Flush_end (Inr True) 10000000001]"
  let ?s = "fold (transport_step demo_env) ?es start_system"
  have ok: "list_all transport_event_ok ?es" using demo_run_ok by simp
  have "dispatch_spacing 2 \<le> 1000000000" by code_simp
  then have "length (transfers 1 (sy_accepted ?s)) = 2"
    using demo_state_facts [OF refl]
    by (simp add: flush_begin_def flush_end_def transfers_def demo_export_facts configured_entry_fields)
  with handovers_ordered_and_paced [OF ok refl refl, of 0 1 1] show ?thesis by auto
qed

theorem due_value_delivered_witness:
  "\<exists>s t. s = fold (transport_step demo_env) demo_run start_system \<and>
     sy_accepted (transport_step demo_env (Flush_end (Inr True) 10000000001)
       (transport_step demo_env (Flush_begin (topic_key demo_export) 1 10000000000) s))
     = sy_accepted s @ [t] \<and> tr_payload t = [43]"
proof -
  let ?s = "fold (transport_step demo_env) demo_run start_system"
  note f = demo_state_facts [OF refl]
  have "dispatch_spacing 2 \<le> 1000000000" by code_simp
  then have "0 < st_rate_hz demo_export \<longrightarrow> 6 + dispatch_spacing 2 \<le> 10000000000" by simp
  with due_value_delivered [OF demo_run_ok refl f(3,1), of "[43]" 10000000000 10000000001 _ "Inr True"]
  show ?thesis by auto
qed

end
