(* ===== verification/Md5_Digest.thy ===== *)
theory Md5_Digest
  imports Bt_Prelude
begin

text \<open>
  The MD5 implementation \<open>MD5Context\<close> of \<open>src/util/uuid_utils.cpp\<close>: a buffered stream digest.
  \<open>std::memcpy\<close> between bytes and 32/64-bit integers is little-endian, as on every target of
  the package. The chaining state is a tuple of four words; the buffer is a list of 64 bytes.
  (The file also has an older \<open>struct MD5\<close> that nothing calls; it is not modelled.)
\<close>

type_synonym md5_state = "u32 \<times> u32 \<times> u32 \<times> u32"

record md5_context =
  mc_state :: md5_state
  mc_count :: u64
  mc_buffer :: "u8 list"

definition md5_init :: md5_context where
  "md5_init = \<lparr>mc_state = (0x67452301, 0xefcdab89, 0x98badcfe, 0x10325476),
     mc_count = 0, mc_buffer = replicate 64 0\<rparr>"

definition md5_F :: "u32 \<Rightarrow> u32 \<Rightarrow> u32 \<Rightarrow> u32" where
  "md5_F x y z = (x AND y) OR (NOT x AND z)"

definition md5_G :: "u32 \<Rightarrow> u32 \<Rightarrow> u32 \<Rightarrow> u32" where
  "md5_G x y z = (x AND z) OR (y AND NOT z)"

definition md5_H :: "u32 \<Rightarrow> u32 \<Rightarrow> u32 \<Rightarrow> u32" where
  "md5_H x y z = x XOR y XOR z"

definition md5_I :: "u32 \<Rightarrow> u32 \<Rightarrow> u32 \<Rightarrow> u32" where
  "md5_I x y z = y XOR (x OR NOT z)"

definition md5_rotl :: "u32 \<Rightarrow> nat \<Rightarrow> u32" where
  "md5_rotl x n = push_bit n x OR drop_bit (32 - n) x"

definition md5_shifts :: "nat list" where
  "md5_shifts =
    [7, 12, 17, 22, 7, 12, 17, 22, 7, 12, 17, 22, 7, 12, 17, 22,
     5, 9, 14, 20, 5, 9, 14, 20, 5, 9, 14, 20, 5, 9, 14, 20,
     4, 11, 16, 23, 4, 11, 16, 23, 4, 11, 16, 23, 4, 11, 16, 23,
     6, 10, 15, 21, 6, 10, 15, 21, 6, 10, 15, 21, 6, 10, 15, 21]"

definition md5_constants :: "u32 list" where
  "md5_constants =
    [0xd76aa478, 0xe8c7b756, 0x242070db, 0xc1bdceee,
     0xf57c0faf, 0x4787c62a, 0xa8304613, 0xfd469501,
     0x698098d8, 0x8b44f7af, 0xffff5bb1, 0x895cd7be,
     0x6b901122, 0xfd987193, 0xa679438e, 0x49b40821,
     0xf61e2562, 0xc040b340, 0x265e5a51, 0xe9b6c7aa,
     0xd62f105d, 0x02441453, 0xd8a1e681, 0xe7d3fbc8,
     0x21e1cde6, 0xc33707d6, 0xf4d50d87, 0x455a14ed,
     0xa9e3e905, 0xfcefa3f8, 0x676f02d9, 0x8d2a4c8a,
     0xfffa3942, 0x8771f681, 0x6d9d6122, 0xfde5380c,
     0xa4beea44, 0x4bdecfa9, 0xf6bb4b60, 0xbebfbc70,
     0x289b7ec6, 0xeaa127fa, 0xd4ef3085, 0x04881d05,
     0xd9d4d039, 0xe6db99e5, 0x1fa27cf8, 0xc4ac5665,
     0xf4292244, 0x432aff97, 0xab9423a7, 0xfc93a039,
     0x655b59c3, 0x8f0ccc92, 0xffeff47d, 0x85845dd1,
     0x6fa87e4f, 0xfe2ce6e0, 0xa3014314, 0x4e0811a1,
     0xf7537e82, 0xbd3af235, 0x2ad7d2bb, 0xeb86d391]"

definition word_of_bytes :: "u8 list \<Rightarrow> u32" where
  "word_of_bytes bs = ucast (bs ! 0) OR push_bit 8 (ucast (bs ! 1)) OR
     push_bit 16 (ucast (bs ! 2)) OR push_bit 24 (ucast (bs ! 3))"

definition bytes_of_word :: "u32 \<Rightarrow> u8 list" where
  "bytes_of_word w = map (\<lambda>k. ucast (drop_bit (8 * k) w)) [0, 1, 2, 3]"

definition bytes_of_u64 :: "u64 \<Rightarrow> u8 list" where
  "bytes_of_u64 w = map (\<lambda>k. ucast (drop_bit (8 * k) w)) [0, 1, 2, 3, 4, 5, 6, 7]"

definition md5_round :: "u32 list \<Rightarrow> nat \<Rightarrow> md5_state \<Rightarrow> md5_state" where
  "md5_round M i = (\<lambda>(a, b, c, d).
     let (f, g) =
       (if i < 16 then (md5_F b c d, i)
        else if i < 32 then (md5_G b c d, (5 * i + 1) mod 16)
        else if i < 48 then (md5_H b c d, (3 * i + 5) mod 16)
        else (md5_I b c d, (7 * i) mod 16))
     in (d, b + md5_rotl (a + f + md5_constants ! i + M ! g) (md5_shifts ! i), b, c))"

definition md5_transform :: "md5_state \<Rightarrow> u8 list \<Rightarrow> md5_state" where
  "md5_transform state block =
     (let M = map (\<lambda>i. word_of_bytes (drop (i * 4) block)) [0..<16];
          (a, b, c, d) = fold (md5_round M) [0..<64] state
      in case state of (s0, s1, s2, s3) \<Rightarrow> (s0 + a, s1 + b, s2 + c, s3 + d))"

text \<open>The loop over whole blocks of \<open>md5_update\<close>, with the bytes it leaves over.\<close>

function md5_blocks :: "md5_state \<Rightarrow> u8 list \<Rightarrow> md5_state \<times> u8 list" where
  "md5_blocks state data =
     (if 64 \<le> length data then md5_blocks (md5_transform state (take 64 data)) (drop 64 data)
      else (state, data))"
  by pat_completeness auto
termination by (relation "measure (\<lambda>(state, data). length data)") auto

declare md5_blocks.simps [simp del]

definition overwrite :: "u8 list \<Rightarrow> nat \<Rightarrow> u8 list \<Rightarrow> u8 list" where
  "overwrite buffer n bytes = take n buffer @ bytes @ drop (n + length bytes) buffer"

definition md5_update :: "md5_context \<Rightarrow> u8 list \<Rightarrow> md5_context" where
  "md5_update ctx data =
     (let index = unat (mc_count ctx) mod 64;
          ctx = ctx\<lparr>mc_count := mc_count ctx + of_nat (length data)\<rparr>;
          part = min (length data) (64 - index);
          buffer = overwrite (mc_buffer ctx) index (take part data)
      in if index \<noteq> 0 \<and> index + part < 64
         then ctx\<lparr>mc_buffer := buffer\<rparr>
         else
           let ctx = (if index \<noteq> 0
                      then ctx\<lparr>mc_buffer := buffer, mc_state := md5_transform (mc_state ctx) buffer\<rparr>
                      else ctx);
               (state, left) = md5_blocks (mc_state ctx) (if index \<noteq> 0 then drop part data else data)
           in ctx\<lparr>mc_state := state, mc_buffer := overwrite (mc_buffer ctx) 0 left\<rparr>)"

lemma md5_update_count: "mc_count (md5_update ctx data) = mc_count ctx + of_nat (length data)"
  by (simp add: md5_update_def Let_def split: prod.splits)

lemma unat_mod_64: "unat (w + 1 :: u64) mod 64 = (unat w mod 64 + 1) mod 64"
proof -
  have "unat (w + 1) = (unat w + 1) mod 2 ^ 64" by (simp add: unat_word_ariths)
  then show ?thesis by (simp add: mod_mod_cancel mod_Suc_eq)
qed

lemma pad_measure:
  fixes x :: nat
  assumes "x < 64" and "x \<noteq> 56"
  shows "(120 - (x + 1) mod 64) mod 64 < (120 - x) mod 64"
proof -
  consider "x = 63" | "x < 56" | "57 \<le> x" "x < 63" using assms by linarith
  then show ?thesis
  proof cases
    case 2
    then have "(120 - x) mod 64 = 56 - x" "(120 - (x + 1)) mod 64 = 55 - x"
      by (simp_all add: le_mod_geq)
    moreover have "(x + 1) mod 64 = x + 1" "55 - x < 56 - x" using 2 by (simp, linarith)
    ultimately show ?thesis by (simp only:)
  qed simp_all
qed

text \<open>The padding loop of \<open>md5_finalize\<close>: zero bytes up to offset 56 of a block.\<close>

function md5_pad :: "md5_context \<Rightarrow> md5_context" where
  "md5_pad ctx = (if unat (mc_count ctx) mod 64 \<noteq> 56 then md5_pad (md5_update ctx [0]) else ctx)"
  by pat_completeness auto
termination
  by (relation "measure (\<lambda>ctx. (120 - unat (mc_count ctx) mod 64) mod 64)")
     (simp_all add: md5_update_count unat_mod_64 pad_measure [simplified])

declare md5_pad.simps [simp del]

definition md5_finalize :: "md5_context \<Rightarrow> u8 list" where
  "md5_finalize ctx =
     (let bit_count = mc_count ctx * 8;
          ctx = md5_pad (md5_update ctx [0x80]);
          ctx = md5_update ctx (bytes_of_u64 bit_count)
      in case mc_state ctx of (s0, s1, s2, s3) \<Rightarrow>
           bytes_of_word s0 @ bytes_of_word s1 @ bytes_of_word s2 @ bytes_of_word s3)"

definition hex_char :: "u8 \<Rightarrow> char" where
  "hex_char n = ''0123456789abcdef'' ! unat n"

definition hex_byte :: "u8 \<Rightarrow> string" where
  "hex_byte byte = [hex_char (drop_bit 4 byte AND 0xF), hex_char (byte AND 0xF)]"

definition md5_hex :: "u8 list \<Rightarrow> string" where
  "md5_hex data = concat (map hex_byte (md5_finalize (md5_update md5_init data)))"

end
