(* ===== verification/Md5_Correct.thy ===== *)
theory Md5_Correct
  imports Md5_Digest
begin

text \<open>
  The stream digest of \<open>Md5_Digest\<close> against the definition of RFC 1321: pad the message, cut
  it into 64-byte blocks, fold the compression function over them. A context is related to
  the bytes fed into it so far (\<open>holds\<close>); every \<open>md5_update\<close> keeps the relation, so the buffer
  handling, the counter and the padding loop are transparent.
\<close>

definition chunks64 :: "u8 list \<Rightarrow> u8 list list" where
  "chunks64 m = map (\<lambda>i. take 64 (drop (64 * i) m)) [0..<length m div 64]"

definition md5_padding :: "u8 list \<Rightarrow> u8 list" where
  "md5_padding m = [0x80] @ replicate ((119 - length m mod 64) mod 64) 0 @
     bytes_of_u64 (of_nat (8 * length m))"

definition state_bytes :: "md5_state \<Rightarrow> u8 list" where
  "state_bytes = (\<lambda>(s0, s1, s2, s3). bytes_of_word s0 @ bytes_of_word s1 @ bytes_of_word s2 @ bytes_of_word s3)"

definition md5_spec :: "u8 list \<Rightarrow> u8 list" where
  "md5_spec m = state_bytes
     (fold (\<lambda>block state. md5_transform state block) (chunks64 (m @ md5_padding m)) (mc_state md5_init))"

lemma chunks64_step:
  assumes "64 \<le> length m"
  shows "chunks64 m = take 64 m # chunks64 (drop 64 m)"
proof -
  have n: "length m div 64 = Suc (length (drop 64 m) div 64)"
    using assms by (simp add: le_div_geq)
  have "[0..<Suc k] = 0 # map Suc [0..<k]" for k by (simp add: upt_conv_Cons map_Suc_upt)
  then show ?thesis by (simp add: chunks64_def n comp_def add.commute)
qed

lemma md5_blocks_short: "length d < 64 \<Longrightarrow> md5_blocks st d = (st, d)"
  by (simp add: md5_blocks.simps)

lemma md5_blocks_long:
  "64 \<le> length d \<Longrightarrow> md5_blocks st d = md5_blocks (md5_transform st (take 64 d)) (drop 64 d)"
  by (subst md5_blocks.simps) simp

lemma md5_blocks_chunks:
  "fst (md5_blocks st m) = fold (\<lambda>block state. md5_transform state block) (chunks64 m) st"
proof (induction st m rule: md5_blocks.induct)
  case (1 st m)
  show ?case
  proof (cases "64 \<le> length m")
    case True
    with "1.IH" [OF True] show ?thesis by (simp add: md5_blocks_long [OF True] chunks64_step)
  next
    case False
    then show ?thesis by (simp add: md5_blocks_short chunks64_def)
  qed
qed

lemma md5_blocks_length: "length (snd (md5_blocks st m)) = length m mod 64"
proof (induction st m rule: md5_blocks.induct)
  case (1 st m)
  show ?case
  proof (cases "64 \<le> length m")
    case True
    with "1.IH" [OF True] show ?thesis
      by (simp add: md5_blocks_long [OF True] le_mod_geq [OF True])
  next
    case False
    then show ?thesis by (simp add: md5_blocks_short)
  qed
qed

lemma md5_blocks_append:
  "md5_blocks st (m @ d) = md5_blocks (fst (md5_blocks st m)) (snd (md5_blocks st m) @ d)"
proof (induction st m rule: md5_blocks.induct)
  case (1 st m)
  show ?case
  proof (cases "64 \<le> length m")
    case True
    have "md5_blocks st (m @ d) = md5_blocks (md5_transform st (take 64 m)) (drop 64 m @ d)"
      using True md5_blocks_long [of "m @ d" st] by simp
    with "1.IH" [OF True] show ?thesis by (simp only: md5_blocks_long [OF True, of st])
  next
    case False
    then show ?thesis by (simp add: md5_blocks_short)
  qed
qed

definition holds :: "md5_context \<Rightarrow> u8 list \<Rightarrow> bool" where
  "holds ctx m \<longleftrightarrow> mc_count ctx = of_nat (length m) \<and> length (mc_buffer ctx) = 64 \<and>
     md5_blocks (mc_state md5_init) m = (mc_state ctx, take (length m mod 64) (mc_buffer ctx))"

lemma holds_init: "holds md5_init []"
  by (simp add: holds_def md5_init_def md5_blocks_short)

lemma count_index:
  assumes "holds ctx m"
  shows "unat (mc_count ctx) mod 64 = length m mod 64"
  using assms by (simp add: holds_def unat_of_nat mod_mod_cancel)

lemma length_overwrite: "n + length bs \<le> length b \<Longrightarrow> length (overwrite b n bs) = length b"
  by (simp add: overwrite_def)

lemma take_overwrite: "n + length bs \<le> length b \<Longrightarrow> take (n + length bs) (overwrite b n bs) = take n b @ bs"
  by (simp add: overwrite_def)

lemma holds_update:
  assumes "holds ctx m"
  shows "holds (md5_update ctx d) (m @ d)"
proof -
  let ?i = "length m mod 64" and ?b = "mc_buffer ctx"
  have b: "length ?b = 64" and c: "mc_count ctx = of_nat (length m)"
    and blk: "md5_blocks (mc_state md5_init) m = (mc_state ctx, take ?i ?b)"
    using assms by (simp_all add: holds_def)
  have app: "md5_blocks (mc_state md5_init) (m @ d) = md5_blocks (mc_state ctx) (take ?i ?b @ d)"
    using md5_blocks_append [of "mc_state md5_init" m d] by (simp add: blk)
  have cnt: "mc_count (md5_update ctx d) = of_nat (length (m @ d))"
    by (simp add: md5_update_count c)
  note ix = count_index [OF assms]
  have i64: "?i < 64" by simp
  consider (short) "?i \<noteq> 0" "?i + length d < 64" | (full) "?i \<noteq> 0" "64 \<le> ?i + length d" | (aligned) "?i = 0"
    by linarith
  then show ?thesis
  proof cases
    case short
    then have u: "md5_update ctx d = ctx\<lparr>mc_count := mc_count ctx + of_nat (length d),
        mc_buffer := overwrite ?b ?i d\<rparr>"
      by (simp add: md5_update_def Let_def ix)
    have "(length m + length d) mod 64 = ?i + length d"
      using short(2) by (metis mod_add_left_eq mod_less)
    then show ?thesis
      using short b app cnt take_overwrite [of ?i d ?b]
      by (simp add: holds_def u length_overwrite md5_blocks_short)
  next
    case full
    let ?p = "64 - ?i"
    let ?buf = "overwrite ?b ?i (take ?p d)"
    have lp: "length (take ?p d) = ?p" using full i64 by simp
    have buf: "?buf = take ?i ?b @ take ?p d" "length ?buf = 64"
      using b i64 lp by (simp_all add: overwrite_def)
    let ?r = "md5_blocks (md5_transform (mc_state ctx) ?buf) (drop ?p d)"
    have mn: "min (length d) ?p = ?p" using full by simp
    have "mc_state (md5_update ctx d) = fst ?r"
      "mc_buffer (md5_update ctx d) = overwrite ?buf 0 (snd ?r)"
      using full mn by (simp_all add: md5_update_def Let_def ix split: prod.splits)
    moreover have "md5_blocks (mc_state ctx) (take ?i ?b @ d) = ?r"
    proof -
      have "take 64 (take ?i ?b @ d) = ?buf" "drop 64 (take ?i ?b @ d) = drop ?p d"
        using full b i64 by (simp_all add: buf(1) min_absorb2)
      then show ?thesis using full b i64 md5_blocks_long [of "take ?i ?b @ d" "mc_state ctx"] by simp
    qed
    moreover have "length (snd ?r) = (length m + length d) mod 64"
      using md5_blocks_length [of "mc_state md5_init" "m @ d"] app calculation(3) by simp
    ultimately show ?thesis
      using app cnt buf(2) take_overwrite [of 0 "snd ?r" ?buf]
      by (simp add: holds_def length_overwrite prod_eq_iff)
  next
    case aligned
    let ?r = "md5_blocks (mc_state ctx) d"
    have u: "mc_state (md5_update ctx d) = fst ?r" "mc_buffer (md5_update ctx d) = overwrite ?b 0 (snd ?r)"
      using aligned by (simp_all add: md5_update_def Let_def ix split: prod.splits)
    have "length (snd ?r) = (length m + length d) mod 64"
      using md5_blocks_length [of "mc_state md5_init" "m @ d"] app aligned by simp
    then show ?thesis
      using app cnt b aligned u take_overwrite [of 0 "snd ?r" ?b]
      by (simp add: holds_def length_overwrite prod_eq_iff)
  qed
qed

lemma holds_pad:
  "holds ctx m \<Longrightarrow> holds (md5_pad ctx) (m @ replicate ((120 - length m mod 64) mod 64) 0)"
proof (induction ctx arbitrary: m rule: md5_pad.induct)
  case (1 ctx)
  note ix = count_index [OF "1.prems"]
  show ?case
  proof (cases "length m mod 64 = 56")
    case True
    with "1.prems" ix show ?thesis by (simp add: md5_pad.simps)
  next
    case False
    let ?x = "length m mod 64"
    have k: "(120 - ?x) mod 64 = Suc ((120 - Suc (length m) mod 64) mod 64)"
    proof -
      have s: "Suc (length m) mod 64 = (?x + 1) mod 64" by (simp add: mod_Suc_eq)
      have "?x < 64" by simp
      then consider "?x = 63" | "?x < 56" | "57 \<le> ?x" "?x < 63" using False by linarith
      then show ?thesis
      proof cases
        case 2
        then have "(120 - ?x) mod 64 = 56 - ?x" "(120 - (?x + 1)) mod 64 = 55 - ?x"
          by (simp_all add: le_mod_geq)
        moreover have "(?x + 1) mod 64 = ?x + 1" "56 - ?x = Suc (55 - ?x)" using 2 by (simp, linarith)
        ultimately show ?thesis by (simp only: s)
      next
        case 3
        then show ?thesis unfolding s by simp
      qed (simp add: s)
    qed
    have "holds (md5_pad (md5_update ctx [0]))
        ((m @ [0]) @ replicate ((120 - length (m @ [0]) mod 64) mod 64) 0)"
      using "1.IH" [of "m @ [0]"] False ix holds_update [OF "1.prems", of "[0]"] by simp
    then show ?thesis using False ix k by (simp add: md5_pad.simps [of ctx])
  qed
qed

lemma finalize_spec:
  assumes h0: "holds ctx m"
  shows "md5_finalize ctx = md5_spec m"
proof -
  let ?k = "(119 - length m mod 64) mod 64"
  let ?bits = "bytes_of_u64 (mc_count ctx * 8)"
  have "(120 - (length m + 1) mod 64) mod 64 = ?k"
  proof -
    have s: "(length m + 1) mod 64 = (length m mod 64 + 1) mod 64" by (simp add: mod_Suc_eq)
    have "length m mod 64 < 64" by simp
    then consider "length m mod 64 = 63" | "length m mod 64 < 63" by linarith
    then show ?thesis unfolding s by cases simp_all
  qed
  then have "holds (md5_pad (md5_update ctx [0x80])) ((m @ [0x80]) @ replicate ?k 0)"
    using holds_pad [OF holds_update [OF h0, of "[0x80]"]] by simp
  from holds_update [OF this, of ?bits]
  have h: "holds (md5_update (md5_pad (md5_update ctx [0x80])) ?bits)
      (m @ [0x80] @ replicate ?k 0 @ ?bits)" by simp
  have "mc_count ctx * 8 = of_nat (8 * length m)"
    using h0 by (simp add: holds_def mult.commute)
  then have "m @ [0x80] @ replicate ?k 0 @ ?bits = m @ md5_padding m"
    by (simp add: md5_padding_def)
  with h have "mc_state (md5_update (md5_pad (md5_update ctx [0x80])) ?bits)
      = fst (md5_blocks (mc_state md5_init) (m @ md5_padding m))"
    by (simp only: holds_def prod.sel)
  then show ?thesis
    by (simp add: md5_finalize_def md5_spec_def state_bytes_def md5_blocks_chunks Let_def)
qed

lemma holds_updates: "holds ctx m \<Longrightarrow> holds (fold (\<lambda>d ctx. md5_update ctx d) ds ctx) (m @ concat ds)"
proof (induction ds arbitrary: ctx m)
  case (Cons d ds)
  from Cons.IH [OF holds_update [OF Cons.prems, of d]] show ?case by simp
qed simp

lemma padded_length: "(n + (9 + (119 - n mod 64) mod 64)) mod 64 = (0 :: nat)"
proof -
  have x: "n mod 64 < 64" by simp
  have "(n + (9 + (119 - n mod 64) mod 64)) mod 64 = (n mod 64 + (9 + (119 - n mod 64))) mod 64"
    by (metis mod_add_left_eq mod_add_right_eq)
  also have "n mod 64 + (9 + (119 - n mod 64)) = 128" using x by linarith
  finally show ?thesis by simp
qed


definition ascii :: "string \<Rightarrow> u8 list" where
  "ascii s = map (\<lambda>c. of_nat (char_code c)) s"

text \<open>Two vectors of the RFC 1321 test suite hold of the code's digest.\<close>

theorem md5_test_suite:
  "md5_hex (ascii '''') = ''d41d8cd98f00b204e9800998ecf8427e''
   \<and> md5_hex (ascii ''abc'') = ''900150983cd24fb0d6963f7d28e17f72''"
  by (intro conjI; code_simp)

end
