(* ===== verification/Uuid_Identity.thy ===== *)
theory Uuid_Identity
  imports Md5_Digest
begin

text \<open>
  The UUID helpers of \<open>src/util/uuid_utils.cpp\<close> and the Mesh device identities of
  \<open>src/mesh/mesh_application.cpp\<close> that are built on them. The fixed pattern \<open>kUuidRe\<close> is
  written out; \<open>std::stoul\<close> is called only on runs of digits, where it returns their value
  or throws \<open>out_of_range\<close>.
\<close>

definition bytes_of_string :: "string \<Rightarrow> u8 list" where
  "bytes_of_string s = map (\<lambda>c. of_nat (char_code c)) s"

section \<open>uuid\_utils\<close>

definition uuid_trim :: "string \<Rightarrow> string" where
  "uuid_trim s =
     (case find_first (\<lambda>c. \<not> is_ascii_ws c) s of
        None \<Rightarrow> []
      | Some start \<Rightarrow>
          (case find_last (\<lambda>c. \<not> is_ascii_ws c) s of
             None \<Rightarrow> []
           | Some stop \<Rightarrow> substr s start (stop - start + 1)))"

definition uuid_from_name :: "string \<Rightarrow> string" where
  "uuid_from_name name =
     (let hex = md5_hex (bytes_of_string name)
      in substr hex 0 8 @ ''-'' @ substr hex 8 4 @ ''-'' @ substr hex 12 4 @ ''-'' @
         substr hex 16 4 @ ''-'' @ substr hex 20 12)"

text \<open>The pattern 8-4-4-4-12 of hexadecimal digits.\<close>

definition matches_uuid :: "string \<Rightarrow> bool" where
  "matches_uuid s \<longleftrightarrow> length s = 36 \<and>
     list_all (\<lambda>i. if i \<in> {8, 13, 18, 23} then s ! i = CHR ''-'' else is_xdigit (s ! i)) [0..<36]"

definition is_uuid :: "string \<Rightarrow> bool" where
  "is_uuid value = matches_uuid (uuid_trim value)"

definition resolve_uuid :: "string \<Rightarrow> string" where
  "resolve_uuid value =
     (let trimmed = uuid_trim value
      in if is_uuid trimmed then map to_lower trimmed else uuid_from_name trimmed)"

definition named_service_uuid :: "string \<Rightarrow> string" where
  "named_service_uuid name = uuid_from_name (uuid_trim name)"

definition named_characteristic_uuid :: "string \<Rightarrow> string" where
  "named_characteristic_uuid name = uuid_from_name (uuid_trim name)"

definition named_descriptor_uuid :: "string \<Rightarrow> string" where
  "named_descriptor_uuid name = uuid_from_name (uuid_trim name)"

section \<open>Mesh device identities\<close>

definition stoul_digits :: "string \<Rightarrow> std_error + nat" where
  "stoul_digits digits =
     (if digits = [] then Inl (Invalid_argument ''stoul'')
      else if 2 ^ 64 \<le> digits_value digits then Inl (Out_of_range ''stoul'')
      else Inr (digits_value digits))"

fun normalized_uuid_chars :: "string \<Rightarrow> std_error + string" where
  "normalized_uuid_chars [] = Inr []"
| "normalized_uuid_chars (ch # value) =
     (if ch = CHR ''-'' then normalized_uuid_chars value
      else if \<not> is_xdigit ch
      then Inl (Invalid_argument ''mesh UUID contains a non-hexadecimal character'')
      else (case normalized_uuid_chars value of
              Inl error \<Rightarrow> Inl error
            | Inr result \<Rightarrow> Inr (to_lower ch # result)))"

definition normalized_uuid_hex :: "string \<Rightarrow> std_error + string" where
  "normalized_uuid_hex value =
     (case normalized_uuid_chars value of
        Inl error \<Rightarrow> Inl error
      | Inr result \<Rightarrow>
          if length result \<noteq> 32
          then Inl (Invalid_argument ''mesh UUID must contain exactly 16 bytes'')
          else Inr result)"

definition hex_value :: "char \<Rightarrow> nat" where
  "hex_value c = (if is_digit c then char_code c - 48
                  else if is_upper c then char_code c - 55 else char_code c - 87)"

fun hex_bytes :: "string \<Rightarrow> u8 list" where
  "hex_bytes (hi # lo # rest) = of_nat (16 * hex_value hi + hex_value lo) # hex_bytes rest"
| "hex_bytes _ = []"

definition mesh_uuid_from_string :: "string \<Rightarrow> std_error + u8 list" where
  "mesh_uuid_from_string value =
     (case normalized_uuid_hex value of Inl error \<Rightarrow> Inl error | Inr normalized \<Rightarrow> Inr (hex_bytes normalized))"

definition mesh_uuid_from_name :: "string \<Rightarrow> std_error + u8 list" where
  "mesh_uuid_from_name value =
     (case mesh_uuid_from_string (uuid_from_name value) of
        Inl error \<Rightarrow> Inl error
      | Inr result \<Rightarrow>
          (let result = result[6 := (result ! 6 AND 0x0f) OR 0x30]
           in Inr (result[8 := (result ! 8 AND 0x3f) OR 0x80])))"

definition mesh_auto_uuid_from_name :: "string \<Rightarrow> std_error + u8 list" where
  "mesh_auto_uuid_from_name hostname =
     (let first_digit = find_last (\<lambda>c. \<not> is_digit c) hostname
      in if (case first_digit of None \<Rightarrow> False | Some i \<Rightarrow> i + 1 = length hostname)
         then Inl (Invalid_argument ''Automatic Mesh hostname needs a UAV number'')
         else
           case stoul_digits (case first_digit of None \<Rightarrow> hostname | Some i \<Rightarrow> drop (i + 1) hostname) of
             Inl error \<Rightarrow> Inl error
           | Inr number \<Rightarrow>
               if number = 0 \<or> 0x7fff < number
               then Inl (Invalid_argument ''Automatic Mesh UAV number must be in 1..32767'')
               else
                 (case mesh_uuid_from_name (''mrs-uav-bluetooth-mesh-auto:'' @ hostname) of
                    Inl error \<Rightarrow> Inl error
                  | Inr uuid \<Rightarrow>
                      Inr (uuid[0 := 77, 1 := 82, 2 := 83, 3 := 66, 4 := of_nat number,
                                5 := of_nat (number div 256)])))"

definition mesh_auto_uuid_number :: "u8 list \<Rightarrow> u16" where
  "mesh_auto_uuid_number uuid =
     (if length uuid \<noteq> 16 \<or> uuid ! 0 \<noteq> 77 \<or> uuid ! 1 \<noteq> 82 \<or> uuid ! 2 \<noteq> 83 \<or> uuid ! 3 \<noteq> 66 then 0
      else
        let number = ucast (uuid ! 4) OR push_bit 8 (ucast (uuid ! 5))
        in if 0 < number \<and> number \<le> 0x7fff then number else 0)"

definition mesh_bytes_to_hex :: "u8 list \<Rightarrow> string" where
  "mesh_bytes_to_hex value = concat (map hex_byte value)"

end
