(* ===== verification/Uuid_Correct.thy ===== *)
theory Uuid_Correct
  imports Uuid_Identity Md5_Correct
begin

text \<open>
  Correctness of the UUID helpers and of the Mesh device identities: canonical form and
  idempotence of resolution, the hexadecimal round trip, and the fields of an automatic
  Mesh UUID.
\<close>

section \<open>Hexadecimal text\<close>

definition lower_hex :: "char \<Rightarrow> bool" where
  "lower_hex c \<longleftrightarrow> is_xdigit c \<and> \<not> is_upper c"

lemma nibble_cases:
  fixes k :: nat
  assumes "k < 16"
  shows "k = 0 \<or> k = 1 \<or> k = 2 \<or> k = 3 \<or> k = 4 \<or> k = 5 \<or> k = 6 \<or> k = 7 \<or> k = 8 \<or> k = 9 \<or>
    k = 10 \<or> k = 11 \<or> k = 12 \<or> k = 13 \<or> k = 14 \<or> k = 15"
  using assms by presburger

lemma hex_char_facts:
  assumes "unat n < 16"
  shows "lower_hex (hex_char n)" "hex_value (hex_char n) = unat n"
  using nibble_cases [OF assms]
  by (auto simp: hex_char_def hex_value_def lower_hex_def char_class_defs char_code_def)

lemma nibbles: "unat (drop_bit 4 b AND 0xF :: u8) = unat b div 16" "unat (b AND 0xF :: u8) = unat b mod 16"
proof -
  have "unat b < 256" using unsigned_less [of b, where ?'a = nat] by simp
  then have d: "unat b div 16 < 16" by (simp add: less_mult_imp_div_less)
  have m: "x AND 0xF = take_bit 4 x" for x :: u8
    using take_bit_eq_mask [of 4 x] by (simp add: mask_eq_exp_minus_1)
  show "unat (b AND 0xF) = unat b mod 16" by (simp only: m unsigned_take_bit_eq) (simp add: take_bit_eq_mod)
  show "unat (drop_bit 4 b AND 0xF) = unat b div 16"
    using d by (simp only: m unsigned_take_bit_eq unsigned_drop_bit_eq) (simp add: take_bit_eq_mod drop_bit_eq_div)
qed

lemma nibble_less: "unat (drop_bit 4 b AND 0xF :: u8) < 16" "unat (b AND 0xF :: u8) < 16"
  unfolding nibbles using unsigned_less [of b, where ?'a = nat]
  by (simp_all add: less_mult_imp_div_less)

lemma hex_byte_facts: "length (hex_byte b) = 2" "list_all lower_hex (hex_byte b)"
  by (simp_all add: hex_byte_def hex_char_facts nibble_less)

lemma hex_text: "length (concat (map hex_byte u)) = 2 * length u" "list_all lower_hex (concat (map hex_byte u))"
  by (induction u) (simp_all add: hex_byte_facts)

lemma lower_hex_props: "lower_hex c \<Longrightarrow> is_xdigit c \<and> to_lower c = c \<and> c \<noteq> CHR ''-''"
  by (auto simp: lower_hex_def to_lower_def char_class_defs char_code_def)

lemma normalized_lower_hex: "list_all lower_hex s \<Longrightarrow> normalized_uuid_chars s = Inr s"
  by (induction s) (auto dest: lower_hex_props)

lemma hex_bytes_text: "hex_bytes (concat (map hex_byte u)) = u"
proof (induction u)
  case (Cons b u)
  have e: "16 * (unat b div 16) + unat b mod 16 = unat b" by simp
  have e2: "of_nat (16 * hex_value (hex_char (drop_bit 4 b AND 0xF)) + hex_value (hex_char (b AND 0xF))) = b"
    unfolding hex_char_facts(2) [OF nibble_less(1) [of b], unfolded nibbles(1)]
      hex_char_facts(2) [OF nibble_less(2) [of b], unfolded nibbles(2)] e by simp
  show ?case
    by (simp only: list.map concat.simps hex_byte_def [of b] append.simps hex_bytes.simps e2 Cons.IH)
qed simp

interpretation mesh_hex: wire_format mesh_bytes_to_hex
  "\<lambda>s. case mesh_uuid_from_string s of Inl e \<Rightarrow> None | Inr u \<Rightarrow> Some u" "\<lambda>u. length u = 16"
  by unfold_locales
     (simp add: mesh_bytes_to_hex_def mesh_uuid_from_string_def normalized_uuid_hex_def
        normalized_lower_hex hex_text hex_bytes_text)

text \<open>A Mesh UUID survives its hexadecimal form: parsing what \<open>mesh_bytes_to_hex\<close> prints gives
  the sixteen bytes back, and two UUIDs with the same text are equal.\<close>

theorem mesh_hex_roundtrip:
  assumes "length u = 16" and "length v = 16"
  shows "(mesh_bytes_to_hex u = mesh_bytes_to_hex v \<longleftrightarrow> u = v) \<and>
    mesh_uuid_from_string (mesh_bytes_to_hex u) = Inr u"
  using mesh_hex.enc_inject [OF assms] mesh_hex.dec_enc [OF assms(1)] by (simp split: sum.splits)

theorem mesh_hex_roundtrip_witness:
  "mesh_uuid_from_string (mesh_bytes_to_hex (replicate 16 0xA5)) = Inr (replicate 16 0xA5)"
  using mesh_hex_roundtrip [of "replicate 16 0xA5" "replicate 16 0"] by simp

section \<open>UUID text\<close>

lemma length_md5_finalize: "length (md5_finalize ctx) = 16"
  by (simp add: md5_finalize_def Let_def bytes_of_word_def split: prod.splits)

lemma md5_hex_text: "length (md5_hex d) = 32" "list_all lower_hex (md5_hex d)"
  unfolding md5_hex_def using hex_text length_md5_finalize by simp_all

definition canonical_uuid :: "string \<Rightarrow> bool" where
  "canonical_uuid s \<longleftrightarrow> matches_uuid s \<and> list_all (\<lambda>c. \<not> is_upper c) s"

lemma group_uuid:
  assumes "length h = 32" and "list_all lower_hex h"
  shows "canonical_uuid (substr h 0 8 @ ''-'' @ substr h 8 4 @ ''-'' @ substr h 12 4 @ ''-'' @
         substr h 16 4 @ ''-'' @ substr h 20 12)"
proof -
  have l: "is_xdigit (h ! i)" if "i < 32" for i
    using assms that by (auto simp: list_all_length lower_hex_def)
  have u: "list_all (\<lambda>c. \<not> is_upper c) (take n (drop p h))" "list_all (\<lambda>c. \<not> is_upper c) (take n h)"
    "list_all (\<lambda>c. \<not> is_upper c) (drop p h)" for p n
    using assms(2) by (auto simp: list_all_iff lower_hex_def dest!: in_set_takeD in_set_dropD)
  have "\<not> is_upper (CHR ''-'')" by (simp add: is_upper_def char_code_def)
  with u show ?thesis
    using assms(1) l
    by (simp add: canonical_uuid_def matches_uuid_def substr_def nth_append upt_rec)
qed

lemma uuid_from_name_canonical: "canonical_uuid (uuid_from_name name)"
  unfolding uuid_from_name_def Let_def by (rule group_uuid) (rule md5_hex_text)+

lemma uuid_trim_strip: "uuid_trim s = strip is_ascii_ws s"
  using trim_ws_strip [of s] by (simp add: uuid_trim_def trim_ws_def)

lemma xdigit_not_ws: "is_xdigit c \<Longrightarrow> \<not> is_ascii_ws c"
  by (auto simp: char_class_defs)

lemma to_lower_xdigit [simp]: "is_xdigit (to_lower c) = is_xdigit c"
  using char_code_less [of c] by (auto simp: to_lower_def char_class_defs)

lemma to_lower_dash: "c = CHR ''-'' \<Longrightarrow> to_lower c = CHR ''-''"
  by (simp add: to_lower_def is_upper_def char_code_def)

lemma to_lower_not_upper: "\<not> is_upper (to_lower c)"
  using char_code_less [of c] by (auto simp: to_lower_def is_upper_def)

lemma to_lower_id: "\<not> is_upper c \<Longrightarrow> to_lower c = c"
  by (simp add: to_lower_def)

lemma matches_uuid_trim:
  assumes "matches_uuid s"
  shows "uuid_trim s = s"
proof -
  have "s \<noteq> []" "is_xdigit (s ! 0)" "is_xdigit (s ! 35)" "length s = 36"
    using assms by (auto simp: matches_uuid_def list_all_iff)
  then show ?thesis
    unfolding uuid_trim_strip by (intro strip_id) (simp add: hd_conv_nth last_conv_nth xdigit_not_ws)
qed

lemma matches_uuid_lower: "matches_uuid s \<Longrightarrow> canonical_uuid (map to_lower s)"
  by (auto simp: canonical_uuid_def matches_uuid_def list_all_iff to_lower_dash to_lower_not_upper
      simp del: One_nat_def)

lemma resolve_uuid_fix:
  assumes "canonical_uuid s"
  shows "resolve_uuid s = s"
proof -
  have m: "matches_uuid s" and u: "list_all (\<lambda>c. \<not> is_upper c) s"
    using assms by (simp_all add: canonical_uuid_def)
  have "map to_lower s = s" using u by (induction s) (simp_all add: to_lower_id)
  then show ?thesis by (simp add: resolve_uuid_def is_uuid_def matches_uuid_trim [OF m] m)
qed

lemma resolve_uuid_is_canonical: "canonical_uuid (resolve_uuid v)"
proof (cases "matches_uuid (uuid_trim v)")
  case True
  then show ?thesis
    using matches_uuid_lower [OF True] by (simp add: resolve_uuid_def is_uuid_def matches_uuid_trim)
next
  case False
  have "uuid_trim (uuid_trim v) = uuid_trim v" by (simp add: uuid_trim_strip)
  with False show ?thesis by (simp add: resolve_uuid_def is_uuid_def uuid_from_name_canonical)
qed

text \<open>UUID resolution always gives a canonical UUID (8-4-4-4-12 lower-case hexadecimal digits),
  for a literal as for a name, and a resolved or name-derived UUID resolves to itself.\<close>

theorem resolve_uuid_canonical:
  "canonical_uuid (resolve_uuid v) \<and> is_uuid (resolve_uuid v)
   \<and> resolve_uuid (resolve_uuid v) = resolve_uuid v
   \<and> resolve_uuid (named_service_uuid v) = named_service_uuid v"
proof -
  have "matches_uuid (resolve_uuid v)"
    using resolve_uuid_is_canonical [of v] by (simp add: canonical_uuid_def)
  then have "is_uuid (resolve_uuid v)" by (simp add: is_uuid_def matches_uuid_trim)
  then show ?thesis
    by (simp add: resolve_uuid_is_canonical resolve_uuid_fix named_service_uuid_def uuid_from_name_canonical)
qed

text \<open>A derived UUID need not carry the version digit 3 that the comments promise.\<close>

theorem uuid_from_name_not_version_3:
  "uuid_from_name '''' = ''d41d8cd9-8f00-b204-e980-0998ecf8427e''"
  by code_simp

section \<open>Automatic Mesh identities\<close>

lemma find_last_prefix:
  assumes "list_all (\<lambda>x. \<not> P x) ys"
  shows "find_last P (xs @ ys) = find_last P xs"
proof -
  have "find_last P ys = None" using assms by (simp add: find_last_None)
  then show ?thesis by (induction xs) simp_all
qed

lemma find_last_snoc_hit: "P (last xs) \<Longrightarrow> xs \<noteq> [] \<Longrightarrow> find_last P xs = Some (length xs - 1)"
  by (induction xs) (auto split: option.splits if_splits)

lemma mesh_uuid_from_name_ok:
  "\<exists>r. mesh_uuid_from_name v = Inr (r[6 := (r ! 6 AND 0x0f) OR 0x30, 8 := (r ! 8 AND 0x3f) OR 0x80]) \<and> length r = 16"
proof -
  define h where "h = md5_hex (bytes_of_string v)"
  have h: "length h = 32" "list_all lower_hex h" by (simp_all add: h_def md5_hex_text)
  have n: "normalized_uuid_chars (a @ CHR ''-'' # b) = normalized_uuid_chars (a @ b)"
    if "list_all lower_hex a" for a b
    using that by (induction a) (auto dest: lower_hex_props)
  have la: "list_all lower_hex (take m (drop k h))" for m k
    using h(2) by (auto simp: list_all_iff dest!: in_set_takeD in_set_dropD)
  have "normalized_uuid_chars (uuid_from_name v) = Inr h"
  proof -
    have parts: "h = take 8 h @ take 4 (drop 8 h) @ take 4 (drop 12 h) @ take 4 (drop 16 h) @ take 12 (drop 20 h)"
    proof -
      have "take 12 (drop 20 h) = drop 20 h" using h(1) by simp
      moreover have "take 4 (drop 16 h) @ drop 20 h = drop 16 h"
        "take 4 (drop 12 h) @ drop 16 h = drop 12 h" "take 4 (drop 8 h) @ drop 12 h = drop 8 h"
        using append_take_drop_id [of 4 "drop 16 h"] append_take_drop_id [of 4 "drop 12 h"]
          append_take_drop_id [of 4 "drop 8 h"] by (simp_all add: drop_drop)
      ultimately show ?thesis by simp
    qed
    let ?a = "take 8 h" and ?b = "take 4 (drop 8 h)" and ?c = "take 4 (drop 12 h)"
    let ?d = "take 4 (drop 16 h)" and ?e = "take 12 (drop 20 h)"
    have l: "list_all lower_hex ?a" "list_all lower_hex (?a @ ?b)" "list_all lower_hex (?a @ ?b @ ?c)"
      "list_all lower_hex (?a @ ?b @ ?c @ ?d)"
      using la la [of 8 0] by simp_all
    have "normalized_uuid_chars (uuid_from_name v) = normalized_uuid_chars
        (?a @ CHR ''-'' # ?b @ CHR ''-'' # ?c @ CHR ''-'' # ?d @ CHR ''-'' # ?e)"
      by (simp add: uuid_from_name_def substr_def h_def Let_def)
    also have "\<dots> = normalized_uuid_chars (?a @ ?b @ ?c @ ?d @ ?e)"
      using n [OF l(1)] n [OF l(2)] n [OF l(3)] n [OF l(4)] by simp
    also have "\<dots> = Inr h" unfolding parts [symmetric] by (rule normalized_lower_hex [OF h(2)])
    finally show ?thesis .
  qed
  moreover have "length (hex_bytes s) = length s div 2" for s
    by (induction s rule: hex_bytes.induct) simp_all
  ultimately show ?thesis
    using h(1) by (intro exI [of _ "hex_bytes h"]) (simp add: mesh_uuid_from_name_def mesh_uuid_from_string_def normalized_uuid_hex_def Let_def)
qed

lemma number_bytes: "ucast (of_nat n :: u8) OR push_bit 8 (ucast (of_nat (n div 256) :: u8)) = (of_nat n :: u16)"
proof (rule bit_word_eqI)
  fix k
  assume k: "k < LENGTH(16)"
  have d: "n div 256 = drop_bit 8 n" by (simp add: drop_bit_eq_div)
  from k show "bit (ucast (of_nat n :: u8) OR push_bit 8 (ucast (of_nat (n div 256) :: u8)) :: u16) k
      \<longleftrightarrow> bit (of_nat n :: u16) k"
    unfolding d by (auto simp: bit_simps)
qed

lemma version_variant:
  "drop_bit 4 ((x AND 0x0f) OR 0x30 :: u8) = 3" "drop_bit 6 ((x AND 0x3f) OR 0x80 :: u8) = 2"
proof -
  have "x AND 0x0f = take_bit 4 x" "x AND 0x3f = take_bit 6 x"
    using take_bit_eq_mask [of 4 x] take_bit_eq_mask [of 6 x] by (simp_all add: mask_eq_exp_minus_1)
  then show "drop_bit 4 ((x AND 0x0f) OR 0x30 :: u8) = 3" "drop_bit 6 ((x AND 0x3f) OR 0x80 :: u8) = 2"
    by (simp_all add: drop_bit_take_bit)
qed

definition number_suffix :: "string \<Rightarrow> string" where
  "number_suffix h = (case find_last (\<lambda>c. \<not> is_digit c) h of None \<Rightarrow> h | Some i \<Rightarrow> drop (i + 1) h)"

lemma number_suffix_append:
  assumes "list_all is_digit digits" and "base = [] \<or> \<not> is_digit (last base)"
  shows "number_suffix (base @ digits) = digits"
  using assms find_last_prefix [of "\<lambda>c. \<not> is_digit c" digits base]
    find_last_snoc_hit [of "\<lambda>c. \<not> is_digit c" base]
  by (cases "base = []") (auto simp: number_suffix_def)

lemma number_suffix_Nil:
  "number_suffix h = [] \<longleftrightarrow> h = [] \<or> find_last (\<lambda>c. \<not> is_digit c) h = Some (length h - 1)"
proof (cases "find_last (\<lambda>c. \<not> is_digit c) h")
  case None
  then show ?thesis by (simp add: number_suffix_def)
next
  case (Some i)
  then have "i < length h"
    by (induction h arbitrary: i) (auto split: option.splits if_splits)
  with Some show ?thesis by (auto simp: number_suffix_def)
qed

text \<open>The device UUID of a host name, field by field.\<close>

lemma mesh_auto_uuid_cases:
  "\<exists>u. length u = 16 \<and> drop_bit 4 (u ! 6) = 3 \<and> drop_bit 6 (u ! 8) = 2 \<and>
     (digits_value (number_suffix h) \<le> 0x7fff \<longrightarrow> 1 \<le> digits_value (number_suffix h) \<longrightarrow>
        mesh_auto_uuid_number u = of_nat (digits_value (number_suffix h))) \<and>
     (\<forall>v. mesh_auto_uuid_from_name h = Inr v \<longleftrightarrow>
        number_suffix h \<noteq> [] \<and> 1 \<le> digits_value (number_suffix h) \<and>
        digits_value (number_suffix h) \<le> 0x7fff \<and> v = u)"
proof -
  let ?n = "digits_value (number_suffix h)"
  obtain r where r: "mesh_uuid_from_name (''mrs-uav-bluetooth-mesh-auto:'' @ h) =
      Inr (r[6 := (r ! 6 AND 0x0f) OR 0x30, 8 := (r ! 8 AND 0x3f) OR 0x80])" and l: "length r = 16"
    using mesh_uuid_from_name_ok by blast
  let ?u = "r[6 := (r ! 6 AND 0x0f) OR 0x30, 8 := (r ! 8 AND 0x3f) OR 0x80,
    0 := 77, 1 := 82, 2 := 83, 3 := 66, 4 := of_nat ?n, 5 := of_nat (?n div 256)]"
  have n: "mesh_auto_uuid_number ?u = of_nat ?n" if "1 \<le> ?n" "?n \<le> 0x7fff"
  proof -
    have "0 < (of_nat ?n :: u16) \<and> (of_nat ?n :: u16) \<le> 0x7fff"
      using that by (simp add: word_less_nat_alt word_le_nat_alt unat_of_nat)
    then show ?thesis using l number_bytes [of ?n] by (simp add: mesh_auto_uuid_number_def Let_def)
  qed
  have s: "(case find_last (\<lambda>c. \<not> is_digit c) h of None \<Rightarrow> h | Some i \<Rightarrow> drop (i + 1) h) = number_suffix h"
    by (simp add: number_suffix_def)
  have g: "(case find_last (\<lambda>c. \<not> is_digit c) h of None \<Rightarrow> False | Some i \<Rightarrow> i + 1 = length h) \<Longrightarrow> number_suffix h = []"
    by (auto simp: number_suffix_def split: option.splits)
  have g': "(case find_last (\<lambda>c. \<not> is_digit c) h of None \<Rightarrow> False | Some i \<Rightarrow> i + 1 = length h)"
    if "number_suffix h = []" "h \<noteq> []"
    using that number_suffix_Nil [of h] by (auto simp: Suc_diff_Suc neq_Nil_conv)
  have "mesh_auto_uuid_from_name h = Inr v \<longleftrightarrow> number_suffix h \<noteq> [] \<and> 1 \<le> ?n \<and> ?n \<le> 0x7fff \<and> v = ?u" for v
    unfolding mesh_auto_uuid_from_name_def Let_def s r
    using g g' by (auto simp: stoul_digits_def number_suffix_def split: if_splits)
  then show ?thesis
    using l n version_variant by (intro exI [of _ ?u]) simp
qed

text \<open>an automatic Mesh identity names its UAV. For every host name with a numeric suffix in
  1..32767 (and for no other suffix) the derived device UUID exists, has sixteen bytes, gives that
  number back to a scanner, carries RFC 4122 version 3 and variant 2, and survives its
  hexadecimal form.\<close>

theorem mesh_auto_identity:
  assumes "h = base @ digits" and "list_all is_digit digits"
    and "base = [] \<or> \<not> is_digit (last base)" and "digits \<noteq> []"
  shows "((\<exists>u. mesh_auto_uuid_from_name h = Inr u) \<longleftrightarrow> 1 \<le> digits_value digits \<and> digits_value digits \<le> 0x7fff)
    \<and> (\<forall>u. mesh_auto_uuid_from_name h = Inr u \<longrightarrow> length u = 16 \<and>
      mesh_auto_uuid_number u = of_nat (digits_value digits) \<and>
      drop_bit 4 (u ! 6) = 3 \<and> drop_bit 6 (u ! 8) = 2 \<and>
      mesh_uuid_from_string (mesh_bytes_to_hex u) = Inr u)"
proof -
  have rt: "mesh_uuid_from_string (mesh_bytes_to_hex x) = Inr x" if "length x = 16" for x
    using mesh_hex.dec_enc [OF that] by (simp split: sum.splits)
  have sfx: "number_suffix h = digits" unfolding assms(1) using assms(2,3) by (rule number_suffix_append)
  obtain u where u: "length u = 16" "drop_bit 4 (u ! 6) = 3" "drop_bit 6 (u ! 8) = 2"
      "digits_value digits \<le> 0x7fff \<Longrightarrow> 1 \<le> digits_value digits \<Longrightarrow>
         mesh_auto_uuid_number u = of_nat (digits_value digits)"
    and eq: "\<And>v. mesh_auto_uuid_from_name h = Inr v \<longleftrightarrow>
        1 \<le> digits_value digits \<and> digits_value digits \<le> 0x7fff \<and> v = u"
    using mesh_auto_uuid_cases [of h] assms(4) unfolding sfx by blast
  show ?thesis unfolding eq using u rt [OF u(1)] by blast
qed

theorem mesh_auto_identity_witness:
  "\<exists>u. mesh_auto_uuid_from_name ''uav12'' = Inr u \<and> mesh_auto_uuid_number u = 12"
proof -
  have "list_all is_digit ''12''" "\<not> is_digit (last ''uav'')" "digits_value ''12'' = 12"
    by code_simp+
  then show ?thesis using mesh_auto_identity [of "''uav12''" "''uav''" "''12''"] by auto
qed

end
