(* ===== verification/Ordered_Map.thy ===== *)
theory Ordered_Map
  imports Bt_Prelude
begin

text \<open>
  A \<open>std::map\<close> that the code iterates over: an association list in increasing key order, with the
  operations the code uses. The keys of a well-formed map are strictly sorted, so \<open>map_of\<close> is the
  lookup and the iteration order is the list order.
\<close>

definition ordered_put :: "'k::linorder \<Rightarrow> 'v \<Rightarrow> ('k \<times> 'v) list \<Rightarrow> ('k \<times> 'v) list" where
  "ordered_put k v m = filter (\<lambda>x. fst x < k) m @ [(k, v)] @ filter (\<lambda>x. k < fst x) m"

definition ordered_del :: "'k \<Rightarrow> ('k \<times> 'v) list \<Rightarrow> ('k \<times> 'v) list" where
  "ordered_del k m = filter (\<lambda>x. fst x \<noteq> k) m"

definition ordered_upd :: "'k \<Rightarrow> ('v \<Rightarrow> 'v) \<Rightarrow> ('k \<times> 'v) list \<Rightarrow> ('k \<times> 'v) list" where
  "ordered_upd k f m = map (\<lambda>(k', v). if k' = k then (k', f v) else (k', v)) m"

definition ordered_keys :: "('k::linorder \<times> 'v) list \<Rightarrow> bool" where
  "ordered_keys m \<longleftrightarrow> sorted_wrt (<) (map fst m)"

lemma map_of_ordered_put: "map_of (ordered_put k v m) = (map_of m)(k \<mapsto> v)"
proof
  fix x
  have "map_of (filter (\<lambda>x. P (fst x)) m) x = (if P x then map_of m x else None)" for P
    by (induction m) auto
  from this [of "\<lambda>y. y < k"] this [of "\<lambda>y. k < y"]
  show "map_of (ordered_put k v m) x = ((map_of m)(k \<mapsto> v)) x"
    by (auto simp: ordered_put_def map_add_def split: option.splits)
qed

lemma map_of_ordered_del: "map_of (ordered_del k m) = (map_of m)(k := None)"
  by (rule ext) (induction m, auto simp: ordered_del_def)

lemma map_of_ordered_upd: "map_of (ordered_upd k f m) k' =
    (if k' = k then map_option f (map_of m k) else map_of m k')"
  by (induction m) (auto simp: ordered_upd_def)

lemma keys_ordered_upd [simp]: "map fst (ordered_upd k f m) = map fst m"
  by (induction m) (auto simp: ordered_upd_def)

lemma sorted_ordered_put:
  "sorted_wrt (<) (map fst m) \<Longrightarrow> sorted_wrt (<) (map fst (ordered_put k v m))"
  by (auto simp: ordered_put_def sorted_wrt_append sorted_wrt_map sorted_wrt_filter)

lemma sorted_filter_keys:
  "sorted_wrt (<) (map fst m) \<Longrightarrow> sorted_wrt (<) (map fst (filter P m))"
  by (simp add: sorted_wrt_map sorted_wrt_filter)

lemma sorted_ordered_del:
  "sorted_wrt (<) (map fst m) \<Longrightarrow> sorted_wrt (<) (map fst (ordered_del k m))"
  by (simp add: ordered_del_def sorted_filter_keys)

lemma set_ordered_put: "set (ordered_put k v m) \<subseteq> insert (k, v) (set m)"
  by (auto simp: ordered_put_def)

lemma ordered_keys_put [simp]: "ordered_keys m \<Longrightarrow> ordered_keys (ordered_put k v m)"
  by (simp add: ordered_keys_def sorted_ordered_put)

lemma ordered_keys_del [simp]: "ordered_keys m \<Longrightarrow> ordered_keys (ordered_del k m)"
  by (simp add: ordered_keys_def sorted_ordered_del)

lemma ordered_keys_upd [simp]: "ordered_keys (ordered_upd k f m) = ordered_keys m"
  by (simp add: ordered_keys_def)

lemma ordered_keys_filter [simp]: "ordered_keys m \<Longrightarrow> ordered_keys (filter P m)"
  by (simp add: ordered_keys_def sorted_filter_keys)

lemma ordered_keys_Nil [simp]: "ordered_keys []"
  by (simp add: ordered_keys_def)

lemma ordered_keys_Cons [simp]:
  "ordered_keys ((k, v) # m) \<longleftrightarrow> (\<forall>x\<in>set m. k < fst x) \<and> ordered_keys m"
  by (auto simp: ordered_keys_def)

lemma ordered_keys_distinct: "ordered_keys m \<Longrightarrow> distinct (map fst m)"
  by (induction m) (auto simp: ordered_keys_def)

lemma ordered_mem: "ordered_keys m \<Longrightarrow> (k, v) \<in> set m \<longleftrightarrow> map_of m k = Some v"
  by (simp add: ordered_keys_distinct)

lemma set_ordered_del: "set (ordered_del k m) = {x \<in> set m. fst x \<noteq> k}"
  by (auto simp: ordered_del_def)

lemma set_ordered_upd:
  "set (ordered_upd k f m) = (\<lambda>(k', v). if k' = k then (k', f v) else (k', v)) ` set m"
  by (simp add: ordered_upd_def)

lemma length_ordered_del: "length (ordered_del k m) \<le> length m"
  by (simp add: ordered_del_def)

lemma length_ordered_put_new:
  "map_of m k = None \<Longrightarrow> length (ordered_put k v m) = Suc (length m)"
proof -
  assume "map_of m k = None"
  then have "filter (\<lambda>x. k < fst x) m = filter (\<lambda>x. \<not> fst x < k) m"
    by (intro filter_cong) (force simp: map_of_eq_None_iff image_iff)+
  then show ?thesis
    using sum_length_filter_compl [of "\<lambda>x. fst x < k" m] by (simp add: ordered_put_def)
qed

lemma length_ordered_upd [simp]: "length (ordered_upd k f m) = length m"
  by (simp add: ordered_upd_def)

end
