(* ===== verification/Swarm_Types.thy ===== *)
theory Swarm_Types
  imports Config_Models Util_Strings Uuid_Identity Ordered_Map
begin

text \<open>
  State, wire format and construction of \<open>MeshSwarmCoordinator\<close>
  (\<open>src/mesh/swarm_coordinator.cpp\<close>). UAV numbers are \<open>nat\<close>: the code's \<open>uint32_t\<close> values come
  from \<open>uav_number\<close> or a 16-bit source address and are only compared. A \<open>std::map\<close> that the code
  iterates over is an association list sorted by key. The Mesh application and the file
  system are environments: \<open>mesh_env\<close> says which call throws or what it returns, and the calls
  made (also those that throw) are collected in a log.
\<close>

section \<open>Data\<close>

record received_message =
  rm_element_index :: u8
  rm_source :: u16
  rm_destination :: u16
  rm_key_index :: u16
  rm_net_index :: u16
  rm_device_key :: bool
  rm_remote :: bool
  rm_data :: "u8 list"

record mesh_event =
  me_event :: string
  me_uuid :: string
  me_reason :: string
  me_rssi :: "16 word"
  me_data :: "u8 list"
  me_server :: u16
  me_original :: u16
  me_unicast :: u16
  me_nppi :: u8
  me_count :: u8
  me_detail :: string

record mesh_status =
  mt_daemon_available :: bool
  mt_attached :: bool
  mt_state :: string
  mt_uuid :: string
  mt_node_path :: string
  mt_token :: u64
  mt_addresses :: "u16 list"
  mt_friend_feature :: bool
  mt_low_power_feature :: bool
  mt_proxy_feature :: bool
  mt_relay_feature :: bool
  mt_beacon :: bool
  mt_iv_update :: bool
  mt_iv_index :: u32
  mt_seconds_since_last_heard :: u32
  mt_sequence_number :: u32
  mt_error :: string

record peer_presence =
  pp_source :: u16
  pp_swarm_id :: u16
  pp_participating :: bool
  pp_expires :: ticks

record swarm =
  sw_config :: node_config
  sw_hostname :: string
  sw_local_number :: nat
  sw_preferred_number :: nat
  sw_fingerprint :: u32
  sw_member_by_number :: "nat \<rightharpoonup> string"
  sw_member_priority :: "nat list"
  sw_presence :: "(nat \<times> peer_presence) list"
  sw_active_number :: nat
  sw_active_provisioner :: string
  sw_local_is_active :: bool
  sw_active_since :: ticks
  sw_swarm_id :: u16
  sw_participating :: bool
  sw_last_heartbeat :: ticks
  sw_bootstrap_started_at :: ticks
  sw_last_bootstrap_action :: ticks
  sw_local_model_stage :: nat
  sw_next_local_model_action :: ticks
  sw_application_ready :: bool
  sw_pending_events :: "mesh_event list"
  sw_pending_uuid :: string
  sw_pending_address :: u16
  sw_remote_model_stage :: nat
  sw_remote_model_action_at :: ticks
  sw_pending_until :: ticks
  sw_last_scan_at :: ticks
  sw_last_direct_attempt :: "nat \<rightharpoonup> ticks"

definition kConfigurationStepDelay :: ticks where "kConfigurationStepDelay = secs 1"
definition kRetryDelay :: ticks where "kRetryDelay = secs 5"
definition kPerPriorityJoinWindowSeconds :: seconds where "kPerPriorityJoinWindowSeconds = 90"
definition kControlOpcode :: u8 where "kControlOpcode = 0xc0"
definition kSwarmFrameVersion :: u8 where "kSwarmFrameVersion = 4"
definition kFrameSize :: nat where "kFrameSize = 8"
definition kSwarmParticipatingFlag :: u8 where "kSwarmParticipatingFlag = 0x02"

lemmas swarm_constants = kControlOpcode_def kSwarmFrameVersion_def kFrameSize_def kSwarmParticipatingFlag_def

section \<open>Numbers, integers on the wire, the fingerprint\<close>

definition uav_number :: "string \<Rightarrow> std_error + nat" where
  "uav_number hostname =
     (let digits = (case find_last (\<lambda>c. \<not> is_digit c) hostname of
                      None \<Rightarrow> hostname | Some i \<Rightarrow> drop (i + 1) hostname)
      in if digits = []
         then Inl (Invalid_argument (''automatic Mesh peer must end in a UAV number: '' @ hostname))
         else case stoul_digits digits of
                Inl error \<Rightarrow> Inl error
              | Inr value \<Rightarrow>
                  if value = 0 \<or> 0xffff < value
                  then Inl (Invalid_argument
                         (''automatic Mesh UAV number must be in 1..65535: '' @ hostname))
                  else Inr value)"

definition read_u24 :: "u8 list \<Rightarrow> nat \<Rightarrow> u32" where
  "read_u24 data offset = ucast (data ! offset) OR push_bit 8 (ucast (data ! (offset + 1))) OR
     push_bit 16 (ucast (data ! (offset + 2)))"

definition read_u16 :: "u8 list \<Rightarrow> nat \<Rightarrow> u16" where
  "read_u16 data offset = ucast (data ! offset) OR push_bit 8 (ucast (data ! (offset + 1)))"

definition append_u24 :: "u8 list \<Rightarrow> u32 \<Rightarrow> u8 list" where
  "append_u24 data value = data @ [ucast value, ucast (drop_bit 8 value), ucast (drop_bit 16 value)]"

definition append_u16 :: "u8 list \<Rightarrow> u16 \<Rightarrow> u8 list" where
  "append_u16 data value = data @ [ucast value, ucast (drop_bit 8 value)]"

definition swarm_fingerprint :: "string list \<Rightarrow> string \<Rightarrow> u32" where
  "swarm_fingerprint members preference =
     (let normalized = map lower_trim_copy members;
          canonical = lower_trim_copy preference @ ''|'' @
            (if normalized = [] then ''*'' else concat (map (\<lambda>m. m @ '','') normalized));
          h = fold (\<lambda>byte h. (h XOR ucast byte) * 16777619) (bytes_of_string canonical) 2166136261;
          h = h AND 0x00ffffff
      in if h = 0 then 1 else h)"

section \<open>Persisted membership\<close>

definition swarm_state_text :: "u16 \<Rightarrow> bool \<Rightarrow> string" where
  "swarm_state_text swarm_id participating =
     show_nat (unat swarm_id) @ '' '' @ (if participating then ''1'' else ''0'') @ [CHR 0x0A]"

text \<open>\<open>input >> x\<close> for an unsigned and a signed 32-bit variable: skip white space, an optional
  sign, decimal digits; \<open>None\<close> is the failed stream. An unsigned target takes a negative
  number modulo 2 to the 32.\<close>

definition extract_digits :: "string \<Rightarrow> (bool \<times> nat \<times> string) option" where
  "extract_digits input =
     (let s = dropWhile is_space input;
          negative = (s \<noteq> [] \<and> hd s = CHR ''-'');
          s = (if s \<noteq> [] \<and> (hd s = CHR ''-'' \<or> hd s = CHR ''+'') then tl s else s);
          digits = takeWhile is_digit s
      in if digits = [] then None
         else Some (negative, digits_value digits, dropWhile is_digit s))"

definition extract_u32 :: "string \<Rightarrow> (nat \<times> string) option" where
  "extract_u32 input =
     (case extract_digits input of
        None \<Rightarrow> None
      | Some (negative, value, rest) \<Rightarrow>
          if 2 ^ 32 \<le> value then None
          else Some (if negative then (2 ^ 32 - value) mod 2 ^ 32 else value, rest))"

definition extract_int :: "string \<Rightarrow> (int \<times> string) option" where
  "extract_int input =
     (case extract_digits input of
        None \<Rightarrow> None
      | Some (negative, value, rest) \<Rightarrow>
          (let v = (if negative then - int value else int value)
           in if v < - (2 ^ 31) \<or> 2 ^ 31 \<le> v then None else Some (v, rest)))"

definition read_swarm_state :: "string \<Rightarrow> (u16 \<times> bool) option" where
  "read_swarm_state input =
     (case extract_u32 input of
        None \<Rightarrow> None
      | Some (stored_id, rest) \<Rightarrow>
          (case extract_int rest of
             None \<Rightarrow> None
           | Some (stored_participating, rest) \<Rightarrow>
               if stored_id = 0 \<or> 0xffff < stored_id \<or>
                  (stored_participating \<noteq> 0 \<and> stored_participating \<noteq> 1) then None
               else Some (of_nat stored_id, stored_participating \<noteq> 0)))"

text \<open>The file system: the contents by path, and for each path the exception that replacing its
  file throws (creating the directory, writing the temporary file, renaming it). A failed
  replacement leaves the old contents; the temporary file itself is not modelled.\<close>

record swarm_files =
  sf_content :: "string \<rightharpoonup> string"
  sf_failure :: "string \<Rightarrow> std_error option"

definition persist_swarm_state ::
    "swarm_files \<Rightarrow> u16 \<Rightarrow> bool \<Rightarrow> swarm \<Rightarrow> swarm_files \<times> std_error option" where
  "persist_swarm_state files swarm_id participating s =
     (let path = mesh_swarm_state_path (sw_config s)
      in if path = [] then (files, None)
         else case sf_failure files path of
                Some error \<Rightarrow> (files, Some error)
              | None \<Rightarrow> (files\<lparr>sf_content := (sf_content files)
                            (path \<mapsto> swarm_state_text swarm_id participating)\<rparr>, None))"

definition load_swarm_state :: "swarm_files \<Rightarrow> swarm \<Rightarrow> swarm" where
  "load_swarm_state files s =
     (if mesh_swarm_state_path (sw_config s) = [] then s
      else case sf_content files (mesh_swarm_state_path (sw_config s)) of
             None \<Rightarrow> s
           | Some input \<Rightarrow>
               (case read_swarm_state input of
                  None \<Rightarrow> s
                | Some (stored_id, stored_participating) \<Rightarrow>
                    s\<lparr>sw_swarm_id := stored_id, sw_participating := stored_participating\<rparr>))"

section \<open>Construction\<close>

fun add_members ::
    "string list \<Rightarrow> (nat \<rightharpoonup> string) \<times> nat list \<Rightarrow> std_error + ((nat \<rightharpoonup> string) \<times> nat list)" where
  "add_members [] acc = Inr acc"
| "add_members (raw_member # members) (by_number, priority) =
     (let member = lower_trim_copy raw_member
      in case uav_number member of
           Inl error \<Rightarrow> Inl error
         | Inr number \<Rightarrow>
             if by_number number \<noteq> None
             then Inl (Invalid_argument ''automatic Mesh peer whitelist has duplicate UAV numbers'')
             else add_members members (by_number(number \<mapsto> member), priority @ [number]))"

definition peer_allowed :: "swarm \<Rightarrow> nat \<Rightarrow> bool" where
  "peer_allowed s number \<longleftrightarrow> peer_whitelist (sw_config s) = [] \<or> sw_member_by_number s number \<noteq> None"

definition member_name :: "swarm \<Rightarrow> nat \<Rightarrow> string" where
  "member_name s number =
     (case sw_member_by_number s number of None \<Rightarrow> ''uav'' @ show_nat number | Some name \<Rightarrow> name)"

definition initial_swarm ::
    "node_config \<Rightarrow> string \<Rightarrow> string \<Rightarrow> nat \<Rightarrow> (nat \<rightharpoonup> string) \<Rightarrow> nat list \<Rightarrow> nat \<Rightarrow> ticks \<Rightarrow> swarm" where
  "initial_swarm config hostname preference local_number by_number priority preferred now =
     (let active = (if preferred \<noteq> 0 then preferred
                    else if priority = [] then local_number else hd priority);
          s = \<lparr>sw_config = config, sw_hostname = hostname,
               sw_local_number = local_number, sw_preferred_number = preferred,
               sw_fingerprint = swarm_fingerprint (peer_whitelist config) preference,
               sw_member_by_number = by_number, sw_member_priority = priority,
               sw_presence = [], sw_active_number = active, sw_active_provisioner = [],
               sw_local_is_active = (active = local_number),
               sw_active_since = now, sw_swarm_id = mesh_swarm_id config,
               sw_participating = mesh_swarm_participating config,
               sw_last_heartbeat = 0, sw_bootstrap_started_at = now,
               sw_last_bootstrap_action = 0, sw_local_model_stage = 0,
               sw_next_local_model_action = 0, sw_application_ready = False,
               sw_pending_events = [], sw_pending_uuid = [],
               sw_pending_address = 0, sw_remote_model_stage = 0,
               sw_remote_model_action_at = 0, sw_pending_until = 0,
               sw_last_scan_at = 0, sw_last_direct_attempt = Map.empty\<rparr>
      in s\<lparr>sw_active_provisioner := member_name s active\<rparr>)"

definition new_swarm :: "swarm_files \<Rightarrow> node_config \<Rightarrow> string \<Rightarrow> ticks \<Rightarrow> std_error + swarm" where
  "new_swarm files config hostname now =
     (let hostname = lower_trim_copy hostname;
          preference = lower_trim_copy (mesh_provisioner_preference config)
      in case uav_number hostname of
           Inl error \<Rightarrow> Inl error
         | Inr local_number \<Rightarrow>
             (case add_members (peer_whitelist config) (Map.empty, []) of
                Inl error \<Rightarrow> Inl error
              | Inr (by_number, priority) \<Rightarrow>
                  (case (if preference \<noteq> ''ordered'' then uav_number preference else Inr 0) of
                     Inl error \<Rightarrow> Inl error
                   | Inr preferred \<Rightarrow>
                       Inr (load_swarm_state files (initial_swarm config hostname preference
                              local_number by_number priority preferred now)))))"

end
