(* ===== verification/Swarm_Coordinator.thy ===== *)
theory Swarm_Coordinator
  imports Swarm_Types
begin

text \<open>
  The operations of \<open>MeshSwarmCoordinator\<close>: the membership calls of the service, the receive
  callbacks of the Mesh application and the periodic \<open>maintain\<close>. Each \<open>Clock::now()\<close> is a
  parameter. An operation that can throw returns the state it has reached and the exception.
\<close>

section \<open>Service calls\<close>

definition handle_event :: "mesh_event \<Rightarrow> swarm \<Rightarrow> swarm" where
  "handle_event event s =
     (if me_event event \<noteq> ''scan_result'' \<and> me_event event \<noteq> ''add_node_complete'' \<and>
         me_event event \<noteq> ''add_node_failed'' then s
      else if length (sw_pending_events s) < 128
      then s\<lparr>sw_pending_events := sw_pending_events s @ [event]\<rparr> else s)"

definition join_swarm ::
    "swarm_files \<Rightarrow> u16 \<Rightarrow> swarm \<Rightarrow> swarm_files \<times> swarm \<times> std_error option" where
  "join_swarm files swarm_id s =
     (if swarm_id = 0 then (files, s, Some (Invalid_argument ''swarm_id must be in 1..65535''))
      else case persist_swarm_state files swarm_id True s of
             (files, Some error) \<Rightarrow> (files, s, Some error)
           | (files, None) \<Rightarrow>
               (files, s\<lparr>sw_swarm_id := swarm_id, sw_participating := True, sw_last_heartbeat := 0\<rparr>, None))"

definition leave_swarm :: "swarm_files \<Rightarrow> swarm \<Rightarrow> swarm_files \<times> swarm \<times> std_error option" where
  "leave_swarm files s =
     (case persist_swarm_state files (sw_swarm_id s) False s of
        (files, Some error) \<Rightarrow> (files, s, Some error)
      | (files, None) \<Rightarrow> (files, s\<lparr>sw_participating := False, sw_last_heartbeat := 0\<rparr>, None))"

definition same_swarm_presence :: "ticks \<Rightarrow> swarm \<Rightarrow> peer_presence \<Rightarrow> bool" where
  "same_swarm_presence now s presence \<longleftrightarrow> now < pp_expires presence \<and> pp_participating presence \<and>
     pp_swarm_id presence = sw_swarm_id s"

definition swarm_members :: "ticks \<Rightarrow> swarm \<Rightarrow> string list" where
  "swarm_members now s =
     (if sw_participating s then [sw_hostname s] else []) @
     map (\<lambda>x. member_name s (fst x)) (filter (\<lambda>x. same_swarm_presence now s (snd x)) (sw_presence s))"

definition swarm_member_addresses :: "ticks \<Rightarrow> swarm \<Rightarrow> u16 list" where
  "swarm_member_addresses now s =
     (if \<not> sw_participating s then []
      else map (\<lambda>x. of_nat (fst x))
        (filter (\<lambda>x. fst x \<le> 0x7fff \<and> same_swarm_presence now s (snd x)) (sw_presence s)))"

definition fresh_presence :: "ticks \<Rightarrow> swarm \<Rightarrow> nat \<Rightarrow> bool" where
  "fresh_presence now s number \<longleftrightarrow>
     (case map_of (sw_presence s) number of None \<Rightarrow> False | Some presence \<Rightarrow> now < pp_expires presence)"

definition swarm_probe_addresses :: "ticks \<Rightarrow> swarm \<Rightarrow> u16 list" where
  "swarm_probe_addresses now s =
     (if \<not> sw_participating s then []
      else map of_nat (filter (\<lambda>number. number \<noteq> sw_local_number s \<and> number \<le> 0x7fff \<and>
             \<not> fresh_presence now s number) (sw_member_priority s)))"

definition accepts_swarm_source :: "ticks \<Rightarrow> u16 \<Rightarrow> swarm \<Rightarrow> bool" where
  "accepts_swarm_source now source s \<longleftrightarrow> sw_participating s \<and>
     list_ex (\<lambda>x. pp_source (snd x) = source \<and> same_swarm_presence now s (snd x)) (sw_presence s)"

definition provisioner_lease :: "swarm \<Rightarrow> ticks" where
  "provisioner_lease s = seconds_to_ticks (mesh_swarm_provisioner_timeout (sw_config s))"

definition accepts_swarm_payload :: "ticks \<Rightarrow> u16 \<Rightarrow> u16 \<Rightarrow> swarm \<Rightarrow> swarm \<times> bool" where
  "accepts_swarm_payload now source sender_swarm_id s =
     (if source = 0 \<or> unat source = sw_local_number s \<or> sender_swarm_id = 0 \<or>
         \<not> peer_allowed s (unat source) then (s, False)
      else if \<not> sw_participating s \<or> sender_swarm_id \<noteq> sw_swarm_id s then (s, False)
      else (s\<lparr>sw_presence := ordered_put (unat source)
                \<lparr>pp_source = source, pp_swarm_id = sender_swarm_id, pp_participating = True,
                 pp_expires = now + provisioner_lease s\<rparr> (sw_presence s)\<rparr>, True))"

section \<open>Receiving a coordination frame\<close>

definition accept_coordination_frame :: "u8 list \<Rightarrow> u16 \<Rightarrow> ticks \<Rightarrow> swarm \<Rightarrow> swarm" where
  "accept_coordination_frame frame source now s =
     (if length frame \<noteq> kFrameSize \<or> frame ! 0 \<noteq> 77 \<or> frame ! 1 \<noteq> 83 \<or>
         drop_bit 4 (frame ! 2) \<noteq> kSwarmFrameVersion \<or> read_u24 frame 3 \<noteq> sw_fingerprint s then s
      else
        let sender = unat source; sender_swarm_id = read_u16 frame 6
        in if sender = 0 \<or> sender = sw_local_number s \<or> sender_swarm_id = 0 \<or>
              \<not> peer_allowed s sender then s
           else s\<lparr>sw_presence := ordered_put sender
                    \<lparr>pp_source = source, pp_swarm_id = sender_swarm_id,
                     pp_participating = (frame ! 2 AND kSwarmParticipatingFlag \<noteq> 0),
                     pp_expires = now + provisioner_lease s\<rparr> (sw_presence s)\<rparr>)"

definition handle_message :: "ticks \<Rightarrow> received_message \<Rightarrow> swarm \<Rightarrow> swarm \<times> bool" where
  "handle_message now message s =
     (if rm_device_key message \<or> rm_key_index message \<noteq> mesh_swarm_app_key_index (sw_config s) \<or>
         rm_source message = 0 then (s, False)
      else
        let data = rm_data message;
            company = mesh_company_id (sw_config s);
            retained = (length data = kFrameSize + 3 \<and> data ! 0 = kControlOpcode \<and>
              data ! 1 = ucast company \<and> data ! 2 = ucast (drop_bit 8 company))
        in if \<not> retained \<and> length data \<noteq> kFrameSize then (s, False)
           else
             let frame = (if retained then drop 3 data else data)
             in if length frame \<noteq> kFrameSize \<or> frame ! 0 \<noteq> 77 \<or> frame ! 1 \<noteq> 83 then (s, False)
                else (accept_coordination_frame frame (rm_source message) now s, True))"

section \<open>Election\<close>

text \<open>The candidate for the current presence: the preferred number if available, else the first
  available configured member, else the least known number.\<close>

definition available :: "swarm \<Rightarrow> nat \<Rightarrow> bool" where
  "available s number \<longleftrightarrow> number = sw_local_number s \<or> map_of (sw_presence s) number \<noteq> None"

definition select_number :: "swarm \<Rightarrow> nat" where
  "select_number s =
     (if sw_preferred_number s \<noteq> 0 \<and> available s (sw_preferred_number s)
      then sw_preferred_number s
      else if sw_member_priority s \<noteq> []
      then (case find (available s) (sw_member_priority s) of
              None \<Rightarrow> sw_local_number s | Some number \<Rightarrow> number)
      else fold (\<lambda>x selected. min selected (fst x)) (sw_presence s) (sw_local_number s))"

definition update_selection :: "ticks \<Rightarrow> swarm \<Rightarrow> swarm" where
  "update_selection now s =
     (let s = s\<lparr>sw_presence := filter (\<lambda>x. \<not> pp_expires (snd x) \<le> now) (sw_presence s)\<rparr>;
          selected = select_number s
      in if selected \<noteq> sw_active_number s
         then s\<lparr>sw_active_number := selected, sw_active_provisioner := member_name s selected,
                sw_local_is_active := (selected = sw_local_number s), sw_active_since := now\<rparr>
         else s)"

definition preferred_provisioner :: "swarm \<Rightarrow> string" where
  "preferred_provisioner s =
     (if sw_preferred_number s \<noteq> 0 then member_name s (sw_preferred_number s)
      else if sw_member_priority s \<noteq> [] then member_name s (hd (sw_member_priority s))
      else ''ordered'')"

section \<open>The Mesh application as environment\<close>

record mesh_env =
  ap_attach :: "u64 \<Rightarrow> std_error option"
  ap_cancel_join :: "std_error option"
  ap_import_auto_identity :: "u16 \<Rightarrow> std_error option"
  ap_join :: "std_error option"
  ap_send :: "u8 list \<Rightarrow> std_error option"
  ap_prepare_auto_keys :: "std_error + bool"
  ap_add_app_key :: "u16 \<Rightarrow> std_error option"
  ap_configure_vendor_model :: "u16 \<Rightarrow> std_error option"
  ap_vendor_model_ready :: bool
  ap_set_auto_provisioning_unicast :: "u16 \<Rightarrow> std_error option"
  ap_add_node :: "u8 list \<Rightarrow> std_error option"
  ap_export_device_keys :: "std_error + u16 list"

datatype mesh_call =
    Attach u64
  | Cancel_join
  | Import_auto_identity u16
  | Join
  | Send u16 u16 "u8 list"
  | Prepare_auto_keys
  | Add_app_key u16 u16 u16
  | Configure_vendor_model u16 u16 u16 u16 u16 u16
  | Set_auto_provisioning_unicast u16
  | Add_node "u8 list"
  | Export_device_keys

section \<open>The heartbeat\<close>

definition heartbeat_access :: "swarm \<Rightarrow> u8 list" where
  "heartbeat_access s =
     (let access = [kControlOpcode, ucast (mesh_company_id (sw_config s)),
                    ucast (drop_bit 8 (mesh_company_id (sw_config s)))] @ [77, 83] @
                   [push_bit 4 kSwarmFrameVersion OR
                    (if sw_participating s then kSwarmParticipatingFlag else 0)]
      in append_u16 (append_u24 access (sw_fingerprint s)) (sw_swarm_id s))"

definition publish_coordination_heartbeat ::
    "mesh_env \<Rightarrow> ticks \<Rightarrow> swarm \<Rightarrow> swarm \<times> mesh_call list \<times> std_error option" where
  "publish_coordination_heartbeat env now s =
     (if \<not> sw_application_ready s then (s, [], None)
      else if sw_last_heartbeat s \<noteq> 0 \<and>
        ticks_to_seconds (now - sw_last_heartbeat s) < mesh_swarm_heartbeat_period (sw_config s)
      then (s, [], None)
      else
        let s = s\<lparr>sw_last_heartbeat := now\<rparr>; access = heartbeat_access s
        in (s, [Send (mesh_swarm_group_address (sw_config s)) (mesh_swarm_app_key_index (sw_config s)) access],
            ap_send env access))"

section \<open>Local model configuration\<close>

definition maintain_local_model ::
    "mesh_env \<Rightarrow> mesh_status \<Rightarrow> ticks \<Rightarrow> swarm \<Rightarrow> swarm \<times> mesh_call list" where
  "maintain_local_model env status now s =
     (if sw_application_ready s \<or> mt_addresses status = [] \<or>
         (sw_next_local_model_action s \<noteq> 0 \<and> now < sw_next_local_model_action s) then (s, [])
      else
        let local_address = hd (mt_addresses status);
            config = sw_config s;
            step = (\<lambda>s. s\<lparr>sw_next_local_model_action := now + kConfigurationStepDelay\<rparr>);
            retry = s\<lparr>sw_next_local_model_action := now + kRetryDelay\<rparr>
        in if sw_local_model_stage s = 0
           then (case ap_prepare_auto_keys env of
                   Inr True \<Rightarrow> (step (s\<lparr>sw_local_model_stage := 1\<rparr>), [Prepare_auto_keys])
                 | Inr False \<Rightarrow> (retry, [Prepare_auto_keys])
                 | Inl error \<Rightarrow> (retry, [Prepare_auto_keys]))
           else if sw_local_model_stage s = 1
           then (case ap_add_app_key env local_address of
                   None \<Rightarrow> (step (s\<lparr>sw_local_model_stage := 2\<rparr>),
                     [Add_app_key local_address (mesh_swarm_app_key_index config) (mesh_swarm_network_index config)])
                 | Some error \<Rightarrow> (retry,
                     [Add_app_key local_address (mesh_swarm_app_key_index config) (mesh_swarm_network_index config)]))
           else if sw_local_model_stage s = 2
           then
             let call = Configure_vendor_model local_address (mesh_swarm_network_index config)
                   (mesh_swarm_app_key_index config) (mesh_swarm_group_address config)
                   (mesh_company_id config) (mesh_vendor_model_id config)
             in (case ap_configure_vendor_model env local_address of
                   None \<Rightarrow> (step (s\<lparr>sw_local_model_stage := 3\<rparr>), [call])
                 | Some error \<Rightarrow> (retry, [call]))
           else if ap_vendor_model_ready env
           then (step (s\<lparr>sw_application_ready := True\<rparr>), [])
           else (step (s\<lparr>sw_local_model_stage := 1\<rparr>), []))"

end
