(* ===== verification/Swarm_Maintain.thy ===== *)
theory Swarm_Maintain
  imports Swarm_Coordinator
begin

text \<open>
  \<open>maintain_auto_enrollment\<close> and \<open>maintain\<close> of \<open>src/mesh/swarm_coordinator.cpp\<close>: confirmed
  enrollment of one missing member at a time, and the bootstrap of the local identity while
  the node is not attached.
\<close>

type_synonym maintenance = "swarm \<times> mesh_call list \<times> std_error option"

section \<open>Automatic enrollment\<close>

definition clear_pending :: "swarm \<Rightarrow> swarm" where
  "clear_pending s = s\<lparr>sw_pending_uuid := [], sw_pending_address := 0\<rparr>"

definition begin_provisioning :: "u8 list \<Rightarrow> u16 \<Rightarrow> ticks \<Rightarrow> swarm \<Rightarrow> swarm" where
  "begin_provisioning uuid number now s =
     s\<lparr>sw_pending_uuid := mesh_bytes_to_hex uuid, sw_pending_address := number,
       sw_pending_until := now + secs 50\<rparr>"

text \<open>The calls of one provisioning attempt; the second component says whether both returned.\<close>

definition start_provisioning :: "mesh_env \<Rightarrow> u8 list \<Rightarrow> u16 \<Rightarrow> mesh_call list \<times> bool" where
  "start_provisioning env uuid number =
     (case ap_set_auto_provisioning_unicast env number of
        Some error \<Rightarrow> ([Set_auto_provisioning_unicast number], False)
      | None \<Rightarrow> ([Set_auto_provisioning_unicast number, Add_node uuid], ap_add_node env uuid = None))"

definition handle_enrollment_event :: "mesh_env \<Rightarrow> ticks \<Rightarrow> mesh_event \<Rightarrow> swarm \<Rightarrow> maintenance" where
  "handle_enrollment_event env now event s =
     (if me_event event = ''add_node_failed'' \<and> me_uuid event = sw_pending_uuid s
      then ((clear_pending s)\<lparr>sw_remote_model_stage := 0, sw_last_scan_at := 0\<rparr>, [], None)
      else if me_event event = ''add_node_complete'' \<and> me_uuid event = sw_pending_uuid s
      then (if me_unicast event \<noteq> sw_pending_address s \<or> me_count event \<noteq> 1
            then (clear_pending s, [], None)
            else (s\<lparr>sw_remote_model_stage := 1,
                    sw_remote_model_action_at := now + kConfigurationStepDelay,
                    sw_pending_until := 0\<rparr>, [], None))
      else if me_event event \<noteq> ''scan_result'' \<or> \<not> sw_local_is_active s \<or>
        sw_pending_uuid s \<noteq> [] \<or> length (me_data event) < 16
      then (s, [], None)
      else
        let uuid = take 16 (me_data event); number = mesh_auto_uuid_number uuid
        in if number = 0 \<or> unat number = sw_local_number s \<or> \<not> peer_allowed s (unat number)
           then (s, [], None)
           else
             let expected = (if peer_whitelist (sw_config s) = [] then Inr True
                   else case sw_member_by_number s (unat number) of
                          None \<Rightarrow> Inr False
                        | Some known \<Rightarrow>
                            (case mesh_auto_uuid_from_name known of
                               Inl error \<Rightarrow> Inl error | Inr u \<Rightarrow> Inr (u = uuid)))
             in case expected of
                  Inl error \<Rightarrow> (s, [], Some error)
                | Inr ok \<Rightarrow>
                    if \<not> ok \<or> map_of (sw_presence s) (unat number) \<noteq> None then (s, [], None)
                    else (case start_provisioning env uuid number of
                            (calls, started) \<Rightarrow>
                              (if started then begin_provisioning uuid number now s else s, calls, None)))"

fun handle_enrollment_events :: "mesh_env \<Rightarrow> ticks \<Rightarrow> mesh_event list \<Rightarrow> swarm \<Rightarrow> maintenance" where
  "handle_enrollment_events env now [] s = (s, [], None)"
| "handle_enrollment_events env now (event # events) s =
     (case handle_enrollment_event env now event s of
        (s, calls, Some error) \<Rightarrow> (s, calls, Some error)
      | (s, calls, None) \<Rightarrow>
          (case handle_enrollment_events env now events s of
             (s, later, result) \<Rightarrow> (s, calls @ later, result)))"

definition expire_pending :: "ticks \<Rightarrow> swarm \<Rightarrow> swarm" where
  "expire_pending now s =
     (if sw_pending_uuid s \<noteq> [] \<and> sw_pending_until s \<noteq> 0 \<and> sw_pending_until s \<le> now
      then (clear_pending s)\<lparr>sw_last_scan_at := 0\<rparr> else s)"

definition remote_model_setup :: "mesh_env \<Rightarrow> ticks \<Rightarrow> swarm \<Rightarrow> swarm \<times> mesh_call list" where
  "remote_model_setup env now s =
     (if sw_remote_model_stage s = 0 \<or> now < sw_remote_model_action_at s then (s, [])
      else
        let config = sw_config s; address = sw_pending_address s;
            failed = s\<lparr>sw_remote_model_action_at := now + kRetryDelay\<rparr>
        in if sw_remote_model_stage s = 1
           then
             let call = Add_app_key address (mesh_swarm_app_key_index config) (mesh_swarm_network_index config)
             in (case ap_add_app_key env address of
                   Some error \<Rightarrow> (failed, [call])
                 | None \<Rightarrow> (s\<lparr>sw_remote_model_stage := 2, sw_remote_model_action_at := now + secs 2\<rparr>, [call]))
           else
             let call = Configure_vendor_model address (mesh_swarm_network_index config)
                   (mesh_swarm_app_key_index config) (mesh_swarm_group_address config)
                   (mesh_company_id config) (mesh_vendor_model_id config)
             in (case ap_configure_vendor_model env address of
                   Some error \<Rightarrow> (failed, [call])
                 | None \<Rightarrow> ((clear_pending s)\<lparr>sw_remote_model_stage := 0, sw_last_scan_at := 0,
                              sw_remote_model_action_at := now + secs 2\<rparr>, [call])))"

text \<open>The default entry that reading \<open>last_direct_attempt_[number]\<close> inserts is overwritten at once,
  because a missing attempt is never throttled.\<close>

fun search_absent :: "mesh_env \<Rightarrow> ticks \<Rightarrow> nat list \<Rightarrow> swarm \<Rightarrow> swarm \<times> mesh_call list" where
  "search_absent env now [] s = (s, [])"
| "search_absent env now (number # numbers) s =
     (if number = sw_local_number s \<or> map_of (sw_presence s) number \<noteq> None
      then search_absent env now numbers s
      else
        let previous = (case sw_last_direct_attempt s number of None \<Rightarrow> 0 | Some t \<Rightarrow> t)
        in if previous \<noteq> 0 \<and> now - previous < secs 55 then search_absent env now numbers s
           else
             let s = s\<lparr>sw_last_direct_attempt := (sw_last_direct_attempt s)(number \<mapsto> now)\<rparr>
             in case ap_export_device_keys env of
                  Inl error \<Rightarrow> (s, [Export_device_keys])
                | Inr known_nodes \<Rightarrow>
                    if list_ex (\<lambda>unicast. unat unicast = number) known_nodes
                    then (case search_absent env now numbers s of
                            (s, calls) \<Rightarrow> (s, Export_device_keys # calls))
                    else (case mesh_auto_uuid_from_name (member_name s number) of
                            Inl error \<Rightarrow> (s, [Export_device_keys])
                          | Inr uuid \<Rightarrow>
                              (case start_provisioning env uuid (of_nat number) of
                                 (calls, started) \<Rightarrow>
                                   (if started then begin_provisioning uuid (of_nat number) now s else s,
                                    Export_device_keys # calls))))"

definition maintain_auto_enrollment :: "mesh_env \<Rightarrow> mesh_status \<Rightarrow> ticks \<Rightarrow> swarm \<Rightarrow> maintenance" where
  "maintain_auto_enrollment env status now s =
     (if \<not> mt_attached status \<or> \<not> sw_application_ready s then (s, [], None)
      else
        case handle_enrollment_events env now (sw_pending_events s) (s\<lparr>sw_pending_events := []\<rparr>) of
          (s, calls, Some error) \<Rightarrow> (s, calls, Some error)
        | (s, calls, None) \<Rightarrow>
            (case remote_model_setup env now (expire_pending now s) of
               (s, setup) \<Rightarrow>
                 if sw_pending_uuid s \<noteq> [] then (s, calls @ setup, None)
                 else (case search_absent env now (sw_member_priority s) s of
                         (s, search) \<Rightarrow> (s, calls @ setup @ search, None))))"

section \<open>Periodic maintenance\<close>

definition index_of :: "'a \<Rightarrow> 'a list \<Rightarrow> nat" where
  "index_of x xs = length (takeWhile (\<lambda>y. y \<noteq> x) xs)"

definition bootstrap_priority :: "swarm \<Rightarrow> nat" where
  "bootstrap_priority s =
     (let members = sw_member_priority s
      in if members = [] then 0
         else
           let first = (if sw_preferred_number s \<noteq> 0 then index_of (sw_preferred_number s) members else 0);
               own = index_of (sw_local_number s) members
           in if first = length members \<or> own = length members then length members
              else (own + length members - first) mod length members)"

definition create_after :: "swarm \<Rightarrow> seconds" where
  "create_after s = mesh_swarm_startup_grace (sw_config s) +
     kPerPriorityJoinWindowSeconds * of_nat (bootstrap_priority s)"

definition bootstrap_due :: "ticks \<Rightarrow> swarm \<Rightarrow> bool" where
  "bootstrap_due now s \<longleftrightarrow> sw_last_bootstrap_action s = 0 \<or> kRetryDelay \<le> now - sw_last_bootstrap_action s"

definition import_identity :: "mesh_env \<Rightarrow> ticks \<Rightarrow> swarm \<Rightarrow> mesh_call list \<Rightarrow> maintenance" where
  "import_identity env now s calls =
     (if \<not> bootstrap_due now s then (s, calls, None)
      else let number = of_nat (sw_local_number s)
           in (s\<lparr>sw_last_bootstrap_action := now\<rparr>, calls @ [Import_auto_identity number],
               ap_import_auto_identity env number))"

definition bootstrap :: "mesh_env \<Rightarrow> mesh_status \<Rightarrow> ticks \<Rightarrow> swarm \<Rightarrow> maintenance" where
  "bootstrap env status now s =
     (if mt_token status \<noteq> 0
      then (if \<not> bootstrap_due now s then (s, [], None)
            else (s\<lparr>sw_last_bootstrap_action := now\<rparr>, [Attach (mt_token status)],
                  ap_attach env (mt_token status)))
      else if create_after s \<le> ticks_to_seconds (now - sw_bootstrap_started_at s) \<and>
              mt_state status \<noteq> ''importing''
      then (if mt_state status = ''joining''
            then (case ap_cancel_join env of
                    Some error \<Rightarrow> (s, [Cancel_join], Some error)
                  | None \<Rightarrow> import_identity env now s [Cancel_join])
            else import_identity env now s [])
      else if mt_state status \<noteq> ''joining'' \<and> mt_state status \<noteq> ''importing'' \<and> bootstrap_due now s
      then (s\<lparr>sw_last_bootstrap_action := now\<rparr>, [Join], ap_join env)
      else (s, [], None))"

definition maintain :: "mesh_env \<Rightarrow> mesh_status \<Rightarrow> ticks \<Rightarrow> swarm \<Rightarrow> maintenance" where
  "maintain env status now s =
     (if \<not> mt_attached status
      then
        let s = s\<lparr>sw_application_ready := False, sw_local_model_stage := 0,
                  sw_next_local_model_action := 0\<rparr>
        in if \<not> mt_daemon_available status
           then (s\<lparr>sw_last_bootstrap_action := 0\<rparr>, [], None)
           else bootstrap env status now s
      else if length (mt_addresses status) \<noteq> 1 \<or> unat (hd (mt_addresses status)) \<noteq> sw_local_number s
      then (s, [], Some (Runtime_error
             ''Stored Mesh address differs from this UAV number; refusing unsafe reuse''))
      else
        let s = (if mesh_swarm_startup_grace (sw_config s) \<le>
                    ticks_to_seconds (now - sw_bootstrap_started_at s)
                 then update_selection now s else s)
        in case maintain_local_model env status now s of
             (s, model) \<Rightarrow>
               (case publish_coordination_heartbeat env now s of
                  (s, beat, Some error) \<Rightarrow> (s, model @ beat, Some error)
                | (s, beat, None) \<Rightarrow>
                    (case maintain_auto_enrollment env status now s of
                       (s, enrollment, result) \<Rightarrow> (s, model @ beat @ enrollment, result))))"

end
