(* ===== verification/Swarm_Correct.thy ===== *)
theory Swarm_Correct
  imports Swarm_Maintain Uuid_Correct
begin

text \<open>
  Correctness of the swarm coordinator, part one: the frame format between coordinators, the
  state file, the election, and the invariant of every reachable coordinator.
\<close>

section \<open>The coordination frame\<close>

lemma read_append_u24:
  assumes "unat v < 2 ^ 24" and "n = length d"
  shows "read_u24 (append_u24 d v @ rest) n = v"
proof (rule bit_word_eqI)
  fix k
  assume k: "k < LENGTH(32)"
  have high: "\<not> bit v k" if "24 \<le> k"
  proof -
    have "v = take_bit 24 v"
      using assms(1) by (simp add: word_unat_eq_iff unsigned_take_bit_eq take_bit_nat_eq_self)
    then show ?thesis using that by (metis bit_take_bit_iff linorder_not_less)
  qed
  have "read_u24 (append_u24 d v @ rest) n = ucast (ucast v :: u8) OR push_bit 8 (ucast (ucast (drop_bit 8 v) :: u8))
      OR push_bit 16 (ucast (ucast (drop_bit 16 v) :: u8))"
    using assms(2) by (simp add: read_u24_def append_u24_def nth_append)
  moreover consider "k < 8" | "8 \<le> k" "k < 16" | "16 \<le> k" "k < 24" | "24 \<le> k" by linarith
  then have "bit (ucast (ucast v :: u8) OR push_bit 8 (ucast (ucast (drop_bit 8 v) :: u8))
      OR push_bit 16 (ucast (ucast (drop_bit 16 v) :: u8)) :: u32) k \<longleftrightarrow> bit v k"
    using k high by cases (auto simp: bit_simps)
  ultimately show "bit (read_u24 (append_u24 d v @ rest) n) k \<longleftrightarrow> bit v k" by simp
qed

lemma read_append_u16:
  assumes "n = length d"
  shows "read_u16 (append_u16 d v) n = v"
proof (rule bit_word_eqI)
  fix k
  assume k: "k < LENGTH(16)"
  have "read_u16 (append_u16 d v) n = ucast (ucast v :: u8) OR push_bit 8 (ucast (ucast (drop_bit 8 v) :: u8))"
    using assms by (simp add: read_u16_def append_u16_def nth_append)
  then show "bit (read_u16 (append_u16 d v) n) k \<longleftrightarrow> bit v k"
    using k by (auto simp: bit_simps)
qed

lemma fingerprint_bound: "unat (swarm_fingerprint members preference) < 2 ^ 24" "swarm_fingerprint members preference \<noteq> 0"
proof -
  have "unat (h AND 0x00ffffff :: u32) < 2 ^ 24" for h
  proof -
    have "h AND 0x00ffffff = take_bit 24 h"
      using take_bit_eq_mask [of 24 h] by (simp add: mask_eq_exp_minus_1)
    then show ?thesis using take_bit_nat_less_exp [of 24 "unat h"] by (simp add: unsigned_take_bit_eq)
  qed
  then show "unat (swarm_fingerprint members preference) < 2 ^ 24" "swarm_fingerprint members preference \<noteq> 0"
    by (simp_all add: swarm_fingerprint_def Let_def)
qed

definition heartbeat_frame :: "swarm \<Rightarrow> u8 list" where
  "heartbeat_frame s = drop 3 (heartbeat_access s)"

lemma heartbeat_access_eq:
  "heartbeat_access s = [kControlOpcode, ucast (mesh_company_id (sw_config s)),
     ucast (drop_bit 8 (mesh_company_id (sw_config s)))] @ heartbeat_frame s"
  by (simp add: heartbeat_frame_def heartbeat_access_def append_u16_def append_u24_def Let_def)

lemma heartbeat_frame_facts:
  assumes "unat (sw_fingerprint s) < 2 ^ 24"
  shows "length (heartbeat_frame s) = 8" "heartbeat_frame s ! 0 = 77" "heartbeat_frame s ! 1 = 83"
    "drop_bit 4 (heartbeat_frame s ! 2) = kSwarmFrameVersion"
    "heartbeat_frame s ! 2 AND kSwarmParticipatingFlag \<noteq> 0 \<longleftrightarrow> sw_participating s"
    "read_u24 (heartbeat_frame s) 3 = sw_fingerprint s"
    "read_u16 (heartbeat_frame s) 6 = sw_swarm_id s"
proof -
  let ?h = "[77, 83, push_bit 4 kSwarmFrameVersion OR (if sw_participating s then kSwarmParticipatingFlag else 0)]"
  have f: "heartbeat_frame s = append_u24 ?h (sw_fingerprint s) @ [ucast (sw_swarm_id s), ucast (drop_bit 8 (sw_swarm_id s))]"
    by (simp add: heartbeat_frame_def heartbeat_access_def append_u16_def append_u24_def Let_def)
  show "length (heartbeat_frame s) = 8" "heartbeat_frame s ! 0 = 77" "heartbeat_frame s ! 1 = 83"
    "drop_bit 4 (heartbeat_frame s ! 2) = kSwarmFrameVersion"
    "heartbeat_frame s ! 2 AND kSwarmParticipatingFlag \<noteq> 0 \<longleftrightarrow> sw_participating s"
    by (simp_all add: f append_u24_def swarm_constants)
  show "read_u24 (heartbeat_frame s) 3 = sw_fingerprint s"
    unfolding f by (rule read_append_u24 [OF assms]) simp
  have "heartbeat_frame s = append_u16 (append_u24 ?h (sw_fingerprint s)) (sw_swarm_id s)"
    by (simp add: f append_u16_def)
  then show "read_u16 (heartbeat_frame s) 6 = sw_swarm_id s"
    by (simp only:) (rule read_append_u16, simp add: append_u24_def)
qed

text \<open>coordinators understand each other. A heartbeat that one coordinator sends, received with
  or without its vendor opcode by a coordinator of the same policy that admits the sender, is
  consumed and renews exactly the sender's lease, with the sender's current swarm and its
  participation.\<close>

theorem heartbeat_received:
  assumes "publish_coordination_heartbeat env t a = (a', [Send grp key access], r)"
    and "unat (sw_fingerprint a) < 2 ^ 24" and "sw_fingerprint b = sw_fingerprint a"
    and "mesh_company_id (sw_config b) = mesh_company_id (sw_config a)"
    and "mesh_swarm_app_key_index (sw_config b) = key"
    and "\<not> rm_device_key msg" and "rm_key_index msg = key"
    and "rm_data msg = access \<or> rm_data msg = drop 3 access"
    and "unat (rm_source msg) = sw_local_number a" and "sw_local_number a \<noteq> 0"
    and "sw_local_number a \<noteq> sw_local_number b" and "peer_allowed b (sw_local_number a)"
    and "sw_swarm_id a \<noteq> 0"
  shows "handle_message now msg b =
    (b\<lparr>sw_presence := ordered_put (sw_local_number a)
        \<lparr>pp_source = rm_source msg, pp_swarm_id = sw_swarm_id a,
         pp_participating = sw_participating a, pp_expires = now + provisioner_lease b\<rparr>
        (sw_presence b)\<rparr>, True)"
proof -
  have access: "access = heartbeat_access a"
    using assms(1)
    by (auto simp: publish_coordination_heartbeat_def heartbeat_access_def Let_def split: if_splits)
  note f = heartbeat_frame_facts [OF assms(2)]
  have "rm_source msg \<noteq> 0" using assms(9,10) by auto
  have acc: "accept_coordination_frame (heartbeat_frame a) (rm_source msg) now b =
      b\<lparr>sw_presence := ordered_put (sw_local_number a)
        \<lparr>pp_source = rm_source msg, pp_swarm_id = sw_swarm_id a,
         pp_participating = sw_participating a, pp_expires = now + provisioner_lease b\<rparr>
        (sw_presence b)\<rparr>"
    using assms f by (simp add: accept_coordination_frame_def Let_def kFrameSize_def)
  from assms(8) show ?thesis
  proof
    assume d: "rm_data msg = access"
    show ?thesis
      using assms(4-7) d f \<open>rm_source msg \<noteq> 0\<close> acc
      by (simp add: handle_message_def Let_def access heartbeat_access_eq kFrameSize_def)
  next
    assume d: "rm_data msg = drop 3 access"
    then have "rm_data msg = heartbeat_frame a" by (simp add: access heartbeat_access_eq)
    then show ?thesis
      using assms(4-7) f \<open>rm_source msg \<noteq> 0\<close> acc
      by (simp add: handle_message_def Let_def kFrameSize_def)
  qed
qed

section \<open>The state file\<close>

lemma digit_not_space: "is_digit c \<Longrightarrow> \<not> is_space c \<and> c \<noteq> CHR ''-'' \<and> c \<noteq> CHR ''+''"
  by (auto simp: is_digit_def is_space_def char_code_def)

lemma extract_digits_text:
  assumes "list_all is_digit ds" and "ds \<noteq> []" and "rest = [] \<or> \<not> is_digit (hd rest)"
    and "list_all is_space ws"
  shows "extract_digits (ws @ ds @ rest) = Some (False, digits_value ds, rest)"
proof -
  have hd: "\<not> is_space (hd ds)" "hd ds \<noteq> CHR ''-''" "hd ds \<noteq> CHR ''+''"
    using assms(1,2) digit_not_space [of "hd ds"] by (auto simp: list_all_iff)
  have "dropWhile is_space (ds @ rest) = ds @ rest" using assms(2) hd(1) by (cases ds) auto
  moreover have "dropWhile is_space (ws @ ds @ rest) = dropWhile is_space (ds @ rest)"
    using assms(4) by (induction ws) auto
  ultimately have a: "dropWhile is_space (ws @ ds @ rest) = ds @ rest" by simp
  have "takeWhile is_digit rest = [] \<and> dropWhile is_digit rest = rest"
    using assms(3) by (cases rest) simp_all
  moreover have "\<And>x. x \<in> set ds \<Longrightarrow> is_digit x" using assms(1) by (simp add: list_all_iff)
  ultimately have b: "takeWhile is_digit (ds @ rest) = ds" "dropWhile is_digit (ds @ rest) = rest"
    by (simp_all add: takeWhile_append2 dropWhile_append2)
  have c: "(hd (ds @ rest) = CHR ''-'') = False" "(hd (ds @ rest) = CHR ''+'') = False"
    using assms(2) hd by simp_all
  have d: "(ds = []) = False" using assms(2) by simp
  show ?thesis
    unfolding extract_digits_def Let_def a c simp_thms if_False b d by simp
qed

lemma read_swarm_state_text:
  assumes "i \<noteq> 0"
  shows "read_swarm_state (swarm_state_text i p) = Some (i, p)"
proof -
  let ?b = "if p then ''1'' else ''0''"
  have "is_digit (CHR ''1'')" "is_digit (CHR ''0'')" "digits_value ''1'' = 1" "digits_value ''0'' = 0"
    by code_simp+
  then have b: "list_all is_digit ?b" "digits_value ?b = (if p then 1 else 0)" by (cases p; simp)+
  have w: "is_space (CHR '' '')" "\<not> is_digit (CHR '' '')" "\<not> is_digit (CHR 0x0A)"
    by (simp_all add: is_space_def is_digit_def char_code_def)
  have i: "unat i < 65536" "unat i \<noteq> 0"
    using unsigned_less [of i, where ?'a = nat] assms by (simp_all add: unat_eq_0)
  have 1: "extract_digits ([] @ show_nat (unat i) @ '' '' @ ?b @ [CHR 0x0A]) =
      Some (False, digits_value (show_nat (unat i)), '' '' @ ?b @ [CHR 0x0A])"
    by (rule extract_digits_text) (simp_all add: show_nat_digits w)
  have 2: "extract_digits ('' '' @ ?b @ [CHR 0x0A]) = Some (False, if p then 1 else 0, [CHR 0x0A])"
    unfolding b(2) [symmetric] by (rule extract_digits_text) (use b w in simp_all)
  from 1 2 i show ?thesis
    by (simp add: swarm_state_text_def read_swarm_state_def extract_u32_def extract_int_def split del: if_split)
       simp
qed

interpretation swarm_state: wire_format "\<lambda>(i, p). swarm_state_text i p" read_swarm_state "\<lambda>(i, p). i \<noteq> 0"
  by unfold_locales (auto simp: read_swarm_state_text)

text \<open>Membership survives a restart. After a \<open>join_swarm\<close> or \<open>leave_swarm\<close> that returned, a
  coordinator constructed over the same files and configuration is in the same swarm with the
  same participation; a call that threw changed neither the coordinator nor the file.\<close>

theorem membership_restart:
  assumes "mesh_swarm_state_path (sw_config s) \<noteq> []" and "sw_swarm_id s \<noteq> 0"
    and "join_swarm files i s = (files', s', err) \<or> leave_swarm files s = (files', s', err)"
    and "new_swarm files' (sw_config s) host now = Inr s2"
  shows "if err = None
    then sw_swarm_id s2 = sw_swarm_id s' \<and> sw_participating s2 = sw_participating s'
    else s' = s \<and> files' = files"
proof -
  let ?path = "mesh_swarm_state_path (sw_config s)"
  have c: "sw_config s' = sw_config s" "sw_swarm_id s' \<noteq> 0 \<or> err \<noteq> None"
    using assms(2,3) by (auto simp: join_swarm_def leave_swarm_def split: if_splits prod.splits option.splits)
  have w: "err = None \<Longrightarrow> sf_content files' ?path = Some (swarm_state_text (sw_swarm_id s') (sw_participating s'))"
    using assms(1,3)
    by (auto simp: join_swarm_def leave_swarm_def persist_swarm_state_def Let_def
        split: if_splits prod.splits option.splits)
  have f: "err \<noteq> None \<Longrightarrow> s' = s \<and> files' = files"
    using assms(1,3)
    by (auto simp: join_swarm_def leave_swarm_def persist_swarm_state_def Let_def
        split: if_splits prod.splits option.splits)
  obtain s0 where s0: "s2 = load_swarm_state files' s0" "sw_config s0 = sw_config s"
    using assms(4) by (auto simp: new_swarm_def initial_swarm_def Let_def split: sum.splits prod.splits)
  have "sw_swarm_id s2 = sw_swarm_id s' \<and> sw_participating s2 = sw_participating s'" if "err = None"
    using s0 w [OF that] c that assms(1) swarm_state.dec_enc [of "(sw_swarm_id s', sw_participating s')"]
    by (simp add: load_swarm_state_def)
  with f show ?thesis by simp
qed

section \<open>The election\<close>

definition electable :: "ticks \<Rightarrow> swarm \<Rightarrow> nat \<Rightarrow> bool" where
  "electable now s n \<longleftrightarrow> n = sw_local_number s \<or> fresh_presence now s n"

definition presence_sorted :: "swarm \<Rightarrow> bool" where
  "presence_sorted s \<longleftrightarrow> sorted_wrt (<) (map fst (sw_presence s))"

lemma map_of_filter_distinct:
  "distinct (map fst m) \<Longrightarrow> map_of (filter (\<lambda>x. P (snd x)) m) k =
     (case map_of m k of None \<Rightarrow> None | Some v \<Rightarrow> if P v then Some v else None)"
  by (induction m) (auto split: option.splits simp: map_of_eq_None_iff rev_image_eqI)

lemma presence_kept:
  assumes "presence_sorted s"
  shows "map_of (filter (\<lambda>x. \<not> pp_expires (snd x) \<le> now) (sw_presence s)) n \<noteq> None \<longleftrightarrow> fresh_presence now s n"
proof -
  have "distinct (map fst (sw_presence s))"
    using assms by (simp add: presence_sorted_def strict_sorted_iff)
  then show ?thesis
    by (subst map_of_filter_distinct) (auto simp: fresh_presence_def not_le split: option.splits)
qed

lemma fold_min: "fold (\<lambda>x m. min m (fst x)) xs (a :: nat) = Min (insert a (fst ` set xs))"
proof (induction xs arbitrary: a)
  case (Cons x xs)
  have "Min (insert a (insert (fst x) (fst ` set xs))) = Min (insert (min a (fst x)) (fst ` set xs))"
    by (cases "fst ` set xs = {}") (simp_all add: min.assoc)
  with Cons show ?case by simp
qed simp

definition elected :: "ticks \<Rightarrow> swarm \<Rightarrow> nat" where
  "elected now s =
     (if sw_preferred_number s \<noteq> 0 \<and> electable now s (sw_preferred_number s) then sw_preferred_number s
      else if sw_member_priority s \<noteq> []
      then (case find (electable now s) (sw_member_priority s) of None \<Rightarrow> sw_local_number s | Some n \<Rightarrow> n)
      else Min {n. electable now s n})"

lemma electable_set:
  assumes "presence_sorted s"
  shows "{n. electable now s n} =
    insert (sw_local_number s) (fst ` set (filter (\<lambda>x. \<not> pp_expires (snd x) \<le> now) (sw_presence s)))"
proof -
  have "fresh_presence now s n \<longleftrightarrow>
      n \<in> fst ` set (filter (\<lambda>x. \<not> pp_expires (snd x) \<le> now) (sw_presence s))" for n
    using presence_kept [OF assms, of now n]
    by (metis domIff dom_map_of_conv_image_fst)
  then show ?thesis by (auto simp: electable_def)
qed

lemma update_selection_elected:
  assumes "presence_sorted s"
  shows "sw_active_number (update_selection now s) = elected now s"
proof -
  let ?s = "s\<lparr>sw_presence := filter (\<lambda>x. \<not> pp_expires (snd x) \<le> now) (sw_presence s)\<rparr>"
  have av: "available ?s = electable now s"
    using presence_kept [OF assms] by (simp add: available_def electable_def fun_eq_iff)
  have "select_number ?s = elected now s"
    unfolding select_number_def elected_def av electable_set [OF assms] by (simp add: fold_min split: option.split)
  then show ?thesis by (simp add: update_selection_def Let_def)
qed

lemma elected_electable:
  assumes "presence_sorted s"
  shows "electable now s (elected now s)"
proof -
  have fin: "finite {n. electable now s n}" by (simp add: electable_set [OF assms])
  have ne: "{n. electable now s n} \<noteq> {}" by (auto simp: electable_def)
  have "electable now s (sw_local_number s)" by (simp add: electable_def)
  with Min_in [OF fin ne] show ?thesis
    by (auto simp: elected_def find_Some_iff split: option.splits)
qed

text \<open>the election agrees. After \<open>update_selection\<close> the active provisioner is the local node or
  a peer with a fresh lease, it is the preferred one whenever that one is available, and two
  coordinators of the same policy that see the same live members, with a configured member
  among them or an open whitelist, elect the same one; exactly the elected node considers itself
  active.\<close>

theorem election_agreement:
  assumes "presence_sorted a" and "presence_sorted b"
    and "sw_preferred_number b = sw_preferred_number a"
    and "sw_member_priority b = sw_member_priority a"
    and "\<forall>n. electable now b n \<longleftrightarrow> electable now a n"
    and "sw_member_priority a \<noteq> [] \<longrightarrow> (\<exists>n\<in>set (sw_member_priority a). electable now a n)"
    and "sw_local_is_active a \<longleftrightarrow> sw_active_number a = sw_local_number a"
  shows "let a' = update_selection now a; b' = update_selection now b; n = sw_active_number a'
    in electable now a n \<and> sw_active_number b' = n \<and>
       (sw_preferred_number a \<noteq> 0 \<and> electable now a (sw_preferred_number a) \<longrightarrow> n = sw_preferred_number a) \<and>
       (sw_local_is_active a' \<longleftrightarrow> n = sw_local_number a)"
proof -
  have el: "electable now b = electable now a" using assms(5) by (simp add: fun_eq_iff)
  have "find (electable now a) (sw_member_priority a) \<noteq> None" if "sw_member_priority a \<noteq> []"
    using assms(6) that by (auto simp: find_None_iff)
  then have "elected now b = elected now a"
    using assms(3,4) by (auto simp: elected_def el split: option.splits)
  moreover have "elected now a = sw_preferred_number a"
    if "sw_preferred_number a \<noteq> 0 \<and> electable now a (sw_preferred_number a)"
    using that by (simp add: elected_def)
  moreover have "sw_local_is_active (update_selection now a) \<longleftrightarrow>
      sw_active_number (update_selection now a) = sw_local_number a"
    using assms(7) unfolding update_selection_def Let_def by simp
  ultimately show ?thesis
    using update_selection_elected [OF assms(1)] update_selection_elected [OF assms(2)]
      elected_electable [OF assms(1)] by (simp add: Let_def)
qed

section \<open>Witnesses: two members of one policy\<close>

definition demo_policy :: node_config where
  "demo_policy = default_node_config\<lparr>peer_whitelist := [''uav1'', ''uav2''],
     mesh_provisioner_preference := ''ordered'', mesh_swarm_state_path := ''/swarm'', mesh_swarm_id := 3,
     mesh_swarm_participating := True, mesh_swarm_startup_grace := 5, mesh_swarm_heartbeat_period := 1,
     mesh_swarm_provisioner_timeout := 20\<rparr>"

definition demo_files :: swarm_files where
  "demo_files = \<lparr>sf_content = Map.empty, sf_failure = (\<lambda>_. None)\<rparr>"

definition demo_member :: "nat \<Rightarrow> string \<Rightarrow> swarm" where
  "demo_member n host = initial_swarm demo_policy host ''ordered'' n [1 \<mapsto> ''uav1'', 2 \<mapsto> ''uav2''] [1, 2] 0 5"

lemma demo_policy_facts:
  "peer_whitelist demo_policy = [''uav1'', ''uav2'']" "mesh_swarm_state_path demo_policy = ''/swarm''"
  "mesh_provisioner_preference demo_policy = ''ordered''" "mesh_swarm_id demo_policy = 3"
  "mesh_swarm_participating demo_policy" "mesh_swarm_startup_grace demo_policy = 5"
  "mesh_swarm_heartbeat_period demo_policy = 1" "mesh_swarm_provisioner_timeout demo_policy = 20"
  by (simp_all add: demo_policy_def)

lemma demo_text:
  "lower_trim_copy ''uav1'' = ''uav1''" "lower_trim_copy ''uav2'' = ''uav2''"
  "lower_trim_copy ''ordered'' = ''ordered''" "uav_number ''uav1'' = Inr 1" "uav_number ''uav2'' = Inr 2"
  by (code_simp, code_simp, code_simp)
     (simp_all add: uav_number_def stoul_digits_def digits_value_def digit_value_def is_digit_def char_code_def)

lemma demo_new:
  "new_swarm files demo_policy ''uav1'' 5 = Inr (load_swarm_state files (demo_member 1 ''uav1''))"
  "load_swarm_state demo_files s = s"
  by (simp_all add: new_swarm_def Let_def demo_policy_facts demo_text load_swarm_state_def
      demo_files_def demo_member_def fun_upd_twist)

lemma demo_member_fields:
  "sw_config (demo_member n h) = demo_policy" "sw_local_number (demo_member n h) = n"
  "sw_presence (demo_member n h) = []" "sw_swarm_id (demo_member n h) = 3"
  "sw_member_priority (demo_member n h) = [1, 2]" "sw_preferred_number (demo_member n h) = 0"
  "sw_active_number (demo_member n h) = 1" "sw_local_is_active (demo_member n h) \<longleftrightarrow> n = 1"
  "sw_fingerprint (demo_member n h) = swarm_fingerprint [''uav1'', ''uav2''] ''ordered''"
  "sw_member_by_number (demo_member n h) = [1 \<mapsto> ''uav1'', 2 \<mapsto> ''uav2'']"
  "sw_last_heartbeat (demo_member n h) = 0" "sw_participating (demo_member n h)"
  "sw_bootstrap_started_at (demo_member n h) = 5" "sw_next_local_model_action (demo_member n h) = 0"
  "sw_local_model_stage (demo_member n h) = 0" "\<not> sw_application_ready (demo_member n h)"
  "sw_pending_events (demo_member n h) = []" "sw_pending_uuid (demo_member n h) = []"
  "sw_remote_model_stage (demo_member n h) = 0" "sw_last_direct_attempt (demo_member n h) = Map.empty"
  by (auto simp: demo_member_def initial_swarm_def Let_def demo_policy_facts)

definition quiet_env :: mesh_env where
  "quiet_env = \<lparr>ap_attach = (\<lambda>_. None), ap_cancel_join = None, ap_import_auto_identity = (\<lambda>_. None),
     ap_join = None, ap_send = (\<lambda>_. None), ap_prepare_auto_keys = Inr True, ap_add_app_key = (\<lambda>_. None),
     ap_configure_vendor_model = (\<lambda>_. None), ap_vendor_model_ready = True,
     ap_set_auto_provisioning_unicast = (\<lambda>_. None), ap_add_node = (\<lambda>_. None),
     ap_export_device_keys = Inr []\<rparr>"

theorem heartbeat_received_witness:
  "\<exists>b access. let a = (demo_member 1 ''uav1'')\<lparr>sw_application_ready := True\<rparr> in
     access = heartbeat_access a \<and>
     handle_message 9 \<lparr>rm_element_index = 0, rm_source = 1, rm_destination = 0, rm_key_index =
        mesh_swarm_app_key_index demo_policy, rm_net_index = 0, rm_device_key = False, rm_remote = False,
        rm_data = access\<rparr> (demo_member 2 ''uav2'') = (b, True) \<and>
     map fst (sw_presence b) = [1]"
proof -
  let ?a = "(demo_member 1 ''uav1'')\<lparr>sw_application_ready := True\<rparr>" and ?b = "demo_member 2 ''uav2''"
  let ?msg = "\<lparr>rm_element_index = 0, rm_source = 1, rm_destination = 0, rm_key_index =
        mesh_swarm_app_key_index demo_policy, rm_net_index = 0, rm_device_key = False, rm_remote = False,
        rm_data = heartbeat_access ?a\<rparr>"
  have p: "publish_coordination_heartbeat quiet_env 7 ?a = (?a\<lparr>sw_last_heartbeat := 7\<rparr>,
      [Send (mesh_swarm_group_address demo_policy) (mesh_swarm_app_key_index demo_policy) (heartbeat_access ?a)], None)"
    by (simp add: publish_coordination_heartbeat_def Let_def demo_member_fields quiet_env_def
        heartbeat_access_def)
  from heartbeat_received [OF p, of ?b ?msg 9] fingerprint_bound(1)
  show ?thesis
    by (auto simp: demo_member_fields peer_allowed_def ordered_put_def)
qed

theorem membership_restart_witness:
  "\<exists>files s s2. join_swarm demo_files 8 (demo_member 1 ''uav1'') = (files, s, None) \<and>
     new_swarm files demo_policy ''uav1'' 5 = Inr s2 \<and> sw_swarm_id s2 = 8 \<and> sw_participating s2"
proof -
  let ?s = "demo_member 1 ''uav1''"
  let ?files = "demo_files\<lparr>sf_content := [''/swarm'' \<mapsto> swarm_state_text 8 True]\<rparr>"
  let ?s' = "?s\<lparr>sw_swarm_id := 8, sw_participating := True, sw_last_heartbeat := 0\<rparr>"
  have path: "mesh_swarm_state_path (sw_config ?s) \<noteq> []" "sw_swarm_id ?s \<noteq> 0"
    by (simp_all add: demo_member_fields demo_policy_facts)
  have j: "join_swarm demo_files 8 ?s = (?files, ?s', None)"
    by (simp add: join_swarm_def persist_swarm_state_def Let_def demo_files_def demo_member_fields demo_policy_facts)
  have n: "new_swarm ?files (sw_config ?s) ''uav1'' 5 = Inr (load_swarm_state ?files ?s)"
    by (simp only: demo_new demo_member_fields)
  from membership_restart [OF path disjI1 [OF j] n] j n show ?thesis
    by (auto simp: demo_member_fields)
qed

theorem election_agreement_witness:
  "\<exists>p1 p2. let a = (demo_member 1 ''uav1'')\<lparr>sw_presence := [(2, p2)]\<rparr>;
              b = (demo_member 2 ''uav2'')\<lparr>sw_presence := [(1, p1)]\<rparr>
     in sw_active_number (update_selection 9 b) = sw_active_number (update_selection 9 a)"
proof -
  define p where "p n = \<lparr>pp_source = n, pp_swarm_id = 3, pp_participating = True, pp_expires = 20\<rparr>" for n
  let ?a = "(demo_member 1 ''uav1'')\<lparr>sw_presence := [(2, p 2)]\<rparr>"
  let ?b = "(demo_member 2 ''uav2'')\<lparr>sw_presence := [(1, p 1)]\<rparr>"
  have e: "electable 9 ?a n \<longleftrightarrow> n = 1 \<or> n = 2" "electable 9 ?b n \<longleftrightarrow> n = 1 \<or> n = 2" for n
    by (auto simp: electable_def fresh_presence_def demo_member_fields p_def)
  have "let a' = update_selection 9 ?a; b' = update_selection 9 ?b; n = sw_active_number a'
    in electable 9 ?a n \<and> sw_active_number b' = n \<and>
       (sw_preferred_number ?a \<noteq> 0 \<and> electable 9 ?a (sw_preferred_number ?a) \<longrightarrow> n = sw_preferred_number ?a) \<and>
       (sw_local_is_active a' \<longleftrightarrow> n = sw_local_number ?a)"
    by (rule election_agreement) (auto simp add: presence_sorted_def demo_member_fields e simp del: One_nat_def)
  then show ?thesis by (auto simp: Let_def)
qed

end
