(* ===== verification/Swarm_System.thy ===== *)
theory Swarm_System
  imports Swarm_Correct
begin

text \<open>
  The coordinator as a system: construction followed by any sequence of service calls,
  received messages, admission queries, queued provisioning events and maintenance ticks with
  any behaviour of the Mesh application. The invariant is split by the part of the state it
  constrains, so that each operation has to be checked only against the parts it writes.
\<close>

section \<open>The invariant\<close>

definition policy_ok :: "swarm \<Rightarrow> bool" where
  "policy_ok s \<longleftrightarrow> 1 \<le> sw_local_number s \<and> sw_local_number s \<le> 0xffff \<and>
     unat (sw_fingerprint s) < 2 ^ 24 \<and> distinct (sw_member_priority s) \<and>
     (\<forall>n\<in>set (sw_member_priority s). \<exists>name. sw_member_by_number s n = Some name \<and> uav_number name = Inr n)"

definition presence_entry_ok :: "swarm \<Rightarrow> nat \<times> peer_presence \<Rightarrow> bool" where
  "presence_entry_ok s x \<longleftrightarrow> fst x = unat (pp_source (snd x)) \<and> fst x \<noteq> 0 \<and>
     fst x \<noteq> sw_local_number s \<and> peer_allowed s (fst x) \<and> pp_swarm_id (snd x) \<noteq> 0"

definition presence_ok :: "swarm \<Rightarrow> bool" where
  "presence_ok s \<longleftrightarrow> presence_sorted s \<and> (\<forall>x\<in>set (sw_presence s). presence_entry_ok s x)"

definition active_ok :: "swarm \<Rightarrow> bool" where
  "active_ok s \<longleftrightarrow> (sw_local_is_active s \<longleftrightarrow> sw_active_number s = sw_local_number s) \<and>
     sw_active_provisioner s = member_name s (sw_active_number s)"

definition model_ok :: "swarm \<Rightarrow> bool" where
  "model_ok s \<longleftrightarrow> sw_local_model_stage s \<le> 3 \<and>
     (sw_application_ready s \<longrightarrow> sw_local_model_stage s = 3) \<and> sw_remote_model_stage s \<le> 2"

definition pending_for :: "swarm \<Rightarrow> u8 list \<Rightarrow> bool" where
  "pending_for s u \<longleftrightarrow> length u = 16 \<and> mesh_auto_uuid_number u \<noteq> 0 \<and>
     unat (mesh_auto_uuid_number u) \<noteq> sw_local_number s \<and> peer_allowed s (unat (mesh_auto_uuid_number u))"

definition pending_ok :: "swarm \<Rightarrow> bool" where
  "pending_ok s \<longleftrightarrow>
     (if sw_pending_uuid s = [] then sw_pending_address s = 0
      else \<exists>u. pending_for s u \<and> sw_pending_uuid s = mesh_bytes_to_hex u \<and>
             sw_pending_address s = mesh_auto_uuid_number u)"

definition swarm_inv :: "swarm \<Rightarrow> bool" where
  "swarm_inv s \<longleftrightarrow> policy_ok s \<and> presence_ok s \<and> active_ok s \<and> model_ok s \<and> pending_ok s \<and>
     length (sw_pending_events s) \<le> 128"

lemmas part_defs = policy_ok_def presence_ok_def presence_entry_ok_def presence_sorted_def active_ok_def model_ok_def
  pending_ok_def pending_for_def peer_allowed_def member_name_def

text \<open>Each part ignores the fields it does not constrain.\<close>

lemma policy_ok_frame [simp]:
  "policy_ok (s\<lparr>sw_presence := v0\<rparr>) = policy_ok s"
  "policy_ok (s\<lparr>sw_active_number := v1\<rparr>) = policy_ok s"
  "policy_ok (s\<lparr>sw_active_provisioner := v2\<rparr>) = policy_ok s"
  "policy_ok (s\<lparr>sw_local_is_active := v3\<rparr>) = policy_ok s"
  "policy_ok (s\<lparr>sw_active_since := v4\<rparr>) = policy_ok s"
  "policy_ok (s\<lparr>sw_swarm_id := v5\<rparr>) = policy_ok s"
  "policy_ok (s\<lparr>sw_participating := v6\<rparr>) = policy_ok s"
  "policy_ok (s\<lparr>sw_last_heartbeat := v7\<rparr>) = policy_ok s"
  "policy_ok (s\<lparr>sw_last_bootstrap_action := v8\<rparr>) = policy_ok s"
  "policy_ok (s\<lparr>sw_local_model_stage := v9\<rparr>) = policy_ok s"
  "policy_ok (s\<lparr>sw_next_local_model_action := v10\<rparr>) = policy_ok s"
  "policy_ok (s\<lparr>sw_application_ready := v11\<rparr>) = policy_ok s"
  "policy_ok (s\<lparr>sw_pending_events := v12\<rparr>) = policy_ok s"
  "policy_ok (s\<lparr>sw_pending_uuid := v13\<rparr>) = policy_ok s"
  "policy_ok (s\<lparr>sw_pending_address := v14\<rparr>) = policy_ok s"
  "policy_ok (s\<lparr>sw_remote_model_stage := v15\<rparr>) = policy_ok s"
  "policy_ok (s\<lparr>sw_remote_model_action_at := v16\<rparr>) = policy_ok s"
  "policy_ok (s\<lparr>sw_pending_until := v17\<rparr>) = policy_ok s"
  "policy_ok (s\<lparr>sw_last_scan_at := v18\<rparr>) = policy_ok s"
  "policy_ok (s\<lparr>sw_last_direct_attempt := v19\<rparr>) = policy_ok s"
  by (simp_all add: policy_ok_def)

lemma presence_ok_frame [simp]:
  "presence_ok (s\<lparr>sw_active_number := v1\<rparr>) = presence_ok s"
  "presence_ok (s\<lparr>sw_active_provisioner := v2\<rparr>) = presence_ok s"
  "presence_ok (s\<lparr>sw_local_is_active := v3\<rparr>) = presence_ok s"
  "presence_ok (s\<lparr>sw_active_since := v4\<rparr>) = presence_ok s"
  "presence_ok (s\<lparr>sw_swarm_id := v5\<rparr>) = presence_ok s"
  "presence_ok (s\<lparr>sw_participating := v6\<rparr>) = presence_ok s"
  "presence_ok (s\<lparr>sw_last_heartbeat := v7\<rparr>) = presence_ok s"
  "presence_ok (s\<lparr>sw_last_bootstrap_action := v8\<rparr>) = presence_ok s"
  "presence_ok (s\<lparr>sw_local_model_stage := v9\<rparr>) = presence_ok s"
  "presence_ok (s\<lparr>sw_next_local_model_action := v10\<rparr>) = presence_ok s"
  "presence_ok (s\<lparr>sw_application_ready := v11\<rparr>) = presence_ok s"
  "presence_ok (s\<lparr>sw_pending_events := v12\<rparr>) = presence_ok s"
  "presence_ok (s\<lparr>sw_pending_uuid := v13\<rparr>) = presence_ok s"
  "presence_ok (s\<lparr>sw_pending_address := v14\<rparr>) = presence_ok s"
  "presence_ok (s\<lparr>sw_remote_model_stage := v15\<rparr>) = presence_ok s"
  "presence_ok (s\<lparr>sw_remote_model_action_at := v16\<rparr>) = presence_ok s"
  "presence_ok (s\<lparr>sw_pending_until := v17\<rparr>) = presence_ok s"
  "presence_ok (s\<lparr>sw_last_scan_at := v18\<rparr>) = presence_ok s"
  "presence_ok (s\<lparr>sw_last_direct_attempt := v19\<rparr>) = presence_ok s"
  by (simp_all add: presence_ok_def presence_entry_ok_def presence_sorted_def peer_allowed_def)

lemma active_ok_frame [simp]:
  "active_ok (s\<lparr>sw_presence := v0\<rparr>) = active_ok s"
  "active_ok (s\<lparr>sw_active_since := v4\<rparr>) = active_ok s"
  "active_ok (s\<lparr>sw_swarm_id := v5\<rparr>) = active_ok s"
  "active_ok (s\<lparr>sw_participating := v6\<rparr>) = active_ok s"
  "active_ok (s\<lparr>sw_last_heartbeat := v7\<rparr>) = active_ok s"
  "active_ok (s\<lparr>sw_last_bootstrap_action := v8\<rparr>) = active_ok s"
  "active_ok (s\<lparr>sw_local_model_stage := v9\<rparr>) = active_ok s"
  "active_ok (s\<lparr>sw_next_local_model_action := v10\<rparr>) = active_ok s"
  "active_ok (s\<lparr>sw_application_ready := v11\<rparr>) = active_ok s"
  "active_ok (s\<lparr>sw_pending_events := v12\<rparr>) = active_ok s"
  "active_ok (s\<lparr>sw_pending_uuid := v13\<rparr>) = active_ok s"
  "active_ok (s\<lparr>sw_pending_address := v14\<rparr>) = active_ok s"
  "active_ok (s\<lparr>sw_remote_model_stage := v15\<rparr>) = active_ok s"
  "active_ok (s\<lparr>sw_remote_model_action_at := v16\<rparr>) = active_ok s"
  "active_ok (s\<lparr>sw_pending_until := v17\<rparr>) = active_ok s"
  "active_ok (s\<lparr>sw_last_scan_at := v18\<rparr>) = active_ok s"
  "active_ok (s\<lparr>sw_last_direct_attempt := v19\<rparr>) = active_ok s"
  by (simp_all add: active_ok_def member_name_def)

lemma model_ok_frame [simp]:
  "model_ok (s\<lparr>sw_presence := v0\<rparr>) = model_ok s"
  "model_ok (s\<lparr>sw_active_number := v1\<rparr>) = model_ok s"
  "model_ok (s\<lparr>sw_active_provisioner := v2\<rparr>) = model_ok s"
  "model_ok (s\<lparr>sw_local_is_active := v3\<rparr>) = model_ok s"
  "model_ok (s\<lparr>sw_active_since := v4\<rparr>) = model_ok s"
  "model_ok (s\<lparr>sw_swarm_id := v5\<rparr>) = model_ok s"
  "model_ok (s\<lparr>sw_participating := v6\<rparr>) = model_ok s"
  "model_ok (s\<lparr>sw_last_heartbeat := v7\<rparr>) = model_ok s"
  "model_ok (s\<lparr>sw_last_bootstrap_action := v8\<rparr>) = model_ok s"
  "model_ok (s\<lparr>sw_next_local_model_action := v10\<rparr>) = model_ok s"
  "model_ok (s\<lparr>sw_pending_events := v12\<rparr>) = model_ok s"
  "model_ok (s\<lparr>sw_pending_uuid := v13\<rparr>) = model_ok s"
  "model_ok (s\<lparr>sw_pending_address := v14\<rparr>) = model_ok s"
  "model_ok (s\<lparr>sw_remote_model_action_at := v16\<rparr>) = model_ok s"
  "model_ok (s\<lparr>sw_pending_until := v17\<rparr>) = model_ok s"
  "model_ok (s\<lparr>sw_last_scan_at := v18\<rparr>) = model_ok s"
  "model_ok (s\<lparr>sw_last_direct_attempt := v19\<rparr>) = model_ok s"
  by (simp_all add: model_ok_def)

lemma pending_ok_frame [simp]:
  "pending_ok (s\<lparr>sw_presence := v0\<rparr>) = pending_ok s"
  "pending_ok (s\<lparr>sw_active_number := v1\<rparr>) = pending_ok s"
  "pending_ok (s\<lparr>sw_active_provisioner := v2\<rparr>) = pending_ok s"
  "pending_ok (s\<lparr>sw_local_is_active := v3\<rparr>) = pending_ok s"
  "pending_ok (s\<lparr>sw_active_since := v4\<rparr>) = pending_ok s"
  "pending_ok (s\<lparr>sw_swarm_id := v5\<rparr>) = pending_ok s"
  "pending_ok (s\<lparr>sw_participating := v6\<rparr>) = pending_ok s"
  "pending_ok (s\<lparr>sw_last_heartbeat := v7\<rparr>) = pending_ok s"
  "pending_ok (s\<lparr>sw_last_bootstrap_action := v8\<rparr>) = pending_ok s"
  "pending_ok (s\<lparr>sw_local_model_stage := v9\<rparr>) = pending_ok s"
  "pending_ok (s\<lparr>sw_next_local_model_action := v10\<rparr>) = pending_ok s"
  "pending_ok (s\<lparr>sw_application_ready := v11\<rparr>) = pending_ok s"
  "pending_ok (s\<lparr>sw_pending_events := v12\<rparr>) = pending_ok s"
  "pending_ok (s\<lparr>sw_remote_model_stage := v15\<rparr>) = pending_ok s"
  "pending_ok (s\<lparr>sw_remote_model_action_at := v16\<rparr>) = pending_ok s"
  "pending_ok (s\<lparr>sw_pending_until := v17\<rparr>) = pending_ok s"
  "pending_ok (s\<lparr>sw_last_scan_at := v18\<rparr>) = pending_ok s"
  "pending_ok (s\<lparr>sw_last_direct_attempt := v19\<rparr>) = pending_ok s"
  by (simp_all add: pending_ok_def pending_for_def peer_allowed_def)

lemma swarm_inv_irrelevant [simp]:
  "swarm_inv (s\<lparr>sw_last_heartbeat := t\<rparr>) = swarm_inv s"
  "swarm_inv (s\<lparr>sw_next_local_model_action := t\<rparr>) = swarm_inv s"
  "swarm_inv (s\<lparr>sw_last_bootstrap_action := t\<rparr>) = swarm_inv s"
  "swarm_inv (s\<lparr>sw_remote_model_action_at := t\<rparr>) = swarm_inv s"
  "swarm_inv (s\<lparr>sw_pending_until := t\<rparr>) = swarm_inv s"
  "swarm_inv (s\<lparr>sw_last_scan_at := t\<rparr>) = swarm_inv s"
  "swarm_inv (s\<lparr>sw_last_direct_attempt := f\<rparr>) = swarm_inv s"
  "swarm_inv (s\<lparr>sw_swarm_id := i\<rparr>) = swarm_inv s"
  "swarm_inv (s\<lparr>sw_participating := b\<rparr>) = swarm_inv s"
  by (simp_all add: swarm_inv_def)

lemma swarm_inv_stage:
  "swarm_inv s \<Longrightarrow> \<not> sw_application_ready s \<Longrightarrow> k \<le> 3 \<Longrightarrow> swarm_inv (s\<lparr>sw_local_model_stage := k\<rparr>)"
  "swarm_inv s \<Longrightarrow> sw_local_model_stage s = 3 \<Longrightarrow> swarm_inv (s\<lparr>sw_application_ready := True\<rparr>)"
  "swarm_inv s \<Longrightarrow> swarm_inv (s\<lparr>sw_application_ready := False\<rparr>)"
  "swarm_inv s \<Longrightarrow> k \<le> 2 \<Longrightarrow> swarm_inv (s\<lparr>sw_remote_model_stage := k\<rparr>)"
  "swarm_inv s \<Longrightarrow> swarm_inv (s\<lparr>sw_pending_events := []\<rparr>)"
  by (simp_all add: swarm_inv_def) (simp_all add: model_ok_def)

lemma swarm_inv_put:
  assumes "swarm_inv s" and "unat src \<noteq> 0" and "unat src \<noteq> sw_local_number s"
    and "peer_allowed s (unat src)" and "i \<noteq> 0"
  shows "swarm_inv (s\<lparr>sw_presence := ordered_put (unat src)
    \<lparr>pp_source = src, pp_swarm_id = i, pp_participating = b, pp_expires = t\<rparr> (sw_presence s)\<rparr>)"
proof -
  let ?p = "\<lparr>pp_source = src, pp_swarm_id = i, pp_participating = b, pp_expires = t\<rparr>"
  let ?m = "ordered_put (unat src) ?p (sw_presence s)"
  have pr: "presence_ok s" using assms(1) by (simp add: swarm_inv_def)
  have "sorted_wrt (<) (map fst ?m)"
    using pr by (intro sorted_ordered_put) (simp add: presence_ok_def presence_sorted_def)
  moreover have "presence_entry_ok s x" if "x \<in> set ?m" for x
    using that set_ordered_put [of "unat src" ?p "sw_presence s"] assms pr
    by (auto simp: presence_ok_def presence_entry_ok_def)
  moreover have "presence_entry_ok (s\<lparr>sw_presence := ?m\<rparr>) = presence_entry_ok s"
    by (simp add: presence_entry_ok_def peer_allowed_def fun_eq_iff)
  ultimately have "presence_ok (s\<lparr>sw_presence := ?m\<rparr>)"
    by (simp add: presence_ok_def presence_sorted_def)
  with assms(1) show ?thesis by (simp add: swarm_inv_def)
qed

section \<open>Construction\<close>

lemma uav_number_range: "uav_number h = Inr n \<Longrightarrow> 1 \<le> n \<and> n \<le> 0xffff"
  by (auto simp: uav_number_def Let_def split: if_splits sum.splits)

lemma add_members_ok:
  assumes "add_members ms (m, ps) = Inr (m', ps')" and "distinct ps"
    and "\<forall>n. (\<exists>name. m n = Some name) \<longleftrightarrow> n \<in> set ps"
    and "\<forall>n\<in>set ps. \<exists>name. m n = Some name \<and> uav_number name = Inr n"
  shows "distinct ps' \<and> (\<forall>n\<in>set ps'. \<exists>name. m' n = Some name \<and> uav_number name = Inr n)"
  using assms
proof (induction ms arbitrary: m ps)
  case (Cons raw ms)
  from Cons.prems(1) obtain n where n: "uav_number (lower_trim_copy raw) = Inr n" "m n = None"
    and r: "add_members ms (m(n \<mapsto> lower_trim_copy raw), ps @ [n]) = Inr (m', ps')"
    by (auto simp: Let_def split: sum.splits if_splits)
  have "n \<notin> set ps" using Cons.prems(3) n(2) by (metis option.distinct(1))
  with Cons.IH [OF r] Cons.prems n show ?case by auto
qed simp

lemma swarm_inv_load: "swarm_inv s \<Longrightarrow> swarm_inv (load_swarm_state files s)"
  by (auto simp: load_swarm_state_def split: option.splits)

lemma initial_swarm_inv:
  assumes "1 \<le> l" and "l \<le> 0xffff" and "distinct ps"
    and "\<forall>n\<in>set ps. \<exists>name. m n = Some name \<and> uav_number name = Inr n"
  shows "swarm_inv (initial_swarm config host pref l m ps p now)"
  using assms fingerprint_bound(1)
  by (simp add: initial_swarm_def Let_def swarm_inv_def part_defs del: if_split)

lemma new_swarm_inv:
  assumes "new_swarm files config host now = Inr s"
  shows "swarm_inv s"
proof -
  obtain l m ps p where l: "uav_number (lower_trim_copy host) = Inr l"
    and m: "add_members (peer_whitelist config) (Map.empty, []) = Inr (m, ps)"
    and s: "s = load_swarm_state files (initial_swarm config (lower_trim_copy host)
        (lower_trim_copy (mesh_provisioner_preference config)) l m ps p now)"
    using assms by (auto simp: new_swarm_def Let_def split: sum.splits prod.splits)
  have "distinct ps \<and> (\<forall>n\<in>set ps. \<exists>name. m n = Some name \<and> uav_number name = Inr n)"
    using add_members_ok [OF m] by simp
  then show ?thesis
    unfolding s using uav_number_range [OF l] by (intro swarm_inv_load initial_swarm_inv) simp_all
qed

section \<open>Operations\<close>

lemma inv_handle_event: "swarm_inv s \<Longrightarrow> swarm_inv (handle_event e s)"
  by (simp add: handle_event_def swarm_inv_def)

lemma inv_membership:
  "swarm_inv s \<Longrightarrow> swarm_inv (fst (snd (join_swarm files i s)))"
  "swarm_inv s \<Longrightarrow> swarm_inv (fst (snd (leave_swarm files s)))"
  by (simp_all add: join_swarm_def leave_swarm_def split: prod.split option.split)

lemma inv_payload:
  assumes "swarm_inv s"
  shows "swarm_inv (fst (accepts_swarm_payload now src i s))"
proof (cases "src = 0 \<or> unat src = sw_local_number s \<or> i = 0 \<or> \<not> peer_allowed s (unat src) \<or>
    \<not> sw_participating s \<or> i \<noteq> sw_swarm_id s")
  case True
  with assms show ?thesis by (auto simp: accepts_swarm_payload_def)
next
  case False
  then have "swarm_inv (s\<lparr>sw_presence := ordered_put (unat src)
      \<lparr>pp_source = src, pp_swarm_id = i, pp_participating = True,
       pp_expires = now + provisioner_lease s\<rparr> (sw_presence s)\<rparr>)"
    by (intro swarm_inv_put [OF assms]) (auto simp: unat_eq_0)
  with False show ?thesis by (auto simp: accepts_swarm_payload_def)
qed

lemma inv_message:
  assumes "swarm_inv s"
  shows "swarm_inv (fst (handle_message now msg s))"
proof -
  have "swarm_inv (accept_coordination_frame frame src now s)" for frame src
    unfolding accept_coordination_frame_def Let_def
    using assms by (auto intro!: swarm_inv_put)
  with assms show ?thesis by (simp add: handle_message_def Let_def)
qed

lemma inv_update_selection:
  assumes "swarm_inv s"
  shows "swarm_inv (update_selection now s)"
proof -
  let ?m = "filter (\<lambda>x. \<not> pp_expires (snd x) \<le> now) (sw_presence s)"
  have f: "swarm_inv (s\<lparr>sw_presence := ?m\<rparr>)"
    using assms
    by (simp add: swarm_inv_def) (auto simp: part_defs sorted_wrt_map sorted_wrt_filter)
  have a: "swarm_inv (t\<lparr>sw_active_number := n, sw_active_provisioner := member_name t n,
      sw_local_is_active := (n = sw_local_number t), sw_active_since := now\<rparr>)" if "swarm_inv t" for t n
    using that by (simp add: swarm_inv_def) (simp add: active_ok_def member_name_def)
  from f a [OF f, of "select_number (s\<lparr>sw_presence := ?m\<rparr>)"] show ?thesis
    by (simp add: update_selection_def Let_def)
qed

lemma inv_heartbeat: "swarm_inv s \<Longrightarrow> swarm_inv (fst (publish_coordination_heartbeat env now s))"
  by (simp add: publish_coordination_heartbeat_def Let_def)

lemma inv_local_model:
  assumes "swarm_inv s"
  shows "swarm_inv (fst (maintain_local_model env status now s))"
proof -
  have "sw_local_model_stage s \<le> 3" using assms by (simp add: swarm_inv_def model_ok_def)
  then have "sw_local_model_stage s \<in> {0, 1, 2, 3}" by auto
  with assms show ?thesis
    by (auto simp: maintain_local_model_def Let_def intro!: swarm_inv_stage
        split: sum.split bool.split option.split)
qed

section \<open>Enrollment\<close>

lemma mesh_uuid_of_member:
  assumes "uav_number name = Inr n" and "mesh_auto_uuid_from_name name = Inr u"
  shows "length u = 16" "mesh_auto_uuid_number u = of_nat n" "1 \<le> n" "n \<le> 0x7fff"
proof -
  have n: "digits_value (number_suffix name) = n"
    using assms(1) by (auto simp: uav_number_def stoul_digits_def number_suffix_def Let_def split: if_splits)
  obtain w where "length w = 16"
    and w: "digits_value (number_suffix name) \<le> 0x7fff \<longrightarrow> 1 \<le> digits_value (number_suffix name) \<longrightarrow>
        mesh_auto_uuid_number w = of_nat (digits_value (number_suffix name))"
    and v: "\<And>v. mesh_auto_uuid_from_name name = Inr v \<longleftrightarrow>
        number_suffix name \<noteq> [] \<and> 1 \<le> digits_value (number_suffix name) \<and>
        digits_value (number_suffix name) \<le> 0x7fff \<and> v = w"
    using mesh_auto_uuid_cases [of name] by blast
  have "1 \<le> n \<and> n \<le> 0x7fff \<and> u = w" using v [of u] assms(2) n by simp
  then show "length u = 16" "mesh_auto_uuid_number u = of_nat n" "1 \<le> n" "n \<le> 0x7fff"
    using w n \<open>length w = 16\<close> by simp_all
qed

text \<open>What enrollment never changes, and what each \<open>AddNode\<close> call is for.\<close>

definition stable :: "swarm \<Rightarrow> swarm \<Rightarrow> bool" where
  "stable s s' \<longleftrightarrow> sw_config s' = sw_config s \<and> sw_local_number s' = sw_local_number s \<and>
     sw_member_by_number s' = sw_member_by_number s \<and>
     sw_member_priority s' = sw_member_priority s \<and> sw_presence s' = sw_presence s \<and>
     sw_local_is_active s' = sw_local_is_active s \<and> sw_application_ready s' = sw_application_ready s"

definition absent_member :: "swarm \<Rightarrow> u8 list \<Rightarrow> bool" where
  "absent_member s u \<longleftrightarrow> pending_for s u \<and> map_of (sw_presence s) (unat (mesh_auto_uuid_number u)) = None"

lemma stable_refl [simp]: "stable s s"
  by (simp add: stable_def)

lemma stable_trans: "stable s t \<Longrightarrow> stable t u \<Longrightarrow> stable s u"
  by (simp add: stable_def)

lemma stable_absent: "stable s s' \<Longrightarrow> absent_member s' u = absent_member s u"
  by (simp add: stable_def absent_member_def pending_for_def peer_allowed_def)

text \<open>The contract of an enrollment step: the invariant is kept, only absent members are
  provisioned, none while another one is pending, and after a provisioning call either it is
  pending or the call failed.\<close>

definition enrolls :: "swarm \<Rightarrow> swarm \<Rightarrow> mesh_call list \<Rightarrow> bool" where
  "enrolls s s' calls \<longleftrightarrow> swarm_inv s' \<and> stable s s' \<and>
     (\<forall>u. Add_node u \<in> set calls \<longrightarrow> absent_member s u \<and>
        (\<exists>before after. calls = before @ [Set_auto_provisioning_unicast (mesh_auto_uuid_number u), Add_node u] @ after))"

lemma enrolls_none: "swarm_inv s' \<Longrightarrow> stable s s' \<Longrightarrow> (\<And>u. Add_node u \<notin> set calls) \<Longrightarrow> enrolls s s' calls"
  by (simp add: enrolls_def)

lemma enrolls_append:
  assumes "enrolls s t c" and "enrolls t u d"
  shows "enrolls s u (c @ d)"
proof -
  have st: "stable s t" "stable t u" using assms by (simp_all add: enrolls_def)
  show ?thesis
    unfolding enrolls_def
  proof (intro conjI allI impI)
    show "swarm_inv u" "stable s u" using assms(2) stable_trans [OF st] by (simp_all add: enrolls_def)
    fix v
    assume v: "Add_node v \<in> set (c @ d)"
    show "absent_member s v"
      using v assms stable_absent [OF st(1)] by (auto simp: enrolls_def)
    from v have "Add_node v \<in> set c \<or> Add_node v \<in> set d" by simp
    then show "\<exists>before after. c @ d = before @ [Set_auto_provisioning_unicast (mesh_auto_uuid_number v), Add_node v] @ after"
    proof
      assume "Add_node v \<in> set c"
      with assms(1) obtain b a where "c = b @ [Set_auto_provisioning_unicast (mesh_auto_uuid_number v), Add_node v] @ a"
        unfolding enrolls_def by blast
      then have "c @ d = b @ [Set_auto_provisioning_unicast (mesh_auto_uuid_number v), Add_node v] @ (a @ d)" by simp
      then show ?thesis by blast
    next
      assume "Add_node v \<in> set d"
      with assms(2) obtain b a where "d = b @ [Set_auto_provisioning_unicast (mesh_auto_uuid_number v), Add_node v] @ a"
        unfolding enrolls_def by blast
      then have "c @ d = (c @ b) @ [Set_auto_provisioning_unicast (mesh_auto_uuid_number v), Add_node v] @ a" by simp
      then show ?thesis by blast
    qed
  qed
qed

lemma swarm_inv_clear [simp]: "swarm_inv s \<Longrightarrow> swarm_inv (clear_pending s)"
  by (simp add: swarm_inv_def clear_pending_def) (simp add: pending_ok_def)

lemma stable_clear [simp]: "stable s (clear_pending s)"
  by (simp add: stable_def clear_pending_def)

lemma swarm_inv_begin:
  assumes "swarm_inv s" and "pending_for s u"
  shows "swarm_inv (begin_provisioning u (mesh_auto_uuid_number u) now s)"
proof -
  have "length (mesh_bytes_to_hex u) = 32"
    using assms(2) hex_text(1) [of u] by (simp add: mesh_bytes_to_hex_def pending_for_def)
  then have "mesh_bytes_to_hex u \<noteq> []" by force
  then have "pending_ok (begin_provisioning u (mesh_auto_uuid_number u) now s)"
    using assms(2) by (auto simp: pending_ok_def begin_provisioning_def pending_for_def peer_allowed_def)
  with assms(1) show ?thesis by (simp add: swarm_inv_def begin_provisioning_def)
qed

lemma start_provisioning_calls:
  "start_provisioning env u n = (calls, started) \<Longrightarrow>
     calls = [Set_auto_provisioning_unicast n] \<or> calls = [Set_auto_provisioning_unicast n, Add_node u]"
  by (auto simp: start_provisioning_def split: option.splits)

lemma enrolls_start:
  assumes "swarm_inv s" and "absent_member s u"
    and "start_provisioning env u (mesh_auto_uuid_number u) = (calls, started)"
  shows "enrolls s (if started then begin_provisioning u (mesh_auto_uuid_number u) now s else s) calls"
proof -
  let ?s' = "if started then begin_provisioning u (mesh_auto_uuid_number u) now s else s"
  have "swarm_inv (begin_provisioning u (mesh_auto_uuid_number u) now s)"
    using assms(1,2) by (intro swarm_inv_begin) (simp_all add: absent_member_def)
  with assms(1) have i: "swarm_inv ?s'" by simp
  have st: "stable s ?s'" by (simp add: stable_def begin_provisioning_def)
  have c: "v = u \<and> calls = [] @ [Set_auto_provisioning_unicast (mesh_auto_uuid_number u), Add_node u] @ []"
    if "Add_node v \<in> set calls" for v
    using start_provisioning_calls [OF assms(3)] that by auto
  show ?thesis
    unfolding enrolls_def using i st c assms(2) by blast
qed

lemma event_enrolls:
  assumes "swarm_inv s" and "handle_enrollment_event env now e s = (s', calls, r)"
  shows "enrolls s s' calls"
proof -
  have keep: "enrolls s t []" if "swarm_inv t" "stable s t" for t
    using that by (simp add: enrolls_def)
  let ?u = "take 16 (me_data e)" and ?n = "mesh_auto_uuid_number (take 16 (me_data e))"
  consider (failed) "me_event e = ''add_node_failed'' \<and> me_uuid e = sw_pending_uuid s"
    | (complete) "me_event e = ''add_node_complete'' \<and> me_uuid e = sw_pending_uuid s"
    | (other) "\<not> (me_event e = ''add_node_failed'' \<and> me_uuid e = sw_pending_uuid s)"
        "\<not> (me_event e = ''add_node_complete'' \<and> me_uuid e = sw_pending_uuid s)"
    by blast
  then show ?thesis
  proof cases
    case failed
    with assms show ?thesis
      by (auto simp: handle_enrollment_event_def stable_def clear_pending_def
          intro!: keep swarm_inv_stage swarm_inv_clear [unfolded clear_pending_def])
  next
    case complete
    with assms show ?thesis
      by (auto simp: handle_enrollment_event_def stable_def clear_pending_def split: if_splits
          intro!: keep swarm_inv_stage swarm_inv_clear [unfolded clear_pending_def])
  next
    case other
    note def = assms(2) [unfolded handle_enrollment_event_def Let_def]
    have "(s' = s \<and> calls = []) \<or>
      (absent_member s ?u \<and>
       (\<exists>started. start_provisioning env ?u ?n = (calls, started) \<and>
          s' = (if started then begin_provisioning ?u ?n now s else s)))"
      using def other
      by (auto simp: absent_member_def pending_for_def min_absorb2 split: if_split_asm sum.split_asm prod.split_asm)
    then show ?thesis using assms(1) keep [of s] enrolls_start by auto
  qed
qed

lemma events_enroll:
  "swarm_inv s \<Longrightarrow> handle_enrollment_events env now es s = (s', calls, r) \<Longrightarrow> enrolls s s' calls"
proof (induction es arbitrary: s calls)
  case Nil
  then show ?case by (simp add: enrolls_def)
next
  case (Cons e es)
  obtain t c r1 where e: "handle_enrollment_event env now e s = (t, c, r1)" by (metis prod_cases3)
  have ht: "enrolls s t c" by (rule event_enrolls [OF Cons.prems(1) e])
  show ?case
  proof (cases r1)
    case (Some error)
    with Cons.prems(2) e ht show ?thesis by simp
  next
    case None
    obtain d where d: "handle_enrollment_events env now es t = (s', d, r)" "calls = c @ d"
      using Cons.prems(2) e None by (auto split: prod.splits)
    have "swarm_inv t" using ht by (simp add: enrolls_def)
    with Cons.IH [OF _ d(1)] ht show ?thesis unfolding d(2) by (intro enrolls_append)
  qed
qed

lemma enrolls_expire: "swarm_inv s \<Longrightarrow> enrolls s (expire_pending now s) []"
  by (auto simp: expire_pending_def enrolls_def stable_def clear_pending_def
      intro!: swarm_inv_clear [unfolded clear_pending_def])

lemma enrolls_remote:
  assumes "swarm_inv s"
  shows "enrolls s (fst (remote_model_setup env now s)) (snd (remote_model_setup env now s))"
proof (rule enrolls_none)
  show "swarm_inv (fst (remote_model_setup env now s))"
    using assms by (auto simp: remote_model_setup_def Let_def intro!: swarm_inv_stage split: option.split)
  show "stable s (fst (remote_model_setup env now s))"
    by (simp add: remote_model_setup_def Let_def stable_def clear_pending_def split: option.split)
  show "Add_node u \<notin> set (snd (remote_model_setup env now s))" for u
    by (simp add: remote_model_setup_def Let_def split: option.split)
qed

lemma search_member:
  assumes "swarm_inv s" and "n \<in> set (sw_member_priority s)" and "n \<noteq> sw_local_number s"
    and "map_of (sw_presence s) n = None" and "mesh_auto_uuid_from_name (member_name s n) = Inr u"
  shows "absent_member s u" "mesh_auto_uuid_number u = of_nat n"
proof -
  from assms(1,2) obtain name where m: "sw_member_by_number s n = Some name" "uav_number name = Inr n"
    unfolding swarm_inv_def policy_ok_def by blast
  have "mesh_auto_uuid_from_name name = Inr u" using assms(5) m(1) by (simp add: member_name_def)
  note u = mesh_uuid_of_member [OF m(2) this]
  have n: "unat (of_nat n :: u16) = n" using u(4) by (simp add: unat_of_nat)
  then have "(of_nat n :: u16) \<noteq> 0" using u(3) by (metis One_nat_def not_one_le_zero unat_0)
  then show "absent_member s u" "mesh_auto_uuid_number u = of_nat n"
    using assms(3,4) u m(1) n by (simp_all add: absent_member_def pending_for_def peer_allowed_def)
qed

lemma enrolls_call: "enrolls s s' calls \<Longrightarrow> (\<And>u. c \<noteq> Add_node u) \<Longrightarrow> enrolls s s' (c # calls)"
  using enrolls_append [of s s "[c]" s' calls] enrolls_none [of s s "[c]"]
  by (auto simp: enrolls_def)
     (metis Cons_eq_appendI)

lemma search_enrolls:
  assumes "swarm_inv s" and "set ns \<subseteq> set (sw_member_priority s)"
    and "search_absent env now ns s = (s', calls)"
  shows "enrolls s s' calls"
  using assms
proof (induction ns arbitrary: s calls)
  case Nil
  then show ?case by (simp add: enrolls_def)
next
  case (Cons n ns)
  show ?case
  proof (cases "n = sw_local_number s \<or> map_of (sw_presence s) n \<noteq> None")
    case True
    with Cons show ?thesis by simp
  next
    case absent: False
    define previous where "previous = (case sw_last_direct_attempt s n of None \<Rightarrow> 0 | Some t \<Rightarrow> t)"
    define t where "t v = s\<lparr>sw_last_direct_attempt := (sw_last_direct_attempt s)(n \<mapsto> v)\<rparr>" for v
    have inv: "swarm_inv (t v)" and pri: "sw_member_priority (t v) = sw_member_priority s" for v
      using Cons.prems(1) by (simp_all add: t_def)
    have touch: "enrolls s (t v) []" for v
      using inv by (simp add: enrolls_def stable_def t_def)
    have from_t: "enrolls s s' c" if "enrolls (t v) s' c" for v c
      using enrolls_append [OF touch that] by simp
    have sub: "set ns \<subseteq> set (sw_member_priority (t v))" for v
      using Cons.prems(2) by (simp add: pri)
    note IH = Cons.IH [OF inv sub]
    have unfolded: "search_absent env now (n # ns) s =
        (if previous \<noteq> 0 \<and> now - previous < secs 55 then search_absent env now ns s
         else case ap_export_device_keys env of
                Inl error \<Rightarrow> (t now, [Export_device_keys])
              | Inr known_nodes \<Rightarrow>
                  if list_ex (\<lambda>unicast. unat unicast = n) known_nodes
                  then (case search_absent env now ns (t now) of (s, calls) \<Rightarrow> (s, Export_device_keys # calls))
                  else (case mesh_auto_uuid_from_name (member_name (t now) n) of
                          Inl error \<Rightarrow> (t now, [Export_device_keys])
                        | Inr uuid \<Rightarrow>
                            (case start_provisioning env uuid (of_nat n) of
                               (calls, started) \<Rightarrow>
                                 (if started then begin_provisioning uuid (of_nat n) now (t now) else t now,
                                  Export_device_keys # calls))))"
      using absent unfolding previous_def t_def by (simp add: Let_def)
    note run = Cons.prems(3) [unfolded unfolded]
    show ?thesis
    proof (cases "previous \<noteq> 0 \<and> now - previous < secs 55")
      case True
      with run Cons.IH [OF Cons.prems(1)] Cons.prems(2) show ?thesis by simp
    next
      case False
      note run = run [unfolded if_not_P [OF False]]
      show ?thesis
      proof (cases "ap_export_device_keys env")
        case (Inl error)
        with run have "s' = t now" "calls = [Export_device_keys]" by auto
        then show ?thesis using enrolls_call [OF touch] by simp
      next
        case (Inr nodes)
        note run = run [unfolded Inr sum.case]
        show ?thesis
        proof (cases "list_ex (\<lambda>unicast. unat unicast = n) nodes")
          case True
          then obtain c where c: "search_absent env now ns (t now) = (s', c)" "calls = Export_device_keys # c"
            using run by (auto split: prod.splits)
          show ?thesis unfolding c(2) by (rule enrolls_call [OF from_t [OF IH [OF c(1)]]]) simp
        next
          case unknown: False
          show ?thesis
          proof (cases "mesh_auto_uuid_from_name (member_name (t now) n)")
            case (Inl error)
            with run unknown have "s' = t now" "calls = [Export_device_keys]" by auto
            then show ?thesis using enrolls_call [OF touch] by simp
          next
            case (Inr u)
            have m: "n \<in> set (sw_member_priority (t now))" "n \<noteq> sw_local_number (t now)"
              "map_of (sw_presence (t now)) n = None"
              using Cons.prems(2) absent by (auto simp: t_def)
            note a = search_member [OF inv m Inr]
            obtain c st where c: "start_provisioning env u (mesh_auto_uuid_number u) = (c, st)"
              by (meson surj_pair)
            have e: "s' = (if st then begin_provisioning u (mesh_auto_uuid_number u) now (t now) else t now)"
              "calls = Export_device_keys # c"
              using run unknown Inr c by (auto simp: a(2))
            have "enrolls (t now) s' c" unfolding e(1) by (rule enrolls_start [OF inv a(1) c])
            then show ?thesis unfolding e(2) by (intro enrolls_call [OF from_t]) simp_all
          qed
        qed
      qed
    qed
  qed
qed

lemma enrollment_enrolls:
  assumes "swarm_inv s" and "maintain_auto_enrollment env status now s = (s', calls, r)"
  shows "enrolls s s' calls"
proof (cases "mt_attached status \<and> sw_application_ready s")
  case False
  with assms show ?thesis by (auto simp: maintain_auto_enrollment_def enrolls_def)
next
  case True
  let ?s0 = "s\<lparr>sw_pending_events := []\<rparr>"
  have 0: "enrolls s ?s0 []"
    using assms(1) by (simp add: enrolls_def stable_def swarm_inv_stage)
  have i0: "swarm_inv ?s0" using assms(1) by (rule swarm_inv_stage)
  obtain s1 c1 r1 where e1: "handle_enrollment_events env now (sw_pending_events s) ?s0 = (s1, c1, r1)"
    by (metis prod_cases3)
  have 1: "enrolls s s1 c1" using enrolls_append [OF 0 events_enroll [OF i0 e1]] by simp
  show ?thesis
  proof (cases r1)
    case (Some error)
    with True e1 assms(2) 1 show ?thesis by (simp add: maintain_auto_enrollment_def)
  next
    case None
    let ?x = "expire_pending now s1"
    have "enrolls s1 ?x []" using 1 by (intro enrolls_expire) (simp add: enrolls_def)
    moreover obtain s2 c2 where e2: "remote_model_setup env now ?x = (s2, c2)" by (meson surj_pair)
    moreover have "enrolls ?x s2 c2"
      using enrolls_remote [of ?x env now] calculation by (simp add: enrolls_def)
    ultimately have 2: "enrolls s s2 (c1 @ c2)"
      using enrolls_append [OF 1] enrolls_append [of s1 ?x "[]" s2 c2] by simp
    show ?thesis
    proof (cases "sw_pending_uuid s2 = []")
      case False
      with True e1 e2 None assms(2) 2 show ?thesis by (simp add: maintain_auto_enrollment_def)
    next
      case p: True
      obtain s3 c3 where e3: "search_absent env now (sw_member_priority s2) s2 = (s3, c3)"
        by (meson surj_pair)
      have "enrolls s2 s3 c3"
        using 2 by (intro search_enrolls [OF _ _ e3]) (simp_all add: enrolls_def)
      from enrolls_append [OF 2 this] True p e1 e2 e3 None assms(2) show ?thesis
        by (simp add: maintain_auto_enrollment_def)
    qed
  qed
qed

section \<open>Maintenance and the system\<close>

lemma inv_bootstrap: "swarm_inv s \<Longrightarrow> swarm_inv (fst (bootstrap env status now s))"
  by (simp add: bootstrap_def import_identity_def Let_def split: option.split)

lemma maintain_attached:
  assumes "mt_attached status" and "maintain env status now s = (s', calls, r)"
  shows "(s' = s \<and> calls = [] \<and> r \<noteq> None) \<or>
    (\<exists>s1 model s2 beat e. s1 = (if mesh_swarm_startup_grace (sw_config s) \<le>
          ticks_to_seconds (now - sw_bootstrap_started_at s) then update_selection now s else s) \<and>
       maintain_local_model env status now s1 = (s2, model) \<and>
       ((\<exists>error. publish_coordination_heartbeat env now s2 = (s', beat, Some error) \<and> calls = model @ beat) \<or>
        (\<exists>s3. publish_coordination_heartbeat env now s2 = (s3, beat, None) \<and>
           maintain_auto_enrollment env status now s3 = (s', e, r) \<and> calls = model @ beat @ e)))"
  using assms
  by (auto simp: maintain_def Let_def split: if_splits prod.splits option.splits)

lemma inv_maintain:
  assumes "swarm_inv s"
  shows "swarm_inv (fst (maintain env status now s))"
proof (cases "mt_attached status")
  case False
  let ?s = "s\<lparr>sw_application_ready := False, sw_local_model_stage := 0, sw_next_local_model_action := 0\<rparr>"
  have "swarm_inv ?s" using swarm_inv_stage(1) [OF swarm_inv_stage(3) [OF assms]] by simp
  with False show ?thesis using inv_bootstrap [of ?s] by (simp add: maintain_def Let_def)
next
  case True
  obtain s' calls r where m: "maintain env status now s = (s', calls, r)" by (metis prod_cases3)
  have u: "swarm_inv (if mesh_swarm_startup_grace (sw_config s) \<le>
      ticks_to_seconds (now - sw_bootstrap_started_at s) then update_selection now s else s)"
    using assms inv_update_selection by simp
  from maintain_attached [OF True m] show ?thesis
  proof (elim disjE exE conjE)
    assume "s' = s"
    with assms m show ?thesis by simp
  next
    fix s1 model s2 beat e error
    assume "s1 = (if mesh_swarm_startup_grace (sw_config s) \<le>
      ticks_to_seconds (now - sw_bootstrap_started_at s) then update_selection now s else s)"
      "maintain_local_model env status now s1 = (s2, model)"
      "publish_coordination_heartbeat env now s2 = (s', beat, Some error)"
    with u inv_local_model [of s1 env status now] inv_heartbeat [of s2 env now] m show ?thesis by simp
  next
    fix s1 model s2 beat e s3
    assume "s1 = (if mesh_swarm_startup_grace (sw_config s) \<le>
      ticks_to_seconds (now - sw_bootstrap_started_at s) then update_selection now s else s)"
      "maintain_local_model env status now s1 = (s2, model)"
      "publish_coordination_heartbeat env now s2 = (s3, beat, None)"
      and e: "maintain_auto_enrollment env status now s3 = (s', e, r)"
    then have "swarm_inv s3"
      using u inv_local_model [of s1 env status now] inv_heartbeat [of s2 env now] by simp
    from enrollment_enrolls [OF this e] m show ?thesis by (simp add: enrolls_def)
  qed
qed

datatype swarm_event =
    Provisioning_event mesh_event
  | Join_swarm swarm_files u16
  | Leave_swarm swarm_files
  | Swarm_payload ticks u16 u16
  | Swarm_message ticks received_message
  | Maintain mesh_env mesh_status ticks

fun swarm_step :: "swarm_event \<Rightarrow> swarm \<Rightarrow> swarm" where
  "swarm_step (Provisioning_event e) s = handle_event e s"
| "swarm_step (Join_swarm files i) s = fst (snd (join_swarm files i s))"
| "swarm_step (Leave_swarm files) s = fst (snd (leave_swarm files s))"
| "swarm_step (Swarm_payload now source i) s = fst (accepts_swarm_payload now source i s)"
| "swarm_step (Swarm_message now message) s = fst (handle_message now message s)"
| "swarm_step (Maintain env status now) s = fst (maintain env status now s)"

lemma swarm_step_inv: "swarm_inv s \<Longrightarrow> swarm_inv (swarm_step e s)"
  by (cases e)
     (simp_all add: inv_handle_event inv_membership inv_payload inv_message inv_maintain)

text \<open>The system starts with the constructor, which may throw; then nothing can happen.\<close>

definition constructed :: "swarm_files \<Rightarrow> node_config \<Rightarrow> string \<Rightarrow> ticks \<Rightarrow> swarm option" where
  "constructed files config host now =
     (case new_swarm files config host now of Inl error \<Rightarrow> None | Inr s \<Rightarrow> Some s)"

interpretation coordinator: invariant_machine "constructed files config host now"
  "\<lambda>e. map_option (swarm_step e)" "\<lambda>e. True" "pred_option swarm_inv"
  by unfold_locales
     (auto simp: constructed_def new_swarm_inv swarm_step_inv pred_option_def split: sum.split)

lemma coordinator_run:
  assumes "new_swarm files config host now = Inr s0"
  shows "swarm_inv (fold swarm_step es s0)"
proof -
  have "fold (\<lambda>e. map_option (swarm_step e)) es (Some s) = Some (fold swarm_step es s)" for s
    by (induction es arbitrary: s) simp_all
  moreover have "constructed files config host now = Some s0"
    by (simp add: constructed_def assms)
  ultimately show ?thesis
    using coordinator.inv_run [where es = es and files = files and config = config and host = host and now = now]
    by (simp add: list_all_iff)
qed

text \<open>C4: what every coordinator knows is sound. In every run after a successful construction the
  lease table is sorted and holds only admitted, non-local, nonzero senders under their own
  address; the node considers itself active exactly when it is the elected number, the
  published name is that member's; the application is ready only after the last configuration
  stage; the event queue holds at most 128 events; and a pending provisioning is for an
  admitted remote number together with a device UUID that carries this number.\<close>

theorem coordinator_run_inv:
  assumes "new_swarm files config host now = Inr s0" and "s = fold swarm_step es s0"
  shows "presence_ok s \<and> active_ok s \<and> length (sw_pending_events s) \<le> 128 \<and>
    (sw_application_ready s \<longrightarrow> sw_local_model_stage s = 3) \<and> pending_ok s"
  using coordinator_run [OF assms(1), of es] by (simp add: assms(2) swarm_inv_def model_ok_def)

lemma other_calls:
  "Add_node u \<notin> set (snd (maintain_local_model env status now s))"
  "Add_node u \<notin> set (fst (snd (publish_coordination_heartbeat env now s)))"
  "Add_node u \<notin> set (fst (snd (bootstrap env status now s)))"
  by (auto simp: maintain_local_model_def publish_coordination_heartbeat_def bootstrap_def
      import_identity_def Let_def split: sum.splits bool.splits option.splits if_splits)

lemma add_node_enrollment:
  assumes "swarm_inv s" and "maintain env status now s = (s', calls, r)" and "Add_node u \<in> set calls"
  shows "mt_attached status \<and> (\<exists>s3 pre e. swarm_inv s3 \<and> calls = pre @ e \<and> Add_node u \<in> set e \<and>
    maintain_auto_enrollment env status now s3 = (s', e, r))"
proof -
  have att: "mt_attached status"
  proof (rule ccontr)
    assume n: "\<not> mt_attached status"
    let ?t = "s\<lparr>sw_application_ready := False, sw_local_model_stage := 0, sw_next_local_model_action := 0\<rparr>"
    have "calls = [] \<or> calls = fst (snd (bootstrap env status now ?t))"
      using assms(2) n by (auto simp: maintain_def Let_def split: if_splits)
    with other_calls(3) [of u env status now ?t] assms(3) show False by auto
  qed
  let ?s1 = "if mesh_swarm_startup_grace (sw_config s) \<le>
      ticks_to_seconds (now - sw_bootstrap_started_at s) then update_selection now s else s"
  from maintain_attached [OF att assms(2)] assms(3) other_calls
  obtain model s2 beat s3 e where m: "maintain_local_model env status now ?s1 = (s2, model)"
    and b: "publish_coordination_heartbeat env now s2 = (s3, beat, None)"
    and e: "maintain_auto_enrollment env status now s3 = (s', e, r)" "calls = model @ beat @ e"
    by (elim disjE exE conjE) (auto, (metis fst_conv snd_conv)+)
  have "Add_node u \<notin> set model" "Add_node u \<notin> set beat"
    using other_calls(1) [of u env status now ?s1] other_calls(2) [of u env now s2] m b by simp_all
  moreover have "swarm_inv s3"
    using assms(1) inv_update_selection inv_local_model [of ?s1 env status now]
      inv_heartbeat [of s2 env now] m b by simp
  ultimately show ?thesis using att e assms(3)
    by (intro conjI exI [of _ s3] exI [of _ "model @ beat"] exI [of _ e]) auto
qed

text \<open>C5: enrollment targets. A maintenance tick of a reachable coordinator starts a provisioning
  only while attached and ready, only for the device UUID of an admitted remote number without
  a lease, and directly after announcing exactly this number as the next unicast address.\<close>

theorem enrollment_targets:
  assumes "new_swarm files config host now0 = Inr s0" and "s = fold swarm_step es s0"
    and "maintain env status now s = (s', calls, r)" and "Add_node u \<in> set calls"
  shows "mt_attached status \<and> sw_application_ready s' \<and> length u = 16 \<and>
    (let n = unat (mesh_auto_uuid_number u)
     in n \<noteq> 0 \<and> n \<noteq> sw_local_number s' \<and> peer_allowed s' n \<and> map_of (sw_presence s') n = None) \<and>
    (\<exists>before after. calls = before @ [Set_auto_provisioning_unicast (mesh_auto_uuid_number u), Add_node u] @ after)"
proof -
  have "swarm_inv s" using coordinator_run [OF assms(1)] by (simp add: assms(2))
  from add_node_enrollment [OF this assms(3,4)] obtain s3 pre e where att: "mt_attached status"
    and inv: "swarm_inv s3" and c: "calls = pre @ e" "Add_node u \<in> set e"
    and m: "maintain_auto_enrollment env status now s3 = (s', e, r)" by blast
  note en = enrollment_enrolls [OF inv m]
  have "sw_application_ready s3"
    using m c(2) by (auto simp: maintain_auto_enrollment_def split: if_splits)
  then have "sw_application_ready s'" using en by (simp add: enrolls_def stable_def)
  moreover have "absent_member s' u"
    using en c(2) stable_absent [of s3 s' u] by (simp add: enrolls_def)
  moreover obtain b a where "e = b @ [Set_auto_provisioning_unicast (mesh_auto_uuid_number u), Add_node u] @ a"
    using en c(2) unfolding enrolls_def by blast
  then have "calls = (pre @ b) @ [Set_auto_provisioning_unicast (mesh_auto_uuid_number u), Add_node u] @ a"
    by (simp add: c(1))
  then have "\<exists>before after. calls = before @ [Set_auto_provisioning_unicast (mesh_auto_uuid_number u), Add_node u] @ after"
    by blast
  ultimately show ?thesis
    using att unfolding absent_member_def pending_for_def Let_def by (simp add: unat_eq_0)
qed

section \<open>Witnesses\<close>

definition attached_status :: mesh_status where
  "attached_status = \<lparr>mt_daemon_available = True, mt_attached = True, mt_state = ''attached'',
     mt_uuid = [], mt_node_path = [], mt_token = 7, mt_addresses = [1], mt_friend_feature = False,
     mt_low_power_feature = False, mt_proxy_feature = False, mt_relay_feature = True,
     mt_beacon = False, mt_iv_update = False, mt_iv_index = 0, mt_seconds_since_last_heard = 0,
     mt_sequence_number = 0, mt_error = []\<rparr>"

lemma demo_start: "new_swarm demo_files demo_policy ''uav1'' 5 = Inr (demo_member 1 ''uav1'')"
  by (simp only: demo_new)

theorem coordinator_run_inv_witness:
  "\<exists>s. s = fold swarm_step [Swarm_payload 9 2 3] (demo_member 1 ''uav1'') \<and>
     map fst (sw_presence s) = [2] \<and> presence_ok s"
proof -
  let ?s = "fold swarm_step [Swarm_payload 9 2 3] (demo_member 1 ''uav1'')"
  have m: "map fst (sw_presence ?s) = [2]"
    by (simp add: accepts_swarm_payload_def demo_member_fields peer_allowed_def ordered_put_def)
  have p: "presence_ok ?s"
    by (rule coordinator_run_inv [OF demo_start refl, THEN conjunct1])
  show ?thesis by (rule exI [of _ ?s]) (intro conjI refl m p)
qed

definition demo_tick :: "int \<Rightarrow> swarm_event" where
  "demo_tick k = Maintain quiet_env attached_status (secs (10 * k))"

definition demo_stage :: "nat \<Rightarrow> ticks \<Rightarrow> swarm" where
  "demo_stage k t = (demo_member 1 ''uav1'')\<lparr>sw_local_model_stage := k, sw_next_local_model_action := t\<rparr>"

lemma demo_stage_fields:
  "sw_config (demo_stage k t) = demo_policy" "sw_local_number (demo_stage k t) = 1"
  "sw_presence (demo_stage k t) = []" "sw_member_priority (demo_stage k t) = [1, 2]"
  "sw_preferred_number (demo_stage k t) = 0" "sw_active_number (demo_stage k t) = 1"
  "sw_local_model_stage (demo_stage k t) = k" "sw_next_local_model_action (demo_stage k t) = t"
  "\<not> sw_application_ready (demo_stage k t)" "sw_bootstrap_started_at (demo_stage k t) = 5"
  "sw_last_heartbeat (demo_stage k t) = 0" "sw_pending_events (demo_stage k t) = []"
  "sw_pending_uuid (demo_stage k t) = []" "sw_remote_model_stage (demo_stage k t) = 0"
  "sw_last_direct_attempt (demo_stage k t) = Map.empty"
  "sw_member_by_number (demo_stage k t) = [1 \<mapsto> ''uav1'', 2 \<mapsto> ''uav2'']"
  by (simp_all add: demo_stage_def demo_member_fields)

lemma same_presence: "sw_presence s = [] \<Longrightarrow> s\<lparr>sw_presence := []\<rparr> = s"
  by (cases s) simp

lemma demo_selection: "update_selection now (demo_stage k t) = demo_stage k t"
proof -
  have sel: "select_number (demo_stage k t) = 1"
    by (simp add: select_number_def available_def demo_stage_fields)
  have "sw_presence (demo_stage k t) = filter (\<lambda>x. \<not> pp_expires (snd x) \<le> now) (sw_presence (demo_stage k t))"
    by (simp add: demo_stage_fields)
  then have same: "demo_stage k t\<lparr>sw_presence := filter (\<lambda>x. \<not> pp_expires (snd x) \<le> now) (sw_presence (demo_stage k t))\<rparr>
      = demo_stage k t"
    by (simp add: demo_stage_fields same_presence)
  show ?thesis
    unfolding update_selection_def Let_def same sel by (simp add: demo_stage_fields)
qed

lemma demo_guards:
  "mt_attached attached_status" "mt_addresses attached_status = [1]"
  "(if b then update_selection now (demo_stage j t) else demo_stage j t) = demo_stage j t"
  by (simp_all add: attached_status_def demo_selection)

lemma demo_maintain:
  assumes "t \<le> secs k" and "j < 3"
  shows "fst (maintain quiet_env attached_status (secs k) (demo_stage j t)) =
    demo_stage (Suc j) (secs k + kConfigurationStepDelay)"
proof -
  have "j = 0 \<or> j = 1 \<or> j = 2" using assms(2) by linarith
  then have "fst (maintain_local_model quiet_env attached_status (secs k) (demo_stage j t)) =
      demo_stage (Suc j) (secs k + kConfigurationStepDelay)"
    using assms(1)
    by (auto simp: maintain_local_model_def Let_def demo_stage_fields demo_guards quiet_env_def)
       (simp_all add: demo_stage_def)
  then obtain model where m: "maintain_local_model quiet_env attached_status (secs k) (demo_stage j t) =
      (demo_stage (Suc j) (secs k + kConfigurationStepDelay), model)"
    by (metis prod.collapse)
  have p: "publish_coordination_heartbeat quiet_env n (demo_stage i u) = (demo_stage i u, [], None)" for n i u
    by (simp add: publish_coordination_heartbeat_def demo_stage_fields)
  have e: "maintain_auto_enrollment quiet_env st n (demo_stage i u) = (demo_stage i u, [], None)" for st n i u
    by (simp add: maintain_auto_enrollment_def demo_stage_fields)
  show ?thesis
    unfolding maintain_def Let_def demo_guards(3) m p prod.case option.case e
    by (simp add: demo_guards demo_stage_fields)
qed

theorem enrollment_targets_witness:
  "\<exists>s u. s = fold swarm_step [demo_tick 1, demo_tick 2, demo_tick 3] (demo_member 1 ''uav1'') \<and>
     Add_node u \<in> set (fst (snd (maintain quiet_env attached_status (secs 40) s))) \<and>
     mesh_auto_uuid_number u \<noteq> 0"
proof -
  let ?s = "fold swarm_step [demo_tick 1, demo_tick 2, demo_tick 3] (demo_member 1 ''uav1'')"
  let ?d = "kConfigurationStepDelay"
  have 0: "demo_member 1 ''uav1'' = demo_stage 0 0"
    by (simp add: demo_stage_def) (simp add: demo_member_def initial_swarm_def Let_def)
  have le: "0 \<le> secs 10" "secs 10 + ?d \<le> secs 20" "secs 20 + ?d \<le> secs 30" "secs 30 + ?d \<le> secs 40"
    by (simp_all add: kConfigurationStepDelay_def secs_def ns_per_s_def)
  have s: "?s = demo_stage 3 (secs 30 + ?d)"
    unfolding 0 demo_tick_def fold.simps comp_def id_def swarm_step.simps
    using le by (simp add: demo_maintain numeral_3_eq_3)
  let ?r = "(demo_stage 3 (secs 40 + ?d))\<lparr>sw_application_ready := True\<rparr>"
  let ?r' = "?r\<lparr>sw_last_heartbeat := secs 40\<rparr>"
  have m: "maintain_local_model quiet_env attached_status (secs 40) (demo_stage 3 (secs 30 + ?d)) = (?r, [])"
    using le(4) by (simp add: maintain_local_model_def Let_def demo_stage_fields demo_guards quiet_env_def)
      (simp add: demo_stage_def)
  obtain beat where p: "publish_coordination_heartbeat quiet_env (secs 40) ?r = (?r', beat, None)"
    by (simp add: publish_coordination_heartbeat_def Let_def demo_stage_fields quiet_env_def)
  obtain u where u: "mesh_auto_uuid_from_name ''uav2'' = Inr u"
    using mesh_auto_uuid_cases [of "''uav2''"]
    by (auto simp: number_suffix_def is_digit_def char_code_def digits_value_def digit_value_def)
  obtain s' e where e: "maintain_auto_enrollment quiet_env attached_status (secs 40) ?r' = (s', e, None)"
      "Add_node u \<in> set e"
    by (simp add: maintain_auto_enrollment_def demo_guards demo_stage_fields expire_pending_def
        remote_model_setup_def Let_def member_name_def quiet_env_def u start_provisioning_def)
  have c: "maintain quiet_env attached_status (secs 40) ?s = (s', beat @ e, None)"
    unfolding s maintain_def Let_def demo_guards(3) m p prod.case option.case e(1)
    by (simp add: demo_guards demo_stage_fields)
  moreover have "Add_node u \<in> set (beat @ e)" using e(2) by simp
  ultimately show ?thesis
    using enrollment_targets [OF demo_start refl c, of u]
    by (intro exI [of _ ?s] exI [of _ u]) (auto simp: Let_def)
qed

end
