(* ===== verification/Reliable_Types.thy ===== *)
theory Reliable_Types
  imports Swarm_Coordinator Transport_Bridge
begin

text \<open>
  State and frames of the reliable Mesh delivery of \<open>ServiceNode\<close>
  (\<open>src/app/service_node_mesh.cpp\<close>, fields in \<open>service_node.hpp\<close>): outstanding samples with one
  target per awaited peer, the newest waiting sample of each channel, receipts seen, queued
  acknowledgements, transfers to cancel, peer states and channel turns. A \<open>std::map\<close> that is
  iterated over is an ordered association list; one that is only indexed with \<open>operator[]\<close> is a
  total function with the default value.
\<close>

section \<open>Constants\<close>

definition kMeshVendorPrefixBytes :: nat where "kMeshVendorPrefixBytes = 3"
definition kBridgeFramePrefixBytes :: nat where "kBridgeFramePrefixBytes = 5"
definition kReliableDataHeaderBytes :: nat where "kReliableDataHeaderBytes = 10"
definition kReliableAckHeaderBytes :: nat where "kReliableAckHeaderBytes = 8"
definition kReliableData :: u8 where "kReliableData = 0xd1"
definition kReliableDataNoTurn :: u8 where "kReliableDataNoTurn = 0xd4"
definition kReliableAck :: u8 where "kReliableAck = 0xd2"
definition kReliableReceiptQuery :: u8 where "kReliableReceiptQuery = 0xd3"
definition kReceiptQueryPeriod :: ticks where "kReceiptQueryPeriod = secs 2"
definition millis :: "int \<Rightarrow> ticks" where "millis n = n * 1000000"
definition kMeshQueueRetryDelay :: ticks where "kMeshQueueRetryDelay = millis 250"
definition kMeshTurnRecovery :: ticks where "kMeshTurnRecovery = secs 12"
definition kMaxPendingMeshSamples :: nat where "kMaxPendingMeshSamples = 32"
definition kMaxQueuedMeshAcks :: nat where "kMaxQueuedMeshAcks = 128"
definition kMeshTtlConfigured :: u8 where "kMeshTtlConfigured = 1"
definition kMeshRelayConfigured :: u8 where "kMeshRelayConfigured = 2"
definition kMeshNetworkTransmitConfigured :: u8 where "kMeshNetworkTransmitConfigured = 4"
definition kMeshRadioConfigured :: u8 where
  "kMeshRadioConfigured = kMeshTtlConfigured OR kMeshRelayConfigured OR kMeshNetworkTransmitConfigured"

lemmas reliable_sizes = kMeshVendorPrefixBytes_def kBridgeFramePrefixBytes_def
  kReliableDataHeaderBytes_def kReliableAckHeaderBytes_def
lemmas reliable_opcodes = kReliableData_def kReliableDataNoTurn_def kReliableAck_def
  kReliableReceiptQuery_def

section \<open>Frames\<close>

definition mesh_reliable_sequence :: "u8 list \<Rightarrow> u16" where
  "mesh_reliable_sequence data = join_bytes (data ! 4) (data ! 5)"

definition append_mesh_reliable_sequence :: "u8 list \<Rightarrow> u16 \<Rightarrow> u8 list" where
  "append_mesh_reliable_sequence data sequence = data @ [ucast sequence, ucast (drop_bit 8 sequence)]"

definition mesh_reliable_swarm_id :: "u8 list \<Rightarrow> u16" where
  "mesh_reliable_swarm_id data = join_bytes (data ! 6) (data ! 7)"

definition append_mesh_reliable_swarm_id :: "u8 list \<Rightarrow> u16 \<Rightarrow> u8 list" where
  "append_mesh_reliable_swarm_id data swarm_id = data @ [ucast swarm_id, ucast (drop_bit 8 swarm_id)]"

definition make_mesh_reliable_data :: "u8 list \<Rightarrow> u16 \<Rightarrow> u16 \<Rightarrow> u8 list" where
  "make_mesh_reliable_data payload sequence swarm_id =
     (let wrapped = take kMeshVendorPrefixBytes payload @ [kReliableDataNoTurn];
          wrapped = append_mesh_reliable_sequence wrapped sequence;
          wrapped = append_mesh_reliable_swarm_id wrapped swarm_id;
          wrapped = wrapped @ [payload ! 6, payload ! 7]
      in wrapped @ drop (kMeshVendorPrefixBytes + kBridgeFramePrefixBytes) payload)"

definition is_mesh_reliable_frame :: "u8 list \<Rightarrow> bool" where
  "is_mesh_reliable_frame data \<longleftrightarrow> kReliableAckHeaderBytes \<le> length data \<and>
     (data ! 3 = kReliableData \<or> data ! 3 = kReliableDataNoTurn \<or> data ! 3 = kReliableAck \<or>
      data ! 3 = kReliableReceiptQuery)"

definition mesh_turn_members :: "u16 \<Rightarrow> u16 list \<Rightarrow> u16 list" where
  "mesh_turn_members local_address peers = remdups_adj (sort (peers @ [local_address]))"

section \<open>State\<close>

record send_handle =
  sh_transfer :: u64
  sh_attachment :: u64

record mesh_target =
  mg_attempts :: nat
  mg_transfer :: "send_handle option"
  mg_retry_at :: ticks
  mg_receipt_query_at :: ticks
  mg_transfer_check_at :: ticks

record mesh_pending =
  mp_channel_key :: u64
  mp_data :: "u8 list"
  mp_awaiting :: "(u16 \<times> mesh_target) list"
  mp_primary_transfer :: "send_handle option"
  mp_app_key_index :: u16
  mp_element_index :: u8
  mp_turn_successor :: u16
  mp_force_segmented :: bool
  mp_native_completion_releases :: bool
  mp_blocks_channel :: bool
  mp_created :: ticks

record mesh_seen =
  sn_last :: ticks
  sn_delivered :: bool

record mesh_ack =
  ak_destination :: u16
  ak_app_key_index :: u16
  ak_data :: "u8 list"

record mesh_peer_state =
  pr_transport_busy_until :: ticks
  pr_consecutive_expiries :: nat
  pr_retry_after :: ticks

record mesh_turn =
  tu_members :: "u16 list"
  tu_initialized :: bool
  tu_permitted :: bool
  tu_reclaim_at :: ticks

type_synonym seen_key = "u16 \<times> u16 \<times> u16 \<times> u32 \<times> u16"

record reliable =
  rl_pending :: "(u16 \<times> mesh_pending) list"
  rl_latest :: "(u64 \<times> shared_topic_config \<times> u8 list) list"
  rl_seen :: "seen_key \<rightharpoonup> mesh_seen"
  rl_acks :: "mesh_ack list"
  rl_cancellations :: "send_handle list"
  rl_peers :: "u16 \<Rightarrow> mesh_peer_state"
  rl_turns :: "u64 \<Rightarrow> mesh_turn"
  rl_next_probe_at :: ticks
  rl_probe_cursor :: nat
  rl_next_sequence :: u32

definition default_peer_state :: mesh_peer_state where
  "default_peer_state = \<lparr>pr_transport_busy_until = 0, pr_consecutive_expiries = 0, pr_retry_after = 0\<rparr>"

definition default_turn :: mesh_turn where
  "default_turn = \<lparr>tu_members = [], tu_initialized = False, tu_permitted = False, tu_reclaim_at = 0\<rparr>"

definition empty_reliable :: "u32 \<Rightarrow> reliable" where
  "empty_reliable first_sequence = \<lparr>rl_pending = [], rl_latest = [], rl_seen = Map.empty, rl_acks = [],
     rl_cancellations = [], rl_peers = (\<lambda>_. default_peer_state), rl_turns = (\<lambda>_. default_turn),
     rl_next_probe_at = 0, rl_probe_cursor = 0, rl_next_sequence = first_sequence\<rparr>"

definition mesh_channel_key :: "u8 \<Rightarrow> u16 \<Rightarrow> u16 \<Rightarrow> u64" where
  "mesh_channel_key element_index app_key_index channel =
     push_bit 32 (ucast element_index) OR push_bit 16 (ucast app_key_index) OR ucast channel"

definition target_transfers :: "mesh_pending \<Rightarrow> send_handle list" where
  "target_transfers pending = List.map_filter (\<lambda>x. mg_transfer (snd x)) (mp_awaiting pending)"

definition pending_transfers :: "mesh_pending \<Rightarrow> send_handle list" where
  "pending_transfers pending =
     (case mp_primary_transfer pending of None \<Rightarrow> [] | Some handle \<Rightarrow> [handle]) @ target_transfers pending"

section \<open>Shared updates\<close>

text \<open>\<open>remember_mesh_transfer\<close>: who owns a handle the daemon returned.\<close>

definition remember_mesh_transfer ::
    "u16 \<Rightarrow> u16 \<Rightarrow> send_handle \<Rightarrow> ticks \<Rightarrow> reliable \<Rightarrow> reliable" where
  "remember_mesh_transfer sequence destination handle now r =
     (if sh_transfer handle = 0 then r
      else case map_of (rl_pending r) sequence of
        None \<Rightarrow> r\<lparr>rl_cancellations := rl_cancellations r @ [handle]\<rparr>
      | Some sample \<Rightarrow>
          (case map_of (mp_awaiting sample) destination of
             None \<Rightarrow> r\<lparr>rl_pending := ordered_upd sequence
                        (\<lambda>p. p\<lparr>mp_primary_transfer := Some handle\<rparr>) (rl_pending r)\<rparr>
           | Some target \<Rightarrow> r\<lparr>rl_pending := ordered_upd sequence
                 (\<lambda>p. p\<lparr>mp_awaiting := ordered_upd destination
                         (\<lambda>t. t\<lparr>mg_transfer := Some handle, mg_transfer_check_at := now + millis 100\<rparr>)
                         (mp_awaiting p),
                       mp_blocks_channel := True\<rparr>) (rl_pending r)\<rparr>))"

text \<open>The state part of \<open>clear_mesh_reliable_state\<close>; the queued transfers are cancelled after it.\<close>

definition clear_reliable :: "bool \<Rightarrow> reliable \<Rightarrow> reliable" where
  "clear_reliable preserve_latest r =
     r\<lparr>rl_cancellations := rl_cancellations r @ concat (map (\<lambda>x. pending_transfers (snd x)) (rl_pending r)),
       rl_pending := [],
       rl_latest := (if preserve_latest then rl_latest r else []),
       rl_seen := Map.empty, rl_acks := [],
       rl_peers := (\<lambda>_. default_peer_state), rl_turns := (\<lambda>_. default_turn),
       rl_next_probe_at := 0, rl_probe_cursor := 0\<rparr>"

section \<open>Calls of the Mesh daemon\<close>

text \<open>The result of each call may depend on all calls before it.\<close>

datatype radio_call =
    Try_send u8 u16 u16 bool "u8 list"
  | Send_pending send_handle
  | Cancel_send send_handle
  | Mesh_send u8 u16 u16 bool "u8 list"

record radio =
  ra_try_send :: "radio_call list \<Rightarrow> u8 \<Rightarrow> u16 \<Rightarrow> u16 \<Rightarrow> bool \<Rightarrow> u8 list \<Rightarrow> std_error + send_handle option"
  ra_send_pending :: "radio_call list \<Rightarrow> send_handle \<Rightarrow> std_error + bool"
  ra_cancel_send :: "radio_call list \<Rightarrow> send_handle \<Rightarrow> std_error option"
  ra_send :: "radio_call list \<Rightarrow> std_error option"
  ra_clock :: "radio_call list \<Rightarrow> ticks"

fun cancel_transfers ::
    "radio \<Rightarrow> radio_call list \<Rightarrow> send_handle list \<Rightarrow> radio_call list \<times> send_handle list" where
  "cancel_transfers radio calls [] = (calls, [])"
| "cancel_transfers radio calls (handle # cancellations) =
     (case ra_cancel_send radio calls handle of
        Some error \<Rightarrow> (calls @ [Cancel_send handle], handle # cancellations)
      | None \<Rightarrow> cancel_transfers radio (calls @ [Cancel_send handle]) cancellations)"

definition flush_mesh_transfer_cancellations ::
    "radio \<Rightarrow> radio_call list \<Rightarrow> reliable \<Rightarrow> radio_call list \<times> reliable" where
  "flush_mesh_transfer_cancellations radio calls r =
     (case cancel_transfers radio calls (rl_cancellations r) of
        (calls, remaining) \<Rightarrow> (calls, r\<lparr>rl_cancellations := remaining\<rparr>))"

definition clear_mesh_reliable_state ::
    "radio \<Rightarrow> radio_call list \<Rightarrow> bool \<Rightarrow> reliable \<Rightarrow> radio_call list \<times> reliable" where
  "clear_mesh_reliable_state radio calls preserve_latest r =
     flush_mesh_transfer_cancellations radio calls (clear_reliable preserve_latest r)"

end
