(* ===== verification/Reliable_Receive.thy ===== *)
theory Reliable_Receive
  imports Reliable_Types
begin

text \<open>
  Reception of Mesh access messages: \<open>publish_mesh_message\<close> of \<open>src/app/service_node_mesh.cpp\<close>.
  The parts under \<open>mesh_reliable_mutex_\<close> are definitions of their own: a receipt
  (\<open>receive_ack\<close>), the entry of a data frame or query (\<open>receive_begin\<close>), and its end after
  the unlocked ROS publication (\<open>receive_end\<close>).
\<close>

section \<open>The receiving node\<close>

text \<open>\<open>mesh_app_->status()\<close> is \<open>None\<close> when there is no Mesh application.\<close>

record mesh_node =
  nd_config :: node_config
  nd_swarm :: "swarm option"
  nd_bridges :: bridge_impl
  nd_reliable :: reliable
  nd_reset_requested :: bool
  nd_radio_confirmed :: u8

definition receipt_key :: "u16 \<Rightarrow> u16 \<Rightarrow> u8 list \<Rightarrow> seen_key" where
  "receipt_key source key_index data =
     (source, key_index, mesh_reliable_swarm_id data,
      ucast (data ! 0) OR push_bit 8 (ucast (data ! 1)) OR push_bit 16 (ucast (data ! 2)),
      mesh_reliable_sequence data)"

definition is_data_frame :: "u8 list \<Rightarrow> bool" where
  "is_data_frame data \<longleftrightarrow> (data ! 3 = kReliableData \<or> data ! 3 = kReliableDataNoTurn) \<and>
     kReliableDataHeaderBytes \<le> length data"

definition is_receipt_query :: "u8 list \<Rightarrow> bool" where
  "is_receipt_query data \<longleftrightarrow> data ! 3 = kReliableReceiptQuery \<and> length data = kReliableAckHeaderBytes"

definition is_receipt :: "u8 list \<Rightarrow> bool" where
  "is_receipt data \<longleftrightarrow> data ! 3 = kReliableAck \<and> length data = kReliableAckHeaderBytes"

section \<open>Receipts\<close>

definition receive_ack :: "u16 \<Rightarrow> u16 \<Rightarrow> u8 list \<Rightarrow> reliable \<Rightarrow> reliable" where
  "receive_ack source key_index data r =
     (let sequence = mesh_reliable_sequence data
      in case map_of (rl_pending r) sequence of
        None \<Rightarrow> r
      | Some pending \<Rightarrow>
          if mp_app_key_index pending = key_index \<and>
             take kMeshVendorPrefixBytes data = take kMeshVendorPrefixBytes (mp_data pending) \<and>
             mesh_reliable_swarm_id data = mesh_reliable_swarm_id (mp_data pending)
          then
            let r = (case map_of (mp_awaiting pending) source of
                       None \<Rightarrow> r
                     | Some target \<Rightarrow>
                         r\<lparr>rl_cancellations := rl_cancellations r @
                             (case mg_transfer target of None \<Rightarrow> [] | Some handle \<Rightarrow> [handle]),
                           rl_pending := ordered_upd sequence
                             (\<lambda>p. p\<lparr>mp_awaiting := ordered_del source (mp_awaiting p)\<rparr>) (rl_pending r)\<rparr>)
            in r\<lparr>rl_peers := (rl_peers r)(source := default_peer_state)\<rparr>
          else r)"

section \<open>Data frames and queries\<close>

definition make_acknowledgement :: "u8 list \<Rightarrow> u8 list" where
  "make_acknowledgement data =
     (let acknowledgement = take kMeshVendorPrefixBytes data @ [kReliableAck];
          acknowledgement = append_mesh_reliable_sequence acknowledgement (mesh_reliable_sequence data)
      in append_mesh_reliable_swarm_id acknowledgement (mesh_reliable_swarm_id data))"

definition queue_ack :: "u16 \<Rightarrow> u16 \<Rightarrow> u8 list \<Rightarrow> reliable \<Rightarrow> reliable" where
  "queue_ack source key_index data r =
     (if kMaxQueuedMeshAcks \<le> length (rl_acks r) then r
      else
        let ack = \<lparr>ak_destination = source, ak_app_key_index = key_index,
                   ak_data = make_acknowledgement data\<rparr>
        in if list_ex (\<lambda>queued. queued = ack) (rl_acks r) then r
           else r\<lparr>rl_acks := rl_acks r @ [ack]\<rparr>)"

definition receive_begin :: "ticks \<Rightarrow> u16 \<Rightarrow> u16 \<Rightarrow> u8 list \<Rightarrow> reliable \<Rightarrow> reliable \<times> bool" where
  "receive_begin now source key_index data r =
     (let key = receipt_key source key_index data
      in if is_receipt_query data
         then (case rl_seen r key of
                 None \<Rightarrow> (r, False)
               | Some seen \<Rightarrow> (if sn_delivered seen then queue_ack source key_index data r else r, False))
         else (case rl_seen r key of
                 None \<Rightarrow> (r\<lparr>rl_seen := (rl_seen r)(key \<mapsto> \<lparr>sn_last = now, sn_delivered = False\<rparr>)\<rparr>, True)
               | Some seen \<Rightarrow> (if sn_delivered seen then queue_ack source key_index data r else r, False)))"

definition decoded_payload :: "u8 list \<Rightarrow> u8 list" where
  "decoded_payload data =
     take kMeshVendorPrefixBytes data @ [77, 66, 1, data ! 8, data ! 9] @ drop kReliableDataHeaderBytes data"

definition receive_end ::
    "ticks \<Rightarrow> u8 \<Rightarrow> u16 \<Rightarrow> u16 \<Rightarrow> u8 list \<Rightarrow> bool \<Rightarrow> u16 \<Rightarrow> u16 list \<Rightarrow> reliable \<Rightarrow> reliable" where
  "receive_end now element_index source key_index data delivered local_address turn_members r =
     (let key = receipt_key source key_index data
      in case rl_seen r key of
        None \<Rightarrow> r
      | Some seen \<Rightarrow>
          if delivered then
            let r = r\<lparr>rl_seen := (rl_seen r)(key \<mapsto> \<lparr>sn_last = now, sn_delivered = True\<rparr>)\<rparr>;
                r = queue_ack source key_index data r;
                channel_key = mesh_channel_key element_index key_index (join_bytes (data ! 8) (data ! 9))
            in if local_address \<noteq> 0
               then r\<lparr>rl_turns := (rl_turns r)(channel_key :=
                        \<lparr>tu_members = turn_members, tu_initialized = True,
                         tu_permitted = (data ! 3 = kReliableData),
                         tu_reclaim_at = now + kMeshTurnRecovery\<rparr>)\<rparr>
               else r
          else r\<lparr>rl_seen := (rl_seen r)(key := None)\<rparr>)"

text \<open>The turn ring the node sees when it has accepted a sample: no address (0) when it is not
  attached with an address or runs without the coordinator.\<close>

definition turn_view :: "ticks \<Rightarrow> mesh_status option \<Rightarrow> swarm option \<Rightarrow> u16 \<times> u16 list" where
  "turn_view now app swarm =
     (case (app, swarm) of
        (Some status, Some s) \<Rightarrow>
          if mt_addresses status \<noteq> []
          then (hd (mt_addresses status),
                mesh_turn_members (hd (mt_addresses status)) (swarm_member_addresses now s))
          else (0, [])
      | _ \<Rightarrow> (0, []))"

section \<open>The whole handler\<close>

definition receive_reliable ::
    "'msg ros_env \<Rightarrow> ticks \<Rightarrow> ticks \<Rightarrow> mesh_status option \<Rightarrow> received_message \<Rightarrow> mesh_node \<Rightarrow>
     mesh_node \<times> (string \<times> 'msg) list" where
  "receive_reliable env now later app received nd =
     (let data = rm_data received;
          (swarm, frame_allowed) =
            (case nd_swarm nd of
               None \<Rightarrow> (None, True)
             | Some s \<Rightarrow> (case accepts_swarm_payload now (rm_source received) (mesh_reliable_swarm_id data) s of
                 (s, ok) \<Rightarrow> (Some s, ok)));
          nd = nd\<lparr>nd_swarm := swarm\<rparr>
      in if is_receipt data \<and> frame_allowed
         then (nd\<lparr>nd_reliable := receive_ack (rm_source received) (rm_key_index received) data
                   (nd_reliable nd)\<rparr>, [])
         else if (is_data_frame data \<or> is_receipt_query data) \<and> frame_allowed
         then
           (case receive_begin now (rm_source received) (rm_key_index received) data (nd_reliable nd) of
              (r, False) \<Rightarrow> (nd\<lparr>nd_reliable := r\<rparr>, [])
            | (r, True) \<Rightarrow>
                (case handle_mesh env now (rm_source received) (rm_key_index received)
                        (decoded_payload data) (nd_bridges nd) of
                   (bridges, out, delivered) \<Rightarrow>
                     let (local_address, turn_members) =
                           (if delivered then turn_view later app swarm else (0, []));
                         r = receive_end later (rm_element_index received) (rm_source received)
                               (rm_key_index received) data delivered local_address turn_members r
                     in (nd\<lparr>nd_bridges := bridges, nd_reliable := r\<rparr>, out)))
         else (nd, []))"

definition publish_mesh_message ::
    "'msg ros_env \<Rightarrow> ticks \<Rightarrow> ticks \<Rightarrow> mesh_status option \<Rightarrow> received_message \<Rightarrow> mesh_node \<Rightarrow>
     mesh_node \<times> (string \<times> 'msg) list" where
  "publish_mesh_message env now later app received nd =
     (if rm_device_key received then (nd, [])
      else
        let local_source = (case app of None \<Rightarrow> False
                            | Some status \<Rightarrow> rm_source received \<in> set (mt_addresses status));
            swarm_allowed = (case nd_swarm nd of None \<Rightarrow> True
                             | Some s \<Rightarrow> accepts_swarm_source now (rm_source received) s)
        in if \<not> local_source \<and> is_mesh_reliable_frame (rm_data received)
           then receive_reliable env now later app received nd
           else if \<not> local_source \<and> swarm_allowed
           then (case handle_mesh env now (rm_source received) (rm_key_index received)
                        (rm_data received) (nd_bridges nd) of
                   (bridges, out, delivered) \<Rightarrow> (nd\<lparr>nd_bridges := bridges\<rparr>, out))
           else (nd, []))"

end
