(* ===== verification/Reliable_Send.thy ===== *)
theory Reliable_Send
  imports Reliable_Receive
begin

text \<open>
  Sending a bridge sample over Mesh: \<open>send_mesh_bridge_payload_impl\<close> of
  \<open>src/app/service_node_mesh.cpp\<close>, one definition per critical section of the reliability mutex,
  composed in the order of the code. Clock readings after daemon calls come from the radio.
\<close>

section \<open>Waiting samples\<close>

definition store_latest :: "bool \<Rightarrow> u64 \<Rightarrow> shared_topic_config \<times> u8 list \<Rightarrow> reliable \<Rightarrow> reliable" where
  "store_latest resumed channel_key sample r =
     (if resumed \<and> map_of (rl_latest r) channel_key \<noteq> None then r
      else r\<lparr>rl_latest := ordered_put channel_key sample (rl_latest r)\<rparr>)"

definition channel_busy :: "u64 \<Rightarrow> reliable \<Rightarrow> bool" where
  "channel_busy channel_key r \<longleftrightarrow>
     list_ex (\<lambda>x. mp_channel_key (snd x) = channel_key \<and> mp_blocks_channel (snd x)) (rl_pending r)"

text \<open>\<open>None\<close>: a resumed value was superseded and is dropped.\<close>

definition claim_channel :: "bool \<Rightarrow> u64 \<Rightarrow> reliable \<Rightarrow> reliable option" where
  "claim_channel resumed channel_key r =
     (if resumed then if map_of (rl_latest r) channel_key \<noteq> None then None else Some r
      else Some (r\<lparr>rl_latest := ordered_del channel_key (rl_latest r)\<rparr>))"

definition transport_not_ready :: "mesh_status \<Rightarrow> node_config \<Rightarrow> u8 \<Rightarrow> swarm option \<Rightarrow> bool" where
  "transport_not_ready status config radio_confirmed swarm \<longleftrightarrow>
     \<not> mt_attached status \<or>
     (mesh_auto_configure_relay config \<and> radio_confirmed \<noteq> kMeshRadioConfigured) \<or>
     (case swarm of None \<Rightarrow> False
      | Some s \<Rightarrow> \<not> sw_participating s \<or> \<not> sw_application_ready s)"

section \<open>Targets, probes and the sequence number\<close>

fun find_probe :: "ticks \<Rightarrow> u16 list \<Rightarrow> nat \<Rightarrow> reliable \<Rightarrow> nat list \<Rightarrow> (nat \<times> u16) option" where
  "find_probe now candidates cursor r [] = None"
| "find_probe now candidates cursor r (offset # offsets) =
     (let index = (cursor + offset) mod length candidates; peer = candidates ! index
      in if now < pr_retry_after (rl_peers r peer) then find_probe now candidates cursor r offsets
         else Some (index, peer))"

definition choose_targets :: "ticks \<Rightarrow> u16 list \<Rightarrow> u16 list \<Rightarrow> reliable \<Rightarrow> reliable \<times> u16 list" where
  "choose_targets now members candidates r =
     (let (r, targets) =
        (if candidates \<noteq> [] \<and> rl_next_probe_at r \<le> now
         then (case find_probe now candidates (rl_probe_cursor r) r [0..<length candidates] of
                 None \<Rightarrow> (r, members)
               | Some (index, peer) \<Rightarrow>
                   (r\<lparr>rl_probe_cursor := index + 1, rl_next_probe_at := now + secs 10\<rparr>,
                    members @ [peer]))
         else (r, members))
      in (r, remdups_adj (sort targets)))"

text \<open>The loop \<open>do ++next while pending\<close>: \<open>fuel\<close> further attempts; the number of pending samples is
  enough as long as it is below the 65536 sequence numbers.\<close>

fun fresh_sequence :: "nat \<Rightarrow> (u16 \<Rightarrow> bool) \<Rightarrow> u32 \<Rightarrow> u32" where
  "fresh_sequence fuel used next_sequence =
     (let next_sequence = next_sequence + 1
      in case fuel of
           0 \<Rightarrow> next_sequence
         | Suc fuel \<Rightarrow> (if used (ucast next_sequence) then fresh_sequence fuel used next_sequence
                       else next_sequence))"

definition take_sequence :: "reliable \<Rightarrow> reliable \<times> u16" where
  "take_sequence r =
     (let next_sequence = fresh_sequence (length (rl_pending r))
            (\<lambda>sequence. map_of (rl_pending r) sequence \<noteq> None) (rl_next_sequence r)
      in (r\<lparr>rl_next_sequence := next_sequence\<rparr>, ucast next_sequence))"

section \<open>The turn ring\<close>

definition next_in_ring :: "u16 \<Rightarrow> u16 list \<Rightarrow> u16" where
  "next_in_ring local_address members =
     (let rest = drop 1 (dropWhile (\<lambda>x. x \<noteq> local_address) members)
      in if rest = [] then hd members else hd rest)"

definition refresh_turn :: "ticks \<Rightarrow> u16 \<Rightarrow> u16 list \<Rightarrow> mesh_turn \<Rightarrow> mesh_turn" where
  "refresh_turn now local_address members turn =
     (let turn =
        (if \<not> tu_initialized turn
         then \<lparr>tu_members = members, tu_initialized = True, tu_permitted = (hd members = local_address),
               tu_reclaim_at = now + kMeshTurnRecovery\<rparr>
         else if tu_members turn \<noteq> members then turn\<lparr>tu_members := members\<rparr>
         else turn)
      in if \<not> tu_permitted turn \<and> hd members = local_address \<and> tu_reclaim_at turn \<le> now
         then turn\<lparr>tu_permitted := True\<rparr> else turn)"

text \<open>The result of planning: \<open>None\<close> when the sample waits, else the sequence number, the
  targets, and the successor if the send consumes the channel's turn.\<close>

definition plan_send ::
    "ticks \<Rightarrow> bool \<Rightarrow> u64 \<Rightarrow> shared_topic_config \<times> u8 list \<Rightarrow> u16 list \<Rightarrow> u16 list \<Rightarrow> u16 list \<Rightarrow> reliable \<Rightarrow>
     reliable \<times> (u16 \<times> u16 list \<times> u16 option) option" where
  "plan_send now resumed channel_key sample members candidates addresses r =
     (case choose_targets now members candidates r of (r, targets) \<Rightarrow>
        if targets = [] then (store_latest resumed channel_key sample r, None)
        else
          case take_sequence r of (r, sequence) \<Rightarrow>
            if members \<noteq> [] \<and> addresses \<noteq> [] then
              let local_address = hd addresses;
                  ring = mesh_turn_members local_address members;
                  turn = refresh_turn now local_address ring (rl_turns r channel_key);
                  r = r\<lparr>rl_turns := (rl_turns r)(channel_key := turn)\<rparr>
              in if \<not> tu_permitted turn then (store_latest resumed channel_key sample r, None)
                 else (r, Some (sequence, targets, Some (next_in_ring local_address ring)))
            else (r, Some (sequence, targets, None)))"

section \<open>Admission of the sample\<close>

fun oldest_pending :: "(u16 \<times> mesh_pending) list \<Rightarrow> (u16 \<times> mesh_pending) option" where
  "oldest_pending [] = None"
| "oldest_pending (x # xs) =
     (case oldest_pending xs of None \<Rightarrow> Some x
      | Some y \<Rightarrow> if mp_created (snd y) < mp_created (snd x) then Some y else Some x)"

definition evict_oldest :: "reliable \<Rightarrow> reliable" where
  "evict_oldest r =
     (if kMaxPendingMeshSamples \<le> length (rl_pending r)
      then (case oldest_pending (rl_pending r) of
              None \<Rightarrow> r
            | Some (sequence, oldest) \<Rightarrow>
                r\<lparr>rl_cancellations := rl_cancellations r @ pending_transfers oldest,
                  rl_pending := ordered_del sequence (rl_pending r)\<rparr>)
      else r)"

definition new_target :: "ticks \<Rightarrow> mesh_target" where
  "new_target now = \<lparr>mg_attempts = 0, mg_transfer = None, mg_retry_at = now + secs 5,
     mg_receipt_query_at = now + kReceiptQueryPeriod, mg_transfer_check_at = now\<rparr>"

definition new_pending ::
    "ticks \<Rightarrow> shared_topic_config \<Rightarrow> u64 \<Rightarrow> u8 list \<Rightarrow> u16 list \<Rightarrow> u16 option \<Rightarrow> mesh_pending" where
  "new_pending now bridge channel_key wrapped targets successor =
     \<lparr>mp_channel_key = channel_key, mp_data = wrapped,
      mp_awaiting = fold (\<lambda>peer m. if map_of m peer = None then ordered_put peer (new_target now) m else m)
        targets [],
      mp_primary_transfer = None,
      mp_app_key_index = st_mesh_app_key_index bridge,
      mp_element_index = st_mesh_element_index bridge,
      mp_turn_successor = (case successor of None \<Rightarrow> 0 | Some peer \<Rightarrow> peer),
      mp_force_segmented = st_mesh_force_segmented bridge,
      mp_native_completion_releases = (length targets = 1),
      mp_blocks_channel = True, mp_created = now\<rparr>"

definition admit_sample :: "u16 \<Rightarrow> mesh_pending \<Rightarrow> reliable \<Rightarrow> reliable" where
  "admit_sample sequence pending r =
     (let r = evict_oldest r
      in if map_of (rl_pending r) sequence = None
         then r\<lparr>rl_pending := ordered_put sequence pending (rl_pending r)\<rparr> else r)"

definition consume_turn :: "ticks \<Rightarrow> u64 \<Rightarrow> u16 option \<Rightarrow> reliable \<Rightarrow> reliable" where
  "consume_turn now channel_key successor r =
     (case successor of
        None \<Rightarrow> r
      | Some _ \<Rightarrow> r\<lparr>rl_turns := (rl_turns r)(channel_key :=
            (rl_turns r channel_key)\<lparr>tu_permitted := False, tu_reclaim_at := now + kMeshTurnRecovery\<rparr>)\<rparr>)"

section \<open>Fan-out\<close>

definition mark_turn :: "bool \<Rightarrow> u8 list \<Rightarrow> u8 list" where
  "mark_turn handoff data = data[3 := (if handoff then kReliableData else kReliableDataNoTurn)]"

definition defer_target :: "u16 \<Rightarrow> u16 \<Rightarrow> ticks \<Rightarrow> reliable \<Rightarrow> reliable" where
  "defer_target sequence destination retry_at r =
     r\<lparr>rl_pending := ordered_upd sequence
         (\<lambda>p. p\<lparr>mp_awaiting := ordered_upd destination (\<lambda>t. t\<lparr>mg_retry_at := retry_at\<rparr>)
                  (mp_awaiting p)\<rparr>) (rl_pending r)\<rparr>"

definition note_transport_busy :: "u16 \<Rightarrow> ticks \<Rightarrow> reliable \<Rightarrow> reliable" where
  "note_transport_busy destination retry_at r =
     r\<lparr>rl_peers := (rl_peers r)(destination :=
         (rl_peers r destination)\<lparr>pr_transport_busy_until := retry_at\<rparr>)\<rparr>"

text \<open>What the outcome of a first send does to the sample; true when the daemon took it.\<close>

definition first_result ::
    "u16 \<Rightarrow> u16 \<Rightarrow> std_error + send_handle option \<Rightarrow> ticks \<Rightarrow> reliable \<Rightarrow> reliable \<times> bool" where
  "first_result sequence destination outcome now r =
     (case outcome of
        Inr (Some handle) \<Rightarrow> (remember_mesh_transfer sequence destination handle now r, True)
      | Inr None \<Rightarrow>
          let retry_at = now + kMeshQueueRetryDelay
          in (defer_target sequence destination retry_at (note_transport_busy destination retry_at r), False)
      | Inl error \<Rightarrow> (defer_target sequence destination (now + kMeshQueueRetryDelay) r, False))"

definition first_send ::
    "radio \<Rightarrow> shared_topic_config \<Rightarrow> u16 \<Rightarrow> u8 list \<Rightarrow> u16 \<Rightarrow> u16 \<Rightarrow> radio_call list \<times> reliable \<times> bool \<Rightarrow>
     radio_call list \<times> reliable \<times> bool" where
  "first_send radio bridge sequence wrapped turn_successor destination st =
     (case st of (calls, r, any_admitted) \<Rightarrow>
        let wire = mark_turn (destination = turn_successor) wrapped;
            outcome = ra_try_send radio calls (st_mesh_element_index bridge) destination
              (st_mesh_app_key_index bridge) (st_mesh_force_segmented bridge) wire;
            calls = calls @ [Try_send (st_mesh_element_index bridge) destination
                               (st_mesh_app_key_index bridge) (st_mesh_force_segmented bridge) wire]
        in case first_result sequence destination outcome (ra_clock radio calls) r of
             (r, admitted) \<Rightarrow> (calls, r, any_admitted \<or> admitted))"

definition finish_send ::
    "bool \<Rightarrow> bool \<Rightarrow> u64 \<Rightarrow> shared_topic_config \<times> u8 list \<Rightarrow> u16 \<Rightarrow> u16 option \<Rightarrow> reliable \<Rightarrow> reliable" where
  "finish_send any_admitted resumed channel_key sample sequence successor r =
     (if any_admitted then r
      else
        let r = r\<lparr>rl_pending := ordered_del sequence (rl_pending r)\<rparr>;
            r = store_latest resumed channel_key sample r
        in (case successor of None \<Rightarrow> r
            | Some _ \<Rightarrow> r\<lparr>rl_turns := (rl_turns r)(channel_key :=
                 (rl_turns r channel_key)\<lparr>tu_permitted := True\<rparr>)\<rparr>))"

section \<open>The whole operation\<close>

definition valid_bridge_frame :: "u8 list \<Rightarrow> bool" where
  "valid_bridge_frame payload \<longleftrightarrow>
     kMeshVendorPrefixBytes + kBridgeFramePrefixBytes \<le> length payload \<and>
     payload ! 3 = 77 \<and> payload ! 4 = 66 \<and> payload ! 5 = 1"

definition send_reliable ::
    "radio \<Rightarrow> ticks \<Rightarrow> bool \<Rightarrow> u64 \<Rightarrow> shared_topic_config \<Rightarrow> u8 list \<Rightarrow> mesh_status \<Rightarrow> swarm \<Rightarrow>
     radio_call list \<Rightarrow> reliable \<Rightarrow> radio_call list \<times> reliable" where
  "send_reliable radio now resumed channel_key bridge payload status swarm calls r =
     (if channel_busy channel_key r then (calls, store_latest resumed channel_key (bridge, payload) r)
      else
        case plan_send now resumed channel_key (bridge, payload) (swarm_member_addresses now swarm)
               (swarm_probe_addresses now swarm) (mt_addresses status) r of
          (r, None) \<Rightarrow> (calls, r)
        | (r, Some (sequence, targets, successor)) \<Rightarrow>
            let wrapped = make_mesh_reliable_data payload sequence (sw_swarm_id swarm);
                r = admit_sample sequence (new_pending now bridge channel_key wrapped targets successor) r;
                r = consume_turn now channel_key successor r
            in case fold (first_send radio bridge sequence wrapped
                            (case successor of None \<Rightarrow> 0 | Some peer \<Rightarrow> peer)) targets (calls, r, False) of
                 (calls, r, any_admitted) \<Rightarrow>
                   (calls, finish_send any_admitted resumed channel_key (bridge, payload) sequence
                             successor r))"

definition send_mesh_bridge_payload_impl ::
    "radio \<Rightarrow> ticks \<Rightarrow> mesh_status option \<Rightarrow> shared_topic_config \<Rightarrow> u8 list \<Rightarrow> bool \<Rightarrow>
     radio_call list \<times> mesh_node \<Rightarrow> radio_call list \<times> mesh_node \<times> std_error option" where
  "send_mesh_bridge_payload_impl radio now app bridge payload resumed st =
     (case (app, st) of
        (None, calls, nd) \<Rightarrow>
          (calls, nd, Some (Runtime_error ''Mesh bridge cannot send because enable_mesh is false''))
      | (Some status, calls, nd) \<Rightarrow>
          let (calls, r) = (if nd_reset_requested nd
                 then clear_mesh_reliable_state radio calls True (nd_reliable nd)
                 else (calls, nd_reliable nd));
              nd = nd\<lparr>nd_reliable := r, nd_reset_requested := False\<rparr>;
              channel_key = mesh_channel_key (st_mesh_element_index bridge)
                (st_mesh_app_key_index bridge) (st_channel_id bridge)
          in if transport_not_ready status (nd_config nd) (nd_radio_confirmed nd) (nd_swarm nd)
             then (calls, nd\<lparr>nd_reliable := store_latest resumed channel_key (bridge, payload) r\<rparr>, None)
             else
               case claim_channel resumed channel_key r of
                 None \<Rightarrow> (calls, nd, None)
               | Some r \<Rightarrow>
                   let nd = nd\<lparr>nd_reliable := r\<rparr>
                   in case (st_mesh_swarm_reliable bridge, nd_swarm nd) of
                        (True, Some swarm) \<Rightarrow>
                          if \<not> valid_bridge_frame payload
                          then (calls, nd, Some (Runtime_error
                                 ''Mesh bridge payload has no valid channel frame''))
                          else (case send_reliable radio now resumed channel_key bridge payload
                                       status swarm calls r of
                                  (calls, r) \<Rightarrow> (calls, nd\<lparr>nd_reliable := r\<rparr>, None))
                      | _ \<Rightarrow>
                          (calls @ [Mesh_send (st_mesh_element_index bridge) (st_mesh_destination bridge)
                             (st_mesh_app_key_index bridge) (st_mesh_force_segmented bridge) payload],
                           nd, ra_send radio calls))"

definition send_mesh_bridge_payload ::
    "radio \<Rightarrow> ticks \<Rightarrow> mesh_status option \<Rightarrow> shared_topic_config \<Rightarrow> u8 list \<Rightarrow>
     radio_call list \<times> mesh_node \<Rightarrow> radio_call list \<times> mesh_node \<times> std_error option" where
  "send_mesh_bridge_payload radio now app bridge payload st =
     send_mesh_bridge_payload_impl radio now app bridge payload False st"

end
