(* ===== verification/Reliable_Tick.thy ===== *)
theory Reliable_Tick
  imports Reliable_Send
begin

text \<open>
  The periodic tick of reliable delivery: \<open>maintain_mesh_reliable\<close> of
  \<open>src/app/service_node_mesh.cpp\<close>. \<open>collect_tick\<close> is the long critical section that expires,
  queries and schedules; the daemon calls follow without the mutex.
\<close>

section \<open>What one tick sends\<close>

record outbound =
  ob_destination :: u16
  ob_app_key_index :: u16
  ob_element_index :: u8
  ob_segmented :: bool
  ob_acknowledgement :: bool
  ob_data :: "u8 list"
  ob_transfer :: "send_handle option"

record transfer_check =
  tc_sequence :: u16
  tc_destination :: u16
  tc_handle :: send_handle

text \<open>The accumulator of the loop over the outstanding samples.\<close>

record tick_acc =
  ta_latest :: "(u64 \<times> shared_topic_config \<times> u8 list) list"
  ta_cancellations :: "send_handle list"
  ta_peers :: "u16 \<Rightarrow> mesh_peer_state"
  ta_outbound :: "outbound list"
  ta_checks :: "transfer_check list"
  ta_repairs :: "u16 list"

definition kMaxTickOutbound :: nat where "kMaxTickOutbound = 6"
definition kSeenLifetime :: ticks where "kSeenLifetime = secs 90"
definition kPendingLifetime :: ticks where "kPendingLifetime = secs 30"

definition expire_seen :: "ticks \<Rightarrow> (seen_key \<rightharpoonup> mesh_seen) \<Rightarrow> (seen_key \<rightharpoonup> mesh_seen)" where
  "expire_seen now seen = (\<lambda>key. case seen key of None \<Rightarrow> None
     | Some entry \<Rightarrow> if kSeenLifetime < now - sn_last entry then None else Some entry)"

definition ack_outbound :: "mesh_ack \<Rightarrow> outbound" where
  "ack_outbound ack = \<lparr>ob_destination = ak_destination ack, ob_app_key_index = ak_app_key_index ack,
     ob_element_index = 0, ob_segmented = False, ob_acknowledgement = True, ob_data = ak_data ack,
     ob_transfer = None\<rparr>"

definition note_expiry :: "ticks \<Rightarrow> mesh_peer_state \<Rightarrow> mesh_peer_state" where
  "note_expiry now state =
     (let expiries = min (pr_consecutive_expiries state + 1) 6
      in state\<lparr>pr_consecutive_expiries := expiries,
               pr_retry_after := now + secs (int (min (5 * expiries) 30))\<rparr>)"

section \<open>One awaited peer\<close>

definition check_transfer :: "ticks \<Rightarrow> u16 \<Rightarrow> bool \<Rightarrow> u16 \<Rightarrow> mesh_target \<Rightarrow> tick_acc \<Rightarrow> mesh_target \<times> tick_acc" where
  "check_transfer now sequence native peer target acc =
     (case mg_transfer target of
        Some handle \<Rightarrow>
          if native \<and> mg_transfer_check_at target \<le> now
          then (target\<lparr>mg_transfer_check_at := now + millis 100\<rparr>,
                acc\<lparr>ta_checks := ta_checks acc @
                  [\<lparr>tc_sequence = sequence, tc_destination = peer, tc_handle = handle\<rparr>]\<rparr>)
          else (target, acc)
      | None \<Rightarrow> (target, acc))"

definition schedule_target ::
    "ticks \<Rightarrow> u16 \<Rightarrow> mesh_pending \<Rightarrow> u16 \<Rightarrow> mesh_target \<Rightarrow> tick_acc \<Rightarrow> mesh_target \<times> tick_acc" where
  "schedule_target now sequence pending peer target acc =
     (case check_transfer now sequence (mp_native_completion_releases pending) peer target acc of
        (target, acc) \<Rightarrow>
          if mg_receipt_query_at target \<le> now \<and> now < mg_retry_at target then
            let query = (take kReliableAckHeaderBytes (mp_data pending))[3 := kReliableReceiptQuery]
            in (target\<lparr>mg_receipt_query_at := now + kReceiptQueryPeriod\<rparr>,
                acc\<lparr>ta_outbound := ta_outbound acc @
                  [\<lparr>ob_destination = peer, ob_app_key_index = mp_app_key_index pending,
                    ob_element_index = mp_element_index pending, ob_segmented = False,
                    ob_acknowledgement = False, ob_data = query, ob_transfer = mg_transfer target\<rparr>]\<rparr>)
          else if now < mg_retry_at target \<or> 3 \<le> mg_attempts target \<or> peer \<in> set (ta_repairs acc) \<or>
                  now < pr_retry_after (ta_peers acc peer)
          then (target, acc)
          else
            let repair = (mp_data pending)[3 := (if peer = mp_turn_successor pending then kReliableData
                                                 else kReliableDataNoTurn)];
                attempts = mg_attempts target + 1
            in (target\<lparr>mg_attempts := attempts, mg_receipt_query_at := now + kReceiptQueryPeriod,
                       mg_retry_at := now + secs (int (4 * (attempts + 1)))\<rparr>,
                acc\<lparr>ta_outbound := ta_outbound acc @
                      [\<lparr>ob_destination = peer, ob_app_key_index = mp_app_key_index pending,
                        ob_element_index = mp_element_index pending,
                        ob_segmented = mp_force_segmented pending, ob_acknowledgement = False,
                        ob_data = repair, ob_transfer = None\<rparr>],
                    ta_repairs := ta_repairs acc @ [peer]\<rparr>))"

fun schedule_targets ::
    "ticks \<Rightarrow> u16 \<Rightarrow> mesh_pending \<Rightarrow> (u16 \<times> mesh_target) list \<Rightarrow> tick_acc \<Rightarrow>
     (u16 \<times> mesh_target) list \<times> tick_acc" where
  "schedule_targets now sequence pending [] acc = ([], acc)"
| "schedule_targets now sequence pending ((peer, target) # targets) acc =
     (if kMaxTickOutbound \<le> length (ta_outbound acc) then ((peer, target) # targets, acc)
      else case schedule_target now sequence pending peer target acc of
        (target, acc) \<Rightarrow> (case schedule_targets now sequence pending targets acc of
           (targets, acc) \<Rightarrow> ((peer, target) # targets, acc)))"

section \<open>One outstanding sample\<close>

definition take_newest :: "u16 \<Rightarrow> mesh_pending \<Rightarrow> tick_acc \<Rightarrow> mesh_pending \<times> tick_acc" where
  "take_newest sequence pending acc =
     (case map_of (ta_latest acc) (mp_channel_key pending) of
        None \<Rightarrow> (pending, acc)
      | Some (bridge, payload) \<Rightarrow>
          (pending\<lparr>mp_data := make_mesh_reliable_data payload sequence
                      (mesh_reliable_swarm_id (mp_data pending))\<rparr>,
           acc\<lparr>ta_latest := ordered_del (mp_channel_key pending) (ta_latest acc)\<rparr>))"

definition expire_pending_sample :: "ticks \<Rightarrow> mesh_pending \<Rightarrow> tick_acc \<Rightarrow> tick_acc" where
  "expire_pending_sample now pending acc =
     acc\<lparr>ta_cancellations := ta_cancellations acc @ target_transfers pending @
           (case mp_primary_transfer pending of None \<Rightarrow> [] | Some handle \<Rightarrow> [handle]),
         ta_peers := fold (\<lambda>x peers. peers(fst x := note_expiry now (peers (fst x))))
           (mp_awaiting pending) (ta_peers acc)\<rparr>"

definition tick_pending :: "ticks \<Rightarrow> u16 \<Rightarrow> mesh_pending \<Rightarrow> tick_acc \<Rightarrow> mesh_pending option \<times> tick_acc" where
  "tick_pending now sequence pending acc =
     (if mp_awaiting pending = [] then
        (None, acc\<lparr>ta_cancellations := ta_cancellations acc @
           (case mp_primary_transfer pending of None \<Rightarrow> [] | Some handle \<Rightarrow> [handle])\<rparr>)
      else if kPendingLifetime < now - mp_created pending
      then (None, expire_pending_sample now pending acc)
      else case take_newest sequence pending acc of
        (pending, acc) \<Rightarrow> (case schedule_targets now sequence pending (mp_awaiting pending) acc of
           (awaiting, acc) \<Rightarrow> (Some (pending\<lparr>mp_awaiting := awaiting\<rparr>), acc)))"

fun tick_all_pending ::
    "ticks \<Rightarrow> (u16 \<times> mesh_pending) list \<Rightarrow> tick_acc \<Rightarrow> (u16 \<times> mesh_pending) list \<times> tick_acc" where
  "tick_all_pending now [] acc = ([], acc)"
| "tick_all_pending now ((sequence, pending) # samples) acc =
     (case tick_pending now sequence pending acc of
        (kept, acc) \<Rightarrow> (case tick_all_pending now samples acc of
           (samples, acc) \<Rightarrow>
             (case kept of None \<Rightarrow> samples | Some pending \<Rightarrow> (sequence, pending) # samples, acc)))"

section \<open>The critical section\<close>

definition collect_tick ::
    "ticks \<Rightarrow> reliable \<Rightarrow>
     reliable \<times> outbound list \<times> transfer_check list \<times> (shared_topic_config \<times> u8 list) list" where
  "collect_tick now r =
     (let acks = take 4 (rl_acks r);
          acc = \<lparr>ta_latest = rl_latest r, ta_cancellations = rl_cancellations r, ta_peers = rl_peers r,
                 ta_outbound = map ack_outbound acks, ta_checks = [], ta_repairs = []\<rparr>
      in case tick_all_pending now (rl_pending r) acc of
           (pending, acc) \<Rightarrow>
             let r = r\<lparr>rl_seen := expire_seen now (rl_seen r), rl_acks := drop 4 (rl_acks r),
                       rl_pending := pending, rl_cancellations := ta_cancellations acc,
                       rl_peers := ta_peers acc\<rparr>;
                 ready = filter (\<lambda>x. \<not> channel_busy (fst x) r) (ta_latest acc)
             in (r\<lparr>rl_latest := filter (\<lambda>x. channel_busy (fst x) r) (ta_latest acc)\<rparr>,
                 ta_outbound acc, ta_checks acc, map snd ready))"

section \<open>The daemon calls after it\<close>

definition transfer_finished :: "transfer_check \<Rightarrow> reliable \<Rightarrow> reliable" where
  "transfer_finished check r =
     (case map_of (rl_pending r) (tc_sequence check) of
        None \<Rightarrow> r
      | Some sample \<Rightarrow>
          (case map_of (mp_awaiting sample) (tc_destination check) of
             None \<Rightarrow> r
           | Some target \<Rightarrow>
               if mg_transfer target \<noteq> Some (tc_handle check) then r
               else r\<lparr>rl_pending := ordered_upd (tc_sequence check)
                       (\<lambda>p. p\<lparr>mp_awaiting := ordered_upd (tc_destination check)
                                (\<lambda>t. t\<lparr>mg_transfer := None\<rparr>) (mp_awaiting p),
                             mp_blocks_channel := False\<rparr>) (rl_pending r)\<rparr>))"

definition run_check ::
    "radio \<Rightarrow> transfer_check \<Rightarrow> radio_call list \<times> reliable \<Rightarrow> radio_call list \<times> reliable" where
  "run_check radio check st =
     (case st of (calls, r) \<Rightarrow>
        (calls @ [Send_pending (tc_handle check)],
         case ra_send_pending radio calls (tc_handle check) of
           Inr False \<Rightarrow> transfer_finished check r | Inr True \<Rightarrow> r | Inl error \<Rightarrow> r))"

definition defer_outbound :: "u16 \<Rightarrow> u8 list \<Rightarrow> ticks \<Rightarrow> reliable \<Rightarrow> reliable" where
  "defer_outbound destination data retry_at r =
     (let r = note_transport_busy destination retry_at r
      in r\<lparr>rl_pending := ordered_upd (mesh_reliable_sequence data)
            (\<lambda>p. p\<lparr>mp_awaiting := ordered_upd destination
                     (\<lambda>t. t\<lparr>mg_attempts := (if 0 < mg_attempts t then mg_attempts t - 1 else mg_attempts t),
                            mg_retry_at := retry_at\<rparr>) (mp_awaiting p)\<rparr>) (rl_pending r)\<rparr>)"

definition requeue_ack :: "outbound \<Rightarrow> reliable \<Rightarrow> reliable" where
  "requeue_ack item r =
     (if ob_acknowledgement item \<and> length (rl_acks r) < kMaxQueuedMeshAcks
      then r\<lparr>rl_acks := \<lparr>ak_destination = ob_destination item, ak_app_key_index = ob_app_key_index item,
                         ak_data = ob_data item\<rparr> # rl_acks r\<rparr>
      else r)"

definition outbound_result ::
    "outbound \<Rightarrow> std_error + send_handle option \<Rightarrow> ticks \<Rightarrow> reliable \<Rightarrow> reliable" where
  "outbound_result item outcome now r =
     (case outcome of
        Inr (Some handle) \<Rightarrow>
          if ob_data item ! 3 = kReliableData \<or> ob_data item ! 3 = kReliableDataNoTurn
          then remember_mesh_transfer (mesh_reliable_sequence (ob_data item)) (ob_destination item) handle now r
          else r
      | Inr None \<Rightarrow> defer_outbound (ob_destination item) (ob_data item) (now + kMeshQueueRetryDelay) r
      | Inl error \<Rightarrow> requeue_ack item r)"

definition submit_outbound ::
    "radio \<Rightarrow> outbound \<Rightarrow> radio_call list \<times> reliable \<Rightarrow> radio_call list \<times> reliable" where
  "submit_outbound radio item st =
     (case st of (calls, r) \<Rightarrow>
        let outcome = ra_try_send radio calls (ob_element_index item) (ob_destination item)
              (ob_app_key_index item) (ob_segmented item) (ob_data item);
            calls = calls @ [Try_send (ob_element_index item) (ob_destination item)
                               (ob_app_key_index item) (ob_segmented item) (ob_data item)]
        in (calls, outbound_result item outcome (ra_clock radio calls) r))"

definition send_outbound ::
    "radio \<Rightarrow> outbound \<Rightarrow> radio_call list \<times> reliable \<Rightarrow> radio_call list \<times> reliable" where
  "send_outbound radio item st =
     (case st of (calls, r) \<Rightarrow>
        (case (ob_data item ! 3 = kReliableReceiptQuery, ob_transfer item) of
           (True, Some handle) \<Rightarrow>
             (case ra_send_pending radio calls handle of
                Inl error \<Rightarrow> (calls @ [Send_pending handle], requeue_ack item r)
              | Inr True \<Rightarrow> (calls @ [Send_pending handle], r)
              | Inr False \<Rightarrow> submit_outbound radio item (calls @ [Send_pending handle], r))
         | _ \<Rightarrow> submit_outbound radio item (calls, r)))"

definition resume_sample ::
    "radio \<Rightarrow> mesh_status option \<Rightarrow> shared_topic_config \<times> u8 list \<Rightarrow> radio_call list \<times> mesh_node \<Rightarrow>
     radio_call list \<times> mesh_node" where
  "resume_sample radio app sample st =
     (case send_mesh_bridge_payload_impl radio (ra_clock radio (fst st)) app (fst sample) (snd sample)
             True st of
        (calls, nd, error) \<Rightarrow> (calls, nd))"

section \<open>The whole tick\<close>

definition maintain_mesh_reliable ::
    "radio \<Rightarrow> ticks \<Rightarrow> mesh_status option \<Rightarrow> radio_call list \<times> mesh_node \<Rightarrow> radio_call list \<times> mesh_node" where
  "maintain_mesh_reliable radio now app st =
     (case st of (calls, nd) \<Rightarrow>
        let (calls, r) = (if nd_reset_requested nd
               then clear_mesh_reliable_state radio calls True (nd_reliable nd)
               else (calls, nd_reliable nd))
        in case collect_tick now r of
             (r, outbound, checks, ready) \<Rightarrow>
               let (calls, r) = fold (run_check radio) checks (calls, r);
                   (calls, r) = flush_mesh_transfer_cancellations radio calls r;
                   (calls, r) = fold (send_outbound radio) outbound (calls, r)
               in fold (resume_sample radio app) ready
                    (calls, nd\<lparr>nd_reliable := r, nd_reset_requested := False\<rparr>))"

end
