(* ===== verification/Reliable_Frames.thy ===== *)
theory Reliable_Frames
  imports Reliable_Tick
begin

text \<open>
  The reliable frames: what the sender writes, the receiver reads back; the receipt it answers
  with completes exactly the awaited peer at the sender.
\<close>

section \<open>Reading the header back\<close>

lemma join_bytes_ucast [simp]: "join_bytes (ucast w) (ucast (drop_bit 8 w)) = w"
proof -
  have "lo_byte w = ucast w"
  proof (rule bit_word_eqI)
    fix n assume "n < LENGTH(8)"
    moreover have "bit (255::16 word) n \<longleftrightarrow> n < 8"
      using bit_mask_iff [where 'a = "16 word", of 8 n] by (auto simp: mask_eq_exp_minus_1)
    ultimately show "bit (lo_byte w) n \<longleftrightarrow> bit (ucast w :: u8) n"
      by (simp add: lo_byte_def bit_simps)
  qed
  then show ?thesis using join_bytes_split [of w] by (simp add: hi_byte_def)
qed

lemma length_make_reliable:
  "8 \<le> length payload \<Longrightarrow> length (make_mesh_reliable_data payload sequence sw) = length payload + 2"
  by (simp add: make_mesh_reliable_data_def append_mesh_reliable_sequence_def
      append_mesh_reliable_swarm_id_def reliable_sizes)

lemma take_nth: "n \<le> length xs \<Longrightarrow> take n xs = map ((!) xs) [0..<n]"
  by (rule nth_equalityI) simp_all

lemma take_3_nth: "3 \<le> length xs \<Longrightarrow> take 3 xs = [xs ! 0, xs ! 1, xs ! 2]"
  by (simp add: take_nth upt_rec numeral_eq_Suc)

lemma make_reliable_eq:
  assumes "8 \<le> length payload"
  shows "make_mesh_reliable_data payload sequence sw =
    [payload ! 0, payload ! 1, payload ! 2, kReliableDataNoTurn, ucast sequence, ucast (drop_bit 8 sequence),
     ucast sw, ucast (drop_bit 8 sw), payload ! 6, payload ! 7] @ drop 8 payload"
  using assms by (simp add: make_mesh_reliable_data_def append_mesh_reliable_sequence_def
      append_mesh_reliable_swarm_id_def reliable_sizes take_3_nth)

lemma mark_turn_frame:
  assumes "8 \<le> length payload"
  shows "mark_turn handoff (make_mesh_reliable_data payload sequence sw) =
    [payload ! 0, payload ! 1, payload ! 2, if handoff then kReliableData else kReliableDataNoTurn,
     ucast sequence, ucast (drop_bit 8 sequence), ucast sw, ucast (drop_bit 8 sw), payload ! 6, payload ! 7]
     @ drop 8 payload"
  using assms by (simp add: mark_turn_def make_reliable_eq numeral_3_eq_3)

lemma header_nth [simp]:
  "(x # xs) ! 4 = xs ! 3" "(x # xs) ! 3 = xs ! 2" "(x # xs) ! 5 = xs ! 4" "(x # xs) ! 6 = xs ! 5"
  "(x # xs) ! 7 = xs ! 6" "(x # xs) ! 8 = xs ! 7" "(x # xs) ! 9 = xs ! 8" "(x # xs) ! 2 = xs ! 1"
  by (simp_all add: numeral_eq_Suc)

lemma make_reliable_header:
  assumes "8 \<le> length payload"
  shows "mesh_reliable_sequence (mark_turn h (make_mesh_reliable_data payload sequence sw)) = sequence"
    and "mesh_reliable_swarm_id (mark_turn h (make_mesh_reliable_data payload sequence sw)) = sw"
    and "mesh_reliable_sequence (make_mesh_reliable_data payload sequence sw) = sequence"
    and "mesh_reliable_swarm_id (make_mesh_reliable_data payload sequence sw) = sw"
  using assms by (simp_all only: mesh_reliable_sequence_def mesh_reliable_swarm_id_def mark_turn_frame)
    (simp_all add: mesh_reliable_sequence_def mesh_reliable_swarm_id_def make_reliable_eq)

text \<open>C32: a reliable frame carries its sample. Whatever valid bridge payload is wrapped, with and
  without the turn marker, the receiver recognises a reliable data frame, reads the sequence
  number and swarm back, sees the turn marker exactly when it was set, and unwraps the
  original payload byte for byte.\<close>

theorem reliable_frame_roundtrip:
  assumes "valid_bridge_frame payload"
    and "frame = mark_turn handoff (make_mesh_reliable_data payload sequence swarm_id)"
  shows "is_mesh_reliable_frame frame \<and> is_data_frame frame \<and> \<not> is_receipt frame \<and> \<not> is_receipt_query frame
    \<and> mesh_reliable_sequence frame = sequence \<and> mesh_reliable_swarm_id frame = swarm_id
    \<and> (frame ! 3 = kReliableData \<longleftrightarrow> handoff)
    \<and> decoded_payload frame = payload"
proof -
  have len: "8 \<le> length payload" and magic: "payload ! 3 = 77" "payload ! 4 = 66" "payload ! 5 = 1"
    using assms(1) by (simp_all add: valid_bridge_frame_def reliable_sizes)
  note eq = mark_turn_frame [OF len, of handoff sequence swarm_id, folded assms(2)]
  have split: "payload = [payload ! 0, payload ! 1, payload ! 2, payload ! 3, payload ! 4, payload ! 5,
      payload ! 6, payload ! 7] @ drop 8 payload"
    using take_nth [OF len] append_take_drop_id [of 8 payload]
    by (simp add: upt_rec numeral_eq_Suc)
  have "decoded_payload frame = payload"
    by (subst split) (simp add: eq decoded_payload_def reliable_sizes magic)
  then show ?thesis
    using len make_reliable_header(1,2) [OF len, of handoff sequence swarm_id, folded assms(2)]
    by (simp add: eq is_mesh_reliable_frame_def is_data_frame_def is_receipt_def is_receipt_query_def
        reliable_sizes reliable_opcodes)
qed

theorem reliable_frame_roundtrip_witness:
  "decoded_payload (mark_turn True (make_mesh_reliable_data [193, 241, 5, 77, 66, 1, 7, 0, 42] 258 3))
    = [193, 241, 5, 77, 66, 1, 7, 0, 42]"
  using reliable_frame_roundtrip [of "[193, 241, 5, 77, 66, 1, 7, 0, 42]" _ True 258 3, OF _ refl]
  by (simp add: valid_bridge_frame_def reliable_sizes)

section \<open>Receipts\<close>

lemma make_acknowledgement_eq:
  "3 \<le> length data \<Longrightarrow> make_acknowledgement data =
     [data ! 0, data ! 1, data ! 2, kReliableAck,
      ucast (mesh_reliable_sequence data), ucast (drop_bit 8 (mesh_reliable_sequence data)),
      ucast (mesh_reliable_swarm_id data), ucast (drop_bit 8 (mesh_reliable_swarm_id data))]"
  by (simp add: make_acknowledgement_def append_mesh_reliable_sequence_def
      append_mesh_reliable_swarm_id_def reliable_sizes take_3_nth Let_def)

lemma make_acknowledgement_header:
  assumes "3 \<le> length data"
  shows "mesh_reliable_sequence (make_acknowledgement data) = mesh_reliable_sequence data"
    and "mesh_reliable_swarm_id (make_acknowledgement data) = mesh_reliable_swarm_id data"
  using assms by (simp_all only: make_acknowledgement_eq mesh_reliable_sequence_def [of "_ # _"]
      mesh_reliable_swarm_id_def [of "_ # _"]) simp_all

text \<open>A receipt completes exactly the peer that sent it. The acknowledgement a receiver builds
  for a frame of an outstanding sample is recognised as a receipt; received from an awaited
  peer under the sample's application key, it removes that peer from the awaited ones, hands its
  transfer to cancellation, clears its expiry penalty, and changes nothing else: no other peer of
  the sample, no other sample and no waiting value.\<close>

theorem receipt_completes_target:
  assumes "map_of (rl_pending r) sequence = Some p" and "valid_bridge_frame payload"
    and "mp_data p = make_mesh_reliable_data payload sequence swarm_id"
    and "map_of (mp_awaiting p) peer = Some target"
    and "ack = make_acknowledgement (mark_turn handoff (mp_data p))"
  shows "is_mesh_reliable_frame ack \<and> is_receipt ack \<and>
    receive_ack peer (mp_app_key_index p) ack r =
      r\<lparr>rl_pending := ordered_upd sequence (\<lambda>p. p\<lparr>mp_awaiting := ordered_del peer (mp_awaiting p)\<rparr>)
                        (rl_pending r),
        rl_cancellations := rl_cancellations r @
          (case mg_transfer target of None \<Rightarrow> [] | Some handle \<Rightarrow> [handle]),
        rl_peers := (rl_peers r)(peer := default_peer_state)\<rparr>"
proof -
  have len: "8 \<le> length payload" using assms(2) by (simp add: valid_bridge_frame_def reliable_sizes)
  let ?frame = "mark_turn handoff (make_mesh_reliable_data payload sequence swarm_id)"
  have l3: "3 \<le> length ?frame" using len by (simp add: mark_turn_frame)
  have ack: "ack = make_acknowledgement ?frame" by (simp add: assms(3,5))
  have h: "mesh_reliable_sequence ack = sequence" "mesh_reliable_swarm_id ack = swarm_id"
    using make_acknowledgement_header [OF l3] make_reliable_header(1,2) [OF len] by (simp_all add: ack)
  have ack_eq: "ack = [payload ! 0, payload ! 1, payload ! 2, kReliableAck, ucast sequence,
      ucast (drop_bit 8 sequence), ucast swarm_id, ucast (drop_bit 8 swarm_id)]"
    unfolding ack make_acknowledgement_eq [OF l3] make_reliable_header(1,2) [OF len]
    by (simp only: mark_turn_frame [OF len]) simp
  have "take 3 ack = take 3 (mp_data p)"
    by (simp add: ack_eq assms(3) make_reliable_eq [OF len] numeral_3_eq_3)
  then have "receive_ack peer (mp_app_key_index p) ack r =
      r\<lparr>rl_pending := ordered_upd sequence (\<lambda>p. p\<lparr>mp_awaiting := ordered_del peer (mp_awaiting p)\<rparr>)
                        (rl_pending r),
        rl_cancellations := rl_cancellations r @
          (case mg_transfer target of None \<Rightarrow> [] | Some handle \<Rightarrow> [handle]),
        rl_peers := (rl_peers r)(peer := default_peer_state)\<rparr>"
    using len by (simp add: receive_ack_def h assms(1,4) kMeshVendorPrefixBytes_def)
      (simp add: assms(3) make_reliable_header(4) [OF len])
  moreover have "is_mesh_reliable_frame ack" "is_receipt ack"
    by (simp_all add: ack_eq is_mesh_reliable_frame_def is_receipt_def reliable_sizes)
  ultimately show ?thesis by simp
qed

definition demo_target :: mesh_target where
  "demo_target = \<lparr>mg_attempts = 1, mg_transfer = None, mg_retry_at = 0, mg_receipt_query_at = 0,
     mg_transfer_check_at = 0\<rparr>"

text \<open>One sample awaiting peers 10 and 11; the receipt of 10 leaves 11.\<close>

theorem receipt_completes_target_witness:
  "\<exists>p. map fst (mp_awaiting p) = [10, 11] \<and>
     map fst (mp_awaiting (snd (hd (rl_pending (receive_ack 10 (mp_app_key_index p)
       (make_acknowledgement (mark_turn True (mp_data p))) ((empty_reliable 0)\<lparr>rl_pending := [(258, p)]\<rparr>)))))) = [11]"
proof -
  let ?payload = "[193, 241, 5, 77, 66, 1, 7, 0, 42]"
  define p where "p = (new_pending 0 default_shared_topic_config 1 (make_mesh_reliable_data ?payload 258 3) [10, 11]
    None)\<lparr>mp_awaiting := [(10, demo_target), (11, demo_target)]\<rparr>"
  let ?r = "(empty_reliable 0)\<lparr>rl_pending := [(258, p)]\<rparr>"
  have h: "map_of (rl_pending ?r) 258 = Some p" "valid_bridge_frame ?payload"
    "mp_data p = make_mesh_reliable_data ?payload 258 3" "map_of (mp_awaiting p) 10 = Some demo_target"
    by (simp_all add: valid_bridge_frame_def reliable_sizes p_def new_pending_def)
  show ?thesis
    using receipt_completes_target [OF h refl, of True]
    by (intro exI [of _ p]) (simp add: ordered_upd_def ordered_del_def, simp add: p_def)
qed

end
