(* ===== verification/Reliable_Correct.thy ===== *)
theory Reliable_Correct
  imports Reliable_Frames
begin

text \<open>
  Invariants of the reliable delivery state, proved for each critical section, and what one send
  and one tick do to it.
\<close>

section \<open>Well-formed state\<close>

definition target_ok :: "mesh_target \<Rightarrow> bool" where
  "target_ok t \<longleftrightarrow> mg_attempts t \<le> 3"

definition sample_ok :: "u16 \<Rightarrow> mesh_pending \<Rightarrow> bool" where
  "sample_ok sequence p \<longleftrightarrow> ordered_keys (mp_awaiting p) \<and> (\<forall>x\<in>set (mp_awaiting p). target_ok (snd x)) \<and>
     (\<exists>payload swarm_id. valid_bridge_frame payload \<and>
        mp_data p = make_mesh_reliable_data payload sequence swarm_id)"

definition pending_ok :: "(u16 \<times> mesh_pending) list \<Rightarrow> bool" where
  "pending_ok m \<longleftrightarrow> ordered_keys m \<and> length m \<le> kMaxPendingMeshSamples \<and>
     (\<forall>x\<in>set m. sample_ok (fst x) (snd x))"

definition latest_ok :: "(u64 \<times> shared_topic_config \<times> u8 list) list \<Rightarrow> bool" where
  "latest_ok m \<longleftrightarrow> ordered_keys m \<and> (\<forall>x\<in>set m. valid_bridge_frame (snd (snd x)))"

definition reliable_inv :: "reliable \<Rightarrow> bool" where
  "reliable_inv r \<longleftrightarrow> pending_ok (rl_pending r) \<and> latest_ok (rl_latest r) \<and>
     length (rl_acks r) \<le> kMaxQueuedMeshAcks"

lemma sample_ok_upd:
  assumes "sample_ok sequence p" and "\<And>t. target_ok t \<Longrightarrow> target_ok (f t)"
  shows "sample_ok sequence (p\<lparr>mp_awaiting := ordered_upd peer f (mp_awaiting p)\<rparr>)"
  using assms by (auto simp: sample_ok_def set_ordered_upd)

lemma sample_ok_del:
  "sample_ok sequence p \<Longrightarrow> sample_ok sequence (p\<lparr>mp_awaiting := ordered_del peer (mp_awaiting p)\<rparr>)"
  by (auto simp: sample_ok_def set_ordered_del)

lemma sample_ok_fields [simp]:
  "sample_ok sequence (p\<lparr>mp_primary_transfer := h\<rparr>) = sample_ok sequence p"
  "sample_ok sequence (p\<lparr>mp_blocks_channel := b\<rparr>) = sample_ok sequence p"
  by (simp_all add: sample_ok_def)

lemma pending_ok_Nil [simp]: "pending_ok []" and latest_ok_Nil [simp]: "latest_ok []"
  by (simp_all add: pending_ok_def latest_ok_def)

lemma pending_ok_upd:
  assumes "pending_ok m" and "\<And>p. sample_ok sequence p \<Longrightarrow> sample_ok sequence (f p)"
  shows "pending_ok (ordered_upd sequence f m)"
proof -
  have "sample_ok (fst y) (snd y)" if y: "y \<in> set (ordered_upd sequence f m)" for y
  proof -
    obtain k v where "(k, v) \<in> set m" and eq: "y = (if k = sequence then (k, f v) else (k, v))"
      using y by (auto simp: set_ordered_upd)
    then have "sample_ok k v" using assms(1) by (auto simp: pending_ok_def)
    then show ?thesis using assms(2) by (cases "k = sequence") (simp_all add: eq)
  qed
  then show ?thesis using assms(1) by (simp add: pending_ok_def)
qed

lemma pending_ok_del: "pending_ok m \<Longrightarrow> pending_ok (ordered_del sequence m)"
  by (simp add: pending_ok_def set_ordered_del le_trans [OF length_ordered_del])

lemma latest_ok_put: "latest_ok m \<Longrightarrow> valid_bridge_frame (snd sample) \<Longrightarrow> latest_ok (ordered_put k sample m)"
  using set_ordered_put [of k sample m] by (auto simp: latest_ok_def)

lemma latest_ok_del: "latest_ok m \<Longrightarrow> latest_ok (ordered_del k m)"
  by (simp add: latest_ok_def set_ordered_del)

lemma latest_ok_filter: "latest_ok m \<Longrightarrow> latest_ok (filter P m)"
  by (simp add: latest_ok_def)

lemma reliable_inv_empty [simp]: "reliable_inv (empty_reliable n)"
  by (simp add: reliable_inv_def empty_reliable_def)

lemma reliable_inv_irrelevant [simp]:
  "reliable_inv (r\<lparr>rl_seen := a\<rparr>) = reliable_inv r"
  "reliable_inv (r\<lparr>rl_cancellations := b\<rparr>) = reliable_inv r"
  "reliable_inv (r\<lparr>rl_peers := c\<rparr>) = reliable_inv r"
  "reliable_inv (r\<lparr>rl_turns := d\<rparr>) = reliable_inv r"
  "reliable_inv (r\<lparr>rl_next_probe_at := e\<rparr>) = reliable_inv r"
  "reliable_inv (r\<lparr>rl_probe_cursor := f\<rparr>) = reliable_inv r"
  "reliable_inv (r\<lparr>rl_next_sequence := g\<rparr>) = reliable_inv r"
  by (simp_all add: reliable_inv_def)

lemma pending_upd_inv:
  "reliable_inv r \<Longrightarrow> (\<And>p. sample_ok sequence p \<Longrightarrow> sample_ok sequence (f p)) \<Longrightarrow>
   reliable_inv (r\<lparr>rl_pending := ordered_upd sequence f (rl_pending r)\<rparr>)"
  by (simp add: reliable_inv_def pending_ok_upd)

lemma pending_del_inv:
  "reliable_inv r \<Longrightarrow> reliable_inv (r\<lparr>rl_pending := ordered_del sequence (rl_pending r)\<rparr>)"
  by (simp add: reliable_inv_def pending_ok_del)

section \<open>Every critical section keeps the invariant\<close>

lemma inv_remember: "reliable_inv r \<Longrightarrow> reliable_inv (remember_mesh_transfer sequence peer h now r)"
proof -
  assume inv: "reliable_inv r"
  have *: "sample_ok sequence (p\<lparr>mp_awaiting := ordered_upd peer
      (\<lambda>t. t\<lparr>mg_transfer := Some h, mg_transfer_check_at := now + millis 100\<rparr>) (mp_awaiting p),
      mp_blocks_channel := True\<rparr>)" if "sample_ok sequence p" for p
    using sample_ok_upd [OF that, of "\<lambda>t. t\<lparr>mg_transfer := Some h, mg_transfer_check_at := now + millis 100\<rparr>"]
    by (simp add: target_ok_def)
  show ?thesis
    using inv pending_upd_inv [OF inv *]
      pending_upd_inv [OF inv, of sequence "\<lambda>p. p\<lparr>mp_primary_transfer := Some h\<rparr>"]
    by (simp add: remember_mesh_transfer_def split: option.split)
qed

lemma inv_clear: "reliable_inv r \<Longrightarrow> reliable_inv (clear_reliable b r)"
  by (simp add: reliable_inv_def clear_reliable_def)

lemma inv_receive_ack: "reliable_inv r \<Longrightarrow> reliable_inv (receive_ack source key data r)"
  by (simp add: receive_ack_def Let_def reliable_inv_def pending_ok_upd sample_ok_del split: option.split)

lemma inv_queue_ack: "reliable_inv r \<Longrightarrow> reliable_inv (queue_ack source key data r)"
  by (simp add: queue_ack_def Let_def reliable_inv_def)

lemma inv_receive_begin: "reliable_inv r \<Longrightarrow> reliable_inv (fst (receive_begin now source key data r))"
  by (simp add: receive_begin_def Let_def inv_queue_ack split: option.split)

lemma inv_receive_end:
  "reliable_inv r \<Longrightarrow> reliable_inv (receive_end now e source key data ok local_address members r)"
  by (simp add: receive_end_def Let_def inv_queue_ack split: option.split)

lemma inv_store_latest:
  "reliable_inv r \<Longrightarrow> valid_bridge_frame (snd sample) \<Longrightarrow> reliable_inv (store_latest resumed k sample r)"
  by (simp add: store_latest_def reliable_inv_def latest_ok_put)

lemma inv_claim: "reliable_inv r \<Longrightarrow> claim_channel resumed k r = Some r' \<Longrightarrow> reliable_inv r'"
  by (auto simp: claim_channel_def reliable_inv_def latest_ok_del split: if_splits)

lemma choose_targets_frame:
  "choose_targets now members candidates r = (r', targets) \<Longrightarrow>
     rl_pending r' = rl_pending r \<and> rl_latest r' = rl_latest r \<and> rl_acks r' = rl_acks r \<and>
     rl_turns r' = rl_turns r \<and> rl_seen r' = rl_seen r \<and> rl_cancellations r' = rl_cancellations r"
  by (auto simp: choose_targets_def split: if_splits option.splits)

lemma inv_choose_targets:
  "reliable_inv r \<Longrightarrow> choose_targets now members candidates r = (r', targets) \<Longrightarrow> reliable_inv r'"
  by (simp add: reliable_inv_def choose_targets_frame)

lemma inv_plan:
  assumes "reliable_inv r" and "valid_bridge_frame (snd sample)"
  shows "reliable_inv (fst (plan_send now resumed k sample members candidates addresses r))"
proof -
  obtain r1 targets where c: "choose_targets now members candidates r = (r1, targets)" by fastforce
  have 1: "reliable_inv r1" using inv_choose_targets [OF assms(1) c] .
  obtain r2 sequence where s: "take_sequence r1 = (r2, sequence)" by fastforce
  have 2: "reliable_inv r2" using s 1 by (auto simp: take_sequence_def Let_def)
  show ?thesis using 1 2 assms(2) by (simp add: plan_send_def c s Let_def inv_store_latest)
qed

lemma oldest_pending_mem: "oldest_pending xs = Some x \<Longrightarrow> x \<in> set xs"
  by (induction xs arbitrary: x) (auto split: option.splits if_splits)

lemma oldest_pending_None [simp]: "oldest_pending xs = None \<longleftrightarrow> xs = []"
  by (cases xs) (auto split: option.splits)

lemma evict_oldest_facts:
  assumes "reliable_inv r"
  shows "reliable_inv (evict_oldest r)" and "length (rl_pending (evict_oldest r)) < kMaxPendingMeshSamples"
proof -
  have "reliable_inv (evict_oldest r) \<and> length (rl_pending (evict_oldest r)) < kMaxPendingMeshSamples"
  proof (cases "kMaxPendingMeshSamples \<le> length (rl_pending r)")
    case True
    then obtain sequence p where o: "oldest_pending (rl_pending r) = Some (sequence, p)"
      by (cases "oldest_pending (rl_pending r)") (auto simp: kMaxPendingMeshSamples_def)
    have "length (ordered_del sequence (rl_pending r)) < length (rl_pending r)"
      using oldest_pending_mem [OF o] by (auto simp: ordered_del_def intro: length_filter_less)
    moreover have "length (rl_pending r) \<le> kMaxPendingMeshSamples"
      using assms by (simp add: reliable_inv_def pending_ok_def)
    ultimately show ?thesis using True o assms
      by (simp add: evict_oldest_def reliable_inv_def pending_ok_del)
  qed (use assms in \<open>simp add: evict_oldest_def\<close>)
  then show "reliable_inv (evict_oldest r)" "length (rl_pending (evict_oldest r)) < kMaxPendingMeshSamples"
    by simp_all
qed

lemma pending_ok_put:
  assumes "pending_ok m" and "sample_ok k p" and "map_of m k = None" and "length m < kMaxPendingMeshSamples"
  shows "pending_ok (ordered_put k p m)"
  using assms set_ordered_put [of k p m] by (auto simp: pending_ok_def length_ordered_put_new)

lemma inv_admit:
  assumes "reliable_inv r" and "sample_ok sequence p"
  shows "reliable_inv (admit_sample sequence p r)"
  using evict_oldest_facts [OF assms(1)] assms(2)
  by (simp add: admit_sample_def Let_def reliable_inv_def pending_ok_put)

lemma fold_new_targets:
  "ordered_keys m \<Longrightarrow> (\<forall>x\<in>set m. target_ok (snd x)) \<Longrightarrow>
   ordered_keys (fold (\<lambda>peer m. if map_of m peer = None then ordered_put peer (new_target now) m else m) peers m) \<and>
   (\<forall>x\<in>set (fold (\<lambda>peer m. if map_of m peer = None then ordered_put peer (new_target now) m else m) peers m).
      target_ok (snd x))"
proof (induction peers arbitrary: m)
  case Nil
  then show ?case by simp
next
  case (Cons peer peers)
  let ?m = "if map_of m peer = None then ordered_put peer (new_target now) m else m"
  have "ordered_keys ?m" "\<forall>x\<in>set ?m. target_ok (snd x)"
    using Cons.prems set_ordered_put [of peer "new_target now" m]
    by (auto simp: target_ok_def new_target_def)
  from Cons.IH [OF this] show ?case by simp
qed

lemma sample_ok_new:
  "valid_bridge_frame payload \<Longrightarrow>
   sample_ok sequence (new_pending now bridge k (make_mesh_reliable_data payload sequence sw) targets successor)"
  using fold_new_targets [of "[]" now targets] by (auto simp: sample_ok_def new_pending_def)

lemma inv_consume: "reliable_inv r \<Longrightarrow> reliable_inv (consume_turn now k successor r)"
  by (simp add: consume_turn_def split: option.split)

lemma inv_defer_target: "reliable_inv r \<Longrightarrow> reliable_inv (defer_target sequence peer t r)"
  unfolding defer_target_def by (rule pending_upd_inv, assumption, rule sample_ok_upd) (simp_all add: target_ok_def)

lemma inv_busy: "reliable_inv r \<Longrightarrow> reliable_inv (note_transport_busy peer t r)"
  by (simp add: note_transport_busy_def)

lemma inv_defer_outbound: "reliable_inv r \<Longrightarrow> reliable_inv (defer_outbound peer data t r)"
  unfolding defer_outbound_def Let_def
  by (rule pending_upd_inv [OF inv_busy], assumption, rule sample_ok_upd) (auto simp: target_ok_def)

lemma inv_finish:
  "reliable_inv r \<Longrightarrow> valid_bridge_frame (snd sample) \<Longrightarrow>
   reliable_inv (finish_send admitted resumed k sample sequence successor r)"
  by (simp add: finish_send_def Let_def inv_store_latest pending_del_inv split: option.split)

lemma inv_transfer_finished: "reliable_inv r \<Longrightarrow> reliable_inv (transfer_finished check r)"
proof -
  assume inv: "reliable_inv r"
  have *: "sample_ok s (p\<lparr>mp_awaiting := ordered_upd peer (\<lambda>t. t\<lparr>mg_transfer := None\<rparr>) (mp_awaiting p),
      mp_blocks_channel := False\<rparr>)" if "sample_ok s p" for p s peer
    using sample_ok_upd [OF that, of "\<lambda>t. t\<lparr>mg_transfer := None\<rparr>"] by (simp add: target_ok_def)
  show ?thesis
    using inv pending_upd_inv [OF inv *] by (simp add: transfer_finished_def split: option.split)
qed

lemma inv_requeue: "reliable_inv r \<Longrightarrow> reliable_inv (requeue_ack item r)"
  by (simp add: requeue_ack_def reliable_inv_def)

section \<open>The critical section of the tick\<close>

text \<open>What the loop over the awaited peers leaves alone.\<close>

lemma schedule_target_frame:
  assumes "schedule_target now sequence p peer t acc = (t', acc')"
  shows "ta_latest acc' = ta_latest acc" and "ta_cancellations acc' = ta_cancellations acc"
    and "ta_peers acc' = ta_peers acc" and "length (ta_outbound acc') \<le> Suc (length (ta_outbound acc))"
    and "target_ok t \<Longrightarrow> target_ok t'"
  using assms
  by (auto simp: schedule_target_def check_transfer_def Let_def target_ok_def split: option.splits if_splits)

lemma schedule_targets_frame:
  assumes "schedule_targets now sequence p ts acc = (ts', acc')"
  shows "ta_latest acc' = ta_latest acc \<and> ta_cancellations acc' = ta_cancellations acc \<and>
    ta_peers acc' = ta_peers acc \<and> map fst ts' = map fst ts \<and>
    (length (ta_outbound acc) \<le> kMaxTickOutbound \<longrightarrow> length (ta_outbound acc') \<le> kMaxTickOutbound) \<and>
    ((\<forall>x\<in>set ts. target_ok (snd x)) \<longrightarrow> (\<forall>x\<in>set ts'. target_ok (snd x)))"
  using assms
proof (induction ts arbitrary: acc ts' acc')
  case Nil
  then show ?case by simp
next
  case (Cons x ts)
  obtain peer t where x: "x = (peer, t)" by fastforce
  show ?case
  proof (cases "kMaxTickOutbound \<le> length (ta_outbound acc)")
    case True
    with Cons.prems show ?thesis by (auto simp: x)
  next
    case False
    obtain t1 acc1 where 1: "schedule_target now sequence p peer t acc = (t1, acc1)" by fastforce
    obtain ts2 acc2 where 2: "schedule_targets now sequence p ts acc1 = (ts2, acc2)" by fastforce
    have "ts' = (peer, t1) # ts2" "acc' = acc2" using Cons.prems False by (simp_all add: x 1 2)
    moreover have "length (ta_outbound acc1) \<le> kMaxTickOutbound"
      using schedule_target_frame(4) [OF 1] False by simp
    ultimately show ?thesis using schedule_target_frame [OF 1] Cons.IH [OF 2] by (simp add: x)
  qed
qed

lemma sample_ok_data:
  "sample_ok sequence p \<Longrightarrow> valid_bridge_frame payload \<Longrightarrow>
   sample_ok sequence (p\<lparr>mp_data := make_mesh_reliable_data payload sequence sw\<rparr>)"
  by (auto simp: sample_ok_def)

lemma latest_ok_lookup: "latest_ok m \<Longrightarrow> map_of m k = Some (bridge, payload) \<Longrightarrow> valid_bridge_frame payload"
  by (auto simp: latest_ok_def dest!: map_of_SomeD)

lemma take_newest_facts:
  assumes "take_newest sequence p acc = (p', acc')" and "latest_ok (ta_latest acc)" and "sample_ok sequence p"
  shows "latest_ok (ta_latest acc')" and "sample_ok sequence p'"
    and "mp_awaiting p' = mp_awaiting p" and "mp_created p' = mp_created p"
    and "mp_channel_key p' = mp_channel_key p" and "mp_blocks_channel p' = mp_blocks_channel p"
    and "ta_outbound acc' = ta_outbound acc"
  using assms
  by (auto simp: take_newest_def latest_ok_del split: option.splits
      intro!: sample_ok_data latest_ok_lookup [OF assms(2)])

definition kept_sample :: "ticks \<Rightarrow> u16 \<Rightarrow> mesh_pending \<Rightarrow> mesh_pending \<Rightarrow> bool" where
  "kept_sample now sequence p p' \<longleftrightarrow> sample_ok sequence p' \<and> mp_awaiting p' \<noteq> [] \<and>
     map fst (mp_awaiting p') = map fst (mp_awaiting p) \<and> mp_created p' = mp_created p \<and>
     now - mp_created p' \<le> kPendingLifetime \<and> mp_channel_key p' = mp_channel_key p \<and>
     mp_blocks_channel p' = mp_blocks_channel p"

lemma tick_pending_facts:
  assumes "tick_pending now sequence p acc = (kept, acc')" and "latest_ok (ta_latest acc)"
    and "sample_ok sequence p" and "length (ta_outbound acc) \<le> kMaxTickOutbound"
  shows "latest_ok (ta_latest acc') \<and> length (ta_outbound acc') \<le> kMaxTickOutbound \<and>
    (\<forall>p'. kept = Some p' \<longrightarrow> kept_sample now sequence p p')"
proof (cases "mp_awaiting p = [] \<or> kPendingLifetime < now - mp_created p")
  case True
  with assms show ?thesis by (auto simp: tick_pending_def expire_pending_sample_def split: if_splits)
next
  case False
  obtain p1 acc1 where 1: "take_newest sequence p acc = (p1, acc1)" by fastforce
  note f = take_newest_facts [OF 1 assms(2,3)]
  obtain ts acc2 where 2: "schedule_targets now sequence p1 (mp_awaiting p1) acc1 = (ts, acc2)" by fastforce
  note g = schedule_targets_frame [OF 2]
  have "sample_ok sequence (p1\<lparr>mp_awaiting := ts\<rparr>)"
    using f(2) g by (auto simp: sample_ok_def ordered_keys_def)
  moreover have "ts \<noteq> []" using False f(3) g by auto
  moreover have "kept = Some (p1\<lparr>mp_awaiting := ts\<rparr>)" "acc' = acc2"
    using assms(1) False 2 by (simp_all add: tick_pending_def 1)
  moreover have "length (ta_outbound acc2) \<le> kMaxTickOutbound" using g f(7) assms(4) by simp
  moreover have "latest_ok (ta_latest acc2)" using g f(1) by simp
  ultimately show ?thesis using False f(3-6) g by (simp add: kept_sample_def)
qed

lemma tick_all_facts:
  assumes "tick_all_pending now m acc = (m', acc')" and "latest_ok (ta_latest acc)"
    and "\<forall>x\<in>set m. sample_ok (fst x) (snd x)" and "length (ta_outbound acc) \<le> kMaxTickOutbound"
  shows "latest_ok (ta_latest acc') \<and> length (ta_outbound acc') \<le> kMaxTickOutbound \<and>
    length m' \<le> length m \<and> set (map fst m') \<subseteq> set (map fst m) \<and> (ordered_keys m \<longrightarrow> ordered_keys m') \<and>
    (\<forall>(sequence, p')\<in>set m'. \<exists>p. (sequence, p) \<in> set m \<and> kept_sample now sequence p p')"
  using assms
proof (induction m arbitrary: acc m' acc')
  case Nil
  then show ?case by simp
next
  case (Cons x m)
  obtain sequence p where x: "x = (sequence, p)" by fastforce
  obtain kept acc1 where 1: "tick_pending now sequence p acc = (kept, acc1)" by fastforce
  obtain m2 acc2 where 2: "tick_all_pending now m acc1 = (m2, acc2)" by fastforce
  note f = tick_pending_facts [OF 1 Cons.prems(2)]
  have ok: "sample_ok sequence p" using Cons.prems(3) x by simp
  note IH = Cons.IH [OF 2]
  have f': "latest_ok (ta_latest acc1)" "length (ta_outbound acc1) \<le> kMaxTickOutbound"
    "\<And>p'. kept = Some p' \<Longrightarrow> kept_sample now sequence p p'"
    using f [OF ok Cons.prems(4)] by auto
  have I: "latest_ok (ta_latest acc2)" "length (ta_outbound acc2) \<le> kMaxTickOutbound" "length m2 \<le> length m"
    "set (map fst m2) \<subseteq> set (map fst m)" "ordered_keys m \<Longrightarrow> ordered_keys m2"
    "\<forall>(sequence, p')\<in>set m2. \<exists>p. (sequence, p) \<in> set m \<and> kept_sample now sequence p p'"
    using IH f' Cons.prems(3) by simp_all
  have eq: "m' = (case kept of None \<Rightarrow> m2 | Some p' \<Rightarrow> (sequence, p') # m2)" "acc' = acc2"
    using Cons.prems(1) by (simp_all add: x 1 2)
  show ?case
  proof (cases kept)
    case None
    then show ?thesis using I by (auto simp: eq x)
  next
    case (Some p')
    have "ordered_keys (x # m) \<Longrightarrow> ordered_keys ((sequence, p') # m2)"
      using I(4,5) by (fastforce simp: x)
    then show ?thesis using I f'(3) [OF Some] by (auto simp: eq x Some)
  qed
qed

lemma collect_tick_facts:
  assumes "reliable_inv r" and "collect_tick now r = (r', outbound, checks, ready)"
  shows "reliable_inv r'" and "length outbound \<le> kMaxTickOutbound"
    and "\<forall>(sequence, p')\<in>set (rl_pending r'). \<exists>p. (sequence, p) \<in> set (rl_pending r) \<and> kept_sample now sequence p p'"
    and "\<forall>x\<in>set (rl_latest r'). channel_busy (fst x) r'"
    and "\<forall>x\<in>set ready. valid_bridge_frame (snd x)"
proof -
  let ?acc = "\<lparr>ta_latest = rl_latest r, ta_cancellations = rl_cancellations r, ta_peers = rl_peers r,
    ta_outbound = map ack_outbound (take 4 (rl_acks r)), ta_checks = [], ta_repairs = []\<rparr>"
  obtain m acc where t: "tick_all_pending now (rl_pending r) ?acc = (m, acc)" by fastforce
  have p: "pending_ok (rl_pending r)" "latest_ok (rl_latest r)" "length (rl_acks r) \<le> kMaxQueuedMeshAcks"
    using assms(1) by (simp_all add: reliable_inv_def)
  note f = tick_all_facts [OF t]
  have f': "latest_ok (ta_latest acc)" "length (ta_outbound acc) \<le> kMaxTickOutbound"
    "length m \<le> length (rl_pending r)" "ordered_keys m"
    "\<forall>(sequence, p')\<in>set m. \<exists>p. (sequence, p) \<in> set (rl_pending r) \<and> kept_sample now sequence p p'"
    using f p by (simp_all add: pending_ok_def kMaxTickOutbound_def)
  have ok: "pending_ok m"
    using f'(3-5) p(1) by (auto simp: pending_ok_def kept_sample_def)
  have eqs: "rl_pending r' = m" "outbound = ta_outbound acc"
    "rl_latest r' = filter (\<lambda>x. channel_busy (fst x) r') (ta_latest acc)"
    "ready = map snd (filter (\<lambda>x. \<not> channel_busy (fst x) r') (ta_latest acc))" "rl_acks r' = drop 4 (rl_acks r)"
    using assms(2) t by (auto simp: collect_tick_def Let_def channel_busy_def)
  have lf: "latest_ok (rl_latest r')" unfolding eqs(3) by (rule latest_ok_filter [OF f'(1)])
  show "reliable_inv r'" using ok lf p(3) by (simp add: reliable_inv_def eqs(1,5))
  show "length outbound \<le> kMaxTickOutbound" using f'(2) by (simp add: eqs(2))
  show "\<forall>(sequence, p')\<in>set (rl_pending r'). \<exists>p. (sequence, p) \<in> set (rl_pending r) \<and> kept_sample now sequence p p'"
    using f'(5) by (simp add: eqs(1))
  show "\<forall>x\<in>set (rl_latest r'). channel_busy (fst x) r'" by (subst eqs(3)) simp
  show "\<forall>x\<in>set ready. valid_bridge_frame (snd x)" using f'(1) by (auto simp: eqs(4) latest_ok_def)
qed

end
