(* ===== verification/Reliable_Progress.thy ===== *)
theory Reliable_Progress
  imports Reliable_Correct
begin

text \<open>
  What one tick and one send of reliable Mesh delivery achieve: the tick retires exactly the
  samples that are complete or too old and loses no waiting value; a send fans out to the ring
  under the channel's turn and its sample is afterwards outstanding or waiting, never dropped.
\<close>

section \<open>The tick\<close>

definition retired :: "ticks \<Rightarrow> mesh_pending \<Rightarrow> bool" where
  "retired now p \<longleftrightarrow> mp_awaiting p = [] \<or> kPendingLifetime < now - mp_created p"

text \<open>A waiting value of a channel was adopted: an outstanding sample of the channel carries it
  under its own sequence number.\<close>

definition adopted :: "u64 \<Rightarrow> u8 list \<Rightarrow> (u16 \<times> mesh_pending) list \<Rightarrow> bool" where
  "adopted k payload m \<longleftrightarrow> (\<exists>(sequence, p)\<in>set m. mp_channel_key p = k \<and>
     (\<exists>swarm_id. mp_data p = make_mesh_reliable_data payload sequence swarm_id))"

lemma adopted_Cons: "adopted k payload m \<Longrightarrow> adopted k payload (x # m)"
  by (auto simp: adopted_def)

lemma tick_pending_progress:
  assumes "tick_pending now sequence p acc = (kept, acc')"
  shows "kept = None \<longleftrightarrow> retired now p"
    and "map_of (ta_latest acc) k = Some (bridge, payload) \<Longrightarrow>
      map_of (ta_latest acc') k = Some (bridge, payload) \<or>
      (\<exists>p'. kept = Some p' \<and> adopted k payload [(sequence, p')])"
proof -
  obtain p1 acc1 where 1: "take_newest sequence p acc = (p1, acc1)" by fastforce
  obtain ts acc2 where 2: "schedule_targets now sequence p1 (mp_awaiting p1) acc1 = (ts, acc2)" by fastforce
  show "kept = None \<longleftrightarrow> retired now p"
    using assms by (auto simp: tick_pending_def retired_def 1 2 split: if_splits)
  show "map_of (ta_latest acc') k = Some (bridge, payload) \<or>
      (\<exists>p'. kept = Some p' \<and> adopted k payload [(sequence, p')])"
    if "map_of (ta_latest acc) k = Some (bridge, payload)"
  proof (cases "retired now p")
    case True
    then show ?thesis using assms that
      by (auto simp: tick_pending_def retired_def expire_pending_sample_def split: if_splits)
  next
    case False
    then have "kept = Some (p1\<lparr>mp_awaiting := ts\<rparr>)" "acc' = acc2"
      using assms by (simp_all add: tick_pending_def retired_def 1 2)
    moreover have "ta_latest acc2 = ta_latest acc1" using schedule_targets_frame [OF 2] by simp
    ultimately show ?thesis using that 1
      by (auto simp: take_newest_def adopted_def map_of_ordered_del split: option.splits if_splits)
  qed
qed

lemma tick_all_keys:
  "tick_all_pending now m acc = (m', acc') \<Longrightarrow>
   map fst m' = map fst (filter (\<lambda>x. \<not> retired now (snd x)) m)"
proof (induction m arbitrary: acc m' acc')
  case (Cons x m)
  obtain sequence p where x: "x = (sequence, p)" by fastforce
  obtain kept acc1 where t: "tick_pending now sequence p acc = (kept, acc1)" by fastforce
  obtain m2 acc2 where m2: "tick_all_pending now m acc1 = (m2, acc2)" by fastforce
  show ?case using tick_pending_progress(1) [OF t] Cons.IH [OF m2] Cons.prems
    by (auto simp: x t m2 split: option.splits)
qed simp

lemma tick_all_waiting:
  "tick_all_pending now m acc = (m', acc') \<Longrightarrow> map_of (ta_latest acc) k = Some (bridge, payload) \<Longrightarrow>
   map_of (ta_latest acc') k = Some (bridge, payload) \<or> adopted k payload m'"
proof (induction m arbitrary: acc m' acc')
  case (Cons x m)
  obtain sequence p where x: "x = (sequence, p)" by fastforce
  obtain kept acc1 where t: "tick_pending now sequence p acc = (kept, acc1)" by fastforce
  obtain m2 acc2 where m2: "tick_all_pending now m acc1 = (m2, acc2)" by fastforce
  have eq: "m' = (case kept of None \<Rightarrow> m2 | Some p' \<Rightarrow> (sequence, p') # m2)" "acc' = acc2"
    using Cons.prems(1) by (auto simp: x t m2)
  from tick_pending_progress(2) [OF t Cons.prems(2)] Cons.IH [OF m2] show ?case
    by (auto simp: eq adopted_def split: option.splits)
qed simp


definition demo_payload :: "u8 list" where
  "demo_payload = [193, 241, 5, 77, 66, 1, 7, 0, 42]"

lemma demo_payload_valid: "valid_bridge_frame demo_payload"
  by (simp add: demo_payload_def valid_bridge_frame_def reliable_sizes)


section \<open>The turn ring\<close>

lemma strict_sorted_targets: "sorted_wrt (<) (remdups_adj (sort (xs :: 'a::linorder list)))"
proof -
  have "sorted ys \<Longrightarrow> sorted_wrt (<) (remdups_adj ys)" for ys :: "'a list"
  proof (induction ys rule: remdups_adj.induct)
    case (3 x y xs)
    then have le: "\<forall>z\<in>set (y # xs). x \<le> z" "sorted (y # xs)" "sorted (x # xs)" by auto
    show ?case
    proof (cases "x = y")
      case True
      with 3 le show ?thesis by simp
    next
      case False
      then have "x < y" using le by auto
      then have "\<forall>z\<in>set (y # xs). x < z" using le(2) by fastforce
      then show ?thesis using 3(2) False le(2) by simp
    qed
  qed simp_all
  then show ?thesis by simp
qed

lemma ring_distinct: "distinct (mesh_turn_members local_address members)"
  by (simp add: mesh_turn_members_def strict_sorted_iff strict_sorted_targets)
    (use strict_sorted_targets strict_sorted_iff in blast)

text \<open>The channel's turn goes round. Whatever the members, the successors computed by the nodes
  of a ring form one cycle: each member hands over to the next larger address, and the largest
  to the smallest.\<close>

theorem turn_ring_cyclic:
  assumes "ring = mesh_turn_members local_address members" and "i < length ring"
  shows "next_in_ring (ring ! i) ring = ring ! (Suc i mod length ring) \<and> sorted_wrt (<) ring \<and>
    set ring = insert local_address (set members)"
proof -
  have d: "distinct ring" using ring_distinct by (simp add: assms(1))
  have "dropWhile (\<lambda>x. x \<noteq> ring ! i) ring = drop i ring"
  proof -
    have "ring ! j \<noteq> ring ! i" if "j < i" for j using d that assms(2) by (simp add: nth_eq_iff_index_eq)
    then have "takeWhile (\<lambda>x. x \<noteq> ring ! i) ring = take i ring"
      by (intro takeWhile_eq_take_P_nth) simp_all
    then show ?thesis using assms(2) by (simp add: dropWhile_eq_drop)
  qed
  then have "next_in_ring (ring ! i) ring = (if Suc i < length ring then ring ! Suc i else hd ring)"
    by (simp add: next_in_ring_def hd_drop_conv_nth)
  moreover have "hd ring = ring ! 0" using assms(2) by (intro hd_conv_nth) auto
  moreover have "Suc i = length ring" if "\<not> Suc i < length ring" using that assms(2) by simp
  ultimately have "next_in_ring (ring ! i) ring = ring ! (Suc i mod length ring)" by auto
  then show ?thesis by (simp add: assms(1) mesh_turn_members_def strict_sorted_targets)
qed

section \<open>Sequence numbers\<close>

lemma ucast_add_nat_eq_iff:
  fixes n :: u32
  assumes "i < 65536" and "j < 65536"
  shows "(ucast (n + of_nat i) :: u16) = ucast (n + of_nat j) \<longleftrightarrow> i = j"
proof -
  have u: "unat (ucast (n + of_nat k) :: u16) = (unat n + k) mod 65536" for k
  proof -
    have "unat (n + of_nat k) = (unat n + k) mod 2 ^ 32"
      by (simp add: unat_word_ariths unat_of_nat mod_add_right_eq)
    then have "unat (ucast (n + of_nat k) :: u16) = (unat n + k) mod 2 ^ 32 mod 2 ^ 16"
      by (simp add: unsigned_ucast_eq take_bit_eq_mod)
    then show ?thesis by (simp add: mod_mod_cancel)
  qed
  show ?thesis
  proof
    assume "(ucast (n + of_nat i) :: u16) = ucast (n + of_nat j)"
    then have "(unat n + i) mod 65536 = (unat n + j) mod 65536" using u by metis
    then obtain q1 q2 where "unat n + i + 65536 * q1 = unat n + j + 65536 * q2"
      by (auto simp: nat_mod_eq_iff)
    then have "i + 65536 * q1 = j + 65536 * q2" by simp
    then have "i mod 65536 = j mod 65536" by (metis mod_mult_self2)
    then show "i = j" using assms by simp
  qed simp
qed

lemma fresh_sequence_cases:
  "(\<not> used (ucast (fresh_sequence fuel used n))) \<or>
   (fresh_sequence fuel used n = n + of_nat (Suc fuel) \<and> (\<forall>i\<in>{1..fuel}. used (ucast (n + of_nat i))))"
proof (induction fuel arbitrary: n)
  case 0
  then show ?case by (simp add: add.commute)
next
  case (Suc fuel)
  show ?case
  proof (cases "used (ucast (n + 1))")
    case False
    then show ?thesis by (simp add: Let_def)
  next
    case True
    have "used (ucast (n + of_nat i))" if "\<forall>i\<in>{1..fuel}. used (ucast (n + 1 + of_nat i))" "i \<in> {1..Suc fuel}" for i
      using that True by (cases i rule: nat.exhaust) (auto simp: ac_simps Suc_le_eq split: nat.splits)
    then show ?thesis using Suc.IH [of "n + 1"] True by (auto simp: Let_def ac_simps)
  qed
qed

lemma take_sequence_fresh:
  assumes "length (rl_pending r) < 65535"
  shows "map_of (rl_pending r) (snd (take_sequence r)) = None"
proof -
  let ?k = "length (rl_pending r)" and ?n = "rl_next_sequence r"
  let ?used = "\<lambda>sequence. map_of (rl_pending r) sequence \<noteq> None"
  let ?c = "\<lambda>i. ucast (?n + of_nat i) :: u16"
  have "\<not> ?used (ucast (fresh_sequence ?k ?used ?n))"
  proof (rule ccontr)
    assume "\<not> \<not> ?used (ucast (fresh_sequence ?k ?used ?n))"
    then have all: "?used (?c i)" if "i \<in> {1..Suc ?k}" for i
      using fresh_sequence_cases [of ?used ?k ?n] that by (auto simp: le_Suc_eq)
    have "?c ` {1..Suc ?k} \<subseteq> set (map fst (rl_pending r))"
      using all by (force simp: map_of_eq_None_iff)
    then have "card (?c ` {1..Suc ?k}) \<le> ?k"
      by (metis card_length card_mono finite_set le_trans length_map)
    moreover have "inj_on ?c {1..Suc ?k}"
    proof (rule inj_onI)
      fix x y assume "x \<in> {1..Suc ?k}" "y \<in> {1..Suc ?k}" "?c x = ?c y"
      then show "x = y" using assms ucast_add_nat_eq_iff [of x y ?n] by simp
    qed
    ultimately show False by (simp add: card_image)
  qed
  then show ?thesis by (simp add: take_sequence_def Let_def)
qed

theorem turn_ring_cyclic_witness:
  "next_in_ring 9 [3, 5, 9] = 3 \<and> next_in_ring 3 [3, 5, 9] = 5"
proof -
  have r: "[3, 5, 9] = mesh_turn_members 3 [9, 5]" by (simp add: mesh_turn_members_def)
  show ?thesis using turn_ring_cyclic [OF r, of 2] turn_ring_cyclic [OF r, of 0] by simp
qed

section \<open>One send\<close>

lemma choose_targets_set:
  assumes "choose_targets now members candidates r = (r', targets)"
  shows "sorted_wrt (<) targets \<and> set members \<subseteq> set targets \<and> set targets \<subseteq> set members \<union> set candidates \<and>
    card (set targets - set members) \<le> 1"
proof -
  have probe: "snd x \<in> set candidates" if "find_probe now candidates cursor r offsets = Some x" "candidates \<noteq> []"
    for x cursor offsets
    using that by (induction offsets) (auto simp: Let_def split: if_splits)
  have one: "card (insert x A - A) \<le> 1" for x :: u16 and A by (simp add: insert_Diff_if)
  show ?thesis
    using assms probe one
    by (auto simp: choose_targets_def strict_sorted_targets insert_Diff_if split: if_splits option.splits)
qed

lemma plan_send_Some:
  assumes "plan_send now resumed k sample members candidates addresses r = (r', Some (sequence, targets, successor))"
    and "length (rl_pending r) < 65535"
  shows "targets \<noteq> []" and "sorted_wrt (<) targets" and "set members \<subseteq> set targets"
    and "set targets \<subseteq> set members \<union> set candidates" and "card (set targets - set members) \<le> 1"
    and "rl_pending r' = rl_pending r" and "map_of (rl_pending r) sequence = None"
    and "successor = (if members \<noteq> [] \<and> addresses \<noteq> []
           then Some (next_in_ring (hd addresses) (mesh_turn_members (hd addresses) members)) else None)"
    and "successor \<noteq> None \<Longrightarrow> tu_permitted (rl_turns r' k)"
proof -
  obtain r1 ts where c: "choose_targets now members candidates r = (r1, ts)" by fastforce
  have p: "rl_pending r1 = rl_pending r" using choose_targets_frame [OF c] by simp
  have f: "map_of (rl_pending r1) (snd (take_sequence r1)) = None"
    by (rule take_sequence_fresh) (simp add: p assms(2))
  note s = choose_targets_set [OF c]
  have t: "targets = ts" "targets \<noteq> []" using assms(1)
    by (auto simp: plan_send_def c Let_def split: if_splits prod.splits)
  show "targets \<noteq> []" "sorted_wrt (<) targets" "set members \<subseteq> set targets"
    "set targets \<subseteq> set members \<union> set candidates" "card (set targets - set members) \<le> 1"
    using t s by auto
  show "rl_pending r' = rl_pending r" "map_of (rl_pending r) sequence = None"
    "successor = (if members \<noteq> [] \<and> addresses \<noteq> []
           then Some (next_in_ring (hd addresses) (mesh_turn_members (hd addresses) members)) else None)"
    "successor \<noteq> None \<Longrightarrow> tu_permitted (rl_turns r' k)"
    using assms(1) f p
    by (auto simp: plan_send_def c Let_def take_sequence_def split: if_splits prod.splits)
qed

lemma first_result_frame:
  assumes "first_result sequence destination outcome now r = (r', admitted)"
  shows "rl_turns r' = rl_turns r \<and> rl_latest r' = rl_latest r \<and>
    map_option mp_data (map_of (rl_pending r') sequence) = map_option mp_data (map_of (rl_pending r) sequence)"
  using assms
  by (auto simp: first_result_def remember_mesh_transfer_def defer_target_def note_transport_busy_def
      map_of_ordered_upd option.map_comp comp_def Let_def split: sum.splits option.splits if_splits)

lemma first_send_fold:
  assumes "fold (first_send radio bridge sequence wrapped successor) targets (calls, r, b) = (calls', r', b')"
  shows "calls' = calls @ map (\<lambda>d. Try_send (st_mesh_element_index bridge) d (st_mesh_app_key_index bridge)
        (st_mesh_force_segmented bridge) (mark_turn (d = successor) wrapped)) targets \<and>
    rl_turns r' = rl_turns r \<and> rl_latest r' = rl_latest r \<and>
    map_option mp_data (map_of (rl_pending r') sequence) = map_option mp_data (map_of (rl_pending r) sequence)"
  using assms
proof (induction targets arbitrary: calls r b)
  case (Cons d targets)
  let ?wire = "mark_turn (d = successor) wrapped"
  let ?outcome = "ra_try_send radio calls (st_mesh_element_index bridge) d (st_mesh_app_key_index bridge)
    (st_mesh_force_segmented bridge) ?wire"
  let ?call = "Try_send (st_mesh_element_index bridge) d (st_mesh_app_key_index bridge)
    (st_mesh_force_segmented bridge) ?wire"
  obtain r1 admitted where f: "first_result sequence d ?outcome (ra_clock radio (calls @ [?call])) r = (r1, admitted)"
    by fastforce
  have "fold (first_send radio bridge sequence wrapped successor) targets (calls @ [?call], r1, b \<or> admitted) =
      (calls', r', b')"
    using Cons.prems by (simp add: first_send_def [of radio bridge sequence wrapped successor d] f Let_def)
  from Cons.IH [OF this] show ?case using first_result_frame [OF f] by simp
qed simp

lemma admit_sample_put:
  assumes "map_of (rl_pending r) sequence = None"
  shows "map_of (rl_pending (admit_sample sequence p r)) sequence = Some p"
    and "rl_latest (admit_sample sequence p r) = rl_latest r"
    and "rl_turns (admit_sample sequence p r) = rl_turns r"
proof -
  have "map_of (rl_pending (evict_oldest r)) sequence = None"
    using assms by (simp add: evict_oldest_def map_of_ordered_del split: option.split)
  then show "map_of (rl_pending (admit_sample sequence p r)) sequence = Some p"
    "rl_latest (admit_sample sequence p r) = rl_latest r" "rl_turns (admit_sample sequence p r) = rl_turns r"
    by (simp_all add: admit_sample_def Let_def map_of_ordered_put evict_oldest_def split: option.split)
qed

definition fan_out :: "shared_topic_config \<Rightarrow> u16 option \<Rightarrow> u8 list \<Rightarrow> u16 list \<Rightarrow> radio_call list" where
  "fan_out bridge successor wrapped targets =
     map (\<lambda>d. Try_send (st_mesh_element_index bridge) d (st_mesh_app_key_index bridge)
        (st_mesh_force_segmented bridge)
        (mark_turn (d = (case successor of None \<Rightarrow> 0 | Some peer \<Rightarrow> peer)) wrapped)) targets"

lemma store_latest_waits:
  "map_of (rl_latest (store_latest resumed k sample r)) k \<noteq> None"
  "\<not> resumed \<Longrightarrow> map_of (rl_latest (store_latest resumed k sample r)) k = Some sample"
  by (auto simp: store_latest_def map_of_ordered_put)

text \<open>C28: one send. A sample for an idle channel either stays waiting with no transmission, or is
  handed to the daemon once for every target, in strictly increasing address order: the targets
  are all swarm members and at most one probed candidate, each frame wraps the payload under a
  number no outstanding sample has, and only the frame for the next ring member passes the
  turn on. With a ring the channel's turn is spent exactly when the sample is outstanding, and
  the sample is never dropped: it is outstanding with this payload, or its channel has a
  waiting value again, which is this sample unless it was a resumed one.\<close>

theorem send_fans_out:
  assumes "reliable_inv r" and "\<not> channel_busy k r"
    and "send_reliable radio now resumed k bridge payload status swarm calls r = (calls', r')"
    and "members = swarm_member_addresses now swarm" and "addresses = mt_addresses status"
  shows "(calls' = calls \<and> map_of (rl_latest r') k \<noteq> None) \<or>
    (\<exists>sequence targets successor. let wrapped = make_mesh_reliable_data payload sequence (sw_swarm_id swarm) in
       calls' = calls @ fan_out bridge successor wrapped targets \<and> targets \<noteq> [] \<and> sorted_wrt (<) targets \<and>
       set members \<subseteq> set targets \<and> card (set targets - set members) \<le> 1 \<and>
       set targets \<subseteq> set members \<union> set (swarm_probe_addresses now swarm) \<and>
       map_of (rl_pending r) sequence = None \<and>
       successor = (if members \<noteq> [] \<and> addresses \<noteq> []
         then Some (next_in_ring (hd addresses) (mesh_turn_members (hd addresses) members)) else None) \<and>
       (map_option mp_data (map_of (rl_pending r') sequence) = Some wrapped \<or>
        (map_of (rl_pending r') sequence = None \<and> map_of (rl_latest r') k \<noteq> None \<and>
         (resumed \<or> map_of (rl_latest r') k = Some (bridge, payload)))) \<and>
       (successor = None \<or> (tu_permitted (rl_turns r' k) = (map_of (rl_pending r') sequence = None))))"
proof -
  let ?plan = "plan_send now resumed k (bridge, payload) members (swarm_probe_addresses now swarm) addresses r"
  obtain r1 plan where p: "?plan = (r1, plan)" by fastforce
  show ?thesis
  proof (cases plan)
    case None
    have "map_of (rl_latest r1) k \<noteq> None"
      using p None store_latest_waits by (auto simp: plan_send_def Let_def split: prod.splits if_splits)
    then show ?thesis using assms(2,3) p None by (simp add: send_reliable_def assms(4,5))
  next
    case (Some plan')
    obtain sequence targets successor where plan: "plan' = (sequence, targets, successor)" by (metis prod_cases3)
    have few: "length (rl_pending r) < 65535"
      using assms(1) by (simp add: reliable_inv_def pending_ok_def kMaxPendingMeshSamples_def)
    note f = plan_send_Some [OF p [unfolded Some plan] few]
    let ?w = "make_mesh_reliable_data payload sequence (sw_swarm_id swarm)"
    let ?r2 = "consume_turn now k successor (admit_sample sequence (new_pending now bridge k ?w targets successor) r1)"
    obtain calls3 r3 admitted where fo: "fold (first_send radio bridge sequence ?w
        (case successor of None \<Rightarrow> 0 | Some peer \<Rightarrow> peer)) targets (calls, ?r2, False) = (calls3, r3, admitted)"
      by (metis prod_cases3)
    note g = first_send_fold [OF fo]
    have res: "calls' = calls3" "r' = finish_send admitted resumed k (bridge, payload) sequence successor r3"
      using assms(2,3) p fo by (simp_all add: send_reliable_def assms(4,5) Some plan Let_def)
    note a = admit_sample_put [OF f(7) [folded f(6)], of "new_pending now bridge k ?w targets successor"]
    have d: "map_option mp_data (map_of (rl_pending r3) sequence) = Some ?w"
      using g a(1) by (auto simp: consume_turn_def new_pending_def split: option.splits)
    have turn: "successor \<noteq> None \<Longrightarrow> \<not> tu_permitted (rl_turns r3 k)"
      using g by (auto simp: consume_turn_def)
    have end_state: "(map_option mp_data (map_of (rl_pending r') sequence) = Some ?w \<or>
        (map_of (rl_pending r') sequence = None \<and> map_of (rl_latest r') k \<noteq> None \<and>
         (resumed \<or> map_of (rl_latest r') k = Some (bridge, payload)))) \<and>
       (successor = None \<or> (tu_permitted (rl_turns r' k) = (map_of (rl_pending r') sequence = None)))"
    proof (cases admitted)
      case True
      then show ?thesis using d turn by (cases successor) (auto simp: res(2) finish_send_def)
    next
      case False
      then show ?thesis using store_latest_waits [of resumed k "(bridge, payload)"]
        by (auto simp: res(2) finish_send_def Let_def map_of_ordered_del store_latest_def map_of_ordered_put
            split: option.split)
    qed
    have "calls' = calls @ fan_out bridge successor ?w targets" using g res(1) by (simp add: fan_out_def)
    with end_state show ?thesis unfolding Let_def using f(1-5,7)
      by (intro disjI2 exI [of _ sequence] exI [of _ targets] exI [of _ successor]) (simp only: f(8) [symmetric] if_True simp_thms)
  qed
qed

text \<open>With one configured but silent member, the sample goes to that member as the probe, or waits.\<close>

theorem send_fans_out_witness:
  "\<forall>radio status swarm. \<exists>calls' r'. send_reliable radio 9 False 1 default_shared_topic_config demo_payload status
       (swarm\<lparr>sw_participating := True, sw_presence := [], sw_member_priority := [2], sw_local_number := 1,
              sw_swarm_id := 3\<rparr>) [] (empty_reliable 7) = (calls', r') \<and>
     (calls' = [] \<or> (\<exists>sequence. calls' = fan_out default_shared_topic_config None
        (make_mesh_reliable_data demo_payload sequence 3) [2]))"
proof (intro allI)
  fix radio status and swarm :: swarm
  let ?s = "swarm\<lparr>sw_participating := True, sw_presence := [], sw_member_priority := [2], sw_local_number := 1,
              sw_swarm_id := 3\<rparr>"
  have inv: "reliable_inv (empty_reliable 7)" "\<not> channel_busy 1 (empty_reliable 7)"
    by (simp_all add: channel_busy_def) (simp add: empty_reliable_def)
  have m: "swarm_member_addresses 9 ?s = []" "swarm_probe_addresses 9 ?s = [2]"
    by (simp_all add: swarm_member_addresses_def swarm_probe_addresses_def fresh_presence_def)
  obtain calls' r' where s: "send_reliable radio 9 False 1 default_shared_topic_config demo_payload status ?s []
      (empty_reliable 7) = (calls', r')" by fastforce
  have one: "targets = [2]" if "targets \<noteq> []" "set targets \<subseteq> {2}" "sorted_wrt (<) targets" for targets :: "u16 list"
    using that by (cases targets; cases "tl targets") auto
  show "\<exists>calls' r'. send_reliable radio 9 False 1 default_shared_topic_config demo_payload status ?s []
      (empty_reliable 7) = (calls', r') \<and> (calls' = [] \<or> (\<exists>sequence. calls' = fan_out
        default_shared_topic_config None (make_mesh_reliable_data demo_payload sequence 3) [2]))"
    using send_fans_out [OF inv s m(1) [symmetric] refl, unfolded Let_def m(2)] s one by fastforce
qed

end
