(* ===== verification/Reliable_System.thy ===== *)
theory Reliable_System
  imports Reliable_Correct
begin

text \<open>
  Reliable delivery as a system: the critical sections of reception, sending and the tick run in
  any order, as the D-Bus thread and the ROS executor interleave them. One frame at a time is
  being decoded (there is one D-Bus thread), and the clock never goes back. Ghost state logs what
  was published to ROS: ever (\<open>rs_published\<close>), and since the reliable state was last cleared
  (\<open>rs_recent\<close>). The second log has the publications whose receipt record was still there when
  they ended: it is missing only when the state was cleared or 90 s passed while the
  publication was under way.
\<close>

section \<open>Steps\<close>

record reliable_system =
  rs_state :: reliable
  rs_decoding :: "(u8 \<times> u16 \<times> u16 \<times> u8 list) option"
  rs_outbound :: "outbound list"
  rs_clock :: ticks
  rs_published :: "(seen_key \<times> ticks) list"
  rs_recent :: "(seen_key \<times> ticks) list"

datatype reliable_action =
    Receipt u16 u16 "u8 list"
  | Frame u8 u16 u16 "u8 list"
  | Decoded bool u16 "u16 list"
  | Store_waiting bool u64 shared_topic_config "u8 list"
  | Claim_channel bool u64
  | Plan_send bool u64 shared_topic_config "u8 list" "u16 list" "u16 list" "u16 list"
  | Admit u16 shared_topic_config u64 "u8 list" u16 "u16 list" "u16 option"
  | Consume_turn u64 "u16 option"
  | First_outcome u16 u16 "std_error + send_handle option"
  | Finish bool bool u64 shared_topic_config "u8 list" u16 "u16 option"
  | Collect
  | Transfer_done transfer_check
  | Outbound_outcome "std_error + send_handle option"
  | Outbound_skipped
  | Cancellations_done nat
  | Clear_state bool

definition start_reliable :: "u32 \<Rightarrow> ticks \<Rightarrow> reliable_system" where
  "start_reliable first_sequence now = \<lparr>rs_state = empty_reliable first_sequence, rs_decoding = None,
     rs_outbound = [], rs_clock = now, rs_published = [], rs_recent = []\<rparr>"

abbreviation on_state :: "(reliable \<Rightarrow> reliable) \<Rightarrow> reliable_system \<Rightarrow> reliable_system" where
  "on_state f s \<equiv> s\<lparr>rs_state := f (rs_state s)\<rparr>"

fun perform :: "reliable_action \<Rightarrow> reliable_system \<Rightarrow> reliable_system" where
  "perform (Receipt source key data) s = on_state (receive_ack source key data) s"
| "perform (Frame element source key data) s =
     (if rs_decoding s \<noteq> None then s
      else case receive_begin (rs_clock s) source key data (rs_state s) of
             (r, decode) \<Rightarrow>
               s\<lparr>rs_state := r, rs_decoding := (if decode then Some (element, source, key, data) else None)\<rparr>)"
| "perform (Decoded delivered local_address members) s =
     (case rs_decoding s of
        None \<Rightarrow> s
      | Some (element, source, key, data) \<Rightarrow>
          let published = (if delivered then [(receipt_key source key data, rs_clock s)] else [])
          in s\<lparr>rs_state := receive_end (rs_clock s) element source key data delivered local_address members
                             (rs_state s),
               rs_decoding := None,
               rs_published := rs_published s @ published,
               rs_recent := rs_recent s @ (if rl_seen (rs_state s) (receipt_key source key data) \<noteq> None
                                           then published else [])\<rparr>)"
| "perform (Store_waiting resumed k bridge payload) s =
     on_state (store_latest resumed k (bridge, payload)) s"
| "perform (Claim_channel resumed k) s =
     on_state (\<lambda>r. case claim_channel resumed k r of None \<Rightarrow> r | Some r \<Rightarrow> r) s"
| "perform (Plan_send resumed k bridge payload members candidates addresses) s =
     on_state (\<lambda>r. fst (plan_send (rs_clock s) resumed k (bridge, payload) members candidates addresses r)) s"
| "perform (Admit sequence bridge k payload swarm_id targets successor) s =
     on_state (admit_sample sequence (new_pending (rs_clock s) bridge k
       (make_mesh_reliable_data payload sequence swarm_id) targets successor)) s"
| "perform (Consume_turn k successor) s = on_state (consume_turn (rs_clock s) k successor) s"
| "perform (First_outcome sequence destination outcome) s =
     on_state (\<lambda>r. fst (first_result sequence destination outcome (rs_clock s) r)) s"
| "perform (Finish admitted resumed k bridge payload sequence successor) s =
     on_state (finish_send admitted resumed k (bridge, payload) sequence successor) s"
| "perform Collect s =
     (case collect_tick (rs_clock s) (rs_state s) of
        (r, outbound, checks, ready) \<Rightarrow> s\<lparr>rs_state := r, rs_outbound := rs_outbound s @ outbound\<rparr>)"
| "perform (Transfer_done check) s = on_state (transfer_finished check) s"
| "perform (Outbound_outcome outcome) s =
     (case rs_outbound s of
        [] \<Rightarrow> s
      | item # items \<Rightarrow> s\<lparr>rs_state := outbound_result item outcome (rs_clock s) (rs_state s),
                         rs_outbound := items\<rparr>)"
| "perform Outbound_skipped s = s\<lparr>rs_outbound := drop 1 (rs_outbound s)\<rparr>"
| "perform (Cancellations_done n) s =
     on_state (\<lambda>r. r\<lparr>rl_cancellations := drop n (rl_cancellations r)\<rparr>) s"
| "perform (Clear_state preserve_latest) s =
     (on_state (clear_reliable preserve_latest) s)\<lparr>rs_recent := []\<rparr>"

text \<open>Every step happens some nanoseconds after the one before.\<close>

fun reliable_step :: "nat \<times> reliable_action \<Rightarrow> reliable_system \<Rightarrow> reliable_system" where
  "reliable_step (elapsed, action) s = perform action (s\<lparr>rs_clock := rs_clock s + int elapsed\<rparr>)"

text \<open>The bridges hand over valid channel frames: \<open>mesh_access_payload\<close> builds no other.\<close>

fun reliable_step_ok :: "nat \<times> reliable_action \<Rightarrow> bool" where
  "reliable_step_ok (elapsed, Store_waiting resumed k bridge payload) \<longleftrightarrow> valid_bridge_frame payload"
| "reliable_step_ok (elapsed, Plan_send resumed k bridge payload members candidates addresses) \<longleftrightarrow>
     valid_bridge_frame payload"
| "reliable_step_ok (elapsed, Admit sequence bridge k payload swarm_id targets successor) \<longleftrightarrow>
     valid_bridge_frame payload"
| "reliable_step_ok (elapsed, Finish admitted resumed k bridge payload sequence successor) \<longleftrightarrow>
     valid_bridge_frame payload"
| "reliable_step_ok (elapsed, action) \<longleftrightarrow> True"

section \<open>The seen receipts and the publication log\<close>

definition publications_ok :: "(seen_key \<rightharpoonup> mesh_seen) \<Rightarrow> ticks \<Rightarrow> (seen_key \<times> ticks) list \<Rightarrow> bool" where
  "publications_ok seen clock pubs \<longleftrightarrow>
     sorted_wrt (\<lambda>x y. fst x = fst y \<longrightarrow> snd x + kSeenLifetime < snd y) pubs \<and>
     (\<forall>(k, t)\<in>set pubs. t \<le> clock \<and>
        ((\<exists>e. seen k = Some e \<and> sn_delivered e \<and> t \<le> sn_last e) \<or> t + kSeenLifetime < clock))"

definition decoding_ok :: "(u8 \<times> u16 \<times> u16 \<times> u8 list) option \<Rightarrow> ticks \<Rightarrow> (seen_key \<times> ticks) list \<Rightarrow> bool" where
  "decoding_ok decoding clock pubs \<longleftrightarrow>
     (case decoding of None \<Rightarrow> True
      | Some (element, source, key, data) \<Rightarrow>
          (\<forall>(k, t)\<in>set pubs. k = receipt_key source key data \<longrightarrow> t + kSeenLifetime < clock))"

definition seen_published :: "(seen_key \<rightharpoonup> mesh_seen) \<Rightarrow> (seen_key \<times> ticks) list \<Rightarrow> bool" where
  "seen_published seen pubs \<longleftrightarrow> (\<forall>k e. seen k = Some e \<and> sn_delivered e \<longrightarrow> k \<in> fst ` set pubs)"

definition answers :: "mesh_ack \<Rightarrow> seen_key set \<Rightarrow> bool" where
  "answers ack keys \<longleftrightarrow> (\<exists>data. ak_data ack = make_acknowledgement data \<and>
     receipt_key (ak_destination ack) (ak_app_key_index ack) data \<in> keys)"

definition outbound_ack :: "outbound \<Rightarrow> mesh_ack" where
  "outbound_ack item = \<lparr>ak_destination = ob_destination item, ak_app_key_index = ob_app_key_index item,
     ak_data = ob_data item\<rparr>"

definition acks_ok :: "mesh_ack list \<Rightarrow> outbound list \<Rightarrow> seen_key set \<Rightarrow> bool" where
  "acks_ok acks items keys \<longleftrightarrow> (\<forall>ack\<in>set acks. answers ack keys) \<and>
     (\<forall>item\<in>set items. ob_acknowledgement item \<longrightarrow> answers (outbound_ack item) keys)"

definition delivery_inv :: "reliable_system \<Rightarrow> bool" where
  "delivery_inv s \<longleftrightarrow> reliable_inv (rs_state s) \<and>
     publications_ok (rl_seen (rs_state s)) (rs_clock s) (rs_recent s) \<and>
     decoding_ok (rs_decoding s) (rs_clock s) (rs_recent s) \<and>
     seen_published (rl_seen (rs_state s)) (rs_published s) \<and>
     acks_ok (rl_acks (rs_state s)) (rs_outbound s) (fst ` set (rs_published s))"

section \<open>Sections that leave receipts alone\<close>

definition same_receipts :: "reliable \<Rightarrow> reliable \<Rightarrow> bool" where
  "same_receipts r r' \<longleftrightarrow> rl_seen r' = rl_seen r \<and> rl_acks r' = rl_acks r"

lemma same_receipts_sections:
  "same_receipts r (receive_ack source key data r)"
  "same_receipts r (store_latest resumed k sample r)"
  "claim_channel resumed k r = Some r' \<Longrightarrow> same_receipts r r'"
  "same_receipts r (remember_mesh_transfer sequence destination h now r)"
  "same_receipts r (admit_sample sequence p r)"
  "same_receipts r (consume_turn now k successor r)"
  "same_receipts r (defer_target sequence destination now r)"
  "same_receipts r (note_transport_busy destination now r)"
  "same_receipts r (finish_send admitted resumed k sample sequence successor r)"
  "same_receipts r (transfer_finished check r)"
  "same_receipts r (defer_outbound destination data now r)"
  by (auto simp: same_receipts_def receive_ack_def store_latest_def claim_channel_def remember_mesh_transfer_def
      admit_sample_def evict_oldest_def consume_turn_def defer_target_def note_transport_busy_def
      finish_send_def transfer_finished_def defer_outbound_def Let_def split: option.splits if_splits)

lemma same_receipts_plan:
  "same_receipts r (fst (plan_send now resumed k sample members candidates addresses r))"
proof -
  obtain r1 targets where c: "choose_targets now members candidates r = (r1, targets)" by fastforce
  note f = choose_targets_frame [OF c]
  show ?thesis
    using f by (auto simp: same_receipts_def plan_send_def c take_sequence_def Let_def store_latest_def)
qed

lemma same_receipts_first:
  "same_receipts r (fst (first_result sequence destination outcome now r))"
  using same_receipts_sections(4,7,8)
  by (auto simp: first_result_def same_receipts_def Let_def split: sum.splits option.splits)

lemma same_receipts_outbound:
  "\<not> ob_acknowledgement item \<or> (\<forall>error. outcome \<noteq> Inl error) \<Longrightarrow>
   same_receipts r (outbound_result item outcome now r)"
  using same_receipts_sections(4,11)
  by (auto simp: outbound_result_def same_receipts_def requeue_ack_def split: sum.splits option.splits)

lemma delivery_inv_same:
  assumes "delivery_inv s" and "reliable_inv r'" and "same_receipts (rs_state s) r'"
  shows "delivery_inv (s\<lparr>rs_state := r'\<rparr>)"
  using assms by (simp add: delivery_inv_def same_receipts_def)

section \<open>Keeping the invariant\<close>

lemma publications_ok_later: "publications_ok seen t pubs \<Longrightarrow> t \<le> t' \<Longrightarrow> publications_ok seen t' pubs"
  by (fastforce simp: publications_ok_def)

lemma decoding_ok_later: "decoding_ok d t pubs \<Longrightarrow> t \<le> t' \<Longrightarrow> decoding_ok d t' pubs"
  by (fastforce simp: decoding_ok_def split: option.splits)

lemma delivery_inv_later:
  "delivery_inv s \<Longrightarrow> delivery_inv (s\<lparr>rs_clock := rs_clock s + int n\<rparr>)"
  by (auto simp: delivery_inv_def intro: publications_ok_later decoding_ok_later)

lemma answers_mono: "answers ack keys \<Longrightarrow> keys \<subseteq> keys' \<Longrightarrow> answers ack keys'"
  by (auto simp: answers_def)

lemma acks_ok_mono: "acks_ok acks items keys \<Longrightarrow> keys \<subseteq> keys' \<Longrightarrow> acks_ok acks items keys'"
  using answers_mono by (auto simp: acks_ok_def)

lemma seen_published_mono:
  "seen_published seen pubs \<Longrightarrow> set pubs \<subseteq> set pubs' \<Longrightarrow> seen_published seen pubs'"
  unfolding seen_published_def by blast

lemma acks_ok_queue:
  assumes "acks_ok (rl_acks r) items keys" and "receipt_key source key data \<in> keys"
  shows "acks_ok (rl_acks (queue_ack source key data r)) items keys"
  using assms by (auto simp: acks_ok_def queue_ack_def Let_def answers_def)

lemma seen_queue [simp]: "rl_seen (queue_ack source key data r) = rl_seen r"
  by (simp add: queue_ack_def Let_def)

lemma inv_frame:
  assumes "delivery_inv s"
  shows "delivery_inv (perform (Frame element source key data) s)"
proof (cases "rs_decoding s")
  case (Some x)
  with assms show ?thesis by simp
next
  case None
  let ?k = "receipt_key source key data" and ?r = "rs_state s"
  note i = assms [unfolded delivery_inv_def]
  have inv: "reliable_inv (fst (receive_begin (rs_clock s) source key data ?r))"
    using i by (simp add: inv_receive_begin)
  show ?thesis
  proof (cases "rl_seen ?r ?k = None \<and> \<not> is_receipt_query data")
    case True
    let ?seen = "(rl_seen ?r)(?k \<mapsto> \<lparr>sn_last = rs_clock s, sn_delivered = False\<rparr>)"
    have old: "t + kSeenLifetime < rs_clock s" if "(?k, t) \<in> set (rs_recent s)" for t
      using i that True by (auto simp: publications_ok_def)
    have "publications_ok ?seen (rs_clock s) (rs_recent s)"
      using i old by (fastforce simp: publications_ok_def)
    moreover have "decoding_ok (Some (element, source, key, data)) (rs_clock s) (rs_recent s)"
      using old by (auto simp: decoding_ok_def)
    moreover have "seen_published ?seen (rs_published s)"
      using i by (auto simp: seen_published_def)
    ultimately show ?thesis
      using i inv True None by (simp add: receive_begin_def Let_def delivery_inv_def)
  next
    case False
    obtain r where b: "receive_begin (rs_clock s) source key data ?r = (r, False)"
      and r: "r = ?r \<or> (?k \<in> fst ` set (rs_published s) \<and> r = queue_ack source key data ?r)"
    proof (cases "rl_seen ?r ?k")
      case None
      with False that show ?thesis by (simp add: receive_begin_def)
    next
      case (Some e)
      then have "sn_delivered e \<Longrightarrow> ?k \<in> fst ` set (rs_published s)"
        using i unfolding seen_published_def by blast
      with Some show ?thesis
        by (intro that [of "if sn_delivered e then queue_ack source key data ?r else ?r"])
          (simp_all add: receive_begin_def Let_def)
    qed
    have "acks_ok (rl_acks r) (rs_outbound s) (fst ` set (rs_published s))" "rl_seen r = rl_seen ?r"
      using r i acks_ok_queue [of ?r _ _ source key data] by auto
    then show ?thesis using i inv None by (simp add: b delivery_inv_def)
  qed
qed

lemma inv_decoded:
  assumes "delivery_inv s"
  shows "delivery_inv (perform (Decoded delivered local_address members) s)"
proof (cases "rs_decoding s")
  case None
  with assms show ?thesis by simp
next
  case (Some x)
  obtain element source key data where x: "x = (element, source, key, data)" by (cases x) auto
  let ?k = "receipt_key source key data" and ?r = "rs_state s" and ?now = "rs_clock s"
  let ?pub = "if delivered then [(?k, ?now)] else []"
  let ?r' = "receive_end ?now element source key data delivered local_address members ?r"
  note i = assms [unfolded delivery_inv_def]
  have old: "t + kSeenLifetime < ?now" if "(?k, t) \<in> set (rs_recent s)" for t
    using i that Some by (auto simp: decoding_ok_def x)
  have inv: "reliable_inv ?r'" using i by (simp add: inv_receive_end)
  have none: "decoding_ok None ?now pubs" for pubs by (simp add: decoding_ok_def)
  show ?thesis
  proof (cases "rl_seen ?r ?k")
    case None
    have "?r' = ?r" using None by (simp add: receive_end_def)
    let ?log = "rs_published s @ ?pub"
    have "seen_published (rl_seen ?r) ?log" using i by (auto intro: seen_published_mono)
    moreover have "acks_ok (rl_acks ?r) (rs_outbound s) (fst ` set ?log)" using i by (auto elim: acks_ok_mono)
    ultimately show ?thesis using i inv none \<open>rs_decoding s = Some x\<close> None \<open>?r' = ?r\<close>
      by (simp add: delivery_inv_def x Let_def)
  next
    case (Some e)
    show ?thesis
    proof (cases delivered)
      case True
      let ?seen = "(rl_seen ?r)(?k \<mapsto> \<lparr>sn_last = ?now, sn_delivered = True\<rparr>)"
      let ?e = "receive_end ?now element source key data True local_address members ?r"
      have r': "rl_seen ?e = ?seen" "rl_acks ?e = rl_acks (queue_ack source key data ?r)"
        using Some True by (simp_all add: receive_end_def Let_def queue_ack_def)
      have "publications_ok ?seen ?now (rs_recent s @ [(?k, ?now)])"
        using i old by (fastforce simp: publications_ok_def sorted_wrt_append)
      moreover have "seen_published ?seen (rs_published s @ [(?k, ?now)])"
        using i by (auto simp: seen_published_def)
      moreover have "acks_ok (rl_acks (queue_ack source key data ?r)) (rs_outbound s)
          (fst ` set (rs_published s @ [(?k, ?now)]))"
        using i by (intro acks_ok_queue) (auto elim: acks_ok_mono)
      ultimately show ?thesis using inv none Some True \<open>rs_decoding s = Some x\<close>
        by (simp add: delivery_inv_def x r' Let_def)
    next
      case False
      let ?seen = "(rl_seen ?r)(?k := None)"
      let ?e = "receive_end ?now element source key data False local_address members ?r"
      have r': "rl_seen ?e = ?seen" "rl_acks ?e = rl_acks ?r"
        using Some False by (simp_all add: receive_end_def Let_def)
      have "publications_ok ?seen ?now (rs_recent s)"
        using i old by (fastforce simp: publications_ok_def)
      moreover have "seen_published ?seen (rs_published s)"
        using i by (auto simp: seen_published_def)
      ultimately show ?thesis using i inv none Some False \<open>rs_decoding s = Some x\<close>
        by (simp add: delivery_inv_def x r' Let_def)
    qed
  qed
qed

lemma tick_all_outbound:
  assumes "tick_all_pending now m acc = (m', acc')"
  shows "\<forall>item\<in>set (ta_outbound acc'). ob_acknowledgement item \<longrightarrow> item \<in> set (ta_outbound acc)"
proof -
  have target: "\<forall>item\<in>set (ta_outbound acc'). ob_acknowledgement item \<longrightarrow> item \<in> set (ta_outbound acc)"
    if "schedule_target now sequence p peer t acc = (t', acc')" for sequence p peer t t' acc acc'
    using that by (auto simp: schedule_target_def check_transfer_def Let_def split: option.splits if_splits)
  have targets: "\<forall>item\<in>set (ta_outbound acc'). ob_acknowledgement item \<longrightarrow> item \<in> set (ta_outbound acc)"
    if "schedule_targets now sequence p ts acc = (ts', acc')" for sequence p ts ts' acc acc'
    using that
  proof (induction ts arbitrary: acc ts' acc')
    case (Cons x ts)
    then show ?case using target by (cases x) (fastforce split: if_splits prod.splits)
  qed simp
  have pending: "\<forall>item\<in>set (ta_outbound acc'). ob_acknowledgement item \<longrightarrow> item \<in> set (ta_outbound acc)"
    if "tick_pending now sequence p acc = (kept, acc')" for sequence p kept acc acc'
    using that targets
    by (fastforce simp: tick_pending_def expire_pending_sample_def take_newest_def
        split: if_splits prod.splits option.splits)
  show ?thesis using assms
  proof (induction m arbitrary: acc m' acc')
    case (Cons x m)
    obtain sequence p where x: "x = (sequence, p)" by fastforce
    obtain kept acc1 where 1: "tick_pending now sequence p acc = (kept, acc1)" by fastforce
    obtain m2 acc2 where 2: "tick_all_pending now m acc1 = (m2, acc2)" by fastforce
    show ?case using Cons.prems pending [OF 1] Cons.IH [OF 2] by (auto simp: x 1 2)
  qed simp
qed

lemma inv_collect:
  assumes "delivery_inv s"
  shows "delivery_inv (perform Collect s)"
proof -
  let ?r = "rs_state s" and ?now = "rs_clock s"
  obtain r outbound checks ready where c: "collect_tick ?now ?r = (r, outbound, checks, ready)"
    by (metis prod_cases4)
  let ?acc = "\<lparr>ta_latest = rl_latest ?r, ta_cancellations = rl_cancellations ?r, ta_peers = rl_peers ?r,
    ta_outbound = map ack_outbound (take 4 (rl_acks ?r)), ta_checks = [], ta_repairs = []\<rparr>"
  obtain m acc where t: "tick_all_pending ?now (rl_pending ?r) ?acc = (m, acc)" by fastforce
  note i = assms [unfolded delivery_inv_def]
  have eqs: "outbound = ta_outbound acc" "rl_acks r = drop 4 (rl_acks ?r)" "rl_seen r = expire_seen ?now (rl_seen ?r)"
    using c t by (auto simp: collect_tick_def Let_def)
  have inv: "reliable_inv r" using collect_tick_facts(1) [OF _ c] i by simp
  have "publications_ok (rl_seen r) ?now (rs_recent s)"
    using i by (fastforce simp: publications_ok_def eqs expire_seen_def)
  moreover have "seen_published (rl_seen r) (rs_published s)"
    using i by (auto simp: seen_published_def eqs expire_seen_def split: option.splits if_splits)
  moreover have "acks_ok (rl_acks r) (rs_outbound s @ outbound) (fst ` set (rs_published s))"
  proof -
    have "answers (outbound_ack item) (fst ` set (rs_published s))"
      if "item \<in> set outbound" "ob_acknowledgement item" for item
    proof -
      have "item \<in> ack_outbound ` set (take 4 (rl_acks ?r))"
        using tick_all_outbound [OF t] that by (auto simp: eqs)
      then obtain ack where "ack \<in> set (rl_acks ?r)" "item = ack_outbound ack"
        by (auto dest: in_set_takeD)
      moreover have "outbound_ack (ack_outbound ack) = ack" by (simp add: outbound_ack_def ack_outbound_def)
      ultimately show ?thesis using i by (simp add: acks_ok_def)
    qed
    then show ?thesis using i by (auto simp: acks_ok_def eqs dest: in_set_dropD)
  qed
  ultimately show ?thesis using i inv by (simp add: c delivery_inv_def)
qed

lemma inv_first_result:
  "reliable_inv r \<Longrightarrow> reliable_inv (fst (first_result sequence destination outcome now r))"
  by (simp add: first_result_def Let_def inv_remember inv_defer_target inv_busy split: sum.split option.split)

lemma inv_outbound_result: "reliable_inv r \<Longrightarrow> reliable_inv (outbound_result item outcome now r)"
  by (simp add: outbound_result_def inv_remember inv_defer_outbound inv_requeue split: sum.split option.split)

lemma inv_outbound:
  assumes "delivery_inv s"
  shows "delivery_inv (perform (Outbound_outcome outcome) s)"
proof (cases "rs_outbound s")
  case Nil
  with assms show ?thesis by simp
next
  case (Cons item items)
  let ?r = "outbound_result item outcome (rs_clock s) (rs_state s)"
  note i = assms [unfolded delivery_inv_def]
  have inv: "reliable_inv ?r" using i by (simp add: inv_outbound_result)
  show ?thesis
  proof (cases "\<not> ob_acknowledgement item \<or> (\<forall>error. outcome \<noteq> Inl error)")
    case True
    then have "same_receipts (rs_state s) ?r" by (rule same_receipts_outbound)
    then show ?thesis using i inv Cons by (auto simp: delivery_inv_def same_receipts_def acks_ok_def)
  next
    case False
    then obtain error where "outcome = Inl error" "ob_acknowledgement item" by blast
    then show ?thesis using i inv Cons
      by (auto simp: delivery_inv_def outbound_result_def requeue_ack_def acks_ok_def outbound_ack_def)
  qed
qed

lemma perform_inv:
  assumes "delivery_inv s" and "reliable_step_ok (elapsed, action)"
  shows "delivery_inv (perform action s)"
proof -
  have inv: "reliable_inv (rs_state s)" using assms(1) by (simp add: delivery_inv_def)
  note same = delivery_inv_same [OF assms(1)]
  show ?thesis
  proof (cases action)
    case (Receipt source key data)
    then show ?thesis using same [OF inv_receive_ack [OF inv] same_receipts_sections(1)] by simp
  next
    case (Store_waiting resumed k bridge payload)
    then show ?thesis using assms(2) same [OF inv_store_latest [OF inv] same_receipts_sections(2)] by simp
  next
    case (Claim_channel resumed k)
    then show ?thesis using assms(1) same [OF inv_claim [OF inv] same_receipts_sections(3)]
      by (auto split: option.split)
  next
    case (Plan_send resumed k bridge payload members candidates addresses)
    then show ?thesis using assms(2) same [OF inv_plan [OF inv] same_receipts_plan] by simp
  next
    case (Admit sequence bridge k payload swarm_id targets successor)
    then show ?thesis using assms(2) same [OF inv_admit [OF inv sample_ok_new] same_receipts_sections(5)] by simp
  next
    case (Consume_turn k successor)
    then show ?thesis using same [OF inv_consume [OF inv] same_receipts_sections(6)] by simp
  next
    case (First_outcome sequence destination outcome)
    then show ?thesis using same [OF inv_first_result [OF inv] same_receipts_first] by simp
  next
    case (Finish admitted resumed k bridge payload sequence successor)
    then show ?thesis using assms(2) same [OF inv_finish [OF inv] same_receipts_sections(9)] by simp
  next
    case (Transfer_done check)
    then show ?thesis using same [OF inv_transfer_finished [OF inv] same_receipts_sections(10)] by simp
  next
    case (Cancellations_done n)
    then show ?thesis using same [of "rs_state s\<lparr>rl_cancellations := drop n (rl_cancellations (rs_state s))\<rparr>"] inv
      by (simp add: same_receipts_def)
  next
    case (Clear_state preserve)
    have "publications_ok seen t []" "seen_published Map.empty pubs" "decoding_ok d t []" for seen t pubs d
      by (simp_all add: publications_ok_def seen_published_def decoding_ok_def split: option.split)
    then show ?thesis using assms(1) inv_clear [OF inv]
      by (simp add: Clear_state delivery_inv_def clear_reliable_def acks_ok_def)
  next
    case Outbound_skipped
    then show ?thesis using assms(1) by (auto simp: delivery_inv_def acks_ok_def dest: in_set_dropD)
  qed (use assms(1) inv_frame inv_decoded inv_collect inv_outbound in simp_all)
qed

lemma reliable_step_inv: "reliable_step_ok e \<Longrightarrow> delivery_inv s \<Longrightarrow> delivery_inv (reliable_step e s)"
  using perform_inv [OF delivery_inv_later] by (cases e) simp

interpretation delivery: invariant_machine "start_reliable n t" reliable_step reliable_step_ok delivery_inv
proof unfold_locales
  show "delivery_inv (start_reliable n t)"
    by (simp add: delivery_inv_def start_reliable_def publications_ok_def seen_published_def decoding_ok_def
        acks_ok_def empty_reliable_def) (simp add: reliable_inv_def)
qed (rule reliable_step_inv)

end
