(* ===== verification/Reliable_Delivery.thy ===== *)
theory Reliable_Delivery
  imports Reliable_System Reliable_Progress
begin

text \<open>
  What reliable Mesh delivery guarantees: properties of every run of \<open>Reliable_System\<close>, of one
  tick, and of one send.
\<close>

section \<open>Who is awaited\<close>

definition awaited :: "(u16 \<times> mesh_pending) list \<Rightarrow> u16 \<Rightarrow> u16 set option" where
  "awaited m sequence = map_option (\<lambda>p. fst ` set (mp_awaiting p)) (map_of m sequence)"

text \<open>Every sample that is still there awaits the same peers.\<close>

definition keeps_awaited :: "(u16 \<times> mesh_pending) list \<Rightarrow> (u16 \<times> mesh_pending) list \<Rightarrow> bool" where
  "keeps_awaited m m' \<longleftrightarrow> (\<forall>sequence. awaited m' sequence \<in> {None, awaited m sequence})"

lemma keeps_refl [simp]: "keeps_awaited m m"
  by (simp add: keeps_awaited_def)

lemma keeps_trans: "keeps_awaited a b \<Longrightarrow> keeps_awaited b c \<Longrightarrow> keeps_awaited a c"
  by (simp add: keeps_awaited_def) metis

lemma keeps_del [simp]: "keeps_awaited m (ordered_del sequence m)"
  by (auto simp: keeps_awaited_def awaited_def map_of_ordered_del)

lemma keeps_upd: "(\<And>p. fst ` set (mp_awaiting (f p)) = fst ` set (mp_awaiting p)) \<Longrightarrow>
    keeps_awaited m (ordered_upd sequence f m)"
  by (auto simp: keeps_awaited_def awaited_def map_of_ordered_upd option.map_comp comp_def)

lemma fst_ordered_upd [simp]: "fst ` set (ordered_upd k f m) = fst ` set m"
  by (metis keys_ordered_upd list.set_map)

lemma keeps_sections:
  "keeps_awaited (rl_pending r) (rl_pending (queue_ack source key data r))"
  "keeps_awaited (rl_pending r) (rl_pending (receive_end now element source key data ok local_address members r))"
  "keeps_awaited (rl_pending r) (rl_pending (fst (receive_begin now source key data r)))"
  "keeps_awaited (rl_pending r) (rl_pending (store_latest resumed k sample r))"
  "claim_channel resumed k r = Some r' \<Longrightarrow> keeps_awaited (rl_pending r) (rl_pending r')"
  "keeps_awaited (rl_pending r) (rl_pending (remember_mesh_transfer sequence destination h now r))"
  "keeps_awaited (rl_pending r) (rl_pending (consume_turn now k successor r))"
  "keeps_awaited (rl_pending r) (rl_pending (defer_target sequence destination now r))"
  "keeps_awaited (rl_pending r) (rl_pending (note_transport_busy destination now r))"
  "keeps_awaited (rl_pending r) (rl_pending (finish_send admitted resumed k sample sequence successor r))"
  "keeps_awaited (rl_pending r) (rl_pending (transfer_finished check r))"
  "keeps_awaited (rl_pending r) (rl_pending (defer_outbound destination data now r))"
  "keeps_awaited (rl_pending r) (rl_pending (requeue_ack item r))"
  "keeps_awaited (rl_pending r) (rl_pending (clear_reliable preserve r))"
  by (auto simp: queue_ack_def receive_end_def receive_begin_def store_latest_def claim_channel_def
      remember_mesh_transfer_def consume_turn_def defer_target_def note_transport_busy_def
      finish_send_def transfer_finished_def defer_outbound_def requeue_ack_def clear_reliable_def Let_def
      keeps_upd split: option.split if_splits)
     (auto simp: keeps_awaited_def awaited_def)

lemma keeps_plan:
  "keeps_awaited (rl_pending r) (rl_pending (fst (plan_send now resumed k sample members candidates addresses r)))"
proof -
  obtain r1 targets where c: "choose_targets now members candidates r = (r1, targets)" by fastforce
  show ?thesis
    using choose_targets_frame [OF c] by (simp add: plan_send_def c take_sequence_def Let_def store_latest_def)
qed

lemma keeps_results:
  "keeps_awaited (rl_pending r) (rl_pending (fst (first_result sequence destination outcome now r)))"
  "keeps_awaited (rl_pending r) (rl_pending (outbound_result item outcome now r))"
  using keeps_sections keeps_trans
  by (auto simp: first_result_def outbound_result_def Let_def split: sum.split option.split)
     (metis keeps_trans keeps_sections(8,9))

lemma keeps_collect:
  assumes "reliable_inv r"
  shows "keeps_awaited (rl_pending r) (rl_pending (fst (collect_tick now r)))"
proof -
  obtain r' outbound checks ready where c: "collect_tick now r = (r', outbound, checks, ready)"
    by (metis prod_cases4)
  note f = collect_tick_facts [OF assms c]
  have o: "ordered_keys (rl_pending r)" "ordered_keys (rl_pending r')"
    using assms f(1) by (simp_all add: reliable_inv_def pending_ok_def)
  have "awaited (rl_pending r') sequence \<in> {None, awaited (rl_pending r) sequence}" for sequence
  proof (cases "map_of (rl_pending r') sequence")
    case None
    then show ?thesis by (simp add: awaited_def)
  next
    case (Some p')
    then have "(sequence, p') \<in> set (rl_pending r')" by (simp add: map_of_SomeD)
    then obtain p where "(sequence, p) \<in> set (rl_pending r)" "kept_sample now sequence p p'"
      using f(3) by blast
    then show ?thesis using Some o(1)
      by (simp add: awaited_def ordered_mem kept_sample_def) (metis list.set_map)
  qed
  then show ?thesis by (simp add: c keeps_awaited_def)
qed

lemma keeps_admit:
  "awaited (rl_pending (admit_sample k p r)) sequence \<in> {None, awaited (rl_pending r) sequence}" if "sequence \<noteq> k"
proof -
  have "keeps_awaited (rl_pending r) (rl_pending (evict_oldest r))"
    by (simp add: evict_oldest_def split: option.split)
  then have "awaited (rl_pending (evict_oldest r)) sequence \<in> {None, awaited (rl_pending r) sequence}"
    by (simp add: keeps_awaited_def)
  moreover have "awaited (ordered_put k p m) sequence = awaited m sequence" for m
    using that by (simp add: awaited_def map_of_ordered_put)
  ultimately show ?thesis by (simp add: admit_sample_def Let_def)
qed

lemma keeps_perform:
  assumes "reliable_inv (rs_state s)" and "\<And>source key data. action \<noteq> Receipt source key data"
    and "\<And>bridge k payload swarm_id targets successor.
           action \<noteq> Admit sequence bridge k payload swarm_id targets successor"
  shows "awaited (rl_pending (rs_state (perform action s))) sequence \<in>
    {None, awaited (rl_pending (rs_state s)) sequence}"
proof (cases action)
  case (Admit sequence' bridge k payload swarm_id targets successor)
  moreover have "sequence \<noteq> sequence'"
    using assms(3) [of bridge k payload swarm_id targets successor] Admit by auto
  ultimately show ?thesis using keeps_admit [of sequence sequence'] by simp
next
  case Collect
  obtain r outbound checks ready where c: "collect_tick (rs_clock s) (rs_state s) = (r, outbound, checks, ready)"
    by (metis prod_cases4)
  then show ?thesis using keeps_collect [OF assms(1), of "rs_clock s"] Collect by (simp add: keeps_awaited_def)
next
  case (Frame element source key data)
  obtain r decode where b: "receive_begin (rs_clock s) source key data (rs_state s) = (r, decode)" by fastforce
  then show ?thesis using keeps_sections(3) [of "rs_state s" "rs_clock s" source key data] Frame
    by (simp add: keeps_awaited_def)
next
  case (Decoded delivered local_address members)
  then show ?thesis using keeps_sections(2) [of "rs_state s"]
    by (simp add: keeps_awaited_def Let_def split: option.split prod.split)
next
  case (Claim_channel resumed k)
  then show ?thesis using keeps_sections(5) [of resumed k "rs_state s"]
    by (simp add: keeps_awaited_def split: option.split)
next
  case (Outbound_outcome outcome)
  then show ?thesis using keeps_results(2) [of "rs_state s"]
    by (simp add: keeps_awaited_def split: list.split)
qed (use assms(2) keeps_sections keeps_plan keeps_results in \<open>simp_all add: keeps_awaited_def\<close>)

lemma receive_ack_awaited:
  assumes "awaited (rl_pending (receive_ack source key data r)) sequence \<noteq> awaited (rl_pending r) sequence"
  shows "sequence = mesh_reliable_sequence data \<and>
    (\<exists>p. map_of (rl_pending r) sequence = Some p \<and> key = mp_app_key_index p \<and>
       take 3 data = take 3 (mp_data p) \<and> mesh_reliable_swarm_id data = mesh_reliable_swarm_id (mp_data p) \<and>
       awaited (rl_pending (receive_ack source key data r)) sequence =
         Some (fst ` set (mp_awaiting p) - {source}))"
  using assms
  by (auto simp: receive_ack_def Let_def awaited_def map_of_ordered_upd kMeshVendorPrefixBytes_def set_ordered_del
      split: option.splits if_splits)

section \<open>A run used by the witnesses\<close>

definition demo_frame :: "u8 list" where
  "demo_frame = [193, 241, 5, 209, 2, 1, 3, 0, 7, 0, 42]"

definition demo_run :: "(nat \<times> reliable_action) list" where
  "demo_run = [(0, Frame 0 9 1 demo_frame), (1, Decoded True 0 []), (91000000000, Collect),
     (0, Frame 0 9 1 demo_frame), (0, Decoded True 0 [])]"

section \<open>Properties of every run\<close>


lemma demo_run_recent: "rs_recent (fold reliable_step demo_run (start_reliable 0 0)) =
    [(receipt_key 9 1 demo_frame, 1), (receipt_key 9 1 demo_frame, 91000000001)]"
  by (simp add: demo_run_def start_reliable_def empty_reliable_def receive_begin_def is_receipt_query_def
      reliable_opcodes reliable_sizes receive_end_def queue_ack_def collect_tick_def expire_seen_def demo_frame_def
      receipt_key_def kMaxQueuedMeshAcks_def mesh_reliable_sequence_def mesh_reliable_swarm_id_def Let_def kSeenLifetime_def secs_def ns_per_s_def)


text \<open>C30: receipts are true. In every run each acknowledgement that is queued, or that a tick has
  taken to send, answers a frame whose receipt identity this node has published to ROS, and it is
  addressed to that frame's source under its application key.\<close>

theorem receipts_only_for_published:
  assumes "list_all reliable_step_ok es" and "s = fold reliable_step es (start_reliable n t)"
    and "ack \<in> set (rl_acks (rs_state s)) \<union> outbound_ack ` {item \<in> set (rs_outbound s). ob_acknowledgement item}"
  shows "\<exists>data. ak_data ack = make_acknowledgement data \<and>
    receipt_key (ak_destination ack) (ak_app_key_index ack) data \<in> fst ` set (rs_published s)"
proof -
  have "delivery_inv s" using delivery.inv_run [OF assms(1)] by (simp add: assms(2))
  then have "acks_ok (rl_acks (rs_state s)) (rs_outbound s) (fst ` set (rs_published s))"
    by (simp add: delivery_inv_def)
  then show ?thesis using assms(3) by (auto simp: acks_ok_def answers_def)
qed

lemma demo_run_acks: "rl_acks (rs_state (fold reliable_step demo_run (start_reliable 0 0))) =
    [\<lparr>ak_destination = 9, ak_app_key_index = 1, ak_data = make_acknowledgement demo_frame\<rparr>]"
  by (simp add: demo_run_def start_reliable_def empty_reliable_def receive_begin_def is_receipt_query_def
      reliable_opcodes reliable_sizes receive_end_def queue_ack_def collect_tick_def expire_seen_def demo_frame_def
      receipt_key_def kMaxQueuedMeshAcks_def mesh_reliable_sequence_def mesh_reliable_swarm_id_def Let_def kSeenLifetime_def secs_def ns_per_s_def)

theorem receipts_only_for_published_witness:
  "\<exists>data. make_acknowledgement demo_frame = make_acknowledgement data \<and>
    receipt_key 9 1 data \<in> fst ` set (rs_published (fold reliable_step demo_run (start_reliable 0 0)))"
proof -
  have ok: "list_all reliable_step_ok demo_run" by (simp add: demo_run_def)
  show ?thesis
    using receipts_only_for_published [OF ok refl, of "\<lparr>ak_destination = 9, ak_app_key_index = 1,
      ak_data = make_acknowledgement demo_frame\<rparr>"] by (simp add: demo_run_acks)
qed

text \<open>C27: only a receipt completes a peer. In every run, when a step removes an awaited peer from a
  sample that stays outstanding (and the step does not admit a new sample under that number),
  the step is the reception of a receipt from that very peer, for the sample's sequence
  number, application key, vendor prefix and swarm, and no other peer of the sample is removed.\<close>

theorem only_receipts_complete:
  assumes "list_all reliable_step_ok es" and "s = fold reliable_step es (start_reliable n t)"
    and "s' = reliable_step (elapsed, action) s"
    and "\<And>bridge k payload swarm_id targets successor.
           action \<noteq> Admit sequence bridge k payload swarm_id targets successor"
    and "awaited (rl_pending (rs_state s)) sequence = Some peers"
    and "awaited (rl_pending (rs_state s')) sequence = Some peers'" and "peer \<in> peers - peers'"
  shows "peers' = peers - {peer} \<and>
    (\<exists>key data p. action = Receipt peer key data \<and> map_of (rl_pending (rs_state s)) sequence = Some p \<and>
       mesh_reliable_sequence data = sequence \<and> key = mp_app_key_index p \<and>
       take 3 data = take 3 (mp_data p) \<and> mesh_reliable_swarm_id data = mesh_reliable_swarm_id (mp_data p))"
proof -
  have "delivery_inv s" using delivery.inv_run [OF assms(1)] by (simp add: assms(2))
  then have inv: "reliable_inv (rs_state s)" by (simp add: delivery_inv_def)
  let ?s = "s\<lparr>rs_clock := rs_clock s + int elapsed\<rparr>"
  have changed: "awaited (rl_pending (rs_state (perform action ?s))) sequence \<notin>
      {None, awaited (rl_pending (rs_state s)) sequence}"
    using assms(3,5-7) by auto
  have "\<exists>source key data. action = Receipt source key data"
  proof (rule ccontr)
    assume "\<nexists>source key data. action = Receipt source key data"
    then have "awaited (rl_pending (rs_state (perform action ?s))) sequence \<in>
        {None, awaited (rl_pending (rs_state ?s)) sequence}"
      using inv assms(4) by (intro keeps_perform) auto
    then show False using changed by simp
  qed
  then obtain source key data where a: "action = Receipt source key data" by blast
  have "awaited (rl_pending (receive_ack source key data (rs_state s))) sequence \<noteq>
      awaited (rl_pending (rs_state s)) sequence"
    using changed by (simp add: a)
  from receive_ack_awaited [OF this] obtain p where
    p: "sequence = mesh_reliable_sequence data" "map_of (rl_pending (rs_state s)) sequence = Some p"
       "key = mp_app_key_index p" "take 3 data = take 3 (mp_data p)"
       "mesh_reliable_swarm_id data = mesh_reliable_swarm_id (mp_data p)"
    and after: "awaited (rl_pending (receive_ack source key data (rs_state s))) sequence =
         Some (fst ` set (mp_awaiting p) - {source})" by blast
  have "peers = fst ` set (mp_awaiting p)" using assms(5) p(2) by (simp add: awaited_def)
  moreover have "peers' = fst ` set (mp_awaiting p) - {source}" using assms(3,6) after by (simp add: a)
  ultimately have "peers' = peers - {source}" "peer = source" using assms(7) by auto
  with p show ?thesis by (simp add: a)
qed

definition demo_sample_run :: "(nat \<times> reliable_action) list" where
  "demo_sample_run = [(0, Admit 258 default_shared_topic_config 1 demo_payload 3 [10, 11] None)]"

lemma demo_sample_pending: "rl_pending (rs_state (fold reliable_step demo_sample_run (start_reliable n 0))) =
    [(258, new_pending 0 default_shared_topic_config 1 (make_mesh_reliable_data demo_payload 258 3) [10, 11] None)]"
  by (simp add: demo_sample_run_def start_reliable_def empty_reliable_def admit_sample_def evict_oldest_def
      kMaxPendingMeshSamples_def ordered_put_def)

lemma demo_sample_awaited:
  "awaited (rl_pending (rs_state (fold reliable_step demo_sample_run (start_reliable 0 0)))) 258 = Some {10, 11}"
  by (simp add: demo_sample_pending awaited_def new_pending_def ordered_put_def)

definition demo_receipt :: reliable_action where
  "demo_receipt = Receipt 10 (st_mesh_app_key_index default_shared_topic_config) [193, 241, 5, 210, 2, 1, 3, 0]"

lemma join_258: "join_bytes 2 1 = 258"
  by (simp add: join_bytes_def)

lemma demo_receipt_awaited:
  "awaited (rl_pending (rs_state (reliable_step (5, demo_receipt)
     (fold reliable_step demo_sample_run (start_reliable 0 0))))) 258 = Some {11}"
  by (simp add: demo_receipt_def demo_sample_pending awaited_def receive_ack_def mesh_reliable_sequence_def
      mesh_reliable_swarm_id_def new_pending_def ordered_put_def kMeshVendorPrefixBytes_def
      make_reliable_eq demo_payload_def ordered_upd_def ordered_del_def join_258 Let_def)

theorem only_receipts_complete_witness:
  "\<exists>key data. demo_receipt = Receipt 10 key data \<and> mesh_reliable_sequence data = 258 \<and> {11} = {10, 11} - {10 :: u16}"
proof -
  have ok: "list_all reliable_step_ok demo_sample_run" by (simp add: demo_sample_run_def demo_payload_valid)
  show ?thesis
    using only_receipts_complete [OF ok refl refl _ demo_sample_awaited demo_receipt_awaited, of 10]
    by (auto simp: demo_receipt_def mesh_reliable_sequence_def)
qed

text \<open>C31: the reliable state stays within its bounds. In every run at most 32 samples are
  outstanding and at most 128 receipts are queued; every outstanding sample awaits each peer at
  most once, with at most three repairs, and carries a valid bridge payload wrapped under its
  own number, whatever value it has adopted since; waiting values are valid; and the next
  number taken is not the number of any outstanding sample, across the 16-bit wrap-around.\<close>

theorem reliable_run_inv:
  assumes "list_all reliable_step_ok es" and "s = fold reliable_step es (start_reliable n t)"
  shows "length (rl_pending (rs_state s)) \<le> kMaxPendingMeshSamples \<and>
    length (rl_acks (rs_state s)) \<le> kMaxQueuedMeshAcks \<and> ordered_keys (rl_pending (rs_state s)) \<and>
    (\<forall>sequence p. map_of (rl_pending (rs_state s)) sequence = Some p \<longrightarrow>
       ordered_keys (mp_awaiting p) \<and>
       (\<forall>peer target. map_of (mp_awaiting p) peer = Some target \<longrightarrow> mg_attempts target \<le> 3) \<and>
       (\<exists>payload swarm_id. valid_bridge_frame payload \<and>
          mp_data p = make_mesh_reliable_data payload sequence swarm_id)) \<and>
    (\<forall>k bridge payload. map_of (rl_latest (rs_state s)) k = Some (bridge, payload) \<longrightarrow>
       valid_bridge_frame payload) \<and>
    map_of (rl_pending (rs_state s)) (snd (take_sequence (rs_state s))) = None"
proof -
  have "delivery_inv s" using delivery.inv_run [OF assms(1)] by (simp add: assms(2))
  then have inv: "pending_ok (rl_pending (rs_state s))" "latest_ok (rl_latest (rs_state s))"
    "length (rl_acks (rs_state s)) \<le> kMaxQueuedMeshAcks"
    by (simp_all add: delivery_inv_def reliable_inv_def)
  have fresh: "map_of (rl_pending (rs_state s)) (snd (take_sequence (rs_state s))) = None"
    using inv(1) by (intro take_sequence_fresh) (simp add: pending_ok_def kMaxPendingMeshSamples_def)
  show ?thesis using inv fresh latest_ok_lookup [OF inv(2)]
    by (fastforce simp: pending_ok_def sample_ok_def target_ok_def dest!: map_of_SomeD)
qed

theorem reliable_run_inv_witness:
  "snd (take_sequence (rs_state (fold reliable_step demo_sample_run (start_reliable 257 0)))) \<noteq> 258"
proof -
  have ok: "list_all reliable_step_ok demo_sample_run" by (simp add: demo_sample_run_def demo_payload_valid)
  show ?thesis
    using reliable_run_inv [OF ok refl, of 257 0, unfolded demo_sample_pending] by fastforce
qed

end
