(* ===== verification/Ieee_Float.thy ===== *)
theory Ieee_Float
  imports Bt_Prelude "HOL-Library.Log_Nat"
begin

text \<open>
  The C++ floating point types as the targets implement them: \<open>double\<close> is an IEEE 754 binary64 and
  \<open>float\<close> a binary32 bit pattern, with the value of a pattern, correct rounding to the nearest
  pattern (ties to even), and the operations the source applies to them. A result that is not a
  number has one pattern here.
\<close>

section \<open>Values\<close>

text \<open>A sign (true is negative) and a magnitude, so the two zeros differ.\<close>

datatype fp = Fp_nan | Fp_inf bool | Fp_num bool rat

record fp_format =
  ff_width :: nat
  ff_precision :: nat
  ff_emin :: int

definition binary64 :: fp_format where
  "binary64 = \<lparr>ff_width = 64, ff_precision = 53, ff_emin = - 1074\<rparr>"

definition binary32 :: fp_format where
  "binary32 = \<lparr>ff_width = 32, ff_precision = 24, ff_emin = - 149\<rparr>"

definition ff_fraction :: "fp_format \<Rightarrow> int" where
  "ff_fraction f = 2 ^ (ff_precision f - 1)"

definition ff_infinity :: "fp_format \<Rightarrow> int" where
  "ff_infinity f = (2 ^ (ff_width f - ff_precision f) - 1) * ff_fraction f"

text \<open>The magnitude of a finite pattern without its sign bit.\<close>

definition fp_magnitude :: "fp_format \<Rightarrow> int \<Rightarrow> rat" where
  "fp_magnitude f b =
     (let fraction = b mod ff_fraction f; biased = b div ff_fraction f
      in if biased = 0 then of_int fraction * 2 powi ff_emin f
         else of_int (fraction + ff_fraction f) * 2 powi (ff_emin f + biased - 1))"

definition fp_decode :: "fp_format \<Rightarrow> int \<Rightarrow> fp" where
  "fp_decode f bits =
     (let sign = 2 ^ (ff_width f - 1); b = bits mod sign; negative = odd (bits div sign)
      in if ff_infinity f < b then Fp_nan
         else if b = ff_infinity f then Fp_inf negative
         else Fp_num negative (fp_magnitude f b))"

section \<open>Rounding\<close>

definition flog2 :: "rat \<Rightarrow> int" where
  "flog2 x = (case quotient_of x of (n, d) \<Rightarrow>
     let k = bitlen n - bitlen d in if x < 2 powi k then k - 1 else k)"

definition round_half_even :: "rat \<Rightarrow> int" where
  "round_half_even x =
     (let n = \<lfloor>x\<rfloor>; r = x - of_int n
      in if r < 1 / 2 \<or> (r = 1 / 2 \<and> even n) then n else n + 1)"

text \<open>The pattern of a magnitude without its sign bit: \<open>(e - emin) * 2 ^ (p - 1) + q\<close> for the
  integer significand \<open>q\<close> in units of \<open>2 powi e\<close> covers subnormal and normal numbers and a carry
  out of the significand; too large a magnitude is the infinity.\<close>

definition fp_round :: "fp_format \<Rightarrow> rat \<Rightarrow> int" where
  "fp_round f x =
     (if x = 0 then 0
      else
        let e = max (ff_emin f) (flog2 x - int (ff_precision f - 1));
            q = round_half_even (x * 2 powi (- e))
        in min ((e - ff_emin f) * ff_fraction f + q) (ff_infinity f))"

definition fp_encode :: "fp_format \<Rightarrow> fp \<Rightarrow> int" where
  "fp_encode f x =
     (let sign = (\<lambda>negative. if negative then 2 ^ (ff_width f - 1) else 0)
      in case x of
        Fp_nan \<Rightarrow> ff_infinity f + ff_fraction f div 2
      | Fp_inf negative \<Rightarrow> sign negative + ff_infinity f
      | Fp_num negative x \<Rightarrow> sign negative + fp_round f x)"

section \<open>Operations\<close>

definition fp_signed :: "bool \<Rightarrow> rat \<Rightarrow> rat" where
  "fp_signed negative x = (if negative then - x else x)"

fun fp_finite :: "fp \<Rightarrow> bool" where
  "fp_finite (Fp_num negative x) \<longleftrightarrow> True"
| "fp_finite x \<longleftrightarrow> False"

fun fp_add :: "fp \<Rightarrow> fp \<Rightarrow> fp" where
  "fp_add (Fp_num a x) (Fp_num b y) =
     (let s = fp_signed a x + fp_signed b y in if s = 0 then Fp_num (a \<and> b) 0 else Fp_num (s < 0) \<bar>s\<bar>)"
| "fp_add (Fp_inf a) (Fp_inf b) = (if a = b then Fp_inf a else Fp_nan)"
| "fp_add (Fp_inf a) (Fp_num b y) = Fp_inf a"
| "fp_add (Fp_num a x) (Fp_inf b) = Fp_inf b"
| "fp_add x y = Fp_nan"

fun fp_minus :: "fp \<Rightarrow> fp" where
  "fp_minus (Fp_num a x) = Fp_num (\<not> a) x"
| "fp_minus (Fp_inf a) = Fp_inf (\<not> a)"
| "fp_minus Fp_nan = Fp_nan"

fun fp_mul :: "fp \<Rightarrow> fp \<Rightarrow> fp" where
  "fp_mul (Fp_num a x) (Fp_num b y) = Fp_num (a \<noteq> b) (x * y)"
| "fp_mul (Fp_inf a) (Fp_inf b) = Fp_inf (a \<noteq> b)"
| "fp_mul (Fp_inf a) (Fp_num b y) = (if y = 0 then Fp_nan else Fp_inf (a \<noteq> b))"
| "fp_mul (Fp_num a x) (Fp_inf b) = (if x = 0 then Fp_nan else Fp_inf (a \<noteq> b))"
| "fp_mul x y = Fp_nan"

fun fp_div :: "fp \<Rightarrow> fp \<Rightarrow> fp" where
  "fp_div (Fp_num a x) (Fp_num b y) =
     (if y = 0 then if x = 0 then Fp_nan else Fp_inf (a \<noteq> b) else Fp_num (a \<noteq> b) (x / y))"
| "fp_div (Fp_inf a) (Fp_num b y) = Fp_inf (a \<noteq> b)"
| "fp_div (Fp_num a x) (Fp_inf b) = Fp_num (a \<noteq> b) 0"
| "fp_div x y = Fp_nan"

text \<open>The comparison \<open><\<close>, and equality with zero.\<close>

fun fp_less :: "fp \<Rightarrow> fp \<Rightarrow> bool" where
  "fp_less (Fp_num a x) (Fp_num b y) \<longleftrightarrow> fp_signed a x < fp_signed b y"
| "fp_less (Fp_inf a) (Fp_inf b) \<longleftrightarrow> a \<and> \<not> b"
| "fp_less (Fp_inf a) (Fp_num b y) \<longleftrightarrow> a"
| "fp_less (Fp_num a x) (Fp_inf b) \<longleftrightarrow> \<not> b"
| "fp_less x y \<longleftrightarrow> False"

fun fp_is_zero :: "fp \<Rightarrow> bool" where
  "fp_is_zero (Fp_num a x) \<longleftrightarrow> x = 0"
| "fp_is_zero x \<longleftrightarrow> False"

fun fp_abs :: "fp \<Rightarrow> fp" where
  "fp_abs (Fp_num a x) = Fp_num False x"
| "fp_abs (Fp_inf a) = Fp_inf False"
| "fp_abs Fp_nan = Fp_nan"

text \<open>\<open>std::round\<close> (ties away from zero) and \<open>std::floor\<close>.\<close>

fun fp_round_away :: "fp \<Rightarrow> fp" where
  "fp_round_away (Fp_num a x) = Fp_num a (of_int \<lfloor>x + 1 / 2\<rfloor>)"
| "fp_round_away x = x"

fun fp_floor :: "fp \<Rightarrow> fp" where
  "fp_floor (Fp_num a x) = Fp_num a (of_int (if a then \<lceil>x\<rceil> else \<lfloor>x\<rfloor>))"
| "fp_floor x = x"

section \<open>The C++ types\<close>

type_synonym double = u64
type_synonym float = u32

definition double_value :: "double \<Rightarrow> fp" where
  "double_value d = fp_decode binary64 (uint d)"

definition double_of :: "fp \<Rightarrow> double" where
  "double_of x = word_of_int (fp_encode binary64 x)"

definition float_value :: "float \<Rightarrow> fp" where
  "float_value d = fp_decode binary32 (uint d)"

definition float_of :: "fp \<Rightarrow> float" where
  "float_of x = word_of_int (fp_encode binary32 x)"

text \<open>Conversions between the types; the sign of a NaN is not kept.\<close>

definition float_of_double :: "double \<Rightarrow> float" where
  "float_of_double d = float_of (double_value d)"

definition double_of_float :: "float \<Rightarrow> double" where
  "double_of_float d = double_of (float_value d)"

definition fp_of_int :: "int \<Rightarrow> fp" where
  "fp_of_int n = Fp_num (n < 0) (of_int \<bar>n\<bar>)"

definition double_of_int :: "int \<Rightarrow> double" where
  "double_of_int n = double_of (fp_of_int n)"

definition float_of_int :: "int \<Rightarrow> float" where
  "float_of_int n = float_of (fp_of_int n)"

definition double_zero :: double where
  "double_zero = 0"

definition double_add :: "double \<Rightarrow> double \<Rightarrow> double" where
  "double_add x y = double_of (fp_add (double_value x) (double_value y))"

definition double_sub :: "double \<Rightarrow> double \<Rightarrow> double" where
  "double_sub x y = double_of (fp_add (double_value x) (fp_minus (double_value y)))"

definition double_mul :: "double \<Rightarrow> double \<Rightarrow> double" where
  "double_mul x y = double_of (fp_mul (double_value x) (double_value y))"

definition double_div :: "double \<Rightarrow> double \<Rightarrow> double" where
  "double_div x y = double_of (fp_div (double_value x) (double_value y))"

definition double_minus :: "double \<Rightarrow> double" where
  "double_minus x = x XOR push_bit 63 1"

definition double_less :: "double \<Rightarrow> double \<Rightarrow> bool" where
  "double_less x y \<longleftrightarrow> fp_less (double_value x) (double_value y)"

end
