(* ===== verification/Payload_Codec.thy ===== *)
theory Payload_Codec
  imports Ieee_Float Config_Models
begin

text \<open>
  The packed scalar payload of topic bridges: \<open>src/bridge/payload_codec.cpp\<close> and the type tables of
  \<open>src/config/shared_topic_config.cpp\<close>. A scalar holds its bit pattern; signed types read it with
  \<open>sint\<close>, floating types with \<open>Ieee_Float\<close>. \<open>ExactInteger\<close> (\<open>__int128\<close>) is \<open>int\<close>: every value the
  codec computes with it fits.
\<close>

section \<open>Types\<close>

datatype scalar_value =
    S_bool bool
  | S_int8 u8 | S_uint8 u8
  | S_int16 u16 | S_uint16 u16
  | S_int32 u32 | S_uint32 u32
  | S_int64 u64 | S_uint64 u64
  | S_float32 float | S_float64 double

definition kTypeInfo :: "(string \<times> nat) list" where
  "kTypeInfo = [(''bool'', 1), (''int8'', 1), (''uint8'', 1), (''int16'', 2), (''uint16'', 2),
     (''int32'', 4), (''uint32'', 4), (''int64'', 8), (''uint64'', 8), (''float32'', 4), (''float64'', 8)]"

definition wire_size :: "string \<Rightarrow> nat" where
  "wire_size value_type = (case map_of kTypeInfo value_type of None \<Rightarrow> 0 | Some n \<Rightarrow> n)"

definition member_wire_size :: "bridge_member_spec \<Rightarrow> nat" where
  "member_wire_size spec = wire_size (ms_value_type spec)"

definition total_wire_size :: "bridge_member_spec list \<Rightarrow> nat" where
  "total_wire_size specs = foldl (\<lambda>total s. total + member_wire_size s) 0 specs"

section \<open>The tables of the configuration layer\<close>

definition kTypeAliases :: "(string \<times> string) list" where
  "kTypeAliases = [(''boolean'', ''bool''), (''byte'', ''int8''), (''octet'', ''uint8''), (''char'', ''uint8''),
     (''float'', ''float32''), (''double'', ''float64'')]"

definition kTypeMeta :: "(string \<times> char \<times> nat) list" where
  "kTypeMeta = [(''bool'', CHR ''?'', 1), (''int8'', CHR ''b'', 1), (''uint8'', CHR ''B'', 1),
     (''int16'', CHR ''h'', 2), (''uint16'', CHR ''H'', 2), (''int32'', CHR ''i'', 4), (''uint32'', CHR ''I'', 4),
     (''int64'', CHR ''q'', 8), (''uint64'', CHR ''Q'', 8), (''float32'', CHR ''f'', 4), (''float64'', CHR ''d'', 8)]"

definition struct_format_for :: "string \<Rightarrow> char" where
  "struct_format_for value_type =
     (case map_of kTypeMeta value_type of None \<Rightarrow> CHR 0x00 | Some (fmt, bytes) \<Rightarrow> fmt)"

definition wire_size_for :: "string \<Rightarrow> nat" where
  "wire_size_for value_type = (case map_of kTypeMeta value_type of None \<Rightarrow> 0 | Some (fmt, bytes) \<Rightarrow> bytes)"

definition payload_wire_size :: "bridge_member_spec list \<Rightarrow> nat" where
  "payload_wire_size specs = foldl (\<lambda>total s. total + wire_size_for (ms_value_type s)) 0 specs"

definition normalize_value_type :: "string \<Rightarrow> string" where
  "normalize_value_type raw = (case map_of kTypeAliases raw of None \<Rightarrow> raw | Some canonical \<Rightarrow> canonical)"

definition quoted :: "string \<Rightarrow> string" where
  "quoted s = CHR 0x27 # s @ [CHR 0x27]"

text \<open>\<open>None\<close> when every topic passes; the exception of the first unsupported member otherwise.\<close>

fun validate_members :: "nat \<Rightarrow> bridge_member_spec list \<Rightarrow> std_error option" where
  "validate_members i [] = None"
| "validate_members i (m # ms) =
     (if map_of kTypeMeta (normalize_value_type (ms_value_type m)) = None
      then Some (Runtime_error (''shared_topics['' @ show_nat i @ ''].members_encode: unsupported type '' @
             quoted (ms_value_type m) @ '' for target '' @ quoted (ms_target m)))
      else validate_members i ms)"

fun validate_topics_from :: "nat \<Rightarrow> shared_topic_config list \<Rightarrow> std_error option" where
  "validate_topics_from i [] = None"
| "validate_topics_from i (topic # topics) =
     (case validate_members i (st_member_specs topic) of
        Some error \<Rightarrow> Some error
      | None \<Rightarrow> validate_topics_from (i + 1) topics)"

definition validate_shared_topics :: "shared_topic_config list \<Rightarrow> std_error option" where
  "validate_shared_topics topics = validate_topics_from 0 topics"

section \<open>Bytes\<close>

text \<open>\<open>memcpy\<close> of an integer on a little-endian host.\<close>

fun bytes_of :: "nat \<Rightarrow> 'a::len word \<Rightarrow> u8 list" where
  "bytes_of 0 w = []"
| "bytes_of (Suc n) w = ucast w # bytes_of n (drop_bit 8 w)"

fun word_of_bytes :: "u8 list \<Rightarrow> 'a::len word" where
  "word_of_bytes [] = 0"
| "word_of_bytes (b # bs) = ucast b OR push_bit 8 (word_of_bytes bs)"

fun scalar_bytes :: "scalar_value \<Rightarrow> u8 list" where
  "scalar_bytes (S_bool v) = [if v then 1 else 0]"
| "scalar_bytes (S_int8 v) = bytes_of 1 v"
| "scalar_bytes (S_uint8 v) = bytes_of 1 v"
| "scalar_bytes (S_int16 v) = bytes_of 2 v"
| "scalar_bytes (S_uint16 v) = bytes_of 2 v"
| "scalar_bytes (S_int32 v) = bytes_of 4 v"
| "scalar_bytes (S_uint32 v) = bytes_of 4 v"
| "scalar_bytes (S_int64 v) = bytes_of 8 v"
| "scalar_bytes (S_uint64 v) = bytes_of 8 v"
| "scalar_bytes (S_float32 v) = bytes_of 4 v"
| "scalar_bytes (S_float64 v) = bytes_of 8 v"

section \<open>Packing\<close>

text \<open>The buffer grows by the width of the declared type and the bytes of the value are copied over
  its new zeros. \<open>None\<close>: the value is wider than its declared type, so the copy writes past the
  end of the buffer (undefined behaviour).\<close>

definition pack_value :: "u8 list \<Rightarrow> scalar_value \<Rightarrow> bridge_member_spec \<Rightarrow> (std_error + u8 list) option" where
  "pack_value buf val spec =
     (let sz = member_wire_size spec; bytes = scalar_bytes val
      in if sz = 0 then Some (Inl (Runtime_error (''Unknown value type: '' @ ms_value_type spec)))
         else if sz < length bytes then None
         else Some (Inr (buf @ bytes @ replicate (sz - length bytes) 0)))"

fun pack_values :: "u8 list \<Rightarrow> (scalar_value \<times> bridge_member_spec) list \<Rightarrow> (std_error + u8 list) option" where
  "pack_values buf [] = Some (Inr buf)"
| "pack_values buf ((val, spec) # rest) =
     (case pack_value buf val spec of
        None \<Rightarrow> None
      | Some (Inl error) \<Rightarrow> Some (Inl error)
      | Some (Inr buf) \<Rightarrow> pack_values buf rest)"

definition encode_struct_payload ::
    "scalar_value list \<Rightarrow> bridge_member_spec list \<Rightarrow> (std_error + u8 list) option" where
  "encode_struct_payload vals specs =
     (if length vals \<noteq> length specs
      then Some (Inl (Runtime_error ''Value count does not match member spec count''))
      else pack_values [] (zip vals specs))"

section \<open>Unpacking\<close>

definition unpack_value :: "u8 list \<Rightarrow> nat \<Rightarrow> bridge_member_spec \<Rightarrow> std_error + scalar_value" where
  "unpack_value buf off spec =
     (let value_type = ms_value_type spec; sz = member_wire_size spec; field = substr buf off sz
      in if sz = 0 then Inl (Runtime_error (''Unknown value type: '' @ value_type))
         else if length buf < off + sz
         then Inl (Runtime_error (''Payload too short while decoding '' @ value_type))
         else if value_type = ''bool'' then Inr (S_bool (hd field \<noteq> 0))
         else if value_type = ''int8'' then Inr (S_int8 (word_of_bytes field))
         else if value_type = ''uint8'' then Inr (S_uint8 (word_of_bytes field))
         else if value_type = ''int16'' then Inr (S_int16 (word_of_bytes field))
         else if value_type = ''uint16'' then Inr (S_uint16 (word_of_bytes field))
         else if value_type = ''int32'' then Inr (S_int32 (word_of_bytes field))
         else if value_type = ''uint32'' then Inr (S_uint32 (word_of_bytes field))
         else if value_type = ''int64'' then Inr (S_int64 (word_of_bytes field))
         else if value_type = ''uint64'' then Inr (S_uint64 (word_of_bytes field))
         else if value_type = ''float32'' then Inr (S_float32 (word_of_bytes field))
         else if value_type = ''float64'' then Inr (S_float64 (word_of_bytes field))
         else Inl (Runtime_error (''Unhandled value type: '' @ value_type)))"

fun unpack_values :: "u8 list \<Rightarrow> nat \<Rightarrow> bridge_member_spec list \<Rightarrow> std_error + scalar_value list" where
  "unpack_values payload off [] = Inr []"
| "unpack_values payload off (spec # specs) =
     (case unpack_value payload off spec of
        Inl error \<Rightarrow> Inl error
      | Inr v \<Rightarrow> (case unpack_values payload (off + member_wire_size spec) specs of
           Inl error \<Rightarrow> Inl error
         | Inr vs \<Rightarrow> Inr (v # vs)))"

definition decode_struct_payload :: "u8 list \<Rightarrow> bridge_member_spec list \<Rightarrow> std_error + scalar_value list" where
  "decode_struct_payload payload specs = unpack_values payload 0 specs"

section \<open>Conversions to wire scalars\<close>

text \<open>The range of an integer type with \<open>digits\<close> value bits, as \<open>numeric_limits\<close> gives it.\<close>

definition checked_fixed :: "bool \<Rightarrow> nat \<Rightarrow> fp \<Rightarrow> string \<Rightarrow> std_error + int" where
  "checked_fixed is_signed digits value type =
     (case value of
        Fp_num negative x \<Rightarrow>
          let scaled = fp_round_away value; upper = Fp_num False (2 ^ digits);
              lower = (if is_signed then Fp_num True (2 ^ digits) else Fp_num False 0)
          in if fp_less scaled lower \<or> \<not> fp_less scaled upper
             then Inl (Runtime_error (type @ '' value is outside its integer range''))
             else Inr (\<lfloor>fp_signed negative (of_int \<lfloor>x + 1 / 2\<rfloor>)\<rfloor>)
      | _ \<Rightarrow> Inl (Runtime_error (type @ '' cannot encode a non-finite value'')))"

definition checked_exact :: "bool \<Rightarrow> nat \<Rightarrow> int \<Rightarrow> string \<Rightarrow> std_error + int" where
  "checked_exact is_signed digits value type =
     (if value < (if is_signed then - (2 ^ digits) else 0) \<or> 2 ^ digits - 1 < value
      then Inl (Runtime_error (type @ '' value is outside its integer range''))
      else Inr value)"

definition to_scalar :: "('a::len word \<Rightarrow> scalar_value) \<Rightarrow> std_error + int \<Rightarrow> std_error + scalar_value" where
  "to_scalar constructor result = (case result of Inl error \<Rightarrow> Inl error | Inr n \<Rightarrow> Inr (constructor (word_of_int n)))"

definition coerce_outgoing :: "double \<Rightarrow> bridge_member_spec \<Rightarrow> std_error + scalar_value" where
  "coerce_outgoing d spec =
     (let value = double_value d; value_type = ms_value_type spec
      in if value_type = ''bool'' then Inr (S_bool (\<not> fp_is_zero value))
         else if value_type = ''int8'' then to_scalar S_int8 (checked_fixed True 7 value value_type)
         else if value_type = ''uint8'' then to_scalar S_uint8 (checked_fixed False 8 value value_type)
         else if value_type = ''int16'' then to_scalar S_int16 (checked_fixed True 15 value value_type)
         else if value_type = ''uint16'' then to_scalar S_uint16 (checked_fixed False 16 value value_type)
         else if value_type = ''int32'' then to_scalar S_int32 (checked_fixed True 31 value value_type)
         else if value_type = ''uint32'' then to_scalar S_uint32 (checked_fixed False 32 value value_type)
         else if value_type = ''int64'' then to_scalar S_int64 (checked_fixed True 63 value value_type)
         else if value_type = ''uint64'' then to_scalar S_uint64 (checked_fixed False 64 value value_type)
         else if value_type = ''float32'' then Inr (S_float32 (float_of_double d))
         else if value_type = ''float64'' then Inr (S_float64 d)
         else Inl (Runtime_error (''Unknown value type for coercion: '' @ value_type)))"

definition coerce_outgoing_integer :: "int \<Rightarrow> bridge_member_spec \<Rightarrow> std_error + scalar_value" where
  "coerce_outgoing_integer value spec =
     (let type = ms_value_type spec
      in if type = ''bool'' then Inr (S_bool (value \<noteq> 0))
         else if type = ''int8'' then to_scalar S_int8 (checked_exact True 7 value type)
         else if type = ''uint8'' then to_scalar S_uint8 (checked_exact False 8 value type)
         else if type = ''int16'' then to_scalar S_int16 (checked_exact True 15 value type)
         else if type = ''uint16'' then to_scalar S_uint16 (checked_exact False 16 value type)
         else if type = ''int32'' then to_scalar S_int32 (checked_exact True 31 value type)
         else if type = ''uint32'' then to_scalar S_uint32 (checked_exact False 32 value type)
         else if type = ''int64'' then to_scalar S_int64 (checked_exact True 63 value type)
         else if type = ''uint64'' then to_scalar S_uint64 (checked_exact False 64 value type)
         else if type = ''float32'' then Inr (S_float32 (float_of_int value))
         else if type = ''float64'' then Inr (S_float64 (double_of_int value))
         else Inl (Runtime_error (''Unknown value type for integer coercion: '' @ type)))"

section \<open>Conversions from wire scalars\<close>

fun coerce_incoming_integer :: "scalar_value \<Rightarrow> int option" where
  "coerce_incoming_integer (S_bool v) = Some (of_bool v)"
| "coerce_incoming_integer (S_int8 v) = Some (sint v)"
| "coerce_incoming_integer (S_uint8 v) = Some (uint v)"
| "coerce_incoming_integer (S_int16 v) = Some (sint v)"
| "coerce_incoming_integer (S_uint16 v) = Some (uint v)"
| "coerce_incoming_integer (S_int32 v) = Some (sint v)"
| "coerce_incoming_integer (S_uint32 v) = Some (uint v)"
| "coerce_incoming_integer (S_int64 v) = Some (sint v)"
| "coerce_incoming_integer (S_uint64 v) = Some (uint v)"
| "coerce_incoming_integer (S_float32 v) = None"
| "coerce_incoming_integer (S_float64 v) = None"

fun coerce_incoming :: "scalar_value \<Rightarrow> bridge_member_spec \<Rightarrow> double" where
  "coerce_incoming (S_float32 v) spec = double_of_float v"
| "coerce_incoming (S_float64 v) spec = v"
| "coerce_incoming v spec = double_of_int (case coerce_incoming_integer v of Some n \<Rightarrow> n | None \<Rightarrow> 0)"

end
