(* ===== verification/Ieee_Correct.thy ===== *)
theory Ieee_Correct
  imports Ieee_Float
begin

text \<open>
  The floating point model is sound where the codec relies on it: rounding gives a representable
  magnitude back unchanged, so patterns survive reading and writing.
\<close>

definition format_ok :: "fp_format \<Rightarrow> bool" where
  "format_ok f \<longleftrightarrow> 2 \<le> ff_precision f \<and> ff_precision f < ff_width f"

lemma binary64_ok [simp]: "format_ok binary64" and binary32_ok [simp]: "format_ok binary32"
  by (simp_all add: format_ok_def binary64_def binary32_def)

lemma flog2_bounds:
  assumes "0 < x"
  shows "2 powi flog2 x \<le> x" and "x < 2 powi (flog2 x + 1)"
proof -
  obtain n d where q: "quotient_of x = (n, d)" by fastforce
  have x: "x = of_int n / of_int d" and d: "0 < d" using q by (simp_all add: quotient_of_div quotient_of_denom_pos)
  then have n: "0 < n" using assms by (simp add: zero_less_divide_iff)
  have pw: "2 powi j = (of_int (2 ^ nat j) :: rat)" if "0 \<le> j" for j :: int
    using that by (simp add: power_int_def)
  have l: "1 \<le> bitlen n" "1 \<le> bitlen d" using n d by (simp_all add: bitlen_ge_iff_power)
  have "2 ^ nat (bitlen n - 1) \<le> n" "n < 2 ^ nat (bitlen n)" "2 ^ nat (bitlen d - 1) \<le> d" "d < 2 ^ nat (bitlen d)"
    using bitlen_bounds [OF n] bitlen_bounds [OF d] by auto
  then have b: "(2 :: rat) powi (bitlen n - 1) \<le> of_int n" "of_int n < (2 :: rat) powi bitlen n"
    "(2 :: rat) powi (bitlen d - 1) \<le> of_int d" "of_int d < (2 :: rat) powi bitlen d"
    using l by (simp_all only: pw of_int_le_iff of_int_less_iff diff_ge_0_iff_ge zero_le_one order_trans [OF zero_le_one])
  have "2 powi (bitlen n - bitlen d - 1) * of_int d < 2 powi (bitlen n - bitlen d - 1) * (2 powi bitlen d :: rat)"
    using b(4) by simp
  also have "\<dots> = 2 powi (bitlen n - 1)" by (simp flip: power_int_add)
  finally have lo: "2 powi (bitlen n - bitlen d - 1) < x" using b(1) d by (simp add: x pos_less_divide_eq)
  have "(2 powi bitlen n :: rat) = 2 powi (bitlen n - bitlen d + 1) * 2 powi (bitlen d - 1)" by (simp flip: power_int_add)
  also have "\<dots> \<le> 2 powi (bitlen n - bitlen d + 1) * of_int d" using b(3) by simp
  finally have hi: "x < 2 powi (bitlen n - bitlen d + 1)" using b(2) d by (simp add: x pos_divide_less_eq)
  show "2 powi flog2 x \<le> x" "x < 2 powi (flog2 x + 1)"
    using lo hi by (simp_all add: flog2_def q Let_def)
qed

lemma powi_less_iff: "(2 :: rat) powi i < 2 powi j \<longleftrightarrow> i < j"
  by (metis less_asym' linorder_neqE numeral_One numeral_less_iff power_int_strict_increasing semiring_norm(76))

lemma flog2_unique:
  assumes "2 powi k \<le> x" and "x < 2 powi (k + 1)"
  shows "flog2 x = k"
proof -
  have "0 < x" using assms(1) by (meson less_le_trans zero_less_numeral zero_less_power_int)
  note b = flog2_bounds [OF this]
  have "(2 :: rat) powi flog2 x < 2 powi (k + 1)" "(2 :: rat) powi k < 2 powi (flog2 x + 1)"
    using b assms by linarith+
  then show ?thesis by (simp add: powi_less_iff)
qed

lemma round_half_even_int [simp]: "round_half_even (of_int n) = n"
  by (simp add: round_half_even_def)

text \<open>Canonical representations: the significand has its leading bit, or the exponent is least.\<close>

definition canonical :: "fp_format \<Rightarrow> int \<Rightarrow> int \<Rightarrow> bool" where
  "canonical f m e \<longleftrightarrow> 0 < m \<and> m < 2 * ff_fraction f \<and>
     (ff_fraction f \<le> m \<and> ff_emin f \<le> e \<or> e = ff_emin f)"

lemma fraction_pos [simp]: "0 < ff_fraction f"
  by (simp add: ff_fraction_def)

lemma fraction_double: "format_ok f \<Longrightarrow> 2 * ff_fraction f = 2 ^ ff_precision f"
  by (simp add: ff_fraction_def format_ok_def power_eq_if)

lemma fp_round_canonical:
  assumes "format_ok f" and "canonical f m e"
  shows "fp_round f (of_int m * 2 powi e) = min ((e - ff_emin f) * ff_fraction f + m) (ff_infinity f)"
proof -
  let ?x = "of_int m * 2 powi e :: rat" and ?p = "int (ff_precision f - 1)"
  have m: "0 < m" "m < 2 * ff_fraction f" using assms(2) by (simp_all add: canonical_def)
  have frac: "(of_int (ff_fraction f) :: rat) = 2 powi ?p" by (simp add: ff_fraction_def power_int_def)
  have e: "max (ff_emin f) (flog2 ?x - ?p) = e"
  proof (cases "ff_fraction f \<le> m")
    case True
    have "(of_int (ff_fraction f) :: rat) \<le> of_int m" using True by simp
    then have 1: "2 powi (e + ?p) \<le> ?x" by (simp add: power_int_add frac)
    have "(of_int m :: rat) < of_int (2 * ff_fraction f)" using m by (simp only: of_int_less_iff)
    then have 2: "?x < 2 powi (e + ?p + 1)" by (simp add: power_int_add frac)
    show ?thesis using flog2_unique [OF 1 2] True assms(2) by (auto simp: canonical_def)
  next
    case False
    then have e: "e = ff_emin f" using assms(2) by (simp add: canonical_def)
    have pos: "0 < ?x" using m by (simp add: zero_less_mult_iff)
    have "(of_int m :: rat) < of_int (ff_fraction f)" using False by simp
    then have "?x < 2 powi (e + ?p)" by (simp add: power_int_add frac)
    then have "(2 :: rat) powi flog2 ?x < 2 powi (e + ?p)" using flog2_bounds(1) [OF pos] by linarith
    then have "flog2 ?x < e + ?p" by (simp add: powi_less_iff)
    then show ?thesis using e by simp
  qed
  have one: "2 powi e * 2 powi (- e) = (1 :: rat)" by (simp flip: power_int_add)
  have r: "round_half_even (?x * 2 powi (- e)) = m" by (simp add: mult.assoc one)
  show ?thesis using m unfolding fp_round_def Let_def e r by simp
qed

text \<open>The pattern of a canonical representation reads back as its magnitude.\<close>

lemma fp_magnitude_canonical:
  assumes "canonical f m e"
  shows "fp_magnitude f ((e - ff_emin f) * ff_fraction f + m) = of_int m * 2 powi e"
proof (cases "ff_fraction f \<le> m")
  case True
  define r where "r = m - ff_fraction f"
  have r: "m = ff_fraction f + r" "0 \<le> r" "r < ff_fraction f" using True assms by (simp_all add: r_def canonical_def)
  have e: "ff_emin f \<le> e" using assms by (auto simp: canonical_def)
  have eq: "(e - ff_emin f) * ff_fraction f + m = (e - ff_emin f + 1) * ff_fraction f + r"
    by (simp add: r(1) algebra_simps)
  have "((e - ff_emin f + 1) * ff_fraction f + r) mod ff_fraction f = r"
    "((e - ff_emin f + 1) * ff_fraction f + r) div ff_fraction f = e - ff_emin f + 1"
    using r(2,3) by (simp_all add: div_add1_eq)
  then show ?thesis using e unfolding fp_magnitude_def eq Let_def by (simp add: r(1) add.commute)
next
  case False
  then have "e = ff_emin f" "0 \<le> m" "m < ff_fraction f" using assms by (simp_all add: canonical_def)
  then show ?thesis by (simp add: fp_magnitude_def)
qed

lemma canonicalE:
  assumes "0 < m" and "m < 2 * ff_fraction f" and "ff_emin f \<le> e"
  obtains m' e' where "canonical f m' e'" and "of_int m * 2 powi e = (of_int m' * 2 powi e' :: rat)" and "e' \<le> e"
proof -
  have "\<exists>m' e'. canonical f m' e' \<and> of_int m * 2 powi e = (of_int m' * 2 powi e' :: rat) \<and> e' \<le> e"
    using assms
  proof (induction "nat (e - ff_emin f)" arbitrary: m e)
    case 0
    then show ?case by (intro exI [of _ m] exI [of _ e]) (simp add: canonical_def)
  next
    case (Suc n)
    show ?case
    proof (cases "ff_fraction f \<le> m")
      case True
      then show ?thesis using Suc.prems by (intro exI [of _ m] exI [of _ e]) (simp add: canonical_def)
    next
      case False
      have "n = nat (e - 1 - ff_emin f)" "0 < 2 * m" "2 * m < 2 * ff_fraction f" "ff_emin f \<le> e - 1"
        using Suc False by simp_all
      from Suc.hyps(1) [OF this] obtain m' e' where "canonical f m' e'"
        "of_int (2 * m) * 2 powi (e - 1) = (of_int m' * 2 powi e' :: rat)" "e' \<le> e - 1" by blast
      moreover have "of_int (2 * m) * 2 powi (e - 1) = (of_int m * 2 powi e :: rat)"
        by (simp add: power_int_diff)
      ultimately show ?thesis by (intro exI [of _ m'] exI [of _ e']) simp
    qed
  qed
  then show ?thesis using that by blast
qed

lemma canonical_pattern:
  assumes "0 < b" and "b < ff_infinity f"
  obtains m e where "canonical f m e" and "b = (e - ff_emin f) * ff_fraction f + m"
proof (cases "b < ff_fraction f")
  case True
  then have "canonical f b (ff_emin f)" using assms by (simp add: canonical_def)
  then show ?thesis using that by force
next
  case False
  have d: "b = b div ff_fraction f * ff_fraction f + b mod ff_fraction f" by simp
  have "0 \<le> b mod ff_fraction f" "b mod ff_fraction f < ff_fraction f" by simp_all
  moreover have "1 \<le> b div ff_fraction f" using False
    by (metis fraction_pos linorder_not_less pos_imp_zdiv_pos_iff int_one_le_iff_zero_less)
  ultimately have "canonical f (ff_fraction f + b mod ff_fraction f) (ff_emin f + b div ff_fraction f - 1)"
    using fraction_pos [of f] add_pos_nonneg [of "ff_fraction f" "b mod ff_fraction f"] by (simp add: canonical_def)
  moreover have "b = (ff_emin f + b div ff_fraction f - 1 - ff_emin f) * ff_fraction f + (ff_fraction f + b mod ff_fraction f)"
    using d by (simp add: algebra_simps)
  ultimately show ?thesis using that by blast
qed

lemma fp_round_magnitude:
  assumes "format_ok f" and "0 \<le> b" and "b < ff_infinity f"
  shows "fp_round f (fp_magnitude f b) = b"
proof (cases "b = 0")
  case True
  then show ?thesis by (simp add: fp_round_def fp_magnitude_def)
next
  case False
  then obtain m e where "canonical f m e" "b = (e - ff_emin f) * ff_fraction f + m"
    using canonical_pattern [of b f] assms by auto
  then show ?thesis using fp_round_canonical [OF assms(1)] assms(3) by (simp add: fp_magnitude_canonical)
qed

text \<open>A magnitude with at most the format's precision, above the least unit and below the infinity,
  is represented exactly.\<close>

lemma fp_round_exact:
  assumes "format_ok f" and "0 \<le> m" and "m < 2 * ff_fraction f" and "ff_emin f \<le> e"
    and "(e + 2 - ff_emin f) * ff_fraction f \<le> ff_infinity f" and "x = of_int m * 2 powi e"
  shows "fp_magnitude f (fp_round f x) = x" and "0 \<le> fp_round f x" and "fp_round f x < ff_infinity f"
proof -
  have inf: "0 < ff_infinity f" using assms(4,5) fraction_pos [of f]
    by (smt (verit) mult_pos_pos)
  have "fp_magnitude f (fp_round f x) = x \<and> 0 \<le> fp_round f x \<and> fp_round f x < ff_infinity f"
  proof (cases "m = 0")
    case True
    then show ?thesis using inf by (simp add: assms(6) fp_round_def fp_magnitude_def)
  next
    case False
    then obtain m' e' where c: "canonical f m' e'" "x = of_int m' * 2 powi e'" "e' \<le> e"
      using canonicalE [of m f e] assms by auto
    have m': "0 < m'" "m' < 2 * ff_fraction f" "ff_emin f \<le> e'" using c(1) by (auto simp: canonical_def)
    have "(e' - ff_emin f) * ff_fraction f \<le> (e - ff_emin f) * ff_fraction f"
      using c(3) by (simp add: mult_right_mono)
    moreover have step: "(e + 2 - ff_emin f) * ff_fraction f = (e - ff_emin f) * ff_fraction f + 2 * ff_fraction f"
      by (simp add: algebra_simps)
    ultimately have b: "(e' - ff_emin f) * ff_fraction f + m' < ff_infinity f"
      using m'(2) assms(5) step by linarith
    have "0 \<le> (e' - ff_emin f) * ff_fraction f" using m'(3) by (simp add: less_imp_le)
    then show ?thesis
      using fp_round_canonical [OF assms(1) c(1)] fp_magnitude_canonical [OF c(1)] b m'
      by (simp add: c(2))
  qed
  then show "fp_magnitude f (fp_round f x) = x" "0 \<le> fp_round f x" "fp_round f x < ff_infinity f" by auto
qed

section \<open>Patterns\<close>

lemma fp_magnitude_nonneg: "0 \<le> fp_magnitude f b"
  by (auto simp: fp_magnitude_def Let_def less_imp_le intro!: mult_nonneg_nonneg add_nonneg_nonneg)

lemma infinity_less_sign:
  assumes "format_ok f"
  shows "ff_infinity f < 2 ^ (ff_width f - 1)"
proof -
  have "(2 :: int) ^ (ff_width f - ff_precision f) * ff_fraction f = 2 ^ (ff_width f - 1)"
    using assms by (simp add: ff_fraction_def format_ok_def flip: power_add)
  then show ?thesis by (simp add: ff_infinity_def algebra_simps)
qed

text \<open>Reading a pattern that is a number and writing it gives the pattern.\<close>

lemma fp_encode_decode:
  assumes "format_ok f" and "0 \<le> bits" and "bits < 2 ^ ff_width f" and "fp_decode f bits \<noteq> Fp_nan"
  shows "fp_encode f (fp_decode f bits) = bits"
proof -
  let ?s = "2 ^ (ff_width f - 1) :: int"
  have w: "2 ^ ff_width f = 2 * ?s" using assms(1) by (cases "ff_width f") (simp_all add: format_ok_def)
  have "?s * (bits div ?s) \<le> bits" using mult_div_mod_eq [of ?s bits] pos_mod_sign [of ?s bits]
    by (smt (verit) zero_less_power)
  then have "?s * (bits div ?s) < ?s * 2" using assms(3) w by linarith
  then have "bits div ?s < 2" by simp
  moreover have "0 \<le> bits div ?s" using assms(2) by (simp add: pos_imp_zdiv_nonneg_iff)
  ultimately have "bits div ?s = 0 \<or> bits div ?s = 1" by linarith
  then have q: "(if odd (bits div ?s) then ?s else 0) + bits mod ?s = bits"
    using div_mult_mod_eq [of bits ?s] by auto
  have "0 \<le> bits mod ?s" by simp
  then show ?thesis using assms(4) fp_round_magnitude [OF assms(1), of "bits mod ?s"] q
    by (auto simp: fp_decode_def fp_encode_def Let_def split: if_splits)
qed

text \<open>Writing a number that is represented exactly and reading it gives the number.\<close>

lemma fp_decode_encode:
  assumes "format_ok f" and "fp_magnitude f (fp_round f x) = x" and "0 \<le> fp_round f x" and "fp_round f x < ff_infinity f"
  shows "fp_decode f (fp_encode f (Fp_num negative x)) = Fp_num negative x"
proof -
  let ?s = "2 ^ (ff_width f - 1) :: int" and ?b = "fp_round f x"
  have b: "?b < ?s" using infinity_less_sign [OF assms(1)] assms(4) by simp
  have "((if negative then ?s else 0) + ?b) mod ?s = ?b" "((if negative then ?s else 0) + ?b) div ?s = of_bool negative"
    using b assms(3) by (simp_all add: div_add1_eq)
  then show ?thesis using assms by (simp add: fp_decode_def fp_encode_def Let_def)
qed

lemma fp_encode_bounds:
  assumes "format_ok f" and "0 \<le> fp_round f x"
  shows "0 \<le> fp_encode f (Fp_num negative x)" and "fp_encode f (Fp_num negative x) < 2 ^ ff_width f"
proof -
  have w: "2 ^ ff_width f = 2 * (2 ^ (ff_width f - 1) :: int)"
    using assms(1) by (cases "ff_width f") (simp_all add: format_ok_def)
  have "fp_round f x \<le> ff_infinity f \<or> x = 0" by (simp add: fp_round_def Let_def)
  then have "fp_round f x < 2 ^ (ff_width f - 1)"
    using infinity_less_sign [OF assms(1)] by (auto simp: fp_round_def)
  then show "0 \<le> fp_encode f (Fp_num negative x)" "fp_encode f (Fp_num negative x) < 2 ^ ff_width f"
    using assms(2) by (simp_all add: fp_encode_def w)
qed

lemma fp_magnitude_parts:
  assumes "0 \<le> b" and "b < ff_infinity f"
  obtains m e where "0 \<le> m" and "m < 2 * ff_fraction f" and "ff_emin f \<le> e"
    and "e < ff_emin f + 2 ^ (ff_width f - ff_precision f)" and "fp_magnitude f b = of_int m * 2 powi e"
proof (cases "b div ff_fraction f = 0")
  case True
  then have "fp_magnitude f b = of_int (b mod ff_fraction f) * 2 powi ff_emin f" by (simp add: fp_magnitude_def)
  moreover have "b mod ff_fraction f < 2 * ff_fraction f"
    using pos_mod_bound [OF fraction_pos, of b f] fraction_pos [of f] by linarith
  ultimately show ?thesis using that [of "b mod ff_fraction f" "ff_emin f"] by simp
next
  case False
  have "0 \<le> b div ff_fraction f" using assms(1) by (simp add: pos_imp_zdiv_nonneg_iff)
  moreover have "b div ff_fraction f * ff_fraction f < (2 ^ (ff_width f - ff_precision f) - 1) * ff_fraction f"
    using assms(2) div_mult_mod_eq [of b "ff_fraction f"] pos_mod_sign [OF fraction_pos, of b f]
    unfolding ff_infinity_def by linarith
  then have "b div ff_fraction f < 2 ^ (ff_width f - ff_precision f) - 1" by simp
  moreover have "fp_magnitude f b = of_int (b mod ff_fraction f + ff_fraction f) * 2 powi (ff_emin f + b div ff_fraction f - 1)"
    using False by (simp add: fp_magnitude_def Let_def)
  ultimately show ?thesis
    using that [of "b mod ff_fraction f + ff_fraction f" "ff_emin f + b div ff_fraction f - 1"] False
      fraction_pos [of f] by (simp add: add_nonneg_nonneg less_imp_le)
qed

section \<open>Doubles and floats\<close>

lemma double_value_num:
  "double_value d = Fp_num negative x \<Longrightarrow> 0 \<le> x"
  by (auto simp: double_value_def fp_decode_def Let_def fp_magnitude_nonneg split: if_splits)

lemma double_of_exact:
  assumes "0 \<le> m" and "m < 2 ^ 53" and "- 1074 \<le> e" and "e \<le> 971" and "x = of_int m * 2 powi e"
  shows "double_value (double_of (Fp_num negative x)) = Fp_num negative x"
proof -
  have m: "m < 2 * ff_fraction binary64" using assms(2) by (simp add: ff_fraction_def binary64_def)
  have e: "ff_emin binary64 \<le> e" using assms(3) by (simp add: binary64_def)
  have b: "(e + 2 - ff_emin binary64) * ff_fraction binary64 \<le> ff_infinity binary64"
    using assms(4) by (simp add: ff_infinity_def ff_fraction_def binary64_def)
  note r = fp_round_exact [OF binary64_ok assms(1) m e b assms(5)]
  have w: "2 ^ ff_width binary64 = (2 ^ 64 :: int)" by (simp add: binary64_def)
  note bd = fp_encode_bounds [OF binary64_ok r(2), of negative, unfolded w]
  show ?thesis
    using bd fp_decode_encode [OF binary64_ok r]
    by (simp add: double_value_def double_of_def unsigned_of_int take_bit_int_eq_self)
qed

lemma double_of_int_value: "\<bar>n\<bar> < 2 ^ 53 \<Longrightarrow> double_value (double_of_int n) = Fp_num (n < 0) (of_int \<bar>n\<bar>)"
  unfolding double_of_int_def fp_of_int_def by (rule double_of_exact [of "\<bar>n\<bar>" 0]) simp_all

lemma double_of_inf: "double_value (double_of (Fp_inf negative)) = Fp_inf negative"
  by (cases negative) (simp_all add: double_value_def double_of_def fp_encode_def fp_decode_def ff_infinity_def
      ff_fraction_def binary64_def unsigned_of_int take_bit_int_eq_self)

text \<open>A \<open>float\<close> that is a number survives the way through \<open>double\<close>.\<close>

lemma float_through_double:
  assumes "float_value f \<noteq> Fp_nan"
  shows "float_of_double (double_of_float f) = f"
proof -
  have b: "0 \<le> uint f" "uint f < 2 ^ ff_width binary32"
    using uint_lt2p [of f] by (simp_all add: binary32_def)
  have "double_value (double_of (float_value f)) = float_value f"
  proof (cases "float_value f")
    case (Fp_num negative x)
    define b where "b = uint f mod 2 ^ 31"
    have eq: "x = fp_magnitude binary32 b" "b < ff_infinity binary32" "0 \<le> b"
      using Fp_num by (auto simp: float_value_def fp_decode_def Let_def binary32_def b_def split: if_splits)
    obtain m e where "0 \<le> m" "m < 2 * ff_fraction binary32" "ff_emin binary32 \<le> e"
      "e < ff_emin binary32 + 2 ^ (ff_width binary32 - ff_precision binary32)" "x = of_int m * 2 powi e"
      using fp_magnitude_parts [OF eq(3,2)] eq(1) by metis
    then show ?thesis unfolding Fp_num
      by (intro double_of_exact [of m e]) (simp_all add: binary32_def ff_fraction_def)
  qed (use assms in \<open>simp_all add: double_of_inf\<close>)
  then show ?thesis
    using fp_encode_decode [OF binary32_ok b] assms
    by (simp add: float_of_double_def double_of_float_def float_of_def float_value_def)
qed

end
