(* ===== verification/Payload_Correct.thy ===== *)
theory Payload_Correct
  imports Payload_Codec Ieee_Correct
begin

text \<open>
  The packed payload: what is encoded is decoded again, in the declared widths; coerced values
  are always packed in bounds; and which numbers each wire type carries exactly.
\<close>

section \<open>Bytes\<close>

lemma length_bytes_of [simp]: "length (bytes_of n w) = n"
  by (induction n arbitrary: w) simp_all

lemma word_of_bytes_of: "word_of_bytes (bytes_of n w) = (take_bit (8 * n) w :: 'a::len word)"
proof (induction n arbitrary: w)
  case (Suc n)
  have "word_of_bytes (bytes_of (Suc n) w) = (ucast (ucast w :: u8) OR push_bit 8 (take_bit (8 * n) (drop_bit 8 w)) :: 'a word)"
    by (simp add: Suc.IH)
  also have "\<dots> = take_bit (8 * Suc n) w"
    by (rule bit_word_eqI) (auto simp: bit_simps)
  finally show ?case .
qed simp

lemma word_of_bytes_all [simp]: "LENGTH('a) \<le> 8 * n \<Longrightarrow> word_of_bytes (bytes_of n w) = (w :: 'a::len word)"
  by (simp add: word_of_bytes_of take_bit_word_eq_self)

section \<open>Fields at fixed offsets\<close>

text \<open>A codec of fields with a width fixed by their declaration: the reader finds a field wherever
  it was put, so a record of fields is read back field by field.\<close>

locale field_codec =
  fixes width :: "'spec \<Rightarrow> nat"
    and enc :: "'a \<Rightarrow> u8 list"
    and dec :: "u8 list \<Rightarrow> nat \<Rightarrow> 'spec \<Rightarrow> std_error + 'a"
    and typed :: "'a \<Rightarrow> 'spec \<Rightarrow> bool"
  assumes length_enc: "typed x s \<Longrightarrow> length (enc x) = width s"
    and dec_enc: "typed x s \<Longrightarrow> dec (pre @ enc x @ post) (length pre) s = Inr x"
begin

lemma length_record: "list_all2 typed xs ss \<Longrightarrow> length (concat (map enc xs)) = sum_list (map width ss)"
  by (induction rule: list_all2_induct) (simp_all add: length_enc)

lemma dec_field:
  assumes "list_all2 typed xs ss" and "i < length xs"
  shows "dec (pre @ concat (map enc xs) @ post) (length pre + sum_list (map width (take i ss))) (ss ! i) = Inr (xs ! i)"
proof -
  have l: "length xs = length ss" using assms(1) by (rule list_all2_lengthD)
  have x: "concat (map enc xs) = concat (map enc (take i xs)) @ enc (xs ! i) @ concat (map enc (drop (Suc i) xs))"
    using assms(2) by (subst id_take_nth_drop [of i xs]) simp_all
  have "length (concat (map enc (take i xs))) = sum_list (map width (take i ss))"
    using assms(1) by (intro length_record) (rule list_all2_takeI)
  moreover have "typed (xs ! i) (ss ! i)" using assms by (simp add: list_all2_conv_all_nth)
  ultimately show ?thesis
    using dec_enc [of "xs ! i" "ss ! i" "pre @ concat (map enc (take i xs))"] by (simp add: x)
qed

end

fun scalar_type :: "scalar_value \<Rightarrow> string" where
  "scalar_type (S_bool v) = ''bool''"
| "scalar_type (S_int8 v) = ''int8''"
| "scalar_type (S_uint8 v) = ''uint8''"
| "scalar_type (S_int16 v) = ''int16''"
| "scalar_type (S_uint16 v) = ''uint16''"
| "scalar_type (S_int32 v) = ''int32''"
| "scalar_type (S_uint32 v) = ''uint32''"
| "scalar_type (S_int64 v) = ''int64''"
| "scalar_type (S_uint64 v) = ''uint64''"
| "scalar_type (S_float32 v) = ''float32''"
| "scalar_type (S_float64 v) = ''float64''"

definition well_typed :: "scalar_value \<Rightarrow> bridge_member_spec \<Rightarrow> bool" where
  "well_typed v spec \<longleftrightarrow> scalar_type v = ms_value_type spec"

lemma scalar_width: "length (scalar_bytes v) = wire_size (scalar_type v)" "0 < length (scalar_bytes v)"
  by (cases v; simp add: wire_size_def kTypeInfo_def)+

lemma unpack_scalar:
  assumes "scalar_type v = ms_value_type spec"
  shows "unpack_value (pre @ scalar_bytes v @ post) (length pre) spec = Inr v"
proof -
  have sz: "member_wire_size spec = length (scalar_bytes v)"
    by (simp add: member_wire_size_def scalar_width assms)
  have field: "substr (pre @ scalar_bytes v @ post) (length pre) (member_wire_size spec) = scalar_bytes v"
    by (simp add: substr_def sz)
  have pos: "member_wire_size spec \<noteq> 0" using scalar_width(2) [of v] by (simp add: sz)
  show ?thesis
    unfolding unpack_value_def Let_def field
    using pos assms [symmetric] sz by (cases v) simp_all
qed

interpretation scalar: field_codec member_wire_size scalar_bytes unpack_value well_typed
  by unfold_locales (simp_all add: well_typed_def member_wire_size_def scalar_width unpack_scalar)

lemma unpack_values_at:
  "length vs = length specs \<Longrightarrow>
   (\<And>i. i < length specs \<Longrightarrow> unpack_value payload (off + sum_list (map member_wire_size (take i specs))) (specs ! i) = Inr (vs ! i)) \<Longrightarrow>
   unpack_values payload off specs = Inr vs"
proof (induction specs arbitrary: off vs)
  case (Cons spec specs)
  then obtain v vs' where vs: "vs = v # vs'" by (cases vs) auto
  have "unpack_value payload off spec = Inr v" using Cons.prems(2) [of 0] by (simp add: vs)
  moreover have "unpack_values payload (off + member_wire_size spec) specs = Inr vs'"
    using Cons.prems(1) Cons.prems(2) [of "Suc i" for i] by (intro Cons.IH) (simp_all add: vs add.assoc)
  ultimately show ?case by (simp add: vs)
qed simp

lemma pack_values_typed:
  "list_all2 well_typed vs specs \<Longrightarrow> pack_values buf (zip vs specs) = Some (Inr (buf @ concat (map scalar_bytes vs)))"
proof (induction arbitrary: buf rule: list_all2_induct)
  case (Cons v vs spec specs)
  have "pack_value buf v spec = Some (Inr (buf @ scalar_bytes v))"
    using Cons.hyps(1) scalar_width(2) [of v] scalar.length_enc [OF Cons.hyps(1)]
    by (simp add: pack_value_def Let_def)
  then show ?case by (simp add: Cons.IH)
qed simp

lemma total_wire_size_sum: "total_wire_size specs = sum_list (map member_wire_size specs)"
proof -
  have "foldl (\<lambda>total s. total + member_wire_size s) n specs = n + sum_list (map member_wire_size specs)" for n
    by (induction specs arbitrary: n) simp_all
  then show ?thesis by (simp add: total_wire_size_def)
qed

section \<open>Integer wire types\<close>

definition int_range :: "string \<Rightarrow> (int \<times> int) option" where
  "int_range value_type = map_of
     [(''int8'', - (2 ^ 7), 2 ^ 7 - 1), (''uint8'', 0, 2 ^ 8 - 1), (''int16'', - (2 ^ 15), 2 ^ 15 - 1),
      (''uint16'', 0, 2 ^ 16 - 1), (''int32'', - (2 ^ 31), 2 ^ 31 - 1), (''uint32'', 0, 2 ^ 32 - 1),
      (''int64'', - (2 ^ 63), 2 ^ 63 - 1), (''uint64'', 0, 2 ^ 64 - 1)] value_type"

lemma int_range_cases:
  assumes "int_range t = Some (lo, hi)"
  obtains "t = ''int8''" "lo = - 128" "hi = 127" | "t = ''uint8''" "lo = 0" "hi = 255"
  | "t = ''int16''" "lo = - 32768" "hi = 32767" | "t = ''uint16''" "lo = 0" "hi = 65535"
  | "t = ''int32''" "lo = - 2147483648" "hi = 2147483647" | "t = ''uint32''" "lo = 0" "hi = 4294967295"
  | "t = ''int64''" "lo = - 9223372036854775808" "hi = 9223372036854775807"
  | "t = ''uint64''" "lo = 0" "hi = 18446744073709551615"
  using assms by (auto simp: int_range_def split: if_splits)

text \<open>What both coercions do with an integer in or out of the range.\<close>

definition coerced_integer :: "std_error + scalar_value \<Rightarrow> bridge_member_spec \<Rightarrow> int \<Rightarrow> int \<Rightarrow> int \<Rightarrow> bool" where
  "coerced_integer result spec lo hi n \<longleftrightarrow>
     (if lo \<le> n \<and> n \<le> hi
      then (case result of Inl error \<Rightarrow> False
            | Inr v \<Rightarrow> well_typed v spec \<and> coerce_incoming_integer v = Some n)
      else result = Inl (Runtime_error (ms_value_type spec @ '' value is outside its integer range'')))"

text \<open>exact integers stay exact. For every integer wire type a value is accepted exactly when it
  is in the range of the type, and the accepted wire scalar reads back as the same integer;
  outside the range it is refused with an error that names the type.\<close>

theorem coerce_integer_exact:
  assumes "int_range (ms_value_type spec) = Some (lo, hi)"
  shows "coerced_integer (coerce_outgoing_integer n spec) spec lo hi n"
  using assms
  by (cases rule: int_range_cases)
     (simp_all add: coerced_integer_def coerce_outgoing_integer_def checked_exact_def to_scalar_def well_typed_def
       Let_def signed_of_int unsigned_of_int signed_take_bit_int_eq_self take_bit_int_eq_self)

theorem coerce_integer_exact_witness:
  "coerced_integer (coerce_outgoing_integer 200 \<lparr>ms_target = [], ms_value_type = ''int8'', ms_expression = []\<rparr>)
     \<lparr>ms_target = [], ms_value_type = ''int8'', ms_expression = []\<rparr> (- 128) 127 200"
  by (rule coerce_integer_exact) (simp add: int_range_def)

section \<open>Numbers to integers\<close>

definition nearest_away :: "bool \<Rightarrow> rat \<Rightarrow> int" where
  "nearest_away negative x = (if negative then - \<lfloor>x + 1 / 2\<rfloor> else \<lfloor>x + 1 / 2\<rfloor>)"

lemma checked_fixed_exact:
  "checked_fixed is_signed digits (Fp_num negative x) t = checked_exact is_signed digits (nearest_away negative x) t"
proof -
  let ?n = "nearest_away negative x"
  have s: "fp_signed negative (of_int \<lfloor>x + 1 / 2\<rfloor>) = (of_int ?n :: rat)"
    by (simp add: fp_signed_def nearest_away_def)
  have p: "(2 :: rat) ^ digits = of_int (2 ^ digits)" by simp
  have "of_int ?n < - ((2 :: rat) ^ digits) \<longleftrightarrow> ?n < - (2 ^ digits)"
    unfolding p of_int_minus [symmetric] of_int_less_iff ..
  moreover have "of_int ?n < (2 :: rat) ^ digits \<longleftrightarrow> ?n < 2 ^ digits"
    unfolding p of_int_less_iff ..
  ultimately show ?thesis
    by (auto simp: checked_fixed_def checked_exact_def Let_def s fp_signed_def [of False] fp_signed_def [of True])
qed

lemma coerce_outgoing_num:
  assumes "int_range (ms_value_type spec) = Some (lo, hi)" and "double_value d = Fp_num negative x"
  shows "coerce_outgoing d spec = coerce_outgoing_integer (nearest_away negative x) spec"
  using assms(1)
  by (cases rule: int_range_cases)
     (simp_all add: coerce_outgoing_def coerce_outgoing_integer_def Let_def assms(2) checked_fixed_exact)

lemma coerce_outgoing_not_finite:
  assumes "int_range (ms_value_type spec) = Some (lo, hi)" and "\<not> fp_finite (double_value d)"
  shows "coerce_outgoing d spec = Inl (Runtime_error (ms_value_type spec @ '' cannot encode a non-finite value''))"
  using assms(1)
  by (cases rule: int_range_cases; cases "double_value d")
     (use assms(2) in \<open>simp_all add: coerce_outgoing_def Let_def checked_fixed_def to_scalar_def\<close>)

lemma nearest_away_props:
  assumes "0 \<le> x"
  shows "\<bar>of_int (nearest_away negative x) - fp_signed negative x\<bar> \<le> 1 / 2"
    and "\<bar>of_int (nearest_away negative x) - fp_signed negative x\<bar> = 1 / 2 \<Longrightarrow>
      \<bar>fp_signed negative x\<bar> < \<bar>of_int (nearest_away negative x)\<bar>"
proof -
  obtain n where n: "n = \<lfloor>x + 1 / 2\<rfloor>" by simp
  have f: "of_int n \<le> x + 1 / 2" "x + 1 / 2 < of_int n + 1" "(0 :: rat) \<le> of_int n"
    using assms by (auto simp: n le_floor_iff) linarith
  have "(of_int (n * 2) :: rat) \<noteq> of_int 1" unfolding of_int_eq_iff by presburger
  then have odd: "(of_int n :: rat) * 2 \<noteq> 1" by simp
  show "\<bar>of_int (nearest_away negative x) - fp_signed negative x\<bar> \<le> 1 / 2"
    using f by (auto simp: nearest_away_def fp_signed_def abs_if simp flip: n)
  show "\<bar>of_int (nearest_away negative x) - fp_signed negative x\<bar> = 1 / 2 \<Longrightarrow>
      \<bar>fp_signed negative x\<bar> < \<bar>of_int (nearest_away negative x)\<bar>"
    using f assms odd by (auto simp: nearest_away_def fp_signed_def abs_if simp flip: n split: if_splits)
qed

text \<open>A number is rounded and checked, never wrapped. For every integer wire type a double is
  encoded as the nearest integer, ties away from zero, when that integer is in the range of the
  type; it is refused when it is outside, and infinities and NaN are refused.\<close>

theorem coerce_number_rounds:
  assumes "int_range (ms_value_type spec) = Some (lo, hi)"
  shows "case double_value d of
    Fp_num negative x \<Rightarrow> \<exists>n. \<bar>of_int n - fp_signed negative x\<bar> \<le> 1 / 2 \<and>
      (\<bar>of_int n - fp_signed negative x\<bar> = 1 / 2 \<longrightarrow> \<bar>fp_signed negative x\<bar> < \<bar>of_int n\<bar>) \<and>
      coerced_integer (coerce_outgoing d spec) spec lo hi n
  | _ \<Rightarrow> coerce_outgoing d spec = Inl (Runtime_error (ms_value_type spec @ '' cannot encode a non-finite value''))"
proof (cases "double_value d")
  case (Fp_num negative x)
  have i: "coerced_integer (coerce_outgoing d spec) spec lo hi (nearest_away negative x)"
    using assms unfolding coerce_outgoing_num [OF assms Fp_num] by (cases rule: int_range_cases)
      (simp_all add: coerced_integer_def coerce_outgoing_integer_def checked_exact_def to_scalar_def well_typed_def
       Let_def signed_of_int unsigned_of_int signed_take_bit_int_eq_self take_bit_int_eq_self)
  show ?thesis
    using i nearest_away_props [OF double_value_num [OF Fp_num]] by (auto simp: Fp_num)
qed (simp_all add: coerce_outgoing_not_finite [OF assms])

definition example_member :: "string \<Rightarrow> bridge_member_spec" where
  "example_member t = \<lparr>ms_target = ''x'', ms_value_type = t, ms_expression = []\<rparr>"

text \<open>\<open>- 2.5\<close> as \<open>int8\<close> is \<open>- 3\<close>; \<open>300\<close> is refused.\<close>

theorem coerce_number_rounds_witness:
  "\<exists>n. \<bar>of_int n - fp_signed True (5 / 2)\<bar> \<le> (1 / 2 :: rat) \<and>
    coerced_integer (coerce_outgoing (double_of (Fp_num True (5 / 2))) (example_member ''int8'')) (example_member ''int8'')
      (- 128) 127 n"
proof -
  have v: "double_value (double_of (Fp_num True (5 / 2))) = Fp_num True (5 / 2)"
    by (rule double_of_exact [of 5 "- 1"]) (simp_all add: power_int_def)
  have r: "int_range (ms_value_type (example_member ''int8'')) = Some (- 128, 127)"
    by (simp add: int_range_def example_member_def)
  show ?thesis using coerce_number_rounds [OF r, of "double_of (Fp_num True (5 / 2))"] by (auto simp: v)
qed

section \<open>Records of coerced values\<close>

definition coerced :: "scalar_value \<Rightarrow> bridge_member_spec \<Rightarrow> bool" where
  "coerced v spec \<longleftrightarrow> (\<exists>d. coerce_outgoing d spec = Inr v) \<or> (\<exists>n. coerce_outgoing_integer n spec = Inr v)"

lemma coerced_well_typed: "coerced v spec \<Longrightarrow> well_typed v spec"
  by (auto simp: coerced_def coerce_outgoing_def coerce_outgoing_integer_def to_scalar_def well_typed_def Let_def
      split: if_splits sum.splits)



section \<open>Through the expression domain\<close>

text \<open>Values the floating expression domain carries exactly.\<close>

fun survives :: "scalar_value \<Rightarrow> bool" where
  "survives (S_int64 w) \<longleftrightarrow> \<bar>sint w\<bar> < 2 ^ 53"
| "survives (S_uint64 w) \<longleftrightarrow> uint w < 2 ^ 53"
| "survives (S_float32 f) \<longleftrightarrow> float_value f \<noteq> Fp_nan"
| "survives v \<longleftrightarrow> True"

lemma word_ranges:
  "- 128 \<le> sint (w8 :: u8)" "sint w8 \<le> 127" "uint w8 \<le> 255"
  "- 32768 \<le> sint (w16 :: u16)" "sint w16 \<le> 32767" "uint w16 \<le> 65535"
  "- 2147483648 \<le> sint (w32 :: u32)" "sint w32 \<le> 2147483647" "uint w32 \<le> 4294967295"
  "- 9223372036854775808 \<le> sint (w64 :: u64)" "sint w64 \<le> 9223372036854775807" "uint w64 \<le> 18446744073709551615"
  using sint_ge [of w8] sint_lt [of w8] uint_lt2p [of w8] sint_ge [of w16] sint_lt [of w16] uint_lt2p [of w16]
    sint_ge [of w32] sint_lt [of w32] uint_lt2p [of w32] sint_ge [of w64] sint_lt [of w64] uint_lt2p [of w64]
  by simp_all

lemma word_small:
  "\<bar>sint (w8 :: u8)\<bar> < 9007199254740992" "\<bar>uint w8\<bar> < 9007199254740992"
  "\<bar>sint (w16 :: u16)\<bar> < 9007199254740992" "\<bar>uint w16\<bar> < 9007199254740992"
  "\<bar>sint (w32 :: u32)\<bar> < 9007199254740992" "\<bar>uint w32\<bar> < 9007199254740992"
  using word_ranges(1,2,3) [of w8] word_ranges(4,5,6) [of w16] word_ranges(7,8,9) [of w32] by auto

lemma well_typedD: "well_typed v spec \<Longrightarrow> ms_value_type spec = scalar_type v"
  by (simp add: well_typed_def)

text \<open>The wire scalar of an integer type is the one its own value is coerced to.\<close>

lemma coerce_integer_back:
  assumes "well_typed v spec" and "coerce_incoming_integer v = Some n" and "scalar_type v \<noteq> ''bool''"
  shows "\<exists>lo hi. int_range (ms_value_type spec) = Some (lo, hi)" and "coerce_outgoing_integer n spec = Inr v"
proof -
  have t: "ms_value_type spec = scalar_type v" using assms(1) by (simp add: well_typed_def)
  show "\<exists>lo hi. int_range (ms_value_type spec) = Some (lo, hi)"
    using assms(2,3) by (cases v) (auto simp: t int_range_def)
  show "coerce_outgoing_integer n spec = Inr v"
    using assms(2,3) word_ranges
    by (cases v) (auto simp: t coerce_outgoing_integer_def checked_exact_def to_scalar_def Let_def not_less)
qed

text \<open>wire scalars survive the expression domain. A decoded scalar converted to a double and
  encoded again under the same declaration is the same scalar: for every boolean, every
  integer of at most 32 bits, 64-bit integers below \<open>2 ^ 53\<close>, every \<open>float32\<close> that is not a NaN,
  and every \<open>float64\<close>.\<close>

theorem scalar_survives_expressions:
  assumes "well_typed v spec" and "survives v"
  shows "coerce_outgoing (coerce_incoming v spec) spec = Inr v"
proof (cases "coerce_incoming_integer v")
  case None
  then show ?thesis
    using assms(2) by (cases v) (simp_all add: well_typedD [OF assms(1)] coerce_outgoing_def float_through_double Let_def)
next
  case (Some n)
  have small: "\<bar>n\<bar> < 2 ^ 53"
    using Some assms(2) word_small by (cases v) auto
  have d: "double_value (coerce_incoming v spec) = Fp_num (n < 0) (of_int \<bar>n\<bar>)"
    using double_of_int_value [OF small] Some by (cases v) simp_all
  have near: "nearest_away (n < 0) (of_int \<bar>n\<bar>) = n"
  proof -
    have "\<lfloor>(of_int \<bar>n\<bar> + 1 / 2 :: rat)\<rfloor> = \<bar>n\<bar>" unfolding floor_eq_iff by simp
    then show ?thesis by (simp add: nearest_away_def abs_if)
  qed
  show ?thesis
  proof (cases "scalar_type v = ''bool''")
    case True
    then obtain b where v: "v = S_bool b" by (cases v) simp_all
    then show ?thesis using well_typedD [OF assms(1)] d Some by (cases b) (simp_all add: coerce_outgoing_def Let_def)
  next
    case False
    obtain lo hi where "int_range (ms_value_type spec) = Some (lo, hi)"
      using coerce_integer_back(1) [OF assms(1) Some False] by blast
    from coerce_outgoing_num [OF this d, unfolded near] show ?thesis
      using coerce_integer_back(2) [OF assms(1) Some False] by simp
  qed
qed

theorem scalar_survives_expressions_witness:
  "coerce_outgoing (coerce_incoming (S_int32 (- 7)) (example_member ''int32'')) (example_member ''int32'') = Inr (S_int32 (- 7))"
  by (rule scalar_survives_expressions) (simp_all add: well_typed_def example_member_def)

section \<open>The tables agree\<close>

lemma validate_members_None:
  "validate_members i ms = None \<longleftrightarrow> (\<forall>m\<in>set ms. 0 < wire_size_for (normalize_value_type (ms_value_type m)))"
proof (induction ms)
  case (Cons m ms)
  have "map_of kTypeMeta t = None \<longleftrightarrow> wire_size_for t = 0" for t
    by (auto simp: wire_size_for_def kTypeMeta_def)
  then show ?case using Cons by auto
qed simp

lemma validate_topics_None:
  "validate_topics_from i topics = None \<longleftrightarrow>
     (\<forall>topic\<in>set topics. \<forall>m\<in>set (st_member_specs topic). 0 < wire_size_for (normalize_value_type (ms_value_type m)))"
proof (induction topics arbitrary: i)
  case (Cons topic topics)
  then show ?case
    using validate_members_None [of i "st_member_specs topic"]
    by (cases "validate_members i (st_member_specs topic)") auto
qed simp

lemma wire_size_for_eq: "wire_size_for t = wire_size t"
  by (simp add: wire_size_for_def wire_size_def kTypeMeta_def kTypeInfo_def)

lemma normalize_value_type_idem: "normalize_value_type (normalize_value_type t) = normalize_value_type t"
  by (simp add: normalize_value_type_def kTypeAliases_def)

text \<open>The configuration layer and the codec agree. Both give every type the same width, a topic
  list is valid exactly when the codec can size every normalised member type, and
  normalising is idempotent, so a normalised member of a valid list is never refused by the
  codec for its type.\<close>

theorem codec_tables_agree:
  "payload_wire_size specs = total_wire_size specs \<and>
   (validate_shared_topics topics = None \<longleftrightarrow>
      list_all (\<lambda>topic. list_all (\<lambda>m. wire_size (normalize_value_type (ms_value_type m)) \<noteq> 0)
        (st_member_specs topic)) topics) \<and>
   normalize_value_type (normalize_value_type t) = normalize_value_type t"
  by (simp add: payload_wire_size_def total_wire_size_def member_wire_size_def wire_size_for_eq
      validate_shared_topics_def validate_topics_None normalize_value_type_idem list_all_iff)

end
