(* ===== verification/Member_Path.thy ===== *)
theory Member_Path
  imports Bt_Prelude
begin

text \<open>
  ROS member paths such as \<open>pose.position[3].x\<close>: \<open>parse_member_path\<close> of
  \<open>src/bridge/payload_codec.cpp\<close> with its helpers, and \<open>std::stoi\<close> of the library.
\<close>

section \<open>Integers\<close>

definition kIntMax :: int where "kIntMax = 2147483647"

text \<open>\<open>std::stoi\<close> in base 10: the value and the number of characters used.\<close>

definition stoi :: "string \<Rightarrow> std_error + int \<times> nat" where
  "stoi s =
     (let spaces = takeWhile is_space s; s1 = drop (length spaces) s;
          negative = (s1 \<noteq> [] \<and> hd s1 = CHR ''-'');
          signs = (if s1 \<noteq> [] \<and> (hd s1 = CHR ''-'' \<or> hd s1 = CHR ''+'') then 1 else 0);
          digits = takeWhile is_digit (drop signs s1);
          value = (if negative then - int (digits_value digits) else int (digits_value digits))
      in if digits = [] then Inl (Invalid_argument ''stoi'')
         else if value < - kIntMax - 1 \<or> kIntMax < value then Inl (Out_of_range ''stoi'')
         else Inr (value, length spaces + signs + length digits))"

definition trim_copy :: "string \<Rightarrow> string" where
  "trim_copy raw = trim_ws raw"

definition parse_non_negative_int :: "string \<Rightarrow> string \<Rightarrow> std_error + int" where
  "parse_non_negative_int raw context =
     (let token = trim_copy raw
      in if token = []
         then Inl (Invalid_argument (''Missing integer in member path segment: '' @ context))
         else (case stoi token of
             Inl error \<Rightarrow> Inl error
           | Inr (value, parsed) \<Rightarrow>
               if parsed \<noteq> length token \<or> value < 0
               then Inl (Invalid_argument (''Invalid non-negative integer in member path segment: '' @ context))
               else Inr value))"

section \<open>Segments\<close>

record path_segment =
  sg_name :: string
  sg_index :: int
  sg_has_slice :: bool
  sg_slice_start :: "int option"
  sg_slice_stop :: "int option"
  sg_slice_step :: int

definition plain_segment :: "string \<Rightarrow> path_segment" where
  "plain_segment name = \<lparr>sg_name = name, sg_index = - 1, sg_has_slice = False, sg_slice_start = None,
     sg_slice_stop = None, sg_slice_step = 1\<rparr>"

fun split_on :: "'a \<Rightarrow> 'a list \<Rightarrow> 'a list list" where
  "split_on sep [] = [[]]"
| "split_on sep (x # xs) =
     (if x = sep then [] # split_on sep xs
      else case split_on sep xs of p # ps \<Rightarrow> (x # p) # ps | [] \<Rightarrow> [[x]])"

text \<open>An optional bound of a slice: nothing when it is blank.\<close>

definition parse_bound :: "string \<Rightarrow> string \<Rightarrow> std_error + int option" where
  "parse_bound part raw =
     (if trim_copy part = [] then Inr None
      else (case parse_non_negative_int part raw of Inl error \<Rightarrow> Inl error | Inr n \<Rightarrow> Inr (Some n)))"

definition parse_slice :: "path_segment \<Rightarrow> string \<Rightarrow> string \<Rightarrow> std_error + path_segment" where
  "parse_slice seg selector raw =
     (let parts = split_on (CHR '':'') selector
      in if 3 < length parts
         then Inl (Invalid_argument (''Invalid slice syntax in member path segment: '' @ raw))
         else (case parse_bound (parts ! 0) raw of
             Inl error \<Rightarrow> Inl error
           | Inr start \<Rightarrow> (case parse_bound (parts ! 1) raw of
               Inl error \<Rightarrow> Inl error
             | Inr stop \<Rightarrow> (case if length parts = 3 then parse_bound (parts ! 2) raw else Inr None of
                 Inl error \<Rightarrow> Inl error
               | Inr None \<Rightarrow> Inr (seg\<lparr>sg_has_slice := True, sg_slice_start := start, sg_slice_stop := stop\<rparr>)
               | Inr (Some step) \<Rightarrow>
                   if step \<le> 0
                   then Inl (Invalid_argument (''Slice step must be positive in member path segment: '' @ raw))
                   else Inr (seg\<lparr>sg_has_slice := True, sg_slice_start := start, sg_slice_stop := stop,
                                 sg_slice_step := step\<rparr>)))))"

definition parse_selector :: "path_segment \<Rightarrow> string \<Rightarrow> string \<Rightarrow> std_error + path_segment" where
  "parse_selector seg selector raw =
     (if CHR '':'' \<in> set selector then parse_slice seg selector raw
      else (case parse_non_negative_int selector raw of
          Inl error \<Rightarrow> Inl error
        | Inr n \<Rightarrow> Inr (seg\<lparr>sg_index := n\<rparr>)))"

definition parse_segment :: "string \<Rightarrow> std_error + path_segment" where
  "parse_segment raw =
     (let invalid = Inl (Invalid_argument (''Invalid member path segment: '' @ raw));
          named = (\<lambda>result. case result of
             Inl error \<Rightarrow> Inl error
           | Inr seg \<Rightarrow> if sg_name seg = [] then invalid else Inr seg)
      in case find_first (\<lambda>c. c = CHR ''['') raw of
           None \<Rightarrow> named (Inr (plain_segment raw))
         | Some bracket_open \<Rightarrow>
             (case find_first (\<lambda>c. c = CHR '']'') (drop bracket_open raw) of
                None \<Rightarrow> invalid
              | Some offset \<Rightarrow>
                  let bracket_close = bracket_open + offset
                  in if bracket_close + 1 \<noteq> length raw then invalid
                     else named (parse_selector (plain_segment (take bracket_open raw))
                            (substr raw (bracket_open + 1) (bracket_close - bracket_open - 1)) raw)))"

section \<open>Paths\<close>

text \<open>The text from \<open>start\<close> on: each segment ends at the next dot.\<close>

function parse_segments :: "string \<Rightarrow> std_error + path_segment list" where
  "parse_segments path =
     (if path = [] then Inr []
      else
        let raw = takeWhile (\<lambda>c. c \<noteq> CHR ''.'') path
        in case parse_segment raw of
             Inl error \<Rightarrow> Inl error
           | Inr seg \<Rightarrow> (case parse_segments (drop (length raw + 1) path) of
               Inl error \<Rightarrow> Inl error
             | Inr segs \<Rightarrow> Inr (seg # segs)))"
  by pat_completeness auto
termination by (relation "measure length") (auto simp: length_greater_0_conv [symmetric] simp del: length_greater_0_conv)

declare parse_segments.simps [simp del]

definition parse_member_path :: "string \<Rightarrow> std_error + path_segment list" where
  "parse_member_path path =
     (if path = [] then Inl (Invalid_argument ''Member path must not be empty'') else parse_segments path)"

end
