(* ===== verification/Member_Path_Correct.thy ===== *)
theory Member_Path_Correct
  imports Member_Path
begin

text \<open>
  Member paths: the parser accepts well-formed segments only, and every list of well-formed
  segments is the parse of its canonical text.
\<close>

section \<open>Well-formed segments and their text\<close>

definition bound_ok :: "int option \<Rightarrow> bool" where
  "bound_ok b \<longleftrightarrow> (case b of None \<Rightarrow> True | Some n \<Rightarrow> 0 \<le> n \<and> n \<le> kIntMax)"

definition segment_ok :: "path_segment \<Rightarrow> bool" where
  "segment_ok seg \<longleftrightarrow> sg_name seg \<noteq> [] \<and> CHR ''.'' \<notin> set (sg_name seg) \<and> CHR ''['' \<notin> set (sg_name seg) \<and>
     (if sg_has_slice seg
      then sg_index seg = - 1 \<and> bound_ok (sg_slice_start seg) \<and> bound_ok (sg_slice_stop seg) \<and>
           0 < sg_slice_step seg \<and> sg_slice_step seg \<le> kIntMax
      else sg_slice_start seg = None \<and> sg_slice_stop seg = None \<and> sg_slice_step seg = 1 \<and>
           - 1 \<le> sg_index seg \<and> sg_index seg \<le> kIntMax)"

definition show_bound :: "int option \<Rightarrow> string" where
  "show_bound b = (case b of None \<Rightarrow> [] | Some n \<Rightarrow> show_nat (nat n))"

definition show_selector :: "path_segment \<Rightarrow> string" where
  "show_selector seg =
     (if sg_has_slice seg
      then show_bound (sg_slice_start seg) @ '':'' @ show_bound (sg_slice_stop seg) @ '':'' @
           show_nat (nat (sg_slice_step seg))
      else show_nat (nat (sg_index seg)))"

definition show_segment :: "path_segment \<Rightarrow> string" where
  "show_segment seg =
     (if sg_has_slice seg \<or> 0 \<le> sg_index seg then sg_name seg @ ''['' @ show_selector seg @ '']''
      else sg_name seg)"

fun show_path :: "path_segment list \<Rightarrow> string" where
  "show_path [] = []"
| "show_path [seg] = show_segment seg"
| "show_path (seg # segs) = show_segment seg @ ''.'' @ show_path segs"

section \<open>Integers\<close>

lemma stoi_bounds: "stoi s = Inr (n, k) \<Longrightarrow> - kIntMax - 1 \<le> n \<and> n \<le> kIntMax"
  by (auto simp: stoi_def Let_def split: if_splits)

lemma parse_int_bounds: "parse_non_negative_int raw context = Inr n \<Longrightarrow> 0 \<le> n \<and> n \<le> kIntMax"
  using stoi_bounds by (auto simp: parse_non_negative_int_def Let_def split: if_splits sum.splits prod.splits)

lemma digit_class: "is_digit c \<Longrightarrow> \<not> is_space c \<and> \<not> is_ascii_ws c \<and> c \<noteq> CHR ''-'' \<and> c \<noteq> CHR ''+'' \<and>
    c \<noteq> CHR ''.'' \<and> c \<noteq> CHR '':'' \<and> c \<noteq> CHR ''['' \<and> c \<noteq> CHR '']''"
  by (auto simp: char_class_defs char_code_def)

lemma show_nat_set: "c \<in> set (show_nat n) \<Longrightarrow> is_digit c"
  using show_nat_digits [of n] by (simp add: list_all_iff)

lemma trim_show_nat: "trim_copy (show_nat n) = show_nat n"
proof -
  have "\<not> is_ascii_ws (hd (show_nat n))" "\<not> is_ascii_ws (last (show_nat n))"
    using show_nat_set digit_class show_nat_nonempty by (metis hd_in_set last_in_set)+
  then show ?thesis by (simp add: trim_copy_def trim_ws_strip strip_id)
qed

lemma trim_copy_Nil [simp]: "trim_copy [] = []"
  by (simp add: trim_copy_def trim_ws_def)

lemma takeWhile_show_nat: "takeWhile is_digit (show_nat n) = show_nat n"
  using show_nat_set by (simp add: takeWhile_eq_all_conv)

lemma stoi_show_nat:
  assumes "int n \<le> kIntMax"
  shows "stoi (show_nat n) = Inr (int n, length (show_nat n))"
proof -
  have h: "is_digit (hd (show_nat n))" using show_nat_set show_nat_nonempty by (metis hd_in_set)
  have "takeWhile is_space (show_nat n) = []"
    using digit_class [OF h] by (cases "show_nat n") auto
  then show ?thesis using digit_class [OF h] assms
    by (simp add: stoi_def Let_def kIntMax_def takeWhile_show_nat)
qed

lemma parse_int_show_nat: "0 \<le> n \<Longrightarrow> n \<le> kIntMax \<Longrightarrow> parse_non_negative_int (show_nat (nat n)) raw = Inr n"
  by (simp add: parse_non_negative_int_def trim_show_nat stoi_show_nat Let_def)

lemma parse_bound_show: "bound_ok b \<Longrightarrow> parse_bound (show_bound b) raw = Inr b"
  by (auto simp: parse_bound_def show_bound_def bound_ok_def trim_show_nat parse_int_show_nat split: option.splits)

lemma parse_bound_ok: "parse_bound part raw = Inr b \<Longrightarrow> bound_ok b"
  using parse_int_bounds by (auto simp: parse_bound_def bound_ok_def split: if_splits sum.splits)

section \<open>Splitting\<close>

lemma split_on_none [simp]: "sep \<notin> set xs \<Longrightarrow> split_on sep xs = [xs]"
  by (induction xs) auto

lemma split_on_append [simp]: "sep \<notin> set xs \<Longrightarrow> split_on sep (xs @ sep # ys) = xs # split_on sep ys"
  by (induction xs) auto

lemma find_first_at: "\<forall>x\<in>set xs. \<not> P x \<Longrightarrow> P y \<Longrightarrow> find_first P (xs @ y # ys) = Some (length xs)"
  by (induction xs) auto

lemma find_first_take: "find_first P xs = Some i \<Longrightarrow> \<forall>x\<in>set (take i xs). \<not> P x"
  by (induction xs arbitrary: i) (auto split: if_splits simp: take_Suc_Cons)

section \<open>Segments\<close>

lemma no_colon: "CHR '':'' \<notin> set (show_nat n)" "CHR '':'' \<notin> set (show_bound b)"
  "CHR '']'' \<notin> set (show_nat n)" "CHR '']'' \<notin> set (show_bound b)"
  "CHR ''.'' \<notin> set (show_nat n)" "CHR ''.'' \<notin> set (show_bound b)"
  using show_nat_set digit_class by (auto simp: show_bound_def split: option.splits)

lemma parse_selector_show:
  assumes "segment_ok seg" and "sg_has_slice seg \<or> 0 \<le> sg_index seg"
  shows "parse_selector (plain_segment (sg_name seg)) (show_selector seg) raw = Inr seg"
proof (cases "sg_has_slice seg")
  case True
  have s: "split_on (CHR '':'') (show_selector seg) =
      [show_bound (sg_slice_start seg), show_bound (sg_slice_stop seg), show_nat (nat (sg_slice_step seg))]"
    using True no_colon by (simp add: show_selector_def)
  have step: "0 < sg_slice_step seg" "sg_slice_step seg \<le> kIntMax" using assms(1) True by (simp_all add: segment_ok_def)
  have b: "parse_bound (show_nat (nat (sg_slice_step seg))) raw = Inr (Some (sg_slice_step seg))"
    using step by (simp add: parse_bound_def trim_show_nat parse_int_show_nat)
  have "CHR '':'' \<in> set (show_selector seg)" using True by (simp add: show_selector_def)
  then show ?thesis
    using True assms(1) b step
    by (simp add: parse_selector_def parse_slice_def s parse_bound_show segment_ok_def plain_segment_def Let_def)
next
  case False
  then show ?thesis using assms no_colon
    by (simp add: parse_selector_def show_selector_def parse_int_show_nat segment_ok_def plain_segment_def)
qed

lemma parse_segment_show:
  assumes "segment_ok seg"
  shows "parse_segment (show_segment seg) = Inr seg"
proof -
  have n: "sg_name seg \<noteq> []" "\<forall>c\<in>set (sg_name seg). \<not> c = CHR ''[''" using assms by (auto simp: segment_ok_def)
  show ?thesis
  proof (cases "sg_has_slice seg \<or> 0 \<le> sg_index seg")
    case True
    let ?sel = "show_selector seg" and ?raw = "sg_name seg @ CHR ''['' # show_selector seg @ [CHR '']'']"
    have 1: "find_first (\<lambda>c. c = CHR ''['') ?raw = Some (length (sg_name seg))"
      by (rule find_first_at) (use n in auto)
    have "\<forall>c\<in>set (CHR ''['' # ?sel). \<not> c = CHR '']''"
      using no_colon by (auto simp: show_selector_def)
    from find_first_at [OF this] have 2: "find_first (\<lambda>c. c = CHR '']'') (CHR ''['' # ?sel @ [CHR '']'']) = Some (length ?sel + 1)"
      by simp
    have raw: "show_segment seg = ?raw" using True by (simp add: show_segment_def)
    show ?thesis
      using parse_selector_show [OF assms True, of ?raw] n
      by (simp add: raw parse_segment_def 1 2 substr_def Let_def del: find_first.simps)
  next
    case False
    then have "find_first (\<lambda>c. c = CHR ''['') (show_segment seg) = None"
      using n by (simp add: show_segment_def find_first_None list_all_iff)
    moreover have "plain_segment (sg_name seg) = seg"
      using assms False by (auto simp: segment_ok_def plain_segment_def)
    ultimately show ?thesis using False n by (simp add: parse_segment_def show_segment_def Let_def plain_segment_def)
  qed
qed

lemma parse_segment_ok:
  assumes "parse_segment raw = Inr seg" and "CHR ''.'' \<notin> set raw"
  shows "segment_ok seg"
proof (cases "find_first (\<lambda>c. c = CHR ''['') raw")
  case None
  then have "CHR ''['' \<notin> set raw" by (auto simp: find_first_None list_all_iff)
  then show ?thesis using assms None
    by (auto simp: parse_segment_def segment_ok_def plain_segment_def kIntMax_def Let_def split: if_splits)
next
  case (Some i)
  let ?seg = "plain_segment (take i raw)"
  from Some assms(1) obtain j where
    p: "parse_selector ?seg (substr raw (i + 1) j) raw = Inr seg" and name: "sg_name seg \<noteq> []"
    by (auto simp: parse_segment_def Let_def split: option.splits if_splits sum.splits)
  have chars: "CHR ''['' \<notin> set (take i raw)" "CHR ''.'' \<notin> set (take i raw)"
    using find_first_take [OF Some] assms(2) by (auto dest: in_set_takeD)
  show ?thesis
  proof (cases "CHR '':'' \<in> set (substr raw (i + 1) j)")
    case True
    then show ?thesis using p name chars parse_bound_ok
      by (fastforce simp: parse_selector_def parse_slice_def segment_ok_def plain_segment_def bound_ok_def kIntMax_def
          Let_def split: if_splits sum.splits option.splits)
  next
    case False
    then show ?thesis using p name chars parse_int_bounds
      by (fastforce simp: parse_selector_def segment_ok_def plain_segment_def split: sum.splits)
  qed
qed

section \<open>Paths\<close>

lemma show_segment_text:
  assumes "segment_ok seg"
  shows "CHR ''.'' \<notin> set (show_segment seg)" and "show_segment seg \<noteq> []"
  using assms no_colon by (auto simp: show_segment_def show_selector_def segment_ok_def)

lemma parse_segments_ok: "parse_segments path = Inr segs \<Longrightarrow> list_all segment_ok segs \<and> (path \<noteq> [] \<longrightarrow> segs \<noteq> [])"
proof (induction path arbitrary: segs rule: parse_segments.induct)
  case (1 path)
  show ?case
  proof (cases "path = []")
    case True
    with 1(2) show ?thesis by (simp add: parse_segments.simps)
  next
    case False
    let ?raw = "takeWhile (\<lambda>c. c \<noteq> CHR ''.'') path"
    from 1(2) False obtain seg segs' where s: "parse_segment ?raw = Inr seg"
      "parse_segments (drop (length ?raw + 1) path) = Inr segs'" "segs = seg # segs'"
      by (subst (asm) parse_segments.simps) (auto simp: Let_def split: sum.splits)
    have "CHR ''.'' \<notin> set ?raw" by (auto dest: set_takeWhileD)
    then show ?thesis using parse_segment_ok [OF s(1)] 1(1) [OF False refl s(1) s(2)] s(3) by simp
  qed
qed

lemma parse_segments_show:
  "segs \<noteq> [] \<Longrightarrow> list_all segment_ok segs \<Longrightarrow> parse_segments (show_path segs) = Inr segs"
proof (induction segs rule: show_path.induct)
  case (2 seg)
  then have t: "takeWhile (\<lambda>c. c \<noteq> CHR ''.'') (show_segment seg) = show_segment seg"
    using show_segment_text(1) by (auto simp: takeWhile_eq_all_conv)
  have "parse_segments [] = Inr []" by (simp add: parse_segments.simps)
  then show ?case using 2 show_segment_text(2)
    by (subst show_path.simps, subst parse_segments.simps) (simp add: Let_def parse_segment_show t del: takeWhile_eq_all_conv)
next
  case (3 seg s ss)
  let ?rest = "show_path (s # ss)"
  have ok: "segment_ok seg" "list_all segment_ok (s # ss)" using 3(3) by simp_all
  have t: "takeWhile (\<lambda>c. c \<noteq> CHR ''.'') (show_segment seg @ CHR ''.'' # ?rest) = show_segment seg"
    using show_segment_text(1) [OF ok(1)] by (subst takeWhile_append2) auto
  have "parse_segments ?rest = Inr (s # ss)" using 3(1) ok(2) by simp
  then show ?case using t ok(1)
    by (subst parse_segments.simps) (simp add: Let_def parse_segment_show del: show_path.simps(2))
qed simp

text \<open>C36: member paths are exactly the lists of well-formed segments. Whatever text is parsed
  successfully gives a non-empty list of well-formed segments (names without dots and opening
  brackets, indices and bounds of a non-negative \<open>int\<close>, positive steps), and every such list is
  the parse of its canonical text.\<close>

theorem member_path_exact:
  "(parse_member_path path = Inr segs \<longrightarrow> segs \<noteq> [] \<and> list_all segment_ok segs) \<and>
   (segs \<noteq> [] \<and> list_all segment_ok segs \<longrightarrow> parse_member_path (show_path segs) = Inr segs)"
proof -
  have "show_path segs \<noteq> []" if "segs \<noteq> []" "list_all segment_ok segs"
    using that show_segment_text(2) by (cases segs rule: show_path.cases) auto
  then show ?thesis using parse_segments_ok parse_segments_show by (auto simp: parse_member_path_def split: if_splits)
qed

theorem member_path_exact_witness:
  "\<exists>segs. map sg_name segs = [''pose'', ''x''] \<and> map sg_index segs = [- 1, 3] \<and>
     parse_member_path (show_path segs) = Inr segs"
proof -
  let ?segs = "[plain_segment ''pose'', (plain_segment ''x'')\<lparr>sg_index := 3\<rparr>]"
  have "list_all segment_ok ?segs" by (simp add: segment_ok_def plain_segment_def kIntMax_def)
  then have "parse_member_path (show_path ?segs) = Inr ?segs" using member_path_exact [of "[]" ?segs] by blast
  then show ?thesis by (intro exI [of _ ?segs]) (simp add: plain_segment_def)
qed

end
