(* ===== verification/Math_Expression.thy ===== *)
theory Math_Expression
  imports Ieee_Float "HOL-Library.Signed_Division"
begin

text \<open>
  The arithmetic relations of overlay declarations: \<open>src/bridge/math_expression.cpp\<close>, first the
  exact integer evaluator and then the floating one. A parser state is the text that is left;
  \<open>position_\<close> is the length of the input minus it. Each method is a definition over the parser
  itself (\<open>rec\<close>), which is closed by a recursion with fuel.
\<close>

section \<open>Scanning, shared by both parsers\<close>

definition skip_space :: "string \<Rightarrow> string" where
  "skip_space rest = dropWhile is_space rest"

definition consume :: "char \<Rightarrow> string \<Rightarrow> bool \<times> string" where
  "consume token rest =
     (let rest = skip_space rest
      in if rest \<noteq> [] \<and> hd rest = token then (True, tl rest) else (False, rest))"

definition fail_at :: "string \<Rightarrow> string \<Rightarrow> string \<Rightarrow> std_error" where
  "fail_at input rest reason =
     Runtime_error (reason @ '' at column '' @ show_nat (length input - length rest + 1) @ '' in expression: '' @ input)"

definition identifier_start :: "char \<Rightarrow> bool" where
  "identifier_start c \<longleftrightarrow> is_alpha c \<or> c = CHR ''_''"

definition identifier_char :: "char \<Rightarrow> bool" where
  "identifier_char c \<longleftrightarrow> is_alnum c \<or> c = CHR ''_'' \<or> c = CHR ''.'' \<or> c = CHR ''['' \<or> c = CHR '']''"

text \<open>The identifier at the start of a text whose first character may start one.\<close>

definition scan_identifier :: "string \<Rightarrow> string \<times> string" where
  "scan_identifier rest =
     (let name = hd rest # takeWhile identifier_char (tl rest) in (name, drop (length name) rest))"

text \<open>What parsing a part gives: a value and the text left, an exception, the exception that asks
  for the floating evaluator, or no fuel.\<close>

datatype 'a parsed = Done 'a string | Fail std_error | Floating_expression | Exhausted

fun then_parsed :: "'a parsed \<Rightarrow> ('a \<Rightarrow> string \<Rightarrow> 'b parsed) \<Rightarrow> 'b parsed" where
  "then_parsed (Done v rest) f = f v rest"
| "then_parsed (Fail error) f = Fail error"
| "then_parsed Floating_expression f = Floating_expression"
| "then_parsed Exhausted f = Exhausted"

section \<open>Exact integers\<close>

definition kMaximum :: int where "kMaximum = 2 ^ 127 - 1"
definition kMinimum :: int where "kMinimum = - kMaximum - 1"

definition fits :: "int \<Rightarrow> bool" where
  "fits n \<longleftrightarrow> kMinimum \<le> n \<and> n \<le> kMaximum"

text \<open>The methods, with the partial results their loops carry.\<close>

datatype 'v goal =
    G_expression
  | G_expression_rest 'v
  | G_product
  | G_product_rest 'v
  | G_unary
  | G_primary

type_synonym int_parser = "int goal \<Rightarrow> string \<Rightarrow> int parsed"
type_synonym int_resolver = "string \<Rightarrow> std_error + int option"

text \<open>\<open>__builtin_add_overflow\<close> and its kin.\<close>

definition checked :: "string \<Rightarrow> string \<Rightarrow> int \<Rightarrow> (int \<Rightarrow> int parsed) \<Rightarrow> int parsed" where
  "checked input rest n f = (if fits n then f n else Fail (fail_at input rest ''Integer overflow''))"

definition int_expression :: "int_parser \<Rightarrow> string \<Rightarrow> int parsed" where
  "int_expression rec rest = then_parsed (rec G_product rest) (\<lambda>v rest. rec (G_expression_rest v) rest)"

definition int_expression_rest :: "string \<Rightarrow> int_parser \<Rightarrow> int \<Rightarrow> string \<Rightarrow> int parsed" where
  "int_expression_rest input rec acc rest =
     (case consume (CHR ''+'') rest of
        (True, rest) \<Rightarrow> then_parsed (rec G_product rest) (\<lambda>rhs rest.
          checked input rest (acc + rhs) (\<lambda>v. rec (G_expression_rest v) rest))
      | (False, rest) \<Rightarrow>
          (case consume (CHR ''-'') rest of
             (True, rest) \<Rightarrow> then_parsed (rec G_product rest) (\<lambda>rhs rest.
               checked input rest (acc - rhs) (\<lambda>v. rec (G_expression_rest v) rest))
           | (False, rest) \<Rightarrow> Done acc rest))"

definition int_product :: "int_parser \<Rightarrow> string \<Rightarrow> int parsed" where
  "int_product rec rest = then_parsed (rec G_unary rest) (\<lambda>v rest. rec (G_product_rest v) rest)"

definition int_divide :: "string \<Rightarrow> int_parser \<Rightarrow> bool \<Rightarrow> int \<Rightarrow> string \<Rightarrow> int parsed" where
  "int_divide input rec division acc rest =
     then_parsed (rec G_unary rest) (\<lambda>rhs rest.
       if rhs = 0 then Fail (fail_at input rest ''Division by zero'')
       else if acc = kMinimum \<and> rhs = - 1 then Fail (fail_at input rest ''Integer overflow'')
       else rec (G_product_rest (if division then acc sdiv rhs else acc smod rhs)) rest)"

definition int_product_rest :: "string \<Rightarrow> int_parser \<Rightarrow> int \<Rightarrow> string \<Rightarrow> int parsed" where
  "int_product_rest input rec acc rest =
     (case consume (CHR ''*'') rest of
        (True, rest) \<Rightarrow> then_parsed (rec G_unary rest) (\<lambda>rhs rest.
          checked input rest (acc * rhs) (\<lambda>v. rec (G_product_rest v) rest))
      | (False, rest) \<Rightarrow>
          (case consume (CHR ''/'') rest of
             (True, rest) \<Rightarrow> int_divide input rec True acc rest
           | (False, rest) \<Rightarrow>
               (case consume (CHR ''%'') rest of
                  (True, rest) \<Rightarrow> int_divide input rec False acc rest
                | (False, rest) \<Rightarrow> Done acc rest)))"

definition int_unary :: "string \<Rightarrow> int_parser \<Rightarrow> string \<Rightarrow> int parsed" where
  "int_unary input rec rest =
     (case consume (CHR ''+'') rest of
        (True, rest) \<Rightarrow> rec G_unary rest
      | (False, rest) \<Rightarrow>
          (case consume (CHR ''-'') rest of
             (True, rest) \<Rightarrow> then_parsed (rec G_unary rest) (\<lambda>v rest.
               if v = kMinimum then Fail (fail_at input rest ''Integer overflow'') else Done (- v) rest)
           | (False, rest) \<Rightarrow> rec G_primary rest))"

text \<open>The digits of a literal, accumulated with overflow checks.\<close>

fun int_digits :: "string \<Rightarrow> int \<Rightarrow> string \<Rightarrow> int parsed" where
  "int_digits input acc [] = Done acc []"
| "int_digits input acc (c # rest) =
     (if is_digit c
      then if fits (acc * 10) \<and> fits (acc * 10 + int (digit_value c))
           then int_digits input (acc * 10 + int (digit_value c)) rest
           else Fail (fail_at input (c # rest) ''Integer literal overflow'')
      else Done acc (c # rest))"

definition int_literal :: "string \<Rightarrow> string \<Rightarrow> int parsed" where
  "int_literal input rest =
     then_parsed (int_digits input 0 rest) (\<lambda>v rest.
       if rest \<noteq> [] \<and> (hd rest = CHR ''.'' \<or> hd rest = CHR ''e'' \<or> hd rest = CHR ''E'')
       then Floating_expression else Done v rest)"

definition int_identifier :: "int_resolver \<Rightarrow> string \<Rightarrow> int parsed" where
  "int_identifier resolver rest =
     (case scan_identifier rest of (name, rest) \<Rightarrow>
        let rest = skip_space rest
        in if rest \<noteq> [] \<and> hd rest = CHR ''('' then Floating_expression
           else if name = ''pi'' then Floating_expression
           else (case resolver name of
                   Inl error \<Rightarrow> Fail error
                 | Inr None \<Rightarrow> Floating_expression
                 | Inr (Some v) \<Rightarrow> Done v rest))"

definition int_primary :: "string \<Rightarrow> int_resolver \<Rightarrow> int_parser \<Rightarrow> string \<Rightarrow> int parsed" where
  "int_primary input resolver rec rest =
     (case consume (CHR ''('') rest of
        (True, rest) \<Rightarrow> then_parsed (rec G_expression rest) (\<lambda>v rest.
          case consume (CHR '')'') rest of
            (True, rest) \<Rightarrow> Done v rest
          | (False, rest) \<Rightarrow> Fail (fail_at input rest ''Missing closing parenthesis''))
      | (False, rest) \<Rightarrow>
          if rest = [] then Fail (fail_at input rest ''Expected number or identifier'')
          else if hd rest = CHR ''.'' then Floating_expression
          else if is_digit (hd rest) then int_literal input rest
          else if \<not> identifier_start (hd rest) then Fail (fail_at input rest ''Expected identifier'')
          else int_identifier resolver rest)"

definition int_step :: "string \<Rightarrow> int_resolver \<Rightarrow> int_parser \<Rightarrow> int_parser" where
  "int_step input resolver rec goal rest =
     (case goal of
        G_expression \<Rightarrow> int_expression rec rest
      | G_expression_rest acc \<Rightarrow> int_expression_rest input rec acc rest
      | G_product \<Rightarrow> int_product rec rest
      | G_product_rest acc \<Rightarrow> int_product_rest input rec acc rest
      | G_unary \<Rightarrow> int_unary input rec rest
      | G_primary \<Rightarrow> int_primary input resolver rec rest)"

fun int_parse :: "string \<Rightarrow> int_resolver \<Rightarrow> nat \<Rightarrow> int_parser" where
  "int_parse input resolver 0 goal rest = Exhausted"
| "int_parse input resolver (Suc fuel) goal rest = int_step input resolver (int_parse input resolver fuel) goal rest"

definition enough_fuel :: "string \<Rightarrow> nat" where
  "enough_fuel input = 4 * length input + 4"

definition int_evaluate :: "string \<Rightarrow> int_resolver \<Rightarrow> int parsed" where
  "int_evaluate input resolver =
     then_parsed (int_parse input resolver (enough_fuel input) G_expression input) (\<lambda>v rest.
       let rest = skip_space rest
       in if rest \<noteq> [] then Fail (fail_at input rest ''Unexpected trailing text'') else Done v rest)"

text \<open>\<open>None\<close>: no result for lack of fuel.\<close>

definition try_evaluate_integer_expression :: "string \<Rightarrow> int_resolver \<Rightarrow> (std_error + int option) option" where
  "try_evaluate_integer_expression input resolver =
     (case int_evaluate input resolver of
        Done v rest \<Rightarrow> Some (Inr (Some v))
      | Fail error \<Rightarrow> Some (Inl error)
      | Floating_expression \<Rightarrow> Some (Inr None)
      | Exhausted \<Rightarrow> None)"

section \<open>Floating point\<close>

text \<open>The functions of the mathematical library whose results the standard leaves open.\<close>

record libm =
  lm_sin :: "double \<Rightarrow> double"
  lm_cos :: "double \<Rightarrow> double"
  lm_asin :: "double \<Rightarrow> double"
  lm_atan2 :: "double \<Rightarrow> double \<Rightarrow> double"
  lm_sqrt :: "double \<Rightarrow> double"

type_synonym double_resolver = "string \<Rightarrow> std_error + double"

text \<open>\<open>std::strtod\<close> at a text that starts with a digit or a point: decimal and hexadecimal numbers
  with optional fraction and exponent, correctly rounded. The value and the characters used;
  none when there is no digit.\<close>

definition xdigit_value :: "char \<Rightarrow> nat" where
  "xdigit_value c = (if is_digit c then char_code c - 48 else if char_code c < 97 then char_code c - 55
     else char_code c - 87)"

definition number_value :: "nat \<Rightarrow> string \<Rightarrow> nat" where
  "number_value base s = foldl (\<lambda>a c. a * base + xdigit_value c) 0 s"

text \<open>Mantissa: its digits before and after the point and the characters used.\<close>

definition scan_mantissa :: "(char \<Rightarrow> bool) \<Rightarrow> string \<Rightarrow> string \<times> string \<times> nat" where
  "scan_mantissa digit s =
     (let whole = takeWhile digit s; s1 = drop (length whole) s
      in if s1 \<noteq> [] \<and> hd s1 = CHR ''.''
         then let fraction = takeWhile digit (tl s1) in (whole, fraction, length whole + 1 + length fraction)
         else (whole, [], length whole))"

definition scan_exponent :: "char \<Rightarrow> char \<Rightarrow> string \<Rightarrow> int \<times> nat" where
  "scan_exponent e1 e2 s =
     (if s \<noteq> [] \<and> (hd s = e1 \<or> hd s = e2)
      then let s1 = tl s;
               signs = (if s1 \<noteq> [] \<and> (hd s1 = CHR ''-'' \<or> hd s1 = CHR ''+'') then 1 else 0);
               digits = takeWhile is_digit (drop signs s1);
               n = int (number_value 10 digits)
           in if digits = [] then (0, 0)
              else (if s1 \<noteq> [] \<and> hd s1 = CHR ''-'' then - n else n, 1 + signs + length digits)
      else (0, 0))"

definition strtod_decimal :: "string \<Rightarrow> (double \<times> nat) option" where
  "strtod_decimal s =
     (case scan_mantissa is_digit s of (whole, fraction, used) \<Rightarrow>
        if whole @ fraction = [] then None
        else (case scan_exponent (CHR ''e'') (CHR ''E'') (drop used s) of (n, k) \<Rightarrow>
           Some (double_of (Fp_num False
             (of_nat (number_value 10 (whole @ fraction)) * 10 powi (n - int (length fraction)))), used + k)))"

definition strtod_hexadecimal :: "string \<Rightarrow> (double \<times> nat) option" where
  "strtod_hexadecimal s =
     (case scan_mantissa is_xdigit s of (whole, fraction, used) \<Rightarrow>
        if whole @ fraction = [] then None
        else (case scan_exponent (CHR ''p'') (CHR ''P'') (drop used s) of (n, k) \<Rightarrow>
           Some (double_of (Fp_num False
             (of_nat (number_value 16 (whole @ fraction)) * 2 powi (n - 4 * int (length fraction)))), used + k)))"

definition strtod :: "string \<Rightarrow> (double \<times> nat) option" where
  "strtod s =
     (if 2 \<le> length s \<and> s ! 0 = CHR ''0'' \<and> (s ! 1 = CHR ''x'' \<or> s ! 1 = CHR ''X'')
      then (case strtod_hexadecimal (drop 2 s) of
              Some (d, used) \<Rightarrow> Some (d, used + 2)
            | None \<Rightarrow> strtod_decimal s)
      else strtod_decimal s)"

text \<open>The arguments of a call carry the function name and the values so far.\<close>

datatype double_goal = D_value "double goal" | D_arguments string "double list"

type_synonym double_parser = "double_goal \<Rightarrow> string \<Rightarrow> double parsed"

definition double_expression :: "double_parser \<Rightarrow> string \<Rightarrow> double parsed" where
  "double_expression rec rest =
     then_parsed (rec (D_value G_product) rest) (\<lambda>v rest. rec (D_value (G_expression_rest v)) rest)"

definition double_expression_rest :: "double_parser \<Rightarrow> double \<Rightarrow> string \<Rightarrow> double parsed" where
  "double_expression_rest rec acc rest =
     (case consume (CHR ''+'') rest of
        (True, rest) \<Rightarrow> then_parsed (rec (D_value G_product) rest) (\<lambda>rhs rest.
          rec (D_value (G_expression_rest (double_add acc rhs))) rest)
      | (False, rest) \<Rightarrow>
          (case consume (CHR ''-'') rest of
             (True, rest) \<Rightarrow> then_parsed (rec (D_value G_product) rest) (\<lambda>rhs rest.
               rec (D_value (G_expression_rest (double_sub acc rhs))) rest)
           | (False, rest) \<Rightarrow> Done acc rest))"

definition double_product :: "double_parser \<Rightarrow> string \<Rightarrow> double parsed" where
  "double_product rec rest =
     then_parsed (rec (D_value G_unary) rest) (\<lambda>v rest. rec (D_value (G_product_rest v)) rest)"

definition double_product_rest :: "string \<Rightarrow> double_parser \<Rightarrow> double \<Rightarrow> string \<Rightarrow> double parsed" where
  "double_product_rest input rec acc rest =
     (case consume (CHR ''*'') rest of
        (True, rest) \<Rightarrow> then_parsed (rec (D_value G_unary) rest) (\<lambda>rhs rest.
          rec (D_value (G_product_rest (double_mul acc rhs))) rest)
      | (False, rest) \<Rightarrow>
          (case consume (CHR ''/'') rest of
             (True, rest) \<Rightarrow> then_parsed (rec (D_value G_unary) rest) (\<lambda>denominator rest.
               if fp_is_zero (double_value denominator) then Fail (fail_at input rest ''Division by zero'')
               else rec (D_value (G_product_rest (double_div acc denominator))) rest)
           | (False, rest) \<Rightarrow> Done acc rest))"

definition double_unary :: "double_parser \<Rightarrow> string \<Rightarrow> double parsed" where
  "double_unary rec rest =
     (case consume (CHR ''+'') rest of
        (True, rest) \<Rightarrow> rec (D_value G_unary) rest
      | (False, rest) \<Rightarrow>
          (case consume (CHR ''-'') rest of
             (True, rest) \<Rightarrow> then_parsed (rec (D_value G_unary) rest) (\<lambda>v rest. Done (double_minus v) rest)
           | (False, rest) \<Rightarrow> rec (D_value G_primary) rest))"

definition double_min :: "double \<Rightarrow> double \<Rightarrow> double" where
  "double_min a b = (if double_less b a then b else a)"

definition double_max :: "double \<Rightarrow> double \<Rightarrow> double" where
  "double_max a b = (if double_less a b then b else a)"

text \<open>\<open>std::clamp\<close> as the library computes it; the standard leaves bounds in the wrong order
  undefined.\<close>

definition double_clamp :: "double \<Rightarrow> double \<Rightarrow> double \<Rightarrow> double" where
  "double_clamp v lo hi = (if double_less v lo then lo else if double_less hi v then hi else v)"

text \<open>\<open>call\<close>: the number of arguments is checked before they are used.\<close>

definition call_function :: "string \<Rightarrow> libm \<Rightarrow> string \<Rightarrow> double list \<Rightarrow> string \<Rightarrow> double parsed" where
  "call_function input m name args rest =
     (let require = (\<lambda>count d. if length args \<noteq> count
            then Fail (fail_at input rest (name @ '' expects '' @ show_nat count @ '' arguments''))
            else Done d rest)
      in if name = ''sin'' then require 1 (lm_sin m (args ! 0))
         else if name = ''cos'' then require 1 (lm_cos m (args ! 0))
         else if name = ''asin'' then require 1 (lm_asin m (args ! 0))
         else if name = ''atan2'' then require 2 (lm_atan2 m (args ! 0) (args ! 1))
         else if name = ''sqrt'' then require 1 (lm_sqrt m (args ! 0))
         else if name = ''abs'' then require 1 (double_of (fp_abs (double_value (args ! 0))))
         else if name = ''floor'' then require 1 (double_of (fp_floor (double_value (args ! 0))))
         else if name = ''round'' then require 1 (double_of (fp_round_away (double_value (args ! 0))))
         else if name = ''min'' then require 2 (double_min (args ! 0) (args ! 1))
         else if name = ''max'' then require 2 (double_max (args ! 0) (args ! 1))
         else if name = ''clamp'' then require 3 (double_clamp (args ! 0) (args ! 1) (args ! 2))
         else Fail (fail_at input rest (''Unknown function '' @ name)))"

definition double_arguments :: "string \<Rightarrow> libm \<Rightarrow> double_parser \<Rightarrow> string \<Rightarrow> double list \<Rightarrow> string \<Rightarrow> double parsed" where
  "double_arguments input m rec name args rest =
     then_parsed (rec (D_value G_expression) rest) (\<lambda>v rest.
       case consume (CHR '','') rest of
         (True, rest) \<Rightarrow> rec (D_arguments name (args @ [v])) rest
       | (False, rest) \<Rightarrow>
           (case consume (CHR '')'') rest of
              (True, rest) \<Rightarrow> call_function input m name (args @ [v]) rest
            | (False, rest) \<Rightarrow> Fail (fail_at input rest ''Missing function closing parenthesis'')))"

definition kPi :: double where "kPi = 0x400921FB54442D18"

definition double_identifier ::
    "string \<Rightarrow> libm \<Rightarrow> double_resolver \<Rightarrow> double_parser \<Rightarrow> string \<Rightarrow> double parsed" where
  "double_identifier input m resolver rec rest =
     (case scan_identifier rest of (name, rest) \<Rightarrow>
        (case consume (CHR ''('') rest of
           (True, rest) \<Rightarrow>
             (case consume (CHR '')'') rest of
                (True, rest) \<Rightarrow> call_function input m name [] rest
              | (False, rest) \<Rightarrow> rec (D_arguments name []) rest)
         | (False, rest) \<Rightarrow>
             if name = ''pi'' then Done kPi rest
             else (case resolver name of Inl error \<Rightarrow> Fail error | Inr d \<Rightarrow> Done d rest)))"

definition double_primary ::
    "string \<Rightarrow> libm \<Rightarrow> double_resolver \<Rightarrow> double_parser \<Rightarrow> string \<Rightarrow> double parsed" where
  "double_primary input m resolver rec rest =
     (case consume (CHR ''('') rest of
        (True, rest) \<Rightarrow> then_parsed (rec (D_value G_expression) rest) (\<lambda>v rest.
          case consume (CHR '')'') rest of
            (True, rest) \<Rightarrow> Done v rest
          | (False, rest) \<Rightarrow> Fail (fail_at input rest ''Missing closing parenthesis''))
      | (False, rest) \<Rightarrow>
          if rest = [] then Fail (fail_at input rest ''Expected number or identifier'')
          else if is_digit (hd rest) \<or> hd rest = CHR ''.''
          then (case strtod rest of
                  None \<Rightarrow> Fail (fail_at input rest ''Invalid number'')
                | Some (d, used) \<Rightarrow> Done d (drop used rest))
          else if \<not> identifier_start (hd rest) then Fail (fail_at input rest ''Expected identifier'')
          else double_identifier input m resolver rec rest)"

definition double_step :: "string \<Rightarrow> libm \<Rightarrow> double_resolver \<Rightarrow> double_parser \<Rightarrow> double_parser" where
  "double_step input m resolver rec goal rest =
     (case goal of
        D_value G_expression \<Rightarrow> double_expression rec rest
      | D_value (G_expression_rest acc) \<Rightarrow> double_expression_rest rec acc rest
      | D_value G_product \<Rightarrow> double_product rec rest
      | D_value (G_product_rest acc) \<Rightarrow> double_product_rest input rec acc rest
      | D_value G_unary \<Rightarrow> double_unary rec rest
      | D_value G_primary \<Rightarrow> double_primary input m resolver rec rest
      | D_arguments name args \<Rightarrow> double_arguments input m rec name args rest)"

fun double_parse :: "string \<Rightarrow> libm \<Rightarrow> double_resolver \<Rightarrow> nat \<Rightarrow> double_parser" where
  "double_parse input m resolver 0 goal rest = Exhausted"
| "double_parse input m resolver (Suc fuel) goal rest =
     double_step input m resolver (double_parse input m resolver fuel) goal rest"

definition double_evaluate :: "string \<Rightarrow> libm \<Rightarrow> double_resolver \<Rightarrow> double parsed" where
  "double_evaluate input m resolver =
     then_parsed (double_parse input m resolver (enough_fuel input) (D_value G_expression) input) (\<lambda>v rest.
       let rest = skip_space rest
       in if rest \<noteq> [] then Fail (fail_at input rest ''Unexpected trailing text'')
          else if \<not> fp_finite (double_value v) then Fail (fail_at input rest ''Expression produced a non-finite value'')
          else Done v rest)"

definition evaluate_math_expression :: "libm \<Rightarrow> string \<Rightarrow> double_resolver \<Rightarrow> (std_error + double) option" where
  "evaluate_math_expression m input resolver =
     (case double_evaluate input m resolver of
        Done v rest \<Rightarrow> Some (Inr v)
      | Fail error \<Rightarrow> Some (Inl error)
      | _ \<Rightarrow> None)"

end
