(* ===== verification/Parser_Fuel.thy ===== *)
theory Parser_Fuel
  imports Math_Expression
begin

text \<open>
  The recursion of the expression parsers. A recursive-descent parser is given by one step over
  itself; closed with fuel it never runs out when the fuel is at least \<open>need\<close>, and then it
  satisfies its own step equation. The locale is interpreted for the integer and for the floating
  parser, whose fuel \<open>enough_fuel\<close> is the need of a whole expression.
\<close>

text \<open>A parser leaves at most the text it was given.\<close>

definition shrinking :: "('g \<Rightarrow> string \<Rightarrow> 'v parsed) \<Rightarrow> bool" where
  "shrinking p \<longleftrightarrow> (\<forall>g s v r. p g s = Done v r \<longrightarrow> length r \<le> length s)"

section \<open>What the scanning functions leave\<close>

lemma skip_space_length: "length (skip_space s) \<le> length s"
  by (simp add: skip_space_def length_dropWhile_le)

lemma skip_space_idem [simp]: "skip_space (skip_space s) = skip_space s"
  by (simp add: skip_space_def)

lemma consume_skip [simp]: "consume c (skip_space s) = consume c s"
  by (simp add: consume_def)

lemma consume_true: "consume c s = (True, r) \<Longrightarrow> length r < length s"
  using skip_space_length [of s] by (cases "skip_space s") (auto simp: consume_def Let_def split: if_splits)

lemma consume_false: "consume c s = (False, r) \<Longrightarrow> r = skip_space s"
  by (auto simp: consume_def Let_def split: if_splits)

lemma scan_identifier_length:
  "scan_identifier s = (n, r) \<Longrightarrow> s \<noteq> [] \<Longrightarrow> length r < length s"
  by (auto simp: scan_identifier_def Let_def)

lemma then_parsed_done: "then_parsed x f = Done v r \<Longrightarrow> \<exists>u t. x = Done u t \<and> f u t = Done v r"
  by (cases x) auto

text \<open>What a result leaves, and the rules by which a method is shown to shrink the text, to ask
  only for smaller parts, and to end when they do.\<close>

definition leaves :: "nat \<Rightarrow> 'v parsed \<Rightarrow> bool" where
  "leaves n x \<longleftrightarrow> (\<forall>v r. x = Done v r \<longrightarrow> length r \<le> n)"

definition returns :: "'v parsed \<Rightarrow> bool" where
  "returns x \<longleftrightarrow> x \<noteq> Exhausted"

lemma returns_simps [simp]:
  "returns (Done v r)" "returns (Fail e)" "returns Floating_expression" "\<not> returns Exhausted"
  by (simp_all add: returns_def)

lemma leaves_simps [simp]:
  "leaves n (Done v r) \<longleftrightarrow> length r \<le> n" "leaves n (Fail e)" "leaves n Floating_expression"
  "leaves n Exhausted"
  by (simp_all add: leaves_def)

lemma leaves_mono: "leaves m x \<Longrightarrow> m \<le> n \<Longrightarrow> leaves n x"
  by (auto simp: leaves_def)

lemma shrinking_leaves: "shrinking p \<longleftrightarrow> (\<forall>g s. leaves (length s) (p g s))"
  by (auto simp: shrinking_def leaves_def)

lemma call_leaves: "shrinking p \<Longrightarrow> length s \<le> n \<Longrightarrow> leaves n (p g s)"
  unfolding shrinking_leaves by (blast intro: leaves_mono)

lemma then_leaves:
  "leaves n x \<Longrightarrow> (\<And>v r. length r \<le> n \<Longrightarrow> leaves n (f v r)) \<Longrightarrow> leaves n (then_parsed x f)"
  by (cases x) auto

lemma consume_leaves:
  "(\<And>r. length r < length s \<Longrightarrow> leaves n (f r)) \<Longrightarrow> leaves n (g (skip_space s)) \<Longrightarrow>
    leaves n (case consume c s of (True, r) \<Rightarrow> f r | (False, r) \<Rightarrow> g r)"
  by (cases "consume c s"; cases "fst (consume c s)") (auto dest: consume_true consume_false)

lemma call_total:
  "shrinking p \<Longrightarrow> returns (p g s) \<Longrightarrow> (\<And>v r. length r \<le> length s \<Longrightarrow> returns (f v r)) \<Longrightarrow>
    returns (then_parsed (p g s) f)"
  by (cases "p g s") (auto simp: shrinking_def)

lemma consume_total:
  "(\<And>r. length r < length s \<Longrightarrow> returns (f r)) \<Longrightarrow> returns (g (skip_space s)) \<Longrightarrow>
    returns (case consume c s of (True, r) \<Rightarrow> f r | (False, r) \<Rightarrow> g r)"
  by (cases "consume c s"; cases "fst (consume c s)") (auto dest: consume_true consume_false)

lemma call_local:
  "shrinking q \<Longrightarrow> p g s = q g s \<Longrightarrow> (\<And>v r. length r \<le> length s \<Longrightarrow> f v r = f' v r) \<Longrightarrow>
    then_parsed (p g s) f = then_parsed (q g s) f'"
  by (cases "q g s") (auto simp: shrinking_def)

lemma consume_local:
  "(\<And>r. length r < length s \<Longrightarrow> f r = f' r) \<Longrightarrow> g (skip_space s) = g' (skip_space s) \<Longrightarrow>
    (case consume c s of (True, r) \<Rightarrow> f r | (False, r) \<Rightarrow> g r) =
    (case consume c s of (True, r) \<Rightarrow> f' r | (False, r) \<Rightarrow> g' r)"
  by (cases "consume c s"; cases "fst (consume c s)") (auto dest: consume_true consume_false)

section \<open>Closing a parser with fuel\<close>

locale fuel_parser =
  fixes parse :: "nat \<Rightarrow> 'g \<Rightarrow> string \<Rightarrow> 'v parsed"
    and step :: "('g \<Rightarrow> string \<Rightarrow> 'v parsed) \<Rightarrow> 'g \<Rightarrow> string \<Rightarrow> 'v parsed"
    and need :: "'g \<Rightarrow> string \<Rightarrow> nat"
  assumes parse_zero: "parse 0 g s = Exhausted"
    and parse_step: "parse (Suc n) g s = step (parse n) g s"
    and need_pos: "0 < need g s"
    and step_shrinks: "shrinking p \<Longrightarrow> shrinking (step p)"
    and step_local: "shrinking p \<Longrightarrow> shrinking q \<Longrightarrow>
          (\<And>g' s'. need g' s' < need g s \<Longrightarrow> p g' s' = q g' s') \<Longrightarrow> step p g s = step q g s"
    and step_total: "shrinking p \<Longrightarrow>
          (\<And>g' s'. need g' s' < need g s \<Longrightarrow> returns (p g' s')) \<Longrightarrow> returns (step p g s)"
begin

lemma parse_shrinking: "shrinking (parse n)"
proof (induction n)
  case 0
  show ?case by (simp add: shrinking_def parse_zero)
next
  case (Suc n)
  have "parse (Suc n) = step (parse n)" by (rule ext)+ (rule parse_step)
  then show ?case using step_shrinks [OF Suc] by simp
qed

lemma parse_total: "need g s \<le> n \<Longrightarrow> returns (parse n g s)"
proof (induction n arbitrary: g s)
  case 0
  then show ?case using need_pos [of g s] by simp
next
  case (Suc n)
  show ?case unfolding parse_step
    by (rule step_total [OF parse_shrinking]) (use Suc in auto)
qed

lemma parse_stable: "need g s \<le> n \<Longrightarrow> need g s \<le> m \<Longrightarrow> parse n g s = parse m g s"
proof (induction n arbitrary: m g s)
  case 0
  then show ?case using need_pos [of g s] by simp
next
  case (Suc n)
  from Suc.prems(2) need_pos [of g s] obtain k where m: "m = Suc k" by (cases m) auto
  show ?case unfolding m parse_step
    by (rule step_local [OF parse_shrinking parse_shrinking])
      (rule Suc.IH; use Suc.prems m in linarith)
qed

text \<open>The parser with the fuel it needs, and its equation.\<close>

definition run :: "'g \<Rightarrow> string \<Rightarrow> 'v parsed" where
  "run g s = parse (need g s) g s"

lemma run_parse: "need g s \<le> n \<Longrightarrow> parse n g s = run g s"
  unfolding run_def by (rule parse_stable) auto

lemma run_shrinks: "run g s = Done v r \<Longrightarrow> length r \<le> length s"
  using parse_shrinking [of "need g s"] by (simp add: run_def shrinking_def)

lemma run_shrinking: "shrinking run"
  using run_shrinks by (auto simp: shrinking_def)

lemma run_total: "returns (run g s)"
  unfolding run_def by (rule parse_total) simp

lemma run_step: "run g s = step run g s"
proof -
  have "run g s = step (parse (need g s)) g s"
    using run_parse [of g s "Suc (need g s)"] by (simp add: parse_step)
  also have "\<dots> = step run g s"
    by (rule step_local [OF parse_shrinking run_shrinking]) (rule run_parse; simp)
  finally show ?thesis .
qed

end

section \<open>The integer parser\<close>

fun goal_rank :: "'v goal \<Rightarrow> nat" where
  "goal_rank G_expression = 4"
| "goal_rank (G_expression_rest acc) = 1"
| "goal_rank G_product = 3"
| "goal_rank (G_product_rest acc) = 1"
| "goal_rank G_unary = 2"
| "goal_rank G_primary = 1"

definition goal_need :: "'v goal \<Rightarrow> string \<Rightarrow> nat" where
  "goal_need g s = 4 * length s + goal_rank g"

lemma goal_need_pos: "0 < goal_need g s"
  by (cases g) (auto simp: goal_need_def)

lemmas int_method_defs = int_expression_def int_expression_rest_def int_product_def int_divide_def
  int_product_rest_def int_unary_def int_primary_def checked_def

lemma int_digits_result:
  "leaves (length s) (int_digits input acc s) \<and> returns (int_digits input acc s)"
  by (induction input acc s rule: int_digits.induct) (auto intro: leaves_mono)

lemma int_literal_result:
  "length s \<le> n \<Longrightarrow> leaves n (int_literal input s) \<and> returns (int_literal input s)"
  unfolding int_literal_def
  using int_digits_result [of s input 0] by (cases "int_digits input 0 s") auto

lemma int_identifier_result:
  "s \<noteq> [] \<Longrightarrow> length s \<le> n \<Longrightarrow> leaves n (int_identifier resolver s) \<and> returns (int_identifier resolver s)"
  using scan_identifier_length [of s] skip_space_length
  by (auto simp: int_identifier_def Let_def split: prod.splits sum.splits option.splits)
    (meson le_trans less_imp_le)

lemmas int_token_result = int_literal_result [THEN conjunct1] int_literal_result [THEN conjunct2, OF order_refl]
  int_identifier_result [THEN conjunct1] int_identifier_result [THEN conjunct2, OF _ order_refl]

lemma int_step_shrinking: 
  assumes p: "shrinking p"
  shows "shrinking (int_step input resolver p)"
  unfolding shrinking_leaves
proof (intro allI)
  fix g s
  show "leaves (length s) (int_step input resolver p g s)"
    using skip_space_length [of s]
    by (cases g) (auto simp: int_step_def int_method_defs
        intro!: consume_leaves then_leaves call_leaves [OF p] int_token_result)
qed

text \<open>A step only asks for parts that need less.\<close>

lemma int_step_local:
  assumes q: "shrinking q"
    and same: "\<And>g' s'. goal_need g' s' < goal_need g s \<Longrightarrow> p g' s' = q g' s'"
  shows "int_step input resolver p g s = int_step input resolver q g s"
  using skip_space_length [of s]
  by (cases g) (auto simp: int_step_def int_method_defs goal_need_def
        intro!: consume_local call_local [OF q] same)

lemma int_step_total:
  assumes p: "shrinking p"
    and total: "\<And>g' s'. goal_need g' s' < goal_need g s \<Longrightarrow> returns (p g' s')"
  shows "returns (int_step input resolver p g s)"
  using skip_space_length [of s]
  by (cases g) (auto simp: int_step_def int_method_defs goal_need_def
        intro!: consume_total call_total [OF p] total int_token_result)

interpretation int_run: fuel_parser "int_parse input resolver" "int_step input resolver" goal_need
  for input resolver
  by unfold_locales
    (auto simp: goal_need_pos int_step_shrinking intro!: int_step_local int_step_total)

section \<open>The floating parser\<close>

fun double_rank :: "double_goal \<Rightarrow> nat" where
  "double_rank (D_value g) = goal_rank g"
| "double_rank (D_arguments name args) = 5"

definition double_need :: "double_goal \<Rightarrow> string \<Rightarrow> nat" where
  "double_need g s = 4 * length s + double_rank g"

lemma double_goal_cases:
  obtains "g = D_value G_expression" | acc where "g = D_value (G_expression_rest acc)"
  | "g = D_value G_product" | acc where "g = D_value (G_product_rest acc)"
  | "g = D_value G_unary" | "g = D_value G_primary" | name args where "g = D_arguments name args"
  by (cases g; cases "case g of D_value v \<Rightarrow> v") auto

lemma double_need_pos: "0 < double_need g s"
  by (cases g rule: double_goal_cases) (auto simp: double_need_def)

lemma call_function_leaves: "length s \<le> n \<Longrightarrow> leaves n (call_function input m name args s)"
  by (auto simp: call_function_def Let_def)

lemma call_function_returns [simp]: "returns (call_function input m name args s)"
  by (auto simp: call_function_def Let_def)

lemmas double_method_defs = double_expression_def double_expression_rest_def double_product_def
  double_product_rest_def double_unary_def double_primary_def double_arguments_def double_step_def

lemma skip_space_le: "length s \<le> n \<Longrightarrow> length (skip_space s) \<le> n"
  using skip_space_length [of s] by simp

lemma skip_space_le_Suc: "Suc (Suc (length s)) \<le> n \<Longrightarrow> Suc (Suc (length (skip_space s))) \<le> n"
  using skip_space_length [of s] by simp

lemma skip_space_less: "n < length (skip_space s) \<Longrightarrow> n < length s"
  using skip_space_length [of s] by simp

lemma double_rank_le: "double_rank g \<le> 5"
  by (cases g rule: double_goal_cases) auto

lemma call_need:
  "Suc (Suc (length s')) \<le> length (skip_space s) \<Longrightarrow> 4 * length s' + double_rank g' < Suc (4 * length s)"
  using skip_space_length [of s] double_rank_le [of g'] by simp

lemma double_identifier_leaves:
  assumes "shrinking p" "s \<noteq> []" "length s \<le> n"
  shows "leaves n (double_identifier input m resolver p s)"
proof -
  obtain k r where r: "scan_identifier s = (k, r)" by fastforce
  then show ?thesis using scan_identifier_length [OF r assms(2)] assms(3) skip_space_length [of r]
    by (auto simp: double_identifier_def split: sum.split
        intro!: consume_leaves call_leaves [OF assms(1)] call_function_leaves skip_space_le)
qed

lemma double_identifier_local:
  assumes q: "shrinking q" and s: "s \<noteq> []"
    and same: "\<And>g' s'. length s' + 2 \<le> length s \<Longrightarrow> p g' s' = q g' s'"
  shows "double_identifier input m resolver p s = double_identifier input m resolver q s"
proof -
  obtain n r where r: "scan_identifier s = (n, r)" by fastforce
  then show ?thesis using scan_identifier_length [OF r s] 
    by (auto simp: double_identifier_def intro!: consume_local same skip_space_le_Suc)
qed

lemma double_identifier_total:
  assumes s: "s \<noteq> []"
    and total: "\<And>g' s'. length s' + 2 \<le> length s \<Longrightarrow> returns (p g' s')"
  shows "returns (double_identifier input m resolver p s)"
proof -
  obtain n r where r: "scan_identifier s = (n, r)" by fastforce
  then show ?thesis using scan_identifier_length [OF r s] 
    by (auto simp: double_identifier_def split: sum.splits intro!: consume_total total skip_space_le_Suc)
qed

lemma double_step_shrinking:
  assumes p: "shrinking p"
  shows "shrinking (double_step input m resolver p)"
  unfolding shrinking_leaves
proof (intro allI)
  fix g s
  show "leaves (length s) (double_step input m resolver p g s)"
    using skip_space_length [of s]
    by (cases g rule: double_goal_cases) (auto simp: double_method_defs split: option.splits
        intro!: consume_leaves then_leaves call_leaves [OF p] double_identifier_leaves [OF p]
          call_function_leaves skip_space_le dest!: skip_space_less)
qed

lemma double_step_local:
  assumes q: "shrinking q"
    and same: "\<And>g' s'. double_need g' s' < double_need g s \<Longrightarrow> p g' s' = q g' s'"
  shows "double_step input m resolver p g s = double_step input m resolver q g s"
  using skip_space_length [of s]
  by (cases g rule: double_goal_cases) (auto simp: double_method_defs double_need_def
        intro!: consume_local call_local [OF q] double_identifier_local [OF q] same call_need)

lemma double_step_total:
  assumes p: "shrinking p"
    and total: "\<And>g' s'. double_need g' s' < double_need g s \<Longrightarrow> returns (p g' s')"
  shows "returns (double_step input m resolver p g s)"
  using skip_space_length [of s]
  by (cases g rule: double_goal_cases) (auto simp: double_method_defs double_need_def split: option.splits
        intro!: consume_total call_total [OF p] double_identifier_total total call_need)

interpretation double_run: fuel_parser "double_parse input m resolver" "double_step input m resolver" double_need
  for input m resolver
  by unfold_locales
    (auto simp: double_need_pos double_step_shrinking intro!: double_step_local double_step_total)

section \<open>Both evaluators return\<close>

lemma enough_fuel_need: "goal_need G_expression input = enough_fuel input"
  "double_need (D_value G_expression) input = enough_fuel input"
  by (simp_all add: goal_need_def double_need_def enough_fuel_def)

lemma int_evaluate_run:
  "int_evaluate input resolver = then_parsed (int_run.run input resolver G_expression input) (\<lambda>v rest.
       let rest = skip_space rest
       in if rest \<noteq> [] then Fail (fail_at input rest ''Unexpected trailing text'') else Done v rest)"
  by (simp add: int_evaluate_def int_run.run_def enough_fuel_need)

lemma double_evaluate_run:
  "double_evaluate input m resolver =
     then_parsed (double_run.run input m resolver (D_value G_expression) input) (\<lambda>v rest.
       let rest = skip_space rest
       in if rest \<noteq> [] then Fail (fail_at input rest ''Unexpected trailing text'')
          else if \<not> fp_finite (double_value v) then Fail (fail_at input rest ''Expression produced a non-finite value'')
          else Done v rest)"
  by (simp add: double_evaluate_def double_run.run_def enough_fuel_need)

text \<open>No method of the floating parser raises \<open>FloatingExpression\<close>.\<close>

definition stays :: "'v parsed \<Rightarrow> bool" where
  "stays x \<longleftrightarrow> x \<noteq> Floating_expression"

lemma stays_simps [simp]:
  "stays (Done v r)" "stays (Fail e)" "stays Exhausted" "\<not> stays Floating_expression"
  by (simp_all add: stays_def)

lemma then_stays: "stays x \<Longrightarrow> (\<And>v r. stays (f v r)) \<Longrightarrow> stays (then_parsed x f)"
  by (cases x) auto

lemma consume_stays:
  "(\<And>r. stays (f r)) \<Longrightarrow> (\<And>r. stays (g r)) \<Longrightarrow>
    stays (case consume c s of (True, r) \<Rightarrow> f r | (False, r) \<Rightarrow> g r)"
  by (auto split: prod.split bool.split)

lemma call_function_stays [simp]: "stays (call_function input m name args s)"
  by (auto simp: call_function_def Let_def)

lemma double_identifier_stays:
  "(\<And>g s. stays (p g s)) \<Longrightarrow> stays (double_identifier input m resolver p s)"
  by (auto simp: double_identifier_def split: prod.split bool.split sum.split)

lemma double_step_stays:
  assumes "\<And>g s. stays (p g s)"
  shows "stays (double_step input m resolver p g s)"
  using assms by (cases g rule: double_goal_cases)
    (auto simp: double_method_defs split: option.split
      intro!: then_stays consume_stays double_identifier_stays)

lemma double_parse_stays: "stays (double_parse input m resolver n g s)"
  by (induction n arbitrary: g s) (auto intro: double_step_stays)

lemma double_run_stays: "stays (double_run.run input m resolver g s)"
  by (simp add: double_run.run_def double_parse_stays)

end
