(* ===== verification/Math_Grammar.thy ===== *)
theory Math_Grammar
  imports Parser_Fuel
begin

text \<open>
  What integer relations mean: their syntax trees, a reference evaluator that computes with the
  exact integers and fails where a result does not fit 128 bits or a divisor is zero, and the
  grammar that says which texts spell a tree. The evaluator of \<open>math_expression.cpp\<close> is shown to
  give a value exactly for the texts of the grammar, and that value is the reference one.
\<close>

section \<open>Trees and their values\<close>

datatype operation = Add | Subtract | Multiply | Divide | Modulo

datatype relation =
    Literal string
  | Identifier string
  | Negated relation
  | Combined operation relation relation

definition fitting :: "int \<Rightarrow> int option" where
  "fitting n = (if fits n then Some n else None)"

fun apply_operation :: "operation \<Rightarrow> int \<Rightarrow> int \<Rightarrow> int option" where
  "apply_operation Add a b = fitting (a + b)"
| "apply_operation Subtract a b = fitting (a - b)"
| "apply_operation Multiply a b = fitting (a * b)"
| "apply_operation Divide a b = (if b = 0 \<or> a = kMinimum \<and> b = - 1 then None else Some (a sdiv b))"
| "apply_operation Modulo a b = (if b = 0 \<or> a = kMinimum \<and> b = - 1 then None else Some (a smod b))"

fun relation_value :: "int_resolver \<Rightarrow> relation \<Rightarrow> int option" where
  "relation_value resolver (Literal digits) = fitting (int (digits_value digits))"
| "relation_value resolver (Identifier name) =
     (if name = ''pi'' then None else case resolver name of Inr (Some v) \<Rightarrow> Some v | _ \<Rightarrow> None)"
| "relation_value resolver (Negated e) =
     (case relation_value resolver e of Some v \<Rightarrow> if v = kMinimum then None else Some (- v) | None \<Rightarrow> None)"
| "relation_value resolver (Combined operation a b) =
     (case relation_value resolver a of
        Some x \<Rightarrow> (case relation_value resolver b of Some y \<Rightarrow> apply_operation operation x y | None \<Rightarrow> None)
      | None \<Rightarrow> None)"

section \<open>The grammar\<close>

datatype level = L_primary | L_unary | L_product | L_sum

definition blank :: "string \<Rightarrow> bool" where
  "blank w \<longleftrightarrow> list_all is_space w"

definition is_identifier :: "string \<Rightarrow> bool" where
  "is_identifier n \<longleftrightarrow> n \<noteq> [] \<and> identifier_start (hd n) \<and> list_all identifier_char (tl n)"

fun operation_char :: "operation \<Rightarrow> char" where
  "operation_char Add = CHR ''+''"
| "operation_char Subtract = CHR ''-''"
| "operation_char Multiply = CHR ''*''"
| "operation_char Divide = CHR ''/''"
| "operation_char Modulo = CHR ''%''"

inductive spells :: "level \<Rightarrow> relation \<Rightarrow> string \<Rightarrow> bool" where
  literal: "blank w \<Longrightarrow> d \<noteq> [] \<Longrightarrow> list_all is_digit d \<Longrightarrow> spells L_primary (Literal d) (w @ d)"
| named: "blank w \<Longrightarrow> is_identifier n \<Longrightarrow> spells L_primary (Identifier n) (w @ n)"
| group: "blank w \<Longrightarrow> spells L_sum e s \<Longrightarrow> blank v \<Longrightarrow> spells L_primary e (w @ ''('' @ s @ v @ '')'')"
| primary: "spells L_primary e s \<Longrightarrow> spells L_unary e s"
| plus: "blank w \<Longrightarrow> spells L_unary e s \<Longrightarrow> spells L_unary e (w @ ''+'' @ s)"
| minus: "blank w \<Longrightarrow> spells L_unary e s \<Longrightarrow> spells L_unary (Negated e) (w @ ''-'' @ s)"
| unary: "spells L_unary e s \<Longrightarrow> spells L_product e s"
| factor: "spells L_product a s \<Longrightarrow> blank w \<Longrightarrow> spells L_unary b t \<Longrightarrow>
    operation \<in> {Multiply, Divide, Modulo} \<Longrightarrow>
    spells L_product (Combined operation a b) (s @ w @ operation_char operation # t)"
| product: "spells L_product e s \<Longrightarrow> spells L_sum e s"
| summand: "spells L_sum a s \<Longrightarrow> blank w \<Longrightarrow> spells L_product b t \<Longrightarrow>
    operation \<in> {Add, Subtract} \<Longrightarrow>
    spells L_sum (Combined operation a b) (s @ w @ operation_char operation # t)"

declare spells.intros [intro]

section \<open>Scanning blanks, operators and tokens\<close>

lemma skip_blank [simp]: "blank w \<Longrightarrow> skip_space (w @ s) = skip_space s"
  by (simp add: skip_space_def blank_def dropWhile_append2 list_all_iff)

lemma skip_blank_all [simp]: "blank w \<Longrightarrow> skip_space w = []"
  using skip_blank [of w "[]"] by (simp add: skip_space_def)

lemma skip_Nil [simp]: "skip_space [] = []"
  by (simp add: skip_space_def)

lemma consume_blank [simp]: "blank w \<Longrightarrow> consume c (w @ s) = consume c s"
  by (simp add: consume_def)

lemma skip_split: obtains w where "blank w" "s = w @ skip_space s"
proof
  show "blank (takeWhile is_space s)" by (auto simp: blank_def list_all_iff dest: set_takeWhileD)
qed (simp add: skip_space_def)

lemma skip_Cons [simp]: "\<not> is_space c \<Longrightarrow> skip_space (c # s) = c # s"
  by (simp add: skip_space_def)

lemma consume_Cons: "\<not> is_space c \<Longrightarrow> consume d (c # s) = (if c = d then (True, s) else (False, c # s))"
  by (simp add: consume_def)

lemma consume_other: "skip_space s = [] \<or> hd (skip_space s) \<noteq> c \<Longrightarrow> consume c s = (False, skip_space s)"
  by (auto simp: consume_def Let_def)

lemma consume_split:
  assumes "consume c s = (True, r)"
  obtains w where "blank w" "s = w @ c # r"
proof -
  obtain w where "blank w" "s = w @ skip_space s" by (rule skip_split)
  moreover have "skip_space s = c # r"
    using assms by (cases "skip_space s") (auto simp: consume_def Let_def split: if_splits)
  ultimately show ?thesis using that by metis
qed

lemma operator_classes [simp]:
  "\<not> is_space (CHR ''+'')" "\<not> is_space (CHR ''-'')" "\<not> is_space (CHR ''*'')" "\<not> is_space (CHR ''/'')"
  "\<not> is_space (CHR ''%'')" "\<not> is_space (CHR ''('')" "\<not> is_space (CHR '')'')"
  by (simp_all add: is_space_def char_code_def)

lemma digit_no_space: "is_digit c \<Longrightarrow> \<not> is_space c"
  by (simp add: char_class_defs)

lemma digit_not_operator: "is_digit c \<Longrightarrow> c \<noteq> CHR ''('' \<and> c \<noteq> CHR ''+'' \<and> c \<noteq> CHR ''-'' \<and> c \<noteq> CHR ''.''"
  by (auto simp: is_digit_def char_code_def)

lemma identifier_start_class:
  "identifier_start c \<Longrightarrow> \<not> is_space c \<and> \<not> is_digit c \<and> c \<noteq> CHR ''('' \<and> c \<noteq> CHR ''+'' \<and> c \<noteq> CHR ''-'' \<and> c \<noteq> CHR ''.''"
  by (auto simp: identifier_start_def char_class_defs char_code_def)

text \<open>What may follow a part: nothing, or an operator or bracket after blanks.\<close>

definition follows :: "string \<Rightarrow> bool" where
  "follows rest \<longleftrightarrow> skip_space rest = [] \<or> hd (skip_space rest) \<in> set ''+-*/%)''"

lemma follows_head:
  assumes "follows (c # rest)"
  shows "\<not> is_digit c" "\<not> identifier_char c" "c \<notin> set ''.eE(''" 
proof -
  have "is_space c \<or> c \<in> set ''+-*/%)''"
    using assms by (cases "is_space c") (auto simp: follows_def)
  then show "\<not> is_digit c" "\<not> identifier_char c" "c \<notin> set ''.eE(''"
    by (auto simp: identifier_char_def char_class_defs char_code_def)
qed

end
