(* ===== verification/Math_Expression_Correct.thy ===== *)
theory Math_Expression_Correct
  imports Math_Grammar
begin

text \<open>
  The integer evaluator computes exactly the values of the grammar of \<open>Math_Grammar\<close>: every text
  that spells a relation with a value evaluates to that value, and a text that evaluates to a value
  spells a relation with it. Both evaluators always return.
\<close>

section \<open>The equations of the integer parser\<close>

abbreviation int_run :: "string \<Rightarrow> int_resolver \<Rightarrow> int_parser" where
  "int_run \<equiv> int_run.run"

lemma run_expression:
  "int_run i f G_expression s = then_parsed (int_run i f G_product s) (\<lambda>v r. int_run i f (G_expression_rest v) r)"
  by (subst int_run.run_step) (simp add: int_step_def int_expression_def)

lemma run_product:
  "int_run i f G_product s = then_parsed (int_run i f G_unary s) (\<lambda>v r. int_run i f (G_product_rest v) r)"
  by (subst int_run.run_step) (simp add: int_step_def int_product_def)

lemma run_expression_rest:
  "int_run i f (G_expression_rest a) s = int_expression_rest i (int_run i f) a s"
  by (subst int_run.run_step) (simp add: int_step_def)

lemma run_product_rest:
  "int_run i f (G_product_rest a) s = int_product_rest i (int_run i f) a s"
  by (subst int_run.run_step) (simp add: int_step_def)

lemma run_unary: "int_run i f G_unary s = int_unary i (int_run i f) s"
  by (subst int_run.run_step) (simp add: int_step_def)

lemma run_primary: "int_run i f G_primary s = int_primary i f (int_run i f) s"
  by (subst int_run.run_step) (simp add: int_step_def)

text \<open>Only what follows the blanks matters.\<close>

lemma run_skip:
  "int_run i f (G_expression_rest a) (skip_space s) = int_run i f (G_expression_rest a) s"
  "int_run i f (G_product_rest a) (skip_space s) = int_run i f (G_product_rest a) s"
  "int_run i f G_primary (skip_space s) = int_run i f G_primary s"
  by (simp_all add: run_expression_rest run_product_rest run_primary int_expression_rest_def
      int_product_rest_def int_primary_def)

lemma run_skip_eq:
  assumes "skip_space r = skip_space s"
  shows "int_run i f (G_expression_rest a) r = int_run i f (G_expression_rest a) s"
    "int_run i f (G_product_rest a) r = int_run i f (G_product_rest a) s"
  using assms run_skip by metis+

section \<open>Digits\<close>

definition digits_from :: "int \<Rightarrow> string \<Rightarrow> int" where
  "digits_from acc d = foldl (\<lambda>a c. a * 10 + int (digit_value c)) acc d"

lemma digits_from_value: "digits_from (int n) d = int (foldl (\<lambda>a c. a * 10 + digit_value c) n d)"
proof (induction d arbitrary: n)
  case (Cons c d)
  from Cons.IH [of "n * 10 + digit_value c"] show ?case by (simp add: digits_from_def)
qed (simp add: digits_from_def)

lemma digits_from_zero: "digits_from 0 d = int (digits_value d)"
  using digits_from_value [of 0 d] by (simp add: digits_value_def)

lemma digits_from_grows: "0 \<le> acc \<Longrightarrow> acc \<le> digits_from acc d"
proof (induction d arbitrary: acc)
  case (Cons c d)
  have "acc \<le> acc * 10 + int (digit_value c)" using Cons.prems by simp
  also have "\<dots> \<le> digits_from (acc * 10 + int (digit_value c)) d" using Cons by simp
  finally show ?case by (simp add: digits_from_def)
qed (simp add: digits_from_def)

lemma fits_below: "0 \<le> a \<Longrightarrow> a \<le> b \<Longrightarrow> fits b \<Longrightarrow> fits a"
  by (simp add: fits_def kMinimum_def kMaximum_def)

lemma int_digits_complete:
  assumes "list_all is_digit d" "rest = [] \<or> \<not> is_digit (hd rest)" "0 \<le> acc" "fits (digits_from acc d)"
  shows "int_digits input acc (d @ rest) = Done (digits_from acc d) rest"
  using assms
proof (induction d arbitrary: acc)
  case Nil
  then show ?case by (cases rest) (auto simp: digits_from_def)
next
  case (Cons c d)
  let ?next = "acc * 10 + int (digit_value c)"
  have step: "digits_from acc (c # d) = digits_from ?next d" by (simp add: digits_from_def)
  have "?next \<le> digits_from ?next d" using Cons.prems(3) by (intro digits_from_grows) simp
  then have next_fits: "fits ?next"
    using Cons.prems(3,4) by (rule_tac fits_below [of _ "digits_from ?next d"]) (simp_all add: step)
  have "fits (acc * 10)" by (rule fits_below [OF _ _ next_fits]) (use Cons.prems(3) in simp_all)
  with next_fits show ?case using Cons by (simp add: step)
qed

lemma int_digits_sound:
  "int_digits input acc s = Done v r \<Longrightarrow> \<exists>d. s = d @ r \<and> list_all is_digit d \<and> v = digits_from acc d \<and>
     (d = [] \<or> fits v)"
proof (induction input acc s rule: int_digits.induct)
  case (2 input acc c rest)
  show ?case
  proof (cases "is_digit c")
    case False
    with "2.prems" show ?thesis by (intro exI [of _ "[]"]) (simp add: digits_from_def)
  next
    case True
    let ?next = "acc * 10 + int (digit_value c)"
    from "2.prems" True have fit: "fits ?next" and go: "int_digits input ?next rest = Done v r"
      by (auto split: if_splits)
    with True "2.prems" "2.IH" obtain d where
      d: "rest = d @ r" "list_all is_digit d" "v = digits_from ?next d" "d = [] \<or> fits v"
      by (auto split: if_splits)
    then show ?thesis using True fit
      by (intro exI [of _ "c # d"]) (auto simp: digits_from_def)
  qed
qed (auto simp: digits_from_def)


section \<open>Texts of the grammar are evaluated\<close>

definition additive :: "string \<Rightarrow> bool" where
  "additive rest \<longleftrightarrow> skip_space rest = [] \<or> hd (skip_space rest) \<notin> set ''*/%''"

text \<open>What evaluating a text of each level does, given what follows it.\<close>

fun evaluated :: "string \<Rightarrow> int_resolver \<Rightarrow> level \<Rightarrow> int \<Rightarrow> string \<Rightarrow> string \<Rightarrow> bool" where
  "evaluated i f L_primary v s rest \<longleftrightarrow> (\<exists>r. int_run i f G_primary s = Done v r \<and> skip_space r = skip_space rest)"
| "evaluated i f L_unary v s rest \<longleftrightarrow> (\<exists>r. int_run i f G_unary s = Done v r \<and> skip_space r = skip_space rest)"
| "evaluated i f L_product v s rest \<longleftrightarrow> int_run i f G_product s = int_run i f (G_product_rest v) rest"
| "evaluated i f L_sum v s rest \<longleftrightarrow>
     (additive rest \<longrightarrow> int_run i f G_expression s = int_run i f (G_expression_rest v) rest)"

lemma evaluated_literal:
  assumes d: "d \<noteq> []" "list_all is_digit d" and fit: "fits (int (digits_value d))" and rest: "follows rest"
  shows "int_run i f G_primary (d @ rest) = Done (int (digits_value d)) rest"
proof -
  obtain c t where c: "d = c # t" "is_digit c" using d by (cases d) auto
  have head: "rest = [] \<or> \<not> is_digit (hd rest)"
    "rest = [] \<or> hd rest \<noteq> CHR ''.'' \<and> hd rest \<noteq> CHR ''e'' \<and> hd rest \<noteq> CHR ''E''"
    using rest follows_head by (cases rest; auto)+
  have "int_digits i 0 (d @ rest) = Done (digits_from 0 d) rest"
    using d fit head(1) by (intro int_digits_complete) (auto simp: digits_from_zero)
  then have "int_literal i (d @ rest) = Done (int (digits_value d)) rest"
    using head(2) by (auto simp: int_literal_def digits_from_zero)
  then show ?thesis
    using c digit_no_space [OF c(2)] digit_not_operator [OF c(2)]
    by (simp add: run_primary int_primary_def consume_Cons)
qed

lemma evaluated_identifier:
  assumes n: "is_identifier n" and name: "n \<noteq> ''pi''" "f n = Inr (Some v)" and rest: "follows rest"
  shows "int_run i f G_primary (n @ rest) = Done v (skip_space rest)"
proof -
  obtain c t where c: "n = c # t" "identifier_start c" "list_all identifier_char t"
    using n by (cases n) (auto simp: is_identifier_def)
  have "takeWhile identifier_char (t @ rest) = t"
    using c(3) rest follows_head(2) by (cases rest) (auto simp: list_all_iff takeWhile_append)
  then have scan: "scan_identifier (n @ rest) = (n, rest)"
    using c by (simp add: scan_identifier_def Let_def)
  have "skip_space rest = [] \<or> hd (skip_space rest) \<noteq> CHR ''(''"
    using rest by (auto simp: follows_def)
  then have "int_identifier f (n @ rest) = Done v (skip_space rest)"
    using name by (auto simp: int_identifier_def scan)
  then show ?thesis
    using c identifier_start_class [OF c(2)]
    by (simp add: run_primary int_primary_def consume_Cons)
qed

lemma run_product_rest_stop:
  assumes "additive rest" shows "int_run i f (G_product_rest v) rest = Done v (skip_space rest)"
proof -
  have "consume c rest = (False, skip_space rest)" if "c \<in> set ''*/%''" for c
    using assms that by (intro consume_other) (auto simp: additive_def)
  then show ?thesis by (simp add: run_product_rest int_product_rest_def)
qed

lemma run_expression_rest_stop:
  assumes "skip_space rest = [] \<or> hd (skip_space rest) = CHR '')''"
  shows "int_run i f (G_expression_rest v) rest = Done v (skip_space rest)"
proof -
  have "consume c rest = (False, skip_space rest)" if "c \<in> set ''+-''" for c
    using assms that by (intro consume_other) auto
  then show ?thesis by (simp add: run_expression_rest int_expression_rest_def)
qed

text \<open>A primary does not start with a sign.\<close>

lemma primary_head:
  assumes "spells L_primary e s"
  shows "\<exists>c t. skip_space (s @ rest) = c # t \<and> c \<noteq> CHR ''+'' \<and> c \<noteq> CHR ''-''"
  using assms
proof (cases rule: spells.cases)
  case (literal w d)
  then obtain c t where "d = c # t" "is_digit c" by (cases d) auto
  then show ?thesis using literal digit_no_space digit_not_operator by fastforce
next
  case (named w n)
  then obtain c t where "n = c # t" "identifier_start c" by (cases n) (auto simp: is_identifier_def)
  then show ?thesis using named identifier_start_class by fastforce
qed auto

lemma evaluated_primary:
  assumes s: "spells L_primary e s"
    and "evaluated i f L_primary v (s @ rest) rest"
  shows "evaluated i f L_unary v (s @ rest) rest"
proof -
  obtain c t where head: "skip_space (s @ rest) = c # t" "c \<noteq> CHR ''+''" "c \<noteq> CHR ''-''"
    using primary_head [OF s] by blast
  then have "consume (CHR ''+'') (s @ rest) = (False, skip_space (s @ rest))"
    "consume (CHR ''-'') (s @ rest) = (False, skip_space (s @ rest))"
    by (simp_all add: consume_def Let_def)
  then show ?thesis using assms(2) by (simp add: run_unary int_unary_def run_skip)
qed

lemma evaluated_factor:
  assumes left: "evaluated i f L_product a (s @ w @ operation_char operation # t @ rest) (w @ operation_char operation # t @ rest)"
    and right: "evaluated i f L_unary b (t @ rest) rest" and w: "blank w"
    and operation: "operation \<in> {Multiply, Divide, Modulo}" and v: "apply_operation operation a b = Some v"
  shows "evaluated i f L_product v (s @ w @ operation_char operation # t @ rest) rest"
proof -
  obtain r where r: "int_run i f G_unary (t @ rest) = Done b r" "skip_space r = skip_space rest"
    using right by auto
  have "int_run i f (G_product_rest a) (w @ operation_char operation # t @ rest) = int_run i f (G_product_rest v) r"
    using operation v w r(1) by (auto simp: run_product_rest int_product_rest_def int_divide_def consume_Cons
        checked_def fitting_def split: if_splits)
  then show ?thesis using left run_skip_eq(2) [OF r(2)] by simp
qed

lemma evaluated_summand:
  assumes left: "evaluated i f L_sum a (s @ w @ operation_char operation # t @ rest) (w @ operation_char operation # t @ rest)"
    and right: "evaluated i f L_product b (t @ rest) rest" and w: "blank w"
    and operation: "operation \<in> {Add, Subtract}" and v: "apply_operation operation a b = Some v"
  shows "evaluated i f L_sum v (s @ w @ operation_char operation # t @ rest) rest"
proof -
  have add: "additive (w @ operation_char operation # t @ rest)"
    using operation w by (auto simp: additive_def)
  have "int_run i f (G_expression_rest a) (w @ operation_char operation # t @ rest) = int_run i f (G_expression_rest v) rest"
    if "additive rest"
    using operation v w right run_product_rest_stop [OF that]
    unfolding run_expression_rest [of i f a "w @ operation_char operation # t @ rest"]
    by (auto simp: int_expression_rest_def consume_Cons checked_def fitting_def run_skip split: if_splits)
  then show ?thesis using left add by simp
qed

lemma evaluated_spelling:
  assumes "spells l e s" "relation_value f e = Some v" "follows rest"
  shows "evaluated i f l v (s @ rest) rest"
  using assms
proof (induction arbitrary: v rest rule: spells.induct)
  case (literal w d)
  then show ?case using evaluated_literal [of d rest i f] run_skip(3) [of i f "w @ d @ rest"] run_skip(3) [of i f "d @ rest"]
    by (auto simp: fitting_def split: if_splits)
next
  case (named w n)
  then show ?case using evaluated_identifier [of n f v rest i] run_skip(3) [of i f "w @ n @ rest"] run_skip(3) [of i f "n @ rest"]
    by (auto split: if_splits sum.splits option.splits)
next
  case (group w e s u)
  let ?rest = "u @ CHR '')'' # rest"
  have "int_run i f G_expression (s @ ?rest) = Done v (CHR '')'' # rest)"
    using group.IH [of v ?rest] group.prems(1) group.hyps(3)
    by (simp add: follows_def additive_def run_expression_rest_stop)
  then show ?case using group.hyps(1) by (simp add: run_primary int_primary_def consume_Cons)
next
  case (primary e s)
  then show ?case using evaluated_primary by blast
next
  case (plus w e s)
  then show ?case by (auto simp: run_unary [of i f "w @ CHR ''+'' # s @ rest"] int_unary_def consume_Cons)
next
  case (minus w e s)
  then obtain x where x: "relation_value f e = Some x" "x \<noteq> kMinimum" "v = - x"
    by (auto split: option.splits if_splits)
  obtain r where "int_run i f G_unary (s @ rest) = Done x r" "skip_space r = skip_space rest"
    using minus.IH [OF x(1) minus.prems(2)] by auto
  with x minus.hyps(1) show ?case
    by (simp add: run_unary [of i f "w @ CHR ''-'' # s @ rest"] int_unary_def consume_Cons)
next
  case (unary e s)
  then obtain r where r: "int_run i f G_unary (s @ rest) = Done v r" "skip_space r = skip_space rest"
    by auto
  then show ?case by (simp add: run_product run_skip_eq(2) [OF r(2)])
next
  case (factor a s w b t operation)
  then obtain x y where xy: "relation_value f a = Some x" "relation_value f b = Some y"
    "apply_operation operation x y = Some v"
    by (auto split: option.splits)
  have "follows (w @ operation_char operation # t @ rest)"
    using factor.hyps by (auto simp: follows_def)
  then show ?case
    using evaluated_factor [OF factor.IH(1) [OF xy(1)] factor.IH(2) [OF xy(2) factor.prems(2)] factor.hyps(2,4) xy(3)]
    by simp
next
  case (product e s)
  then show ?case using run_skip(1) by (auto simp: run_expression run_product_rest_stop)
next
  case (summand a s w b t operation)
  then obtain x y where xy: "relation_value f a = Some x" "relation_value f b = Some y"
    "apply_operation operation x y = Some v"
    by (auto split: option.splits)
  have "follows (w @ operation_char operation # t @ rest)"
    using summand.hyps by (auto simp: follows_def)
  then show ?case
    using evaluated_summand [OF summand.IH(1) [OF xy(1)] summand.IH(2) [OF xy(2) summand.prems(2)] summand.hyps(2,4) xy(3)]
    by simp
qed

lemma evaluator_complete:
  assumes "spells L_sum e t" "blank w" "relation_value f e = Some v"
  shows "int_evaluate (t @ w) f = Done v []"
  using evaluated_spelling [OF assms(1,3), of w "t @ w"] assms(2)
  by (simp add: follows_def additive_def int_evaluate_run run_expression_rest_stop)

section \<open>A value comes from a text of the grammar\<close>

text \<open>\<open>reads l v s r\<close>: the part of \<open>s\<close> before \<open>r\<close> spells a tree of level \<open>l\<close> and value \<open>v\<close>.\<close>

definition reads :: "int_resolver \<Rightarrow> level \<Rightarrow> int \<Rightarrow> string \<Rightarrow> string \<Rightarrow> bool" where
  "reads f l v s r \<longleftrightarrow> (\<exists>e t w. s = t @ w @ r \<and> blank w \<and> spells l e t \<and> relation_value f e = Some v)"

lemma reads_blank: "reads f l v s (u @ r) \<Longrightarrow> blank u \<Longrightarrow> reads f l v s r"
proof -
  assume "reads f l v s (u @ r)" "blank u"
  then obtain e t w where "s = t @ w @ u @ r" "blank w" "spells l e t" "relation_value f e = Some v"
    by (auto simp: reads_def)
  with \<open>blank u\<close> show ?thesis unfolding reads_def
    by (intro exI [of _ e] exI [of _ t] exI [of _ "w @ u"]) (simp add: blank_def)
qed

lemma reads_skip: "reads f l v s r \<Longrightarrow> reads f l v s (skip_space r)"
  by (metis reads_blank skip_split)

lemma reads_up:
  "reads f L_primary v s r \<Longrightarrow> reads f L_unary v s r"
  "reads f L_unary v s r \<Longrightarrow> reads f L_product v s r"
  "reads f L_product v s r \<Longrightarrow> reads f L_sum v s r"
  unfolding reads_def by blast+

lemma reads_operation:
  assumes left: "reads f l a s r" and op: "consume (operation_char operation) r = (True, r1)"
    and right: "reads f l' b r1 r2" and v: "apply_operation operation a b = Some v"
    and level: "l = L_product \<and> l' = L_unary \<and> operation \<in> {Multiply, Divide, Modulo} \<or>
      l = L_sum \<and> l' = L_product \<and> operation \<in> {Add, Subtract}"
  shows "reads f l v s r2"
proof -
  obtain e t w where 1: "s = t @ w @ r" "blank w" "spells l e t" "relation_value f e = Some a"
    using left by (auto simp: reads_def)
  obtain u where 2: "blank u" "r = u @ operation_char operation # r1"
    using op by (rule consume_split)
  obtain e' t' w' where 3: "r1 = t' @ w' @ r2" "blank w'" "spells l' e' t'" "relation_value f e' = Some b"
    using right by (auto simp: reads_def)
  have "blank (w @ u)" using 1 2 by (simp add: blank_def)
  then have "spells l (Combined operation e e') (t @ (w @ u) @ operation_char operation # t')"
    using level 1(3) 3(3) by blast
  with 1 2 3 v show ?thesis unfolding reads_def
    by (intro exI [of _ "Combined operation e e'"] exI [of _ "t @ (w @ u) @ operation_char operation # t'"] exI [of _ w']) simp
qed

text \<open>What each method has read when it gives a value.\<close>

fun sound :: "int_resolver \<Rightarrow> int goal \<Rightarrow> string \<Rightarrow> int \<Rightarrow> string \<Rightarrow> bool" where
  "sound f G_primary s v r \<longleftrightarrow> reads f L_primary v s r"
| "sound f G_unary s v r \<longleftrightarrow> reads f L_unary v s r"
| "sound f G_product s v r \<longleftrightarrow> reads f L_product v s r"
| "sound f G_expression s v r \<longleftrightarrow> reads f L_sum v s r"
| "sound f (G_product_rest a) s v r \<longleftrightarrow> (\<forall>t. reads f L_product a t s \<longrightarrow> reads f L_product v t r)"
| "sound f (G_expression_rest a) s v r \<longleftrightarrow> (\<forall>t. reads f L_sum a t s \<longrightarrow> reads f L_sum v t r)"

lemma int_literal_sound:
  assumes v: "int_literal i s = Done v r" and s: "s \<noteq> []" "is_digit (hd s)"
  shows "reads f L_primary v s r"
proof -
  have "int_digits i 0 s = Done v r"
    using v by (cases "int_digits i 0 s") (auto simp: int_literal_def split: if_splits)
  moreover obtain c t where c: "s = c # t" "is_digit c" using s by (cases s) auto
  ultimately have next_fits: "fits (int (digit_value c))" and go: "int_digits i (int (digit_value c)) t = Done v r"
    by (auto split: if_splits)
  obtain d where d: "t = d @ r" "list_all is_digit d" "v = digits_from (int (digit_value c)) d" "d = [] \<or> fits v"
    using int_digits_sound [OF go] by blast
  have "v = int (digits_value (c # d))" "fits v"
    using d(3,4) next_fits digits_from_zero [of "c # d"] by (auto simp: digits_from_def)
  then show ?thesis using c d unfolding reads_def
    by (intro exI [of _ "Literal (c # d)"] exI [of _ "c # d"] exI [of _ "[]"])
      (use literal [of "[]" "c # d"] in \<open>auto simp: blank_def fitting_def\<close>)
qed

lemma int_identifier_sound:
  assumes v: "int_identifier f s = Done v r" and s: "s \<noteq> []" "identifier_start (hd s)"
  shows "reads f L_primary v s r"
proof -
  obtain n t where n: "scan_identifier s = (n, t)" by fastforce
  obtain c u where c: "s = c # u" "identifier_start c" using s by (cases s) auto
  have nt: "n = c # takeWhile identifier_char u" "t = dropWhile identifier_char u"
    using n c(1) by (auto simp: scan_identifier_def Let_def dropWhile_eq_drop)
  then have name: "is_identifier n" "s = n @ t"
    using c by (auto simp: is_identifier_def list_all_iff dest: set_takeWhileD)
  have "f n = Inr (Some v)" "n \<noteq> ''pi''" "r = skip_space t"
    using v n by (auto simp: int_identifier_def Let_def split: if_splits sum.splits option.splits)
  moreover obtain w where "blank w" "t = w @ skip_space t" by (rule skip_split)
  ultimately show ?thesis using name unfolding reads_def
    by (intro exI [of _ "Identifier n"] exI [of _ n] exI [of _ w]) (use named [of "[]" n] in \<open>auto simp: blank_def\<close>)
qed

lemma reads_primary_skip: "reads f L_primary v (skip_space s) r \<Longrightarrow> reads f L_primary v s r"
proof -
  assume "reads f L_primary v (skip_space s) r"
  then obtain e t w where e: "skip_space s = t @ w @ r" "blank w" "spells L_primary e t" "relation_value f e = Some v"
    by (auto simp: reads_def)
  obtain u where u: "blank u" "s = u @ skip_space s" by (rule skip_split)
  have "spells L_primary e (u @ t)"
    using e(3)
  proof (cases rule: spells.cases)
    case (literal b d)
    then show ?thesis using spells.literal [of "u @ b" d] u(1) by (simp add: blank_def)
  next
    case (named b n)
    then show ?thesis using spells.named [of "u @ b" n] u(1) by (simp add: blank_def)
  next
    case (group b x c)
    then show ?thesis using spells.group [of "u @ b" e x c] u(1) by (simp add: blank_def)
  qed
  with e u show ?thesis unfolding reads_def
    by (intro exI [of _ e] exI [of _ "u @ t"] exI [of _ w]) simp
qed

lemma sound_sign:
  "blank w \<Longrightarrow> reads f L_unary v s r \<Longrightarrow> reads f L_unary v (w @ CHR ''+'' # s) r"
  "blank w \<Longrightarrow> reads f L_unary v s r \<Longrightarrow> v \<noteq> kMinimum \<Longrightarrow> reads f L_unary (- v) (w @ CHR ''-'' # s) r"
proof -
  assume w: "blank w" and "reads f L_unary v s r"
  then obtain e t u where e: "s = t @ u @ r" "blank u" "spells L_unary e t" "relation_value f e = Some v"
    by (auto simp: reads_def)
  show "reads f L_unary v (w @ CHR ''+'' # s) r"
    using e plus [OF w e(3)] unfolding reads_def
    by (intro exI [of _ e] exI [of _ "w @ ''+'' @ t"] exI [of _ u]) simp
  assume "v \<noteq> kMinimum"
  then show "reads f L_unary (- v) (w @ CHR ''-'' # s) r"
    using e minus [OF w e(3)] unfolding reads_def
    by (intro exI [of _ "Negated e"] exI [of _ "w @ ''-'' @ t"] exI [of _ u]) simp
qed

lemma sound_group:
  assumes w: "blank w" and "reads f L_sum v s r" "consume (CHR '')'') r = (True, r')"
  shows "reads f L_primary v (w @ CHR ''('' # s) r'"
proof -
  obtain e t u where e: "s = t @ u @ r" "blank u" "spells L_sum e t" "relation_value f e = Some v"
    using assms(2) by (auto simp: reads_def)
  obtain b where b: "blank b" "r = b @ CHR '')'' # r'" using assms(3) by (rule consume_split)
  have "spells L_primary e (w @ ''('' @ t @ (u @ b) @ '')'')"
    using e b by (intro group [OF w]) (auto simp: blank_def)
  with e b show ?thesis unfolding reads_def
    by (intro exI [of _ e] exI [of _ "w @ ''('' @ t @ (u @ b) @ '')''"] exI [of _ "[]"]) (simp add: blank_def)
qed

lemma sound_primary:
  assumes p: "\<And>g s v r. p g s = Done v r \<Longrightarrow> sound f g s v r"
    and v: "int_primary i f p s = Done v r"
  shows "reads f L_primary v s r"
proof (cases "fst (consume (CHR ''('') s)")
  case True
  then obtain s1 where s1: "consume (CHR ''('') s = (True, s1)" by (cases "consume (CHR ''('') s") auto
  then obtain v' r1 where r1: "p G_expression s1 = Done v' r1" and rest:
    "(case consume (CHR '')'') r1 of (True, rest) \<Rightarrow> Done v' rest
       | (False, rest) \<Rightarrow> Fail (fail_at i rest ''Missing closing parenthesis'')) = Done v r"
    using v by (auto simp: int_primary_def dest: then_parsed_done)
  from rest have "consume (CHR '')'') r1 = (True, r)" "v' = v"
    by (auto split: prod.splits bool.splits)
  moreover obtain w where "blank w" "s = w @ CHR ''('' # s1" using s1 by (rule consume_split)
  ultimately show ?thesis using sound_group p [OF r1] by simp
next
  case False
  then have "consume (CHR ''('') s = (False, skip_space s)"
    by (cases "consume (CHR ''('') s") (auto dest: consume_false)
  then have "int_literal i (skip_space s) = Done v r \<and> skip_space s \<noteq> [] \<and> is_digit (hd (skip_space s)) \<or>
    int_identifier f (skip_space s) = Done v r \<and> skip_space s \<noteq> [] \<and> identifier_start (hd (skip_space s))"
    using v by (auto simp: int_primary_def split: if_splits)
  then have "reads f L_primary v (skip_space s) r"
    using int_literal_sound int_identifier_sound by blast
  then show ?thesis by (rule reads_primary_skip)
qed

lemma consume_elim:
  assumes "(case consume c s of (True, r) \<Rightarrow> f r | (False, r) \<Rightarrow> g r) = Done v t"
  obtains r where "consume c s = (True, r)" "f r = Done v t"
  | "consume c s = (False, skip_space s)" "g (skip_space s) = Done v t"
proof (cases "consume c s")
  case (Pair b r)
  with assms that consume_false [of c s] show ?thesis by (cases b) auto
qed

lemma checked_done: "checked i r n f = Done v t \<longleftrightarrow> fits n \<and> f n = Done v t"
  by (simp add: checked_def)

lemma sound_unary:
  assumes p: "\<And>g s v r. p g s = Done v r \<Longrightarrow> sound f g s v r"
    and v: "int_unary i p s = Done v r"
  shows "reads f L_unary v s r"
  using v unfolding int_unary_def
proof (cases rule: consume_elim)
  case (1 s1)
  then obtain w where "blank w" "s = w @ CHR ''+'' # s1" by (metis consume_split)
  then show ?thesis using p [OF 1(2)] sound_sign(1) by simp
next
  case 2
  from 2(2) show ?thesis
  proof (cases rule: consume_elim)
    case (1 s1)
    then obtain w where w: "blank w" "s = w @ CHR ''-'' # s1" by (metis consume_skip consume_split)
    obtain x where "p G_unary s1 = Done x r" "x \<noteq> kMinimum" "v = - x"
      using 1(2) by (auto dest!: then_parsed_done split: if_splits)
    then show ?thesis using p [of G_unary s1 x r] w sound_sign(2) by simp
  next
    case 2
    then have "p G_primary (skip_space s) = Done v r" by simp
    from p [OF this] have "reads f L_primary v s r" by (simp add: reads_primary_skip)
    then show ?thesis by (rule reads_up)
  qed
qed

lemma sound_operation:
  assumes p: "\<And>g s v r. p g s = Done v r \<Longrightarrow> sound f g s v r" and left: "reads f L_product a t s"
    and op: "consume (operation_char operation) s = (True, s1)" and rhs: "p G_unary s1 = Done b s2"
    and result: "apply_operation operation a b = Some c" and rest: "p (G_product_rest c) s2 = Done v r"
    and operation: "operation \<in> {Multiply, Divide, Modulo}"
  shows "reads f L_product v t r"
proof -
  have "reads f L_product c t s2"
    using p [OF rhs] operation by (intro reads_operation [OF left op _ result]) auto
  with p [OF rest] show ?thesis by simp
qed

lemma sound_divide:
  assumes p: "\<And>g s v r. p g s = Done v r \<Longrightarrow> sound f g s v r" and left: "reads f L_product a t s"
    and op: "consume (operation_char (if d then Divide else Modulo)) s = (True, s1)"
    and v: "int_divide i p d a s1 = Done v r"
  shows "reads f L_product v t r"
proof -
  obtain b s2 where "p G_unary s1 = Done b s2" "b \<noteq> 0" "\<not> (a = kMinimum \<and> b = - 1)"
    "p (G_product_rest (if d then a sdiv b else a smod b)) s2 = Done v r"
    using v unfolding int_divide_def by (auto dest!: then_parsed_done split: if_splits)
  then show ?thesis
    using sound_operation [of p f a t s Divide s1 b s2 "a sdiv b" v r, OF p left]
      sound_operation [of p f a t s Modulo s1 b s2 "a smod b" v r, OF p left] op
    by (cases d) auto
qed

lemma sound_product_rest:
  assumes p: "\<And>g s v r. p g s = Done v r \<Longrightarrow> sound f g s v r"
    and v: "int_product_rest i p a s = Done v r" and left: "reads f L_product a t s"
  shows "reads f L_product v t r"
  using v unfolding int_product_rest_def
proof (cases rule: consume_elim)
  case (1 s1)
  then obtain b s2 where "p G_unary s1 = Done b s2" "fits (a * b)" "p (G_product_rest (a * b)) s2 = Done v r"
    by (auto dest!: then_parsed_done simp: checked_done)
  then show ?thesis using sound_operation [of p f a t s Multiply s1 b s2, OF p left] 1(1) by (simp add: fitting_def)
next
  case 2
  from 2(2) show ?thesis
  proof (cases rule: consume_elim)
    case (1 s1)
    then show ?thesis using sound_divide [of p f a t s True s1, OF p left] by simp
  next
    case 2
    from 2(2) show ?thesis
    proof (cases rule: consume_elim)
      case (1 s1)
      then show ?thesis using sound_divide [of p f a t s False s1, OF p left] by simp
    next
      case 2
      then show ?thesis using reads_skip [OF left] by simp
    qed
  qed
qed

lemma sound_expression_rest:
  assumes p: "\<And>g s v r. p g s = Done v r \<Longrightarrow> sound f g s v r"
    and v: "int_expression_rest i p a s = Done v r" and left: "reads f L_sum a t s"
  shows "reads f L_sum v t r"
proof -
  have step: "reads f L_sum v t r"
    if op: "operation \<in> {Add, Subtract}" "consume (operation_char operation) s = (True, s1)"
      and rhs: "p G_product s1 = Done b s2" "apply_operation operation a b = Some c"
      and rest: "p (G_expression_rest c) s2 = Done v r" for operation s1 b s2 c
  proof -
    have "reads f L_sum c t s2"
      using p [OF rhs(1)] op by (intro reads_operation [OF left op(2) _ rhs(2)]) auto
    with p [OF rest] show ?thesis by simp
  qed
  from v show ?thesis unfolding int_expression_rest_def
  proof (cases rule: consume_elim)
    case (1 s1)
    then show ?thesis using step [of Add s1] by (auto dest!: then_parsed_done simp: checked_done fitting_def)
  next
    case 2
    from 2(2) show ?thesis
    proof (cases rule: consume_elim)
      case (1 s1)
      then show ?thesis using step [of Subtract s1] by (auto dest!: then_parsed_done simp: checked_done fitting_def)
    next
      case 2
      then show ?thesis using reads_skip [OF left] by simp
    qed
  qed
qed

lemma sound_step:
  assumes p: "\<And>g s v r. p g s = Done v r \<Longrightarrow> sound f g s v r"
    and v: "int_step i f p g s = Done v r"
  shows "sound f g s v r"
proof (cases g)
  case G_expression
  with v obtain x t where "p G_product s = Done x t" "p (G_expression_rest x) t = Done v r"
    by (auto simp: int_step_def int_expression_def dest: then_parsed_done)
  then show ?thesis using G_expression p [of G_product s x t] p [of "G_expression_rest x" t v r] reads_up(3) by simp
next
  case G_product
  with v obtain x t where "p G_unary s = Done x t" "p (G_product_rest x) t = Done v r"
    by (auto simp: int_step_def int_product_def dest: then_parsed_done)
  then show ?thesis using G_product p [of G_unary s x t] p [of "G_product_rest x" t v r] reads_up(2) by simp
qed (use v in \<open>auto simp: int_step_def intro: sound_expression_rest [OF p] sound_product_rest [OF p]
  sound_unary [OF p] sound_primary [OF p]\<close>)

lemma parse_sound: "int_parse i f n g s = Done v r \<Longrightarrow> sound f g s v r"
proof (induction n arbitrary: g s v r)
  case (Suc n)
  show ?case by (rule sound_step [of "int_parse i f n"]) (use Suc in auto)
qed simp

section \<open>Properties\<close>

lemma int_evaluate_cases:
  "try_evaluate_integer_expression input f = Some (Inr (Some v)) \<longleftrightarrow> int_evaluate input f = Done v []"
proof -
  have "r = []" if "int_evaluate input f = Done x r" for x r
    using that by (auto simp: int_evaluate_def Let_def dest!: then_parsed_done split: if_splits)
  then show ?thesis
    by (cases "int_evaluate input f") (auto simp: try_evaluate_integer_expression_def)
qed

lemma evaluator_sound:
  assumes "int_evaluate input resolver = Done v []"
  shows "\<exists>e t w. input = t @ w \<and> blank w \<and> spells L_sum e t \<and> relation_value resolver e = Some v"
proof -
  obtain r where r: "int_parse input resolver (enough_fuel input) G_expression input = Done v r" "skip_space r = []"
    using assms by (auto simp: int_evaluate_def Let_def dest!: then_parsed_done split: if_splits)
  have "reads resolver L_sum v input r" using parse_sound [OF r(1)] by simp
  then have "reads resolver L_sum v input []" using reads_skip r(2) by fastforce
  then show ?thesis by (auto simp: reads_def)
qed

text \<open>C33: The exact integer evaluator returns a value exactly for the texts that spell an integer
  relation (the grammar: sums of products of signed literals, identifiers and parenthesised
  relations, blanks anywhere between tokens) whose reference value exists, and it returns that
  value: every step is computed in the integers, associates to the left, and fits 128 bits.\<close>
theorem integer_relation_exact:
  "try_evaluate_integer_expression input resolver = Some (Inr (Some v)) \<longleftrightarrow>
     (\<exists>e t w. input = t @ w \<and> blank w \<and> spells L_sum e t \<and> relation_value resolver e = Some v)"
  using evaluator_sound [of input resolver v] by (auto simp: int_evaluate_cases evaluator_complete)

lemma fits_sdiv:
  assumes "fits a" "\<not> (a = kMinimum \<and> b = - 1)" shows "fits (a sdiv b)"
proof -
  have half: "\<bar>a sdiv b\<bar> \<le> \<bar>a\<bar> div 2" if "2 \<le> \<bar>b\<bar>"
  proof -
    have "\<bar>a sdiv b\<bar> \<le> \<bar>a\<bar> div \<bar>b\<bar>"
      by (auto simp: signed_divide_int_def abs_mult sgn_if pos_imp_zdiv_nonneg_iff)
    also have "\<dots> \<le> \<bar>a\<bar> div 2" using that by (intro zdiv_mono2) auto
    finally show ?thesis .
  qed
  consider "b = 0" | "b = 1" | "b = - 1" | "2 \<le> \<bar>b\<bar>" by linarith
  then show ?thesis
    using assms half by cases (auto simp: fits_def kMinimum_def kMaximum_def)
qed

lemma fits_smod:
  assumes "fits b" "b \<noteq> 0" shows "fits (a smod b)"
  using smod_int_range [OF assms(2), of a] assms(1) by (auto simp: fits_def kMinimum_def kMaximum_def)

lemma relation_value_fits:
  assumes "\<And>n v. resolver n = Inr (Some v) \<Longrightarrow> fits v" "relation_value resolver e = Some v"
  shows "fits v"
  using assms(2)
proof (induction e arbitrary: v)
  case (Combined operation a b)
  then show ?case
    by (cases operation) (auto simp: fitting_def intro: fits_sdiv fits_smod split: option.splits if_splits)
next
  case (Negated e)
  then show ?case by (force simp: fits_def kMinimum_def split: option.splits if_splits)
qed (use assms(1) in \<open>auto simp: fitting_def split: if_splits sum.splits option.splits\<close>)

text \<open>A value of the exact evaluator fits a signed 128-bit integer when the values of the
  identifiers do: no intermediate result wraps around.\<close>
theorem integer_relation_bounds:
  assumes "\<And>n v. resolver n = Inr (Some v) \<Longrightarrow> fits v"
    and "try_evaluate_integer_expression input resolver = Some (Inr (Some v))"
  shows "- (2 ^ 127) \<le> v \<and> v < 2 ^ 127"
proof -
  have "fits v"
    using assms(2) evaluator_sound [of input resolver v] relation_value_fits [of resolver, OF assms(1)]
    by (auto simp: int_evaluate_cases)
  then show ?thesis by (simp add: fits_def kMinimum_def kMaximum_def)
qed

lemma integer_relation_bounds_witness:
  "try_evaluate_integer_expression ''3 * (x - 5)'' (\<lambda>n. Inr (Some 7)) = Some (Inr (Some 6)) \<and>
     - (2 ^ 127) \<le> (6 :: int) \<and> (6 :: int) < 2 ^ 127"
proof -
  have fit: "\<And>n v. (\<lambda>n. Inr (Some 7)) n = (Inr (Some v) :: std_error + int option) \<Longrightarrow> fits v"
    by (auto simp: fits_def kMinimum_def kMaximum_def)
  have run: "try_evaluate_integer_expression ''3 * (x - 5)'' (\<lambda>n. Inr (Some 7)) = Some (Inr (Some 6))"
    by code_simp
  from integer_relation_bounds [OF fit run] run show ?thesis by simp
qed

lemma try_evaluate_total: "try_evaluate_integer_expression input resolver \<noteq> None"
proof -
  have "returns (int_run input resolver G_expression input)" by (rule int_run.run_total)
  then show ?thesis
    by (cases "int_run input resolver G_expression input")
      (auto simp: try_evaluate_integer_expression_def int_evaluate_run Let_def split: parsed.splits)
qed

lemma evaluate_math_total:
  "case evaluate_math_expression m input floating of
     Some (Inr d) \<Rightarrow> fp_finite (double_value d) | Some (Inl error) \<Rightarrow> True | None \<Rightarrow> False"
proof -
  have "returns (double_run.run input m floating (D_value G_expression) input)"
    "stays (double_run.run input m floating (D_value G_expression) input)"
    by (rule double_run.run_total, rule double_run_stays)
  then show ?thesis
    by (cases "double_run.run input m floating (D_value G_expression) input")
      (auto simp: evaluate_math_expression_def double_evaluate_run Let_def)
qed

text \<open>C35: Both evaluators return for every text and every resolver: the nested loops and mutual
  recursion of the parsers end, and the floating evaluator only returns finite values.\<close>
theorem evaluators_return:
  "try_evaluate_integer_expression input resolver \<noteq> None \<and>
   (case evaluate_math_expression m input floating of
      Some (Inr d) \<Rightarrow> fp_finite (double_value d)
    | Some (Inl error) \<Rightarrow> True
    | None \<Rightarrow> False)"
  using try_evaluate_total evaluate_math_total by blast

end
