(* ===== verification/Object_Parsers.thy ===== *)
theory Object_Parsers
  imports Bluez_Types Ordered_Map "HOL-Library.List_Lexorder"
begin

text \<open>
  D-Bus property values and the parsers of BlueZ objects
  (\<open>src/bluez/object_manager_cache.cpp\<close>).
\<close>

section \<open>D-Bus values\<close>

text \<open>\<open>sdbus::Variant\<close>: the types the code decodes, and any other. A dictionary is the list of its
  entries. \<open>get<T>\<close> throws when the type is another, so decoding is partial.\<close>

datatype dbus_value =
    V_string string
  | V_strings "string list"
  | V_bool bool
  | V_byte u8
  | V_int16 u16
  | V_uint16 u16
  | V_int32 u32
  | V_uint32 u32
  | V_bytes "u8 list"
  | V_path string
  | V_uint16_dict "(u16 \<times> dbus_value) list"
  | V_byte_dict "(u8 \<times> dbus_value) list"
  | V_string_dict "(string \<times> dbus_value) list"
  | V_other string

type_synonym dbus_props = "(string \<times> dbus_value) list"
type_synonym interface_map = "(string \<times> dbus_props) list"
type_synonym managed_objects = "(string \<times> interface_map) list"

fun as_string :: "dbus_value \<Rightarrow> string option" where
  "as_string (V_string s) = Some s" | "as_string _ = None"
fun as_strings :: "dbus_value \<Rightarrow> string list option" where
  "as_strings (V_strings s) = Some s" | "as_strings _ = None"
fun as_bool :: "dbus_value \<Rightarrow> bool option" where
  "as_bool (V_bool b) = Some b" | "as_bool _ = None"
fun as_byte :: "dbus_value \<Rightarrow> u8 option" where
  "as_byte (V_byte b) = Some b" | "as_byte _ = None"
fun as_int16 :: "dbus_value \<Rightarrow> u16 option" where
  "as_int16 (V_int16 n) = Some n" | "as_int16 _ = None"
fun as_uint16 :: "dbus_value \<Rightarrow> u16 option" where
  "as_uint16 (V_uint16 n) = Some n" | "as_uint16 _ = None"
fun as_int32 :: "dbus_value \<Rightarrow> u32 option" where
  "as_int32 (V_int32 n) = Some n" | "as_int32 _ = None"
fun as_uint32 :: "dbus_value \<Rightarrow> u32 option" where
  "as_uint32 (V_uint32 n) = Some n" | "as_uint32 _ = None"
fun as_bytes :: "dbus_value \<Rightarrow> u8 list option" where
  "as_bytes (V_bytes b) = Some b" | "as_bytes _ = None"
fun as_path :: "dbus_value \<Rightarrow> string option" where
  "as_path (V_path p) = Some p" | "as_path _ = None"
fun as_uint16_dict :: "dbus_value \<Rightarrow> (u16 \<times> dbus_value) list option" where
  "as_uint16_dict (V_uint16_dict d) = Some d" | "as_uint16_dict _ = None"
fun as_byte_dict :: "dbus_value \<Rightarrow> (u8 \<times> dbus_value) list option" where
  "as_byte_dict (V_byte_dict d) = Some d" | "as_byte_dict _ = None"
fun as_string_dict :: "dbus_value \<Rightarrow> (string \<times> dbus_value) list option" where
  "as_string_dict (V_string_dict d) = Some d" | "as_string_dict _ = None"

definition has_key :: "(string \<times> 'v) list \<Rightarrow> string \<Rightarrow> bool" where
  "has_key m key \<longleftrightarrow> map_of m key \<noteq> None"

definition get_or :: "(dbus_value \<Rightarrow> 'a option) \<Rightarrow> dbus_props \<Rightarrow> string \<Rightarrow> 'a \<Rightarrow> 'a" where
  "get_or decode m key fallback =
     (case map_of m key of
        None \<Rightarrow> fallback
      | Some v \<Rightarrow> (case decode v of Some x \<Rightarrow> x | None \<Rightarrow> fallback))"

definition get_string :: "dbus_props \<Rightarrow> string \<Rightarrow> string" where
  "get_string m key = get_or as_string m key []"

definition get_string_vector :: "dbus_props \<Rightarrow> string \<Rightarrow> string list" where
  "get_string_vector m key = get_or as_strings m key []"

text \<open>A dictionary of byte arrays: entries of another type are left out. The old value is kept when
  the property is not a dictionary.\<close>

definition byte_entries :: "('k \<times> dbus_value) list \<Rightarrow> 'k \<rightharpoonup> u8 list" where
  "byte_entries raw key = (case map_of raw key of Some v \<Rightarrow> as_bytes v | None \<Rightarrow> None)"

definition get_dict ::
    "(dbus_value \<Rightarrow> ('k \<times> dbus_value) list option) \<Rightarrow> dbus_props \<Rightarrow> string \<Rightarrow> ('k \<rightharpoonup> u8 list) \<Rightarrow> ('k \<rightharpoonup> u8 list)" where
  "get_dict decode props key old =
     (case map_of props key of
        None \<Rightarrow> old
      | Some v \<Rightarrow> (case decode v of Some raw \<Rightarrow> byte_entries raw | None \<Rightarrow> old))"

section \<open>Interface names\<close>

definition kAdapterIface :: string where "kAdapterIface = ''org.bluez.Adapter1''"
definition kDeviceIface :: string where "kDeviceIface = ''org.bluez.Device1''"
definition kGattServiceIface :: string where "kGattServiceIface = ''org.bluez.GattService1''"
definition kGattCharacteristicIface :: string where "kGattCharacteristicIface = ''org.bluez.GattCharacteristic1''"
definition kGattDescriptorIface :: string where "kGattDescriptorIface = ''org.bluez.GattDescriptor1''"
definition kLeAdvManagerIface :: string where "kLeAdvManagerIface = ''org.bluez.LEAdvertisingManager1''"

lemmas interface_names = kAdapterIface_def kDeviceIface_def kGattServiceIface_def
  kGattCharacteristicIface_def kGattDescriptorIface_def kLeAdvManagerIface_def

section \<open>Parsers\<close>

definition update_device_props :: "ticks \<Rightarrow> device_info \<Rightarrow> dbus_props \<Rightarrow> device_info" where
  "update_device_props now dev props =
     (let dev = (if has_key props ''Address'' then dev\<lparr>dv_mac := get_string props ''Address''\<rparr> else dev);
          dev = (if has_key props ''AddressType'' then dev\<lparr>dv_address_type := get_string props ''AddressType''\<rparr> else dev);
          dev = (if has_key props ''Name'' then dev\<lparr>dv_name := get_string props ''Name''\<rparr> else dev);
          dev = (if has_key props ''Alias'' then dev\<lparr>dv_alias := get_string props ''Alias''\<rparr> else dev);
          dev = (if has_key props ''Icon'' then dev\<lparr>dv_icon := get_string props ''Icon''\<rparr> else dev);
          dev = dev\<lparr>dv_appearance := get_or as_int32 props ''Appearance'' (dv_appearance dev)\<rparr>;
          dev = dev\<lparr>dv_rssi := get_or as_int16 props ''RSSI'' (dv_rssi dev)\<rparr>;
          dev = dev\<lparr>dv_tx_power := get_or as_int16 props ''TxPower'' (dv_tx_power dev)\<rparr>;
          dev = dev\<lparr>dv_connected := get_or as_bool props ''Connected'' (dv_connected dev)\<rparr>;
          dev = dev\<lparr>dv_paired := get_or as_bool props ''Paired'' (dv_paired dev)\<rparr>;
          dev = dev\<lparr>dv_bonded := get_or as_bool props ''Bonded'' (dv_bonded dev)\<rparr>;
          dev = dev\<lparr>dv_trusted := get_or as_bool props ''Trusted'' (dv_trusted dev)\<rparr>;
          dev = dev\<lparr>dv_blocked := get_or as_bool props ''Blocked'' (dv_blocked dev)\<rparr>;
          dev = dev\<lparr>dv_services_resolved := get_or as_bool props ''ServicesResolved'' (dv_services_resolved dev)\<rparr>;
          dev = (if has_key props ''UUIDs'' then dev\<lparr>dv_uuids := get_string_vector props ''UUIDs''\<rparr> else dev);
          dev = dev\<lparr>dv_manufacturer_data := get_dict as_uint16_dict props ''ManufacturerData'' (dv_manufacturer_data dev)\<rparr>;
          dev = dev\<lparr>dv_service_data := get_dict as_string_dict props ''ServiceData'' (dv_service_data dev)\<rparr>;
          dev = dev\<lparr>dv_advertising_flags := get_or as_bytes props ''AdvertisingFlags'' (dv_advertising_flags dev)\<rparr>;
          dev = dev\<lparr>dv_advertising_data := get_dict as_byte_dict props ''AdvertisingData'' (dv_advertising_data dev)\<rparr>;
          dev = dev\<lparr>dv_adapter := get_or as_path props ''Adapter'' (dv_adapter dev)\<rparr>
      in dev\<lparr>dv_last_seen := now\<rparr>)"

definition parse_device :: "ticks \<Rightarrow> string \<Rightarrow> dbus_props \<Rightarrow> device_info" where
  "parse_device now path props =
     (update_device_props now (default_device_info\<lparr>dv_object_path := path\<rparr>) props)\<lparr>dv_last_seen := now\<rparr>"

definition parse_adapter :: "string \<Rightarrow> dbus_props \<Rightarrow> adapter_info" where
  "parse_adapter path props = default_adapter_info\<lparr>
     ad_object_path := path,
     ad_address := get_string props ''Address'',
     ad_address_type := get_string props ''AddressType'',
     ad_name := get_string props ''Name'',
     ad_alias := get_string props ''Alias'',
     ad_powered := get_or as_bool props ''Powered'' False,
     ad_connectable := get_or as_bool props ''Connectable'' False,
     ad_discoverable := get_or as_bool props ''Discoverable'' False,
     ad_discoverable_timeout := get_or as_uint32 props ''DiscoverableTimeout'' 0,
     ad_pairable := get_or as_bool props ''Pairable'' False,
     ad_discovering := get_or as_bool props ''Discovering'' False,
     ad_uuids := get_string_vector props ''UUIDs''\<rparr>"

definition update_advertising_manager_props :: "adapter_info \<Rightarrow> dbus_props \<Rightarrow> adapter_info" where
  "update_advertising_manager_props a props =
     (let a = (if has_key props ''SupportedSecondaryChannels''
               then a\<lparr>ad_supported_advertising_secondary_channels := get_string_vector props ''SupportedSecondaryChannels''\<rparr>
               else a)
      in case get_or (map_option Some \<circ> as_string_dict) props ''SupportedCapabilities'' None of
           None \<Rightarrow> a
         | Some capabilities \<Rightarrow> a\<lparr>
             ad_max_advertisement_length := get_or as_byte capabilities ''MaxAdvLen'' (ad_max_advertisement_length a),
             ad_max_scan_response_length := get_or as_byte capabilities ''MaxScnRspLen'' (ad_max_scan_response_length a)\<rparr>)"

definition parse_gatt_service :: "string \<Rightarrow> dbus_props \<Rightarrow> gatt_service_info" where
  "parse_gatt_service path props = \<lparr>
     gs_object_path = path,
     gs_uuid = get_string props ''UUID'',
     gs_primary = get_or as_bool props ''Primary'' True,
     gs_device_path = get_or as_path props ''Device'' [],
     gs_includes = get_string_vector props ''Includes''\<rparr>"

definition parse_gatt_characteristic :: "string \<Rightarrow> dbus_props \<Rightarrow> gatt_characteristic_info" where
  "parse_gatt_characteristic path props = \<lparr>
     gc_object_path = path,
     gc_service_path = get_or as_path props ''Service'' [],
     gc_uuid = get_string props ''UUID'',
     gc_flags = get_string_vector props ''Flags'',
     gc_notifying = get_or as_bool props ''Notifying'' False,
     gc_mtu = get_or as_uint16 props ''MTU'' 0,
     gc_value = get_or as_bytes props ''Value'' []\<rparr>"

definition parse_gatt_descriptor :: "string \<Rightarrow> dbus_props \<Rightarrow> gatt_descriptor_info" where
  "parse_gatt_descriptor path props = \<lparr>
     gd_object_path = path,
     gd_characteristic_path = get_or as_path props ''Characteristic'' [],
     gd_uuid = get_string props ''UUID'',
     gd_flags = get_string_vector props ''Flags'',
     gd_value = get_or as_bytes props ''Value'' []\<rparr>"

end
