(* ===== verification/Object_Cache.thy ===== *)
theory Object_Cache
  imports Object_Parsers
begin

text \<open>
  The cache of BlueZ objects (\<open>src/bluez/object_manager_cache.cpp\<close>): one \<open>std::map\<close> per kind of
  object, filled from a snapshot of the object manager and kept up to date by its signals. Every
  operation gives the cache after its critical section and the events it dispatches afterwards.
\<close>

section \<open>State\<close>

datatype cache_event =
    Device_added
  | Device_removed
  | Device_property_changed
  | Gatt_service_added
  | Gatt_service_removed
  | Gatt_characteristic_added
  | Gatt_characteristic_changed
  | Gatt_characteristic_value_changed
  | Gatt_characteristic_removed
  | Gatt_descriptor_added
  | Gatt_descriptor_changed
  | Gatt_descriptor_value_changed
  | Gatt_descriptor_removed
  | Adapter_changed

type_synonym pending_notifications = "(cache_event \<times> string) list"

text \<open>Observers are callbacks; here, the names by which they are told apart.\<close>

record 'cb object_cache =
  oc_adapters :: "(string \<times> adapter_info) list"
  oc_devices :: "(string \<times> device_info) list"
  oc_services :: "(string \<times> gatt_service_info) list"
  oc_characteristics :: "(string \<times> gatt_characteristic_info) list"
  oc_descriptors :: "(string \<times> gatt_descriptor_info) list"
  oc_observers :: "(int \<times> 'cb) list"
  oc_next_observer_token :: int

definition new_object_cache :: "'cb object_cache" where
  "new_object_cache = \<lparr>oc_adapters = [], oc_devices = [], oc_services = [], oc_characteristics = [],
     oc_descriptors = [], oc_observers = [], oc_next_observer_token = 1\<rparr>"

definition is_child_path :: "string \<Rightarrow> string \<Rightarrow> bool" where
  "is_child_path parent_path candidate_path \<longleftrightarrow>
     length parent_path < length candidate_path \<and> take (length parent_path) candidate_path = parent_path \<and>
     candidate_path ! length parent_path = CHR ''/''"

section \<open>Observers\<close>

definition add_observer :: "'cb \<Rightarrow> 'cb object_cache \<Rightarrow> 'cb object_cache \<times> int" where
  "add_observer cb c =
     (let token = oc_next_observer_token c
      in (c\<lparr>oc_next_observer_token := token + 1,
            oc_observers := (if map_of (oc_observers c) token = None then ordered_put token cb (oc_observers c)
                             else oc_observers c)\<rparr>, token))"

definition remove_observer :: "int \<Rightarrow> 'cb object_cache \<Rightarrow> 'cb object_cache" where
  "remove_observer token c = c\<lparr>oc_observers := ordered_del token (oc_observers c)\<rparr>"

text \<open>The calls of \<open>notify\<close> for a batch of events: every observer for each event, in the order of
  the tokens. What a callback throws is dropped.\<close>

definition dispatch_notifications :: "'cb object_cache \<Rightarrow> pending_notifications \<Rightarrow> ('cb \<times> cache_event \<times> string) list" where
  "dispatch_notifications c notes = concat (map (\<lambda>note. map (\<lambda>(_, cb). (cb, note)) (oc_observers c)) notes)"

section \<open>One object\<close>

definition process_adapter :: "string \<Rightarrow> interface_map \<Rightarrow> 'cb object_cache \<Rightarrow> 'cb object_cache \<times> pending_notifications" where
  "process_adapter path ifaces c =
     (case map_of ifaces kAdapterIface of
        None \<Rightarrow> (c, [])
      | Some props \<Rightarrow>
          (c\<lparr>oc_adapters := ordered_put path (parse_adapter path props) (oc_adapters c)\<rparr>, [(Adapter_changed, path)]))"

definition process_advertising_manager ::
    "string \<Rightarrow> interface_map \<Rightarrow> 'cb object_cache \<Rightarrow> 'cb object_cache \<times> pending_notifications" where
  "process_advertising_manager path ifaces c =
     (case map_of ifaces kLeAdvManagerIface of
        None \<Rightarrow> (c, [])
      | Some props \<Rightarrow>
          (let adapter = (case map_of (oc_adapters c) path of
                            Some a \<Rightarrow> a
                          | None \<Rightarrow> default_adapter_info\<lparr>ad_object_path := path\<rparr>)
           in (c\<lparr>oc_adapters := ordered_put path (update_advertising_manager_props adapter props) (oc_adapters c)\<rparr>,
               [(Adapter_changed, path)])))"

text \<open>\<open>insert_or_assign\<close>: the map and the event when the key is new.\<close>

definition insert_or_assign ::
    "string \<Rightarrow> 'v \<Rightarrow> cache_event \<Rightarrow> (string \<times> 'v) list \<Rightarrow> (string \<times> 'v) list \<times> pending_notifications" where
  "insert_or_assign path v added m = (ordered_put path v m, if map_of m path = None then [(added, path)] else [])"

definition process_device ::
    "ticks \<Rightarrow> string \<Rightarrow> interface_map \<Rightarrow> 'cb object_cache \<Rightarrow> 'cb object_cache \<times> pending_notifications" where
  "process_device now path ifaces c =
     (case map_of ifaces kDeviceIface of
        None \<Rightarrow> (c, [])
      | Some props \<Rightarrow>
          (case insert_or_assign path (parse_device now path props) Device_added (oc_devices c) of
             (m, notes) \<Rightarrow> (c\<lparr>oc_devices := m\<rparr>, notes)))"

definition process_service :: "string \<Rightarrow> interface_map \<Rightarrow> 'cb object_cache \<Rightarrow> 'cb object_cache \<times> pending_notifications" where
  "process_service path ifaces c =
     (case map_of ifaces kGattServiceIface of
        None \<Rightarrow> (c, [])
      | Some props \<Rightarrow>
          (case insert_or_assign path (parse_gatt_service path props) Gatt_service_added (oc_services c) of
             (m, notes) \<Rightarrow> (c\<lparr>oc_services := m\<rparr>, notes)))"

definition process_characteristic ::
    "string \<Rightarrow> interface_map \<Rightarrow> 'cb object_cache \<Rightarrow> 'cb object_cache \<times> pending_notifications" where
  "process_characteristic path ifaces c =
     (case map_of ifaces kGattCharacteristicIface of
        None \<Rightarrow> (c, [])
      | Some props \<Rightarrow>
          (case insert_or_assign path (parse_gatt_characteristic path props) Gatt_characteristic_added
                  (oc_characteristics c) of
             (m, notes) \<Rightarrow> (c\<lparr>oc_characteristics := m\<rparr>, notes)))"

definition process_descriptor :: "string \<Rightarrow> interface_map \<Rightarrow> 'cb object_cache \<Rightarrow> 'cb object_cache \<times> pending_notifications" where
  "process_descriptor path ifaces c =
     (case map_of ifaces kGattDescriptorIface of
        None \<Rightarrow> (c, [])
      | Some props \<Rightarrow>
          (case insert_or_assign path (parse_gatt_descriptor path props) Gatt_descriptor_added (oc_descriptors c) of
             (m, notes) \<Rightarrow> (c\<lparr>oc_descriptors := m\<rparr>, notes)))"

text \<open>Critical sections follow one another, each adding its events.\<close>

definition and_then ::
    "('c \<Rightarrow> 'c \<times> 'n list) \<Rightarrow> ('c \<Rightarrow> 'c \<times> 'n list) \<Rightarrow> 'c \<Rightarrow> 'c \<times> 'n list" where
  "and_then f g c = (case f c of (c1, n1) \<Rightarrow> case g c1 of (c2, n2) \<Rightarrow> (c2, n1 @ n2))"

fun for_each :: "('a \<Rightarrow> 'c \<Rightarrow> 'c \<times> 'n list) \<Rightarrow> 'a list \<Rightarrow> 'c \<Rightarrow> 'c \<times> 'n list" where
  "for_each f [] c = (c, [])"
| "for_each f (x # xs) c = and_then (f x) (for_each f xs) c"

definition process_object ::
    "ticks \<Rightarrow> string \<Rightarrow> interface_map \<Rightarrow> 'cb object_cache \<Rightarrow> 'cb object_cache \<times> pending_notifications" where
  "process_object now path ifaces =
     and_then (process_adapter path ifaces)
       (and_then (process_advertising_manager path ifaces)
         (and_then (process_device now path ifaces)
           (and_then (process_service path ifaces)
             (and_then (process_characteristic path ifaces) (process_descriptor path ifaces)))))"

section \<open>Removal\<close>

definition child_keys :: "string \<Rightarrow> (string \<times> 'v) list \<Rightarrow> string list" where
  "child_keys path m = filter (is_child_path path) (map fst m)"

definition erase_descriptors :: "string list \<Rightarrow> 'cb object_cache \<Rightarrow> 'cb object_cache \<times> pending_notifications" where
  "erase_descriptors =
     for_each (\<lambda>path c. (c\<lparr>oc_descriptors := ordered_del path (oc_descriptors c)\<rparr>, [(Gatt_descriptor_removed, path)]))"

definition erase_characteristics :: "string list \<Rightarrow> 'cb object_cache \<Rightarrow> 'cb object_cache \<times> pending_notifications" where
  "erase_characteristics =
     for_each (\<lambda>path c. (c\<lparr>oc_characteristics := ordered_del path (oc_characteristics c)\<rparr>,
                          [(Gatt_characteristic_removed, path)]))"

definition erase_services :: "string list \<Rightarrow> 'cb object_cache \<Rightarrow> 'cb object_cache \<times> pending_notifications" where
  "erase_services =
     for_each (\<lambda>path c. (c\<lparr>oc_services := ordered_del path (oc_services c)\<rparr>, [(Gatt_service_removed, path)]))"

definition remove_device_object :: "string \<Rightarrow> 'cb object_cache \<Rightarrow> 'cb object_cache \<times> pending_notifications" where
  "remove_device_object path c =
     (let descriptor_paths = child_keys path (oc_descriptors c);
          characteristic_paths = child_keys path (oc_characteristics c);
          service_paths = child_keys path (oc_services c)
      in and_then (erase_descriptors descriptor_paths)
           (and_then (erase_characteristics characteristic_paths)
             (and_then (erase_services service_paths)
               (\<lambda>c. (c\<lparr>oc_devices := ordered_del path (oc_devices c)\<rparr>, [(Device_removed, path)])))) c)"

definition remove_service_object :: "string \<Rightarrow> 'cb object_cache \<Rightarrow> 'cb object_cache \<times> pending_notifications" where
  "remove_service_object path c =
     (let descriptor_paths = child_keys path (oc_descriptors c);
          characteristic_paths = child_keys path (oc_characteristics c)
      in and_then (erase_descriptors descriptor_paths)
           (and_then (erase_characteristics characteristic_paths)
             (erase_services [path])) c)"

definition remove_characteristic_object :: "string \<Rightarrow> 'cb object_cache \<Rightarrow> 'cb object_cache \<times> pending_notifications" where
  "remove_characteristic_object path c =
     (let descriptor_paths = child_keys path (oc_descriptors c)
      in and_then (erase_descriptors descriptor_paths) (erase_characteristics [path]) c)"

definition remove_interface :: "string \<Rightarrow> string \<Rightarrow> 'cb object_cache \<Rightarrow> 'cb object_cache \<times> pending_notifications" where
  "remove_interface path iface c =
     (if iface = kDeviceIface then remove_device_object path c
      else if iface = kGattServiceIface then remove_service_object path c
      else if iface = kGattCharacteristicIface then remove_characteristic_object path c
      else if iface = kGattDescriptorIface then erase_descriptors [path] c
      else if iface = kAdapterIface then (c\<lparr>oc_adapters := ordered_del path (oc_adapters c)\<rparr>, [])
      else if iface = kLeAdvManagerIface
      then (if has_key (oc_adapters c) path
            then (c\<lparr>oc_adapters := ordered_upd path (\<lambda>a. a\<lparr>ad_supported_advertising_secondary_channels := [],
                      ad_max_advertisement_length := 31, ad_max_scan_response_length := 31\<rparr>) (oc_adapters c)\<rparr>,
                  [(Adapter_changed, path)])
            else (c, []))
      else (c, []))"

definition remove_interfaces :: "string \<Rightarrow> string list \<Rightarrow> 'cb object_cache \<Rightarrow> 'cb object_cache \<times> pending_notifications" where
  "remove_interfaces path ifaces = for_each (remove_interface path) ifaces"

section \<open>Signals\<close>

definition on_interfaces_added ::
    "ticks \<Rightarrow> string \<Rightarrow> interface_map \<Rightarrow> 'cb object_cache \<Rightarrow> 'cb object_cache \<times> pending_notifications" where
  "on_interfaces_added now path ifaces c =
     (case process_object now path ifaces c of (c, notes) \<Rightarrow>
        (if has_key ifaces kDeviceIface
         then c\<lparr>oc_devices := ordered_upd path (\<lambda>d. d\<lparr>dv_last_advertisement_seen := now\<rparr>) (oc_devices c)\<rparr>
         else c, notes))"

definition on_interfaces_removed :: "string \<Rightarrow> string list \<Rightarrow> 'cb object_cache \<Rightarrow> 'cb object_cache \<times> pending_notifications" where
  "on_interfaces_removed = remove_interfaces"

fun invalidate_device_prop :: "string \<Rightarrow> device_info \<times> bool \<Rightarrow> device_info \<times> bool" where
  "invalidate_device_prop key (dev, changed_metadata) =
     (if key = ''ManufacturerData'' then (dev\<lparr>dv_manufacturer_data := Map.empty\<rparr>, True)
      else if key = ''ServiceData'' then (dev\<lparr>dv_service_data := Map.empty\<rparr>, True)
      else if key = ''AdvertisingData'' then (dev\<lparr>dv_advertising_data := Map.empty\<rparr>, True)
      else if key = ''AdvertisingFlags'' then (dev\<lparr>dv_advertising_flags := []\<rparr>, True)
      else (dev, changed_metadata))"

definition device_props_changed :: "ticks \<Rightarrow> dbus_props \<Rightarrow> string list \<Rightarrow> device_info \<Rightarrow> device_info \<times> bool" where
  "device_props_changed now changed invalidated dev =
     (let changed_metadata = (changed \<noteq> []);
          dev = update_device_props now dev changed;
          observed_advertisement = (has_key changed ''ManufacturerData'' \<or> has_key changed ''ServiceData'' \<or>
            has_key changed ''AdvertisingFlags'' \<or> has_key changed ''AdvertisingData'');
          dev = (if observed_advertisement then dev\<lparr>dv_last_advertisement_seen := now\<rparr> else dev)
      in fold invalidate_device_prop invalidated (dev, changed_metadata))"

definition adapter_props_changed :: "dbus_props \<Rightarrow> adapter_info \<Rightarrow> adapter_info" where
  "adapter_props_changed changed a =
     (let a = a\<lparr>ad_powered := get_or as_bool changed ''Powered'' (ad_powered a)\<rparr>;
          a = a\<lparr>ad_connectable := get_or as_bool changed ''Connectable'' (ad_connectable a)\<rparr>;
          a = a\<lparr>ad_discoverable := get_or as_bool changed ''Discoverable'' (ad_discoverable a)\<rparr>;
          a = a\<lparr>ad_discoverable_timeout := get_or as_uint32 changed ''DiscoverableTimeout'' (ad_discoverable_timeout a)\<rparr>;
          a = a\<lparr>ad_pairable := get_or as_bool changed ''Pairable'' (ad_pairable a)\<rparr>;
          a = a\<lparr>ad_discovering := get_or as_bool changed ''Discovering'' (ad_discovering a)\<rparr>
      in if has_key changed ''Alias'' then a\<lparr>ad_alias := get_string changed ''Alias''\<rparr> else a)"

definition characteristic_props_changed :: "dbus_props \<Rightarrow> gatt_characteristic_info \<Rightarrow> gatt_characteristic_info" where
  "characteristic_props_changed changed ch =
     (let ch = ch\<lparr>gc_notifying := get_or as_bool changed ''Notifying'' (gc_notifying ch)\<rparr>;
          ch = ch\<lparr>gc_mtu := get_or as_uint16 changed ''MTU'' (gc_mtu ch)\<rparr>;
          ch = (if has_key changed ''Flags'' then ch\<lparr>gc_flags := get_string_vector changed ''Flags''\<rparr> else ch)
      in ch\<lparr>gc_value := get_or as_bytes changed ''Value'' (gc_value ch)\<rparr>)"

definition descriptor_props_changed :: "dbus_props \<Rightarrow> gatt_descriptor_info \<Rightarrow> gatt_descriptor_info" where
  "descriptor_props_changed changed d =
     (let d = (if has_key changed ''Flags'' then d\<lparr>gd_flags := get_string_vector changed ''Flags''\<rparr> else d)
      in d\<lparr>gd_value := get_or as_bytes changed ''Value'' (gd_value d)\<rparr>)"

definition on_properties_changed ::
    "ticks \<Rightarrow> string \<Rightarrow> string \<Rightarrow> dbus_props \<Rightarrow> string list \<Rightarrow> 'cb object_cache \<Rightarrow> 'cb object_cache \<times> pending_notifications" where
  "on_properties_changed now path interface changed invalidated c =
     (if interface = kDeviceIface then
        (case map_of (oc_devices c) path of
           None \<Rightarrow> (c, [])
         | Some dev \<Rightarrow>
             (case device_props_changed now changed invalidated dev of (dev, changed_metadata) \<Rightarrow>
                (c\<lparr>oc_devices := ordered_upd path (\<lambda>_. dev) (oc_devices c)\<rparr>,
                 if changed_metadata then [(Device_property_changed, path)] else [])))
      else if interface = kAdapterIface then
        (if has_key (oc_adapters c) path
         then (c\<lparr>oc_adapters := ordered_upd path (adapter_props_changed changed) (oc_adapters c)\<rparr>,
               [(Adapter_changed, path)])
         else (c, []))
      else if interface = kLeAdvManagerIface then
        (if has_key (oc_adapters c) path
         then (c\<lparr>oc_adapters := ordered_upd path (\<lambda>a. update_advertising_manager_props a changed) (oc_adapters c)\<rparr>,
               [(Adapter_changed, path)])
         else (c, []))
      else if interface = kGattCharacteristicIface then
        (if has_key (oc_characteristics c) path
         then (c\<lparr>oc_characteristics := ordered_upd path (characteristic_props_changed changed) (oc_characteristics c)\<rparr>,
               (if has_key changed ''Notifying'' \<or> has_key changed ''MTU'' \<or> has_key changed ''Flags''
                then [(Gatt_characteristic_changed, path)] else []) @
               (if has_key changed ''Value'' then [(Gatt_characteristic_value_changed, path)] else []))
         else (c, []))
      else if interface = kGattDescriptorIface then
        (if has_key (oc_descriptors c) path
         then (c\<lparr>oc_descriptors := ordered_upd path (descriptor_props_changed changed) (oc_descriptors c)\<rparr>,
               (if has_key changed ''Flags'' then [(Gatt_descriptor_changed, path)] else []) @
               (if has_key changed ''Value'' then [(Gatt_descriptor_value_changed, path)] else []))
         else (c, []))
      else (c, []))"

section \<open>Snapshots\<close>

text \<open>A snapshot is the reply of \<open>GetManagedObjects\<close>, or none when the call failed.\<close>

definition load_objects :: "ticks \<Rightarrow> managed_objects \<Rightarrow> 'cb object_cache \<Rightarrow> 'cb object_cache \<times> pending_notifications" where
  "load_objects now = for_each (\<lambda>(path, ifaces). process_object now path ifaces)"

text \<open>The first snapshot gives no events.\<close>

definition load_initial_objects :: "ticks \<Rightarrow> managed_objects option \<Rightarrow> 'cb object_cache \<Rightarrow> 'cb object_cache" where
  "load_initial_objects now reply c = (case reply of None \<Rightarrow> c | Some objects \<Rightarrow> fst (load_objects now objects c))"

definition reload_managed_objects ::
    "ticks \<Rightarrow> managed_objects option \<Rightarrow> 'cb object_cache \<Rightarrow> 'cb object_cache \<times> pending_notifications" where
  "reload_managed_objects now reply c = (case reply of None \<Rightarrow> (c, []) | Some objects \<Rightarrow> load_objects now objects c)"

text \<open>The daemon changed its owner: the objects of the old one are dropped in one critical section,
  those of the new one loaded in another, with the events of the first dispatched between them.\<close>

definition retire_objects :: "'cb object_cache \<Rightarrow> 'cb object_cache \<times> pending_notifications" where
  "retire_objects c =
     (c\<lparr>oc_descriptors := [], oc_characteristics := [], oc_services := [], oc_devices := [], oc_adapters := []\<rparr>,
      map (\<lambda>(path, _). (Gatt_descriptor_removed, path)) (oc_descriptors c) @
      map (\<lambda>(path, _). (Gatt_characteristic_removed, path)) (oc_characteristics c) @
      map (\<lambda>(path, _). (Gatt_service_removed, path)) (oc_services c) @
      map (\<lambda>(path, _). (Device_removed, path)) (oc_devices c))"

definition on_bluez_owner_changed ::
    "ticks \<Rightarrow> string \<Rightarrow> string \<Rightarrow> managed_objects option \<Rightarrow> 'cb object_cache \<Rightarrow> 'cb object_cache \<times> pending_notifications" where
  "on_bluez_owner_changed now previous_owner owner reply =
     (if previous_owner = owner then (\<lambda>c. (c, []))
      else and_then (if previous_owner \<noteq> [] then retire_objects else (\<lambda>c. (c, [])))
             (if owner \<noteq> [] then reload_managed_objects now reply else (\<lambda>c. (c, []))))"

definition in_subtree :: "string \<Rightarrow> string \<Rightarrow> bool" where
  "in_subtree device_path path \<longleftrightarrow> path = device_path \<or> is_child_path device_path path"

definition stale_keys :: "string \<Rightarrow> string list \<Rightarrow> (string \<times> 'v) list \<Rightarrow> string list" where
  "stale_keys device_path snapshot_paths m =
     filter (\<lambda>path. is_child_path device_path path \<and> path \<notin> set snapshot_paths) (map fst m)"

definition has_gatt_interface :: "interface_map \<Rightarrow> bool" where
  "has_gatt_interface ifaces \<longleftrightarrow> has_key ifaces kGattServiceIface \<or> has_key ifaces kGattCharacteristicIface \<or>
     has_key ifaces kGattDescriptorIface"

text \<open>The result is whether the subtree holds a GATT object. Without an object of the subtree in the
  snapshot the events of the removals are not dispatched.\<close>

definition refresh_device_subtree ::
    "ticks \<Rightarrow> string \<Rightarrow> managed_objects option \<Rightarrow> 'cb object_cache \<Rightarrow> ('cb object_cache \<times> pending_notifications) \<times> bool" where
  "refresh_device_subtree now device_path reply c =
     (case (device_path, reply) of
        ([], _) \<Rightarrow> ((c, []), False)
      | (_, None) \<Rightarrow> ((c, []), False)
      | (_, Some objects) \<Rightarrow>
          (let subtree = filter (\<lambda>(path, _). in_subtree device_path path) objects;
               snapshot_paths = map fst subtree;
               stale_descriptors = stale_keys device_path snapshot_paths (oc_descriptors c);
               stale_characteristics = stale_keys device_path snapshot_paths (oc_characteristics c);
               stale_services = stale_keys device_path snapshot_paths (oc_services c);
               refreshed = and_then (erase_descriptors stale_descriptors)
                 (and_then (erase_characteristics stale_characteristics)
                   (and_then (erase_services stale_services) (load_objects now subtree))) c
           in if subtree = [] then ((fst refreshed, []), False)
              else (refreshed, list_ex (\<lambda>(_, ifaces). has_gatt_interface ifaces) subtree)))"

section \<open>Queries\<close>

definition cached_adapter :: "'cb object_cache \<Rightarrow> string \<Rightarrow> adapter_info option" where
  "cached_adapter c path = map_of (oc_adapters c) path"

definition adapters :: "'cb object_cache \<Rightarrow> adapter_info list" where
  "adapters c = map snd (oc_adapters c)"

definition cached_device :: "'cb object_cache \<Rightarrow> string \<Rightarrow> device_info option" where
  "cached_device c path = map_of (oc_devices c) path"

definition cached_service :: "'cb object_cache \<Rightarrow> string \<Rightarrow> gatt_service_info option" where
  "cached_service c path = map_of (oc_services c) path"

definition cached_characteristic :: "'cb object_cache \<Rightarrow> string \<Rightarrow> gatt_characteristic_info option" where
  "cached_characteristic c path = map_of (oc_characteristics c) path"

definition cached_descriptor :: "'cb object_cache \<Rightarrow> string \<Rightarrow> gatt_descriptor_info option" where
  "cached_descriptor c path = map_of (oc_descriptors c) path"

definition device_by_mac :: "'cb object_cache \<Rightarrow> string \<Rightarrow> device_info option" where
  "device_by_mac c mac = find (\<lambda>dev. dv_mac dev = mac) (map snd (oc_devices c))"

definition devices :: "'cb object_cache \<Rightarrow> device_info list" where
  "devices c = map snd (oc_devices c)"

definition connected_devices :: "'cb object_cache \<Rightarrow> device_info list" where
  "connected_devices c = filter dv_connected (map snd (oc_devices c))"

definition under_path :: "string \<Rightarrow> string \<Rightarrow> bool" where
  "under_path parent path \<longleftrightarrow> take (Suc (length parent)) path = parent @ ''/''"

definition services_for_device :: "'cb object_cache \<Rightarrow> string \<Rightarrow> gatt_service_info list" where
  "services_for_device c device_path =
     map snd (filter (\<lambda>(path, svc). gs_device_path svc = device_path \<or> under_path device_path path) (oc_services c))"

definition characteristics_for_service :: "'cb object_cache \<Rightarrow> string \<Rightarrow> gatt_characteristic_info list" where
  "characteristics_for_service c service_path =
     map snd (filter (\<lambda>(path, chrc). gc_service_path chrc = service_path \<or> under_path service_path path)
       (oc_characteristics c))"

definition descriptors_for_characteristic :: "'cb object_cache \<Rightarrow> string \<Rightarrow> gatt_descriptor_info list" where
  "descriptors_for_characteristic c chrc_path =
     map snd (filter (\<lambda>(path, d). gd_characteristic_path d = chrc_path \<or> under_path chrc_path path)
       (oc_descriptors c))"

definition find_characteristic_by_uuid :: "'cb object_cache \<Rightarrow> string \<Rightarrow> string \<Rightarrow> gatt_characteristic_info option" where
  "find_characteristic_by_uuid c device_path uuid =
     (let service_paths = map fst (filter (\<lambda>(path, service).
            gs_device_path service = device_path \<or> is_child_path device_path path) (oc_services c));
          lower_uuid = map to_lower uuid
      in map_option snd (find (\<lambda>(path, chrc).
           (gc_service_path chrc \<in> set service_paths \<or> is_child_path device_path path) \<and>
           map to_lower (gc_uuid chrc) = lower_uuid) (oc_characteristics c)))"

definition find_descriptor_by_uuid :: "'cb object_cache \<Rightarrow> string \<Rightarrow> string \<Rightarrow> gatt_descriptor_info option" where
  "find_descriptor_by_uuid c chrc_path uuid =
     map_option snd (find (\<lambda>(path, d).
       (gd_characteristic_path d = chrc_path \<or> under_path chrc_path path) \<and>
       map to_lower (gd_uuid d) = map to_lower uuid) (oc_descriptors c))"

end
