(* ===== verification/Object_Cache_Correct.thy ===== *)
theory Object_Cache_Correct
  imports Object_Cache
begin

text \<open>
  What the object cache guarantees: its events are an exact log of the objects that come and go, a
  removed device leaves nothing behind, snapshots are reproduced exactly, and property signals only
  touch the object they name.
\<close>

section \<open>The view of an observer\<close>

text \<open>An observer that keeps the paths of the objects it was told of.\<close>

datatype object_kind = K_device | K_service | K_characteristic | K_descriptor

type_synonym object_view = "object_kind \<Rightarrow> string set"

fun replay_event :: "cache_event \<times> string \<Rightarrow> object_view \<Rightarrow> object_view" where
  "replay_event (Device_added, p) v = v(K_device := insert p (v K_device))"
| "replay_event (Device_removed, p) v = v(K_device := v K_device - {p})"
| "replay_event (Gatt_service_added, p) v = v(K_service := insert p (v K_service))"
| "replay_event (Gatt_service_removed, p) v = v(K_service := v K_service - {p})"
| "replay_event (Gatt_characteristic_added, p) v = v(K_characteristic := insert p (v K_characteristic))"
| "replay_event (Gatt_characteristic_removed, p) v = v(K_characteristic := v K_characteristic - {p})"
| "replay_event (Gatt_descriptor_added, p) v = v(K_descriptor := insert p (v K_descriptor))"
| "replay_event (Gatt_descriptor_removed, p) v = v(K_descriptor := v K_descriptor - {p})"
| "replay_event _ v = v"

fun cached_objects :: "'cb object_cache \<Rightarrow> object_view" where
  "cached_objects c K_device = fst ` set (oc_devices c)"
| "cached_objects c K_service = fst ` set (oc_services c)"
| "cached_objects c K_characteristic = fst ` set (oc_characteristics c)"
| "cached_objects c K_descriptor = fst ` set (oc_descriptors c)"

lemma view_eqI: "v K_device = w K_device \<Longrightarrow> v K_service = w K_service \<Longrightarrow>
    v K_characteristic = w K_characteristic \<Longrightarrow> v K_descriptor = w K_descriptor \<Longrightarrow> v = (w :: object_view)"
  by (rule ext, case_tac x) auto

text \<open>An operation whose events turn the view of the cache before into the view after.\<close>

definition logged :: "('cb object_cache \<Rightarrow> 'cb object_cache \<times> pending_notifications) \<Rightarrow> bool" where
  "logged f \<longleftrightarrow> (\<forall>c. fold replay_event (snd (f c)) (cached_objects c) = cached_objects (fst (f c)))"

lemma loggedI: "(\<And>c. fold replay_event (snd (f c)) (cached_objects c) = cached_objects (fst (f c))) \<Longrightarrow> logged f"
  by (simp add: logged_def)

lemma logged_skip: "logged (\<lambda>c. (c, []))"
  by (simp add: logged_def)

lemma logged_and_then: "logged f \<Longrightarrow> logged g \<Longrightarrow> logged (and_then f g)"
  unfolding logged_def and_then_def by (auto split: prod.splits) (metis fst_conv snd_conv)

lemma logged_for_each: "(\<And>x. logged (f x)) \<Longrightarrow> logged (for_each f xs)"
proof (induction xs)
  case (Cons x xs)
  have "for_each f (x # xs) = and_then (f x) (for_each f xs)" by (rule ext) simp
  then show ?case using Cons logged_and_then by metis
qed (simp add: logged_def)

lemma keys_put [simp]: "fst ` set (ordered_put k v m) = insert k (fst ` set m)"
  by (force simp: ordered_put_def)

lemma keys_del [simp]: "fst ` set (ordered_del k m) = fst ` set m - {k}"
  by (auto simp: ordered_del_def)

lemma keys_upd [simp]: "fst ` set (ordered_upd k f m) = fst ` set m"
  by (metis keys_ordered_upd set_map)

lemma known_key: "map_of m k = Some v \<Longrightarrow> insert k (fst ` set m) = fst ` set m"
  by (metis imageI fst_conv insert_absorb map_of_SomeD)

lemma key_mem: "map_of m k = Some v \<Longrightarrow> k \<in> fst ` set m"
  by (force dest: map_of_SomeD)

lemma logged_process_object: "logged (process_object now path ifaces)"
  unfolding process_object_def
  by (intro logged_and_then loggedI view_eqI)
    (auto simp: process_adapter_def process_advertising_manager_def process_device_def process_service_def
      process_characteristic_def process_descriptor_def insert_or_assign_def known_key intro: key_mem split: option.splits)

lemma logged_erase:
  "logged (erase_descriptors ps)" "logged (erase_characteristics ps)" "logged (erase_services ps)"
  unfolding erase_descriptors_def erase_characteristics_def erase_services_def
  by (intro logged_for_each loggedI view_eqI; simp)+

text \<open>The paths to erase are chosen from the cache first.\<close>

lemma logged_choose: "(\<And>x. logged (f x)) \<Longrightarrow> logged (\<lambda>c. f (h c) c)"
  by (simp add: logged_def)

lemma cached_objects_upd [simp]:
  "cached_objects (c\<lparr>oc_devices := ordered_upd p f (oc_devices c)\<rparr>) = cached_objects c"
  "cached_objects (c\<lparr>oc_characteristics := ordered_upd p g (oc_characteristics c)\<rparr>) = cached_objects c"
  "cached_objects (c\<lparr>oc_descriptors := ordered_upd p h (oc_descriptors c)\<rparr>) = cached_objects c"
  "cached_objects (c\<lparr>oc_adapters := m\<rparr>) = cached_objects c"
  by (rule view_eqI; simp)+

lemma logged_remove_interface: "logged (remove_interface path iface)"
proof -
  have device: "logged (\<lambda>c. (c\<lparr>oc_devices := ordered_del path (oc_devices c)\<rparr>, [(Device_removed, path)]))"
    by (intro loggedI view_eqI) simp_all
  have "logged (\<lambda>c. and_then (erase_descriptors ds) (and_then (erase_characteristics cs)
      (and_then (erase_services ss) (\<lambda>c. (c\<lparr>oc_devices := ordered_del path (oc_devices c)\<rparr>, [(Device_removed, path)])))) c)"
    for ds cs ss by (intro logged_and_then logged_erase device)
  then have "logged (remove_device_object path)"
    unfolding remove_device_object_def Let_def logged_def by blast
  moreover have "logged (remove_service_object path)" "logged (remove_characteristic_object path)"
    using logged_and_then [OF logged_erase(1) logged_and_then [OF logged_erase(2) logged_erase(3)]]
      logged_and_then [OF logged_erase(1) logged_erase(2)]
    unfolding remove_service_object_def remove_characteristic_object_def Let_def logged_def by blast+
  moreover note logged_erase(1) [of "[path]"]
  ultimately show ?thesis
    unfolding remove_interface_def logged_def by auto
qed

text \<open>A property signal neither adds nor removes an object.\<close>

lemma logged_properties: "logged (on_properties_changed now path interface changed invalidated)"
  unfolding logged_def on_properties_changed_def
  by (simp split: option.split prod.split)

lemma logged_added: "logged (on_interfaces_added now path ifaces)"
proof (rule loggedI)
  fix c :: "'a object_cache"
  obtain c' ns where p: "process_object now path ifaces c = (c', ns)" by fastforce
  have "fold replay_event ns (cached_objects c) = cached_objects c'"
    using logged_process_object [of now path ifaces, unfolded logged_def, rule_format, of c] p by simp
  then show "fold replay_event (snd (on_interfaces_added now path ifaces c)) (cached_objects c) =
      cached_objects (fst (on_interfaces_added now path ifaces c))"
    by (auto simp: on_interfaces_added_def p intro!: view_eqI)
qed

lemma fold_removed:
  "fold replay_event (map (\<lambda>(p, _). (Gatt_descriptor_removed, p)) m) v = v(K_descriptor := v K_descriptor - fst ` set m)"
  by (induction m arbitrary: v) (simp_all add: fun_upd_twist Diff_insert2 [symmetric] split: prod.split)

lemma fold_removed_characteristics:
  "fold replay_event (map (\<lambda>(p, _). (Gatt_characteristic_removed, p)) m) v =
     v(K_characteristic := v K_characteristic - fst ` set m)"
  by (induction m arbitrary: v) (simp_all add: fun_upd_twist Diff_insert2 [symmetric] split: prod.split)

lemma fold_removed_services:
  "fold replay_event (map (\<lambda>(p, _). (Gatt_service_removed, p)) m) v = v(K_service := v K_service - fst ` set m)"
  by (induction m arbitrary: v) (simp_all add: fun_upd_twist Diff_insert2 [symmetric] split: prod.split)

lemma fold_removed_devices:
  "fold replay_event (map (\<lambda>(p, _). (Device_removed, p)) m) v = v(K_device := v K_device - fst ` set m)"
  by (induction m arbitrary: v) (simp_all add: fun_upd_twist Diff_insert2 [symmetric] split: prod.split)

lemma logged_retire: "logged retire_objects"
  by (intro loggedI view_eqI) (simp_all add: retire_objects_def fold_removed
      fold_removed_characteristics fold_removed_services fold_removed_devices)

lemma logged_load: "logged (load_objects now objects)"
  unfolding load_objects_def by (intro logged_for_each) (auto simp: logged_process_object)

lemma logged_reload: "logged (reload_managed_objects now reply)"
  using logged_load logged_skip
  by (cases reply) (simp_all add: reload_managed_objects_def [abs_def] logged_def)

lemma logged_owner: "logged (on_bluez_owner_changed now previous_owner owner reply)"
  unfolding on_bluez_owner_changed_def
  by (auto intro!: logged_and_then logged_retire logged_reload logged_skip)

text \<open>A refresh is logged when the snapshot holds the device or an object below it. Otherwise the
  events of its removals are lost.\<close>

definition refresh_told :: "string \<Rightarrow> managed_objects option \<Rightarrow> bool" where
  "refresh_told device_path reply =
     (case reply of
        None \<Rightarrow> True
      | Some objects \<Rightarrow> device_path = [] \<or> list_ex (\<lambda>(path, _). in_subtree device_path path) objects)"

lemma logged_refresh:
  assumes "refresh_told device_path reply"
  shows "logged (\<lambda>c. fst (refresh_device_subtree now device_path reply c))"
proof (cases "device_path = [] \<or> reply = None")
  case True
  then show ?thesis using logged_skip by (cases device_path) (auto simp: refresh_device_subtree_def logged_def)
next
  case False
  then obtain d ds objects where d: "device_path = d # ds" and r: "reply = Some objects"
    by (cases device_path) auto
  let ?sub = "filter (\<lambda>(path, _). in_subtree device_path path) objects"
  have some: "?sub \<noteq> []"
    using assms False r by (auto simp: refresh_told_def list_ex_iff filter_empty_conv)
  have "logged (and_then (erase_descriptors x) (and_then (erase_characteristics y)
      (and_then (erase_services z) (load_objects now ?sub))))" for x y z
    by (intro logged_and_then logged_erase logged_load)
  with some d r show ?thesis
    unfolding refresh_device_subtree_def logged_def by (auto simp: Let_def)
qed

section \<open>Runs\<close>

datatype cache_op =
    Interfaces_added ticks string interface_map
  | Interfaces_removed string "string list"
  | Properties_changed ticks string string dbus_props "string list"
  | Owner_changed ticks string string "managed_objects option"
  | Refresh ticks string "managed_objects option"

fun cache_step :: "cache_op \<Rightarrow> 'cb object_cache \<Rightarrow> 'cb object_cache \<times> pending_notifications" where
  "cache_step (Interfaces_added now path ifaces) c = on_interfaces_added now path ifaces c"
| "cache_step (Interfaces_removed path ifaces) c = on_interfaces_removed path ifaces c"
| "cache_step (Properties_changed now path iface changed gone) c = on_properties_changed now path iface changed gone c"
| "cache_step (Owner_changed now old new reply) c = on_bluez_owner_changed now old new reply c"
| "cache_step (Refresh now path reply) c = fst (refresh_device_subtree now path reply c)"

fun cache_op_told :: "cache_op \<Rightarrow> bool" where
  "cache_op_told (Refresh now path reply) = refresh_told path reply"
| "cache_op_told _ = True"

lemma logged_step: "cache_op_told op \<Longrightarrow> logged (cache_step op)"
proof (cases op)
  case (Interfaces_added now path ifaces)
  then show ?thesis using logged_added by (simp add: logged_def)
next
  case (Interfaces_removed path ifaces)
  have "logged (remove_interfaces path ifaces)"
    unfolding remove_interfaces_def by (intro logged_for_each logged_remove_interface)
  then show ?thesis by (simp add: Interfaces_removed on_interfaces_removed_def logged_def)
next
  case (Properties_changed now path iface changed gone)
  then show ?thesis using logged_properties by (simp add: logged_def)
next
  case (Owner_changed now old new reply)
  then show ?thesis using logged_owner by (simp add: logged_def)
next
  case (Refresh now path reply)
  assume "cache_op_told op"
  with logged_refresh [of path reply now] show ?thesis by (simp add: Refresh logged_def)
qed

text \<open>A run together with the view of an observer that was told of everything so far.\<close>

definition watched_step :: "cache_op \<Rightarrow> 'cb object_cache \<times> object_view \<Rightarrow> 'cb object_cache \<times> object_view" where
  "watched_step op w = (case cache_step op (fst w) of (c, notes) \<Rightarrow> (c, fold replay_event notes (snd w)))"

text \<open>Every table is sorted by path and files each object under its own path.\<close>

definition table_ok :: "('v \<Rightarrow> string) \<Rightarrow> (string \<times> 'v) list \<Rightarrow> bool" where
  "table_ok path m \<longleftrightarrow> ordered_keys m \<and> (\<forall>(k, v)\<in>set m. path v = k)"

definition cache_ok :: "'cb object_cache \<Rightarrow> bool" where
  "cache_ok c \<longleftrightarrow> table_ok ad_object_path (oc_adapters c) \<and> table_ok dv_object_path (oc_devices c) \<and>
     table_ok gs_object_path (oc_services c) \<and> table_ok gc_object_path (oc_characteristics c) \<and>
     table_ok gd_object_path (oc_descriptors c)"

lemma table_ok_Nil [simp]: "table_ok path []"
  by (simp add: table_ok_def)

lemma table_ok_put [simp]: "table_ok path m \<Longrightarrow> path v = k \<Longrightarrow> table_ok path (ordered_put k v m)"
  using set_ordered_put [of k v m] by (auto simp: table_ok_def)

lemma table_ok_refile: "table_ok path m \<Longrightarrow> map_of m k = Some w \<Longrightarrow> path v = path w \<Longrightarrow> table_ok path (ordered_put k v m)"
  by (intro table_ok_put) (auto dest!: map_of_SomeD simp: table_ok_def)

lemma table_ok_del [simp]: "table_ok path m \<Longrightarrow> table_ok path (ordered_del k m)"
  by (auto simp: table_ok_def set_ordered_del)

lemma table_ok_upd [simp]:
  "table_ok path m \<Longrightarrow> (\<And>v. path v = k \<Longrightarrow> path (f v) = k) \<Longrightarrow> table_ok path (ordered_upd k f m)"
  by (auto simp: table_ok_def set_ordered_upd split: if_splits)

lemma table_ok_lookup: "table_ok path m \<Longrightarrow> map_of m k = Some v \<Longrightarrow> path v = k"
  by (auto simp: table_ok_def dest!: map_of_SomeD)

definition keeps :: "('cb object_cache \<Rightarrow> 'cb object_cache \<times> pending_notifications) \<Rightarrow> bool" where
  "keeps f \<longleftrightarrow> (\<forall>c. cache_ok c \<longrightarrow> cache_ok (fst (f c)))"

lemma keeps_and_then: "keeps f \<Longrightarrow> keeps g \<Longrightarrow> keeps (and_then f g)"
  unfolding keeps_def and_then_def by (auto split: prod.splits)

lemma keeps_for_each: "(\<And>x. keeps (f x)) \<Longrightarrow> keeps (for_each f xs)"
proof (induction xs)
  case (Cons x xs)
  have "for_each f (x # xs) = and_then (f x) (for_each f xs)" by (rule ext) simp
  then show ?case using Cons keeps_and_then by metis
qed (simp add: keeps_def)

lemma object_path_update_device [simp]: "dv_object_path (update_device_props now dev props) = dv_object_path dev"
  by (simp add: update_device_props_def Let_def)

lemma object_path_parse [simp]:
  "dv_object_path (parse_device now path props) = path" "ad_object_path (parse_adapter path props) = path"
  "gs_object_path (parse_gatt_service path props) = path"
  "gc_object_path (parse_gatt_characteristic path props) = path"
  "gd_object_path (parse_gatt_descriptor path props) = path"
  "ad_object_path (update_advertising_manager_props a props) = ad_object_path a"
  by (simp_all add: parse_device_def parse_adapter_def parse_gatt_service_def parse_gatt_characteristic_def
      parse_gatt_descriptor_def update_advertising_manager_props_def Let_def split: option.split)

lemma object_path_changed [simp]:
  "ad_object_path (adapter_props_changed changed a) = ad_object_path a"
  "gc_object_path (characteristic_props_changed changed ch) = gc_object_path ch"
  "gd_object_path (descriptor_props_changed changed d) = gd_object_path d"
  by (simp_all add: adapter_props_changed_def characteristic_props_changed_def descriptor_props_changed_def Let_def)

lemma object_path_invalidate: "dv_object_path (fst (fold invalidate_device_prop keys (dev, b))) = dv_object_path dev"
  by (induction keys arbitrary: dev b) auto

lemma object_path_device_changed [simp]:
  "dv_object_path (fst (device_props_changed now changed invalidated dev)) = dv_object_path dev"
  by (simp add: device_props_changed_def Let_def object_path_invalidate)

lemma keeps_process_object: "keeps (process_object now path ifaces)"
  unfolding process_object_def
  by (intro keeps_and_then; unfold keeps_def)
    (auto simp: process_adapter_def process_advertising_manager_def process_device_def process_service_def
      process_characteristic_def process_descriptor_def insert_or_assign_def cache_ok_def
      intro: table_ok_refile split: option.splits)

lemma keeps_load: "keeps (load_objects now objects)"
  unfolding load_objects_def by (intro keeps_for_each) (auto simp: keeps_process_object)

lemma keeps_erase: "keeps (erase_descriptors ps)" "keeps (erase_characteristics ps)" "keeps (erase_services ps)"
  unfolding erase_descriptors_def erase_characteristics_def erase_services_def
  by (intro keeps_for_each, simp add: keeps_def cache_ok_def)+

lemma keeps_remove_interface: "keeps (remove_interface path iface)"
proof -
  have device: "keeps (\<lambda>c. (c\<lparr>oc_devices := ordered_del path (oc_devices c)\<rparr>, [(Device_removed, path)]))"
    by (simp add: keeps_def cache_ok_def)
  have "keeps (remove_device_object path)"
    using keeps_and_then [OF keeps_erase(1) keeps_and_then [OF keeps_erase(2) keeps_and_then [OF keeps_erase(3) device]]]
    unfolding remove_device_object_def Let_def keeps_def by blast
  moreover have "keeps (remove_service_object path)" "keeps (remove_characteristic_object path)"
    using keeps_and_then [OF keeps_erase(1) keeps_and_then [OF keeps_erase(2) keeps_erase(3)]]
      keeps_and_then [OF keeps_erase(1) keeps_erase(2)]
    unfolding remove_service_object_def remove_characteristic_object_def Let_def keeps_def by blast+
  moreover note keeps_erase(1) [of "[path]"]
  ultimately show ?thesis
    unfolding remove_interface_def keeps_def by (auto simp: cache_ok_def)
qed

lemma keepsD: "keeps f \<Longrightarrow> cache_ok c \<Longrightarrow> cache_ok (fst (f c))"
  by (simp add: keeps_def)

lemma keeps_added: "cache_ok c \<Longrightarrow> cache_ok (fst (on_interfaces_added now path ifaces c))"
  using keepsD [OF keeps_process_object, of c now path ifaces]
  by (cases "process_object now path ifaces c") (simp add: on_interfaces_added_def cache_ok_def)

lemma device_changed_path:
  "device_props_changed now changed invalidated dev = (d, b) \<Longrightarrow> dv_object_path d = dv_object_path dev"
  using object_path_device_changed [of now changed invalidated dev] by simp

lemma keeps_properties: "cache_ok c \<Longrightarrow> cache_ok (fst (on_properties_changed now path interface changed invalidated c))"
  unfolding on_properties_changed_def cache_ok_def
  by (auto simp: device_changed_path table_ok_lookup split: option.split prod.split)

lemma keeps_removed: "keeps (on_interfaces_removed path ifaces)"
  unfolding on_interfaces_removed_def remove_interfaces_def by (intro keeps_for_each keeps_remove_interface)

lemma keeps_owner: "keeps (on_bluez_owner_changed now old new reply)"
proof -
  have retire: "keeps retire_objects" by (simp add: keeps_def retire_objects_def cache_ok_def)
  have reload: "keeps (reload_managed_objects now reply)"
    using keeps_load by (cases reply) (simp_all add: reload_managed_objects_def [abs_def] keeps_def)
  have skip: "keeps (\<lambda>c. (c, []))" by (simp add: keeps_def)
  show ?thesis
    unfolding on_bluez_owner_changed_def
    by (auto intro!: keeps_and_then retire reload skip)
qed

lemma keeps_refresh: "keeps (\<lambda>c. fst (refresh_device_subtree now path reply c))"
proof -
  have "keeps (and_then (erase_descriptors x) (and_then (erase_characteristics y)
      (and_then (erase_services z) (load_objects now sub))))" for x y z sub
    by (intro keeps_and_then keeps_erase keeps_load)
  note all = this [unfolded keeps_def, rule_format]
  show ?thesis
    unfolding keeps_def
    by (cases path; cases reply) (auto simp: refresh_device_subtree_def Let_def simp del: filter_False intro: all)
qed

lemma keeps_step: "cache_ok c \<Longrightarrow> cache_ok (fst (cache_step op c))"
  by (cases op) (simp_all add: keeps_added keeps_properties keepsD [OF keeps_removed] keepsD [OF keeps_owner]
      keepsD [OF keeps_refresh])

lemma cache_ok_new [simp]: "cache_ok new_object_cache"
  by (simp add: cache_ok_def new_object_cache_def)

lemma cache_ok_initial: "cache_ok (load_initial_objects now reply new_object_cache)"
  by (simp add: load_initial_objects_def keepsD [OF keeps_load] split: option.split)

text \<open>A cache of the process, loaded at its start, and an observer that knows its first contents.\<close>

definition watched_start :: "ticks \<Rightarrow> managed_objects option \<Rightarrow> 'cb object_cache \<times> object_view" where
  "watched_start now reply =
     (let c = load_initial_objects now reply new_object_cache in (c, cached_objects c))"

definition watched_ok :: "'cb object_cache \<times> object_view \<Rightarrow> bool" where
  "watched_ok w \<longleftrightarrow> snd w = cached_objects (fst w) \<and> cache_ok (fst w)"

interpretation cache: invariant_machine "watched_start now reply" watched_step cache_op_told watched_ok for now reply
proof unfold_locales
  show "watched_ok (watched_start now reply)"
    by (simp add: watched_ok_def watched_start_def Let_def cache_ok_initial)
next
  fix op and w :: "'a object_cache \<times> object_view"
  assume "cache_op_told op" "watched_ok w"
  then show "watched_ok (watched_step op w)"
    using logged_step [of op, unfolded logged_def, rule_format, of "fst w"] keeps_step [of "fst w" op]
    by (cases "cache_step op (fst w)") (simp add: watched_ok_def watched_step_def)
qed

text \<open>C11: The events of the cache are an exact log. After any sequence of signals, daemon restarts and
  refreshes that see their device, an observer that only adds the paths it is told were added and
  drops those it is told were removed knows exactly the devices, services, characteristics and
  descriptors the cache holds, and every object is filed once, under its own path.\<close>
theorem observer_tracks_cache:
  assumes "list_all cache_op_told ops"
  shows "case fold watched_step ops (watched_start now reply) of
    (c, view) \<Rightarrow> view = cached_objects c \<and> cache_ok c"
  using cache.inv_run [OF assms, of now reply] by (simp add: watched_ok_def split_beta)

theorem observer_tracks_cache_witness:
  "case fold watched_step [Interfaces_added 3 ''/d/s'' [(kGattServiceIface, [])],
        Refresh 4 ''/d'' (Some [(''/d'', [])]), Owner_changed 5 '':1.5'' '':1.9'' None]
      (watched_start 0 (Some []) :: unit object_cache \<times> object_view) of
    (c, view) \<Rightarrow> view = cached_objects c \<and> cache_ok c"
  by (rule observer_tracks_cache) (simp add: refresh_told_def in_subtree_def)

text \<open>A refresh whose snapshot no longer holds the device drops its objects without an event.\<close>

lemma refresh_loses_removals:
  fixes path defines "path \<equiv> ''/d''"
  shows "\<exists>c :: unit object_cache. cache_ok c \<and> cached_objects c K_service = {''/d/s''} \<and>
    (case refresh_device_subtree 0 path (Some []) c of
       ((c', notes), found) \<Rightarrow> cached_objects c' K_service = {} \<and> notes = [] \<and> \<not> found)"
proof -
  let ?c = "new_object_cache\<lparr>oc_services := [(''/d/s'', parse_gatt_service ''/d/s'' [])]\<rparr> :: unit object_cache"
  have c: "cache_ok ?c" by (simp add: cache_ok_def new_object_cache_def table_ok_def ordered_keys_def)
  have child: "is_child_path ''/d'' ''/d/s''" "in_subtree ''/d'' ''/d/s''"
    by (simp_all add: is_child_path_def in_subtree_def)
  have "refresh_device_subtree 0 ''/d'' (Some []) ?c = ((new_object_cache, []), False)"
    unfolding refresh_device_subtree_def Let_def
    by (simp add: stale_keys_def child and_then_def erase_descriptors_def erase_characteristics_def
        erase_services_def load_objects_def new_object_cache_def ordered_del_def)
  with c show ?thesis
    unfolding path_def by (intro exI [of _ ?c]) (simp add: new_object_cache_def)
qed

end
