(* ===== verification/Object_Cache_Exact.thy ===== *)
theory Object_Cache_Exact
  imports Object_Cache_Correct
begin

text \<open>
  What the cache holds after a snapshot, a removal, a refresh and a restart of the daemon, as
  equations over its tables.
\<close>

section \<open>Snapshots\<close>

text \<open>The entry of a table for a path, after an object with these interfaces was read at that path.\<close>

definition snapshot_entry :: "string \<Rightarrow> (dbus_props \<Rightarrow> 'v) \<Rightarrow> interface_map \<Rightarrow> 'v option \<Rightarrow> 'v option" where
  "snapshot_entry iface parse ifaces old = (case map_of ifaces iface of None \<Rightarrow> old | Some props \<Rightarrow> Some (parse props))"

definition snapshot_lookup ::
    "string \<Rightarrow> (string \<Rightarrow> dbus_props \<Rightarrow> 'v) \<Rightarrow> managed_objects \<Rightarrow> string \<Rightarrow> 'v option \<Rightarrow> 'v option" where
  "snapshot_lookup iface parse objects path old =
     (case map_of objects path of None \<Rightarrow> old | Some ifaces \<Rightarrow> snapshot_entry iface (parse path) ifaces old)"

lemma fst_and_then: "fst (and_then f g c) = fst (g (fst (f c)))"
  by (simp add: and_then_def split: prod.split)

lemma process_object_lookup:
  "map_of (oc_devices (fst (process_object now path ifaces c))) =
     (map_of (oc_devices c))(path := snapshot_entry kDeviceIface (parse_device now path) ifaces (map_of (oc_devices c) path))"
  "map_of (oc_services (fst (process_object now path ifaces c))) =
     (map_of (oc_services c))(path := snapshot_entry kGattServiceIface (parse_gatt_service path) ifaces (map_of (oc_services c) path))"
  "map_of (oc_characteristics (fst (process_object now path ifaces c))) = (map_of (oc_characteristics c))(path :=
     snapshot_entry kGattCharacteristicIface (parse_gatt_characteristic path) ifaces (map_of (oc_characteristics c) path))"
  "map_of (oc_descriptors (fst (process_object now path ifaces c))) = (map_of (oc_descriptors c))(path :=
     snapshot_entry kGattDescriptorIface (parse_gatt_descriptor path) ifaces (map_of (oc_descriptors c) path))"
  unfolding process_object_def fst_and_then
  by (simp_all add: process_adapter_def process_advertising_manager_def process_device_def process_service_def
      process_characteristic_def process_descriptor_def insert_or_assign_def snapshot_entry_def Let_def
      map_of_ordered_put split: option.split)

text \<open>A table every object of a snapshot updates at its own path only.\<close>

lemma load_lookup:
  assumes one: "\<And>path ifaces c. tab (fst (process_object now path ifaces c)) =
      (tab c)(path := snapshot_entry iface (parse path) ifaces (tab c path))"
    and "distinct (map fst objects)"
  shows "tab (fst (load_objects now objects c)) path = snapshot_lookup iface parse objects path (tab c path)"
  using assms(2)
proof (induction objects arbitrary: c path)
  case (Cons object objects)
  obtain q ifaces where object: "object = (q, ifaces)" by fastforce
  have q: "map_of objects q = None" using Cons.prems by (simp add: object map_of_eq_None_iff)
  have "fst (load_objects now (object # objects) c) = fst (load_objects now objects (fst (process_object now q ifaces c)))"
    by (simp add: load_objects_def object fst_and_then)
  then show ?case
    using Cons.prems q by (cases "path = q") (auto simp: Cons.IH one object snapshot_lookup_def)
qed (simp add: load_objects_def snapshot_lookup_def)

lemmas load_lookups =
  load_lookup [where tab = "\<lambda>c. map_of (oc_devices c)" and parse = "parse_device now" for now, OF process_object_lookup(1)]
  load_lookup [where tab = "\<lambda>c. map_of (oc_services c)", OF process_object_lookup(2)]
  load_lookup [where tab = "\<lambda>c. map_of (oc_characteristics c)", OF process_object_lookup(3)]
  load_lookup [where tab = "\<lambda>c. map_of (oc_descriptors c)", OF process_object_lookup(4)]

section \<open>Removal\<close>

lemma fst_removed [simp]: "map fst (filter (\<lambda>(p, _). P p) m) = filter P (map fst m)"
  by (induction m) auto

lemma for_each_erase:
  assumes "\<And>m c. get (put m c) = m" "\<And>m m' c. put m (put m' c) = put m c" "\<And>c. put (get c) c = c"
  shows "for_each (\<lambda>p c. (put (ordered_del p (get c)) c, [(e, p)])) paths c =
    (put (filter (\<lambda>(p, _). p \<notin> set paths) (get c)) c, map (Pair e) paths)"
proof (induction paths arbitrary: c)
  case (Cons x paths)
  have "filter (\<lambda>(p, _). p \<notin> set paths) (ordered_del x (get c)) = filter (\<lambda>(p, _). p \<notin> set (x # paths)) (get c)"
    by (auto simp: ordered_del_def intro!: filter_cong)
  then show ?case by (simp only: for_each.simps and_then_def Cons.IH assms prod.case) simp
qed (simp add: assms case_prod_beta')

lemma erase_descriptors_all: "erase_descriptors paths c =
    (c\<lparr>oc_descriptors := filter (\<lambda>(p, _). p \<notin> set paths) (oc_descriptors c)\<rparr>, map (Pair Gatt_descriptor_removed) paths)"
  unfolding erase_descriptors_def by (rule for_each_erase) simp_all

lemma erase_characteristics_all: "erase_characteristics paths c =
    (c\<lparr>oc_characteristics := filter (\<lambda>(p, _). p \<notin> set paths) (oc_characteristics c)\<rparr>,
     map (Pair Gatt_characteristic_removed) paths)"
  unfolding erase_characteristics_def by (rule for_each_erase) simp_all

lemma erase_services_all: "erase_services paths c =
    (c\<lparr>oc_services := filter (\<lambda>(p, _). p \<notin> set paths) (oc_services c)\<rparr>, map (Pair Gatt_service_removed) paths)"
  unfolding erase_services_def by (rule for_each_erase) simp_all

lemmas erase_all = erase_descriptors_all erase_characteristics_all erase_services_all

definition outside :: "string \<Rightarrow> (string \<times> 'v) list \<Rightarrow> (string \<times> 'v) list" where
  "outside path m = filter (\<lambda>(p, _). \<not> is_child_path path p) m"

lemma outside_child_keys: "filter (\<lambda>(p, _). p \<notin> set (child_keys path m)) m = outside path m"
  unfolding outside_def by (rule filter_cong) (auto simp: child_keys_def split_beta)

text \<open>Removing a device removes, in one step, exactly its own entry and every service,
  characteristic and descriptor below its path: descriptors first, then characteristics, services and
  the device, each with its event. Adapters, other devices, their objects and the observers stay.\<close>
theorem device_removal_exact:
  "on_interfaces_removed path [kDeviceIface] c =
     (c\<lparr>oc_devices := ordered_del path (oc_devices c), oc_services := outside path (oc_services c),
        oc_characteristics := outside path (oc_characteristics c), oc_descriptors := outside path (oc_descriptors c)\<rparr>,
      map (Pair Gatt_descriptor_removed) (child_keys path (oc_descriptors c)) @
      map (Pair Gatt_characteristic_removed) (child_keys path (oc_characteristics c)) @
      map (Pair Gatt_service_removed) (child_keys path (oc_services c)) @ [(Device_removed, path)])"
  by (simp add: on_interfaces_removed_def remove_interfaces_def remove_interface_def remove_device_object_def
      and_then_def erase_all outside_child_keys Let_def)

section \<open>Refresh\<close>

lemma map_of_keep: "map_of (filter (\<lambda>(p, _). P p) m) = (\<lambda>p. if P p then map_of m p else None)"
  by (rule ext) (induction m, auto)

lemma snapshot_lookup_subtree:
  "snapshot_lookup iface parse (filter (\<lambda>(p, _). P p) objects) path old =
     (if P path then snapshot_lookup iface parse objects path old else old)"
  by (simp add: snapshot_lookup_def map_of_keep)

text \<open>The entry of a table after a refresh of a device, for a snapshot that holds its subtree.\<close>

definition refreshed_entry ::
    "string \<Rightarrow> string \<Rightarrow> (string \<Rightarrow> dbus_props \<Rightarrow> 'v) \<Rightarrow> managed_objects \<Rightarrow> string \<Rightarrow> 'v option \<Rightarrow> 'v option" where
  "refreshed_entry device_path iface parse objects path old =
     (if is_child_path device_path path \<and> map_of objects path = None then None
      else if in_subtree device_path path then snapshot_lookup iface parse objects path old
      else old)"

lemma stale_lookup:
  fixes old :: "(string \<times> 'v) list"
  assumes "sub = filter (\<lambda>(p, _). in_subtree device_path p) objects"
  shows "snapshot_lookup iface parse sub path
      (map_of (filter (\<lambda>(p, _). p \<notin> set (stale_keys device_path (map fst sub) old)) old) path) =
    refreshed_entry device_path iface parse objects path (map_of old path)"
proof -
  have mem: "path \<in> set (map fst sub) \<longleftrightarrow> in_subtree device_path path \<and> map_of objects path \<noteq> None" for path
    unfolding assms by (auto simp: map_of_eq_None_iff)
  have stale: "map_of (filter (\<lambda>(p, _). p \<notin> set (stale_keys device_path (map fst sub) old)) old) path =
      (if is_child_path device_path path \<and> path \<notin> set (map fst sub) then None else map_of old path)"
    by (cases "map_of old path") (auto simp: map_of_keep stale_keys_def dest: key_mem)
  show ?thesis
    unfolding stale mem refreshed_entry_def unfolding assms snapshot_lookup_subtree
    by (auto simp: in_subtree_def snapshot_lookup_def)
qed

text \<open>C12: A refresh that finds its device makes the snapshot authoritative for the subtree: an entry
  below the device is kept only when the snapshot has its path, every object of the snapshot in the
  subtree is read again, and no entry outside the subtree changes.\<close>
theorem refresh_exact:
  assumes "device_path \<noteq> []" and "distinct (map fst objects)"
    and "list_ex (\<lambda>(p, _). in_subtree device_path p) objects"
  shows "case refresh_device_subtree now device_path (Some objects) c of ((c', notes), found) \<Rightarrow>
      map_of (oc_services c') path = refreshed_entry device_path kGattServiceIface
        parse_gatt_service objects path (map_of (oc_services c) path) \<and>
      map_of (oc_characteristics c') path = refreshed_entry device_path kGattCharacteristicIface
        parse_gatt_characteristic objects path (map_of (oc_characteristics c) path) \<and>
      map_of (oc_descriptors c') path = refreshed_entry device_path kGattDescriptorIface
        parse_gatt_descriptor objects path (map_of (oc_descriptors c) path) \<and>
      map_of (oc_devices c') path = (if in_subtree device_path path
        then snapshot_lookup kDeviceIface (parse_device now) objects path (map_of (oc_devices c) path)
        else map_of (oc_devices c) path)"
proof -
  define sub where "sub = filter (\<lambda>(p, _). in_subtree device_path p) objects"
  have some: "sub \<noteq> []" using assms(3) by (auto simp: sub_def list_ex_iff filter_empty_conv)
  have dist: "distinct (map fst sub)" using assms(2) by (simp add: sub_def distinct_map_filter)
  define e where "e = fst (erase_services (stale_keys device_path (map fst sub) (oc_services c))
      (fst (erase_characteristics (stale_keys device_path (map fst sub) (oc_characteristics c))
        (fst (erase_descriptors (stale_keys device_path (map fst sub) (oc_descriptors c)) c)))))"
  have r: "fst (fst (refresh_device_subtree now device_path (Some objects) c)) = fst (load_objects now sub e)"
    using assms(1) some
    unfolding e_def sub_def by (cases device_path) (simp_all add: refresh_device_subtree_def Let_def fst_and_then)
  show ?thesis
    unfolding split_beta r load_lookups [OF dist]
    by (simp add: e_def erase_all stale_lookup [OF sub_def]) (simp add: sub_def snapshot_lookup_subtree)
qed

lemma refresh_exact_witness:
  "case refresh_device_subtree 7 ''/d'' (Some [(''/d'', []), (''/d/s'', [(kGattServiceIface, [])])])
      (new_object_cache\<lparr>oc_services := [(''/d/t'', parse_gatt_service ''/d/t'' [])]\<rparr> :: unit object_cache) of
     ((c', notes), found) \<Rightarrow> map_of (oc_services c') ''/d/t'' = None"
  using refresh_exact [where device_path = "''/d''" and objects = "[(''/d'', []), (''/d/s'', [(kGattServiceIface, [])])]"
      and now = 7 and path = "''/d/t''"
      and c = "new_object_cache\<lparr>oc_services := [(''/d/t'', parse_gatt_service ''/d/t'' [])]\<rparr> :: unit object_cache"]
  by (simp add: in_subtree_def is_child_path_def refreshed_entry_def split_beta)

section \<open>Start and restart\<close>

text \<open>A cache loaded from a snapshot holds exactly the snapshot: under every path the parsed
  device, service, characteristic or descriptor when the snapshot has that interface at that path,
  and nothing otherwise.\<close>
theorem initial_load_exact:
  assumes "distinct (map fst objects)" and "c = load_initial_objects now (Some objects) new_object_cache"
  shows "map_of (oc_devices c) path = snapshot_lookup kDeviceIface (parse_device now) objects path None \<and>
    map_of (oc_services c) path = snapshot_lookup kGattServiceIface parse_gatt_service objects path None \<and>
    map_of (oc_characteristics c) path = snapshot_lookup kGattCharacteristicIface parse_gatt_characteristic objects path None \<and>
    map_of (oc_descriptors c) path = snapshot_lookup kGattDescriptorIface parse_gatt_descriptor objects path None"
  using load_lookups [OF assms(1), of now new_object_cache path]
  by (simp add: assms(2) load_initial_objects_def new_object_cache_def)

lemma initial_load_exact_witness:
  "map_of (oc_services (load_initial_objects 7 (Some [(''/d'', []), (''/d/s'', [(kGattServiceIface, [])])])
      (new_object_cache :: unit object_cache))) ''/d/s'' = Some (parse_gatt_service ''/d/s'' [])"
  using initial_load_exact [OF _ refl, where objects = "[(''/d'', []), (''/d/s'', [(kGattServiceIface, [])])]"
      and now = 7 and path = "''/d/s''" and 'a = unit]
  by (simp add: snapshot_lookup_def snapshot_entry_def)

text \<open>Loading objects neither reads nor changes the observers.\<close>

definition with_observers :: "(int \<times> 'cb) list \<Rightarrow> int \<Rightarrow> 'cb object_cache \<Rightarrow> 'cb object_cache" where
  "with_observers os token c = c\<lparr>oc_observers := os, oc_next_observer_token := token\<rparr>"

lemma and_then_observers:
  assumes "\<And>c. f (w c) = map_prod w id (f c)" "\<And>c. g (w c) = map_prod w id (g c)"
  shows "and_then f g (w c) = map_prod w id (and_then f g c)"
  by (simp add: and_then_def assms split_beta)

lemma process_object_observers: "process_object now path ifaces (with_observers os token c) =
    map_prod (with_observers os token) id (process_object now path ifaces c)"
  unfolding process_object_def
  by (intro and_then_observers) (simp_all add: process_adapter_def process_advertising_manager_def
      process_device_def process_service_def process_characteristic_def process_descriptor_def
      insert_or_assign_def with_observers_def Let_def split: option.split)

lemma load_objects_observers: "load_objects now objects (with_observers os token c) =
    map_prod (with_observers os token) id (load_objects now objects c)"
  unfolding load_objects_def
  by (induction objects arbitrary: c) (simp_all add: and_then_def process_object_observers split_beta)

text \<open>C13: A restart of the BlueZ daemon leaves nothing of the old daemon behind: whatever the cache
  held, afterwards it is what a new cache loads from the new daemon's snapshot, with the observers
  registered so far, and the observers were first told of the removal of every old object.\<close>
theorem restart_equals_start:
  assumes "previous_owner \<noteq> []" and "owner \<noteq> []" and "previous_owner \<noteq> owner"
  shows "fst (on_bluez_owner_changed now previous_owner owner reply c) =
      with_observers (oc_observers c) (oc_next_observer_token c) (load_initial_objects now reply new_object_cache) \<and>
    (\<exists>added. snd (on_bluez_owner_changed now previous_owner owner reply c) =
      map (\<lambda>(p, _). (Gatt_descriptor_removed, p)) (oc_descriptors c) @
      map (\<lambda>(p, _). (Gatt_characteristic_removed, p)) (oc_characteristics c) @
      map (\<lambda>(p, _). (Gatt_service_removed, p)) (oc_services c) @
      map (\<lambda>(p, _). (Device_removed, p)) (oc_devices c) @ added)"
proof -
  have empty: "fst (retire_objects c) = with_observers (oc_observers c) (oc_next_observer_token c) new_object_cache"
    by (simp add: retire_objects_def with_observers_def new_object_cache_def)
  show ?thesis
    using assms empty
    by (cases reply) (auto simp: on_bluez_owner_changed_def and_then_def reload_managed_objects_def
        load_initial_objects_def load_objects_observers retire_objects_def split_beta)
qed

lemma restart_equals_start_witness:
  "fst (on_bluez_owner_changed 7 '':1.5'' '':1.9'' (Some [(''/d/s'', [(kGattServiceIface, [])])])
      (new_object_cache\<lparr>oc_observers := [(1, ''o'')]\<rparr>)) =
    with_observers [(1, ''o'')] 1 (load_initial_objects 7 (Some [(''/d/s'', [(kGattServiceIface, [])])]) new_object_cache)"
  using restart_equals_start [of "'':1.5''" "'':1.9''" 7 "Some [(''/d/s'', [(kGattServiceIface, [])])]"
      "new_object_cache\<lparr>oc_observers := [(1, ''o'')]\<rparr>"]
  by (simp add: new_object_cache_def)

end
