(* ===== verification/Message_Schema.thy ===== *)
theory Message_Schema
  imports Payload_Codec Member_Path
begin

text \<open>
  ROS messages as the introspection type support describes them, and the member paths that select
  their leaves: the first half of \<open>src/bridge/generic_message_bridge.cpp\<close>.
\<close>

section \<open>Outcomes\<close>

text \<open>A step throws (\<open>Inl\<close>) or gives a value (\<open>Inr\<close>). Steps that use a pointer may also have
  undefined behaviour (\<open>None\<close>).\<close>

type_synonym 'a outcome = "(std_error + 'a) option"

definition sum_then :: "std_error + 'a \<Rightarrow> ('a \<Rightarrow> std_error + 'b) \<Rightarrow> std_error + 'b" where
  "sum_then r f = (case r of Inl e \<Rightarrow> Inl e | Inr x \<Rightarrow> f x)"

definition out_then :: "'a outcome \<Rightarrow> ('a \<Rightarrow> 'b outcome) \<Rightarrow> 'b outcome" where
  "out_then r f = (case r of None \<Rightarrow> None | Some (Inl e) \<Rightarrow> Some (Inl e) | Some (Inr x) \<Rightarrow> f x)"

lemma sum_then_simps [simp]:
  "sum_then (Inl e) f = Inl e" "sum_then (Inr x) f = f x"
  by (simp_all add: sum_then_def)

lemma out_then_simps [simp]:
  "out_then None f = None" "out_then (Some (Inl e)) f = Some (Inl e)" "out_then (Some (Inr x)) f = f x"
  by (simp_all add: out_then_def)

lemma sum_then_Inr: "sum_then r f = Inr y \<longleftrightarrow> (\<exists>x. r = Inr x \<and> f x = Inr y)"
  by (cases r) auto

lemma out_then_Inr: "out_then r f = Some (Inr y) \<longleftrightarrow> (\<exists>x. r = Some (Inr x) \<and> f x = Some (Inr y))"
  by (cases "(r, f)" rule: prod.exhaust, cases r; auto simp: out_then_def split: sum.splits)

lemma out_then_None: "out_then r f = None \<longleftrightarrow> r = None \<or> (\<exists>x. r = Some (Inr x) \<and> f x = None)"
  by (auto simp: out_then_def split: option.splits sum.splits)

text \<open>Loops that append what each turn gives.\<close>

fun gather :: "('a \<Rightarrow> std_error + 'b list) \<Rightarrow> 'a list \<Rightarrow> std_error + 'b list" where
  "gather f [] = Inr []"
| "gather f (x # xs) = sum_then (f x) (\<lambda>ys. sum_then (gather f xs) (\<lambda>zs. Inr (ys @ zs)))"

section \<open>Type support\<close>

datatype ros_type =
    ROS_TYPE_BOOL
  | ROS_TYPE_INT8 | ROS_TYPE_UINT8
  | ROS_TYPE_INT16 | ROS_TYPE_UINT16
  | ROS_TYPE_INT32 | ROS_TYPE_UINT32
  | ROS_TYPE_INT64 | ROS_TYPE_UINT64
  | ROS_TYPE_FLOAT | ROS_TYPE_DOUBLE
  | ROS_TYPE_MESSAGE
  | ROS_TYPE_OTHER nat

text \<open>The memory of a message: its fields in the order of its members, arrays with their elements.\<close>

datatype ros_value =
    Scalar scalar_value
  | Opaque string
  | Message "ros_value list"
  | Elements "ros_value list"

text \<open>\<open>MessageMember\<close>: whether it is an array (\<open>is_array_\<close>, \<open>array_size_\<close> and whether it has a
  \<open>resize_function\<close>, which refuses sizes above the bound of a bounded sequence), whether elements
  have addresses (\<open>get_function\<close>, absent for sequences of booleans), the type support of nested
  messages and the value a new element gets.\<close>

datatype array_kind = Not_array | Fixed_array nat | Dynamic_array "nat option"

datatype message_member = Message_member
  (mm_name: string) (mm_type: ros_type) (mm_array: array_kind) (mm_accessors: bool)
  (mm_members: "message_member list option") (mm_new_element: ros_value)

type_synonym message_members = "message_member list"

definition kDynamicBindingCount :: nat where
  "kDynamicBindingCount = 2 ^ 64 - 1"

text \<open>Arithmetic on \<open>size_t\<close> wraps.\<close>

definition size_t_of :: "nat \<Rightarrow> nat" where
  "size_t_of n = n mod 2 ^ 64"

lemma size_t_absorb [simp]:
  "size_t_of (size_t_of a) = size_t_of a" "size_t_of (size_t_of a + b) = size_t_of (a + b)"
  "size_t_of (a + size_t_of b) = size_t_of (a + b)" "size_t_of (size_t_of a * b) = size_t_of (a * b)"
  "size_t_of (a * size_t_of b) = size_t_of (a * b)"
  by (simp_all only: size_t_of_def mod_mod_trivial mod_add_left_eq mod_add_right_eq mod_mult_left_eq mod_mult_right_eq)

lemma size_t_add_cong: "size_t_of a = size_t_of a' \<Longrightarrow> size_t_of b = size_t_of b' \<Longrightarrow> size_t_of (a + b) = size_t_of (a' + b')"
  unfolding size_t_of_def by (rule mod_add_cong)

lemma size_t_mult_cong: "size_t_of a = size_t_of a' \<Longrightarrow> size_t_of b = size_t_of b' \<Longrightarrow> size_t_of (a * b) = size_t_of (a' * b')"
  unfolding size_t_of_def by (rule mod_mult_cong)

lemma size_t_small: "n < 2 ^ 64 \<Longrightarrow> size_t_of n = n"
  by (simp add: size_t_of_def)

text \<open>A member and its place in the message (\<open>offset_\<close>).\<close>

definition find_member :: "message_members \<Rightarrow> string \<Rightarrow> std_error + nat \<times> message_member" where
  "find_member members name =
     (case find_first (\<lambda>m. mm_name m = name) members of
        Some i \<Rightarrow> Inr (i, members ! i)
      | None \<Rightarrow> Inl (Runtime_error (''Unknown member path segment: '' @ name)))"

definition get_nested_members :: "message_member \<Rightarrow> std_error + message_members" where
  "get_nested_members member =
     (case mm_members member of
        Some members \<Rightarrow> Inr members
      | None \<Rightarrow> Inl (Runtime_error (''Missing nested message type support for member: '' @ mm_name member)))"

definition is_selector_present :: "path_segment \<Rightarrow> bool" where
  "is_selector_present seg \<longleftrightarrow> 0 \<le> sg_index seg \<or> sg_has_slice seg"

definition is_dynamic_array_member :: "message_member \<Rightarrow> bool" where
  "is_dynamic_array_member member = (case mm_array member of Dynamic_array bound \<Rightarrow> True | _ \<Rightarrow> False)"

definition fixed_array_size :: "message_member \<Rightarrow> nat" where
  "fixed_array_size member =
     (case mm_array member of Not_array \<Rightarrow> 0 | Fixed_array n \<Rightarrow> n
      | Dynamic_array None \<Rightarrow> 0 | Dynamic_array (Some bound) \<Rightarrow> bound)"

text \<open>\<open>array_size_const\<close> and \<open>array_size_mutable\<close>, which differ in their pointers only.\<close>

definition array_size :: "message_member \<Rightarrow> ros_value \<Rightarrow> nat" where
  "array_size member field = (case field of Elements xs \<Rightarrow> length xs | _ \<Rightarrow> fixed_array_size member)"

definition count_range :: "nat \<Rightarrow> nat \<Rightarrow> nat \<Rightarrow> nat" where
  "count_range start stop step = (if stop \<le> start then 0 else 1 + (stop - start - 1) div step)"

section \<open>Counting the leaves of a path\<close>

definition slice_start :: "path_segment \<Rightarrow> nat" where
  "slice_start seg = nat (case sg_slice_start seg of None \<Rightarrow> 0 | Some n \<Rightarrow> n)"

definition not_message :: "path_segment \<Rightarrow> std_error" where
  "not_message seg = Runtime_error (''Non-message member in the middle of path: '' @ sg_name seg)"

definition needs_selector :: "path_segment \<Rightarrow> std_error" where
  "needs_selector seg =
     Runtime_error (''Non-leaf array member requires an explicit index or slice: '' @ sg_name seg)"

definition open_ended_inside :: std_error where
  "open_ended_inside = Runtime_error ''Open-ended slices are only supported on the final array path segment''"

text \<open>How many elements one segment selects of an array.\<close>

definition selected_count :: "message_member \<Rightarrow> path_segment \<Rightarrow> bool \<Rightarrow> std_error + nat" where
  "selected_count member seg is_last =
     (let step = nat (sg_slice_step seg); len = fixed_array_size member in
      if 0 \<le> sg_index seg then Inr 1
      else if sg_has_slice seg then
        (case sg_slice_stop seg of
           Some stop \<Rightarrow>
             if \<not> is_dynamic_array_member member \<and> len < nat stop
             then Inl (Runtime_error (''Slice stop is out of range for fixed-len array member: '' @ sg_name seg))
             else Inr (count_range (slice_start seg) (nat stop) step)
         | None \<Rightarrow>
             if \<not> is_last then Inl open_ended_inside
             else if is_dynamic_array_member member then Inr kDynamicBindingCount
             else if len < slice_start seg
             then Inl (Runtime_error (''Slice start is out of range for fixed-len array member: '' @ sg_name seg))
             else Inr (count_range (slice_start seg) len step))
      else if \<not> is_last then Inl (needs_selector seg)
      else if is_dynamic_array_member member then Inr kDynamicBindingCount
      else Inr len)"

text \<open>A path that ends early does not arise: \<open>parse_member_path\<close> gives at least one segment and the
  recursion stops at the last. Products of counts wrap at 64 bits.\<close>

fun selection_count_for_path :: "message_members \<Rightarrow> path_segment list \<Rightarrow> std_error + nat" where
  "selection_count_for_path members [] = Inr 0"
| "selection_count_for_path members (seg # path) =
     sum_then (find_member members (sg_name seg)) (\<lambda>(i, member).
       if mm_array member = Not_array then
         (if is_selector_present seg
          then Inl (Runtime_error (''Array selector applied to non-array member: '' @ sg_name seg))
          else if path = [] then Inr 1
          else if mm_type member \<noteq> ROS_TYPE_MESSAGE then Inl (not_message seg)
          else sum_then (get_nested_members member) (\<lambda>nested. selection_count_for_path nested path))
       else if path \<noteq> [] \<and> \<not> is_selector_present seg then Inl (needs_selector seg)
       else sum_then (selected_count member seg (path = [])) (\<lambda>selected.
         if path = [] then Inr selected
         else if mm_type member \<noteq> ROS_TYPE_MESSAGE then Inl (not_message seg)
         else sum_then (get_nested_members member) (\<lambda>nested.
           sum_then (selection_count_for_path nested path) (\<lambda>nested_count.
             if nested_count = kDynamicBindingCount
             then Inl (Runtime_error ''Open-ended dynamic arrays are only supported on the final path segment'')
             else Inr (size_t_of (selected * nested_count))))))"

section \<open>Selected indices\<close>

text \<open>\<open>for (index = start; index < stop; index += step)\<close>. The parser gives no step 0.\<close>

function indices_from :: "nat \<Rightarrow> nat \<Rightarrow> nat \<Rightarrow> nat list" where
  "indices_from start stop step =
     (if stop \<le> start \<or> step = 0 then [] else start # indices_from (start + step) stop step)"
  by pat_completeness auto
termination by (relation "measure (\<lambda>(start, stop, step). stop - start)") auto

declare indices_from.simps [simp del]

text \<open>\<open>static_cast<int>(size)\<close> read back as \<open>size_t\<close>.\<close>

definition size_as_int :: "nat \<Rightarrow> nat" where
  "size_as_int len = unat (scast (word_of_nat len :: 32 word) :: 64 word)"

definition select_indices_const :: "message_member \<Rightarrow> path_segment \<Rightarrow> bool \<Rightarrow> ros_value \<Rightarrow> std_error + nat list" where
  "select_indices_const member seg is_last field =
     (let len = array_size member field in
      if 0 \<le> sg_index seg then
        (if len \<le> nat (sg_index seg)
         then Inl (Runtime_error (''Array index out of range for member: '' @ sg_name seg))
         else Inr [nat (sg_index seg)])
      else if sg_has_slice seg then
        (let start = slice_start seg;
             stop = (case sg_slice_stop seg of Some stop \<Rightarrow> nat stop | None \<Rightarrow> size_as_int len)
         in if len < start \<or> len < stop
            then Inl (Runtime_error (''Slice is out of range for member: '' @ sg_name seg))
            else Inr (indices_from start stop (nat (sg_slice_step seg))))
      else if \<not> is_last then Inl (needs_selector seg)
      else Inr [0..<len])"

text \<open>\<open>ensure_size\<close>: a sequence grows to the required size, anything else must already have it.\<close>

definition ensure_size :: "message_member \<Rightarrow> path_segment \<Rightarrow> nat \<Rightarrow> ros_value \<Rightarrow> std_error + ros_value" where
  "ensure_size member seg required field =
     (if required \<le> array_size member field then Inr field
      else case (mm_array member, field) of
        (Dynamic_array bound, Elements xs) \<Rightarrow>
          if (case bound of None \<Rightarrow> False | Some n \<Rightarrow> n < required)
          then Inl (Length_error ''Exceeded upper bound'')
          else Inr (Elements (xs @ replicate (required - length xs) (mm_new_element member)))
      | _ \<Rightarrow> Inl (Runtime_error (''Array selection exceeds fixed-len member: '' @ sg_name seg)))"

definition select_indices_mutable ::
    "message_member \<Rightarrow> path_segment \<Rightarrow> bool \<Rightarrow> ros_value \<Rightarrow> nat option \<Rightarrow> std_error + nat list \<times> ros_value" where
  "select_indices_mutable member seg is_last field dynamic_count =
     (let step = nat (sg_slice_step seg); start = slice_start seg in
      if 0 \<le> sg_index seg then
        sum_then (ensure_size member seg (nat (sg_index seg) + 1) field) (\<lambda>field. Inr ([nat (sg_index seg)], field))
      else if sg_has_slice seg then
        (case sg_slice_stop seg of
           Some stop \<Rightarrow>
             sum_then (ensure_size member seg (nat stop) field) (\<lambda>field. Inr (indices_from start (nat stop) step, field))
         | None \<Rightarrow>
             (case dynamic_count of
                Some n \<Rightarrow>
                  sum_then (ensure_size member seg (if n = 0 then start else start + (n - 1) * step + 1) field)
                    (\<lambda>field. Inr (map (\<lambda>item. start + item * step) [0..<n], field))
              | None \<Rightarrow>
                  if \<not> is_last then Inl open_ended_inside
                  else Inr (map (\<lambda>item. start + item * step) [0..<count_range start (array_size member field) step],
                            field)))
      else if \<not> is_last then Inl (needs_selector seg)
      else (case dynamic_count of
              Some n \<Rightarrow> sum_then (ensure_size member seg n field) (\<lambda>field. Inr ([0..<n], field))
            | None \<Rightarrow> Inr ([0..<array_size member field], field)))"

section \<open>Leaves of a source message\<close>

text \<open>A binding to constant memory is the member and the value found there. A value that has not the
  shape of its type does not arise in memory; here it is refused.\<close>

definition ill_formed :: std_error where
  "ill_formed = Runtime_error ''The value has not the shape of its type''"

definition field_at :: "ros_value \<Rightarrow> nat \<Rightarrow> std_error + ros_value" where
  "field_at message i =
     (case message of Message fs \<Rightarrow> if i < length fs then Inr (fs ! i) else Inl ill_formed
      | _ \<Rightarrow> Inl ill_formed)"

definition element_at :: "ros_value \<Rightarrow> nat \<Rightarrow> std_error + ros_value" where
  "element_at field i =
     (case field of Elements xs \<Rightarrow> if i < length xs then Inr (xs ! i) else Inl ill_formed
      | _ \<Rightarrow> Inl ill_formed)"

fun collect_const_leaf_bindings ::
    "message_members \<Rightarrow> ros_value \<Rightarrow> path_segment list \<Rightarrow> std_error + (message_member \<times> ros_value) list" where
  "collect_const_leaf_bindings members message [] = Inr []"
| "collect_const_leaf_bindings members message (seg # path) =
     sum_then (find_member members (sg_name seg)) (\<lambda>(i, member).
       if mm_array member = Not_array then
         (if is_selector_present seg
          then Inl (Runtime_error (''Array selector applied to non-array member: '' @ sg_name seg))
          else sum_then (field_at message i) (\<lambda>field.
            if path = [] then Inr [(member, field)]
            else if mm_type member \<noteq> ROS_TYPE_MESSAGE then Inl (not_message seg)
            else sum_then (get_nested_members member) (\<lambda>nested. collect_const_leaf_bindings nested field path)))
       else sum_then (field_at message i) (\<lambda>field.
         sum_then (select_indices_const member seg (path = []) field) (\<lambda>indices.
           gather (\<lambda>index.
             if \<not> mm_accessors member
             then Inl (Runtime_error (''Array member lacks const accessor: '' @ sg_name seg))
             else sum_then (element_at field index) (\<lambda>element.
               if path = [] then Inr [(member, element)]
               else if mm_type member \<noteq> ROS_TYPE_MESSAGE then Inl (not_message seg)
               else sum_then (get_nested_members member) (\<lambda>nested.
                 collect_const_leaf_bindings nested element path))) indices)))"

section \<open>Leaves of a destination message\<close>

text \<open>A binding to mutable memory is a place: the fields and elements that lead to it. An element of
  a sequence is remembered with the size the sequence had: when it has grown since, its elements may
  have moved, and an address into its buffer is not valid any more.\<close>

datatype place_step = Field nat | Fixed_element nat | Sequence_element nat nat

type_synonym leaf_binding = "message_member \<times> place_step list"

definition element_step :: "message_member \<Rightarrow> ros_value \<Rightarrow> nat \<Rightarrow> place_step" where
  "element_step member field index =
     (if is_dynamic_array_member member then Sequence_element index (array_size member field)
      else Fixed_element index)"

definition below :: "place_step \<Rightarrow> leaf_binding list \<Rightarrow> leaf_binding list" where
  "below step bindings = map (\<lambda>(member, place). (member, step # place)) bindings"

definition put_field :: "nat \<Rightarrow> ros_value \<Rightarrow> ros_value \<Rightarrow> ros_value" where
  "put_field i v message = (case message of Message fs \<Rightarrow> Message (fs[i := v]) | _ \<Rightarrow> message)"

definition put_element :: "nat \<Rightarrow> ros_value \<Rightarrow> ros_value \<Rightarrow> ros_value" where
  "put_element i v field = (case field of Elements xs \<Rightarrow> Elements (xs[i := v]) | _ \<Rightarrow> field)"

fun gather_places :: "(nat \<Rightarrow> ros_value \<Rightarrow> std_error + leaf_binding list \<times> ros_value) \<Rightarrow> nat list \<Rightarrow> ros_value \<Rightarrow>
    std_error + leaf_binding list \<times> ros_value" where
  "gather_places f [] field = Inr ([], field)"
| "gather_places f (i # is) field =
     sum_then (f i field) (\<lambda>(bs, field). sum_then (gather_places f is field) (\<lambda>(cs, field). Inr (bs @ cs, field)))"

fun collect_mutable_leaf_bindings ::
    "message_members \<Rightarrow> ros_value \<Rightarrow> path_segment list \<Rightarrow> nat option \<Rightarrow> std_error + leaf_binding list \<times> ros_value" where
  "collect_mutable_leaf_bindings members message [] dynamic_count = Inr ([], message)"
| "collect_mutable_leaf_bindings members message (seg # path) dynamic_count =
     sum_then (find_member members (sg_name seg)) (\<lambda>(i, member).
       if mm_array member = Not_array then
         (if is_selector_present seg
          then Inl (Runtime_error (''Array selector applied to non-array member: '' @ sg_name seg))
          else sum_then (field_at message i) (\<lambda>field.
            if path = [] then Inr ([(member, [Field i])], message)
            else if mm_type member \<noteq> ROS_TYPE_MESSAGE then Inl (not_message seg)
            else sum_then (get_nested_members member) (\<lambda>nested.
              sum_then (collect_mutable_leaf_bindings nested field path dynamic_count) (\<lambda>(bs, field).
                Inr (below (Field i) bs, put_field i field message)))))
       else sum_then (field_at message i) (\<lambda>field.
         sum_then (select_indices_mutable member seg (path = []) field dynamic_count) (\<lambda>(indices, field).
           sum_then (gather_places (\<lambda>index field.
             if \<not> mm_accessors member
             then Inl (Runtime_error (''Array member lacks mutable accessor: '' @ sg_name seg))
             else sum_then (element_at field index) (\<lambda>element.
               if path = [] then Inr ([(member, [element_step member field index])], field)
               else if mm_type member \<noteq> ROS_TYPE_MESSAGE then Inl (not_message seg)
               else sum_then (get_nested_members member) (\<lambda>nested.
                 sum_then (collect_mutable_leaf_bindings nested element path dynamic_count) (\<lambda>(bs, element).
                   Inr (below (element_step member field index) bs, put_element index element field)))))
             indices field) (\<lambda>(bs, field). Inr (below (Field i) bs, put_field i field message)))))"

text \<open>The use of a place. Only the innermost sequence on the way matters: the elements of a sequence
  that grows are moved, and a moved sequence keeps its buffer.\<close>

definition through_sequence :: "place_step list \<Rightarrow> bool" where
  "through_sequence place = list_ex (\<lambda>step. case step of Sequence_element i len \<Rightarrow> True | _ \<Rightarrow> False) place"

fun update_at :: "place_step list \<Rightarrow> (ros_value \<Rightarrow> ros_value outcome) \<Rightarrow> ros_value \<Rightarrow> ros_value outcome" where
  "update_at [] f v = f v"
| "update_at (Field i # place) f (Message fs) =
     (if i < length fs
      then out_then (update_at place f (fs ! i)) (\<lambda>v. Some (Inr (Message (fs[i := v])))) else None)"
| "update_at (Fixed_element i # place) f (Elements xs) =
     (if i < length xs
      then out_then (update_at place f (xs ! i)) (\<lambda>v. Some (Inr (Elements (xs[i := v])))) else None)"
| "update_at (Sequence_element i len # place) f (Elements xs) =
     (if i < length xs \<and> (through_sequence place \<or> length xs = len)
      then out_then (update_at place f (xs ! i)) (\<lambda>v. Some (Inr (Elements (xs[i := v])))) else None)"
| "update_at (step # place) f v = None"

end
