(* ===== verification/Message_Bridge.thy ===== *)
theory Message_Bridge
  imports Message_Schema Math_Expression
begin

text \<open>
  Encoding and decoding of ROS messages: leaf access, \<open>encode_payload\<close> and \<open>decode_payload\<close> of
  \<open>src/bridge/generic_message_bridge.cpp\<close>.
\<close>

section \<open>Single leaves\<close>

text \<open>\<open>resolve_leaf_member\<close>: a scalar path uses the index of a segment and ignores a slice.\<close>

definition get_const_member_pointer :: "ros_value \<Rightarrow> nat \<Rightarrow> message_member \<Rightarrow> int \<Rightarrow> std_error + ros_value" where
  "get_const_member_pointer message i member index =
     sum_then (field_at message i) (\<lambda>field.
       if mm_array member = Not_array then
         (if 0 \<le> index then Inl (Runtime_error (''Indexed access on non-array member: '' @ mm_name member))
          else Inr field)
       else if index < 0 then Inl (Runtime_error (''Array member requires explicit index: '' @ mm_name member))
       else if array_size member field \<le> nat index
       then Inl (Runtime_error (''Array index out of range for member: '' @ mm_name member))
       else if \<not> mm_accessors member
       then Inl (Runtime_error (''Array member lacks const accessor: '' @ mm_name member))
       else element_at field (nat index))"

fun resolve_leaf_member ::
    "message_members \<Rightarrow> ros_value \<Rightarrow> path_segment list \<Rightarrow> std_error + message_member \<times> ros_value" where
  "resolve_leaf_member members message [] = Inl (Invalid_argument ''Member path must not be empty'')"
| "resolve_leaf_member members message (seg # path) =
     sum_then (find_member members (sg_name seg)) (\<lambda>(i, member).
       sum_then (get_const_member_pointer message i member (sg_index seg)) (\<lambda>leaf.
         if path = [] then Inr (member, leaf)
         else if mm_type member \<noteq> ROS_TYPE_MESSAGE then Inl (not_message seg)
         else sum_then (get_nested_members member) (\<lambda>nested. resolve_leaf_member nested leaf path)))"

text \<open>The steps from a message to a field or element, the field after a resize and the value there.
  The new size \<open>index + 1\<close> is computed in \<open>int\<close>: it overflows for the largest index.\<close>

definition get_mutable_member_pointer ::
    "ros_value \<Rightarrow> nat \<Rightarrow> message_member \<Rightarrow> int \<Rightarrow> (place_step list \<times> ros_value \<times> ros_value) outcome" where
  "get_mutable_member_pointer message i member index =
     out_then (Some (field_at message i)) (\<lambda>field.
       if mm_array member = Not_array then
         (if 0 \<le> index then Some (Inl (Runtime_error (''Indexed access on non-array member: '' @ mm_name member)))
          else Some (Inr ([Field i], field, field)))
       else if index < 0
       then Some (Inl (Runtime_error (''Array member requires explicit index: '' @ mm_name member)))
       else if is_dynamic_array_member member \<and> array_size member field \<le> nat index \<and> index = kIntMax then None
       else Some (
         sum_then (if is_dynamic_array_member member
                   then ensure_size member (plain_segment (mm_name member)) (nat index + 1) field else Inr field)
           (\<lambda>field.
             if array_size member field \<le> nat index
             then Inl (Runtime_error (''Array index out of range for member: '' @ mm_name member))
             else if \<not> mm_accessors member
             then Inl (Runtime_error (''Array member lacks mutable accessor: '' @ mm_name member))
             else sum_then (element_at field (nat index)) (\<lambda>element.
               Inr ([Field i, element_step member field (nat index)], field, element)))))"

text \<open>Writes a resolved value back where it was found.\<close>

definition put_below :: "place_step list \<Rightarrow> ros_value \<Rightarrow> ros_value \<Rightarrow> ros_value \<Rightarrow> ros_value" where
  "put_below steps field v message =
     (case steps of
        [Field i] \<Rightarrow> put_field i v message
      | [Field i, Sequence_element j len] \<Rightarrow> put_field i (put_element j v field) message
      | [Field i, Fixed_element j] \<Rightarrow> put_field i (put_element j v field) message
      | _ \<Rightarrow> message)"

fun resolve_leaf_member_mutable ::
    "message_members \<Rightarrow> ros_value \<Rightarrow> path_segment list \<Rightarrow> (message_member \<times> place_step list \<times> ros_value) outcome" where
  "resolve_leaf_member_mutable members message [] =
     Some (Inl (Invalid_argument ''Member path must not be empty''))"
| "resolve_leaf_member_mutable members message (seg # path) =
     out_then (Some (find_member members (sg_name seg))) (\<lambda>(i, member).
       out_then (get_mutable_member_pointer message i member (sg_index seg)) (\<lambda>(steps, field, leaf).
         if path = [] then Some (Inr (member, steps, put_below steps field leaf message))
         else if mm_type member \<noteq> ROS_TYPE_MESSAGE then Some (Inl (not_message seg))
         else out_then (Some (get_nested_members member)) (\<lambda>nested.
           out_then (resolve_leaf_member_mutable nested leaf path) (\<lambda>(target, place, leaf).
             Some (Inr (target, steps @ place, put_below steps field leaf message))))))"

section \<open>Reading and writing scalars\<close>

definition unsupported_leaf :: std_error where
  "unsupported_leaf = Runtime_error ''Unsupported bridge member leaf type''"

fun scalar_kind :: "scalar_value \<Rightarrow> ros_type" where
  "scalar_kind (S_bool v) = ROS_TYPE_BOOL"
| "scalar_kind (S_int8 v) = ROS_TYPE_INT8"
| "scalar_kind (S_uint8 v) = ROS_TYPE_UINT8"
| "scalar_kind (S_int16 v) = ROS_TYPE_INT16"
| "scalar_kind (S_uint16 v) = ROS_TYPE_UINT16"
| "scalar_kind (S_int32 v) = ROS_TYPE_INT32"
| "scalar_kind (S_uint32 v) = ROS_TYPE_UINT32"
| "scalar_kind (S_int64 v) = ROS_TYPE_INT64"
| "scalar_kind (S_uint64 v) = ROS_TYPE_UINT64"
| "scalar_kind (S_float32 v) = ROS_TYPE_FLOAT"
| "scalar_kind (S_float64 v) = ROS_TYPE_DOUBLE"

text \<open>The scalar of a supported leaf.\<close>

definition leaf_scalar :: "message_member \<Rightarrow> ros_value \<Rightarrow> std_error + scalar_value" where
  "leaf_scalar member v =
     (case mm_type member of
        ROS_TYPE_MESSAGE \<Rightarrow> Inl unsupported_leaf
      | ROS_TYPE_OTHER n \<Rightarrow> Inl unsupported_leaf
      | t \<Rightarrow> (case v of Scalar s \<Rightarrow> if scalar_kind s = t then Inr s else Inl ill_formed | _ \<Rightarrow> Inl ill_formed))"

definition read_numeric :: "message_member \<Rightarrow> ros_value \<Rightarrow> std_error + double" where
  "read_numeric member v = sum_then (leaf_scalar member v) (\<lambda>s. Inr
     (case s of
        S_bool b \<Rightarrow> double_of_int (of_bool b)
      | S_int8 n \<Rightarrow> double_of_int (sint n)
      | S_uint8 n \<Rightarrow> double_of_int (uint n)
      | S_int16 n \<Rightarrow> double_of_int (sint n)
      | S_uint16 n \<Rightarrow> double_of_int (uint n)
      | S_int32 n \<Rightarrow> double_of_int (sint n)
      | S_uint32 n \<Rightarrow> double_of_int (uint n)
      | S_int64 n \<Rightarrow> double_of_int (sint n)
      | S_uint64 n \<Rightarrow> double_of_int (uint n)
      | S_float32 f \<Rightarrow> double_of_float f
      | S_float64 d \<Rightarrow> d))"

definition read_integer :: "message_member \<Rightarrow> ros_value \<Rightarrow> std_error + int option" where
  "read_integer member v = sum_then (leaf_scalar member v) (\<lambda>s. Inr
     (case s of
        S_bool b \<Rightarrow> Some (if b then 1 else 0)
      | S_int8 n \<Rightarrow> Some (sint n)
      | S_uint8 n \<Rightarrow> Some (uint n)
      | S_int16 n \<Rightarrow> Some (sint n)
      | S_uint16 n \<Rightarrow> Some (uint n)
      | S_int32 n \<Rightarrow> Some (sint n)
      | S_uint32 n \<Rightarrow> Some (uint n)
      | S_int64 n \<Rightarrow> Some (sint n)
      | S_uint64 n \<Rightarrow> Some (uint n)
      | S_float32 f \<Rightarrow> None
      | S_float64 d \<Rightarrow> None))"

definition out_of_field :: std_error where
  "out_of_field = Runtime_error ''Decoded value is outside its ROS integer field range''"

definition checked_ros_exact :: "bool \<Rightarrow> nat \<Rightarrow> int \<Rightarrow> std_error + int" where
  "checked_ros_exact is_signed digits value =
     (if value < (if is_signed then - (2 ^ digits) else 0) \<or> 2 ^ digits - 1 < value then Inl out_of_field
      else Inr value)"

definition write_integer :: "message_member \<Rightarrow> int \<Rightarrow> std_error + scalar_value" where
  "write_integer member value =
     (case mm_type member of
        ROS_TYPE_BOOL \<Rightarrow> Inr (S_bool (value \<noteq> 0))
      | ROS_TYPE_INT8 \<Rightarrow> to_scalar S_int8 (checked_ros_exact True 7 value)
      | ROS_TYPE_UINT8 \<Rightarrow> to_scalar S_uint8 (checked_ros_exact False 8 value)
      | ROS_TYPE_INT16 \<Rightarrow> to_scalar S_int16 (checked_ros_exact True 15 value)
      | ROS_TYPE_UINT16 \<Rightarrow> to_scalar S_uint16 (checked_ros_exact False 16 value)
      | ROS_TYPE_INT32 \<Rightarrow> to_scalar S_int32 (checked_ros_exact True 31 value)
      | ROS_TYPE_UINT32 \<Rightarrow> to_scalar S_uint32 (checked_ros_exact False 32 value)
      | ROS_TYPE_INT64 \<Rightarrow> to_scalar S_int64 (checked_ros_exact True 63 value)
      | ROS_TYPE_UINT64 \<Rightarrow> to_scalar S_uint64 (checked_ros_exact False 64 value)
      | ROS_TYPE_FLOAT \<Rightarrow> Inr (S_float32 (float_of_int value))
      | ROS_TYPE_DOUBLE \<Rightarrow> Inr (S_float64 (double_of_int value))
      | _ \<Rightarrow> Inl unsupported_leaf)"

definition checked_ros_integer :: "bool \<Rightarrow> nat \<Rightarrow> fp \<Rightarrow> std_error + int" where
  "checked_ros_integer is_signed digits value =
     (case value of
        Fp_num negative x \<Rightarrow>
          let rounded = fp_round_away value; upper = Fp_num False (2 ^ digits);
              lower = (if is_signed then Fp_num True (2 ^ digits) else Fp_num False 0)
          in if fp_less rounded lower \<or> \<not> fp_less rounded upper then Inl out_of_field
             else Inr (\<lfloor>fp_signed negative (of_int \<lfloor>x + 1 / 2\<rfloor>)\<rfloor>)
      | _ \<Rightarrow> Inl (Runtime_error ''Cannot assign a non-finite value to a ROS integer field''))"

definition write_numeric :: "message_member \<Rightarrow> double \<Rightarrow> std_error + scalar_value" where
  "write_numeric member d =
     (let value = double_value d in
      case mm_type member of
        ROS_TYPE_BOOL \<Rightarrow> Inr (S_bool (\<not> fp_is_zero value))
      | ROS_TYPE_INT8 \<Rightarrow> to_scalar S_int8 (checked_ros_integer True 7 value)
      | ROS_TYPE_UINT8 \<Rightarrow> to_scalar S_uint8 (checked_ros_integer False 8 value)
      | ROS_TYPE_INT16 \<Rightarrow> to_scalar S_int16 (checked_ros_integer True 15 value)
      | ROS_TYPE_UINT16 \<Rightarrow> to_scalar S_uint16 (checked_ros_integer False 16 value)
      | ROS_TYPE_INT32 \<Rightarrow> to_scalar S_int32 (checked_ros_integer True 31 value)
      | ROS_TYPE_UINT32 \<Rightarrow> to_scalar S_uint32 (checked_ros_integer False 32 value)
      | ROS_TYPE_INT64 \<Rightarrow> to_scalar S_int64 (checked_ros_integer True 63 value)
      | ROS_TYPE_UINT64 \<Rightarrow> to_scalar S_uint64 (checked_ros_integer False 64 value)
      | ROS_TYPE_FLOAT \<Rightarrow> Inr (S_float32 (float_of_double d))
      | ROS_TYPE_DOUBLE \<Rightarrow> Inr (S_float64 d)
      | _ \<Rightarrow> Inl unsupported_leaf)"

text \<open>The store through the pointer, after the value passed its check.\<close>

definition store :: "place_step list \<Rightarrow> std_error + scalar_value \<Rightarrow> ros_value \<Rightarrow> ros_value outcome" where
  "store place result message = out_then (Some result) (\<lambda>s. update_at place (\<lambda>_. Some (Inr (Scalar s))) message)"

section \<open>Expressions over a message\<close>

definition read_expression_field :: "message_members \<Rightarrow> ros_value \<Rightarrow> string \<Rightarrow> std_error + double" where
  "read_expression_field members message path =
     sum_then (parse_member_path path) (\<lambda>segs.
       sum_then (resolve_leaf_member members message segs) (\<lambda>(member, v). read_numeric member v))"

definition read_expression_integer_field :: "message_members \<Rightarrow> ros_value \<Rightarrow> string \<Rightarrow> std_error + int option" where
  "read_expression_integer_field members message path =
     sum_then (parse_member_path path) (\<lambda>segs.
       sum_then (resolve_leaf_member members message segs) (\<lambda>(member, v). read_integer member v))"

definition write_expression_field :: "message_members \<Rightarrow> ros_value \<Rightarrow> string \<Rightarrow> double \<Rightarrow> ros_value outcome" where
  "write_expression_field members message path value =
     out_then (Some (parse_member_path path)) (\<lambda>segs.
       out_then (resolve_leaf_member_mutable members message segs) (\<lambda>(member, place, message).
         store place (write_numeric member value) message))"

definition write_expression_integer_field :: "message_members \<Rightarrow> ros_value \<Rightarrow> string \<Rightarrow> int \<Rightarrow> ros_value outcome" where
  "write_expression_integer_field members message path value =
     out_then (Some (parse_member_path path)) (\<lambda>segs.
       out_then (resolve_leaf_member_mutable members message segs) (\<lambda>(member, place, message).
         store place (write_integer member value) message))"

section \<open>Encoding\<close>

text \<open>What the type support libraries of a message type provide: its members, an initialised
  message and the ROS serialisation.\<close>

record message_support =
  su_members :: message_members
  su_initial :: ros_value
  su_deserialize :: "u8 list \<Rightarrow> std_error + ros_value"
  su_serialize :: "ros_value \<Rightarrow> std_error + u8 list"

text \<open>The wire scalar of one leaf.\<close>

definition encode_leaf :: "bridge_member_spec \<Rightarrow> message_member \<times> ros_value \<Rightarrow> std_error + (scalar_value \<times> bridge_member_spec) list" where
  "encode_leaf spec binding =
     (case binding of (member, v) \<Rightarrow>
        sum_then (read_integer member v) (\<lambda>exact.
          sum_then (case exact of
              Some n \<Rightarrow> coerce_outgoing_integer n spec
            | None \<Rightarrow> sum_then (read_numeric member v) (\<lambda>d. coerce_outgoing d spec)) (\<lambda>s. Inr [(s, spec)])))"

definition encode_spec ::
    "libm \<Rightarrow> message_members \<Rightarrow> ros_value \<Rightarrow> bridge_member_spec \<Rightarrow> (scalar_value \<times> bridge_member_spec) list outcome" where
  "encode_spec m members message spec =
     (if ms_expression spec \<noteq> [] then
        out_then (try_evaluate_integer_expression (ms_expression spec) (read_expression_integer_field members message)) (\<lambda>exact.
          case exact of
            Some n \<Rightarrow> out_then (Some (coerce_outgoing_integer n spec)) (\<lambda>s. Some (Inr [(s, spec)]))
          | None \<Rightarrow> out_then (evaluate_math_expression m (ms_expression spec) (read_expression_field members message)) (\<lambda>d.
              out_then (Some (coerce_outgoing d spec)) (\<lambda>s. Some (Inr [(s, spec)]))))
      else Some (sum_then (parse_member_path (ms_target spec)) (\<lambda>path.
        sum_then (collect_const_leaf_bindings members message path) (gather (encode_leaf spec)))))"

fun encode_specs ::
    "libm \<Rightarrow> message_members \<Rightarrow> ros_value \<Rightarrow> bridge_member_spec list \<Rightarrow> (scalar_value \<times> bridge_member_spec) list outcome" where
  "encode_specs m members message [] = Some (Inr [])"
| "encode_specs m members message (spec # specs) =
     out_then (encode_spec m members message spec) (\<lambda>vs.
       out_then (encode_specs m members message specs) (\<lambda>ws. Some (Inr (vs @ ws))))"

definition encode_payload ::
    "libm \<Rightarrow> message_support \<Rightarrow> u8 list \<Rightarrow> bridge_member_spec list \<Rightarrow> string \<Rightarrow> u8 list outcome" where
  "encode_payload m su serialized specs format =
     (if format = ''ros2'' \<or> specs = [] then Some (Inr serialized)
      else out_then (Some (su_deserialize su serialized)) (\<lambda>message.
        out_then (encode_specs m (su_members su) message specs) (\<lambda>pairs.
          encode_struct_payload (map fst pairs) (map snd pairs))))"

section \<open>Decoding\<close>

text \<open>The byte count of the members of known size (\<open>size_t\<close>, it wraps), and the index and wire size
  of the open-ended member.\<close>

record payload_layout =
  ly_fixed_bytes :: nat
  ly_dynamic :: "(nat \<times> nat) option"

definition no_layout :: payload_layout where
  "no_layout = \<lparr>ly_fixed_bytes = 0, ly_dynamic = None\<rparr>"

definition binding_count :: "message_members \<Rightarrow> bridge_member_spec \<Rightarrow> std_error + nat" where
  "binding_count members spec =
     (if ms_expression spec = []
      then sum_then (parse_member_path (ms_target spec)) (selection_count_for_path members) else Inr 1)"

definition measure_spec ::
    "message_members \<Rightarrow> nat \<Rightarrow> bridge_member_spec \<Rightarrow> payload_layout \<Rightarrow> std_error + payload_layout" where
  "measure_spec members i spec ly =
     sum_then (binding_count members spec) (\<lambda>n.
       if n = kDynamicBindingCount then
         (case ly_dynamic ly of
            Some d \<Rightarrow>
              Inl (Runtime_error ''At most one open-ended dynamic array member may be decoded per bridge payload'')
          | None \<Rightarrow> Inr (ly\<lparr>ly_dynamic := Some (i, member_wire_size spec)\<rparr>))
       else Inr (ly\<lparr>ly_fixed_bytes := size_t_of (ly_fixed_bytes ly + n * member_wire_size spec)\<rparr>))"

fun measure_specs :: "message_members \<Rightarrow> nat \<Rightarrow> bridge_member_spec list \<Rightarrow> payload_layout \<Rightarrow> std_error + payload_layout" where
  "measure_specs members i [] ly = Inr ly"
| "measure_specs members i (spec # specs) ly =
     sum_then (measure_spec members i spec ly) (measure_specs members (Suc i) specs)"

definition dynamic_binding_count :: "payload_layout \<Rightarrow> nat \<Rightarrow> std_error + nat option" where
  "dynamic_binding_count ly payload_size =
     (case ly_dynamic ly of
        Some (i, value_size) \<Rightarrow>
          if payload_size < ly_fixed_bytes ly
          then Inl (Runtime_error ''Payload is shorter than the fixed-width bridge mapping requires'')
          else if value_size = 0 \<or> (payload_size - ly_fixed_bytes ly) mod value_size \<noteq> 0
          then Inl (Runtime_error ''Payload len does not align with the open-ended array bridge mapping'')
          else Inr (Some ((payload_size - ly_fixed_bytes ly) div value_size))
      | None \<Rightarrow>
          if payload_size \<noteq> ly_fixed_bytes ly
          then Inl (Runtime_error ''Payload len does not match the configured bridge mapping'')
          else Inr None)"

type_synonym flat_binding = "bridge_member_spec \<times> leaf_binding option"

text \<open>Binds the specs from index \<open>i\<close> on; the open-ended one gets the number of its elements.\<close>

fun bind_specs :: "message_members \<Rightarrow> (nat \<times> nat) option \<Rightarrow> nat \<Rightarrow> bridge_member_spec list \<Rightarrow> ros_value \<Rightarrow>
    std_error + flat_binding list \<times> ros_value" where
  "bind_specs members dynamic i [] message = Inr ([], message)"
| "bind_specs members dynamic i (spec # specs) message =
     sum_then (if ms_expression spec \<noteq> [] then Inr ([(spec, None)], message)
       else sum_then (parse_member_path (ms_target spec)) (\<lambda>path.
         sum_then (collect_mutable_leaf_bindings members message path
             (case dynamic of Some (j, n) \<Rightarrow> if j = i then Some n else None | None \<Rightarrow> None)) (\<lambda>(bs, message).
           Inr (map (\<lambda>b. (spec, Some b)) bs, message)))) (\<lambda>(fs, message).
       sum_then (bind_specs members dynamic (Suc i) specs message) (\<lambda>(gs, message). Inr (fs @ gs, message)))"

record decoded_members =
  de_names :: "string \<rightharpoonup> double"
  de_integers :: "string \<rightharpoonup> int"

definition emplace :: "'k \<Rightarrow> 'v \<Rightarrow> ('k \<rightharpoonup> 'v) \<Rightarrow> ('k \<rightharpoonup> 'v)" where
  "emplace k v m = (if m k = None then m(k \<mapsto> v) else m)"

text \<open>Notes every decoded scalar under the name of its member (the first of a name stays) and writes
  it through its binding.\<close>

fun store_decoded :: "(scalar_value \<times> flat_binding) list \<Rightarrow> decoded_members \<Rightarrow> ros_value \<Rightarrow>
    (decoded_members \<times> ros_value) outcome" where
  "store_decoded [] de message = Some (Inr (de, message))"
| "store_decoded ((s, spec, binding) # rest) de message =
     (let de = de\<lparr>de_names := emplace (ms_target spec) (coerce_incoming s spec) (de_names de)\<rparr>;
          exact = coerce_incoming_integer s;
          de = (case exact of
                  Some n \<Rightarrow> de\<lparr>de_integers := emplace (ms_target spec) n (de_integers de)\<rparr> | None \<Rightarrow> de)
      in case binding of
           None \<Rightarrow> store_decoded rest de message
         | Some (member, place) \<Rightarrow>
             out_then (store place
                 (case exact of
                    Some n \<Rightarrow> write_integer member n
                  | None \<Rightarrow> write_numeric member (coerce_incoming s spec)) message)
               (store_decoded rest de))"

definition resolve_decoded_integer :: "decoded_members \<Rightarrow> string \<Rightarrow> std_error + int option" where
  "resolve_decoded_integer de name =
     (case de_integers de name of
        Some n \<Rightarrow> Inr (Some n)
      | None \<Rightarrow> if de_names de name = None then Inl (Runtime_error (''Unknown decoded member: '' @ name)) else Inr None)"

definition resolve_decoded :: "decoded_members \<Rightarrow> string \<Rightarrow> std_error + double" where
  "resolve_decoded de name =
     (case de_names de name of
        None \<Rightarrow> Inl (Runtime_error (''Unknown decoded member: '' @ name))
      | Some d \<Rightarrow> Inr d)"

fun run_assignments ::
    "libm \<Rightarrow> message_members \<Rightarrow> decoded_members \<Rightarrow> bridge_assignment_spec list \<Rightarrow> ros_value \<Rightarrow> ros_value outcome" where
  "run_assignments m members de [] message = Some (Inr message)"
| "run_assignments m members de (a # as) message =
     out_then (try_evaluate_integer_expression (as_expression a) (resolve_decoded_integer de)) (\<lambda>exact.
       out_then (case exact of
           Some n \<Rightarrow> write_expression_integer_field members message (as_target a) n
         | None \<Rightarrow> out_then (evaluate_math_expression m (as_expression a) (resolve_decoded de)) (\<lambda>d.
             write_expression_field members message (as_target a) d))
         (run_assignments m members de as))"

text \<open>The message before it is serialised.\<close>

definition decode_message ::
    "libm \<Rightarrow> message_support \<Rightarrow> u8 list \<Rightarrow> bridge_member_spec list \<Rightarrow> bridge_assignment_spec list \<Rightarrow> ros_value outcome" where
  "decode_message m su payload specs assignments =
     out_then (Some (measure_specs (su_members su) 0 specs no_layout)) (\<lambda>ly.
       out_then (Some (dynamic_binding_count ly (length payload))) (\<lambda>dynamic_count.
         out_then (Some (bind_specs (su_members su)
             (case (ly_dynamic ly, dynamic_count) of (Some (i, len), Some n) \<Rightarrow> Some (i, n) | _ \<Rightarrow> None)
             0 specs (su_initial su))) (\<lambda>(flat, message).
           out_then (Some (decode_struct_payload payload (map fst flat))) (\<lambda>values.
             out_then (store_decoded (zip values flat) \<lparr>de_names = Map.empty, de_integers = Map.empty\<rparr> message)
               (\<lambda>(de, message). run_assignments m (su_members su) de assignments message)))))"

definition decode_payload ::
    "libm \<Rightarrow> message_support \<Rightarrow> u8 list \<Rightarrow> bridge_member_spec list \<Rightarrow> string \<Rightarrow> bridge_assignment_spec list \<Rightarrow>
     u8 list outcome" where
  "decode_payload m su payload specs format assignments =
     (if format = ''ros2'' \<or> specs = [] then Some (Inr payload)
      else out_then (decode_message m su payload specs assignments) (\<lambda>message. Some (su_serialize su message)))"

end
