(* ===== verification/Message_Counts.thy ===== *)
theory Message_Counts
  imports Message_Bridge Member_Path_Correct Payload_Correct
begin

text \<open>
  Encoder and decoder of a message bridge agree on the number of leaves a member path selects, and so
  on the size of a payload.
\<close>

section \<open>The shape of a message\<close>

text \<open>A value has the shape of its type support: one value per member, arrays of their declared size (which
  is below 2^31), scalars of the declared type, and new elements of sequences that have the shape as well.\<close>

inductive shaped :: "message_members \<Rightarrow> ros_value \<Rightarrow> bool"
  and shaped_field :: "message_member \<Rightarrow> ros_value \<Rightarrow> bool"
  and shaped_cell :: "message_member \<Rightarrow> ros_value \<Rightarrow> bool" where
  whole: "list_all2 shaped_field members fs \<Longrightarrow> shaped members (Message fs)"
| single: "mm_array m = Not_array \<Longrightarrow> shaped_cell m v \<Longrightarrow> shaped_field m v"
| fixed: "mm_array m = Fixed_array (length xs) \<Longrightarrow> length xs < 2 ^ 31 \<Longrightarrow> list_all (shaped_cell m) xs \<Longrightarrow> shaped_field m (Elements xs)"
| sequence: "mm_array m = Dynamic_array bound \<Longrightarrow> list_all (shaped_cell m) xs \<Longrightarrow> shaped_cell m (mm_new_element m) \<Longrightarrow>
    shaped_field m (Elements xs)"
| nested: "mm_type m = ROS_TYPE_MESSAGE \<Longrightarrow> (\<And>members. mm_members m = Some members \<Longrightarrow> shaped members v) \<Longrightarrow> shaped_cell m v"
| scalar: "mm_type m = scalar_kind s \<Longrightarrow> shaped_cell m (Scalar s)"
| other: "mm_type m = ROS_TYPE_OTHER n \<Longrightarrow> shaped_cell m v"

inductive_cases shapedE: "shaped members v"
inductive_cases shaped_fieldE: "shaped_field m v"
inductive_cases shaped_cellE: "shaped_cell m v"

lemma find_first_Some: "find_first P xs = Some i \<Longrightarrow> i < length xs \<and> P (xs ! i)"
  by (induction xs arbitrary: i) (auto split: if_splits)

lemma find_member_Inr: "find_member members name = Inr (i, m) \<Longrightarrow> i < length members \<and> m = members ! i"
  by (auto simp: find_member_def dest: find_first_Some split: option.splits)

lemma field_at_Inr: "field_at v i = Inr w \<longleftrightarrow> (\<exists>fs. v = Message fs \<and> i < length fs \<and> w = fs ! i)"
  by (auto simp: field_at_def split: ros_value.splits)

lemma element_at_Inr: "element_at v i = Inr w \<longleftrightarrow> (\<exists>xs. v = Elements xs \<and> i < length xs \<and> w = xs ! i)"
  by (auto simp: element_at_def split: ros_value.splits)

lemma shaped_field_at:
  "shaped members v \<Longrightarrow> find_member members name = Inr (i, m) \<Longrightarrow> field_at v i = Inr w \<Longrightarrow> shaped_field m w"
  by (auto elim!: shapedE dest!: find_member_Inr simp: field_at_Inr list_all2_conv_all_nth)

lemma shaped_single: "shaped_field m v \<Longrightarrow> mm_array m = Not_array \<Longrightarrow> shaped_cell m v"
  by (auto elim: shaped_fieldE)

lemma shaped_array:
  "shaped_field m v \<Longrightarrow> mm_array m \<noteq> Not_array \<Longrightarrow> \<exists>xs. v = Elements xs \<and> list_all (shaped_cell m) xs \<and>
    (\<not> is_dynamic_array_member m \<longrightarrow> fixed_array_size m = length xs \<and> length xs < 2 ^ 31) \<and>
    (is_dynamic_array_member m \<longrightarrow> shaped_cell m (mm_new_element m))"
  by (auto elim!: shaped_fieldE simp: is_dynamic_array_member_def fixed_array_size_def)

lemma shaped_nested:
  "shaped_cell m v \<Longrightarrow> mm_type m = ROS_TYPE_MESSAGE \<Longrightarrow> get_nested_members m = Inr members \<Longrightarrow> shaped members v"
  by (auto elim!: shaped_cellE simp: get_nested_members_def split: option.splits) (metis scalar_kind.simps ros_type.simps scalar_value.exhaust)+

section \<open>Selected indices\<close>

lemma indices_from_count:
  "0 < step \<Longrightarrow> indices_from start stop step = map (\<lambda>k. start + k * step) [0..<count_range start stop step]"
proof (induction start stop step rule: indices_from.induct)
  case (1 start stop step)
  show ?case
  proof (cases "stop \<le> start")
    case True
    then show ?thesis by (subst indices_from.simps) (simp add: count_range_def)
  next
    case False
    have count: "count_range start stop step = Suc (count_range (start + step) stop step)"
    proof (cases "stop \<le> start + step")
      case True
      then have "(stop - start - 1) div step = 0" using False by (intro div_less) linarith
      with True False show ?thesis by (simp add: count_range_def)
    next
      case larger: False
      then have "stop - start - 1 = (stop - (start + step) - 1) + step" by linarith
      then have "(stop - start - 1) div step = Suc ((stop - (start + step) - 1) div step)"
        using 1(2) by (metis div_add_self2 Suc_eq_plus1 less_not_refl)
      with larger False show ?thesis by (simp add: count_range_def)
    qed
    have "indices_from start stop step = start # indices_from (start + step) stop step"
      using False 1(2) by (subst indices_from.simps) simp
    also have "\<dots> = start # map (\<lambda>k. (start + step) + k * step) [0..<count_range (start + step) stop step]"
      using False 1 by simp
    also have "\<dots> = map (\<lambda>k. start + k * step) [0..<count_range start stop step]"
      unfolding count by (subst upt_conv_Cons) (auto simp: map_Suc_upt [symmetric] simp del: upt_Suc)
    finally show ?thesis .
  qed
qed

lemma length_indices_from: "0 < step \<Longrightarrow> length (indices_from start stop step) = count_range start stop step"
  by (simp add: indices_from_count)

lemma size_as_int_small:
  assumes "n < 2 ^ 31"
  shows "size_as_int n = n"
proof -
  have "sint (word_of_nat n :: 32 word) = int n"
    using assms by (simp add: signed_of_nat signed_take_bit_int_eq_self)
  then have "(scast (word_of_nat n :: 32 word) :: 64 word) = word_of_nat n"
    by (metis scast_eq of_int_of_nat_eq)
  then show ?thesis using assms by (simp add: size_as_int_def unat_of_nat)
qed

definition open_segment :: "message_member \<Rightarrow> path_segment \<Rightarrow> bool" where
  "open_segment member seg \<longleftrightarrow> is_dynamic_array_member member \<and> sg_index seg < 0 \<and>
     (sg_has_slice seg \<longrightarrow> sg_slice_stop seg = None)"

lemma segment_step: "segment_ok seg \<Longrightarrow> sg_has_slice seg \<Longrightarrow> 0 < nat (sg_slice_step seg)"
  by (simp add: segment_ok_def)

lemma array_size_Elements [simp]: "array_size member (Elements xs) = length xs"
  by (simp add: array_size_def)

text \<open>One segment: the count before any message is there, against the indices in the message.\<close>

lemma selected_const:
  assumes "selected_count member seg is_last = Inr n" "select_indices_const member seg is_last field = Inr is"
    and "shaped_field member field" "mm_array member \<noteq> Not_array" "segment_ok seg"
  shows "if is_last \<and> open_segment member seg then n = kDynamicBindingCount else n = length is"
proof -
  obtain xs where xs: "field = Elements xs" "\<not> is_dynamic_array_member member \<longrightarrow> fixed_array_size member = length xs \<and> length xs < 2 ^ 31"
    using shaped_array [OF assms(3,4)] by blast
  show ?thesis
    using assms(1,2) xs segment_step [OF assms(5)]
    by (auto simp: selected_count_def select_indices_const_def Let_def open_segment_def length_indices_from
        size_as_int_small split: if_splits option.splits)
qed

lemma selected_mutable:
  assumes "selected_count member seg is_last = Inr n"
    and "select_indices_mutable member seg is_last field dynamic_count = Inr (is, field')"
    and "shaped_field member field" "mm_array member \<noteq> Not_array" "segment_ok seg"
  shows "if is_last \<and> open_segment member seg
    then n = kDynamicBindingCount \<and> (\<forall>k. dynamic_count = Some k \<longrightarrow> length is = k)
    else (dynamic_count = None \<longrightarrow> n = length is)"
proof -
  obtain xs where xs: "field = Elements xs" "\<not> is_dynamic_array_member member \<longrightarrow> fixed_array_size member = length xs \<and> length xs < 2 ^ 31"
    using shaped_array [OF assms(3,4)] by blast
  show ?thesis
    using assms(1,2) xs segment_step [OF assms(5)]
    by (auto simp: selected_count_def select_indices_mutable_def Let_def open_segment_def length_indices_from
        sum_then_Inr split: if_splits option.splits)
qed

section \<open>Growing keeps the shape\<close>

lemma ensure_size_cases:
  assumes "ensure_size member seg n field = Inr field'"
  shows "field' = field \<and> n \<le> array_size member field \<or>
    (\<exists>xs. is_dynamic_array_member member \<and> field = Elements xs \<and> length xs < n \<and>
      field' = Elements (xs @ replicate (n - length xs) (mm_new_element member)))"
  using assms by (auto simp: ensure_size_def is_dynamic_array_member_def split: if_splits array_kind.splits ros_value.splits)

lemma shaped_grow: "shaped_field m (Elements xs) \<Longrightarrow> is_dynamic_array_member m \<Longrightarrow>
    shaped_field m (Elements (xs @ replicate n (mm_new_element m)))"
  by (auto elim!: shaped_fieldE simp: is_dynamic_array_member_def list_all_iff intro!: sequence split: array_kind.splits)

lemma shaped_ensure: "ensure_size member seg n field = Inr field' \<Longrightarrow> shaped_field member field \<Longrightarrow> shaped_field member field'"
  by (drule ensure_size_cases) (auto intro: shaped_grow)

lemma shaped_selected: "select_indices_mutable member seg is_last field dynamic_count = Inr (is, field') \<Longrightarrow>
    shaped_field member field \<Longrightarrow> shaped_field member field'"
  by (auto simp: select_indices_mutable_def Let_def sum_then_Inr intro: shaped_ensure split: if_splits option.splits)

lemma shaped_put_field: "shaped members v \<Longrightarrow> find_member members name = Inr (i, m) \<Longrightarrow> shaped_field m w \<Longrightarrow>
    shaped members (put_field i w v)"
  by (auto elim!: shapedE dest!: find_member_Inr simp: put_field_def intro!: whole
      simp: list_all2_conv_all_nth nth_list_update)

lemma shaped_element: "shaped_field m field \<Longrightarrow> mm_array m \<noteq> Not_array \<Longrightarrow> element_at field i = Inr w \<Longrightarrow> shaped_cell m w"
  by (drule (1) shaped_array) (auto simp: element_at_Inr list_all_length)

lemma shaped_put_element:
  assumes "shaped_field m field" "mm_array m \<noteq> Not_array" "shaped_cell m w"
  shows "shaped_field m (put_element i w field)"
proof -
  obtain xs where xs: "field = Elements xs" "list_all (shaped_cell m) xs" using shaped_array [OF assms(1,2)] by blast
  then have all: "list_all (shaped_cell m) (xs[i := w])"
    using assms(3) set_update_subset_insert [of xs i w] by (auto simp: list_all_iff)
  show ?thesis
    using assms(1,2) fixed [OF _ _ all] sequence [OF _ all] by (auto elim!: shaped_fieldE simp: xs put_element_def)
qed

lemmas shaped_updates = shaped_put_field shaped_put_element

section \<open>Whole paths\<close>

fun open_path :: "message_members \<Rightarrow> path_segment list \<Rightarrow> bool" where
  "open_path members [] = False"
| "open_path members (seg # path) =
     (case find_member members (sg_name seg) of
        Inl e \<Rightarrow> False
      | Inr (i, member) \<Rightarrow>
          if path = [] then mm_array member \<noteq> Not_array \<and> open_segment member seg
          else case get_nested_members member of Inl e \<Rightarrow> False | Inr nested \<Rightarrow> open_path nested path)"

lemma length_gather: "gather f xs = Inr ys \<Longrightarrow> (\<And>x zs. x \<in> set xs \<Longrightarrow> f x = Inr zs \<Longrightarrow> size_t_of (length zs) = size_t_of n) \<Longrightarrow>
    size_t_of (length ys) = size_t_of (length xs * n)"
proof (induction xs arbitrary: ys)
  case (Cons x xs)
  obtain zs ws where s: "f x = Inr zs" "gather f xs = Inr ws" "ys = zs @ ws"
    using Cons.prems(1) by (auto simp: sum_then_Inr)
  have "size_t_of (length zs) = size_t_of n" "size_t_of (length ws) = size_t_of (length xs * n)"
    using Cons s by auto
  then show ?case
    using size_t_add_cong [of "length zs" n "length ws" "length xs * n"] by (simp add: s)
qed simp

lemma open_count: "selection_count_for_path members path = Inr n \<Longrightarrow> open_path members path \<Longrightarrow> n = kDynamicBindingCount"
proof (induction path arbitrary: members n)
  case (Cons seg path)
  then show ?case
    by (auto simp: sum_then_Inr selected_count_def open_segment_def is_selector_present_def
        split: if_splits sum.splits prod.splits option.splits)
qed simp

lemma counted_const:
  assumes "selection_count_for_path members path = Inr n" "collect_const_leaf_bindings members v path = Inr bs"
    and "shaped members v" "list_all segment_ok path" "path \<noteq> []" "\<not> open_path members path"
  shows "size_t_of n = size_t_of (length bs)"
  using assms
proof (induction path arbitrary: members v n bs)
  case (Cons seg path)
  obtain i member where m: "find_member members (sg_name seg) = Inr (i, member)"
    using Cons.prems(1) by (auto simp: sum_then_Inr)
  have deeper: "size_t_of k = size_t_of (length cs)"
    if "get_nested_members member = Inr nested" "selection_count_for_path nested path = Inr k"
      "collect_const_leaf_bindings nested w path = Inr cs" "shaped_cell member w" "mm_type member = ROS_TYPE_MESSAGE"
      "path \<noteq> []" for nested k cs w
    using Cons.IH [OF that(2,3) shaped_nested [OF that(4,5,1)]] Cons.prems(4,6) that(1,6) m by simp
  obtain field where field: "field_at v i = Inr field"
    using Cons.prems(2) m by (auto simp: sum_then_Inr split: if_splits)
  note shape = shaped_field_at [OF Cons.prems(3) m field]
  show ?case
  proof (cases "mm_array member = Not_array \<and> path = []")
    case True
    then show ?thesis using Cons.prems(1,2) m field by (auto split: if_splits)
  next
    case more: False
    show ?thesis
    proof (cases "mm_array member = Not_array")
      case True
      with more obtain nested where "path \<noteq> []" "mm_type member = ROS_TYPE_MESSAGE" "get_nested_members member = Inr nested"
          "selection_count_for_path nested path = Inr n" "collect_const_leaf_bindings nested field path = Inr bs"
        using Cons.prems(1,2) m field by (auto simp: sum_then_Inr split: if_splits)
      then show ?thesis using deeper shaped_single [OF shape True] by blast
    next
      case False
      obtain k where k: "selected_count member seg (path = []) = Inr k"
        using Cons.prems(1) m False by (auto simp: sum_then_Inr split: if_splits)
      obtain js where js: "select_indices_const member seg (path = []) field = Inr js"
        using Cons.prems(2) m False field by (auto simp: sum_then_Inr)
      have "\<not> (path = [] \<and> open_segment member seg)" using Cons.prems(6) m False by auto
      then have here: "k = length js" using selected_const [OF k js shape False] Cons.prems(4) by simp
      show ?thesis
      proof (cases "path = []")
        case True
        have "size_t_of (length bs) = size_t_of (length js * 1)"
          using Cons.prems(2) m False field js True
          by (intro length_gather [of _ js]) (auto simp: sum_then_Inr split: if_splits)
        moreover have "n = k" using Cons.prems(1) m False k True by (auto split: if_splits)
        ultimately show ?thesis using here by simp
      next
        case inner: False
        obtain nested c where c: "mm_type member = ROS_TYPE_MESSAGE" "get_nested_members member = Inr nested"
            "selection_count_for_path nested path = Inr c" "n = size_t_of (k * c)"
          using Cons.prems(1) m False k inner by (auto simp: sum_then_Inr split: if_splits)
        let ?f = "\<lambda>index. if \<not> mm_accessors member
          then Inl (Runtime_error (''Array member lacks const accessor: '' @ sg_name seg))
          else sum_then (element_at field index) (\<lambda>w. collect_const_leaf_bindings nested w path)"
        have all: "gather ?f js = Inr bs"
          using Cons.prems(2) m False field js inner c(1,2) by (simp cong: if_cong)
        have "size_t_of (length bs) = size_t_of (length js * c)"
        proof (rule length_gather [OF all])
          fix x zs assume "?f x = Inr zs"
          then obtain w where "element_at field x = Inr w" "collect_const_leaf_bindings nested w path = Inr zs"
            by (auto simp: sum_then_Inr split: if_splits)
          then show "size_t_of (length zs) = size_t_of c"
            using deeper [OF c(2,3) _ _ c(1) inner] shaped_element [OF shape False] by simp
        qed
        then show ?thesis using here c(4) by simp
      qed
    qed
  qed
qed simp

lemma length_below [simp]: "length (below step bs) = length bs"
  by (simp add: below_def)

lemma gather_places_inv:
  assumes "gather_places f js field = Inr (bs, field')" "P field"
    and "\<And>x field cs field'. P field \<Longrightarrow> f x field = Inr (cs, field') \<Longrightarrow> P field'"
  shows "P field'"
  using assms(1,2)
proof (induction js arbitrary: field bs)
  case (Cons x js)
  then show ?case using assms(3) by (auto simp: sum_then_Inr split: prod.splits)
qed simp

lemma gather_places_count:
  assumes "gather_places f js field = Inr (bs, field')" "P field"
    and "\<And>x field cs field'. P field \<Longrightarrow> f x field = Inr (cs, field') \<Longrightarrow> P field' \<and> size_t_of (length cs) = size_t_of n"
  shows "size_t_of (length bs) = size_t_of (length js * n)"
  using assms(1,2)
proof (induction js arbitrary: field bs)
  case (Cons x js)
  obtain cs field1 ds where s: "f x field = Inr (cs, field1)" "gather_places f js field1 = Inr (ds, field')" "bs = cs @ ds"
    using Cons.prems(1) by (auto simp: sum_then_Inr split: prod.splits)
  have "P field1" "size_t_of (length cs) = size_t_of n" using assms(3) [OF Cons.prems(2) s(1)] by auto
  then have "size_t_of (length ds) = size_t_of (length js * n)" using Cons.IH [OF s(2)] by simp
  with \<open>size_t_of (length cs) = size_t_of n\<close> show ?case
    using size_t_add_cong [of "length cs" n "length ds" "length js * n"] by (simp add: s(3))
qed simp

text \<open>The two ways a mutable path goes on from a member.\<close>

lemma collect_single:
  assumes "collect_mutable_leaf_bindings members v (seg # path) dyn = Inr (bs, v')"
    and "find_member members (sg_name seg) = Inr (i, member)" "mm_array member = Not_array"
  shows "\<exists>field. field_at v i = Inr field \<and>
    (if path = [] then bs = [(member, [Field i])] \<and> v' = v
     else mm_type member = ROS_TYPE_MESSAGE \<and>
       (\<exists>nested cs field'. get_nested_members member = Inr nested \<and>
          collect_mutable_leaf_bindings nested field path dyn = Inr (cs, field') \<and>
          bs = below (Field i) cs \<and> v' = put_field i field' v))"
  using assms by (auto simp: sum_then_Inr split: if_splits prod.splits)

definition collect_element ::
    "message_member \<Rightarrow> path_segment \<Rightarrow> path_segment list \<Rightarrow> nat option \<Rightarrow> nat \<Rightarrow> ros_value \<Rightarrow>
     std_error + leaf_binding list \<times> ros_value" where
  "collect_element member seg path dyn index field =
     (if \<not> mm_accessors member
      then Inl (Runtime_error (''Array member lacks mutable accessor: '' @ sg_name seg))
      else sum_then (element_at field index) (\<lambda>element.
        if path = [] then Inr ([(member, [element_step member field index])], field)
        else if mm_type member \<noteq> ROS_TYPE_MESSAGE then Inl (not_message seg)
        else sum_then (get_nested_members member) (\<lambda>nested.
          sum_then (collect_mutable_leaf_bindings nested element path dyn) (\<lambda>(bs, element).
            Inr (below (element_step member field index) bs, put_element index element field)))))"

lemma collect_array:
  assumes "collect_mutable_leaf_bindings members v (seg # path) dyn = Inr (bs, v')"
    and "find_member members (sg_name seg) = Inr (i, member)" "mm_array member \<noteq> Not_array"
  shows "\<exists>field js field1 cs field2. field_at v i = Inr field \<and>
    select_indices_mutable member seg (path = []) field dyn = Inr (js, field1) \<and>
    gather_places (collect_element member seg path dyn) js field1 = Inr (cs, field2) \<and>
    bs = below (Field i) cs \<and> v' = put_field i field2 v"
  using assms by (auto simp: sum_then_Inr collect_element_def [abs_def] split: prod.splits)

lemma collect_element_Inr:
  assumes "collect_element member seg path dyn index field = Inr (bs, field')"
  shows "\<exists>element. element_at field index = Inr element \<and>
    (if path = [] then bs = [(member, [element_step member field index])] \<and> field' = field
     else mm_type member = ROS_TYPE_MESSAGE \<and>
       (\<exists>nested cs element'. get_nested_members member = Inr nested \<and>
          collect_mutable_leaf_bindings nested element path dyn = Inr (cs, element') \<and>
          bs = below (element_step member field index) cs \<and> field' = put_element index element' field))"
  using assms by (auto simp: collect_element_def sum_then_Inr split: if_splits prod.splits)

lemma shaped_message_cell: "mm_type m = ROS_TYPE_MESSAGE \<Longrightarrow> get_nested_members m = Inr ns \<Longrightarrow> shaped ns v \<Longrightarrow> shaped_cell m v"
  by (intro nested) (auto simp: get_nested_members_def split: option.splits)

lemma shaped_collect:
  "collect_mutable_leaf_bindings members v path dyn = Inr (bs, v') \<Longrightarrow> shaped members v \<Longrightarrow> shaped members v'"
proof (induction path arbitrary: members v bs v')
  case (Cons seg path)
  obtain i member where m: "find_member members (sg_name seg) = Inr (i, member)"
    using Cons.prems(1) by (auto simp: sum_then_Inr)
  show ?case
  proof (cases "mm_array member = Not_array")
    case True
    from collect_single [OF Cons.prems(1) m True] obtain field where field: "field_at v i = Inr field"
      and rest: "if path = [] then bs = [(member, [Field i])] \<and> v' = v
     else mm_type member = ROS_TYPE_MESSAGE \<and>
       (\<exists>nested cs field'. get_nested_members member = Inr nested \<and>
          collect_mutable_leaf_bindings nested field path dyn = Inr (cs, field') \<and>
          bs = below (Field i) cs \<and> v' = put_field i field' v)" by blast
    have cell: "shaped_cell member field"
      using shaped_single [OF shaped_field_at [OF Cons.prems(2) m field] True] .
    show ?thesis
    proof (cases "path = []")
      case inner: False
      with rest obtain nested cs field' where n: "mm_type member = ROS_TYPE_MESSAGE" "get_nested_members member = Inr nested"
        "collect_mutable_leaf_bindings nested field path dyn = Inr (cs, field')" "v' = put_field i field' v" by auto
      have "shaped_field member field'"
        using Cons.IH [OF n(3) shaped_nested [OF cell n(1,2)]] shaped_message_cell [OF n(1,2)] single [OF True] by blast
      then show ?thesis using shaped_put_field [OF Cons.prems(2) m] n(4) by simp
    qed (use rest Cons.prems in simp)
  next
    case False
    from collect_array [OF Cons.prems(1) m False] obtain field js field1 cs field2 where
      a: "field_at v i = Inr field" "select_indices_mutable member seg (path = []) field dyn = Inr (js, field1)"
        "gather_places (collect_element member seg path dyn) js field1 = Inr (cs, field2)" "v' = put_field i field2 v" by blast
    have "shaped_field member field1" using shaped_selected [OF a(2) shaped_field_at [OF Cons.prems(2) m a(1)]] .
    moreover have "shaped_field member g'"
      if g: "shaped_field member g" "collect_element member seg path dyn x g = Inr (ds, g')" for x g ds g'
    proof (cases "path = []")
      case True
      then show ?thesis using collect_element_Inr [OF g(2)] g(1) by auto
    next
      case inner: False
      with collect_element_Inr [OF g(2)] obtain w nested es w' where
        w: "element_at g x = Inr w" "mm_type member = ROS_TYPE_MESSAGE" "get_nested_members member = Inr nested"
          "collect_mutable_leaf_bindings nested w path dyn = Inr (es, w')" "g' = put_element x w' g" by auto
      have "shaped nested w" using shaped_nested [OF shaped_element [OF g(1) False w(1)] w(2,3)] .
      then have "shaped_cell member w'" using Cons.IH [OF w(4)] shaped_message_cell [OF w(2,3)] by blast
      then show ?thesis using shaped_put_element [OF g(1) False] w(5) by simp
    qed
    ultimately have "shaped_field member field2"
      using gather_places_inv [OF a(3), of "shaped_field member"] by blast
    then show ?thesis using shaped_put_field [OF Cons.prems(2) m] a(4) by simp
  qed
qed simp

lemma counted_mutable:
  assumes "selection_count_for_path members path = Inr n" "collect_mutable_leaf_bindings members v path dyn = Inr (bs, v')"
    and "shaped members v" "list_all segment_ok path" "path \<noteq> []"
  shows "if open_path members path then (\<forall>k. dyn = Some k \<longrightarrow> length bs = k)
    else (dyn = None \<longrightarrow> size_t_of n = size_t_of (length bs))"
  using assms
proof (induction path arbitrary: members v n bs v')
  case (Cons seg path)
  obtain i member where m: "find_member members (sg_name seg) = Inr (i, member)"
    using Cons.prems(1) by (auto simp: sum_then_Inr)
  have deeper: "if open_path nested path then (\<forall>k. dyn = Some k \<longrightarrow> length cs = k)
      else (dyn = None \<longrightarrow> size_t_of c = size_t_of (length cs))"
    if "get_nested_members member = Inr nested" "selection_count_for_path nested path = Inr c"
      "collect_mutable_leaf_bindings nested w path dyn = Inr (cs, w')" "shaped_cell member w" "mm_type member = ROS_TYPE_MESSAGE"
      "path \<noteq> []" for nested c cs w w'
    using Cons.IH [OF that(2,3) shaped_nested [OF that(4,5,1)]] Cons.prems(4) that(6) by simp
  show ?case
  proof (cases "mm_array member = Not_array")
    case True
    from collect_single [OF Cons.prems(2) m True] obtain field where field: "field_at v i = Inr field"
      and rest: "if path = [] then bs = [(member, [Field i])] \<and> v' = v
     else mm_type member = ROS_TYPE_MESSAGE \<and>
       (\<exists>nested cs field'. get_nested_members member = Inr nested \<and>
          collect_mutable_leaf_bindings nested field path dyn = Inr (cs, field') \<and>
          bs = below (Field i) cs \<and> v' = put_field i field' v)" by blast
    have cell: "shaped_cell member field"
      using shaped_single [OF shaped_field_at [OF Cons.prems(3) m field] True] .
    show ?thesis
    proof (cases "path = []")
      case True
      then show ?thesis using rest Cons.prems(1) m \<open>mm_array member = Not_array\<close> by (auto split: if_splits)
    next
      case inner: False
      with rest obtain nested cs field' where n: "mm_type member = ROS_TYPE_MESSAGE" "get_nested_members member = Inr nested"
        "collect_mutable_leaf_bindings nested field path dyn = Inr (cs, field')" "length bs = length cs" by auto
      have "selection_count_for_path nested path = Inr n"
        using Cons.prems(1) m True inner n by (auto split: if_splits)
      from deeper [OF n(2) this n(3) cell n(1) inner] show ?thesis
        using m inner n(2,4) by (cases "open_path nested path") simp_all
    qed
  next
    case False
    from collect_array [OF Cons.prems(2) m False] obtain field js field1 cs field2 where
      a: "field_at v i = Inr field" "select_indices_mutable member seg (path = []) field dyn = Inr (js, field1)"
        "gather_places (collect_element member seg path dyn) js field1 = Inr (cs, field2)" "length bs = length cs"
      using length_below by metis
    note shape = shaped_field_at [OF Cons.prems(3) m a(1)]
    obtain k where k: "selected_count member seg (path = []) = Inr k"
      using Cons.prems(1) m False by (auto simp: sum_then_Inr split: if_splits)
    have here: "if path = [] \<and> open_segment member seg
      then k = kDynamicBindingCount \<and> (\<forall>c. dyn = Some c \<longrightarrow> length js = c) else (dyn = None \<longrightarrow> k = length js)"
      using selected_mutable [OF k a(2) shape False] Cons.prems(4) by simp
    show ?thesis
    proof (cases "path = []")
      case True
      have one: "length ds = 1" if "collect_element member seg path dyn x g = Inr (ds, g')" for x g ds g'
        using collect_element_Inr [OF that] True by auto
      have "length cs = length js"
        using a(3) by (induction js arbitrary: field1 cs) (auto simp: sum_then_Inr dest!: one split: prod.splits)
      moreover have "n = k" using Cons.prems(1) m False k True by (auto split: if_splits)
      ultimately show ?thesis using here True m False a(4) by simp
    next
      case inner: False
      obtain nested c where c: "mm_type member = ROS_TYPE_MESSAGE" "get_nested_members member = Inr nested"
          "selection_count_for_path nested path = Inr c" "n = size_t_of (k * c)" "c \<noteq> kDynamicBindingCount"
        using Cons.prems(1) m False k inner by (auto simp: sum_then_Inr split: if_splits)
      have closed: "\<not> open_path nested path" using open_count [OF c(3)] c(5) by blast
      have "dyn = None \<longrightarrow> size_t_of (length cs) = size_t_of (length js * c)"
      proof
        assume none: "dyn = None"
        show "size_t_of (length cs) = size_t_of (length js * c)"
        proof (rule gather_places_count [OF a(3), of "shaped_field member"])
          show "shaped_field member field1" using shaped_selected [OF a(2) shape] .
          fix x g ds g'
          assume g: "shaped_field member g" "collect_element member seg path dyn x g = Inr (ds, g')"
          obtain w es w' where w: "element_at g x = Inr w" "collect_mutable_leaf_bindings nested w path dyn = Inr (es, w')"
            "length ds = length es" "g' = put_element x w' g"
            using collect_element_Inr [OF g(2)] inner c(2) by auto
          note cell = shaped_element [OF g(1) False w(1)]
          have "shaped_cell member w'"
            using shaped_collect [OF w(2) shaped_nested [OF cell c(1,2)]] shaped_message_cell [OF c(1,2)] by blast
          then show "shaped_field member g' \<and> size_t_of (length ds) = size_t_of c"
            using deeper [OF c(2,3) w(2) cell c(1) inner] closed none shaped_put_element [OF g(1) False] w(3,4) by simp
        qed
      qed
      then show ?thesis using here inner closed m c(2,4) a(4) by simp
    qed
  qed
qed simp

section \<open>Payload sizes\<close>

text \<open>Only an open-ended member counts as one. (A closed path could reach the marker value by selecting
  2^64 - 1 leaves.)\<close>

definition open_spec :: "message_members \<Rightarrow> bridge_member_spec \<Rightarrow> bool" where
  "open_spec members spec \<longleftrightarrow> ms_expression spec = [] \<and>
     (case parse_member_path (ms_target spec) of Inl e \<Rightarrow> False | Inr path \<Rightarrow> open_path members path)"

definition count_ok :: "message_members \<Rightarrow> bridge_member_spec \<Rightarrow> bool" where
  "count_ok members spec \<longleftrightarrow> (binding_count members spec = Inr kDynamicBindingCount \<longrightarrow> open_spec members spec)"

lemma parsed_path: "parse_member_path target = Inr path \<Longrightarrow> list_all segment_ok path \<and> path \<noteq> []"
  using parse_segments_ok [of target path] by (auto simp: parse_member_path_def split: if_splits)

lemma measure_spec_cases:
  assumes "measure_spec members i spec ly = Inr ly'"
  obtains n where "binding_count members spec = Inr n" "n = kDynamicBindingCount" "ly_dynamic ly = None"
      "ly' = ly\<lparr>ly_dynamic := Some (i, member_wire_size spec)\<rparr>"
    | n where "binding_count members spec = Inr n" "n \<noteq> kDynamicBindingCount"
      "ly' = ly\<lparr>ly_fixed_bytes := size_t_of (ly_fixed_bytes ly + n * member_wire_size spec)\<rparr>"
  using assms unfolding measure_spec_def sum_then_Inr by (auto split: if_splits option.splits)

lemma measure_dynamic_set: "measure_specs members i specs ly = Inr ly' \<Longrightarrow> ly_dynamic ly = Some x \<Longrightarrow> ly_dynamic ly' = Some x"
proof (induction specs arbitrary: i ly)
  case (Cons spec specs)
  then obtain ly1 where "measure_spec members i spec ly = Inr ly1" "measure_specs members (Suc i) specs ly1 = Inr ly'"
    by (auto simp: sum_then_Inr)
  with Cons show ?case by (elim measure_spec_cases) simp_all
qed simp

lemma measure_dynamic_new:
  "measure_specs members i specs ly = Inr ly' \<Longrightarrow> ly_dynamic ly' = Some (j, n) \<Longrightarrow> ly_dynamic ly = Some (j, n) \<or> i \<le> j"
proof (induction specs arbitrary: i ly)
  case (Cons spec specs)
  then obtain ly1 where l: "measure_spec members i spec ly = Inr ly1" "measure_specs members (Suc i) specs ly1 = Inr ly'"
    by (auto simp: sum_then_Inr)
  then have "ly_dynamic ly1 = Some (j, n) \<or> Suc i \<le> j" using Cons by blast
  with l(1) show ?case by (elim measure_spec_cases) auto
qed simp

definition spec_bytes :: "bridge_member_spec list \<Rightarrow> nat" where
  "spec_bytes specs = sum_list (map member_wire_size specs)"

lemma spec_bytes_append [simp]: "spec_bytes (xs @ ys) = spec_bytes xs + spec_bytes ys"
  by (simp add: spec_bytes_def)

lemma spec_bytes_same: "\<forall>s\<in>set xs. s = spec \<Longrightarrow> spec_bytes xs = length xs * member_wire_size spec"
  by (induction xs) (auto simp: spec_bytes_def)

text \<open>The leaves the encoder gives for one spec.\<close>

lemma encoded_count:
  assumes "encode_spec m members v spec = Some (Inr pairs)" "binding_count members spec = Inr n" "shaped members v"
  shows "\<forall>s\<in>set (map snd pairs). s = spec" and "\<not> open_spec members spec \<Longrightarrow> size_t_of n = size_t_of (length pairs)"
    and "open_spec members spec \<Longrightarrow> n = kDynamicBindingCount"
proof -
  have leaf: "\<exists>x. xs = [(x, spec)]" if "encode_leaf spec b = Inr xs" for b xs
    using that by (auto simp: encode_leaf_def sum_then_Inr split: prod.splits)
  have leaves: "list_all (\<lambda>p. snd p = spec) xs \<and> length xs = length bs" if "gather (encode_leaf spec) bs = Inr xs" for bs xs
    using that by (induction bs arbitrary: xs) (auto simp: sum_then_Inr dest!: leaf)
  have "(\<forall>s\<in>set (map snd pairs). s = spec) \<and>
     (\<not> open_spec members spec \<longrightarrow> size_t_of n = size_t_of (length pairs)) \<and>
     (open_spec members spec \<longrightarrow> n = kDynamicBindingCount)"
  proof (cases "ms_expression spec = []")
    case True
    then obtain path bs where p: "parse_member_path (ms_target spec) = Inr path"
      "collect_const_leaf_bindings members v path = Inr bs" "gather (encode_leaf spec) bs = Inr pairs"
      using assms(1) by (auto simp: encode_spec_def sum_then_Inr)
    have n: "selection_count_for_path members path = Inr n" using assms(2) True p(1) by (simp add: binding_count_def)
    show ?thesis
      using leaves [OF p(3), THEN conjunct1] leaves [OF p(3), THEN conjunct2] counted_const [OF n p(2) assms(3)] open_count [OF n] parsed_path [OF p(1)] True p(1)
      by (simp add: open_spec_def list_all_iff)
  next
    case False
    then show ?thesis
      using assms(1,2) by (auto simp: encode_spec_def binding_count_def open_spec_def out_then_Inr split: option.splits)
  qed
  then show "\<forall>s\<in>set (map snd pairs). s = spec" "\<not> open_spec members spec \<Longrightarrow> size_t_of n = size_t_of (length pairs)"
    "open_spec members spec \<Longrightarrow> n = kDynamicBindingCount" by blast+
qed

lemma spec_bytes_total: "total_wire_size specs = spec_bytes specs"
  by (simp add: total_wire_size_sum spec_bytes_def)

lemma spec_bytes_Nil [simp]: "spec_bytes [] = 0"
  by (simp add: spec_bytes_def)

lemma packed_length: "pack_values buf xs = Some (Inr buf') \<Longrightarrow> length buf' = length buf + spec_bytes (map snd xs)"
proof (induction xs arbitrary: buf)
  case (Cons x xs)
  obtain v spec where x: "x = (v, spec)" by fastforce
  then obtain buf1 where b: "pack_value buf v spec = Some (Inr buf1)" "pack_values buf1 xs = Some (Inr buf')"
    using Cons.prems by (auto split: option.splits sum.splits)
  have "length buf1 = length buf + member_wire_size spec"
    using b(1) by (auto simp: pack_value_def Let_def split: if_splits)
  then show ?case using Cons.IH [OF b(2)] by (simp add: x spec_bytes_def)
qed simp

lemma encoded_layout:
  assumes "encode_specs m members v specs = Some (Inr pairs)" "measure_specs members i specs ly = Inr ly'"
    and "shaped members v" "list_all (count_ok members) specs"
  shows "\<exists>F k w. spec_bytes (map snd pairs) = F + k * w \<and> size_t_of (ly_fixed_bytes ly') = size_t_of (ly_fixed_bytes ly + F) \<and>
    (ly_dynamic ly' = ly_dynamic ly \<and> k = 0 \<or>
     ly_dynamic ly = None \<and> (\<exists>j. ly_dynamic ly' = Some (j, w) \<and> (\<exists>s\<in>set specs. member_wire_size s = w)))"
  using assms
proof (induction specs arbitrary: i ly pairs)
  case (Cons spec specs)
  obtain ps qs where e: "encode_spec m members v spec = Some (Inr ps)" "encode_specs m members v specs = Some (Inr qs)"
    "pairs = ps @ qs" using Cons.prems(1) by (auto simp: out_then_Inr)
  obtain ly1 where l: "measure_spec members i spec ly = Inr ly1" "measure_specs members (Suc i) specs ly1 = Inr ly'"
    using Cons.prems(2) by (auto simp: sum_then_Inr)
  obtain F k w where ih: "spec_bytes (map snd qs) = F + k * w"
      "size_t_of (ly_fixed_bytes ly') = size_t_of (ly_fixed_bytes ly1 + F)"
      "ly_dynamic ly' = ly_dynamic ly1 \<and> k = 0 \<or>
       ly_dynamic ly1 = None \<and> (\<exists>j. ly_dynamic ly' = Some (j, w) \<and> (\<exists>s\<in>set specs. member_wire_size s = w))"
    using Cons.IH [OF e(2) l(2) Cons.prems(3)] Cons.prems(4) by auto
  let ?w = "member_wire_size spec"
  show ?case
    using l(1)
  proof (cases rule: measure_spec_cases)
    case (1 n)
    note c = encoded_count [OF e(1) 1(1) Cons.prems(3)]
    have "spec_bytes (map snd ps) = length ps * ?w" using spec_bytes_same [OF c(1)] by simp
    moreover have "ly_dynamic ly' = Some (i, ?w)" "k = 0" using ih(3) 1(4) by auto
    ultimately show ?thesis
      using ih(1,2) 1(3,4) e(3) by (intro exI [of _ F] exI [of _ "length ps"] exI [of _ ?w]) auto
  next
    case (2 n)
    note c = encoded_count [OF e(1) 2(1) Cons.prems(3)]
    have bytes: "spec_bytes (map snd ps) = length ps * ?w" using spec_bytes_same [OF c(1)] by simp
    have "size_t_of n = size_t_of (length ps)" using c(2,3) 2(2) by blast
    then have "size_t_of (n * ?w) = size_t_of (length ps * ?w)" by (intro size_t_mult_cong) simp_all
    then have "size_t_of (ly_fixed_bytes ly + n * ?w + F) = size_t_of (ly_fixed_bytes ly + length ps * ?w + F)"
      by (intro size_t_add_cong) simp_all
    then have "size_t_of (ly_fixed_bytes ly') = size_t_of (ly_fixed_bytes ly + (length ps * ?w + F))"
      using ih(2) 2(3) by (simp add: add.assoc)
    then show ?thesis
      using ih(1,3) 2(3) e(3) bytes
      by (intro exI [of _ "length ps * ?w + F"] exI [of _ k] exI [of _ w]) auto
  qed
qed auto

lemma measure_fixed_small: "measure_specs members i specs ly = Inr ly' \<Longrightarrow> ly_fixed_bytes ly < 2 ^ 64 \<Longrightarrow> ly_fixed_bytes ly' < 2 ^ 64"
proof (induction specs arbitrary: i ly)
  case (Cons spec specs)
  then obtain ly1 where l: "measure_spec members i spec ly = Inr ly1" "measure_specs members (Suc i) specs ly1 = Inr ly'"
    by (auto simp: sum_then_Inr)
  from l(1) have "ly_fixed_bytes ly1 < 2 ^ 64"
    using Cons.prems(2) by (elim measure_spec_cases) (simp_all add: size_t_of_def)
  then show ?case by (rule Cons.IH [OF l(2)])
qed simp

text \<open>C15: What a bridge encodes, a bridge with the same member list never refuses for its size: the
  payload has exactly the bytes of the fixed members, or the rest divides into elements of the one
  open-ended member, whatever the lengths of the arrays in the message.\<close>
theorem encoded_payload_accepted:
  assumes "encode_specs m members message specs = Some (Inr pairs)"
    and "encode_struct_payload (map fst pairs) (map snd pairs) = Some (Inr payload)"
    and "measure_specs members 0 specs no_layout = Inr ly"
    and "shaped members message" "list_all (count_ok members) specs"
    and "list_all (\<lambda>s. member_wire_size s \<noteq> 0) specs" "length payload < 2 ^ 64"
  shows "\<exists>count. dynamic_binding_count ly (length payload) = Inr count"
proof -
  obtain F k w where l: "spec_bytes (map snd pairs) = F + k * w" "size_t_of (ly_fixed_bytes ly) = size_t_of F"
      "ly_dynamic ly = None \<and> k = 0 \<or> (\<exists>j. ly_dynamic ly = Some (j, w) \<and> (\<exists>s\<in>set specs. member_wire_size s = w))"
    using encoded_layout [OF assms(1,3,4,5)] by (auto simp: no_layout_def)
  have payload: "length payload = F + k * w"
    using assms(2) l(1) packed_length [of "[]" pairs payload] by (simp add: encode_struct_payload_def zip_map_fst_snd)
  have "ly_fixed_bytes ly < 2 ^ 64" using measure_fixed_small [OF assms(3)] by (simp add: no_layout_def)
  then have fixed: "ly_fixed_bytes ly = F"
    using l(2) payload assms(7) size_t_small [of F] size_t_small [of "ly_fixed_bytes ly"] by simp
  from l(3) show ?thesis
  proof
    assume "ly_dynamic ly = None \<and> k = 0"
    then show ?thesis using payload fixed by (simp add: dynamic_binding_count_def)
  next
    assume "\<exists>j. ly_dynamic ly = Some (j, w) \<and> (\<exists>s\<in>set specs. member_wire_size s = w)"
    then show ?thesis
      using payload fixed assms(6) by (auto simp: dynamic_binding_count_def list_all_iff)
  qed
qed

end
