(* ===== verification/Message_Places.thy ===== *)
theory Message_Places
  imports Message_Counts Math_Expression_Correct
begin

text \<open>
  When the addresses a decoder collects stay valid until it writes through them.
\<close>

section \<open>Places\<close>

fun valid_place :: "place_step list \<Rightarrow> ros_value \<Rightarrow> bool" where
  "valid_place [] v = True"
| "valid_place (Field i # place) (Message fs) = (i < length fs \<and> valid_place place (fs ! i))"
| "valid_place (Fixed_element i # place) (Elements xs) = (i < length xs \<and> valid_place place (xs ! i))"
| "valid_place (Sequence_element i n # place) (Elements xs) =
     (i < length xs \<and> (through_sequence place \<or> length xs = n) \<and> valid_place place (xs ! i))"
| "valid_place (step # place) v = False"

text \<open>The structure of a value, without its scalars.\<close>

fun form :: "ros_value \<Rightarrow> ros_value" where
  "form (Scalar s) = Scalar (S_bool False)"
| "form (Opaque t) = Opaque t"
| "form (Message fs) = Message (map form fs)"
| "form (Elements xs) = Elements (map form xs)"

lemma valid_place_form: "valid_place place (form v) = valid_place place v"
proof (induction place v rule: valid_place.induct)
qed auto

lemma form_valid: "form v = form w \<Longrightarrow> valid_place place v = valid_place place w"
  by (metis valid_place_form)

text \<open>The member a place leads to.\<close>

inductive typed_place :: "message_members \<Rightarrow> place_step list \<Rightarrow> message_member \<Rightarrow> bool"
  and typed_cell :: "message_member \<Rightarrow> place_step list \<Rightarrow> message_member \<Rightarrow> bool" where
  here: "typed_cell m [] m"
| inside: "mm_type m = ROS_TYPE_MESSAGE \<Longrightarrow> mm_members m = Some members \<Longrightarrow> typed_place members place leaf \<Longrightarrow>
    typed_cell m place leaf"
| single_field: "i < length members \<Longrightarrow> mm_array (members ! i) = Not_array \<Longrightarrow> typed_cell (members ! i) place leaf \<Longrightarrow>
    typed_place members (Field i # place) leaf"
| fixed_field: "i < length members \<Longrightarrow> mm_array (members ! i) = Fixed_array n \<Longrightarrow> typed_cell (members ! i) place leaf \<Longrightarrow>
    typed_place members (Field i # Fixed_element j # place) leaf"
| sequence_field: "i < length members \<Longrightarrow> mm_array (members ! i) = Dynamic_array bound \<Longrightarrow>
    typed_cell (members ! i) place leaf \<Longrightarrow> typed_place members (Field i # Sequence_element j k # place) leaf"

text \<open>A change of the value at a typed, valid place that keeps its type and structure keeps those of
  the whole.\<close>

lemma form_upd [simp]: "i < length xs \<Longrightarrow> form w = form (xs ! i) \<Longrightarrow> map form (xs[i := w]) = map form xs"
  by (simp add: map_update list_update_same_conv)

lemma shaped_message: "shaped members v \<Longrightarrow> \<exists>fs. v = Message fs \<and> length fs = length members"
  by (auto elim!: shapedE dest: list_all2_lengthD)

lemma shaped_nth: "shaped members (Message fs) \<Longrightarrow> i < length members \<Longrightarrow> shaped_field (members ! i) (fs ! i)"
  by (auto elim!: shapedE simp: list_all2_conv_all_nth)

lemma shaped_upd: "shaped members (Message fs) \<Longrightarrow> i < length members \<Longrightarrow> shaped_field (members ! i) w \<Longrightarrow>
    shaped members (Message (fs[i := w]))"
  by (auto elim!: shapedE intro!: whole simp: list_all2_conv_all_nth nth_list_update)

lemma update_typed_element:
  assumes "shaped members (Message fs)" "i < length members" "mm_array (members ! i) \<noteq> Not_array"
    and "fs ! i = Elements xs" "j < length xs"
    and "\<And>w. shaped_cell (members ! i) w \<Longrightarrow> w = xs ! j \<Longrightarrow>
      \<exists>w'. update_at place f w = Some (Inr w') \<and> shaped_cell (members ! i) w' \<and> form w' = form w"
  shows "\<exists>w'. update_at place f (xs ! j) = Some (Inr w') \<and>
    shaped members (Message (fs[i := Elements (xs[j := w'])])) \<and> form (Elements (xs[j := w'])) = form (Elements xs)"
proof -
  have field: "shaped_field (members ! i) (Elements xs)" using shaped_nth [OF assms(1,2)] assms(4) by simp
  then have "shaped_cell (members ! i) (xs ! j)" using shaped_array [OF field assms(3)] assms(5) by (auto simp: list_all_length)
  then obtain w' where w: "update_at place f (xs ! j) = Some (Inr w')" "shaped_cell (members ! i) w'" "form w' = form (xs ! j)"
    using assms(6) by blast
  have "shaped_field (members ! i) (Elements (xs[j := w']))"
    using shaped_put_element [OF field assms(3) w(2), of j] by (simp add: put_element_def)
  then show ?thesis using shaped_upd [OF assms(1,2)] w assms(5) by simp
qed

lemma update_typed:
  assumes f: "\<And>w. shaped_cell leaf w \<Longrightarrow> \<exists>w'. f w = Some (Inr w') \<and> shaped_cell leaf w' \<and> form w' = form w"
  shows "typed_place members place leaf \<Longrightarrow> shaped members v \<Longrightarrow> valid_place place v \<Longrightarrow>
      \<exists>v'. update_at place f v = Some (Inr v') \<and> shaped members v' \<and> form v' = form v"
    and "typed_cell m place leaf \<Longrightarrow> shaped_cell m v \<Longrightarrow> valid_place place v \<Longrightarrow>
      \<exists>v'. update_at place f v = Some (Inr v') \<and> shaped_cell m v' \<and> form v' = form v"
  using f
proof (induction members place leaf and m place leaf arbitrary: v and v rule: typed_place_typed_cell.inducts)
  case (here m)
  then show ?case by simp
next
  case (inside m members place leaf)
  have g: "get_nested_members m = Inr members" using inside.hyps by (simp add: get_nested_members_def)
  then show ?case
    using inside.IH [OF shaped_nested [OF inside.prems(1) inside.hyps(1) g] inside.prems(2,3)]
      shaped_message_cell [OF inside.hyps(1) g] by blast
next
  case (single_field i members place leaf)
  obtain fs where v: "v = Message fs" "length fs = length members" using shaped_message [OF single_field.prems(1)] by blast
  note field = shaped_nth [OF single_field.prems(1) [unfolded v(1)] single_field.hyps(1)]
  obtain w where w: "update_at place f (fs ! i) = Some (Inr w)" "shaped_cell (members ! i) w" "form w = form (fs ! i)"
    using single_field.IH [OF shaped_single [OF field single_field.hyps(2)] _ single_field.prems(3)] single_field.prems(2) v(1) by auto
  then show ?case
    using v single_field.hyps(1) shaped_upd [OF single_field.prems(1) [unfolded v(1)] single_field.hyps(1)]
      single [OF single_field.hyps(2)] by simp
next
  case (fixed_field i members n place leaf j)
  obtain fs where v: "v = Message fs" "length fs = length members" using shaped_message [OF fixed_field.prems(1)] by blast
  obtain xs where xs: "fs ! i = Elements xs" "j < length xs" "valid_place place (xs ! j)"
    using fixed_field.prems(2) v(1) by (cases "fs ! i") auto
  have array: "mm_array (members ! i) \<noteq> Not_array" using fixed_field.hyps(2) by simp
  show ?case
    using update_typed_element [OF fixed_field.prems(1) [unfolded v(1)] fixed_field.hyps(1) array xs(1,2), of place f]
      fixed_field.IH [OF _ _ fixed_field.prems(3)] xs v fixed_field.hyps(1) by auto
next
  case (sequence_field i members bound place leaf j k)
  obtain fs where v: "v = Message fs" "length fs = length members" using shaped_message [OF sequence_field.prems(1)] by blast
  obtain xs where xs: "fs ! i = Elements xs" "j < length xs" "valid_place place (xs ! j)" "through_sequence place \<or> length xs = k"
    using sequence_field.prems(2) v(1) by (cases "fs ! i") auto
  have array: "mm_array (members ! i) \<noteq> Not_array" using sequence_field.hyps(2) by simp
  show ?case
    using update_typed_element [OF sequence_field.prems(1) [unfolded v(1)] sequence_field.hyps(1) array xs(1,2), of place f]
      sequence_field.IH [OF _ _ sequence_field.prems(3)] xs v sequence_field.hyps(1) by auto
qed

section \<open>Stores\<close>

lemma to_scalar_kind: "to_scalar constructor result = Inr s \<Longrightarrow> (\<And>w. scalar_kind (constructor w) = t) \<Longrightarrow> scalar_kind s = t"
  by (auto simp: to_scalar_def split: sum.splits)

lemma write_integer_kind: "write_integer member n = Inr s \<Longrightarrow> mm_type member = scalar_kind s"
  by (auto simp: write_integer_def to_scalar_def split: ros_type.splits sum.splits)

lemma write_numeric_kind: "write_numeric member d = Inr s \<Longrightarrow> mm_type member = scalar_kind s"
  by (auto simp: write_numeric_def to_scalar_def Let_def split: ros_type.splits sum.splits)

lemma shaped_scalar: "shaped_cell member w \<Longrightarrow> mm_type member = scalar_kind s \<Longrightarrow> \<exists>t. w = Scalar t"
  by (cases s) (auto elim: shaped_cellE)

lemma store_typed:
  assumes "typed_place members place leaf" "shaped members v" "valid_place place v"
    and "\<And>s. result = Inr s \<Longrightarrow> mm_type leaf = scalar_kind s"
  shows "case store place result v of None \<Rightarrow> False | Some (Inl e) \<Rightarrow> True
    | Some (Inr v') \<Rightarrow> shaped members v' \<and> form v' = form v"
proof (cases result)
  case (Inl e)
  then show ?thesis by (simp add: store_def)
next
  case (Inr s)
  have "\<exists>w'. Some (Inr (Scalar s)) = Some (Inr w' :: std_error + ros_value) \<and> shaped_cell leaf w' \<and> form w' = form w"
    if "shaped_cell leaf w" for w
    using shaped_scalar [OF that assms(4) [OF Inr]] scalar [OF assms(4) [OF Inr]] by auto
  from update_typed(1) [of leaf "\<lambda>_. Some (Inr (Scalar s))", OF this assms(1-3)] Inr
  show ?thesis by (auto simp: store_def)
qed

section \<open>What a path needs of the sequences on its way\<close>

text \<open>The sequences a path goes through, by the fields that lead to them, each with the size the path
  makes it have; an open-ended path may need any size.\<close>

definition needed_size :: "path_segment \<Rightarrow> nat option" where
  "needed_size seg =
     (if 0 \<le> sg_index seg then Some (nat (sg_index seg) + 1)
      else if sg_has_slice seg then map_option nat (sg_slice_stop seg) else None)"

fun demands :: "message_members \<Rightarrow> path_segment list \<Rightarrow> (nat list \<times> nat option) list" where
  "demands members [] = []"
| "demands members (seg # path) =
     (case find_member members (sg_name seg) of
        Inl e \<Rightarrow> []
      | Inr (i, member) \<Rightarrow>
          (if is_dynamic_array_member member then [([i], needed_size seg)] else []) @
          (case get_nested_members member of
             Inl e \<Rightarrow> []
           | Inr nested \<Rightarrow> map (\<lambda>(fds, n). (i # fds, n)) (demands nested path)))"

text \<open>The innermost sequence a place goes through, and its size when the address was taken.\<close>

fun rests_on :: "place_step list \<Rightarrow> (nat list \<times> nat) option" where
  "rests_on [] = None"
| "rests_on (Field i # place) = map_option (\<lambda>(fds, n). (i # fds, n)) (rests_on place)"
| "rests_on (Fixed_element j # place) = rests_on place"
| "rests_on (Sequence_element j n # place) = (case rests_on place of Some x \<Rightarrow> Some x | None \<Rightarrow> Some ([], n))"

lemma rests_through: "rests_on place = None \<longleftrightarrow> \<not> through_sequence place"
  by (induction place rule: rests_on.induct) (auto simp: through_sequence_def split: option.splits)

text \<open>A path leaves an address alone when it does not need more of the sequence under it.\<close>

definition spares :: "(nat list \<times> nat option) list \<Rightarrow> (nat list \<times> nat) option \<Rightarrow> bool" where
  "spares ds base = (case base of None \<Rightarrow> True
     | Some (fds, n) \<Rightarrow> \<forall>(f, need)\<in>set ds. f = fds \<longrightarrow> (case need of Some d \<Rightarrow> d \<le> n | None \<Rightarrow> False))"

lemma no_growth:
  assumes "select_indices_mutable member seg is_last field dyn = Inr (js, field')"
    and "needed_size seg = Some d" "d \<le> array_size member field" "segment_ok seg"
  shows "field' = field"
  using assms
  by (auto simp: select_indices_mutable_def needed_size_def Let_def sum_then_Inr segment_ok_def
      dest!: ensure_size_cases split: if_splits option.splits)

lemma selected_cases:
  assumes "select_indices_mutable member seg is_last field dyn = Inr (js, field')"
  shows "field' = field \<or> (\<exists>xs n. is_dynamic_array_member member \<and> field = Elements xs \<and>
      field' = Elements (xs @ replicate n (mm_new_element member)))"
  using assms
  by (auto simp: select_indices_mutable_def Let_def sum_then_Inr dest!: ensure_size_cases split: if_splits option.splits)

lemma valid_grow:
  assumes "valid_place place (Elements xs)" "through_sequence (tl place) \<or> (\<forall>j n. hd place \<noteq> Sequence_element j n)"
  shows "valid_place place (Elements (xs @ ys))"
  using assms by (cases "(place, Elements xs)" rule: valid_place.cases) (auto simp: nth_append)

lemma valid_put_element:
  assumes "valid_place place field" "element_at field x = Inr w"
    and "\<And>step rest. place = step # rest \<Longrightarrow> step = Fixed_element x \<or> (\<exists>n. step = Sequence_element x n) \<Longrightarrow>
      valid_place rest w \<Longrightarrow> valid_place rest w'"
  shows "valid_place place (put_element x w' field)"
  using assms by (cases "(place, field)" rule: valid_place.cases)
    (auto simp: element_at_Inr put_element_def nth_list_update)

lemma valid_put_field_other:
  "step \<noteq> Field i \<Longrightarrow> valid_place (step # rest) (put_field i w v) = valid_place (step # rest) v"
  by (cases "(step # rest, v)" rule: valid_place.cases) (auto simp: put_field_def split: ros_value.splits)

lemma valid_put_field:
  "valid_place (Field i # rest) v \<Longrightarrow> field_at v i = Inr w \<Longrightarrow> (valid_place rest w \<Longrightarrow> valid_place rest w') \<Longrightarrow>
   valid_place (Field i # rest) (put_field i w' v)"
  by (auto simp: field_at_Inr put_field_def)

lemma spares_deeper:
  "spares (xs @ ys) (map_option (\<lambda>(fds, n). (i # fds, n)) (rests_on (step # rest))) \<Longrightarrow>
   step = Fixed_element x \<or> step = Sequence_element x n \<Longrightarrow> spares ys (map_option (\<lambda>(fds, n). (i # fds, n)) (rests_on rest))"
  by (cases "rests_on rest") (fastforce simp: spares_def split: option.splits)+

lemma collect_spares:
  "collect_mutable_leaf_bindings members v path dyn = Inr (bs, v') \<Longrightarrow> list_all segment_ok path \<Longrightarrow>
   valid_place place v \<Longrightarrow> spares (demands members path) (rests_on place) \<Longrightarrow> valid_place place v'"
proof (induction path arbitrary: members v bs v' place)
  case (Cons seg path)
  obtain i member where m: "find_member members (sg_name seg) = Inr (i, member)"
    using Cons.prems(1) by (auto simp: sum_then_Inr)
  have deeper: "valid_place rest w'"
    if "get_nested_members member = Inr nested" "collect_mutable_leaf_bindings nested w path dyn = Inr (cs, w')"
      "valid_place rest w" "spares (map (\<lambda>(fds, n). (i # fds, n)) (demands nested path)) (map_option (\<lambda>(fds, n). (i # fds, n)) (rests_on rest))"
    for nested w cs w' rest
    using Cons.IH [OF that(2) _ that(3)] Cons.prems(2) that(4) by (force simp: spares_def split: option.splits)
  show ?case
  proof (cases place)
    case (Cons step rest)
    show ?thesis
    proof (cases "step = Field i")
      case False
      have "\<exists>w. v' = put_field i w v \<or> v' = v"
        using collect_single [OF Cons.prems(1) m] collect_array [OF Cons.prems(1) m]
        by (cases "mm_array member = Not_array") (auto split: if_splits)
      then show ?thesis using Cons.prems(3) valid_put_field_other [OF False] Cons by auto
    next
      case step: True
      show ?thesis
      proof (cases "mm_array member = Not_array")
        case True
        have sp: "spares (map (\<lambda>(fds, n). (i # fds, n)) (demands nested path)) (map_option (\<lambda>(fds, n). (i # fds, n)) (rests_on rest))"
          if "get_nested_members member = Inr nested" for nested
          using Cons.prems(4) that m True by (simp add: Cons step is_dynamic_array_member_def)
        from collect_single [OF Cons.prems(1) m True] obtain field where field: "field_at v i = Inr field"
          and tail: "if path = [] then bs = [(member, [Field i])] \<and> v' = v
            else mm_type member = ROS_TYPE_MESSAGE \<and>
              (\<exists>nested cs field'. get_nested_members member = Inr nested \<and>
                 collect_mutable_leaf_bindings nested field path dyn = Inr (cs, field') \<and>
                 bs = below (Field i) cs \<and> v' = put_field i field' v)" by blast
        show ?thesis
        proof (cases "path = []")
          case True
          then show ?thesis using tail Cons.prems(3) by simp
        next
          case False
          with tail obtain nested cs field' where n: "get_nested_members member = Inr nested"
            "collect_mutable_leaf_bindings nested field path dyn = Inr (cs, field')" "v' = put_field i field' v" by auto
          show ?thesis
            using valid_put_field [OF Cons.prems(3) [unfolded Cons step] field deeper [OF n(1,2) _ sp [OF n(1)]]]
            by (simp add: Cons step n(3))
        qed
      next
        case False
        from collect_array [OF Cons.prems(1) m False] obtain field js field1 cs field2 where
          a: "field_at v i = Inr field" "select_indices_mutable member seg (path = []) field dyn = Inr (js, field1)"
            "gather_places (collect_element member seg path dyn) js field1 = Inr (cs, field2)" "v' = put_field i field2 v" by blast
        have sp: "spares ((if is_dynamic_array_member member then [([i], needed_size seg)] else []) @
            (case get_nested_members member of Inl e \<Rightarrow> []
             | Inr nested \<Rightarrow> map (\<lambda>(fds, n). (i # fds, n)) (demands nested path)))
          (map_option (\<lambda>(fds, n). (i # fds, n)) (rests_on rest))"
          using Cons.prems(4) m by (simp add: Cons step)
        have inner: "valid_place rest field" using Cons.prems(3) a(1) by (auto simp: Cons step field_at_Inr)
        have grown: "valid_place rest field1"
        proof (cases "field1 = field")
          case False
          with selected_cases [OF a(2)] obtain xs n where g: "is_dynamic_array_member member" "field = Elements xs"
            "field1 = Elements (xs @ replicate n (mm_new_element member))" by blast
          have "through_sequence (tl rest) \<or> (\<forall>j n. hd rest \<noteq> Sequence_element j n)" if rest: "rest \<noteq> []"
          proof (rule ccontr)
            assume "\<not> (through_sequence (tl rest) \<or> (\<forall>j n. hd rest \<noteq> Sequence_element j n))"
            with rest obtain j k q where q: "rest = Sequence_element j k # q" "\<not> through_sequence q"
              by (cases rest) auto
            then have "rests_on rest = Some ([], k)" "length xs = k"
              using inner rests_through [of q] by (simp_all add: g(2))
            with sp g(1) obtain d where "needed_size seg = Some d" "d \<le> length xs"
              by (auto simp: spares_def split: option.splits)
            then show False using no_growth [OF a(2)] Cons.prems(2) g(2) False by simp
          qed
          then show ?thesis using inner valid_grow [of rest xs] by (cases rest) (auto simp: g)
        qed (use inner in simp)
        have "valid_place rest field2"
        proof (rule gather_places_inv [where P = "valid_place rest", OF a(3) grown])
          fix x g ds g'
          assume g: "valid_place rest g" "collect_element member seg path dyn x g = Inr (ds, g')"
          show "valid_place rest g'"
          proof (cases "path = []")
            case True
            then show ?thesis using collect_element_Inr [OF g(2)] g(1) by auto
          next
            case more: False
            with collect_element_Inr [OF g(2)] obtain w nested es w' where w: "element_at g x = Inr w"
              "get_nested_members member = Inr nested" "collect_mutable_leaf_bindings nested w path dyn = Inr (es, w')"
              "g' = put_element x w' g" by auto
            show ?thesis
              unfolding w(4)
            proof (rule valid_put_element [OF g(1) w(1)])
              fix s q
              assume q: "rest = s # q" "s = Fixed_element x \<or> (\<exists>n. s = Sequence_element x n)" "valid_place q w"
              have "spares (map (\<lambda>(fds, n). (i # fds, n)) (demands nested path)) (map_option (\<lambda>(fds, n). (i # fds, n)) (rests_on q))"
                using spares_deeper [OF sp [unfolded q(1)] , of x] q(2) w(2) by (auto split: sum.splits)
              then show "valid_place q w'" by (rule deeper [OF w(2,3) q(3)])
            qed
          qed
        qed
        then show ?thesis
          using valid_put_field [OF Cons.prems(3) [unfolded Cons step] a(1)] by (simp add: Cons step a(4))
      qed
    qed
  qed simp
qed simp

section \<open>Fresh addresses\<close>

definition settled :: "(nat list \<times> nat option) list \<Rightarrow> (nat list \<times> nat) option \<Rightarrow> bool" where
  "settled ds base = (case base of None \<Rightarrow> ds = []
     | Some (fds, n) \<Rightarrow> ds \<noteq> [] \<and> fst (last ds) = fds \<and> (\<forall>d. snd (last ds) = Some d \<longrightarrow> d \<le> n))"

definition begins_at :: "nat \<Rightarrow> place_step list \<Rightarrow> bool" where
  "begins_at x place = (case place of Fixed_element y # rest \<Rightarrow> x = y | Sequence_element y n # rest \<Rightarrow> x = y | _ \<Rightarrow> False)"

lemma begins_below: "\<forall>(leaf, place)\<in>set (below (element_step member g x) bs). begins_at x place"
  by (auto simp: below_def begins_at_def element_step_def)

lemma begins_valid: "begins_at y place \<Longrightarrow> x \<noteq> y \<Longrightarrow> valid_place place g \<Longrightarrow> valid_place place (put_element x w g)"
  by (cases "(place, g)" rule: valid_place.cases) (auto simp: begins_at_def put_element_def nth_list_update)

lemma gather_places_valid:
  assumes "gather_places f js field = Inr (bs, field')" "distinct js" "P field"
    and step: "\<And>x g ds g'. P g \<Longrightarrow> f x g = Inr (ds, g') \<Longrightarrow> P g' \<and>
        (\<forall>(leaf, place)\<in>set ds. Q leaf place \<and> valid_place place g' \<and> begins_at x place) \<and>
        (\<forall>y place. y \<noteq> x \<longrightarrow> begins_at y place \<longrightarrow> valid_place place g \<longrightarrow> valid_place place g')"
  shows "(\<forall>(leaf, place)\<in>set bs. Q leaf place \<and> valid_place place field' \<and> (\<exists>x\<in>set js. begins_at x place)) \<and>
    (\<forall>y place. y \<notin> set js \<longrightarrow> begins_at y place \<longrightarrow> valid_place place field \<longrightarrow> valid_place place field')"
  using assms(1-3)
proof (induction js arbitrary: field bs)
  case (Cons x js)
  obtain ds g es where s: "f x field = Inr (ds, g)" "gather_places f js g = Inr (es, field')" "bs = ds @ es"
    using Cons.prems(1) by (auto simp: sum_then_Inr)
  note now = step [OF Cons.prems(3) s(1)]
  have later: "(\<forall>(leaf, place)\<in>set es. Q leaf place \<and> valid_place place field' \<and> (\<exists>x\<in>set js. begins_at x place)) \<and>
    (\<forall>y place. y \<notin> set js \<longrightarrow> begins_at y place \<longrightarrow> valid_place place g \<longrightarrow> valid_place place field')"
    using Cons.IH [OF s(2)] Cons.prems(2) now by simp
  have "Q leaf place \<and> valid_place place field' \<and> begins_at x place" if "(leaf, place) \<in> set ds" for leaf place
    using now later that Cons.prems(2) by fastforce
  then show ?case using now later s(3) by fastforce
qed simp

lemma selected_need:
  assumes "select_indices_mutable member seg is_last field dyn = Inr (js, field')" "segment_ok seg"
  shows "distinct js" and "needed_size seg = Some d \<Longrightarrow> d \<le> array_size member field'"
proof -
  have enough: "n \<le> array_size member g'" if "ensure_size member seg n g = Inr g'" for n g g'
    using ensure_size_cases [OF that] by auto
  have inj: "inj_on (\<lambda>k. a + k * b) A" if "0 < b" for a b :: nat and A using that by (auto simp: inj_on_def)
  show "distinct js"
    using assms(1) segment_step [OF assms(2)]
    by (auto simp: select_indices_mutable_def Let_def sum_then_Inr indices_from_count distinct_map inj
        split: if_splits option.splits)
  show "needed_size seg = Some d \<Longrightarrow> d \<le> array_size member field'"
    using assms(1)
    by (auto simp: select_indices_mutable_def needed_size_def Let_def sum_then_Inr dest: enough split: if_splits option.splits)
qed

lemma rests_below: "rests_on (element_step member g x # place) =
    (case rests_on place of Some y \<Rightarrow> Some y
     | None \<Rightarrow> if is_dynamic_array_member member then Some ([], array_size member g) else None)"
  by (simp add: element_step_def split: option.split)

text \<open>The addresses a path takes: they are typed, valid, and lie in the last sequence of the path,
  which has at least the size the path needs.\<close>

definition fresh :: "message_members \<Rightarrow> path_segment list \<Rightarrow> message_member \<Rightarrow> place_step list \<Rightarrow> bool" where
  "fresh members path leaf place \<longleftrightarrow> typed_place members place leaf \<and> settled (demands members path) (rests_on place)"

lemma fresh_single:
  assumes "find_member members (sg_name seg) = Inr (i, member)" "mm_array member = Not_array"
    and "mm_type member = ROS_TYPE_MESSAGE" "get_nested_members member = Inr nested" "fresh nested path leaf place"
  shows "fresh members (seg # path) leaf (Field i # place)"
proof -
  have "mm_members member = Some nested" using assms(4) by (auto simp: get_nested_members_def split: option.splits)
  then have "typed_cell member place leaf" using inside [OF assms(3)] assms(5) by (simp add: fresh_def)
  moreover have "settled (demands members (seg # path)) (rests_on (Field i # place))"
    using assms by (auto simp: fresh_def settled_def is_dynamic_array_member_def last_map split: option.splits prod.splits)
  ultimately show ?thesis
    using find_member_Inr [OF assms(1)] single_field [of i members place leaf] assms(2) by (auto simp: fresh_def)
qed

lemma typed_element:
  assumes "find_member members (sg_name seg) = Inr (i, member)" "mm_array member \<noteq> Not_array" "typed_cell member place leaf"
  shows "typed_place members (Field i # element_step member g x # place) leaf"
  using find_member_Inr [OF assms(1)] assms(2,3) fixed_field [of i members] sequence_field [of i members]
  by (cases "mm_array member") (auto simp: element_step_def is_dynamic_array_member_def)

lemma fresh_element:
  assumes "find_member members (sg_name seg) = Inr (i, member)" "mm_array member \<noteq> Not_array"
    and "mm_type member = ROS_TYPE_MESSAGE" "get_nested_members member = Inr nested" "fresh nested path leaf place"
    and "\<And>d. needed_size seg = Some d \<Longrightarrow> d \<le> array_size member g"
  shows "fresh members (seg # path) leaf (Field i # element_step member g x # place)"
proof -
  have "mm_members member = Some nested" using assms(4) by (auto simp: get_nested_members_def split: option.splits)
  then have "typed_cell member place leaf" using inside [OF assms(3)] assms(5) by (simp add: fresh_def)
  moreover have "settled (demands members (seg # path)) (rests_on (Field i # element_step member g x # place))"
    using assms
    by (auto simp: fresh_def settled_def rests_below last_map split: option.splits prod.splits)
  ultimately show ?thesis
    using typed_element [OF assms(1,2)] by (simp add: fresh_def)
qed

lemma fresh_leaf:
  assumes "find_member members (sg_name seg) = Inr (i, member)" "mm_array member \<noteq> Not_array"
    and "\<And>d. needed_size seg = Some d \<Longrightarrow> d \<le> array_size member g"
  shows "fresh members [seg] member (Field i # [element_step member g x])"
  using typed_element [OF assms(1,2) here] assms by (auto simp: fresh_def settled_def rests_below split: sum.split)

lemma collect_fresh:
  "collect_mutable_leaf_bindings members v path dyn = Inr (bs, v') \<Longrightarrow> shaped members v \<Longrightarrow> list_all segment_ok path \<Longrightarrow>
   \<forall>(leaf, place)\<in>set bs. fresh members path leaf place \<and> valid_place place v'"
proof (induction path arbitrary: members v bs v')
  case (Cons seg path)
  obtain i member where m: "find_member members (sg_name seg) = Inr (i, member)"
    using Cons.prems(1) by (auto simp: sum_then_Inr)
  show ?case
  proof (cases "mm_array member = Not_array")
    case True
    from collect_single [OF Cons.prems(1) m True] obtain field where field: "field_at v i = Inr field"
      and tail: "if path = [] then bs = [(member, [Field i])] \<and> v' = v
        else mm_type member = ROS_TYPE_MESSAGE \<and>
          (\<exists>nested cs field'. get_nested_members member = Inr nested \<and>
             collect_mutable_leaf_bindings nested field path dyn = Inr (cs, field') \<and>
             bs = below (Field i) cs \<and> v' = put_field i field' v)" by blast
    have cell: "shaped_cell member field" using shaped_single [OF shaped_field_at [OF Cons.prems(2) m field] True] .
    show ?thesis
    proof (cases "path = []")
      case last: True
      have "typed_place members [Field i] member"
        using single_field [of i members "[]" member] here [of member] find_member_Inr [OF m] True by simp
      then show ?thesis
        using tail last field m True
        by (auto simp: fresh_def settled_def is_dynamic_array_member_def field_at_Inr split: sum.split)
    next
      case False
      with tail obtain nested cs field' where n: "mm_type member = ROS_TYPE_MESSAGE" "get_nested_members member = Inr nested"
        "collect_mutable_leaf_bindings nested field path dyn = Inr (cs, field')" "bs = below (Field i) cs"
        "v' = put_field i field' v" by auto
      have "\<forall>(leaf, place)\<in>set cs. fresh nested path leaf place \<and> valid_place place field'"
        using Cons.IH [OF n(3) shaped_nested [OF cell n(1,2)]] Cons.prems(3) by simp
      then show ?thesis
        using fresh_single [OF m True n(1,2)] field by (fastforce simp: n(4,5) below_def put_field_def field_at_Inr)
    qed
  next
    case False
    from collect_array [OF Cons.prems(1) m False] obtain field js field1 cs field2 where
      a: "field_at v i = Inr field" "select_indices_mutable member seg (path = []) field dyn = Inr (js, field1)"
        "gather_places (collect_element member seg path dyn) js field1 = Inr (cs, field2)" "bs = below (Field i) cs"
        "v' = put_field i field2 v" by blast
    note ok = selected_need [OF a(2)]
    let ?P = "\<lambda>g. shaped_field member g \<and> (\<forall>d. needed_size seg = Some d \<longrightarrow> d \<le> array_size member g)"
    have start: "?P field1"
      using shaped_selected [OF a(2) shaped_field_at [OF Cons.prems(2) m a(1)]] ok(2) Cons.prems(3) by simp
    have all: "(\<forall>(leaf, place)\<in>set cs. fresh members (seg # path) leaf (Field i # place) \<and> valid_place place field2 \<and>
          (\<exists>x\<in>set js. begins_at x place)) \<and>
        (\<forall>y place. y \<notin> set js \<longrightarrow> begins_at y place \<longrightarrow> valid_place place field1 \<longrightarrow> valid_place place field2)"
    proof (rule gather_places_valid [OF a(3) ok(1), where P = ?P])
      show "segment_ok seg" using Cons.prems(3) by simp
      show "?P field1" by (rule start)
      fix x g ds g'
      assume g: "?P g" "collect_element member seg path dyn x g = Inr (ds, g')"
      have need: "\<And>d. needed_size seg = Some d \<Longrightarrow> d \<le> array_size member g" using g(1) by blast
      from collect_element_Inr [OF g(2)] obtain w where w: "element_at g x = Inr w"
        and tail: "if path = [] then ds = [(member, [element_step member g x])] \<and> g' = g
          else mm_type member = ROS_TYPE_MESSAGE \<and>
            (\<exists>nested cs w'. get_nested_members member = Inr nested \<and>
               collect_mutable_leaf_bindings nested w path dyn = Inr (cs, w') \<and>
               ds = below (element_step member g x) cs \<and> g' = put_element x w' g)" by blast
      show "?P g' \<and> (\<forall>(leaf, place)\<in>set ds. fresh members (seg # path) leaf (Field i # place) \<and> valid_place place g' \<and>
          begins_at x place) \<and>
        (\<forall>y place. y \<noteq> x \<longrightarrow> begins_at y place \<longrightarrow> valid_place place g \<longrightarrow> valid_place place g')"
      proof (cases "path = []")
        case True
        then show ?thesis
          using tail g(1) fresh_leaf [OF m False need] w
          by (auto simp: element_at_Inr element_step_def begins_at_def)
      next
        case inner: False
        with tail obtain nested es w' where n: "mm_type member = ROS_TYPE_MESSAGE" "get_nested_members member = Inr nested"
          "collect_mutable_leaf_bindings nested w path dyn = Inr (es, w')" "ds = below (element_step member g x) es"
          "g' = put_element x w' g" by auto
        note nested = shaped_nested [OF shaped_element [OF conjunct1 [OF g(1)] False w] n(1,2)]
        have "shaped_field member g'"
          using shaped_put_element [OF conjunct1 [OF g(1)] False] shaped_message_cell [OF n(1,2)]
            shaped_collect [OF n(3) nested] n(5) by simp
        moreover have "array_size member g' = array_size member g"
          using w by (auto simp: n(5) put_element_def element_at_Inr)
        moreover have es: "\<forall>(leaf, place)\<in>set es. fresh nested path leaf place \<and> valid_place place w'"
          using Cons.IH [OF n(3) nested] Cons.prems(3) by simp
        moreover have "valid_place (element_step member g x # place) g'" if "valid_place place w'" for place
          using w that by (auto simp: n(5) put_element_def element_at_Inr element_step_def)
        moreover have "fresh members (seg # path) leaf (Field i # element_step member g x # place)"
          if "fresh nested path leaf place" for leaf place
          by (rule fresh_element [OF m False n(1,2) that need])
        moreover have "begins_at x (element_step member g x # place)" for place
          by (simp add: element_step_def begins_at_def)
        ultimately show ?thesis
          using need begins_valid n(4,5) by (auto simp: below_def)
      qed
    qed
    then show ?thesis
      using a(1) by (fastforce simp: a(4,5) below_def put_field_def field_at_Inr)
  qed
qed simp

end
