(* ===== verification/Message_Sizes.thy ===== *)
theory Message_Sizes
  imports Message_Counts
begin

text \<open>
  The decoder binds exactly the scalars its payload holds.
\<close>

lemma bound_count:
  assumes "binding_count members spec = Inr n" "shaped members v"
    and "(if ms_expression spec \<noteq> [] then Inr ([(spec, None)], v)
       else sum_then (parse_member_path (ms_target spec)) (\<lambda>path.
         sum_then (collect_mutable_leaf_bindings members v path dyn) (\<lambda>(bs, v). Inr (map (\<lambda>b. (spec, Some b)) bs, v)))) =
      Inr (fs, v')"
  shows "\<forall>s\<in>set (map fst fs). s = spec" and "shaped members v'"
    and "open_spec members spec \<Longrightarrow> dyn = Some k \<Longrightarrow> length fs = k"
    and "\<not> open_spec members spec \<Longrightarrow> dyn = None \<Longrightarrow> size_t_of n = size_t_of (length fs)"
proof -
  have "(\<forall>s\<in>set (map fst fs). s = spec) \<and> shaped members v' \<and>
    (open_spec members spec \<longrightarrow> dyn = Some k \<longrightarrow> length fs = k) \<and>
    (\<not> open_spec members spec \<longrightarrow> dyn = None \<longrightarrow> size_t_of n = size_t_of (length fs))"
  proof (cases "ms_expression spec = []")
    case True
    then obtain path bs where p: "parse_member_path (ms_target spec) = Inr path"
      "collect_mutable_leaf_bindings members v path dyn = Inr (bs, v')" "fs = map (\<lambda>b. (spec, Some b)) bs"
      using assms(3) by (auto simp: sum_then_Inr)
    have n: "selection_count_for_path members path = Inr n" using assms(1) True p(1) by (simp add: binding_count_def)
    show ?thesis
      using counted_mutable [OF n p(2) assms(2)] shaped_collect [OF p(2) assms(2)] parsed_path [OF p(1)] True p(1,3)
      by (auto simp: open_spec_def)
  next
    case False
    then show ?thesis using assms by (auto simp: open_spec_def binding_count_def)
  qed
  then show "\<forall>s\<in>set (map fst fs). s = spec" "shaped members v'"
    "open_spec members spec \<Longrightarrow> dyn = Some k \<Longrightarrow> length fs = k"
    "\<not> open_spec members spec \<Longrightarrow> dyn = None \<Longrightarrow> size_t_of n = size_t_of (length fs)" by blast+
qed

definition dynamic_bytes :: "payload_layout \<Rightarrow> nat \<Rightarrow> nat" where
  "dynamic_bytes ly k = (case ly_dynamic ly of Some (j, w) \<Rightarrow> k * w | None \<Rightarrow> 0)"

definition dynamic_target :: "payload_layout \<Rightarrow> nat \<Rightarrow> (nat \<times> nat) option" where
  "dynamic_target ly k = (case ly_dynamic ly of Some (j, w) \<Rightarrow> Some (j, k) | None \<Rightarrow> None)"

lemma open_is_dynamic: "binding_count members spec = Inr n \<Longrightarrow> open_spec members spec \<Longrightarrow> n = kDynamicBindingCount"
  by (auto simp: binding_count_def open_spec_def dest: open_count split: sum.splits)

lemma bound_layout:
  assumes "bind_specs members (dynamic_target ly' k) i specs v = Inr (flat, v')" "measure_specs members i specs ly = Inr ly'"
    and "shaped members v" "list_all (count_ok members) specs" "\<And>j w. ly_dynamic ly = Some (j, w) \<Longrightarrow> j < i"
  shows "size_t_of (ly_fixed_bytes ly + dynamic_bytes ly k + spec_bytes (map fst flat)) =
      size_t_of (ly_fixed_bytes ly' + dynamic_bytes ly' k) \<and> shaped members v'"
  using assms
proof (induction specs arbitrary: i ly flat v)
  case (Cons spec specs)
  let ?dyn = "case dynamic_target ly' k of Some (j, n) \<Rightarrow> if j = i then Some n else None | None \<Rightarrow> None"
  obtain fs v1 gs where b: "(if ms_expression spec \<noteq> [] then Inr ([(spec, None)], v)
       else sum_then (parse_member_path (ms_target spec)) (\<lambda>path.
         sum_then (collect_mutable_leaf_bindings members v path ?dyn) (\<lambda>(bs, v). Inr (map (\<lambda>b. (spec, Some b)) bs, v)))) =
      Inr (fs, v1)" "bind_specs members (dynamic_target ly' k) (Suc i) specs v1 = Inr (gs, v')" "flat = fs @ gs"
    using Cons.prems(1) by (auto simp: sum_then_Inr split: prod.splits)
  obtain ly1 where l: "measure_spec members i spec ly = Inr ly1" "measure_specs members (Suc i) specs ly1 = Inr ly'"
    using Cons.prems(2) by (auto simp: sum_then_Inr)
  let ?w = "member_wire_size spec"
  show ?case
    using l(1)
  proof (cases rule: measure_spec_cases)
    case (1 n)
    note c = bound_count [OF 1(1) Cons.prems(3) b(1)]
    have "ly_dynamic ly' = Some (i, ?w)" using measure_dynamic_set [OF l(2)] 1(4) by simp
    moreover have "open_spec members spec" using Cons.prems(4) 1(1,2) by (simp add: count_ok_def)
    ultimately have "length fs = k" using c(3) by (simp add: dynamic_target_def)
    then have bytes: "spec_bytes (map fst fs) = k * ?w" using spec_bytes_same [OF c(1)] by simp
    have "size_t_of (ly_fixed_bytes ly1 + dynamic_bytes ly1 k + spec_bytes (map fst gs)) =
      size_t_of (ly_fixed_bytes ly' + dynamic_bytes ly' k) \<and> shaped members v'"
      using Cons.prems(4,5) 1(4) by (intro Cons.IH [OF b(2) l(2) c(2)]) auto
    then show ?thesis using 1(3,4) bytes b(3) by (simp add: dynamic_bytes_def add.commute add.left_commute)
  next
    case (2 n)
    note c = bound_count [OF 2(1) Cons.prems(3) b(1)]
    have closed: "\<not> open_spec members spec" using open_is_dynamic [OF 2(1)] 2(2) by blast
    have "?dyn = None"
      using measure_dynamic_new [OF l(2)] Cons.prems(5) 2(3)
      by (fastforce simp: dynamic_target_def split: option.splits)
    then have "size_t_of n = size_t_of (length fs)" using c(4) closed by blast
    then have bytes: "size_t_of (n * ?w) = size_t_of (spec_bytes (map fst fs))"
      using size_t_mult_cong [of n "length fs" ?w ?w] spec_bytes_same [OF c(1)] by simp
    have dyn: "dynamic_bytes ly1 k = dynamic_bytes ly k" using 2(3) by (simp add: dynamic_bytes_def)
    have ih: "size_t_of (ly_fixed_bytes ly1 + dynamic_bytes ly1 k + spec_bytes (map fst gs)) =
      size_t_of (ly_fixed_bytes ly' + dynamic_bytes ly' k) \<and> shaped members v'"
      using Cons.prems(4,5) 2(3) by (intro Cons.IH [OF b(2) l(2) c(2)]) (auto dest: less_SucI)
    have "size_t_of (ly_fixed_bytes ly1 + dynamic_bytes ly1 k + spec_bytes (map fst gs)) =
        size_t_of (n * ?w + (ly_fixed_bytes ly + dynamic_bytes ly k + spec_bytes (map fst gs)))"
    proof -
      have "ly_fixed_bytes ly1 = size_t_of (ly_fixed_bytes ly + n * ?w)" using 2(3) by simp
      then have "size_t_of (ly_fixed_bytes ly1 + (dynamic_bytes ly1 k + spec_bytes (map fst gs))) =
          size_t_of (ly_fixed_bytes ly + n * ?w + (dynamic_bytes ly k + spec_bytes (map fst gs)))"
        unfolding dyn by simp
      then show ?thesis by (simp only: ac_simps)
    qed
    also have "\<dots> = size_t_of (spec_bytes (map fst fs) + (ly_fixed_bytes ly + dynamic_bytes ly k + spec_bytes (map fst gs)))"
      by (rule size_t_add_cong [OF bytes refl])
    finally show ?thesis using ih b(3) by (simp add: ac_simps)
  qed
qed simp

text \<open>C16: A payload that passes the size check of the decoder is used up exactly: the scalars bound to
  the message take as many bytes as the payload has (as \<open>size_t\<close> counts), so none are left over and
  none are missing.\<close>
theorem decoded_payload_exact:
  assumes "measure_specs members 0 specs no_layout = Inr ly"
    and "dynamic_binding_count ly (length payload) = Inr count"
    and "bind_specs members (case (ly_dynamic ly, count) of (Some (i, len), Some n) \<Rightarrow> Some (i, n) | _ \<Rightarrow> None)
        0 specs initial = Inr (flat, message)"
    and "shaped members initial" "list_all (count_ok members) specs"
  shows "size_t_of (total_wire_size (map fst flat)) = size_t_of (length payload) \<and> shaped members message"
proof -
  define k where "k = (case count of Some n \<Rightarrow> n | None \<Rightarrow> 0)"
  have target: "(case (ly_dynamic ly, count) of (Some (i, len), Some n) \<Rightarrow> Some (i, n) | _ \<Rightarrow> None) = dynamic_target ly k"
    using assms(2) by (auto simp: dynamic_binding_count_def dynamic_target_def k_def split: option.splits if_splits)
  have "length payload = ly_fixed_bytes ly + dynamic_bytes ly k"
    using assms(2) by (auto simp: dynamic_binding_count_def dynamic_bytes_def k_def split: option.splits if_splits)
  then show ?thesis
    using bound_layout [OF assms(3) [unfolded target] assms(1,4,5)]
    by (simp add: spec_bytes_total no_layout_def dynamic_bytes_def)
qed

end
