(* ===== verification/Message_Decode.thy ===== *)
theory Message_Decode
  imports Message_Places Message_Sizes
begin

text \<open>
  Decoding never writes through an address that is not valid any more, for member lists that do not
  make a sequence grow again after an address in it was taken.
\<close>

section \<open>Stable member lists\<close>

definition path_of :: "bridge_member_spec \<Rightarrow> path_segment list option" where
  "path_of spec =
     (if ms_expression spec = []
      then (case parse_member_path (ms_target spec) of Inr path \<Rightarrow> Some path | Inl e \<Rightarrow> None) else None)"

text \<open>A later member needs no more of the last sequence an earlier one goes through than that one made
  sure of.\<close>

definition may_follow :: "message_members \<Rightarrow> bridge_member_spec \<Rightarrow> bridge_member_spec \<Rightarrow> bool" where
  "may_follow members first second =
     (case (path_of first, path_of second) of
        (Some p, Some q) \<Rightarrow>
          demands members p = [] \<or>
          list_all (\<lambda>(fds, need). fds \<noteq> fst (last (demands members p)) \<or>
              (case (need, snd (last (demands members p))) of (Some d, Some n) \<Rightarrow> d \<le> n | _ \<Rightarrow> False))
            (demands members q)
      | _ \<Rightarrow> True)"

definition stable_bindings :: "message_members \<Rightarrow> bridge_member_spec list \<Rightarrow> bool" where
  "stable_bindings members specs = sorted_wrt (may_follow members) specs"

lemma may_follow_spares:
  assumes "may_follow members first second" "path_of first = Some p" "path_of second = Some q" "fresh members p leaf place"
  shows "spares (demands members q) (rests_on place)"
proof (cases "rests_on place")
  case (Some base)
  obtain fds n where base: "base = (fds, n)" by fastforce
  have last: "demands members p \<noteq> []" "fst (last (demands members p)) = fds"
    "\<And>d. snd (last (demands members p)) = Some d \<Longrightarrow> d \<le> n"
    using assms(4) by (auto simp: fresh_def settled_def Some base)
  show ?thesis
    using assms(1-3) last
    by (fastforce simp: may_follow_def spares_def Some base list_all_iff split: option.splits)
qed (simp add: spares_def)

definition bound_ok_in :: "message_members \<Rightarrow> ros_value \<Rightarrow> flat_binding \<Rightarrow> bool" where
  "bound_ok_in members v fb =
     (case fb of (spec, None) \<Rightarrow> True | (spec, Some (leaf, place)) \<Rightarrow> typed_place members place leaf \<and> valid_place place v)"

lemma bind_stable:
  "bind_specs members dynamic i specs v = Inr (flat, v') \<Longrightarrow> shaped members v \<Longrightarrow> stable_bindings members specs \<Longrightarrow>
   shaped members v' \<and> list_all (bound_ok_in members v') flat \<and>
   (\<forall>place. valid_place place v \<longrightarrow> (\<forall>s\<in>set specs. \<forall>p. path_of s = Some p \<longrightarrow> spares (demands members p) (rests_on place)) \<longrightarrow>
      valid_place place v')"
proof (induction specs arbitrary: i v flat)
  case (Cons spec specs)
  let ?dyn = "case dynamic of Some (j, n) \<Rightarrow> if j = i then Some n else None | None \<Rightarrow> None"
  obtain fs v1 gs where b: "(if ms_expression spec \<noteq> [] then Inr ([(spec, None)], v)
       else sum_then (parse_member_path (ms_target spec)) (\<lambda>path.
         sum_then (collect_mutable_leaf_bindings members v path ?dyn) (\<lambda>(bs, v). Inr (map (\<lambda>b. (spec, Some b)) bs, v)))) =
      Inr (fs, v1)" "bind_specs members dynamic (Suc i) specs v1 = Inr (gs, v')" "flat = fs @ gs"
    using Cons.prems(1) by (auto simp: sum_then_Inr split: prod.splits)
  have later: "\<forall>s\<in>set specs. may_follow members spec s" "stable_bindings members specs"
    using Cons.prems(3) by (simp_all add: stable_bindings_def)
  show ?case
  proof (cases "ms_expression spec = []")
    case True
    then obtain path bs where p: "parse_member_path (ms_target spec) = Inr path"
      "collect_mutable_leaf_bindings members v path ?dyn = Inr (bs, v1)" "fs = map (\<lambda>b. (spec, Some b)) bs"
      using b(1) by (auto simp: sum_then_Inr)
    have path: "path_of spec = Some path" using True p(1) by (simp add: path_of_def)
    note ok = parsed_path [OF p(1), THEN conjunct1]
    note ih = Cons.IH [OF b(2) shaped_collect [OF p(2) Cons.prems(2)] later(2)]
    have "bound_ok_in members v' (spec, Some (leaf, place))" if "(leaf, place) \<in> set bs" for leaf place
    proof -
      have f: "fresh members path leaf place" "valid_place place v1"
        using collect_fresh [OF p(2) Cons.prems(2) ok] that by auto
      have "\<forall>s\<in>set specs. \<forall>q. path_of s = Some q \<longrightarrow> spares (demands members q) (rests_on place)"
        using later(1) may_follow_spares [OF _ path _ f(1)] by blast
      then show ?thesis using ih f by (simp add: bound_ok_in_def fresh_def)
    qed
    then have "list_all (bound_ok_in members v') fs" by (auto simp: p(3) list_all_iff)
    moreover have "valid_place place v1" if "valid_place place v" "spares (demands members path) (rests_on place)" for place
      using collect_spares [OF p(2) ok that] .
    ultimately show ?thesis using ih path b(3) by (auto simp: list_all_iff)
  next
    case False
    then have "fs = [(spec, None)]" "v1 = v" using b(1) by simp_all
    then show ?thesis using Cons.IH [OF b(2) _ later(2)] Cons.prems(2) b(3) by (simp add: bound_ok_in_def)
  qed
qed simp

section \<open>Storing the decoded scalars\<close>

definition goes_well :: "message_members \<Rightarrow> ros_value outcome \<Rightarrow> bool" where
  "goes_well members r = (case r of None \<Rightarrow> False | Some (Inl e) \<Rightarrow> True | Some (Inr v) \<Rightarrow> shaped members v)"

lemma store_decoded_well:
  "list_all (\<lambda>(s, fb). bound_ok_in members v fb) pairs \<Longrightarrow> shaped members v \<Longrightarrow>
   goes_well members (out_then (store_decoded pairs de v) (\<lambda>(de, v). Some (Inr v)))"
proof (induction pairs arbitrary: de v)
  case (Cons pair pairs)
  obtain s spec b where pair: "pair = (s, spec, b)" by (cases pair) auto
  show ?case
  proof (cases b)
    case None
    then show ?thesis using Cons by (simp add: pair Let_def)
  next
    case (Some target)
    obtain leaf place where target: "target = (leaf, place)" by fastforce
    define r where "r = (case coerce_incoming_integer s of Some n \<Rightarrow> write_integer leaf n
      | None \<Rightarrow> write_numeric leaf (coerce_incoming s spec))"
    have kind: "\<And>t. r = Inr t \<Longrightarrow> mm_type leaf = scalar_kind t"
      by (auto simp: r_def split: option.splits dest: write_integer_kind write_numeric_kind)
    have ok: "typed_place members place leaf" "valid_place place v"
      using Cons.prems(1) by (auto simp: pair Some target bound_ok_in_def)
    note st = store_typed [where result = r, OF ok(1) Cons.prems(2) ok(2) kind]
    have step: "\<exists>de'. store_decoded (pair # pairs) de v = out_then (store place r v) (store_decoded pairs de')"
      by (simp add: pair Some target Let_def r_def cong: option.case_cong) blast
    then obtain de' where step: "store_decoded (pair # pairs) de v = out_then (store place r v) (store_decoded pairs de')" ..
    show ?thesis
    proof (cases "store place r v")
      case None
      then show ?thesis using st by simp
    next
      case (Some res)
      show ?thesis
      proof (cases res)
        case (Inl e)
        then show ?thesis by (simp add: step Some goes_well_def)
      next
        case (Inr v1)
        then have v1: "shaped members v1" "form v1 = form v" using st Some by auto
        have "list_all (\<lambda>(s, fb). bound_ok_in members v1 fb) pairs"
          using Cons.prems(1) form_valid [OF v1(2)]
          by (auto simp: list_all_iff bound_ok_in_def split: option.splits)
        then show ?thesis using Cons.IH [OF _ v1(1)] by (simp add: step Some Inr)
      qed
    qed
  qed
qed (simp add: goes_well_def)

section \<open>Assignments\<close>

definition assignment_ok :: "bridge_assignment_spec \<Rightarrow> bool" where
  "assignment_ok a = (case parse_member_path (as_target a) of
     Inr path \<Rightarrow> list_all (\<lambda>seg. sg_index seg \<noteq> kIntMax) path | Inl e \<Rightarrow> True)"

lemma put_below_element: "put_below [Field i, element_step member g j] field w v = put_field i (put_element j w field) v"
  by (simp add: put_below_def element_step_def)

lemma put_same: "field_at v i = Inr w \<Longrightarrow> put_field i w v = v" "element_at v i = Inr w \<Longrightarrow> put_element i w v = v"
  by (auto simp: field_at_Inr element_at_Inr put_field_def put_element_def)

text \<open>One step of a mutable scalar path.\<close>

lemma pointer_cases:
  assumes "get_mutable_member_pointer v i member index = Some (Inr (steps, field, leaf))" "shaped members v"
    and "find_member members name = Inr (i, member)"
  shows "shaped_cell member leaf \<and>
    (\<forall>w. shaped_cell member w \<longrightarrow> shaped members (put_below steps field w v)) \<and>
    (\<forall>w place target. typed_cell member place target \<longrightarrow> valid_place place w \<longrightarrow>
      typed_place members (steps @ place) target \<and> valid_place (steps @ place) (put_below steps field w v))"
proof -
  obtain field0 where f: "field_at v i = Inr field0"
    using assms(1) by (auto simp: get_mutable_member_pointer_def out_then_Inr)
  note shape = shaped_field_at [OF assms(2,3) f]
  have i: "i < length members" "members ! i = member" using find_member_Inr [OF assms(3)] by auto
  show ?thesis
  proof (cases "mm_array member = Not_array")
    case True
    then have s: "steps = [Field i]" "field = field0" "leaf = field0"
      using assms(1) f by (auto simp: get_mutable_member_pointer_def split: if_splits)
    show ?thesis
      unfolding s
    proof (intro conjI allI impI)
      show "shaped_cell member field0" by (rule shaped_single [OF shape True])
      show "shaped members (put_below [Field i] field0 w v)" if "shaped_cell member w" for w
        using shaped_put_field [OF assms(2,3) single [OF True that]] by (simp add: put_below_def)
      show "typed_place members ([Field i] @ place) target" if "typed_cell member place target" for place target
        using single_field [OF i(1)] True that by (simp add: i(2))
      show "valid_place ([Field i] @ place) (put_below [Field i] field0 w v)" if "valid_place place w" for place w
        using f that by (auto simp: put_below_def put_field_def field_at_Inr)
    qed
  next
    case False
    define grown where "grown = (if is_dynamic_array_member member
      then ensure_size member (plain_segment (mm_name member)) (nat index + 1) field0 else Inr field0)"
    have "sum_then grown (\<lambda>field. if array_size member field \<le> nat index
        then Inl (Runtime_error (''Array index out of range for member: '' @ mm_name member))
        else if \<not> mm_accessors member
        then Inl (Runtime_error (''Array member lacks mutable accessor: '' @ mm_name member))
        else sum_then (element_at field (nat index)) (\<lambda>element.
          Inr ([Field i, element_step member field (nat index)], field, element))) = Inr (steps, field, leaf)"
      using assms(1) f False
      by (simp add: get_mutable_member_pointer_def flip: grown_def split: if_split_asm)
    then obtain field1 where g: "grown = Inr field1"
        "element_at field1 (nat index) = Inr leaf" "steps = [Field i, element_step member field1 (nat index)]" "field = field1"
      by (auto simp: sum_then_Inr split: if_splits)
    have shape1: "shaped_field member field1"
      using g(1) shape shaped_ensure by (auto simp: grown_def split: if_splits)
    have "shaped members (put_field i (put_element (nat index) w field1) v)" if "shaped_cell member w" for w
      using shaped_put_field [OF assms(2,3) shaped_put_element [OF shape1 False that]] .
    moreover have "valid_place (Field i # element_step member field1 (nat index) # place)
        (put_field i (put_element (nat index) w field1) v)" if "valid_place place w" for place w
      using that f g(2) by (auto simp: field_at_Inr element_at_Inr put_field_def put_element_def element_step_def)
    moreover have "typed_place members (Field i # element_step member field1 (nat index) # place) target"
      if "typed_cell member place target" for place target
      using that i False fixed_field [of i members] sequence_field [of i members]
      by (cases "mm_array member") (auto simp: element_step_def is_dynamic_array_member_def)
    ultimately show ?thesis
      using shaped_element [OF shape1 False g(2)] by (simp add: g(3,4) put_below_element)
  qed
qed

lemma pointer_defined: "index \<noteq> kIntMax \<Longrightarrow> get_mutable_member_pointer v i member index \<noteq> None"
  by (auto simp: get_mutable_member_pointer_def out_then_None)

lemma resolve_mutable:
  "list_all (\<lambda>seg. sg_index seg \<noteq> kIntMax) path \<Longrightarrow> shaped members v \<Longrightarrow>
   (case resolve_leaf_member_mutable members v path of None \<Rightarrow> False | Some (Inl e) \<Rightarrow> True
    | Some (Inr (leaf, place, v')) \<Rightarrow> shaped members v' \<and> typed_place members place leaf \<and> valid_place place v')"
proof (induction path arbitrary: members v)
  case (Cons seg path)
  show ?case
  proof (cases "find_member members (sg_name seg)")
    case (Inr im)
    obtain i member where m: "im = (i, member)" by fastforce
    note find = Inr [unfolded m]
    show ?thesis
    proof (cases "get_mutable_member_pointer v i member (sg_index seg)")
      case None
      then show ?thesis using pointer_defined [of "sg_index seg" v i member] Cons.prems(1) by simp
    next
      case (Some r)
      show ?thesis
      proof (cases r)
        case (Inl e)
        then show ?thesis using find Some by simp
      next
        case (Inr slf)
        obtain steps field leaf where slf: "slf = (steps, field, leaf)" by (cases slf) auto
        have pointer: "get_mutable_member_pointer v i member (sg_index seg) = Some (Inr (steps, field, leaf))"
          using Some Inr slf by simp
        note pc = pointer_cases [OF pointer Cons.prems(2) find]
        show ?thesis
        proof (cases "path = [] \<or> mm_type member \<noteq> ROS_TYPE_MESSAGE")
          case True
          then show ?thesis using pc find pointer here [of member] by fastforce
        next
          case False
          then have message: "mm_type member = ROS_TYPE_MESSAGE" "path \<noteq> []" by auto
          show ?thesis
          proof (cases "get_nested_members member")
            case (Inl e)
            then show ?thesis using find pointer message by simp
          next
            case (Inr nested)
            have ih: "case resolve_leaf_member_mutable nested leaf path of None \<Rightarrow> False | Some (Inl e) \<Rightarrow> True
              | Some (Inr (target, place, w)) \<Rightarrow> shaped nested w \<and> typed_place nested place target \<and> valid_place place w"
              using Cons.IH Cons.prems(1) shaped_nested [OF _ message(1) Inr] pc by simp
            have ms: "mm_members member = Some nested" using Inr by (auto simp: get_nested_members_def split: option.splits)
            show ?thesis
            proof (cases "resolve_leaf_member_mutable nested leaf path")
              case None
              then show ?thesis using ih by simp
            next
              case (Some r)
              show ?thesis
              proof (cases r)
                case (Inl e)
                then show ?thesis using find pointer message \<open>get_nested_members member = Inr nested\<close> Some by simp
              next
                case (Inr tpw)
                obtain target place w where tpw: "tpw = (target, place, w)" by (cases tpw) auto
                then have w: "shaped nested w" "typed_place nested place target" "valid_place place w"
                  using ih Some Inr by auto
                have "typed_cell member place target" "shaped_cell member w"
                  using inside [OF message(1) ms w(2)] shaped_message_cell [OF message(1) _ w(1)]
                    \<open>get_nested_members member = Inr nested\<close> by auto
                then have "shaped members (put_below steps field w v)" "typed_place members (steps @ place) target"
                  "valid_place (steps @ place) (put_below steps field w v)" using pc w(3) by blast+
                then show ?thesis
                  using find pointer message \<open>get_nested_members member = Inr nested\<close> Some Inr tpw by simp
              qed
            qed
          qed
        qed
      qed
    qed
  qed simp
qed simp

lemma write_field_well:
  assumes "case parse_member_path target of Inr path \<Rightarrow> list_all (\<lambda>seg. sg_index seg \<noteq> kIntMax) path | Inl e \<Rightarrow> True"
    and "shaped members v"
  shows "goes_well members (write_expression_field members v target d)"
    and "goes_well members (write_expression_integer_field members v target n)"
proof -
  have "goes_well members (out_then (Some (parse_member_path target)) (\<lambda>segs.
      out_then (resolve_leaf_member_mutable members v segs) (\<lambda>(member, place, message).
        store place (w member) message)))"
    if kind: "\<And>member s. w member = Inr s \<Longrightarrow> mm_type member = scalar_kind s" for w
  proof (cases "parse_member_path target")
    case (Inl e)
    then show ?thesis by (simp add: goes_well_def)
  next
    case (Inr path)
    note r = resolve_mutable [of path members v] 
    show ?thesis
    proof (cases "resolve_leaf_member_mutable members v path")
      case None
      then show ?thesis using r assms Inr by simp
    next
      case (Some res)
      show ?thesis
      proof (cases res)
        case (Inl e)
        then show ?thesis using Some \<open>parse_member_path target = Inr path\<close> by (simp add: goes_well_def)
      next
        case (Inr lpm)
        obtain leaf place w' where l: "lpm = (leaf, place, w')" by (cases lpm) auto
        then have t: "shaped members w'" "typed_place members place leaf" "valid_place place w'"
          using r assms Some Inr \<open>parse_member_path target = Inr path\<close> by auto
        show ?thesis
          using store_typed [where result = "w leaf", OF t(2,1,3) kind] Some Inr l \<open>parse_member_path target = Inr path\<close>
          by (auto simp: goes_well_def split: option.splits sum.splits)
      qed
    qed
  qed
  note this [of "\<lambda>member. write_numeric member d"] this [of "\<lambda>member. write_integer member n"]
  then show "goes_well members (write_expression_field members v target d)"
    "goes_well members (write_expression_integer_field members v target n)"
    using write_numeric_kind write_integer_kind
    by (simp_all add: write_expression_field_def write_expression_integer_field_def)
qed

lemma goes_well_then: "goes_well members r \<Longrightarrow> (\<And>v. shaped members v \<Longrightarrow> goes_well members (f v)) \<Longrightarrow> goes_well members (out_then r f)"
  by (cases r) (auto simp: goes_well_def out_then_def split: sum.splits)

lemma goes_well_try: "(\<And>x. r = Inr x \<Longrightarrow> goes_well members (f x)) \<Longrightarrow> goes_well members (out_then (Some r) f)"
  by (cases r) (auto simp: goes_well_def)

lemma run_assignments_well:
  "list_all assignment_ok as \<Longrightarrow> shaped members v \<Longrightarrow> goes_well members (run_assignments m members de as v)"
proof (induction as arbitrary: v)
  case (Cons a as)
  have a: "case parse_member_path (as_target a) of Inr path \<Rightarrow> list_all (\<lambda>seg. sg_index seg \<noteq> kIntMax) path | Inl e \<Rightarrow> True"
    using Cons.prems(1) by (auto simp: assignment_ok_def split: sum.splits)
  have rest: "goes_well members (run_assignments m members de as w)" if "shaped members w" for w
    using Cons that by simp
  have float: "goes_well members (out_then (evaluate_math_expression m (as_expression a) (resolve_decoded de))
      (\<lambda>d. write_expression_field members v (as_target a) d))"
  proof (cases "evaluate_math_expression m (as_expression a) (resolve_decoded de)")
    case None
    then show ?thesis using evaluate_math_total [of m "as_expression a" "resolve_decoded de"] by simp
  next
    case (Some r)
    show ?thesis unfolding Some by (rule goes_well_try) (rule write_field_well(1) [OF a Cons.prems(2)])
  qed
  show ?case
  proof (cases "try_evaluate_integer_expression (as_expression a) (resolve_decoded_integer de)")
    case None
    then show ?thesis using try_evaluate_total by blast
  next
    case (Some r)
    have "goes_well members (case exact of
        Some n \<Rightarrow> write_expression_integer_field members v (as_target a) n
      | None \<Rightarrow> out_then (evaluate_math_expression m (as_expression a) (resolve_decoded de))
          (\<lambda>d. write_expression_field members v (as_target a) d))" for exact
      using float write_field_well(2) [OF a Cons.prems(2)] by (cases exact) simp_all
    then show ?thesis
      unfolding run_assignments.simps Some by (intro goes_well_try goes_well_then rest)
  qed
qed (simp add: goes_well_def)


section \<open>A sequence that grows twice\<close>

text \<open>A message with a sequence \<open>points\<close> of messages with one byte \<open>x\<close>.\<close>

definition point_members :: message_members where
  "point_members = [Message_member ''points'' ROS_TYPE_MESSAGE (Dynamic_array None) True
     (Some [Message_member ''x'' ROS_TYPE_UINT8 Not_array False None (Scalar (S_uint8 0))])
     (Message [Scalar (S_uint8 0)])]"

definition point_support :: message_support where
  "point_support = \<lparr>su_members = point_members, su_initial = Message [Elements []],
     su_deserialize = \<lambda>bytes. Inr (Message [Elements []]), su_serialize = \<lambda>v. Inr []\<rparr>"

definition byte_member :: "string \<Rightarrow> bridge_member_spec" where
  "byte_member target = \<lparr>ms_target = target, ms_value_type = ''uint8'', ms_expression = []\<rparr>"

lemma point_paths:
  "parse_member_path ''points[0].x'' = Inr [(plain_segment ''points'')\<lparr>sg_index := 0\<rparr>, plain_segment ''x'']"
  "parse_member_path ''points[1].x'' = Inr [(plain_segment ''points'')\<lparr>sg_index := 1\<rparr>, plain_segment ''x'']"
  by (simp_all add: parse_member_path_def parse_segments.simps parse_segment_def parse_selector_def
    parse_non_negative_int_def Let_def char_class_defs is_space_def is_ascii_ws_def digits_value_def digit_value_def
    trim_copy_def stoi_def substr_def plain_segment_def kIntMax_def trim_ws_def strip_def char_code_def)

lemmas point_defs = point_members_def point_support_def byte_member_def point_paths plain_segment_def find_member_def
  get_nested_members_def is_selector_present_def

lemma point_layout:
  "measure_specs point_members 0 [byte_member ''points[0].x'', byte_member ''points[1].x''] no_layout =
     Inr \<lparr>ly_fixed_bytes = 2, ly_dynamic = None\<rparr>"
  "measure_specs point_members 0 [byte_member ''points[1].x'', byte_member ''points[0].x''] no_layout =
     Inr \<lparr>ly_fixed_bytes = 2, ly_dynamic = None\<rparr>"
  by (simp_all add: point_defs measure_spec_def binding_count_def selected_count_def no_layout_def size_t_of_def
    kDynamicBindingCount_def member_wire_size_def wire_size_def kTypeInfo_def)

lemma point_bindings:
  "bind_specs point_members None 0 [byte_member ''points[0].x'', byte_member ''points[1].x''] (Message [Elements []]) =
     Inr ([(byte_member ''points[0].x'', Some (Message_member ''x'' ROS_TYPE_UINT8 Not_array False None (Scalar (S_uint8 0)),
             [Field 0, Sequence_element 0 1, Field 0])),
           (byte_member ''points[1].x'', Some (Message_member ''x'' ROS_TYPE_UINT8 Not_array False None (Scalar (S_uint8 0)),
             [Field 0, Sequence_element 1 2, Field 0]))],
          Message [Elements [Message [Scalar (S_uint8 0)], Message [Scalar (S_uint8 0)]]])"
  by (simp add: point_defs select_indices_mutable_def ensure_size_def is_dynamic_array_member_def field_at_def element_at_def
    element_step_def below_def put_field_def put_element_def Let_def)

lemma point_scalars:
  "decode_struct_payload [a, b] [byte_member t, byte_member u] = Inr [S_uint8 a, S_uint8 b]"
  by (simp add: decode_struct_payload_def unpack_value_def byte_member_def member_wire_size_def wire_size_def
    kTypeInfo_def substr_def Let_def)

text \<open>C17: The list \<open>points[0].x, points[1].x\<close> is a valid configuration whose decoding writes through
  a dangling pointer: the second member resizes \<open>points\<close> after the address of its first element was
  taken. Every payload of the right size does it, and the condition of \<open>stable_bindings\<close> tells.\<close>
theorem regrown_sequence_dangles:
  "decode_payload m point_support [a, b] [byte_member ''points[0].x'', byte_member ''points[1].x''] ''packed'' [] = None \<and>
   \<not> stable_bindings point_members [byte_member ''points[0].x'', byte_member ''points[1].x''] \<and>
   stable_bindings point_members [byte_member ''points[1].x'', byte_member ''points[0].x'']"
proof (intro conjI)
  have members: "su_members point_support = point_members" "su_initial point_support = Message [Elements []]"
    by (simp_all add: point_support_def)
  have stored: "write_integer (Message_member ''x'' ROS_TYPE_UINT8 Not_array False None (Scalar (S_uint8 0))) (uint b) =
      Inr (S_uint8 b)" for b
    using word_ranges(3) [of b] by (simp add: write_integer_def checked_ros_exact_def to_scalar_def)
  have "decode_message m point_support [a, b] [byte_member ''points[0].x'', byte_member ''points[1].x''] [] = None"
    unfolding decode_message_def members point_layout
    by (simp add: dynamic_binding_count_def point_bindings point_scalars Let_def store_def stored through_sequence_def
        del: bind_specs.simps)
  then show "decode_payload m point_support [a, b] [byte_member ''points[0].x'', byte_member ''points[1].x''] ''packed'' [] = None"
    by (simp add: decode_payload_def)
  show "\<not> stable_bindings point_members [byte_member ''points[0].x'', byte_member ''points[1].x'']"
    "stable_bindings point_members [byte_member ''points[1].x'', byte_member ''points[0].x'']"
    by (simp_all add: stable_bindings_def may_follow_def path_of_def point_defs is_dynamic_array_member_def needed_size_def)
qed

lemma point_members_support: "su_members point_support = point_members" "su_initial point_support = Message [Elements []]"
  by (simp_all add: point_support_def)

lemma shaped_points: "shaped point_members (Message [Elements []])"
proof -
  have "shaped_cell (Message_member ''points'' ROS_TYPE_MESSAGE (Dynamic_array None) True
     (Some [Message_member ''x'' ROS_TYPE_UINT8 Not_array False None (Scalar (S_uint8 0))])
     (Message [Scalar (S_uint8 0)])) (Message [Scalar (S_uint8 0)])"
    by (auto intro!: nested whole single scalar)
  then show ?thesis by (auto simp: point_members_def intro!: whole sequence)
qed


text \<open>The size check of the decoder on the same list.\<close>

theorem decoded_payload_exact_witness:
  "size_t_of (total_wire_size [byte_member ''points[0].x'', byte_member ''points[1].x'']) = size_t_of 2"
proof -
  have counts: "list_all (count_ok point_members) [byte_member ''points[0].x'', byte_member ''points[1].x'']"
    by (simp add: count_ok_def binding_count_def point_defs selected_count_def size_t_of_def kDynamicBindingCount_def)
  show ?thesis
    using decoded_payload_exact [OF point_layout(1), of "[1, 2]" None, OF _ _ shaped_points counts]
    by (simp add: dynamic_binding_count_def point_bindings numeral_2_eq_2 del: bind_specs.simps)
qed

text \<open>The encoder on a sequence of bytes of any length.\<close>

definition data_members :: message_members where
  "data_members = [Message_member ''data'' ROS_TYPE_UINT8 (Dynamic_array None) True None (Scalar (S_uint8 0))]"

theorem encoded_payload_accepted_witness:
  "\<exists>count. dynamic_binding_count \<lparr>ly_fixed_bytes = 0, ly_dynamic = Some (0, 1)\<rparr> (length [7 :: u8, 9]) = Inr count"
proof (rule encoded_payload_accepted)
  have path: "parse_member_path ''data'' = Inr [plain_segment ''data'']"
    by (simp add: parse_member_path_def parse_segments.simps parse_segment_def plain_segment_def)
  note defs = data_members_def byte_member_def path plain_segment_def find_member_def is_selector_present_def
  show "encode_specs m data_members (Message [Elements [Scalar (S_uint8 7), Scalar (S_uint8 9)]]) [byte_member ''data''] =
      Some (Inr [(S_uint8 7, byte_member ''data''), (S_uint8 9, byte_member ''data'')])" for m
    by (simp add: encode_spec_def defs select_indices_const_def field_at_def element_at_def Let_def upt_rec
        encode_leaf_def read_integer_def leaf_scalar_def coerce_outgoing_integer_def checked_exact_def to_scalar_def)
  show "encode_struct_payload (map fst [(S_uint8 7, byte_member ''data''), (S_uint8 9, byte_member ''data'')])
      (map snd [(S_uint8 7, byte_member ''data''), (S_uint8 9, byte_member ''data'')]) = Some (Inr [7, 9])"
    by (simp add: encode_struct_payload_def pack_value_def byte_member_def member_wire_size_def wire_size_def kTypeInfo_def Let_def)
  show "measure_specs data_members 0 [byte_member ''data''] no_layout = Inr \<lparr>ly_fixed_bytes = 0, ly_dynamic = Some (0, 1)\<rparr>"
    by (simp add: defs measure_spec_def binding_count_def selected_count_def no_layout_def is_dynamic_array_member_def
      member_wire_size_def wire_size_def kTypeInfo_def)
  show "shaped data_members (Message [Elements [Scalar (S_uint8 7), Scalar (S_uint8 9)]])"
    by (auto simp: data_members_def intro!: whole sequence scalar)
  show "list_all (count_ok data_members) [byte_member ''data'']"
    by (simp add: count_ok_def open_spec_def defs open_segment_def is_dynamic_array_member_def)
  show "list_all (\<lambda>s. member_wire_size s \<noteq> 0) [byte_member ''data'']"
    by (simp add: byte_member_def member_wire_size_def wire_size_def kTypeInfo_def)
qed simp

end
