(* ===== verification/Overlay_Manager.thy ===== *)
theory Overlay_Manager
  imports Util_Strings Config_Models
begin

text \<open>
  Configuration overlays: \<open>src/config/overlay_config_manager.cpp\<close>. An overlay replaces the default
  configuration while its keepalive topic has a publisher. Loading and merging the YAML files
  (\<open>load_effective_config\<close>), the listeners, the file system and the ROS graph are the environment.
\<close>

section \<open>Environment\<close>

fun what :: "std_error \<Rightarrow> string" where
  "what (Runtime_error s) = s"
| "what (Invalid_argument s) = s"
| "what (Out_of_range s) = s"
| "what (Length_error s) = s"

text \<open>Every call of a listener, in order: its number and the configuration it was given. A listener may
  throw, depending on all calls so far (the last one is its own). \<open>std::filesystem::is_regular_file\<close> throws
  when the file cannot be examined.\<close>

type_synonym deliveries = "(nat \<times> node_config) list"

record overlay_world =
  ow_load :: "string \<Rightarrow> string \<Rightarrow> string \<Rightarrow> std_error + node_config"
  ow_throws :: "deliveries \<Rightarrow> std_error option"
  ow_is_regular_file :: "string \<Rightarrow> std_error + bool"
  ow_saves :: "string \<Rightarrow> std_error + bool"
  ow_removes :: bool

section \<open>State\<close>

definition kRestartLeaseGrace :: ticks where "kRestartLeaseGrace = 5 * ns_per_s"
definition kRequiredMisses :: int where "kRequiredMisses = 3"
definition kRevertRetryDelay :: ticks where "kRevertRetryDelay = 30 * ns_per_s"

text \<open>The last two fields are outside the program: the file at \<open>runtime_state_path_\<close> and what the
  listeners were told.\<close>

record overlay_manager =
  om_default_config_path :: string
  om_hostname :: string
  om_runtime_state_path :: string
  om_config :: node_config
  om_overlay_path :: string
  om_active_source :: string
  om_keepalive_topic :: string
  om_keepalive_miss_count :: int
  om_lease_hold_until :: ticks
  om_overlay_connected_baseline :: "string set"
  om_callbacks :: nat
  om_state_file :: "string option"
  om_delivered :: deliveries

definition new_overlay_manager :: "string \<Rightarrow> string \<Rightarrow> string option \<Rightarrow> string option \<Rightarrow> overlay_manager" where
  "new_overlay_manager default_config_path hostname runtime_dir state_file = \<lparr>
     om_default_config_path = default_config_path, om_hostname = hostname,
     om_runtime_state_path =
       (case runtime_dir of None \<Rightarrow> [] | Some d \<Rightarrow> d @ ''/mrs_uav_bluetooth-active-overlay.txt''),
     om_config = default_node_config, om_overlay_path = [], om_active_source = [], om_keepalive_topic = [],
     om_keepalive_miss_count = 0, om_lease_hold_until = 0, om_overlay_connected_baseline = {},
     om_callbacks = 0, om_state_file = state_file, om_delivered = []\<rparr>"

definition on_config_changed :: "overlay_manager \<Rightarrow> overlay_manager" where
  "on_config_changed s = s\<lparr>om_callbacks := om_callbacks s + 1\<rparr>"

section \<open>The saved overlay\<close>

text \<open>The first line of a text, as \<open>std::getline\<close> reads it.\<close>

definition first_line :: "string \<Rightarrow> string" where
  "first_line = takeWhile (\<lambda>c. c \<noteq> CHR 0x0A)"

definition clear_persisted_overlay :: "overlay_world \<Rightarrow> overlay_manager \<Rightarrow> overlay_manager" where
  "clear_persisted_overlay w s =
     (if om_runtime_state_path s = [] \<or> \<not> ow_removes w then s else s\<lparr>om_state_file := None\<rparr>)"

text \<open>\<open>ow_saves\<close>: writing the temporary file and renaming it both succeed. Otherwise the old file stays; and
  when the renaming fails, \<open>std::filesystem::remove\<close> of the temporary file may throw.\<close>

definition persist_overlay_path ::
    "overlay_world \<Rightarrow> string \<Rightarrow> overlay_manager \<Rightarrow> overlay_manager \<times> std_error option" where
  "persist_overlay_path w overlay_path s =
     (if om_runtime_state_path s = [] then (s, None)
      else case ow_saves w overlay_path of
        Inl e \<Rightarrow> (s, Some e)
      | Inr saved \<Rightarrow> (if saved then s\<lparr>om_state_file := Some (overlay_path @ [CHR 0x0A])\<rparr> else s, None))"

definition restored_overlay_path ::
    "overlay_world \<Rightarrow> overlay_manager \<Rightarrow> overlay_manager \<times> (std_error + string)" where
  "restored_overlay_path w s =
     (case om_state_file s of
        None \<Rightarrow> (s, Inr [])
      | Some text \<Rightarrow>
          if om_runtime_state_path s = [] \<or> first_line text = [] then (s, Inr [])
          else
            case ow_is_regular_file w (first_line text) of
              Inl e \<Rightarrow> (s, Inl e)
            | Inr regular \<Rightarrow>
                if regular then (s, Inr (first_line text)) else (clear_persisted_overlay w s, Inr []))"

section \<open>Transitions\<close>

text \<open>The listeners in order of registration, until one throws.\<close>

fun notify_from :: "overlay_world \<Rightarrow> nat list \<Rightarrow> overlay_manager \<Rightarrow> overlay_manager \<times> std_error option" where
  "notify_from w [] s = (s, None)"
| "notify_from w (k # ks) s =
     (let s = s\<lparr>om_delivered := om_delivered s @ [(k, om_config s)]\<rparr> in
      case ow_throws w (om_delivered s) of
        Some e \<Rightarrow> (s, Some e)
      | None \<Rightarrow> notify_from w ks s)"

definition notify :: "overlay_world \<Rightarrow> overlay_manager \<Rightarrow> overlay_manager \<times> std_error option" where
  "notify w s = notify_from w [0..<om_callbacks s] s"

definition apply_config :: "overlay_world \<Rightarrow> string \<Rightarrow> overlay_manager \<Rightarrow> overlay_manager \<times> std_error option" where
  "apply_config w overlay s =
     (case ow_load w (om_default_config_path s) overlay (om_hostname s) of
        Inl e \<Rightarrow> (s, Some e)
      | Inr cfg \<Rightarrow>
          (case node_prefix (om_hostname s) of
             Inl e \<Rightarrow> (s, Some e)
           | Inr prefix \<Rightarrow>
               let suffix = sanitize_topic_suffix (overlay_keepalive_topic_suffix cfg);
                   applied = s\<lparr>om_config := cfg,
                     om_active_source := (if overlay = [] then om_default_config_path s else overlay),
                     om_keepalive_topic := prefix @ ''/config/'' @ suffix\<rparr>
               in case notify w applied of
                    (s1, None) \<Rightarrow> (s1, None)
                  | (s1, Some e) \<Rightarrow>
                      let s2 = s1\<lparr>om_config := om_config s, om_active_source := om_active_source s,
                                  om_keepalive_topic := om_keepalive_topic s\<rparr>
                      in (if om_active_source s \<noteq> [] then fst (notify w s2) else s2, Some e)))"

text \<open>\<open>load_initial\<close> propagates what its last \<open>apply_config\<close> throws.\<close>

definition load_initial :: "overlay_world \<Rightarrow> ticks \<Rightarrow> overlay_manager \<Rightarrow> overlay_manager \<times> std_error option" where
  "load_initial w now s =
     (case restored_overlay_path w s of
        (s, Inl e) \<Rightarrow> (s, Some e)
      | (s, Inr restored) \<Rightarrow>
        if restored = [] then apply_config w [] s
        else
          case apply_config w restored
              (s\<lparr>om_overlay_path := restored, om_keepalive_miss_count := 0,
                 om_lease_hold_until := now + kRestartLeaseGrace\<rparr>) of
            (s, None) \<Rightarrow> (s, None)
          | (s, Some e) \<Rightarrow>
              apply_config w [] (clear_persisted_overlay w (s\<lparr>om_overlay_path := [], om_keepalive_miss_count := 0\<rparr>)))"

definition revert_to_default :: "overlay_world \<Rightarrow> overlay_manager \<Rightarrow> overlay_manager \<times> bool \<times> string" where
  "revert_to_default w s =
     (case apply_config w [] s of
        (s, None) \<Rightarrow>
          ((clear_persisted_overlay w s)\<lparr>om_overlay_path := [], om_keepalive_miss_count := 0,
             om_overlay_connected_baseline := {}\<rparr>, True, ''Reverted to default config'')
      | (s, Some e) \<Rightarrow> (s, False, ''Failed to revert: '' @ what e))"

text \<open>\<open>hold_seconds\<close> is \<open>None\<close> when it is not finite.\<close>

definition activate_overlay ::
    "overlay_world \<Rightarrow> ticks \<Rightarrow> string \<Rightarrow> seconds option \<Rightarrow> overlay_manager
      \<Rightarrow> overlay_manager \<times> (std_error + bool \<times> string)" where
  "activate_overlay w now overlay_path hold_seconds s =
     (case hold_seconds of
        None \<Rightarrow> (s, Inr (False, ''hold_seconds must be finite and nonnegative''))
      | Some hold \<Rightarrow>
          if hold < 0 then (s, Inr (False, ''hold_seconds must be finite and nonnegative''))
          else if overlay_path = [] then
            (case revert_to_default w s of (s, answer) \<Rightarrow> (s, Inr answer))
          else
            case ow_is_regular_file w overlay_path of
              Inl e \<Rightarrow> (s, Inl e)
            | Inr regular \<Rightarrow>
              if \<not> regular then (s, Inr (False, ''Overlay file not found: '' @ overlay_path))
              else if overlay_path = om_overlay_path s then
                (case persist_overlay_path w overlay_path
                    (s\<lparr>om_keepalive_miss_count := 0, om_lease_hold_until := now + seconds_to_ticks hold\<rparr>) of
                   (s, None) \<Rightarrow> (s, Inr (True, ''Overlay already active: '' @ overlay_path))
                 | (s, Some e) \<Rightarrow> (s, Inl e))
              else
                let refused = (\<lambda>t e. (t\<lparr>om_overlay_path := om_overlay_path s\<rparr>,
                                 Inr (False, ''Failed to activate overlay: '' @ what e))) in
                case apply_config w overlay_path
                    (s\<lparr>om_overlay_path := overlay_path, om_keepalive_miss_count := 0,
                       om_lease_hold_until := now + seconds_to_ticks hold\<rparr>) of
                  (t, Some e) \<Rightarrow> refused t e
                | (t, None) \<Rightarrow>
                    case persist_overlay_path w overlay_path t of
                      (t, Some e) \<Rightarrow> refused t e
                    | (t, None) \<Rightarrow> (t, Inr (True, ''Activated overlay: '' @ overlay_path)))"

definition reload :: "overlay_world \<Rightarrow> overlay_manager \<Rightarrow> overlay_manager \<times> bool \<times> string" where
  "reload w s =
     (case apply_config w (om_overlay_path s) s of
        (s, None) \<Rightarrow> (s, True, ''Config reloaded'')
      | (s, Some e) \<Rightarrow> (s, False, ''Reload failed: '' @ what e))"

text \<open>\<open>has_publishers\<close>: the ROS graph has a publisher of the keepalive topic; false when it could not
  be asked. \<open>later\<close> is the clock after a failed return.\<close>

definition check_lease :: "overlay_world \<Rightarrow> ticks \<Rightarrow> bool \<Rightarrow> ticks \<Rightarrow> overlay_manager \<Rightarrow> overlay_manager" where
  "check_lease w now has_publishers later s =
     (if om_overlay_path s = [] \<or> now < om_lease_hold_until s \<or> om_keepalive_topic s = [] then s
      else if has_publishers then s\<lparr>om_keepalive_miss_count := 0\<rparr>
      else
        let s = s\<lparr>om_keepalive_miss_count := om_keepalive_miss_count s + 1\<rparr> in
        if om_keepalive_miss_count s < kRequiredMisses then s
        else
          case revert_to_default w (s\<lparr>om_keepalive_miss_count := 0\<rparr>) of
            (s, True, message) \<Rightarrow> s
          | (s, False, message) \<Rightarrow> s\<lparr>om_lease_hold_until := later + kRevertRetryDelay\<rparr>)"

section \<open>Queries and the connection baseline\<close>

definition overlay_active :: "overlay_manager \<Rightarrow> bool" where
  "overlay_active s \<longleftrightarrow> om_overlay_path s \<noteq> []"

definition capture_connection_baseline :: "string set \<Rightarrow> overlay_manager \<Rightarrow> overlay_manager" where
  "capture_connection_baseline connected_macs s =
     (if om_overlay_connected_baseline s = {} then s\<lparr>om_overlay_connected_baseline := connected_macs\<rparr> else s)"

definition lease_expired_macs :: "overlay_manager \<Rightarrow> string set \<Rightarrow> string set" where
  "lease_expired_macs s current_connected = current_connected - om_overlay_connected_baseline s"

definition clear_connection_baseline :: "overlay_manager \<Rightarrow> overlay_manager" where
  "clear_connection_baseline s = s\<lparr>om_overlay_connected_baseline := {}\<rparr>"

end
