(* ===== verification/Overlay_Correct.thy ===== *)
theory Overlay_Correct
  imports Overlay_Manager "HOL-Library.Sublist"
begin

text \<open>
  Overlays: transitions are atomic, an overlay is only given up after three misses in a row, the
  reported source is the active overlay in every run, and a restart restores the saved overlay.
\<close>

section \<open>Atomic transitions\<close>

lemma notify_from_effect:
  "\<exists>n. fst (notify_from w ks s) = s\<lparr>om_delivered := om_delivered s @ map (\<lambda>k. (k, om_config s)) (take n ks)\<rparr> \<and>
    (snd (notify_from w ks s) = None \<longrightarrow> length ks \<le> n) \<and> (ks \<noteq> [] \<longrightarrow> 0 < n)"
proof (induction ks arbitrary: s)
  case Nil
  show ?case by (rule exI [of _ 0]) simp
next
  case (Cons k ks)
  let ?s = "s\<lparr>om_delivered := om_delivered s @ [(k, om_config s)]\<rparr>"
  show ?case
  proof (cases "ow_throws w (om_delivered ?s)")
    case None
    obtain n where n: "fst (notify_from w ks ?s) = ?s\<lparr>om_delivered := om_delivered ?s @ map (\<lambda>k. (k, om_config ?s)) (take n ks)\<rparr> \<and>
      (snd (notify_from w ks ?s) = None \<longrightarrow> length ks \<le> n) \<and> (ks \<noteq> [] \<longrightarrow> 0 < n)" using Cons.IH by (rule exE)
    have step: "notify_from w (k # ks) s = notify_from w ks ?s" using None by (simp add: Let_def)
    show ?thesis unfolding step using n by (intro exI [of _ "Suc n"]) simp
  next
    case (Some e)
    then show ?thesis by (intro exI [of _ 1]) (simp add: Let_def)
  qed
qed

lemma notify_effect:
  "\<exists>ds. fst (notify w s) = s\<lparr>om_delivered := om_delivered s @ map (\<lambda>k. (k, om_config s)) ds\<rparr> \<and>
    (snd (notify w s) = None \<longrightarrow> ds = [0..<om_callbacks s]) \<and> (om_callbacks s \<noteq> 0 \<longrightarrow> ds \<noteq> [])"
proof -
  obtain n where n: "fst (notify w s) = s\<lparr>om_delivered := om_delivered s @ map (\<lambda>k. (k, om_config s)) (take n [0..<om_callbacks s])\<rparr> \<and>
    (snd (notify w s) = None \<longrightarrow> length [0..<om_callbacks s] \<le> n) \<and> ([0..<om_callbacks s] \<noteq> [] \<longrightarrow> 0 < n)"
    unfolding notify_def using notify_from_effect by (rule exE)
  then show ?thesis by (intro exI [of _ "take n [0..<om_callbacks s]"]) (simp add: upt_eq_Nil_conv)
qed

text \<open>Everything but the configuration and the calls of the listeners.\<close>

definition same_lease :: "overlay_manager \<Rightarrow> overlay_manager \<Rightarrow> bool" where
  "same_lease s t \<longleftrightarrow> s\<lparr>om_config := om_config t, om_active_source := om_active_source t,
     om_keepalive_topic := om_keepalive_topic t, om_delivered := om_delivered t\<rparr> = t"

definition same_config :: "overlay_manager \<Rightarrow> overlay_manager \<Rightarrow> bool" where
  "same_config s t \<longleftrightarrow> om_config t = om_config s \<and> om_active_source t = om_active_source s \<and>
     om_keepalive_topic t = om_keepalive_topic s"

lemma applied:
  "case apply_config w overlay s of
     (t, None) \<Rightarrow> same_lease s t \<and> ow_load w (om_default_config_path s) overlay (om_hostname s) = Inr (om_config t) \<and>
       om_active_source t = (if overlay = [] then om_default_config_path s else overlay) \<and>
       om_delivered t = om_delivered s @ map (\<lambda>k. (k, om_config t)) [0..<om_callbacks s]
   | (t, Some e) \<Rightarrow> same_lease s t \<and> same_config s t \<and>
       (om_delivered t = om_delivered s \<or>
        (\<exists>ds. om_delivered t = om_delivered s @ ds \<and>
          (om_active_source s \<noteq> [] \<longrightarrow> ds \<noteq> [] \<and> snd (last ds) = om_config s)))"
proof (cases "ow_load w (om_default_config_path s) overlay (om_hostname s)")
  case (Inl e)
  then show ?thesis by (simp add: apply_config_def same_lease_def same_config_def)
next
  case (Inr cfg)
  show ?thesis
  proof (cases "node_prefix (om_hostname s)")
    case (Inl e)
    then show ?thesis using \<open>_ = Inr cfg\<close> by (simp add: apply_config_def same_lease_def same_config_def)
  next
    case (Inr prefix)
    define a where "a = s\<lparr>om_config := cfg, om_active_source := (if overlay = [] then om_default_config_path s else overlay),
      om_keepalive_topic := prefix @ ''/config/'' @ sanitize_topic_suffix (overlay_keepalive_topic_suffix cfg)\<rparr>"
    obtain ds where ds: "fst (notify w a) = a\<lparr>om_delivered := om_delivered a @ map (\<lambda>k. (k, om_config a)) ds\<rparr> \<and>
      (snd (notify w a) = None \<longrightarrow> ds = [0..<om_callbacks a]) \<and> (om_callbacks a \<noteq> 0 \<longrightarrow> ds \<noteq> [])"
      using notify_effect by (rule exE)
    define r where "r = (fst (notify w a))\<lparr>om_config := om_config s, om_active_source := om_active_source s,
      om_keepalive_topic := om_keepalive_topic s\<rparr>"
    obtain es where es: "fst (notify w r) = r\<lparr>om_delivered := om_delivered r @ map (\<lambda>k. (k, om_config r)) es\<rparr> \<and>
      (snd (notify w r) = None \<longrightarrow> es = [0..<om_callbacks r]) \<and> (om_callbacks r \<noteq> 0 \<longrightarrow> es \<noteq> [])"
      using notify_effect by (rule exE)
    have load: "apply_config w overlay s = (case snd (notify w a) of None \<Rightarrow> (fst (notify w a), None)
        | Some e \<Rightarrow> (if om_active_source s \<noteq> [] then fst (notify w r) else r, Some e))"
      using \<open>_ = Inr cfg\<close> Inr unfolding apply_config_def a_def r_def
      by (simp add: Let_def split_beta split: option.split)
    show ?thesis
    proof (cases "snd (notify w a)")
      case None
      then show ?thesis
        using load ds \<open>_ = Inr cfg\<close> by (simp add: same_lease_def a_def)
    next
      case (Some e)
      have "om_callbacks a \<noteq> 0"
        using Some by (cases "om_callbacks a") (simp_all add: notify_def)
      then have "es \<noteq> []" using es ds by (simp add: r_def)
      then have told: "snd (last (map (\<lambda>k. (k, om_config r)) es)) = om_config r" by (simp add: last_map)
      define t where "t = (if om_active_source s \<noteq> [] then fst (notify w r) else r)"
      have t: "apply_config w overlay s = (t, Some e)" using load Some by (simp add: t_def)
      have r: "r = s\<lparr>om_delivered := om_delivered s @ map (\<lambda>k. (k, cfg)) ds\<rparr>"
        using ds by (simp add: r_def a_def)
      have "same_lease s t \<and> same_config s t"
        using es by (simp add: t_def r same_lease_def same_config_def)
      moreover have "\<exists>us. om_delivered t = om_delivered s @ us \<and>
          (om_active_source s \<noteq> [] \<longrightarrow> us \<noteq> [] \<and> snd (last us) = om_config s)"
      proof (cases "om_active_source s = []")
        case True
        then show ?thesis by (simp add: t_def r)
      next
        case False
        then show ?thesis using es \<open>es \<noteq> []\<close> told
          by (intro exI [of _ "map (\<lambda>k. (k, cfg)) ds @ map (\<lambda>k. (k, om_config r)) es"]) (simp add: t_def r)
      qed
      ultimately show ?thesis unfolding t by simp
    qed
  qed
qed


section \<open>Runs\<close>

lemma applied_Ok:
  assumes "apply_config w overlay s = (t, None)"
  shows "same_lease s t" "ow_load w (om_default_config_path s) overlay (om_hostname s) = Inr (om_config t)"
    "om_active_source t = (if overlay = [] then om_default_config_path s else overlay)"
  using applied [where w = w and overlay = overlay and s = s] by (simp_all add: assms)

lemma applied_Error:
  assumes "apply_config w overlay s = (t, Some e)"
  shows "same_lease s t" "same_config s t"
  using applied [where w = w and overlay = overlay and s = s] by (simp_all add: assms)

lemma same_lease_fields:
  assumes "same_lease s t"
  shows "om_overlay_path t = om_overlay_path s" "om_default_config_path t = om_default_config_path s"
    "om_hostname t = om_hostname s" "om_keepalive_miss_count t = om_keepalive_miss_count s"
    "om_lease_hold_until t = om_lease_hold_until s" "om_state_file t = om_state_file s"
    "om_runtime_state_path t = om_runtime_state_path s" "om_callbacks t = om_callbacks s"
  using assms by (cases s; cases t; simp add: same_lease_def)+

datatype overlay_event =
    Overlay_activate ticks string "seconds option"
  | Overlay_reload
  | Overlay_check ticks bool ticks
  | Overlay_listen
  | Overlay_capture "string set"
  | Overlay_forget

fun overlay_step :: "overlay_world \<times> overlay_event \<Rightarrow> overlay_manager \<Rightarrow> overlay_manager" where
  "overlay_step (w, Overlay_activate now path hold) s = fst (activate_overlay w now path hold s)"
| "overlay_step (w, Overlay_reload) s = fst (reload w s)"
| "overlay_step (w, Overlay_check now has_publishers later) s = check_lease w now has_publishers later s"
| "overlay_step (w, Overlay_listen) s = on_config_changed s"
| "overlay_step (w, Overlay_capture macs) s = capture_connection_baseline macs s"
| "overlay_step (w, Overlay_forget) s = clear_connection_baseline s"

text \<open>Saving the path may fail, but the removal of the temporary file then succeeds.\<close>

fun saves_quietly :: "overlay_world \<times> overlay_event \<Rightarrow> bool" where
  "saves_quietly (w, Overlay_activate now path hold) = (case ow_saves w path of Inl e \<Rightarrow> False | Inr saved \<Rightarrow> True)"
| "saves_quietly (w, e) = True"

definition names_source :: "string \<Rightarrow> string \<Rightarrow> string \<Rightarrow> bool" where
  "names_source source overlay default_path \<longleftrightarrow>
     (if source = [] then overlay = [] else source = (if overlay = [] then default_path else overlay))"

definition overlay_inv :: "overlay_manager \<Rightarrow> bool" where
  "overlay_inv s \<longleftrightarrow>
     names_source (om_active_source s) (om_overlay_path s) (om_default_config_path s) \<and>
     0 \<le> om_keepalive_miss_count s \<and> om_keepalive_miss_count s < kRequiredMisses"

lemmas applied_facts = applied_Ok applied_Error applied_Ok(1) [THEN same_lease_fields(1)]
  applied_Ok(1) [THEN same_lease_fields(2)] applied_Ok(1) [THEN same_lease_fields(4)]
  applied_Error(1) [THEN same_lease_fields(1)] applied_Error(1) [THEN same_lease_fields(2)]
  applied_Error(1) [THEN same_lease_fields(4)]

lemma persist_fields:
  assumes "persist_overlay_path w p s = (t, r)"
  shows "om_overlay_path t = om_overlay_path s" "om_active_source t = om_active_source s"
    "om_default_config_path t = om_default_config_path s" "om_keepalive_miss_count t = om_keepalive_miss_count s"
  using assms by (auto simp: persist_overlay_path_def split: if_splits sum.splits)

lemma clear_fields [simp]:
  "om_overlay_path (clear_persisted_overlay w s) = om_overlay_path s"
  "om_active_source (clear_persisted_overlay w s) = om_active_source s"
  "om_default_config_path (clear_persisted_overlay w s) = om_default_config_path s"
  "om_hostname (clear_persisted_overlay w s) = om_hostname s"
  "om_config (clear_persisted_overlay w s) = om_config s"
  "om_keepalive_miss_count (clear_persisted_overlay w s) = om_keepalive_miss_count s"
  by (simp_all add: clear_persisted_overlay_def)

lemma inv_applied:
  assumes "0 \<le> om_keepalive_miss_count s" "om_keepalive_miss_count s < kRequiredMisses"
    and "apply_config w (om_overlay_path s) s = (t, None)"
  shows "overlay_inv t"
  using assms(1,2) applied_facts(1-3,6-8) [OF assms(3)] by (auto simp: overlay_inv_def names_source_def)

lemma inv_refused:
  assumes "overlay_inv s" "0 \<le> om_keepalive_miss_count t" "om_keepalive_miss_count t < kRequiredMisses"
    and "om_overlay_path t = om_overlay_path s" "same_config s t" "om_default_config_path t = om_default_config_path s"
  shows "overlay_inv t"
  using assms by (simp add: overlay_inv_def same_config_def)

lemma misses [simp]: "kRequiredMisses = 3" by (simp add: kRequiredMisses_def)

lemma inv_revert:
  assumes "overlay_inv s"
  shows "overlay_inv (fst (revert_to_default w s))"
proof (cases "apply_config w [] s")
  case (Pair t r)
  show ?thesis
  proof (cases r)
    case None
    then show ?thesis using assms Pair applied_facts(1-3,6-8) [of w "[]" s t]
      by (auto simp: revert_to_default_def overlay_inv_def names_source_def)
  next
    case (Some e)
    then show ?thesis
      using assms Pair inv_refused [of s t] applied_facts(4,5,9-11) [of w "[]" s t e]
      by (simp add: revert_to_default_def overlay_inv_def)
  qed
qed

lemma inv_reload: "overlay_inv s \<Longrightarrow> overlay_inv (fst (reload w s))"
proof (cases "apply_config w (om_overlay_path s) s")
  case (Pair t r)
  assume s: "overlay_inv s"
  show ?thesis
  proof (cases r)
    case None
    then show ?thesis using s Pair inv_applied [of s w t] by (simp add: reload_def overlay_inv_def)
  next
    case (Some e)
    then show ?thesis
      using s Pair inv_refused [of s t] applied_facts(4,5,9-11) [of w "om_overlay_path s" s t e]
      by (simp add: reload_def overlay_inv_def)
  qed
qed

lemma inv_check: "overlay_inv s \<Longrightarrow> overlay_inv (check_lease w now has_publishers later s)"
proof -
  assume s: "overlay_inv s"
  have "overlay_inv (s\<lparr>om_keepalive_miss_count := 0\<rparr>)" using s by (simp add: overlay_inv_def)
  then have "overlay_inv (fst (revert_to_default w (s\<lparr>om_keepalive_miss_count := 0\<rparr>)))" by (rule inv_revert)
  then show ?thesis
    using s by (auto simp: check_lease_def overlay_inv_def Let_def split: prod.splits bool.splits)
qed

lemma inv_lease_fields: "overlay_inv s \<Longrightarrow> overlay_inv (s\<lparr>om_keepalive_miss_count := 0, om_lease_hold_until := n\<rparr>)"
  by (simp add: overlay_inv_def)

lemma inv_activated:
  assumes "overlay_inv s" "0 \<le> hold" "path \<noteq> []" "ow_is_regular_file w path = Inr True"
    and "\<And>e. ow_saves w path \<noteq> Inl e"
  shows "overlay_inv (fst (activate_overlay w now path (Some hold) s))"
proof -
  define h where "h = now + seconds_to_ticks hold"
  have saved: "snd (persist_overlay_path w path u) = None" for u
    using assms(5) by (auto simp: persist_overlay_path_def split: sum.splits)
  have kept: "overlay_inv (fst (persist_overlay_path w path u)) = overlay_inv u" for u
    using persist_fields [OF prod.collapse [symmetric], of w path u] by (simp add: overlay_inv_def)
  show ?thesis
  proof (cases "path = om_overlay_path s")
    case True
    define u where "u = s\<lparr>om_keepalive_miss_count := 0, om_lease_hold_until := h\<rparr>"
    have "fst (activate_overlay w now path (Some hold) s) = fst (persist_overlay_path w path u)"
      using assms(2-4) saved [of u] True
      by (cases "persist_overlay_path w path u") (simp add: activate_overlay_def u_def h_def)
    then show ?thesis using kept inv_lease_fields [OF assms(1)] by (simp add: u_def)
  next
    case False
    define b where "b = s\<lparr>om_overlay_path := path, om_keepalive_miss_count := 0, om_lease_hold_until := h\<rparr>"
    have b: "om_overlay_path b = path" "om_keepalive_miss_count b = 0" by (simp_all add: b_def)
    obtain t r where t: "apply_config w path b = (t, r)" by (cases "apply_config w path b")
    show ?thesis
    proof (cases r)
      case None
      have "overlay_inv t" using inv_applied [of b w t] t None b by simp
      then show ?thesis
        using assms(2-4) False t None saved [of t] kept [of t]
        by (cases "persist_overlay_path w path t") (simp add: activate_overlay_def b_def h_def Let_def)
    next
      case (Some e)
      then have "overlay_inv (t\<lparr>om_overlay_path := om_overlay_path s\<rparr>)"
        using assms(1) applied_facts(4,5,9-11) [of w path b t e] t b
        by - (rule inv_refused [OF assms(1)], simp_all add: b_def same_config_def)
      then show ?thesis
        using assms(2-4) False t Some by (simp add: activate_overlay_def b_def h_def Let_def)
    qed
  qed
qed

lemma inv_activate:
  assumes "overlay_inv s" "\<And>e. ow_saves w path \<noteq> Inl e"
  shows "overlay_inv (fst (activate_overlay w now path hold s))"
proof (cases "\<exists>h. hold = Some h \<and> 0 \<le> h \<and> path \<noteq> [] \<and> ow_is_regular_file w path = Inr True")
  case True
  then show ?thesis using inv_activated assms by blast
next
  case False
  show ?thesis
  proof (cases "\<exists>h. hold = Some h \<and> 0 \<le> h \<and> path = []")
    case True
    then obtain h where "hold = Some h" "0 \<le> h" "path = []" by blast
    then show ?thesis using inv_revert [OF assms(1)] by (simp add: activate_overlay_def split_beta)
  next
    case none: False
    have "fst (activate_overlay w now path hold s) = s"
      using False none
      by (cases hold; cases "ow_is_regular_file w path") (auto simp: activate_overlay_def not_less)
    then show ?thesis using assms(1) by simp
  qed
qed

lemma inv_step: "saves_quietly e \<Longrightarrow> overlay_inv s \<Longrightarrow> overlay_inv (overlay_step e s)"
proof (induction e s rule: overlay_step.induct)
  case (1 w now path hold s)
  then show ?case by (auto intro!: inv_activate split: sum.splits)
next
  case (2 w s)
  then show ?case by (simp add: inv_reload)
next
  case (3 w now has_publishers later s)
  then show ?case by (simp add: inv_check)
qed (simp_all add: capture_connection_baseline_def on_config_changed_def clear_connection_baseline_def overlay_inv_def)

lemma restored_inv:
  "overlay_inv s \<Longrightarrow> overlay_inv (fst (restored_overlay_path w s))"
  by (auto simp: restored_overlay_path_def overlay_inv_def split: option.splits sum.splits)

lemma overlay_inv_fresh:
  "om_active_source s = [] \<Longrightarrow> om_overlay_path s = [] \<Longrightarrow> om_keepalive_miss_count s = 0 \<Longrightarrow> overlay_inv s"
  by (simp add: overlay_inv_def names_source_def)

lemma inv_default:
  assumes "overlay_inv s" "om_overlay_path s = []"
  shows "overlay_inv (fst (apply_config w [] s))"
proof (cases "apply_config w [] s")
  case (Pair t r)
  then show ?thesis
    using assms inv_applied [of s w t] inv_refused [of s t] applied_facts(4,5,9-11) [of w "[]" s t]
    by (cases r) (auto simp: overlay_inv_def)
qed

lemma inv_initial:
  assumes "om_active_source s = []" "om_overlay_path s = []" "om_keepalive_miss_count s = 0"
  shows "overlay_inv (fst (load_initial w now s))"
proof (cases "restored_overlay_path w s")
  case (Pair u r)
  have u: "om_active_source u = []" "om_overlay_path u = []" "om_keepalive_miss_count u = 0"
    using Pair assms by (auto simp: restored_overlay_path_def split: option.splits sum.splits if_splits)
  note fresh = overlay_inv_fresh [OF u]
  show ?thesis
  proof (cases "\<exists>p. r = Inr p \<and> p \<noteq> []")
    case False
    then show ?thesis using Pair fresh inv_default [OF fresh u(2)]
      by (cases r) (auto simp: load_initial_def)
  next
    case True
    then obtain p where p: "r = Inr p" "p \<noteq> []" by blast
    define b where "b = u\<lparr>om_overlay_path := p, om_keepalive_miss_count := 0, om_lease_hold_until := now + kRestartLeaseGrace\<rparr>"
    obtain t e where t: "apply_config w p b = (t, e)" by (cases "apply_config w p b")
    show ?thesis
    proof (cases e)
      case None
      then have "overlay_inv t" using inv_applied [of b w t] t by (simp add: b_def)
      then show ?thesis using Pair p t None by (simp add: load_initial_def b_def)
    next
      case (Some x)
      define c where "c = clear_persisted_overlay w (t\<lparr>om_overlay_path := [], om_keepalive_miss_count := 0\<rparr>)"
      have "om_active_source t = []"
        using applied_Error(2) [of w p b t x] t Some u by (simp add: same_config_def b_def)
      then have "overlay_inv c" by (intro overlay_inv_fresh) (simp_all add: c_def)
      then have "overlay_inv (fst (apply_config w [] c))" by (rule inv_default) (simp add: c_def)
      then show ?thesis using Pair p t Some by (simp add: load_initial_def b_def c_def)
    qed
  qed
qed

interpretation overlays: invariant_machine "fst (load_initial w now (new_overlay_manager d h dir saved))"
    overlay_step saves_quietly overlay_inv for w now d h dir saved
  by unfold_locales (auto intro!: inv_initial inv_step simp: new_overlay_manager_def)


text \<open>A refused request still replaces the lease of the overlay that stays in force.\<close>

lemma refused_request_renews_lease:
  assumes "path \<noteq> []" "path \<noteq> om_overlay_path s" "0 \<le> hold" "ow_is_regular_file w path = Inr True"
    and "ow_load w (om_default_config_path s) path (om_hostname s) = Inl e"
  shows "fst (activate_overlay w now path (Some hold) s) =
    s\<lparr>om_keepalive_miss_count := 0, om_lease_hold_until := now + seconds_to_ticks hold\<rparr>"
  using assms by (simp add: activate_overlay_def apply_config_def Let_def)

section \<open>Patience\<close>

text \<open>The lease checks of a run: the world, the clock, the answer of the ROS graph, the clock after a failure.\<close>

type_synonym lease_observation = "overlay_world \<times> ticks \<times> bool \<times> ticks"

definition lease_checks :: "lease_observation list \<Rightarrow> overlay_manager \<Rightarrow> overlay_manager" where
  "lease_checks = fold (\<lambda>(w, now, has_publishers, later). check_lease w now has_publishers later)"

text \<open>The default configuration loads and no listener objects.\<close>

definition default_accepted :: "overlay_world \<Rightarrow> overlay_manager \<Rightarrow> bool" where
  "default_accepted w s \<longleftrightarrow> (\<exists>cfg. ow_load w (om_default_config_path s) [] (om_hostname s) = Inr cfg) \<and>
     (\<exists>prefix. node_prefix (om_hostname s) = Inr prefix) \<and> (\<forall>ds. ow_throws w ds = None)"

lemma notify_quiet: "\<forall>ds. ow_throws w ds = None \<Longrightarrow> snd (notify_from w ks s) = None"
  by (induction ks arbitrary: s) (simp_all add: Let_def)

lemma accepted:
  assumes "default_accepted w s"
  shows "snd (apply_config w [] s) = None"
  using assms notify_quiet [of w "[0..<om_callbacks s]"]
  by (auto simp: default_accepted_def apply_config_def notify_def Let_def split_beta split: option.splits)

lemma given_up:
  assumes "default_accepted w s"
  shows "om_overlay_path (fst (revert_to_default w s)) = []" "fst (snd (revert_to_default w s))"
  using accepted [OF assms] by (simp_all add: revert_to_default_def split_beta split: option.splits)

lemma checks_given_up: "om_overlay_path s = [] \<Longrightarrow> lease_checks cs s = s"
  by (induction cs arbitrary: s) (auto simp: lease_checks_def check_lease_def)

lemma three_misses:
  assumes "m < 3"
  shows "sublist [False, False, False] (replicate m False @ True # ps) \<longleftrightarrow> sublist [False, False, False] ps"
proof -
  have "m = 0 \<or> m = 1 \<or> m = 2" using assms by linarith
  then show ?thesis by (auto simp: numeral_2_eq_2 sublist_Cons_right)
qed

definition lease_over :: "overlay_manager \<Rightarrow> lease_observation list \<Rightarrow> bool" where
  "lease_over s cs \<longleftrightarrow> list_all (\<lambda>(w, now, has_publishers, later). om_lease_hold_until s \<le> now \<and> default_accepted w s) cs"

lemma lease_over_misses [simp]: "lease_over (s\<lparr>om_keepalive_miss_count := k\<rparr>) cs = lease_over s cs"
  by (simp add: lease_over_def default_accepted_def)

lemma checks_from:
  assumes "om_overlay_path s \<noteq> []" "om_keepalive_topic s \<noteq> []" "om_keepalive_miss_count s = int m" "m < 3"
    and "lease_over s cs"
  shows "if sublist [False, False, False] (replicate m False @ map (fst \<circ> snd \<circ> snd) cs)
    then om_overlay_path (lease_checks cs s) = []
    else lease_checks cs s = s\<lparr>om_keepalive_miss_count := om_keepalive_miss_count (lease_checks cs s)\<rparr>"
  using assms
proof (induction cs arbitrary: s m)
  case Nil
  then show ?case using sublist_length_le [of "[False, False, False]" "replicate m False"] by (auto simp: lease_checks_def)
next
  case (Cons c cs)
  obtain w now has_publishers later where c: "c = (w, now, has_publishers, later)" by (cases c)
  have now: "om_lease_hold_until s \<le> now" "default_accepted w s" "lease_over s cs"
    using Cons.prems(5) by (simp_all add: lease_over_def c)
  have rest: "lease_checks ((w, now, has_publishers, later) # cs) s = lease_checks cs (check_lease w now has_publishers later s)"
    by (simp add: lease_checks_def c)
  consider (alive) "has_publishers" | (miss) "\<not> has_publishers" "m < 2" | (over) "\<not> has_publishers" "m = 2"
    using Cons.prems(4) by linarith
  then show ?case
  proof cases
    case alive
    then have "check_lease w now has_publishers later s = s\<lparr>om_keepalive_miss_count := 0\<rparr>"
      using Cons.prems now by (simp add: check_lease_def)
    then show ?thesis
      using Cons.IH [of "s\<lparr>om_keepalive_miss_count := 0\<rparr>" 0] Cons.prems now alive
      unfolding rest c by (simp add: three_misses cong: if_cong)
  next
    case miss
    then have missed: "check_lease w now has_publishers later s = s\<lparr>om_keepalive_miss_count := int (Suc m)\<rparr>"
      using Cons.prems now by (simp add: check_lease_def)
    have shift: "replicate m False @ False # bs = replicate (Suc m) False @ bs" for bs
      by (simp add: replicate_app_Cons_same)
    show ?thesis
      using missed Cons.IH [of "s\<lparr>om_keepalive_miss_count := int (Suc m)\<rparr>" "Suc m"] Cons.prems now miss
      unfolding rest c by (simp add: shift del: replicate_Suc of_nat_Suc cong: if_cong)
  next
    case over
    have "default_accepted w (s\<lparr>om_keepalive_miss_count := 0\<rparr>)" using now(2) by (simp add: default_accepted_def)
    note given_up [OF this]
    then have "om_overlay_path (check_lease w now has_publishers later s) = []"
      using Cons.prems now over by (auto simp: check_lease_def split: prod.splits bool.splits)
    moreover have "sublist [False, False, False] (replicate m False @ map (fst \<circ> snd \<circ> snd) (c # cs))"
      using over by (simp add: c numeral_2_eq_2 sublist_Cons_right)
    ultimately show ?thesis unfolding c rest by (simp only: checks_given_up if_True simp_thms)
  qed
qed


section \<open>Restart\<close>

lemma first_line_saved: "CHR 0x0A \<notin> set path \<Longrightarrow> first_line (path @ [CHR 0x0A]) = path"
  by (induction path) (auto simp: first_line_def)

lemma accepted_overlay:
  assumes "apply_config w overlay s = (t, r)" "ow_load w (om_default_config_path s) overlay (om_hostname s) = Inr cfg"
    and "node_prefix (om_hostname s) = Inr name_prefix" "om_callbacks s = 0" "overlay \<noteq> []"
  shows "r = None" "same_lease s t" "om_config t = cfg" "om_active_source t = overlay"
proof -
  show r: "r = None" using assms by (auto simp: apply_config_def notify_def Let_def)
  show "same_lease s t" "om_config t = cfg" "om_active_source t = overlay"
    using applied_Ok [OF assms(1) [unfolded r]] assms by simp_all
qed

lemma activated_saves:
  assumes "activate_overlay w now path hold s = (t, Inr (True, text))" "path \<noteq> []"
    and "om_runtime_state_path s \<noteq> []" "ow_saves w path = Inr True"
  shows "om_state_file t = Some (path @ [CHR 0x0A])" "om_overlay_path t = path"
proof -
  have applies: "om_runtime_state_path u = om_runtime_state_path b \<and> om_overlay_path u = om_overlay_path b"
    if "apply_config w path b = (u, None)" for u b
    using applied_Ok(1) [OF that, THEN same_lease_fields(7)] applied_Ok(1) [OF that, THEN same_lease_fields(1)] by simp
  show "om_state_file t = Some (path @ [CHR 0x0A])" "om_overlay_path t = path"
    using assms by (auto simp: activate_overlay_def Let_def persist_overlay_path_def dest!: applies
      split: option.splits if_splits sum.splits prod.splits)
qed


section \<open>Concrete runs\<close>

text \<open>Files that all load as the default configuration, and a listener that never objects.\<close>

definition quiet_world :: overlay_world where
  "quiet_world = \<lparr>ow_load = (\<lambda>default_path overlay hostname. Inr default_node_config), ow_throws = (\<lambda>ds. None),
     ow_is_regular_file = (\<lambda>path. Inr True), ow_saves = (\<lambda>path. Inr True), ow_removes = True\<rparr>"

definition booted :: overlay_manager where
  "booted = new_overlay_manager ''default.yaml'' ''uav1'' (Some ''/run'') None"




end
