(* ===== verification/Yaml_Values.thy ===== *)
theory Yaml_Values
  imports Member_Path Config_Models
begin

text \<open>
  YAML documents as the configuration loader sees them, and the readers of
  \<open>src/config/config_loader.cpp\<close> for single values. Parsing YAML text and the conversions of scalars
  belong to the yaml-cpp library: the conversions are the functions of \<open>yaml_conv\<close>.
\<close>

section \<open>Documents\<close>

text \<open>A mapping keeps its entries in order; a repeated key is found at its first entry.\<close>

datatype yaml =
    Yaml_null
  | Yaml_scalar string
  | Yaml_sequence "yaml list"
  | Yaml_map "(string \<times> yaml) list"

text \<open>\<open>node[key]\<close> of a constant mapping: \<open>None\<close> is the undefined node.\<close>

fun yaml_at :: "yaml \<Rightarrow> string \<Rightarrow> yaml option" where
  "yaml_at (Yaml_map entries) key = map_of entries key"
| "yaml_at node key = None"

fun is_scalar :: "yaml \<Rightarrow> bool" where
  "is_scalar (Yaml_scalar text) = True"
| "is_scalar node = False"

text \<open>\<open>as<T>()\<close> of the library: \<open>None\<close> when the node does not convert, so that \<open>as<T>()\<close> throws
  \<open>BadConversion\<close> (a \<open>std::runtime_error\<close> with the text \<open>yc_bad_conversion\<close>) and \<open>as<T>(fallback)\<close> gives the fallback;
  and \<open>YAML::Node(value)\<close> for the integer types the loader passes. Numbers that are not finite do not
  convert.\<close>

record yaml_conv =
  yc_string :: "yaml \<Rightarrow> string option"
  yc_bool :: "yaml \<Rightarrow> bool option"
  yc_double :: "yaml \<Rightarrow> rat option"
  yc_u32 :: "yaml \<Rightarrow> u32 option"
  yc_u64 :: "yaml \<Rightarrow> u64 option"
  yc_i64 :: "yaml \<Rightarrow> int option"
  yc_bad_conversion :: "yaml \<Rightarrow> string"
  yc_of_u8 :: "u8 \<Rightarrow> yaml"
  yc_of_u16 :: "u16 \<Rightarrow> yaml"
  yc_of_int :: "int \<Rightarrow> yaml"

definition attempt :: "std_error + 'a \<Rightarrow> ('a \<Rightarrow> std_error + 'b) \<Rightarrow> std_error + 'b" where
  "attempt x f = (case x of Inl e \<Rightarrow> Inl e | Inr v \<Rightarrow> f v)"

definition as_value :: "yaml_conv \<Rightarrow> (yaml \<Rightarrow> 'a option) \<Rightarrow> yaml \<Rightarrow> std_error + 'a" where
  "as_value c convert node =
     (case convert node of None \<Rightarrow> Inl (Runtime_error (yc_bad_conversion c node)) | Some v \<Rightarrow> Inr v)"

text \<open>\<open>node ? node.as<std::string>(fallback) : fallback\<close>\<close>

definition text_or :: "yaml_conv \<Rightarrow> string \<Rightarrow> yaml option \<Rightarrow> string" where
  "text_or c fallback node =
     (case node of
        None \<Rightarrow> fallback
      | Some n \<Rightarrow> (case yc_string c n of None \<Rightarrow> fallback | Some text \<Rightarrow> text))"

section \<open>Merging\<close>

text \<open>\<open>merged[key] = value\<close> replaces the value of the first entry with the key.\<close>

fun set_entry :: "string \<Rightarrow> yaml \<Rightarrow> (string \<times> yaml) list \<Rightarrow> (string \<times> yaml) list" where
  "set_entry key node [] = [(key, node)]"
| "set_entry key node ((k, v) # entries) =
     (if k = key then (k, node) # entries else (k, v) # set_entry key node entries)"

fun deep_merge :: "yaml \<Rightarrow> yaml \<Rightarrow> yaml" and
    merge_entries :: "(string \<times> yaml) list \<Rightarrow> (string \<times> yaml) list \<Rightarrow> (string \<times> yaml) list" where
  "deep_merge Yaml_null override_node = override_node"
| "deep_merge base Yaml_null = base"
| "deep_merge (Yaml_map merged) (Yaml_map entries) = Yaml_map (merge_entries merged entries)"
| "deep_merge base override_node = override_node"
| "merge_entries merged [] = merged"
| "merge_entries merged ((key, node) # entries) =
     merge_entries
       (case map_of merged key of
          Some existing \<Rightarrow> set_entry key (deep_merge existing node) merged
        | None \<Rightarrow> set_entry key node merged)
       entries"

section \<open>Integers\<close>

definition hex_digit :: "char \<Rightarrow> nat" where
  "hex_digit ch = (if is_digit ch then char_code ch - 48 else char_code (to_lower ch) - 87)"

definition based_value :: "nat \<Rightarrow> string \<Rightarrow> nat" where
  "based_value base digits = foldl (\<lambda>value ch. value * base + hex_digit ch) 0 digits"

text \<open>The scan of \<open>std::stoull\<close> and \<open>std::stoll\<close> in base 10 or 16: white space, a sign, a prefix \<open>0x\<close> that a hexadecimal
  digit follows, digits. Result: negative, value, characters used.\<close>

definition scan_integer :: "nat \<Rightarrow> string \<Rightarrow> (bool \<times> nat \<times> nat) option" where
  "scan_integer base text =
     (let spaces = length (takeWhile is_space text);
          s1 = drop spaces text;
          signs = (if s1 \<noteq> [] \<and> (hd s1 = CHR ''-'' \<or> hd s1 = CHR ''+'') then 1 else 0);
          s2 = drop signs s1;
          lead = (if base = 16 \<and> 2 < length s2 \<and> hd s2 = CHR ''0'' \<and> to_lower (s2 ! 1) = CHR ''x'' \<and> is_xdigit (s2 ! 2)
                  then 2 else 0);
          digits = takeWhile (if base = 16 then is_xdigit else is_digit) (drop lead s2)
      in if digits = [] then None
         else Some (s1 \<noteq> [] \<and> hd s1 = CHR ''-'', based_value base digits, spaces + signs + lead + length digits))"

text \<open>\<open>std::stoull\<close> negates a text with a minus sign modulo \<open>2^64\<close>.\<close>

definition stoull :: "string \<Rightarrow> nat \<Rightarrow> std_error + u64 \<times> nat" where
  "stoull text base =
     (case scan_integer base text of
        None \<Rightarrow> Inl (Invalid_argument ''stoull'')
      | Some (negative, value, parsed) \<Rightarrow>
          if 2 ^ 64 \<le> value then Inl (Out_of_range ''stoull'')
          else Inr (if negative then - of_nat value else of_nat value, parsed))"

definition stoll :: "string \<Rightarrow> nat \<Rightarrow> std_error + int \<times> nat" where
  "stoll text base =
     (case scan_integer base text of
        None \<Rightarrow> Inl (Invalid_argument ''stoll'')
      | Some (negative, value, parsed) \<Rightarrow>
          let number = (if negative then - int value else int value) in
          if number < - (2 ^ 63) \<or> 2 ^ 63 \<le> number then Inl (Out_of_range ''stoll'')
          else Inr (number, parsed))"

definition token_base :: "string \<Rightarrow> nat" where
  "token_base token =
     (if 2 < length token \<and> hd token = CHR ''0'' \<and> (token ! 1 = CHR ''x'' \<or> token ! 1 = CHR ''X'') then 16 else 10)"

definition parse_integer_value :: "yaml_conv \<Rightarrow> yaml \<Rightarrow> u64 \<Rightarrow> string \<Rightarrow> std_error + u64" where
  "parse_integer_value c node max_value context =
     (if node = Yaml_null then Inl (Runtime_error (context @ '' must not be null''))
      else if is_scalar node then
        (case yc_u64 c node of
           Some numeric_value \<Rightarrow>
             if max_value < numeric_value then Inl (Runtime_error (context @ '' is out of range''))
             else Inr numeric_value
         | None \<Rightarrow>
             let token = trim_copy (text_or c [] (Some node)) in
             if token = [] then Inl (Runtime_error (context @ '' must not be empty''))
             else attempt (stoull token (token_base token)) (\<lambda>(numeric_value, parsed).
               if parsed \<noteq> length token \<or> max_value < numeric_value
               then Inl (Runtime_error (context @ '' is out of range''))
               else Inr numeric_value))
      else Inl (Runtime_error (context @ '' must be a scalar integer'')))"

definition parse_signed_integer_value :: "yaml_conv \<Rightarrow> yaml \<Rightarrow> int \<Rightarrow> int \<Rightarrow> string \<Rightarrow> std_error + int" where
  "parse_signed_integer_value c node min_value max_value context =
     (if node = Yaml_null then Inl (Runtime_error (context @ '' must not be null''))
      else if is_scalar node then
        (case yc_i64 c node of
           Some numeric_value \<Rightarrow>
             if numeric_value < min_value \<or> max_value < numeric_value
             then Inl (Runtime_error (context @ '' is out of range''))
             else Inr numeric_value
         | None \<Rightarrow>
             let token = trim_copy (text_or c [] (Some node)) in
             if token = [] then Inl (Runtime_error (context @ '' must not be empty''))
             else attempt (stoll token (token_base token)) (\<lambda>(numeric_value, parsed).
               if parsed \<noteq> length token \<or> numeric_value < min_value \<or> max_value < numeric_value
               then Inl (Runtime_error (context @ '' is out of range''))
               else Inr numeric_value))
      else Inl (Runtime_error (context @ '' must be a scalar integer'')))"

section \<open>Byte sequences and maps\<close>

function space_tokens :: "string \<Rightarrow> string list" where
  "space_tokens text =
     (let rest = dropWhile is_space text in
      if rest = [] then []
      else takeWhile (\<lambda>ch. \<not> is_space ch) rest # space_tokens (dropWhile (\<lambda>ch. \<not> is_space ch) rest))"
  by pat_completeness auto
termination
proof (relation "measure length")
  fix t rest :: string
  assume r: "rest = dropWhile is_space t" "rest \<noteq> []"
  then have "\<not> is_space (hd rest)" using hd_dropWhile by metis
  then have "length (dropWhile (\<lambda>ch. \<not> is_space ch) rest) < length rest"
    using r(2) by (cases rest) (auto simp: le_imp_less_Suc length_dropWhile_le)
  also have "length rest \<le> length t" using r(1) by (simp add: length_dropWhile_le)
  finally show "(dropWhile (\<lambda>ch. \<not> is_space ch) rest, t) \<in> measure length" by simp
qed simp

declare space_tokens.simps [simp del]

definition split_scalar_tokens :: "string \<Rightarrow> string list" where
  "split_scalar_tokens raw = space_tokens (map (\<lambda>ch. if ch = CHR '','' then CHR '' '' else ch) raw)"

fun parse_bytes :: "yaml_conv \<Rightarrow> string \<Rightarrow> nat \<Rightarrow> yaml list \<Rightarrow> std_error + u8 list" where
  "parse_bytes c context index [] = Inr []"
| "parse_bytes c context index (item # items) =
     attempt (parse_integer_value c item 255 (context @ ''['' @ show_nat index @ '']'')) (\<lambda>byte.
     attempt (parse_bytes c context (index + 1) items) (\<lambda>bytes. Inr (ucast byte # bytes)))"

fun parse_byte_sequence :: "yaml_conv \<Rightarrow> yaml option \<Rightarrow> string \<Rightarrow> std_error + u8 list" where
  "parse_byte_sequence c None context = Inr []"
| "parse_byte_sequence c (Some Yaml_null) context = Inr []"
| "parse_byte_sequence c (Some (Yaml_sequence items)) context = parse_bytes c context 0 items"
| "parse_byte_sequence c (Some (Yaml_scalar text)) context =
     (let scalar_value = trim_copy (text_or c [] (Some (Yaml_scalar text))) in
      if scalar_value = [] then Inr []
      else parse_bytes c context 0 (map Yaml_scalar (split_scalar_tokens scalar_value)))"
| "parse_byte_sequence c (Some (Yaml_map entries)) context =
     Inl (Runtime_error (context @ '' must be a scalar or sequence of bytes''))"

text \<open>\<open>emplace\<close> keeps the first value of a key. When key and value both fail, C++ leaves open which of the two
  exceptions is thrown; here the key's.\<close>

fun parse_byte_entries ::
    "yaml_conv \<Rightarrow> (string \<Rightarrow> string \<Rightarrow> std_error + 'k) \<Rightarrow> string \<Rightarrow> (string \<times> yaml) list \<Rightarrow> ('k \<rightharpoonup> u8 list)
      \<Rightarrow> std_error + ('k \<rightharpoonup> u8 list)" where
  "parse_byte_entries c parse_key context [] out = Inr out"
| "parse_byte_entries c parse_key context ((first_node, second_node) # entries) out =
     (let raw_key = trim_copy first_node in
      if raw_key = [] then Inl (Runtime_error (context @ '' contains an empty key''))
      else
        attempt (parse_key raw_key context) (\<lambda>key.
        attempt (parse_byte_sequence c (Some second_node) (context @ ''.'' @ raw_key)) (\<lambda>bytes.
          parse_byte_entries c parse_key context entries (if out key = None then out(key \<mapsto> bytes) else out))))"

fun parse_byte_map ::
    "yaml_conv \<Rightarrow> yaml option \<Rightarrow> (string \<Rightarrow> string \<Rightarrow> std_error + 'k) \<Rightarrow> string \<Rightarrow> std_error + ('k \<rightharpoonup> u8 list)" where
  "parse_byte_map c None parse_key context = Inr Map.empty"
| "parse_byte_map c (Some Yaml_null) parse_key context = Inr Map.empty"
| "parse_byte_map c (Some (Yaml_map entries)) parse_key context = parse_byte_entries c parse_key context entries Map.empty"
| "parse_byte_map c (Some node) parse_key context = Inl (Runtime_error (context @ '' must be a mapping''))"

section \<open>Optional fields\<close>

definition parse_optional_bool :: "yaml_conv \<Rightarrow> yaml \<Rightarrow> string \<Rightarrow> std_error + bool option" where
  "parse_optional_bool c parent key =
     (case yaml_at parent key of
        None \<Rightarrow> Inr None
      | Some node \<Rightarrow> if node = Yaml_null then Inr None else attempt (as_value c (yc_bool c) node) (\<lambda>v. Inr (Some v)))"

definition parse_optional_integer :: "yaml_conv \<Rightarrow> yaml \<Rightarrow> string \<Rightarrow> u64 \<Rightarrow> std_error + 'w::len word option" where
  "parse_optional_integer c parent key max_value =
     (case yaml_at parent key of
        None \<Rightarrow> Inr None
      | Some node \<Rightarrow>
          if node = Yaml_null then Inr None
          else attempt (parse_integer_value c node max_value key) (\<lambda>v. Inr (Some (ucast v))))"

text \<open>A signed value keeps its two's complement bits.\<close>

definition parse_optional_signed_integer ::
    "yaml_conv \<Rightarrow> yaml \<Rightarrow> string \<Rightarrow> int \<Rightarrow> int \<Rightarrow> std_error + 'w::len word option" where
  "parse_optional_signed_integer c parent key min_value max_value =
     (case yaml_at parent key of
        None \<Rightarrow> Inr None
      | Some node \<Rightarrow>
          if node = Yaml_null then Inr None
          else attempt (parse_signed_integer_value c node min_value max_value key) (\<lambda>v. Inr (Some (word_of_int v))))"

end
