(* ===== verification/Config_Merge.thy ===== *)
theory Config_Merge
  imports Yaml_Values
begin

text \<open>
  Merging an overlay over the default file: the overlay wins exactly where it speaks, and merging it twice
  is merging it once.
\<close>

section \<open>Entries\<close>

lemma map_of_set_entry: "map_of (set_entry k v es) = (map_of es)(k \<mapsto> v)"
  by (induction k v es rule: set_entry.induct) (auto simp: fun_eq_iff)

lemma set_entry_keys: "map fst (set_entry k v es) = (if k \<in> fst ` set es then map fst es else map fst es @ [k])"
  by (induction k v es rule: set_entry.induct) auto

lemma set_entry_same: "map_of es k = Some v \<Longrightarrow> set_entry k v es = es"
  by (induction k v es rule: set_entry.induct) (auto split: if_splits)

definition merged_value :: "yaml option \<Rightarrow> yaml option \<Rightarrow> yaml option" where
  "merged_value base override_node =
     (case override_node of
        None \<Rightarrow> base
      | Some v \<Rightarrow> Some (case base of None \<Rightarrow> v | Some u \<Rightarrow> deep_merge u v))"

lemma map_of_merge:
  assumes "distinct (map fst es)"
  shows "map_of (merge_entries ms es) k = merged_value (map_of ms k) (map_of es k)"
  using assms
proof (induction es arbitrary: ms)
  case Nil
  then show ?case by (simp add: merged_value_def)
next
  case (Cons e es)
  obtain key node where e: "e = (key, node)" by (cases e)
  then have "map_of es key = None" using Cons.prems by (simp add: map_of_eq_None_iff)
  then show ?case
    using Cons by (auto simp: e map_of_set_entry merged_value_def split: option.split)
qed

fun distinct_keys :: "yaml \<Rightarrow> bool" where
  "distinct_keys (Yaml_map es) \<longleftrightarrow> distinct (map fst es) \<and> list_all (\<lambda>e. distinct_keys (snd e)) es"
| "distinct_keys (Yaml_sequence items) \<longleftrightarrow> True"
| "distinct_keys node \<longleftrightarrow> True"

lemma distinct_keys_at: "distinct_keys (Yaml_map es) \<Longrightarrow> map_of es k = Some v \<Longrightarrow> distinct_keys v"
  by (auto simp: list_all_iff dest!: map_of_SomeD)

section \<open>Where an overlay speaks\<close>

text \<open>The value at a path of keys; a null value counts as none.\<close>

fun value_at :: "string list \<Rightarrow> yaml \<Rightarrow> yaml option" where
  "value_at [] node = (if node = Yaml_null then None else Some node)"
| "value_at (key # path) node = (case yaml_at node key of None \<Rightarrow> None | Some child \<Rightarrow> value_at path child)"

text \<open>An overlay is silent at a path when it gives no value there and replaces no node above it.\<close>

fun silent :: "string list \<Rightarrow> yaml \<Rightarrow> bool" where
  "silent path Yaml_null = True"
| "silent (key # path) (Yaml_map es) = (case map_of es key of None \<Rightarrow> True | Some child \<Rightarrow> silent path child)"
| "silent path node = False"

definition is_leaf :: "yaml \<Rightarrow> bool" where
  "is_leaf node \<longleftrightarrow> (case node of Yaml_scalar s \<Rightarrow> True | Yaml_sequence items \<Rightarrow> True | _ \<Rightarrow> False)"

lemma leaf_wins: "is_leaf node \<Longrightarrow> deep_merge base node = node"
  by (cases node; cases base) (auto simp: is_leaf_def)

lemma value_at_null [simp]: "value_at path Yaml_null = None"
  by (cases path) auto

lemma silent_value: "silent path node \<Longrightarrow> value_at path node = None"
  by (induction path node rule: silent.induct) (auto split: option.splits)

lemma merge_null_right [simp]: "deep_merge base Yaml_null = base"
  by (cases base) auto

lemma value_at_leaf: "value_at path node = Some leaf \<Longrightarrow> path \<noteq> [] \<Longrightarrow> \<exists>es. node = Yaml_map es"
  by (cases path; cases node) auto

text \<open>C26: Merging an overlay over a document. Where the overlay has a scalar or a sequence, the result has it;
  where the overlay is silent, the result has the value of the base document.\<close>
theorem overlay_wins_where_it_speaks:
  assumes "distinct_keys overlay"
  shows "(case value_at path overlay of
      Some leaf \<Rightarrow> is_leaf leaf \<longrightarrow> value_at path (deep_merge base overlay) = Some leaf
    | None \<Rightarrow> silent path overlay \<longrightarrow> value_at path (deep_merge base overlay) = value_at path base)"
  using assms
proof (induction path arbitrary: base overlay)
  case Nil
  then show ?case by (cases overlay) (auto simp: is_leaf_def leaf_wins split: yaml.splits)
next
  case (Cons key path)
  show ?case
  proof (cases overlay)
    case (Yaml_map es)
    have d: "distinct (map fst es)" using Cons.prems Yaml_map by simp
    show ?thesis
    proof (cases base)
      case b: (Yaml_map ms)
      have at: "yaml_at (deep_merge base overlay) key = merged_value (map_of ms key) (map_of es key)"
        by (simp add: b Yaml_map map_of_merge [OF d])
      show ?thesis
      proof (cases "map_of es key")
        case None
        then have "value_at (key # path) (deep_merge base overlay) = value_at (key # path) base"
          using at by (simp add: b merged_value_def)
        then show ?thesis using None by (simp add: Yaml_map)
      next
        case (Some child)
        have child: "distinct_keys child" using distinct_keys_at Cons.prems Yaml_map Some by blast
        show ?thesis
        proof (cases "map_of ms key")
          case None
          then show ?thesis using Some silent_value [of path child]
            by (auto simp: map_of_merge [OF d] Yaml_map b merged_value_def split: option.splits)
        next
          case old: (Some u)
          then show ?thesis using Some Cons.IH [OF child, of u]
            by (auto simp: map_of_merge [OF d] Yaml_map b merged_value_def split: option.splits)
        qed
      qed
    qed (auto simp: Yaml_map split: option.splits dest: silent_value)
  qed (auto split: option.splits)
qed

section \<open>Merging twice\<close>

lemma merge_entries_id:
  assumes "list_all (\<lambda>(k, v). \<exists>u. map_of ms k = Some u \<and> deep_merge u v = u) es"
  shows "merge_entries ms es = ms"
  using assms by (induction es) (auto simp: set_entry_same split: option.splits)

text \<open>Loading the same overlay again changes nothing: merging an overlay into a document that already
  contains it gives the document.\<close>
theorem deep_merge_idempotent:
  assumes "distinct_keys overlay"
  shows "deep_merge (deep_merge base overlay) overlay = deep_merge base overlay"
  using assms
proof (induction overlay arbitrary: base)
  case (Yaml_map es)
  have d: "distinct (map fst es)" using Yaml_map.prems by simp
  have child: "deep_merge (deep_merge u v) v = deep_merge u v" if "(k, v) \<in> set es" for k u v
    using Yaml_map.IH [OF that, of v u] Yaml_map.prems that by (auto simp: list_all_iff)
  have again: "deep_merge (Yaml_map ms) (Yaml_map es) = Yaml_map ms"
    if "\<And>k v. (k, v) \<in> set es \<Longrightarrow> \<exists>u. map_of ms k = Some (deep_merge u v)" for ms
    using that child by (auto simp: list_all_iff intro!: merge_entries_id) metis
  have self: "deep_merge v v = v" if "(k, v) \<in> set es" for k v
    using child [OF that, of Yaml_null] by simp
  have fixed: "deep_merge (Yaml_map es) (Yaml_map es) = Yaml_map es"
  proof (rule again)
    show "\<exists>u. map_of es k = Some (deep_merge u v)" if "(k, v) \<in> set es" for k v
      using that d by (intro exI [of _ Yaml_null]) (simp add: map_of_is_SomeI)
  qed
  show ?case
  proof (cases base)
    case b: (Yaml_map ms)
    have "\<exists>u. map_of (merge_entries ms es) k = Some (deep_merge u v)" if "(k, v) \<in> set es" for k v
      using that d map_of_is_SomeI [OF d that]
      by (cases "map_of ms k") (auto simp: map_of_merge merged_value_def intro: exI [of _ Yaml_null])
    then show ?thesis using again by (simp add: b)
  qed (use fixed in simp_all)
qed (simp_all add: leaf_wins is_leaf_def)

section \<open>An example\<close>

definition demo_base :: yaml where
  "demo_base = Yaml_map [(''scan_mode'', Yaml_scalar ''le''), (''mesh'', Yaml_map [(''ttl'', Yaml_scalar ''5'')])]"

definition demo_overlay :: yaml where
  "demo_overlay = Yaml_map [(''mesh'', Yaml_map [(''ttl'', Yaml_scalar ''7''), (''relay'', Yaml_scalar ''true'')])]"

theorem overlay_wins_where_it_speaks_witness:
  "value_at [''mesh'', ''ttl''] (deep_merge demo_base demo_overlay) = Some (Yaml_scalar ''7'') \<and>
   value_at [''scan_mode''] (deep_merge demo_base demo_overlay) = Some (Yaml_scalar ''le'')"
  using overlay_wins_where_it_speaks [of demo_overlay "[''mesh'', ''ttl'']" demo_base]
    overlay_wins_where_it_speaks [of demo_overlay "[''scan_mode'']" demo_base]
  by (simp add: demo_overlay_def demo_base_def is_leaf_def)

theorem deep_merge_idempotent_witness:
  "deep_merge (deep_merge demo_base demo_overlay) demo_overlay = deep_merge demo_base demo_overlay"
  by (rule deep_merge_idempotent) (simp add: demo_overlay_def)

end
