(* ===== verification/Config_Loader.thy ===== *)
theory Config_Loader
  imports Yaml_Values Util_Strings Uuid_Identity
begin

text \<open>
  \<open>parse_node_config\<close> and \<open>load_effective_config\<close> of \<open>src/config/config_loader.cpp\<close>. The function fills one
  \<open>NodeConfig\<close> from top to bottom; here it is the sequence of its statements, each of which reads a field, checks
  a condition or throws, grouped as the source groups them.
\<close>

type_synonym config_step = "node_config \<Rightarrow> std_error + node_config"

fun in_order :: "config_step list \<Rightarrow> config_step" where
  "in_order [] cfg = Inr cfg"
| "in_order (f # fs) cfg = attempt (f cfg) (in_order fs)"

text \<open>\<open>cfg.field = read("key", cfg.field)\<close> and a check that throws.\<close>

definition read_field ::
    "string \<Rightarrow> (string \<Rightarrow> 'v \<Rightarrow> std_error + 'v) \<Rightarrow> (node_config \<Rightarrow> 'v) \<Rightarrow> (('v \<Rightarrow> 'v) \<Rightarrow> node_config \<Rightarrow> node_config)
      \<Rightarrow> config_step" where
  "read_field key reader get update cfg = attempt (reader key (get cfg)) (\<lambda>v. Inr (update (\<lambda>_. v) cfg))"

definition require :: "string \<Rightarrow> (node_config \<Rightarrow> bool) \<Rightarrow> config_step" where
  "require message P cfg = (if P cfg then Inr cfg else Inl (Runtime_error message))"

definition assign :: "(node_config \<Rightarrow> node_config) \<Rightarrow> config_step" where
  "assign f cfg = Inr (f cfg)"

section \<open>Readers\<close>

definition expand_hostname :: "string \<Rightarrow> string \<Rightarrow> string" where
  "expand_hostname value hostname = replace_placeholder (sanitize_topic_suffix hostname) value"

definition read_with :: "yaml_conv \<Rightarrow> (yaml \<Rightarrow> 'v option) \<Rightarrow> yaml \<Rightarrow> string \<Rightarrow> 'v \<Rightarrow> std_error + 'v" where
  "read_with c convert doc key fallback =
     (case yaml_at doc key of None \<Rightarrow> Inr fallback | Some node \<Rightarrow> as_value c convert node)"

definition str :: "yaml_conv \<Rightarrow> yaml \<Rightarrow> string \<Rightarrow> string \<Rightarrow> std_error + string" where
  "str c = read_with c (yc_string c)"

definition dbl :: "yaml_conv \<Rightarrow> yaml \<Rightarrow> string \<Rightarrow> rat \<Rightarrow> std_error + rat" where
  "dbl c = read_with c (yc_double c)"

definition flag :: "yaml_conv \<Rightarrow> yaml \<Rightarrow> string \<Rightarrow> bool \<Rightarrow> std_error + bool" where
  "flag c = read_with c (yc_bool c)"

definition u32_field :: "yaml_conv \<Rightarrow> yaml \<Rightarrow> string \<Rightarrow> u32 \<Rightarrow> std_error + u32" where
  "u32_field c = read_with c (yc_u32 c)"

definition str_list :: "yaml_conv \<Rightarrow> yaml \<Rightarrow> string \<Rightarrow> string list" where
  "str_list c doc key =
     (case yaml_at doc key of
        Some (Yaml_sequence items) \<Rightarrow> map (\<lambda>item. text_or c [] (Some item)) items
      | _ \<Rightarrow> [])"

text \<open>\<open>static_cast<T>(parse_integer_value(doc[key] ? doc[key] : YAML::Node(fallback), limit, key))\<close>\<close>

definition integer ::
    "yaml_conv \<Rightarrow> yaml \<Rightarrow> ('w::len word \<Rightarrow> yaml) \<Rightarrow> u64 \<Rightarrow> string \<Rightarrow> 'w word \<Rightarrow> std_error + 'w word" where
  "integer c doc encode limit key fallback =
     attempt (parse_integer_value c (case yaml_at doc key of Some node \<Rightarrow> node | None \<Rightarrow> encode fallback) limit key)
       (\<lambda>v. Inr (ucast v))"

definition lowered :: "(string \<Rightarrow> string \<Rightarrow> std_error + string) \<Rightarrow> string \<Rightarrow> string \<Rightarrow> std_error + string" where
  "lowered reader key fallback = attempt (reader key fallback) (\<lambda>s. Inr (lower_trim_copy s))"

definition expanded ::
    "string \<Rightarrow> (string \<Rightarrow> string \<Rightarrow> std_error + string) \<Rightarrow> string \<Rightarrow> string \<Rightarrow> std_error + string" where
  "expanded hostname reader key fallback = attempt (reader key fallback) (\<lambda>s. Inr (expand_hostname s hostname))"

section \<open>General options\<close>

definition mesh_options :: "string list" where
  "mesh_options = [''mesh_agent_capabilities'', ''mesh_agent_numeric_oob'', ''mesh_agent_oob_info'',
     ''mesh_agent_private_key'', ''mesh_agent_public_key'', ''mesh_agent_static_oob'', ''mesh_agent_uri'',
     ''mesh_auto_attach'', ''mesh_auto_configure_relay'', ''mesh_auto_create_network'', ''mesh_auto_join'',
     ''mesh_company_id'', ''mesh_crpl'', ''mesh_default_ttl'', ''mesh_device_uuid'', ''mesh_next_unicast'',
     ''mesh_product_id'', ''mesh_provisioner'', ''mesh_provisioner_preference'', ''mesh_relay_retransmit_count'',
     ''mesh_relay_retransmit_interval_steps'', ''mesh_network_retransmit_count'',
     ''mesh_network_retransmit_interval_steps'', ''mesh_swarm_app_key_index'', ''mesh_swarm_auto_provisioning'',
     ''mesh_swarm_group_address'', ''mesh_swarm_heartbeat_period'', ''mesh_swarm_id'', ''mesh_swarm_network_index'',
     ''mesh_swarm_participating'', ''mesh_swarm_provisioner_timeout'', ''mesh_swarm_startup_grace'',
     ''mesh_swarm_state_path'', ''mesh_token'', ''mesh_token_path'', ''mesh_unicast_cursor_path'',
     ''mesh_vendor_model_id'', ''mesh_version_id'']"

fun check_mesh_options :: "(string \<times> yaml) list \<Rightarrow> std_error option" where
  "check_mesh_options [] = None"
| "check_mesh_options ((key, node) # entries) =
     (if take 5 key = ''mesh_'' \<and> key \<notin> set mesh_options
      then Some (Runtime_error (''Unknown Mesh configuration option: '' @ key))
      else check_mesh_options entries)"

definition read_peers_prefix :: "yaml_conv \<Rightarrow> yaml \<Rightarrow> string \<Rightarrow> config_step" where
  "read_peers_prefix c doc hostname cfg =
     (if (case yaml_at doc ''peers_prefix'' of None \<Rightarrow> False | Some node \<Rightarrow> \<not> is_scalar node)
      then Inl (Runtime_error ''peers_prefix must be a ROS topic path string'')
      else attempt (str c doc ''peers_prefix'' (peers_prefix cfg)) (\<lambda>path.
           attempt (resolve_topic_path path hostname) (\<lambda>resolved.
             Inr (cfg\<lparr>peers_prefix := (if resolved = ''/'' then [] else resolved)\<rparr>))))"

definition read_serial_port_channel :: "yaml_conv \<Rightarrow> yaml \<Rightarrow> config_step" where
  "read_serial_port_channel c doc cfg =
     attempt (u32_field c doc ''serial_port_channel'' (ucast (serial_port_channel cfg))) (\<lambda>channel.
       if channel = 0 \<or> 30 < channel
       then Inl (Runtime_error ''serial_port_channel must be in the range 1..30'')
       else Inr (cfg\<lparr>serial_port_channel := ucast channel\<rparr>))"

definition read_general_options :: "yaml_conv \<Rightarrow> yaml \<Rightarrow> string \<Rightarrow> config_step list" where
  "read_general_options c doc hostname =
    [read_peers_prefix c doc hostname,
     read_field ''scan_publish_period'' (dbl c doc) scan_publish_period scan_publish_period_update,
     read_field ''time_update_period'' (dbl c doc) time_update_period time_update_period_update,
     read_field ''wifi_refresh_period'' (dbl c doc) wifi_refresh_period wifi_refresh_period_update,
     read_field ''auto_connect_period'' (dbl c doc) auto_connect_period auto_connect_period_update,
     read_field ''discoverable_timeout'' (u32_field c doc) discoverable_timeout discoverable_timeout_update,
     read_field ''auto_pair'' (flag c doc) auto_pair auto_pair_update,
     read_field ''auto_trust'' (flag c doc) auto_trust auto_trust_update,
     read_field ''enable_time_service'' (flag c doc) enable_time_service enable_time_service_update,
     read_field ''enable_wifi_service'' (flag c doc) enable_wifi_service enable_wifi_service_update,
     read_field ''enable_serial_port_profile'' (flag c doc) enable_serial_port_profile enable_serial_port_profile_update,
     read_serial_port_channel c doc,
     read_field ''serial_sshd_path'' (str c doc) serial_sshd_path serial_sshd_path_update]"

section \<open>Mesh options\<close>

definition read_mesh_roles :: "yaml_conv \<Rightarrow> yaml \<Rightarrow> config_step list" where
  "read_mesh_roles c doc =
    [read_field ''enable_mesh'' (flag c doc) enable_mesh enable_mesh_update,
     read_field ''mesh_auto_attach'' (flag c doc) mesh_auto_attach mesh_auto_attach_update,
     read_field ''mesh_auto_join'' (flag c doc) mesh_auto_join mesh_auto_join_update,
     read_field ''mesh_auto_create_network'' (flag c doc) mesh_auto_create_network mesh_auto_create_network_update,
     require ''mesh_auto_join and mesh_auto_create_network are mutually exclusive''
       (\<lambda>cfg. \<not> (mesh_auto_join cfg \<and> mesh_auto_create_network cfg)),
     read_field ''mesh_provisioner'' (flag c doc) mesh_provisioner mesh_provisioner_update,
     read_field ''mesh_auto_configure_relay'' (flag c doc) mesh_auto_configure_relay mesh_auto_configure_relay_update,
     read_field ''mesh_default_ttl'' (integer c doc (yc_of_u8 c) 127) mesh_default_ttl mesh_default_ttl_update,
     require ''mesh_default_ttl must be 0 or in the range 2..127'' (\<lambda>cfg. mesh_default_ttl cfg \<noteq> 1),
     read_field ''mesh_relay_retransmit_count'' (integer c doc (yc_of_u8 c) 7)
       mesh_relay_retransmit_count mesh_relay_retransmit_count_update,
     read_field ''mesh_relay_retransmit_interval_steps'' (integer c doc (yc_of_u8 c) 31)
       mesh_relay_retransmit_interval_steps mesh_relay_retransmit_interval_steps_update,
     read_field ''mesh_network_retransmit_count'' (integer c doc (yc_of_u8 c) 7)
       mesh_network_retransmit_count mesh_network_retransmit_count_update,
     read_field ''mesh_network_retransmit_interval_steps'' (integer c doc (yc_of_u8 c) 31)
       mesh_network_retransmit_interval_steps mesh_network_retransmit_interval_steps_update]"

fun unique_peers :: "string list \<Rightarrow> string list \<Rightarrow> std_error + string list" where
  "unique_peers seen [] = Inr []"
| "unique_peers seen (raw # peers) =
     (let peer = lower_trim_copy raw in
      if peer = [] \<or> peer \<in> set seen
      then Inl (Runtime_error ''peer_whitelist must contain unique, non-empty hostnames'')
      else attempt (unique_peers (peer # seen) peers) (\<lambda>rest. Inr (peer # rest)))"

definition read_peer_whitelist :: "yaml_conv \<Rightarrow> yaml \<Rightarrow> config_step" where
  "read_peer_whitelist c doc cfg =
     attempt (unique_peers [] (str_list c doc ''peer_whitelist'')) (\<lambda>peers. Inr (cfg\<lparr>peer_whitelist := peers\<rparr>))"

definition read_mesh_device_uuid :: "yaml_conv \<Rightarrow> yaml \<Rightarrow> config_step" where
  "read_mesh_device_uuid c doc cfg =
     attempt (str c doc ''mesh_device_uuid'' (mesh_device_uuid cfg)) (\<lambda>uuid.
       let normalized_uuid = filter (\<lambda>ch. ch \<noteq> CHR ''-'') uuid in
       if uuid = [] then Inr (cfg\<lparr>mesh_device_uuid := []\<rparr>)
       else if length normalized_uuid \<noteq> 32 \<or> \<not> list_all is_xdigit normalized_uuid
       then Inl (Runtime_error ''mesh_device_uuid must contain exactly 16 hexadecimal bytes'')
       else Inr (cfg\<lparr>mesh_device_uuid := normalized_uuid\<rparr>))"

definition read_swarm_options :: "yaml_conv \<Rightarrow> yaml \<Rightarrow> string \<Rightarrow> config_step list" where
  "read_swarm_options c doc hostname =
    [read_peer_whitelist c doc,
     read_field ''mesh_swarm_auto_provisioning'' (flag c doc) mesh_swarm_auto_provisioning mesh_swarm_auto_provisioning_update,
     read_field ''mesh_swarm_id'' (integer c doc (yc_of_u16 c) 0xffff) mesh_swarm_id mesh_swarm_id_update,
     require ''mesh_swarm_id must be in 1..65535'' (\<lambda>cfg. mesh_swarm_id cfg \<noteq> 0),
     read_field ''mesh_swarm_participating'' (flag c doc) mesh_swarm_participating mesh_swarm_participating_update,
     read_field ''mesh_swarm_state_path'' (expanded hostname (str c doc)) mesh_swarm_state_path mesh_swarm_state_path_update,
     read_field ''mesh_provisioner_preference'' (lowered (str c doc))
       mesh_provisioner_preference mesh_provisioner_preference_update,
     read_field ''mesh_swarm_startup_grace'' (dbl c doc) mesh_swarm_startup_grace mesh_swarm_startup_grace_update,
     read_field ''mesh_swarm_heartbeat_period'' (dbl c doc) mesh_swarm_heartbeat_period mesh_swarm_heartbeat_period_update,
     read_field ''mesh_swarm_provisioner_timeout'' (dbl c doc)
       mesh_swarm_provisioner_timeout mesh_swarm_provisioner_timeout_update,
     read_field ''mesh_swarm_group_address'' (integer c doc (yc_of_u16 c) 0xffff)
       mesh_swarm_group_address mesh_swarm_group_address_update,
     read_field ''mesh_swarm_network_index'' (integer c doc (yc_of_u16 c) 0x0fff)
       mesh_swarm_network_index mesh_swarm_network_index_update,
     read_field ''mesh_swarm_app_key_index'' (integer c doc (yc_of_u16 c) 0x0fff)
       mesh_swarm_app_key_index mesh_swarm_app_key_index_update,
     read_field ''mesh_unicast_cursor_path'' (expanded hostname (str c doc))
       mesh_unicast_cursor_path mesh_unicast_cursor_path_update,
     read_mesh_device_uuid c doc]"

section \<open>Automatic provisioning\<close>

definition number_digits :: "string \<Rightarrow> string" where
  "number_digits member =
     (case find_last (\<lambda>ch. \<not> is_digit ch) member of None \<Rightarrow> member | Some i \<Rightarrow> drop (i + 1) member)"

definition number_for :: "yaml_conv \<Rightarrow> string \<Rightarrow> string \<Rightarrow> std_error + u64" where
  "number_for c member context =
     (let digits = number_digits member in
      if digits = [] then Inl (Runtime_error (context @ '' must end in a UAV number: '' @ member))
      else attempt (parse_integer_value c (Yaml_scalar digits) 0xffff (context @ '' UAV number'')) (\<lambda>number.
        if number = 0 then Inl (Runtime_error (context @ '' UAV number must be nonzero'')) else Inr number))"

fun unique_numbers :: "yaml_conv \<Rightarrow> u64 list \<Rightarrow> string list \<Rightarrow> std_error option" where
  "unique_numbers c seen [] = None"
| "unique_numbers c seen (peer # peers) =
     (case number_for c peer ''peer_whitelist entry'' of
        Inl e \<Rightarrow> Some e
      | Inr number \<Rightarrow>
          if number \<in> set seen then Some (Runtime_error ''peer_whitelist must contain unique UAV numbers'')
          else unique_numbers c (number # seen) peers)"

definition check_members :: "yaml_conv \<Rightarrow> string \<Rightarrow> config_step" where
  "check_members c hostname cfg =
     (case unique_numbers c [] (peer_whitelist cfg) of
        Some e \<Rightarrow> Inl e
      | None \<Rightarrow>
          let local_name = lower_trim_copy hostname in
          attempt (number_for c local_name ''local hostname'') (\<lambda>local_number.
            if peer_whitelist cfg \<noteq> [] \<and> local_name \<notin> set (peer_whitelist cfg)
            then Inl (Runtime_error (''local hostname is missing from peer_whitelist: '' @ local_name))
            else if mesh_provisioner_preference cfg = ''ordered'' then Inr cfg
            else attempt (number_for c (mesh_provisioner_preference cfg) ''mesh_provisioner_preference'') (\<lambda>_.
              if peer_whitelist cfg \<noteq> [] \<and> mesh_provisioner_preference cfg \<notin> set (peer_whitelist cfg)
              then Inl (Runtime_error ''explicit mesh_provisioner_preference must appear in peer_whitelist'')
              else Inr cfg)))"

definition when_auto :: "config_step list \<Rightarrow> config_step" where
  "when_auto steps cfg = (if mesh_swarm_auto_provisioning cfg then in_order steps cfg else Inr cfg)"

definition auto_provisioning_roles :: "yaml_conv \<Rightarrow> string \<Rightarrow> config_step list" where
  "auto_provisioning_roles c hostname =
    [require ''mesh_swarm_auto_provisioning requires enable_mesh'' enable_mesh,
     assign (\<lambda>cfg. cfg\<lparr>mesh_provisioner := True, mesh_auto_attach := True, mesh_auto_join := False,
       mesh_auto_create_network := False, mesh_auto_configure_relay := True\<rparr>),
     require ''mesh_swarm_auto_provisioning requires hostname-derived Mesh UUIDs; leave mesh_device_uuid empty''
       (\<lambda>cfg. mesh_device_uuid cfg = []),
     require (''mesh_provisioner_preference must be '' @ [CHR 0x27] @ ''ordered'' @ [CHR 0x27] @ '' or a UAV hostname'')
       (\<lambda>cfg. mesh_provisioner_preference cfg \<noteq> []),
     check_members c hostname,
     require ''automatic Mesh provisioning periods must be finite and greater than zero''
       (\<lambda>cfg. 0 < mesh_swarm_startup_grace cfg \<and> 0 < mesh_swarm_heartbeat_period cfg \<and>
          0 < mesh_swarm_provisioner_timeout cfg),
     require ''mesh_swarm_provisioner_timeout must exceed two heartbeat periods''
       (\<lambda>cfg. mesh_swarm_heartbeat_period cfg * 2 < mesh_swarm_provisioner_timeout cfg),
     require ''mesh_swarm_provisioner_timeout must not exceed 63 seconds''
       (\<lambda>cfg. mesh_swarm_provisioner_timeout cfg \<le> 63),
     require ''mesh_swarm_group_address must be a Mesh group address (0xc000..0xfeff)''
       (\<lambda>cfg. 0xc000 \<le> mesh_swarm_group_address cfg \<and> mesh_swarm_group_address cfg \<le> 0xfeff)]"

definition read_mesh_token :: "yaml_conv \<Rightarrow> yaml \<Rightarrow> config_step" where
  "read_mesh_token c doc cfg =
     attempt (parse_integer_value c (case yaml_at doc ''mesh_token'' of Some node \<Rightarrow> node | None \<Rightarrow> yc_of_int c 0)
       0xffffffffffffffff ''mesh_token'') (\<lambda>token. Inr (cfg\<lparr>mesh_token := token\<rparr>))"

definition read_mesh_identity :: "yaml_conv \<Rightarrow> yaml \<Rightarrow> string \<Rightarrow> config_step list" where
  "read_mesh_identity c doc hostname =
    [read_mesh_token c doc,
     read_field ''mesh_token_path'' (expanded hostname (str c doc)) mesh_token_path mesh_token_path_update,
     read_field ''mesh_company_id'' (integer c doc (yc_of_u16 c) 0xffff) mesh_company_id mesh_company_id_update,
     read_field ''mesh_product_id'' (integer c doc (yc_of_u16 c) 0xffff) mesh_product_id mesh_product_id_update,
     read_field ''mesh_version_id'' (integer c doc (yc_of_u16 c) 0xffff) mesh_version_id mesh_version_id_update,
     read_field ''mesh_crpl'' (integer c doc (yc_of_u16 c) 0xffff) mesh_crpl mesh_crpl_update,
     require ''mesh_crpl must be greater than zero'' (\<lambda>cfg. mesh_crpl cfg \<noteq> 0),
     read_field ''mesh_vendor_model_id'' (integer c doc (yc_of_u16 c) 0xffff) mesh_vendor_model_id mesh_vendor_model_id_update,
     read_field ''mesh_next_unicast'' (integer c doc (yc_of_u16 c) 0x7fff) mesh_next_unicast mesh_next_unicast_update,
     require ''mesh_next_unicast must be in the range 0x0001..0x7fff'' (\<lambda>cfg. mesh_next_unicast cfg \<noteq> 0)]"

definition check_local_number :: "string \<Rightarrow> config_step" where
  "check_local_number hostname cfg =
     attempt (stoul_digits (number_digits hostname)) (\<lambda>number.
       if 0x7fff < number then Inl (Runtime_error ''Automatic Mesh UAV number must be in 1..32767'') else Inr cfg)"

definition auto_provisioning_identity :: "string \<Rightarrow> config_step list" where
  "auto_provisioning_identity hostname =
    [require (''Hands-free private Mesh needs an ordered peer_whitelist so PB-ADV can target each nearby UAV'' @
         [CHR 0x27] @ ''s Device UUID'') (\<lambda>cfg. peer_whitelist cfg \<noteq> []),
     assign (\<lambda>cfg. cfg\<lparr>mesh_token_path := mesh_token_path cfg @ ''.auto''\<rparr>),
     check_local_number hostname]"

definition read_bytes_field ::
    "yaml_conv \<Rightarrow> yaml \<Rightarrow> string \<Rightarrow> u8 list \<Rightarrow> std_error + u8 list" where
  "read_bytes_field c doc key fallback = parse_byte_sequence c (yaml_at doc key) key"

definition read_mesh_agent :: "yaml_conv \<Rightarrow> yaml \<Rightarrow> config_step list" where
  "read_mesh_agent c doc =
    [assign (\<lambda>cfg. cfg\<lparr>mesh_agent_capabilities := str_list c doc ''mesh_agent_capabilities''\<rparr>),
     assign (\<lambda>cfg. cfg\<lparr>mesh_agent_oob_info := str_list c doc ''mesh_agent_oob_info''\<rparr>),
     read_field ''mesh_agent_static_oob'' (read_bytes_field c doc) mesh_agent_static_oob mesh_agent_static_oob_update,
     read_field ''mesh_agent_private_key'' (read_bytes_field c doc) mesh_agent_private_key mesh_agent_private_key_update,
     read_field ''mesh_agent_public_key'' (read_bytes_field c doc) mesh_agent_public_key mesh_agent_public_key_update,
     require ''mesh_agent_static_oob must contain exactly 16 bytes''
       (\<lambda>cfg. mesh_agent_static_oob cfg = [] \<or> length (mesh_agent_static_oob cfg) = 16),
     require ''mesh_agent_private_key must contain exactly 32 bytes''
       (\<lambda>cfg. mesh_agent_private_key cfg = [] \<or> length (mesh_agent_private_key cfg) = 32),
     require ''mesh_agent_public_key must contain exactly 64 bytes''
       (\<lambda>cfg. mesh_agent_public_key cfg = [] \<or> length (mesh_agent_public_key cfg) = 64),
     read_field ''mesh_agent_numeric_oob'' (u32_field c doc) mesh_agent_numeric_oob mesh_agent_numeric_oob_update,
     require ''mesh_agent_numeric_oob must be at most 99999999'' (\<lambda>cfg. mesh_agent_numeric_oob cfg \<le> 99999999),
     read_field ''mesh_agent_uri'' (str c doc) mesh_agent_uri mesh_agent_uri_update]"

end
