(* ===== verification/Config_Parse.thy ===== *)
theory Config_Parse
  imports Config_Loader
begin

text \<open>
  The second half of \<open>src/config/config_loader.cpp\<close>: the advertising options, the shared topics, the
  checks across fields, and the loading of a default file with an overlay.
\<close>

section \<open>Connection and advertising options\<close>

fun profile_uuids :: "string list \<Rightarrow> std_error + string list" where
  "profile_uuids [] = Inr []"
| "profile_uuids (raw # uuids) =
     (let uuid = lower_trim_copy raw in
      if \<not> is_uuid uuid
      then Inl (Runtime_error (''gatt_profile_uuids must contain only 128-bit UUIDs: '' @ uuid))
      else attempt (profile_uuids uuids) (\<lambda>rest. Inr (uuid # rest)))"

definition read_gatt_profile_uuids :: "yaml_conv \<Rightarrow> yaml \<Rightarrow> config_step" where
  "read_gatt_profile_uuids c doc cfg =
     attempt (profile_uuids (str_list c doc ''gatt_profile_uuids'')) (\<lambda>uuids. Inr (cfg\<lparr>gatt_profile_uuids := uuids\<rparr>))"

definition read_connection_options :: "yaml_conv \<Rightarrow> yaml \<Rightarrow> config_step list" where
  "read_connection_options c doc =
    [read_gatt_profile_uuids c doc,
     read_field ''auto_connect_enable'' (flag c doc) auto_connect_enable auto_connect_enable_update,
     read_field ''auto_connect_pattern'' (str c doc) auto_connect_pattern auto_connect_pattern_update,
     read_field ''peer_connection_timeout'' (dbl c doc) peer_connection_timeout peer_connection_timeout_update,
     read_field ''wifi_netplan_config_path'' (str c doc) wifi_netplan_config_path wifi_netplan_config_path_update,
     assign (\<lambda>cfg. cfg\<lparr>allowed_wifi_networks := str_list c doc ''allowed_wifi_networks''\<rparr>),
     read_field ''status_report_period'' (dbl c doc) status_report_period status_report_period_update,
     read_field ''log_topic_enable'' (flag c doc) log_topic_enable log_topic_enable_update,
     read_field ''expire_connections_with_overlay'' (flag c doc)
       expire_connections_with_overlay expire_connections_with_overlay_update,
     read_field ''overlay_keepalive_topic_suffix'' (str c doc)
       overlay_keepalive_topic_suffix overlay_keepalive_topic_suffix_update,
     read_field ''verbose_log_file'' (str c doc) verbose_log_file verbose_log_file_update]"

definition read_advertise_mode :: "yaml_conv \<Rightarrow> yaml \<Rightarrow> string \<Rightarrow> config_step list" where
  "read_advertise_mode c doc hostname =
    [read_field ''advertise_mode'' (lowered (str c doc)) advertise_mode advertise_mode_update,
     require (''advertise_mode must be '' @ [CHR 0x27] @ ''peripheral'' @ [CHR 0x27] @ '' or '' @ [CHR 0x27] @ ''broadcast'' @ [CHR 0x27])
       (\<lambda>cfg. advertise_mode cfg = ''peripheral'' \<or> advertise_mode cfg = ''broadcast''),
     read_field ''advertise_size'' (lowered (str c doc)) advertise_size advertise_size_update,
     require (''advertise_size must be '' @ [CHR 0x27] @ ''legacy'' @ [CHR 0x27] @ '' or '' @ [CHR 0x27] @ ''extended'' @ [CHR 0x27])
       (\<lambda>cfg. advertise_size cfg = ''legacy'' \<or> advertise_size cfg = ''extended''),
     read_field ''advertise_update_strategy'' (lowered (str c doc)) advertise_update_strategy advertise_update_strategy_update,
     require (''advertise_update_strategy must be '' @ [CHR 0x27] @ ''property'' @ [CHR 0x27] @ '' or '' @ [CHR 0x27] @
         ''reregister'' @ [CHR 0x27])
       (\<lambda>cfg. advertise_update_strategy cfg = ''property'' \<or> advertise_update_strategy cfg = ''reregister''),
     read_field ''advertise_local_name'' (expanded hostname (str c doc)) advertise_local_name advertise_local_name_update]"

text \<open>The parsers of map keys.\<close>

definition integer_key :: "yaml_conv \<Rightarrow> u64 \<Rightarrow> string \<Rightarrow> string \<Rightarrow> std_error + 'w::len word" where
  "integer_key c limit raw_key context =
     attempt (parse_integer_value c (Yaml_scalar raw_key) limit (context @ ''.key='' @ raw_key)) (\<lambda>v. Inr (ucast v))"

definition text_key :: "string \<Rightarrow> string \<Rightarrow> std_error + string" where
  "text_key raw_key context = Inr raw_key"

definition read_byte_map ::
    "yaml_conv \<Rightarrow> yaml \<Rightarrow> (string \<Rightarrow> string \<Rightarrow> std_error + 'k) \<Rightarrow> string \<Rightarrow> ('k \<rightharpoonup> u8 list)
      \<Rightarrow> std_error + ('k \<rightharpoonup> u8 list)" where
  "read_byte_map c doc parse_key key fallback = parse_byte_map c (yaml_at doc key) parse_key key"

definition read_advertise_data :: "yaml_conv \<Rightarrow> yaml \<Rightarrow> config_step list" where
  "read_advertise_data c doc =
    [read_field ''advertise_discoverable'' (\<lambda>key fallback. parse_optional_bool c doc key)
       advertise_discoverable advertise_discoverable_update,
     assign (\<lambda>cfg. cfg\<lparr>advertise_includes := str_list c doc ''advertise_includes''\<rparr>),
     assign (\<lambda>cfg. cfg\<lparr>advertise_service_uuids := str_list c doc ''advertise_service_uuids''\<rparr>),
     assign (\<lambda>cfg. cfg\<lparr>advertise_solicit_uuids := str_list c doc ''advertise_solicit_uuids''\<rparr>),
     read_field ''advertise_manufacturer_data'' (read_byte_map c doc (integer_key c 0xffff))
       advertise_manufacturer_data advertise_manufacturer_data_update,
     read_field ''advertise_service_data'' (read_byte_map c doc text_key)
       advertise_service_data advertise_service_data_update,
     read_field ''advertise_data'' (read_byte_map c doc (integer_key c 255)) advertise_data advertise_data_update,
     assign (\<lambda>cfg. cfg\<lparr>advertise_scan_response_service_uuids := str_list c doc ''advertise_scan_response_service_uuids''\<rparr>),
     read_field ''advertise_scan_response_manufacturer_data'' (read_byte_map c doc (integer_key c 0xffff))
       advertise_scan_response_manufacturer_data advertise_scan_response_manufacturer_data_update,
     assign (\<lambda>cfg. cfg\<lparr>advertise_scan_response_solicit_uuids := str_list c doc ''advertise_scan_response_solicit_uuids''\<rparr>),
     read_field ''advertise_scan_response_service_data'' (read_byte_map c doc text_key)
       advertise_scan_response_service_data advertise_scan_response_service_data_update,
     read_field ''advertise_scan_response_data'' (read_byte_map c doc (integer_key c 255))
       advertise_scan_response_data advertise_scan_response_data_update]"

definition read_extra_data_topic :: "yaml_conv \<Rightarrow> yaml \<Rightarrow> string \<Rightarrow> config_step" where
  "read_extra_data_topic c doc hostname cfg =
     attempt (str c doc ''advertise_extra_data_topic'' (advertise_extra_data_topic cfg)) (\<lambda>topic.
     attempt (if topic = [] then Inr [] else resolve_topic_path topic hostname) (\<lambda>resolved.
       Inr (cfg\<lparr>advertise_extra_data_topic := resolved\<rparr>)))"

definition optional_field ::
    "yaml_conv \<Rightarrow> yaml \<Rightarrow> u64 \<Rightarrow> string \<Rightarrow> 'w::len word option \<Rightarrow> std_error + 'w word option" where
  "optional_field c doc limit key fallback = parse_optional_integer c doc key limit"

definition read_advertise_limits :: "yaml_conv \<Rightarrow> yaml \<Rightarrow> string \<Rightarrow> config_step list" where
  "read_advertise_limits c doc hostname =
    [read_field ''advertise_appearance'' (optional_field c doc 0xffff) advertise_appearance advertise_appearance_update,
     read_field ''advertise_duration'' (optional_field c doc 0xffff) advertise_duration advertise_duration_update,
     read_field ''advertise_timeout'' (optional_field c doc 0xffff) advertise_timeout advertise_timeout_update,
     read_field ''advertise_min_interval'' (optional_field c doc 0xffffffff) advertise_min_interval advertise_min_interval_update,
     read_field ''advertise_max_interval'' (optional_field c doc 0xffffffff) advertise_max_interval advertise_max_interval_update,
     read_field ''advertise_tx_power'' (\<lambda>key fallback. parse_optional_signed_integer c doc key (- 32768) 32767)
       advertise_tx_power advertise_tx_power_update,
     read_extra_data_topic c doc hostname,
     read_field ''pairing_agent'' (str c doc) pairing_agent pairing_agent_update,
     read_field ''enable_server'' (flag c doc) enable_server enable_server_update,
     read_field ''enable_scan'' (flag c doc) enable_scan enable_scan_update,
     read_field ''scan_mode'' (str c doc) scan_mode scan_mode_update]"

definition auto_provisioning_switches :: "config_step list" where
  "auto_provisioning_switches =
    [assign (\<lambda>cfg. cfg\<lparr>enable_server := False, enable_scan := False, enable_time_service := False,
       enable_wifi_service := False, enable_serial_port_profile := False, auto_connect_enable := False,
       auto_pair := False, auto_trust := False, gatt_profile_uuids := []\<rparr>)]"

section \<open>Shared topics\<close>

definition bridge_topic_path :: "string \<Rightarrow> string" where
  "bridge_topic_path topic = normalize_ros_topic topic"

definition canonical_shared_topic :: "(string \<Rightarrow> string \<Rightarrow> bool option) \<Rightarrow> string \<Rightarrow> string \<Rightarrow> string" where
  "canonical_shared_topic regex_match export_topic pattern =
     (let normalized = normalize_ros_topic export_topic;
          segments = filter (\<lambda>segment. segment \<noteq> []) (split_on CHR ''/'' normalized)
      in case segments of
           [] \<Rightarrow> normalized
         | segment # rest \<Rightarrow>
             if is_uav_hostname regex_match segment pattern
             then (if rest = [] then ''/'' else concat (map (\<lambda>s. CHR ''/'' # s) rest))
             else normalized)"

definition scalar_types :: "string list" where
  "scalar_types = [''bool'', ''int8'', ''uint8'', ''int16'', ''uint16'', ''int32'', ''uint32'', ''int64'', ''uint64'',
     ''float32'', ''float64'']"

definition ros_type_aliases :: "string \<rightharpoonup> string" where
  "ros_type_aliases = map_of [(''boolean'', ''bool''), (''byte'', ''int8''), (''octet'', ''uint8''), (''char'', ''uint8''),
     (''float'', ''float32''), (''double'', ''float64'')]"

definition normalize_value_type :: "string \<Rightarrow> std_error + string" where
  "normalize_value_type vt =
     (let candidate = (case ros_type_aliases vt of Some name \<Rightarrow> name | None \<Rightarrow> vt) in
      if candidate \<notin> set scalar_types then Inl (Runtime_error (''Unsupported bridge member type: '' @ vt))
      else Inr candidate)"

fun unsupported_key :: "string list \<Rightarrow> (string \<times> yaml) list \<Rightarrow> string option" where
  "unsupported_key allowed [] = None"
| "unsupported_key allowed ((key, node) # entries) =
     (if key \<notin> set allowed then Some key else unsupported_key allowed entries)"

fun parse_member_spec :: "yaml_conv \<Rightarrow> yaml \<Rightarrow> std_error + bridge_member_spec" where
  "parse_member_spec c (Yaml_map entries) =
     (let target = text_or c [] (map_of entries ''target'');
          raw_type = map to_lower (text_or c [] (map_of entries ''type''))
      in attempt (normalize_value_type raw_type) (\<lambda>value_type.
         let expression = text_or c [] (map_of entries ''expression'') in
         case unsupported_key [''target'', ''type'', ''expression''] entries of
           Some key \<Rightarrow> Inl (Runtime_error (''Unsupported members_encode field: '' @ key))
         | None \<Rightarrow>
             if target = [] then Inl (Runtime_error ''members_encode item needs a target'')
             else Inr \<lparr>ms_target = target, ms_value_type = value_type, ms_expression = expression\<rparr>))"
| "parse_member_spec c item = Inl (Runtime_error ''members_encode item must be a mapping'')"

fun parse_assignment :: "yaml_conv \<Rightarrow> yaml \<Rightarrow> std_error + bridge_assignment_spec" where
  "parse_assignment c (Yaml_map entries) =
     (let target = text_or c [] (map_of entries ''target'');
          expression = text_or c [] (map_of entries ''expression'')
      in if target = [] \<or> expression = []
         then Inl (Runtime_error ''members_decode item needs target and expression'')
         else case unsupported_key [''target'', ''expression''] entries of
           Some key \<Rightarrow> Inl (Runtime_error (''Unsupported members_decode field: '' @ key))
         | None \<Rightarrow> Inr \<lparr>as_target = target, as_expression = expression\<rparr>)"
| "parse_assignment c item = Inl (Runtime_error ''members_decode item must be a mapping'')"

fun parse_all :: "(yaml \<Rightarrow> std_error + 'a) \<Rightarrow> yaml list \<Rightarrow> std_error + 'a list" where
  "parse_all parse_one [] = Inr []"
| "parse_all parse_one (item # items) =
     attempt (parse_one item) (\<lambda>x. attempt (parse_all parse_one items) (\<lambda>xs. Inr (x # xs)))"

fun parse_list :: "(yaml \<Rightarrow> std_error + 'a) \<Rightarrow> string \<Rightarrow> yaml option \<Rightarrow> std_error + 'a list" where
  "parse_list parse_one message None = Inr []"
| "parse_list parse_one message (Some (Yaml_sequence items)) = parse_all parse_one items"
| "parse_list parse_one message (Some node) = Inl (Runtime_error message)"

fun duplicate_target :: "string list \<Rightarrow> bridge_member_spec list \<Rightarrow> string option" where
  "duplicate_target seen [] = None"
| "duplicate_target seen (member # members) =
     (if ms_target member \<in> set seen then Some (ms_target member)
      else duplicate_target (ms_target member # seen) members)"

text \<open>The tables of the loop over the declarations: bridge keys and channels seen so far.\<close>

type_synonym topic_tables = "string list \<times> string list"

definition topic_at :: "nat \<Rightarrow> string" where
  "topic_at index = ''shared_topics['' @ show_nat index @ '']''"

definition parse_transport :: "yaml_conv \<Rightarrow> nat \<Rightarrow> yaml \<Rightarrow> std_error + string" where
  "parse_transport c index raw =
     (let transport = lower_trim_copy (text_or c ''gatt'' (yaml_at raw ''transport''));
          transport = (if transport = ''advertising'' \<or> transport = ''advertisement_data'' then ''advertisement''
                       else if transport = [] then ''gatt'' else transport)
      in if transport \<noteq> ''gatt'' \<and> transport \<noteq> ''advertisement'' \<and> transport \<noteq> ''mesh''
         then Inl (Runtime_error (topic_at index @ ''.transport must be gatt, advertisement, or mesh''))
         else Inr transport)"

definition parse_mode :: "yaml_conv \<Rightarrow> nat \<Rightarrow> yaml \<Rightarrow> std_error + string" where
  "parse_mode c index raw =
     (let mode = map to_lower (text_or c ''both'' (yaml_at raw ''mode''));
          mode = (if mode = [] then ''both'' else mode)
      in if mode \<noteq> ''export'' \<and> mode \<noteq> ''import'' \<and> mode \<noteq> ''both''
         then Inl (Runtime_error (topic_at index @ ''.mode must be export, import, or both''))
         else Inr mode)"

definition bridge_key_of :: "string \<Rightarrow> string" where
  "bridge_key_of bridge_name = filter (\<lambda>ch. ch \<noteq> CHR ''-'') (uuid_from_name bridge_name)"

text \<open>From \<open>transport\<close> to \<open>message_type\<close>: the identity of the bridge.\<close>

definition parse_bridge_identity ::
    "yaml_conv \<Rightarrow> (string \<Rightarrow> string \<Rightarrow> bool option) \<Rightarrow> string \<Rightarrow> string \<Rightarrow> nat \<Rightarrow> yaml
      \<Rightarrow> std_error + shared_topic_config \<times> string" where
  "parse_bridge_identity c regex_match pattern hostname index raw =
     attempt (parse_transport c index raw) (\<lambda>transport.
     attempt (parse_mode c index raw) (\<lambda>mode.
     attempt (resolve_topic_path (text_or c [] (yaml_at raw ''export_topic'')) hostname) (\<lambda>export_topic.
       if export_topic = ''/'' then Inl (Runtime_error (topic_at index @ '' requires export_topic''))
       else
         let canonical = canonical_shared_topic regex_match export_topic pattern;
             key_source = text_or c canonical (yaml_at raw ''key'');
             path = bridge_topic_path canonical;
             bridge_name = ''bridge:/'' @ sanitize_topic_suffix hostname @ path;
             message_type = text_or c [] (yaml_at raw ''message_type'')
         in if key_source = [] then Inl (Runtime_error (topic_at index @ '' produced an empty bridge key''))
            else if message_type = [] then Inl (Runtime_error (topic_at index @ '' requires message_type''))
            else Inr (default_shared_topic_config\<lparr>st_transport := transport, st_mode := mode,
                   st_export_topic := export_topic, st_bridge_topic_path := path, st_bridge_name := bridge_name,
                   st_bridge_key := bridge_key_of bridge_name, st_message_type := message_type\<rparr>, canonical))))"

definition parse_payload ::
    "yaml_conv \<Rightarrow> nat \<Rightarrow> yaml \<Rightarrow> shared_topic_config \<Rightarrow> std_error + shared_topic_config" where
  "parse_payload c index raw stc =
     (let format = lower_trim_copy (text_or c ''struct'' (yaml_at raw ''payload_format'')) in
      if format \<noteq> ''struct'' \<and> format \<noteq> ''raw'' \<and> format \<noteq> ''ros2''
      then Inl (Runtime_error (topic_at index @ ''.payload_format must be struct, raw, or ros2''))
      else
        attempt (parse_list (parse_member_spec c) ''members_encode must be a list'' (yaml_at raw ''members_encode'')) (\<lambda>members.
        attempt (parse_list (parse_assignment c) ''members_decode must be a list'' (yaml_at raw ''members_decode'')) (\<lambda>assignments.
          let members = (if format = ''raw'' \<and> members = []
                         then [\<lparr>ms_target = ''data[:]'', ms_value_type = ''uint8'', ms_expression = []\<rparr>] else members) in
          if format \<noteq> ''ros2'' \<and> members = []
          then Inl (Runtime_error (topic_at index @ '' requires at least one members_encode definition''))
          else case duplicate_target [] members of
            Some target \<Rightarrow> Inl (Runtime_error (''Duplicate members_encode target: '' @ target))
          | None \<Rightarrow> Inr (stc\<lparr>st_payload_format := format, st_member_specs := members, st_decode_assignments := assignments\<rparr>))))"

definition import_suffix_of :: "string \<Rightarrow> string" where
  "import_suffix_of import_suffix =
     (let normalized = normalize_ros_topic import_suffix in
      if normalized \<noteq> [] \<and> hd normalized = CHR ''/'' then tl normalized else normalized)"

definition parse_delivery ::
    "yaml_conv \<Rightarrow> string \<Rightarrow> yaml \<Rightarrow> shared_topic_config \<Rightarrow> std_error + shared_topic_config" where
  "parse_delivery c canonical raw stc =
     (let suffix = import_suffix_of (text_or c canonical (yaml_at raw ''import_topic_suffix''));
          rate = (case yaml_at raw ''rate_hz'' of None \<Rightarrow> 0
                  | Some node \<Rightarrow> (case yc_double c node of None \<Rightarrow> 0 | Some r \<Rightarrow> r));
          name = text_or c canonical (yaml_at raw ''name'')
      in attempt (case yaml_at raw ''framing'' of None \<Rightarrow> Inr ''channel''
                  | Some node \<Rightarrow> as_value c (yc_string c) node) (\<lambda>framing_text.
         let framing = lower_trim_copy framing_text in
         if framing \<noteq> ''channel'' \<and> framing \<noteq> ''bare''
         then Inl (Runtime_error ''shared_topics.framing must be channel or bare'')
         else if framing = ''bare'' \<and> st_transport stc \<noteq> ''advertisement''
         then Inl (Runtime_error ''bare framing is supported only for advertisements'')
         else Inr (stc\<lparr>st_import_topic_suffix := suffix, st_rate_hz := max 0 rate,
                st_name := (if name = [] then canonical else name), st_advertisement_bare := (framing = ''bare'')\<rparr>)))"

text \<open>The channel of a connectionless bridge; its transport and number are its key in the table of channels.\<close>

definition channel_key :: "shared_topic_config \<Rightarrow> string" where
  "channel_key stc = st_transport stc @ '':'' @ show_nat (unat (st_channel_id stc))"

definition parse_channel ::
    "yaml_conv \<Rightarrow> nat \<Rightarrow> string list \<Rightarrow> yaml \<Rightarrow> shared_topic_config \<Rightarrow> std_error + shared_topic_config \<times> string list" where
  "parse_channel c index seen_channels raw stc =
     (if st_transport stc \<noteq> ''gatt'' \<and> \<not> st_advertisement_bare stc
      then (case yaml_at raw ''channel_id'' of
              None \<Rightarrow> Inl (Runtime_error (topic_at index @ ''.channel_id is required for advertisement and mesh transports''))
            | Some node \<Rightarrow>
                attempt (parse_integer_value c node 0xffff (topic_at index @ ''.channel_id'')) (\<lambda>channel.
                  let stc = stc\<lparr>st_channel_id := ucast channel\<rparr> in
                  if st_channel_id stc = 0
                  then Inl (Runtime_error (topic_at index @ ''.channel_id must be in the range 1..65535''))
                  else if channel_key stc \<in> set seen_channels
                  then Inl (Runtime_error (topic_at index @ '' duplicates channel_id for transport '' @ st_transport stc))
                  else Inr (stc, channel_key stc # seen_channels)))
      else if st_advertisement_bare stc \<and> yaml_at raw ''channel_id'' \<noteq> None
      then Inl (Runtime_error ''A bare advertisement bridge must not set channel_id'')
      else Inr (stc, seen_channels))"

definition parse_mesh_route ::
    "yaml_conv \<Rightarrow> node_config \<Rightarrow> yaml \<Rightarrow> shared_topic_config \<Rightarrow> std_error + shared_topic_config" where
  "parse_mesh_route c cfg raw stc =
     (let number = (\<lambda>key default limit. parse_integer_value c
            (case yaml_at raw key of Some node \<Rightarrow> node | None \<Rightarrow> default) limit (''shared_topics.mesh.'' @ key)) in
      if st_transport stc \<noteq> ''mesh'' then Inr stc
      else
        attempt (number ''destination'' (yc_of_u16 c (mesh_swarm_group_address cfg)) 0xffff) (\<lambda>destination.
        attempt (number ''app_key_index'' (yc_of_u16 c (mesh_swarm_app_key_index cfg)) 0x0fff) (\<lambda>app_key_index.
        attempt (number ''element_index'' (yc_of_int c 0) 255) (\<lambda>element_index.
        let force_segmented = (case yaml_at raw ''force_segmented'' of None \<Rightarrow> True
              | Some node \<Rightarrow> (case yc_bool c node of None \<Rightarrow> True | Some b \<Rightarrow> b)) in
        attempt (number ''vendor_opcode'' (yc_of_int c 0xc1) 255) (\<lambda>vendor_opcode.
        attempt (number ''company_id'' (yc_of_u16 c (mesh_company_id cfg)) 0xffff) (\<lambda>company_id.
          let stc = stc\<lparr>st_mesh_swarm_reliable := (mesh_swarm_auto_provisioning cfg \<and> yaml_at raw ''destination'' = None),
                st_mesh_destination := ucast destination, st_mesh_app_key_index := ucast app_key_index,
                st_mesh_element_index := ucast element_index, st_mesh_force_segmented := force_segmented,
                st_mesh_vendor_opcode := ucast vendor_opcode, st_mesh_company_id := ucast company_id\<rparr> in
          if st_mesh_vendor_opcode stc < 0xc0
          then Inl (Runtime_error ''shared_topics.mesh.vendor_opcode must be in 0xc0..0xff'')
          else Inr stc))))))"

definition unique_key :: "shared_topic_config \<Rightarrow> string" where
  "unique_key stc = st_transport stc @ '':'' @ st_bridge_key stc"

definition parse_shared_topic ::
    "yaml_conv \<Rightarrow> (string \<Rightarrow> string \<Rightarrow> bool option) \<Rightarrow> string \<Rightarrow> string \<Rightarrow> node_config \<Rightarrow> nat \<Rightarrow> topic_tables \<Rightarrow> yaml
      \<Rightarrow> std_error + shared_topic_config \<times> topic_tables" where
  "parse_shared_topic c regex_match pattern hostname cfg index tables raw =
     (case raw of
        Yaml_map entries \<Rightarrow>
          attempt (parse_bridge_identity c regex_match pattern hostname index raw) (\<lambda>(stc, canonical).
          attempt (parse_payload c index raw stc) (\<lambda>stc.
          attempt (parse_delivery c canonical raw stc) (\<lambda>stc.
          attempt (parse_channel c index (snd tables) raw stc) (\<lambda>(stc, seen_channels).
          attempt (parse_mesh_route c cfg raw stc) (\<lambda>stc.
            if unique_key stc \<in> set (fst tables)
            then Inl (Runtime_error (topic_at index @ '' duplicates bridge key for '' @ canonical))
            else Inr (stc, (unique_key stc # fst tables, seen_channels)))))))
      | _ \<Rightarrow> Inl (Runtime_error (topic_at index @ '' must be a mapping'')))"

fun parse_shared_topics ::
    "yaml_conv \<Rightarrow> (string \<Rightarrow> string \<Rightarrow> bool option) \<Rightarrow> string \<Rightarrow> string \<Rightarrow> node_config \<Rightarrow> nat \<Rightarrow> topic_tables \<Rightarrow> yaml list
      \<Rightarrow> std_error + shared_topic_config list" where
  "parse_shared_topics c regex_match pattern hostname cfg index tables [] = Inr []"
| "parse_shared_topics c regex_match pattern hostname cfg index tables (raw # items) =
     attempt (parse_shared_topic c regex_match pattern hostname cfg index tables raw) (\<lambda>(stc, tables).
     attempt (parse_shared_topics c regex_match pattern hostname cfg (index + 1) tables items) (\<lambda>rest.
       Inr (stc # rest)))"

definition read_shared_topics ::
    "yaml_conv \<Rightarrow> (string \<Rightarrow> string \<Rightarrow> bool option) \<Rightarrow> yaml \<Rightarrow> string \<Rightarrow> string \<Rightarrow> config_step" where
  "read_shared_topics c regex_match doc hostname auto_pattern cfg =
     (let pattern = (if auto_connect_pattern cfg = [] then auto_pattern else auto_connect_pattern cfg) in
      case yaml_at doc ''shared_topics'' of
        Some (Yaml_sequence items) \<Rightarrow>
          attempt (parse_shared_topics c regex_match pattern hostname cfg 0 ([], []) items) (\<lambda>topics.
            Inr (cfg\<lparr>shared_topics := shared_topics cfg @ topics\<rparr>))
      | _ \<Rightarrow> Inr cfg)"

section \<open>Checks across fields\<close>

definition uses_transport :: "string \<Rightarrow> node_config \<Rightarrow> bool" where
  "uses_transport transport cfg \<longleftrightarrow> list_ex (\<lambda>bridge. st_transport bridge = transport) (shared_topics cfg)"

definition advertisement_with :: "string \<Rightarrow> node_config \<Rightarrow> bool" where
  "advertisement_with mode cfg \<longleftrightarrow> list_ex (\<lambda>bridge. st_transport bridge = ''advertisement'' \<and>
     (st_mode bridge = mode \<or> st_mode bridge = ''both'')) (shared_topics cfg)"

definition check_bridges :: "config_step list" where
  "check_bridges =
    [require (''shared_topics must use exactly one transport mode per overlay; '' @
         ''gatt, advertisement, and mesh cannot be mixed'')
       (\<lambda>cfg. length (remdups (map st_transport (shared_topics cfg))) \<le> 1),
     require ''Bare advertisement framing requires exactly one advertisement bridge''
       (\<lambda>cfg. \<not> (list_ex st_advertisement_bare (shared_topics cfg) \<and>
          length (filter (\<lambda>bridge. st_transport bridge = ''advertisement'') (shared_topics cfg)) \<noteq> 1)),
     require ''mesh shared_topics require enable_mesh: true''
       (\<lambda>cfg. \<not> (uses_transport ''mesh'' cfg \<and> \<not> enable_mesh cfg)),
     require ''enable_mesh cannot be combined with gatt or advertisement shared_topics''
       (\<lambda>cfg. \<not> ((uses_transport ''gatt'' cfg \<or> uses_transport ''advertisement'' cfg) \<and> enable_mesh cfg)),
     require ''advertisement export bridges require enable_server: true''
       (\<lambda>cfg. \<not> (advertisement_with ''export'' cfg \<and> \<not> enable_server cfg)),
     require ''advertisement import bridges require enable_scan: true''
       (\<lambda>cfg. \<not> (advertisement_with ''import'' cfg \<and> \<not> enable_scan cfg))]"

definition check_roles :: "config_step list" where
  "check_roles =
    [require (''broadcast advertisement overlays must disable auto-connect, '' @
         ''pairing/trust, Wi-Fi/time GATT services, SPP, and GATT profiles'')
       (\<lambda>cfg. \<not> (advertise_mode cfg = ''broadcast'' \<and>
          (auto_connect_enable cfg \<or> auto_pair cfg \<or> auto_trust cfg \<or> enable_time_service cfg \<or>
           enable_wifi_service cfg \<or> enable_serial_port_profile cfg \<or> gatt_profile_uuids cfg \<noteq> []))),
     require ''GATT shared_topics cannot use advertise_mode: broadcast''
       (\<lambda>cfg. \<not> (advertise_mode cfg = ''broadcast'' \<and> uses_transport ''gatt'' cfg)),
     require (''Mesh mode requires exclusive controller ownership: disable the '' @
         ''ordinary LE server/scanner, pairing/trust, GATT services/profiles, SPP, and automatic GATT connections'')
       (\<lambda>cfg. \<not> (enable_mesh cfg \<and>
          (enable_server cfg \<or> enable_scan cfg \<or> enable_time_service cfg \<or> enable_wifi_service cfg \<or>
           enable_serial_port_profile cfg \<or> auto_connect_enable cfg \<or> auto_pair cfg \<or> auto_trust cfg \<or>
           gatt_profile_uuids cfg \<noteq> []))),
     require ''Mesh vendor opcode 0xc0 at mesh_company_id is reserved for automatic provisioning heartbeats''
       (\<lambda>cfg. \<not> (mesh_swarm_auto_provisioning cfg \<and>
          list_ex (\<lambda>bridge. st_transport bridge = ''mesh'' \<and> st_mesh_company_id bridge = mesh_company_id cfg \<and>
            st_mesh_vendor_opcode bridge = 0xc0) (shared_topics cfg)))]"

section \<open>Loading\<close>

definition option_steps :: "yaml_conv \<Rightarrow> yaml \<Rightarrow> string \<Rightarrow> config_step list" where
  "option_steps c doc hostname =
     read_general_options c doc hostname @ read_mesh_roles c doc @ read_swarm_options c doc hostname @
     [when_auto (auto_provisioning_roles c hostname)] @ read_mesh_identity c doc hostname @
     [when_auto (auto_provisioning_identity hostname)] @ read_mesh_agent c doc @
     read_connection_options c doc @ read_advertise_mode c doc hostname @ read_advertise_data c doc @
     read_advertise_limits c doc hostname @ [when_auto auto_provisioning_switches]"

definition config_steps ::
    "yaml_conv \<Rightarrow> (string \<Rightarrow> string \<Rightarrow> bool option) \<Rightarrow> yaml \<Rightarrow> string \<Rightarrow> string \<Rightarrow> config_step list" where
  "config_steps c regex_match doc hostname auto_pattern =
     option_steps c doc hostname @ [read_shared_topics c regex_match doc hostname auto_pattern] @
     check_bridges @ check_roles"

definition parse_node_config ::
    "yaml_conv \<Rightarrow> (string \<Rightarrow> string \<Rightarrow> bool option) \<Rightarrow> yaml \<Rightarrow> string \<Rightarrow> string \<Rightarrow> std_error + node_config" where
  "parse_node_config c regex_match doc hostname auto_pattern =
     (if hostname = [] then Inl (Runtime_error ''hostname must be provided by the launch file'')
      else case doc of
        Yaml_map entries \<Rightarrow>
          (case check_mesh_options entries of
             Some e \<Rightarrow> Inl e
           | None \<Rightarrow> in_order (config_steps c regex_match doc hostname auto_pattern) default_node_config)
      | _ \<Rightarrow> Inl (Runtime_error ''Node configuration must be a YAML map''))"

text \<open>A file as the loader finds it; \<open>Document\<close> is what the YAML parser makes of its text.\<close>

datatype yaml_file =
    Cannot_open
  | Cannot_parse
  | Document yaml

definition load_yaml_file :: "(string \<Rightarrow> yaml_file) \<Rightarrow> string \<Rightarrow> std_error + yaml" where
  "load_yaml_file files path =
     (case files path of
        Cannot_open \<Rightarrow> Inl (Runtime_error (''Cannot open config file: '' @ path))
      | Cannot_parse \<Rightarrow> Inl (Runtime_error (''Cannot parse YAML config file: '' @ path))
      | Document (Yaml_scalar s) \<Rightarrow>
          Inl (Runtime_error (''Config '' @ path @ '' must contain a YAML mapping at the top level''))
      | Document (Yaml_sequence items) \<Rightarrow>
          Inl (Runtime_error (''Config '' @ path @ '' must contain a YAML mapping at the top level''))
      | Document doc \<Rightarrow> Inr doc)"

definition default_auto_connect_pattern :: string where
  "default_auto_connect_pattern = ''^uav[0-9]{1,5}$''"

definition load_effective_config ::
    "yaml_conv \<Rightarrow> (string \<Rightarrow> string \<Rightarrow> bool option) \<Rightarrow> (string \<Rightarrow> yaml_file) \<Rightarrow> string \<Rightarrow> string \<Rightarrow> string
      \<Rightarrow> std_error + node_config" where
  "load_effective_config c regex_match files default_path overlay_path hostname =
     attempt (load_yaml_file files default_path) (\<lambda>base.
     attempt (if overlay_path = [] then Inr base
              else attempt (load_yaml_file files overlay_path) (\<lambda>overlay. Inr (deep_merge base overlay))) (\<lambda>doc.
       parse_node_config c regex_match doc hostname default_auto_connect_pattern))"

end
