(* ===== verification/Config_Steps.thy ===== *)
theory Config_Steps
  imports Config_Parse
begin

text \<open>
  Reasoning about the statements of \<open>parse_node_config\<close>: what a sequence of them establishes, and which
  fields it leaves alone.
\<close>

section \<open>Sequences\<close>

lemma attempt_Inr: "attempt x f = Inr y \<longleftrightarrow> (\<exists>v. x = Inr v \<and> f v = Inr y)"
  by (cases x) (auto simp: attempt_def)

lemma attempt_simps [simp]: "attempt (Inl e) f = Inl e" "attempt (Inr v) f = f v"
  by (simp_all add: attempt_def)

lemma in_order_append: "in_order (fs @ gs) cfg = attempt (in_order fs cfg) (in_order gs)"
  by (induction fs arbitrary: cfg) (simp_all add: attempt_def split: sum.split)

definition keeps :: "(node_config \<Rightarrow> 'v) \<Rightarrow> config_step \<Rightarrow> bool" where
  "keeps obs f \<longleftrightarrow> (\<forall>cfg out. f cfg = Inr out \<longrightarrow> obs out = obs cfg)"

lemma keeps_in_order: "list_all (keeps obs) fs \<Longrightarrow> keeps obs (in_order fs)"
proof (induction fs)
  case (Cons f fs)
  then have f: "keeps obs f" and fs: "keeps obs (in_order fs)" by simp_all
  show ?case
    unfolding keeps_def
  proof (intro allI impI)
    fix cfg out
    assume "in_order (f # fs) cfg = Inr out"
    then obtain mid where "f cfg = Inr mid" "in_order fs mid = Inr out" by (auto simp: attempt_Inr)
    then show "obs out = obs cfg" using f fs unfolding keeps_def by metis
  qed
qed (simp add: keeps_def)

lemma keeps_require [simp]: "keeps obs (require message P)"
  by (simp add: keeps_def require_def)

lemma keeps_assign: "(\<And>cfg. obs (f cfg) = obs cfg) \<Longrightarrow> keeps obs (assign f)"
  by (simp add: keeps_def assign_def)

lemma keeps_when_auto: "list_all (keeps obs) fs \<Longrightarrow> keeps obs (when_auto fs)"
  using keeps_in_order [of obs fs] by (simp add: keeps_def when_auto_def)

lemma keeps_check_members [simp]: "keeps obs (check_members c hostname)"
  by (auto simp: keeps_def check_members_def attempt_Inr Let_def split: option.splits if_splits)

lemma keeps_check_local_number [simp]: "keeps obs (check_local_number hostname)"
  by (auto simp: keeps_def check_local_number_def attempt_Inr split: if_splits)

text \<open>A statement that writes one field, whatever it reads.\<close>

definition writes :: "(('v \<Rightarrow> 'v) \<Rightarrow> node_config \<Rightarrow> node_config) \<Rightarrow> config_step \<Rightarrow> bool" where
  "writes update f \<longleftrightarrow> (\<forall>cfg out. f cfg = Inr out \<longrightarrow> (\<exists>v. out = update (\<lambda>_. v) cfg))"

lemma keeps_writes: "writes update f \<Longrightarrow> (\<And>v cfg. obs (update (\<lambda>_. v) cfg) = obs cfg) \<Longrightarrow> keeps obs f"
  by (auto simp: keeps_def writes_def)

lemma writes_read_field: "writes update (read_field key reader get update)"
  by (auto simp: writes_def read_field_def attempt_Inr)

lemma writes_peers_prefix: "writes peers_prefix_update (read_peers_prefix c doc hostname)"
  by (auto simp: writes_def read_peers_prefix_def attempt_Inr split: if_splits)

lemma writes_serial_port_channel: "writes serial_port_channel_update (read_serial_port_channel c doc)"
  by (auto simp: writes_def read_serial_port_channel_def attempt_Inr split: if_splits)

lemma writes_peer_whitelist: "writes peer_whitelist_update (read_peer_whitelist c doc)"
  by (auto simp: writes_def read_peer_whitelist_def attempt_Inr)

lemma writes_mesh_device_uuid: "writes mesh_device_uuid_update (read_mesh_device_uuid c doc)"
  by (auto simp: writes_def read_mesh_device_uuid_def attempt_Inr Let_def split: if_splits)

lemma writes_mesh_token: "writes mesh_token_update (read_mesh_token c doc)"
  by (auto simp: writes_def read_mesh_token_def attempt_Inr)

lemma writes_gatt_profile_uuids: "writes gatt_profile_uuids_update (read_gatt_profile_uuids c doc)"
  by (auto simp: writes_def read_gatt_profile_uuids_def attempt_Inr)

lemma writes_extra_data_topic: "writes advertise_extra_data_topic_update (read_extra_data_topic c doc hostname)"
  by (auto simp: writes_def read_extra_data_topic_def attempt_Inr)

lemma writes_shared_topics: "writes shared_topics_update (read_shared_topics c regex_match doc hostname pattern)"
proof -
  have "\<exists>v. cfg = shared_topics_update (\<lambda>_. v) cfg" for cfg :: node_config
    by (rule exI [of _ "shared_topics cfg"]) simp
  then show ?thesis
    by (auto simp: writes_def read_shared_topics_def attempt_Inr Let_def split: option.splits yaml.splits)
qed

lemmas writers = writes_peers_prefix writes_serial_port_channel writes_peer_whitelist writes_mesh_device_uuid
  writes_mesh_token writes_gatt_profile_uuids writes_extra_data_topic writes_shared_topics writes_read_field

lemmas keeps_steps = writers [THEN keeps_writes] keeps_assign

text \<open>The groups of statements after each point of the function.\<close>

lemmas option_groups = read_general_options_def read_mesh_roles_def read_swarm_options_def auto_provisioning_roles_def
  read_mesh_identity_def auto_provisioning_identity_def read_mesh_agent_def read_connection_options_def
  read_advertise_mode_def read_advertise_data_def read_advertise_limits_def auto_provisioning_switches_def

section \<open>Establishing conditions\<close>

text \<open>What holds of every configuration a sequence of statements lets through.\<close>

definition ends :: "(node_config \<Rightarrow> bool) \<Rightarrow> config_step list \<Rightarrow> bool" where
  "ends P fs \<longleftrightarrow> (\<forall>cfg out. in_order fs cfg = Inr out \<longrightarrow> P out)"

lemma ends_tail: "ends P gs \<Longrightarrow> ends P (fs @ gs)"
  by (auto simp: ends_def in_order_append attempt_Inr)

lemma ends_head:
  assumes "ends P fs" "list_all (keeps P) gs"
  shows "ends P (fs @ gs)"
  using assms(1) keeps_in_order [OF assms(2)]
  by (fastforce simp: ends_def keeps_def in_order_append attempt_Inr)

lemma ends_Cons: "ends P fs \<Longrightarrow> ends P (f # fs)"
  using ends_tail [of P fs "[f]"] by simp

definition yields :: "(node_config \<Rightarrow> bool) \<Rightarrow> config_step \<Rightarrow> bool" where
  "yields P f \<longleftrightarrow> (\<forall>cfg out. f cfg = Inr out \<longrightarrow> P out)"

lemma ends_nth:
  assumes "n < length fs" "yields P (fs ! n)" "list_all (keeps P) (drop (Suc n) fs)"
  shows "ends P fs"
proof -
  have "ends P ([fs ! n] @ drop (Suc n) fs)"
    using assms(2,3) by (intro ends_head) (auto simp: ends_def yields_def attempt_Inr)
  then have "ends P (take n fs @ fs ! n # drop (Suc n) fs)" by (intro ends_tail) simp
  then show ?thesis by (simp only: id_take_nth_drop [OF assms(1), symmetric])
qed

lemma yields_read_field:
  assumes "\<And>v fallback cfg. reader key fallback = Inr v \<Longrightarrow> P (update (\<lambda>_. v) cfg)"
  shows "yields P (read_field key reader get update)"
  using assms by (auto simp: yields_def read_field_def attempt_Inr)

lemma yields_require: "(\<And>cfg. P cfg \<Longrightarrow> Q cfg) \<Longrightarrow> yields Q (require message P)"
  by (simp add: yields_def require_def)

lemma ends_conj: "ends P fs \<Longrightarrow> ends Q fs \<Longrightarrow> ends (\<lambda>cfg. P cfg \<and> Q cfg) fs"
  by (simp add: ends_def)

text \<open>Checks alone: they change nothing and all hold.\<close>

lemma in_order_require: "in_order (require message P # fs) cfg = Inr out \<longleftrightarrow> P cfg \<and> in_order fs cfg = Inr out"
  by (simp add: require_def)

end
