(* ===== verification/Config_Correct.thy ===== *)
theory Config_Correct
  imports Config_Steps
begin

text \<open>
  What every accepted configuration satisfies: ranges, the members of an automatic Mesh, the shared topics,
  and the roles of the radio.
\<close>

lemma parse_node_config_steps:
  assumes "parse_node_config c regex_match doc hostname pattern = Inr cfg"
  obtains entries where "doc = Yaml_map entries" "check_mesh_options entries = None" "hostname \<noteq> []"
    "in_order (config_steps c regex_match doc hostname pattern) default_node_config = Inr cfg"
  using assms by (auto simp: parse_node_config_def split: if_splits yaml.splits option.splits)

lemmas later_steps = keeps_steps keeps_when_auto check_bridges_def check_roles_def option_groups

text \<open>The four stages: options, topics, and the checks, which change nothing.\<close>

lemma parse_stages:
  assumes "parse_node_config c regex_match doc hostname pattern = Inr cfg"
  obtains opts where "in_order (option_steps c doc hostname) default_node_config = Inr opts"
    "read_shared_topics c regex_match doc hostname pattern opts = Inr cfg"
    "in_order check_bridges cfg = Inr cfg" "in_order check_roles cfg = Inr cfg"
proof -
  obtain opts mid mid2 where s: "in_order (option_steps c doc hostname) default_node_config = Inr opts"
    "read_shared_topics c regex_match doc hostname pattern opts = Inr mid"
    "in_order check_bridges mid = Inr mid2" "in_order check_roles mid2 = Inr cfg"
    using assms by (elim parse_node_config_steps) (auto simp: config_steps_def in_order_append attempt_Inr)
  have "keeps (\<lambda>cfg. cfg) (in_order check_bridges)" "keeps (\<lambda>cfg. cfg) (in_order check_roles)"
    by (rule keeps_in_order, simp add: check_bridges_def check_roles_def)+
  then have "mid2 = mid" "cfg = mid2" using s unfolding keeps_def by metis+
  then show thesis using s that by simp
qed

lemma loaded:
  assumes "ends P (option_steps c doc hostname)" "\<And>ts cfg. P (cfg\<lparr>shared_topics := ts\<rparr>) = P cfg"
    and "parse_node_config c regex_match doc hostname pattern = Inr cfg"
  shows "P cfg"
proof -
  have "keeps P (read_shared_topics c regex_match doc hostname pattern)"
    by (rule keeps_writes [OF writes_shared_topics]) (rule assms(2))
  then show ?thesis using assms(1,3) by (auto simp: ends_def keeps_def elim!: parse_stages)
qed

section \<open>Ranges\<close>

lemma parse_integer_bound: "parse_integer_value c node limit context = Inr v \<Longrightarrow> v \<le> limit"
  by (auto simp: parse_integer_value_def attempt_Inr Let_def not_less split: if_splits option.splits)

lemma integer_bound:
  assumes "integer c doc encode limit key fallback = Inr (v :: 'w::len word)" "unat limit < 2 ^ LENGTH('w)"
  shows "unat v \<le> unat limit"
proof -
  obtain n :: u64 where n: "n \<le> limit" "v = ucast n"
    using assms(1) by (auto simp: integer_def attempt_Inr dest!: parse_integer_bound)
  have "unat v = unat n mod 2 ^ LENGTH('w)" by (simp add: n(2) unsigned_ucast_eq take_bit_eq_mod)
  also have "\<dots> \<le> unat n" by (rule mod_less_eq_dividend)
  also have "\<dots> \<le> unat limit" using n(1) by (simp add: word_le_nat_alt)
  finally show ?thesis .
qed

lemma yields_integer:
  assumes "\<And>v cfg. get (update (\<lambda>_. v) cfg) = v" "unat limit < 2 ^ LENGTH('w)" "n = unat limit"
  shows "yields (\<lambda>cfg. unat (get cfg :: 'w::len word) \<le> n) (read_field key (integer c doc encode limit) get update)"
proof (rule yields_read_field)
  fix v fallback cfg
  assume "integer c doc encode limit key fallback = Inr v"
  then show "unat (get (update (\<lambda>_. v) cfg)) \<le> n" using integer_bound assms by metis
qed

lemmas yields_steps = yields_integer yields_require

text \<open>The ranges of the numeric options, by group.\<close>

definition role_ranges :: "node_config \<Rightarrow> bool" where
  "role_ranges cfg \<longleftrightarrow> unat (mesh_default_ttl cfg) \<le> 127 \<and> mesh_default_ttl cfg \<noteq> 1 \<and>
     unat (mesh_relay_retransmit_count cfg) \<le> 7 \<and> unat (mesh_relay_retransmit_interval_steps cfg) \<le> 31 \<and>
     unat (mesh_network_retransmit_count cfg) \<le> 7 \<and> unat (mesh_network_retransmit_interval_steps cfg) \<le> 31"

definition swarm_ranges :: "node_config \<Rightarrow> bool" where
  "swarm_ranges cfg \<longleftrightarrow> mesh_swarm_id cfg \<noteq> 0 \<and> unat (mesh_swarm_network_index cfg) \<le> 0xfff \<and>
     unat (mesh_swarm_app_key_index cfg) \<le> 0xfff"

definition identity_ranges :: "node_config \<Rightarrow> bool" where
  "identity_ranges cfg \<longleftrightarrow> mesh_crpl cfg \<noteq> 0 \<and> mesh_next_unicast cfg \<noteq> 0 \<and> unat (mesh_next_unicast cfg) \<le> 0x7fff"

definition agent_ranges :: "node_config \<Rightarrow> bool" where
  "agent_ranges cfg \<longleftrightarrow> length (mesh_agent_static_oob cfg) \<in> {0, 16} \<and> length (mesh_agent_private_key cfg) \<in> {0, 32} \<and>
     length (mesh_agent_public_key cfg) \<in> {0, 64} \<and> mesh_agent_numeric_oob cfg \<le> 99999999"

definition channel_range :: "node_config \<Rightarrow> bool" where
  "channel_range cfg \<longleftrightarrow> 1 \<le> unat (serial_port_channel cfg) \<and> unat (serial_port_channel cfg) \<le> 30"

lemma role_ranges: "ends role_ranges (read_mesh_roles c doc)"
  unfolding role_ranges_def
  apply (intro ends_conj)
  subgoal by (rule ends_nth [of 7]) (simp_all add: later_steps yields_steps)
  subgoal by (rule ends_nth [of 8]) (simp_all add: later_steps yields_steps)
  subgoal by (rule ends_nth [of 9]) (simp_all add: later_steps yields_steps)
  subgoal by (rule ends_nth [of 10]) (simp_all add: later_steps yields_steps)
  subgoal by (rule ends_nth [of 11]) (simp_all add: later_steps yields_steps)
  subgoal by (rule ends_nth [of 12]) (simp_all add: later_steps yields_steps)
  done

lemma swarm_ranges: "ends swarm_ranges (read_swarm_options c doc hostname)"
  unfolding swarm_ranges_def
  apply (intro ends_conj)
  subgoal by (rule ends_nth [of 3]) (simp_all add: later_steps yields_steps)
  subgoal by (rule ends_nth [of 11]) (simp_all add: later_steps yields_steps)
  subgoal by (rule ends_nth [of 12]) (simp_all add: later_steps yields_steps)
  done

lemma identity_ranges: "ends identity_ranges (read_mesh_identity c doc hostname)"
  unfolding identity_ranges_def
  apply (intro ends_conj)
  subgoal by (rule ends_nth [of 6]) (simp_all add: later_steps yields_steps)
  subgoal by (rule ends_nth [of 9]) (simp_all add: later_steps yields_steps)
  subgoal by (rule ends_nth [of 8]) (simp_all add: later_steps yields_steps)
  done

lemma agent_ranges: "ends agent_ranges (read_mesh_agent c doc)"
  unfolding agent_ranges_def
  apply (intro ends_conj)
  subgoal by (rule ends_nth [of 5]) (auto simp: later_steps intro!: yields_require)
  subgoal by (rule ends_nth [of 6]) (auto simp: later_steps intro!: yields_require)
  subgoal by (rule ends_nth [of 7]) (auto simp: later_steps intro!: yields_require)
  subgoal by (rule ends_nth [of 9]) (simp_all add: later_steps yields_steps)
  done

lemma yields_channel: "yields channel_range (read_serial_port_channel c doc)"
proof -
  have "1 \<le> unat n \<and> unat n \<le> 30 \<and> unat (ucast n :: u16) = unat n" if "\<not> (n = 0 \<or> 30 < n)" for n :: u32
  proof -
    have n: "n \<le> 30" "n \<noteq> 0" using that by auto
    then have "unat n \<le> 30" by (simp add: word_le_nat_alt)
    moreover have "0 < unat n" using n(2) by (simp add: unat_gt_0)
    moreover have "unat (ucast n :: u16) = unat n" using \<open>unat n \<le> 30\<close> by (simp add: unsigned_ucast_eq take_bit_eq_mod)
    ultimately show ?thesis by simp
  qed
  then show ?thesis
    by (auto simp: yields_def read_serial_port_channel_def attempt_Inr channel_range_def split: if_splits)
qed

lemma channel_range: "ends channel_range (read_general_options c doc hostname)"
  by (rule ends_nth [of 11], simp add: later_steps, simp add: later_steps yields_channel,
      simp add: later_steps channel_range_def)

lemma numeric_ranges:
  assumes "parse_node_config c regex_match doc hostname pattern = Inr cfg"
  shows "channel_range cfg" "role_ranges cfg" "swarm_ranges cfg" "identity_ranges cfg" "agent_ranges cfg"
proof -
  have "ends channel_range (option_steps c doc hostname)"
    unfolding option_steps_def by (rule ends_head [OF channel_range]) (simp add: later_steps channel_range_def)
  then show "channel_range cfg" by (rule loaded [OF _ _ assms]) (simp add: channel_range_def)
  have "ends role_ranges (option_steps c doc hostname)"
    unfolding option_steps_def by (rule ends_tail, rule ends_head [OF role_ranges]) (simp add: later_steps role_ranges_def)
  then show "role_ranges cfg" by (rule loaded [OF _ _ assms]) (simp add: role_ranges_def)
  have "ends swarm_ranges (option_steps c doc hostname)"
    unfolding option_steps_def by (rule ends_tail, rule ends_tail, rule ends_head [OF swarm_ranges])
      (simp add: later_steps swarm_ranges_def)
  then show "swarm_ranges cfg" by (rule loaded [OF _ _ assms]) (simp add: swarm_ranges_def)
  have "ends identity_ranges (option_steps c doc hostname)"
    unfolding option_steps_def by (rule ends_tail, rule ends_tail, rule ends_tail, rule ends_tail, rule ends_head [OF identity_ranges])
      (simp add: later_steps identity_ranges_def)
  then show "identity_ranges cfg" by (rule loaded [OF _ _ assms]) (simp add: identity_ranges_def)
  have "ends agent_ranges (option_steps c doc hostname)"
    unfolding option_steps_def by (rule ends_tail, rule ends_tail, rule ends_tail, rule ends_tail, rule ends_tail, rule ends_tail,
      rule ends_head [OF agent_ranges]) (simp add: later_steps agent_ranges_def)
  then show "agent_ranges cfg" by (rule loaded [OF _ _ assms]) (simp add: agent_ranges_def)
qed

section \<open>Roles of the radio\<close>

lemma accepted_checks:
  assumes "parse_node_config c regex_match doc hostname pattern = Inr cfg"
  shows "in_order check_bridges cfg = Inr cfg" "in_order check_roles cfg = Inr cfg"
  using assms by (auto elim: parse_stages)

lemmas accepted_bridges = accepted_checks(1) [unfolded check_bridges_def in_order_require]
lemmas accepted_roles = accepted_checks(2) [unfolded check_roles_def in_order_require]

lemma accepted_one_transport:
  assumes "parse_node_config c regex_match doc hostname pattern = Inr cfg"
  shows "\<forall>t u. t \<in> set (shared_topics cfg) \<longrightarrow> u \<in> set (shared_topics cfg) \<longrightarrow> st_transport t = st_transport u"
proof -
  have "length (remdups (map st_transport (shared_topics cfg))) \<le> 1" using accepted_bridges [OF assms] by blast
  then have "card (st_transport ` set (shared_topics cfg)) \<le> 1"
    by (simp add: length_remdups_card_conv)
  then show ?thesis by (metis One_nat_def card_le_Suc0_iff_eq finite_imageI finite_set imageI)
qed

lemma accepted_bare:
  assumes "parse_node_config c regex_match doc hostname pattern = Inr cfg" "list_ex st_advertisement_bare (shared_topics cfg)"
  shows "length (filter (\<lambda>bridge. st_transport bridge = ''advertisement'') (shared_topics cfg)) = 1"
  using accepted_bridges [OF assms(1)] assms(2) by blast

definition radio_exclusive :: "node_config \<Rightarrow> bool" where
  "radio_exclusive cfg \<longleftrightarrow> (\<forall>t u. t \<in> set (shared_topics cfg) \<longrightarrow> u \<in> set (shared_topics cfg) \<longrightarrow> st_transport t = st_transport u) \<and>
    (enable_mesh cfg \<longrightarrow> \<not> enable_server cfg \<and> \<not> enable_scan cfg \<and> \<not> auto_pair cfg \<and> \<not> auto_trust cfg \<and>
       \<not> enable_time_service cfg \<and> \<not> enable_wifi_service cfg \<and> \<not> enable_serial_port_profile cfg \<and>
       \<not> auto_connect_enable cfg \<and> gatt_profile_uuids cfg = [] \<and>
       \<not> uses_transport ''gatt'' cfg \<and> \<not> uses_transport ''advertisement'' cfg) \<and>
    (advertise_mode cfg = ''broadcast'' \<longrightarrow> \<not> auto_connect_enable cfg \<and> \<not> auto_pair cfg \<and> \<not> auto_trust cfg \<and>
       gatt_profile_uuids cfg = [] \<and> \<not> uses_transport ''gatt'' cfg) \<and>
    (uses_transport ''mesh'' cfg \<longrightarrow> enable_mesh cfg) \<and>
    (advertisement_with ''export'' cfg \<longrightarrow> enable_server cfg) \<and> (advertisement_with ''import'' cfg \<longrightarrow> enable_scan cfg) \<and>
    (mesh_swarm_auto_provisioning cfg \<longrightarrow> (\<forall>t \<in> set (shared_topics cfg). st_transport t = ''mesh'' \<longrightarrow>
       st_mesh_company_id t = mesh_company_id cfg \<longrightarrow> st_mesh_vendor_opcode t \<noteq> 0xc0))"

lemma accepted_radio:
  assumes "parse_node_config c regex_match doc hostname pattern = Inr cfg"
  shows "radio_exclusive cfg"
proof -
  note one = accepted_one_transport [OF assms] and b = accepted_bridges [OF assms] and r = accepted_roles [OF assms]
  have "\<not> (mesh_swarm_auto_provisioning cfg \<and> list_ex (\<lambda>bridge. st_transport bridge = ''mesh'' \<and>
      st_mesh_company_id bridge = mesh_company_id cfg \<and> st_mesh_vendor_opcode bridge = 0xc0) (shared_topics cfg))"
    using r by blast
  then have reserved: "mesh_swarm_auto_provisioning cfg \<longrightarrow> (\<forall>t \<in> set (shared_topics cfg). st_transport t = ''mesh'' \<longrightarrow>
       st_mesh_company_id t = mesh_company_id cfg \<longrightarrow> st_mesh_vendor_opcode t \<noteq> 0xc0)"
    by (auto simp: list_ex_iff)
  show ?thesis unfolding radio_exclusive_def using one reserved b r by (intro conjI) blast+
qed

text \<open>C22: An accepted configuration gives the radio one role. All shared topics use one transport; a Mesh
  configuration runs no ordinary server, scanner, pairing, GATT service or automatic connection and carries no GATT or
  advertisement topic; a broadcast configuration is not connectable; advertisement topics have the server or the scanner
  they need; and the opcode of the swarm heartbeats is not used by a topic.\<close>
theorem accepted_radio_exclusive:
  assumes "parse_node_config c regex_match doc hostname pattern = Inr cfg"
  shows "(\<forall>t u. t \<in> set (shared_topics cfg) \<longrightarrow> u \<in> set (shared_topics cfg) \<longrightarrow> st_transport t = st_transport u) \<and>
    (enable_mesh cfg \<longrightarrow> \<not> enable_server cfg \<and> \<not> enable_scan cfg \<and> \<not> auto_pair cfg \<and> \<not> auto_trust cfg \<and>
       \<not> enable_time_service cfg \<and> \<not> enable_wifi_service cfg \<and> \<not> enable_serial_port_profile cfg \<and>
       \<not> auto_connect_enable cfg \<and> gatt_profile_uuids cfg = [] \<and>
       \<not> uses_transport ''gatt'' cfg \<and> \<not> uses_transport ''advertisement'' cfg) \<and>
    (advertise_mode cfg = ''broadcast'' \<longrightarrow> \<not> auto_connect_enable cfg \<and> \<not> auto_pair cfg \<and> \<not> auto_trust cfg \<and>
       gatt_profile_uuids cfg = [] \<and> \<not> uses_transport ''gatt'' cfg) \<and>
    (uses_transport ''mesh'' cfg \<longrightarrow> enable_mesh cfg) \<and>
    (advertisement_with ''export'' cfg \<longrightarrow> enable_server cfg) \<and> (advertisement_with ''import'' cfg \<longrightarrow> enable_scan cfg) \<and>
    (mesh_swarm_auto_provisioning cfg \<longrightarrow> (\<forall>t \<in> set (shared_topics cfg). st_transport t = ''mesh'' \<longrightarrow>
       st_mesh_company_id t = mesh_company_id cfg \<longrightarrow> st_mesh_vendor_opcode t \<noteq> 0xc0))"
  using accepted_radio [OF assms] unfolding radio_exclusive_def .


end
