(* ===== verification/Config_Topics.thy ===== *)
theory Config_Topics
  imports Config_Correct Transport_Config
begin

text \<open>
  The shared topics of an accepted configuration: each declaration is complete, keys and channels are
  unique, and the bridge manager accepts the list unless two advertisements export.
\<close>

section \<open>One declaration\<close>

definition framed :: "shared_topic_config \<Rightarrow> bool" where
  "framed stc \<longleftrightarrow> st_transport stc \<noteq> ''gatt'' \<and> \<not> st_advertisement_bare stc"

definition identity_ok :: "shared_topic_config \<Rightarrow> bool" where
  "identity_ok stc \<longleftrightarrow> st_transport stc \<in> {''gatt'', ''advertisement'', ''mesh''} \<and>
     st_mode stc \<in> {''export'', ''import'', ''both''} \<and> st_export_topic stc \<noteq> ''/'' \<and> st_message_type stc \<noteq> []"

definition payload_ok :: "shared_topic_config \<Rightarrow> bool" where
  "payload_ok stc \<longleftrightarrow> st_payload_format stc \<in> {''struct'', ''raw'', ''ros2''} \<and>
     (st_payload_format stc \<noteq> ''ros2'' \<longrightarrow> st_member_specs stc \<noteq> []) \<and> distinct (map ms_target (st_member_specs stc)) \<and>
     list_all (\<lambda>m. ms_target m \<noteq> [] \<and> ms_value_type m \<in> set scalar_types) (st_member_specs stc) \<and>
     list_all (\<lambda>a. as_target a \<noteq> [] \<and> as_expression a \<noteq> []) (st_decode_assignments stc)"

definition delivery_ok :: "shared_topic_config \<Rightarrow> bool" where
  "delivery_ok stc \<longleftrightarrow> 0 \<le> st_rate_hz stc \<and> (st_advertisement_bare stc \<longrightarrow> st_transport stc = ''advertisement'')"

definition channel_ok :: "shared_topic_config \<Rightarrow> bool" where
  "channel_ok stc \<longleftrightarrow> (framed stc \<longleftrightarrow> st_channel_id stc \<noteq> 0)"

definition route_ok :: "shared_topic_config \<Rightarrow> bool" where
  "route_ok stc \<longleftrightarrow> (st_transport stc = ''mesh'' \<longrightarrow> 0xc0 \<le> st_mesh_vendor_opcode stc \<and> unat (st_mesh_app_key_index stc) \<le> 0xfff)"

definition topic_ok :: "shared_topic_config \<Rightarrow> bool" where
  "topic_ok stc \<longleftrightarrow> identity_ok stc \<and> payload_ok stc \<and> delivery_ok stc \<and> channel_ok stc \<and> route_ok stc"

lemma parsed_transport: "parse_transport c index raw = Inr t \<Longrightarrow> t \<in> {''gatt'', ''advertisement'', ''mesh''}"
  unfolding parse_transport_def Let_def by (simp split: if_split_asm)

lemma parsed_mode: "parse_mode c index raw = Inr m \<Longrightarrow> m \<in> {''export'', ''import'', ''both''}"
  unfolding parse_mode_def Let_def by (simp split: if_split_asm)

lemma parsed_identity:
  assumes "parse_bridge_identity c regex_match pattern hostname index raw = Inr (stc, canonical)"
  shows "identity_ok stc" "st_channel_id stc = 0" "\<not> st_advertisement_bare stc"
proof -
  obtain t m e where t: "parse_transport c index raw = Inr t" and m: "parse_mode c index raw = Inr m"
    and e: "resolve_topic_path (text_or c [] (yaml_at raw ''export_topic'')) hostname = Inr e"
    using assms unfolding parse_bridge_identity_def attempt_Inr by blast
  define message_type where "message_type = text_or c [] (yaml_at raw ''message_type'')"
  define path where "path = bridge_topic_path (canonical_shared_topic regex_match e pattern)"
  define name where "name = ''bridge:/'' @ sanitize_topic_suffix hostname @ path"
  have "stc = default_shared_topic_config\<lparr>st_transport := t, st_mode := m, st_export_topic := e,
      st_bridge_topic_path := path, st_bridge_name := name, st_bridge_key := bridge_key_of name, st_message_type := message_type\<rparr>"
    "e \<noteq> ''/''" "message_type \<noteq> []"
    using assms unfolding parse_bridge_identity_def t m e attempt_simps Let_def message_type_def [symmetric]
      path_def [symmetric] name_def [symmetric]
    by (simp_all split: if_split_asm)
  then show "identity_ok stc" "st_channel_id stc = 0" "\<not> st_advertisement_bare stc"
    using parsed_transport [OF t] parsed_mode [OF m] by (simp_all add: identity_ok_def default_shared_topic_config_def)
qed

lemma parsed_member:
  "parse_member_spec c item = Inr spec \<Longrightarrow> ms_target spec \<noteq> [] \<and> ms_value_type spec \<in> set scalar_types"
  by (cases item) (auto simp: attempt_Inr Let_def normalize_value_type_def split: if_splits option.splits)

lemma parsed_assignment:
  "parse_assignment c item = Inr a \<Longrightarrow> as_target a \<noteq> [] \<and> as_expression a \<noteq> []"
  by (cases item) (auto simp: Let_def split: if_splits option.splits)

lemma parsed_all:
  "parse_all p items = Inr xs \<Longrightarrow> (\<And>item x. p item = Inr x \<Longrightarrow> P x) \<Longrightarrow> list_all P xs"
  by (induction items arbitrary: xs) (auto simp: attempt_Inr)

lemma parsed_list:
  "parse_list p message node = Inr xs \<Longrightarrow> (\<And>item x. p item = Inr x \<Longrightarrow> P x) \<Longrightarrow> list_all P xs"
  by (cases "(p, message, node)" rule: parse_list.cases) (auto intro: parsed_all)

lemma no_duplicate:
  "duplicate_target seen members = None \<longleftrightarrow>
     distinct (map ms_target members) \<and> set (map ms_target members) \<inter> set seen = {}"
  by (induction seen members rule: duplicate_target.induct) auto

lemma parsed_payload:
  assumes "parse_payload c index raw stc = Inr out"
  shows "payload_ok out" "\<exists>f m a. out = stc\<lparr>st_payload_format := f, st_member_specs := m, st_decode_assignments := a\<rparr>"
proof -
  define format where "format = lower_trim_copy (text_or c ''struct'' (yaml_at raw ''payload_format''))"
  obtain ms as where ms: "parse_list (parse_member_spec c) ''members_encode must be a list'' (yaml_at raw ''members_encode'') = Inr ms"
    and as: "parse_list (parse_assignment c) ''members_decode must be a list'' (yaml_at raw ''members_decode'') = Inr as"
    using assms by (auto simp: parse_payload_def attempt_Inr Let_def split: if_splits)
  define members where "members = (if format = ''raw'' \<and> ms = []
    then [\<lparr>ms_target = ''data[:]'', ms_value_type = ''uint8'', ms_expression = []\<rparr>] else ms)"
  have out: "out = stc\<lparr>st_payload_format := format, st_member_specs := members, st_decode_assignments := as\<rparr>"
    and ok: "format = ''struct'' \<or> format = ''raw'' \<or> format = ''ros2''" "format \<noteq> ''ros2'' \<longrightarrow> members \<noteq> []"
      "duplicate_target [] members = None"
    using assms unfolding parse_payload_def Let_def ms as attempt_simps members_def [symmetric] format_def [symmetric]
    by (auto split: if_splits option.splits)
  have "list_all (\<lambda>m. ms_target m \<noteq> [] \<and> ms_value_type m \<in> set scalar_types) ms" by (rule parsed_list [OF ms parsed_member])
  then have "list_all (\<lambda>m. ms_target m \<noteq> [] \<and> ms_value_type m \<in> set scalar_types) members"
    by (simp add: members_def scalar_types_def)
  moreover have "list_all (\<lambda>a. as_target a \<noteq> [] \<and> as_expression a \<noteq> []) as" by (rule parsed_list [OF as parsed_assignment])
  ultimately show "payload_ok out" using ok no_duplicate [of "[]" members] by (simp add: payload_ok_def out)
  show "\<exists>f m a. out = stc\<lparr>st_payload_format := f, st_member_specs := m, st_decode_assignments := a\<rparr>" using out by blast
qed

lemma parsed_delivery:
  assumes "parse_delivery c canonical raw stc = Inr out"
  shows "delivery_ok out" "\<exists>x r n b. out = stc\<lparr>st_import_topic_suffix := x, st_rate_hz := r, st_name := n, st_advertisement_bare := b\<rparr>"
proof -
  define x where "x = import_suffix_of (text_or c canonical (yaml_at raw ''import_topic_suffix''))"
  define r where "r = (case yaml_at raw ''rate_hz'' of None \<Rightarrow> 0 | Some node \<Rightarrow> (case yc_double c node of None \<Rightarrow> 0 | Some r \<Rightarrow> r))"
  define n where "n = (if text_or c canonical (yaml_at raw ''name'') = [] then canonical else text_or c canonical (yaml_at raw ''name''))"
  obtain t where t: "(case yaml_at raw ''framing'' of None \<Rightarrow> Inr ''channel'' | Some node \<Rightarrow> as_value c (yc_string c) node) = Inr t"
    using assms unfolding parse_delivery_def Let_def attempt_Inr by blast
  have out: "out = stc\<lparr>st_import_topic_suffix := x, st_rate_hz := max 0 r, st_name := n,
      st_advertisement_bare := (lower_trim_copy t = ''bare'')\<rparr>"
    and bare: "lower_trim_copy t = ''bare'' \<longrightarrow> st_transport stc = ''advertisement''"
    using assms unfolding parse_delivery_def Let_def t attempt_simps x_def r_def n_def by (auto split: if_splits)
  show "delivery_ok out" using bare by (simp add: out delivery_ok_def)
  show "\<exists>x r n b. out = stc\<lparr>st_import_topic_suffix := x, st_rate_hz := r, st_name := n, st_advertisement_bare := b\<rparr>"
    using out by blast
qed

lemma parsed_channel:
  assumes "parse_channel c index seen raw stc = Inr (out, seen')" "st_channel_id stc = 0"
  shows "channel_ok out" "\<exists>n. out = stc\<lparr>st_channel_id := n\<rparr>"
    "seen' = (if framed out then channel_key out # seen else seen)" "framed out \<longrightarrow> channel_key out \<notin> set seen"
proof -
  have "channel_ok out \<and> (\<exists>n. out = stc\<lparr>st_channel_id := n\<rparr>) \<and>
    seen' = (if framed out then channel_key out # seen else seen) \<and> (framed out \<longrightarrow> channel_key out \<notin> set seen)"
  proof (cases "framed stc")
    case True
    then obtain node n where "out = stc\<lparr>st_channel_id := n\<rparr>" "n \<noteq> 0" "channel_key out \<notin> set seen" "seen' = channel_key out # seen"
      using assms(1) by (auto simp: parse_channel_def framed_def attempt_Inr Let_def split: if_splits option.splits)
    moreover from this True have "framed out" by (simp add: framed_def)
    ultimately show ?thesis by (auto simp: channel_ok_def)
  next
    case False
    then have "out = stc" "seen' = seen"
      using assms(1) by (auto simp: parse_channel_def framed_def split: if_splits)
    moreover have "\<exists>n. stc = stc\<lparr>st_channel_id := n\<rparr>" by (rule exI [of _ "st_channel_id stc"]) simp
    ultimately show ?thesis using False assms(2) by (simp add: channel_ok_def)
  qed
  then show "channel_ok out" "\<exists>n. out = stc\<lparr>st_channel_id := n\<rparr>"
    "seen' = (if framed out then channel_key out # seen else seen)" "framed out \<longrightarrow> channel_key out \<notin> set seen" by blast+
qed

lemma mesh_route_shape:
  assumes "parse_mesh_route c cfg raw stc = Inr out" "st_transport stc = ''mesh''"
  shows "\<exists>r d (a :: u64) e f v k. a \<le> 0xfff \<and> \<not> v < 0xc0 \<and> out = stc\<lparr>st_mesh_swarm_reliable := r, st_mesh_destination := d,
    st_mesh_app_key_index := ucast a, st_mesh_element_index := e, st_mesh_force_segmented := f,
    st_mesh_vendor_opcode := v, st_mesh_company_id := k\<rparr>"
proof -
  define number where "number = (\<lambda>key default limit. parse_integer_value c
    (case yaml_at raw key of Some node \<Rightarrow> node | None \<Rightarrow> default) limit (''shared_topics.mesh.'' @ key))"
  define force where "force = (case yaml_at raw ''force_segmented'' of None \<Rightarrow> True
    | Some node \<Rightarrow> (case yc_bool c node of None \<Rightarrow> True | Some b \<Rightarrow> b))"
  define reliable where "reliable = (mesh_swarm_auto_provisioning cfg \<and> yaml_at raw ''destination'' = None)"
  have steps: "attempt (number ''destination'' (yc_of_u16 c (mesh_swarm_group_address cfg)) 0xffff) (\<lambda>destination.
     attempt (number ''app_key_index'' (yc_of_u16 c (mesh_swarm_app_key_index cfg)) 0x0fff) (\<lambda>app_key_index.
     attempt (number ''element_index'' (yc_of_int c 0) 255) (\<lambda>element_index.
     attempt (number ''vendor_opcode'' (yc_of_int c 0xc1) 255) (\<lambda>vendor_opcode.
     attempt (number ''company_id'' (yc_of_u16 c (mesh_company_id cfg)) 0xffff) (\<lambda>company_id.
       if (ucast vendor_opcode :: u8) < 0xc0
       then Inl (Runtime_error ''shared_topics.mesh.vendor_opcode must be in 0xc0..0xff'')
       else Inr (stc\<lparr>st_mesh_swarm_reliable := reliable, st_mesh_destination := ucast destination,
         st_mesh_app_key_index := ucast app_key_index, st_mesh_element_index := ucast element_index,
         st_mesh_force_segmented := force, st_mesh_vendor_opcode := ucast vendor_opcode,
         st_mesh_company_id := ucast company_id\<rparr>)))))) = Inr out"
    using assms(1) unfolding parse_mesh_route_def Let_def number_def force_def reliable_def
    by (simp add: assms(2))
  obtain d a e v k where "number ''app_key_index'' (yc_of_u16 c (mesh_swarm_app_key_index cfg)) 0x0fff = Inr a"
    "\<not> (ucast v :: u8) < 0xc0" "out = stc\<lparr>st_mesh_swarm_reliable := reliable, st_mesh_destination := ucast (d :: u64),
         st_mesh_app_key_index := ucast a, st_mesh_element_index := ucast (e :: u64),
         st_mesh_force_segmented := force, st_mesh_vendor_opcode := ucast (v :: u64),
         st_mesh_company_id := ucast (k :: u64)\<rparr>"
    using steps unfolding attempt_Inr by (auto split: if_split_asm)
  moreover from this(1) have "a \<le> 0xfff" unfolding number_def by (rule parse_integer_bound)
  ultimately show ?thesis by blast
qed

lemma small_app_key:
  assumes "a \<le> (0xfff :: u64)"
  shows "unat (ucast a :: u16) \<le> 0xfff"
proof -
  have "unat (ucast a :: u16) \<le> unat a" by (simp add: unsigned_ucast_eq take_bit_eq_mod)
  also have "unat a \<le> 0xfff" using assms by (simp add: word_le_nat_alt)
  finally show ?thesis .
qed

lemma parsed_route:
  assumes "parse_mesh_route c cfg raw stc = Inr out"
  shows "route_ok out" "st_transport out = st_transport stc" "st_channel_id out = st_channel_id stc"
    "st_advertisement_bare out = st_advertisement_bare stc" "st_bridge_key out = st_bridge_key stc"
    "identity_ok out = identity_ok stc" "payload_ok out = payload_ok stc" "delivery_ok out = delivery_ok stc"
proof -
  have "route_ok out \<and> st_transport out = st_transport stc \<and> st_channel_id out = st_channel_id stc \<and>
    st_advertisement_bare out = st_advertisement_bare stc \<and> st_bridge_key out = st_bridge_key stc \<and>
    identity_ok out = identity_ok stc \<and> payload_ok out = payload_ok stc \<and> delivery_ok out = delivery_ok stc"
  proof (cases "st_transport stc = ''mesh''")
    case True
    obtain r d e f v k and a :: u64 where "a \<le> 0xfff" "\<not> v < 0xc0" and out: "out = stc\<lparr>st_mesh_swarm_reliable := r,
      st_mesh_destination := d, st_mesh_app_key_index := ucast a, st_mesh_element_index := e, st_mesh_force_segmented := f,
      st_mesh_vendor_opcode := v, st_mesh_company_id := k\<rparr>"
      using mesh_route_shape [OF assms True] by blast
    then show ?thesis using small_app_key [of a]
      by (simp add: route_ok_def identity_ok_def payload_ok_def delivery_ok_def not_less)
  next
    case False
    then show ?thesis using assms by (simp add: parse_mesh_route_def route_ok_def)
  qed
  then show "route_ok out" "st_transport out = st_transport stc" "st_channel_id out = st_channel_id stc"
    "st_advertisement_bare out = st_advertisement_bare stc" "st_bridge_key out = st_bridge_key stc"
    "identity_ok out = identity_ok stc" "payload_ok out = payload_ok stc" "delivery_ok out = delivery_ok stc" by simp_all
qed

lemma parsed_topic:
  assumes "parse_shared_topic c regex_match pattern hostname cfg index tables raw = Inr (stc, tables')"
  shows "topic_ok stc" "tables' = (unique_key stc # fst tables, if framed stc then channel_key stc # snd tables else snd tables)"
    "unique_key stc \<notin> set (fst tables)" "framed stc \<longrightarrow> channel_key stc \<notin> set (snd tables)"
proof -
  obtain s1 canonical s2 s3 s4 seen where s: "parse_bridge_identity c regex_match pattern hostname index raw = Inr (s1, canonical)"
    "parse_payload c index raw s1 = Inr s2" "parse_delivery c canonical raw s2 = Inr s3"
    "parse_channel c index (snd tables) raw s3 = Inr (s4, seen)" "parse_mesh_route c cfg raw s4 = Inr stc"
    and key: "unique_key stc \<notin> set (fst tables)" "tables' = (unique_key stc # fst tables, seen)"
    using assms by (auto simp: parse_shared_topic_def attempt_Inr split: yaml.splits if_splits prod.splits)
  obtain f m a where s2: "s2 = s1\<lparr>st_payload_format := f, st_member_specs := m, st_decode_assignments := a\<rparr>"
    using parsed_payload(2) [OF s(2)] by blast
  obtain x r n b where s3: "s3 = s2\<lparr>st_import_topic_suffix := x, st_rate_hz := r, st_name := n, st_advertisement_bare := b\<rparr>"
    using parsed_delivery(2) [OF s(3)] by blast
  have zero: "st_channel_id s3 = 0" using parsed_identity(2) [OF s(1)] by (simp add: s2 s3)
  note ch = parsed_channel [OF s(4) zero]
  obtain k where s4: "s4 = s3\<lparr>st_channel_id := k\<rparr>" using ch(2) by blast
  have "identity_ok s4" using parsed_identity(1) [OF s(1)] by (simp add: s4 s3 s2 identity_ok_def)
  moreover have "payload_ok s4" using parsed_payload(1) [OF s(2)] by (simp add: s4 s3 payload_ok_def)
  moreover have "delivery_ok s4" using parsed_delivery(1) [OF s(3)] by (simp add: s4 delivery_ok_def)
  ultimately have d: "delivery_ok s4" "payload_ok s4" "identity_ok s4" by simp_all
  note route = parsed_route [OF s(5)]
  have same: "framed stc = framed s4" "channel_key stc = channel_key s4" "channel_ok stc = channel_ok s4"
    using route by (simp_all add: framed_def channel_key_def channel_ok_def)
  show "topic_ok stc" using route d ch(1) same by (simp add: topic_ok_def)
  show "tables' = (unique_key stc # fst tables, if framed stc then channel_key stc # snd tables else snd tables)"
    "framed stc \<longrightarrow> channel_key stc \<notin> set (snd tables)" using key ch(3,4) same by simp_all
qed (use assms in \<open>auto simp: parse_shared_topic_def attempt_Inr split: yaml.splits if_splits prod.splits\<close>)

section \<open>The list\<close>

lemma parsed_topics:
  assumes "parse_shared_topics c regex_match pattern hostname cfg index tables items = Inr topics"
  shows "list_all topic_ok topics \<and> distinct (map unique_key topics) \<and> set (map unique_key topics) \<inter> set (fst tables) = {} \<and>
    distinct (map channel_key (filter framed topics)) \<and> set (map channel_key (filter framed topics)) \<inter> set (snd tables) = {}"
  using assms
proof (induction items arbitrary: index tables topics)
  case Nil
  then show ?case by simp
next
  case (Cons raw items)
  obtain stc tables' rest where t: "parse_shared_topic c regex_match pattern hostname cfg index tables raw = Inr (stc, tables')"
    and rest: "parse_shared_topics c regex_match pattern hostname cfg (index + 1) tables' items = Inr rest"
    and topics: "topics = stc # rest"
    using Cons.prems by (auto simp: attempt_Inr split: prod.splits)
  show ?case using Cons.IH [OF rest] parsed_topic [OF t] by (auto simp: topics)
qed

lemma options_no_topics:
  assumes "in_order (option_steps c doc hostname) default_node_config = Inr opts"
  shows "shared_topics opts = []"
proof -
  have "list_all (keeps shared_topics) (option_steps c doc hostname)"
    by (simp add: option_steps_def later_steps)
  from keeps_in_order [OF this, unfolded keeps_def, rule_format, OF assms]
  have "shared_topics opts = shared_topics default_node_config" .
  then show ?thesis by (simp add: default_node_config_def)
qed

theorem accepted_topics:
  assumes "parse_node_config c regex_match doc hostname pattern = Inr cfg"
  shows "list_all topic_ok (shared_topics cfg) \<and> distinct (map unique_key (shared_topics cfg)) \<and>
    distinct (map channel_key (filter framed (shared_topics cfg)))"
proof -
  obtain opts where opts: "in_order (option_steps c doc hostname) default_node_config = Inr opts"
    "read_shared_topics c regex_match doc hostname pattern opts = Inr cfg"
    using assms by (rule parse_stages)
  note none = options_no_topics [OF opts(1)]
  show ?thesis
  proof (cases "\<exists>items. yaml_at doc ''shared_topics'' = Some (Yaml_sequence items)")
    case True
    then obtain items where items: "yaml_at doc ''shared_topics'' = Some (Yaml_sequence items)" by blast
    define p where "p = (if auto_connect_pattern opts = [] then pattern else auto_connect_pattern opts)"
    obtain topics where "parse_shared_topics c regex_match p hostname opts 0 ([], []) items = Inr topics"
      "cfg = opts\<lparr>shared_topics := topics\<rparr>"
      using opts(2) none unfolding read_shared_topics_def items p_def Let_def by (auto simp: attempt_Inr)
    then show ?thesis using parsed_topics by fastforce
  next
    case False
    then have "read_shared_topics c regex_match doc hostname pattern opts = Inr opts"
      by (cases "yaml_at doc ''shared_topics''"; cases "the (yaml_at doc ''shared_topics'')")
        (simp_all add: read_shared_topics_def)
    then have "cfg = opts" using opts(2) by simp
    then show ?thesis by (simp add: none)
  qed
qed

section \<open>The bridge manager\<close>

lemma one_transport:
  assumes "parse_node_config c regex_match doc hostname pattern = Inr cfg"
    and "t \<in> set (shared_topics cfg)" "u \<in> set (shared_topics cfg)"
  shows "st_transport t = st_transport u"
  using accepted_one_transport [OF assms(1)] assms(2,3) by blast

lemma channel_key_entry: "channel_key = topic_key"
  by (simp add: fun_eq_iff channel_key_def topic_key_def entry_key_def)

text \<open>C24: The loader and the bridge manager agree on channels: of an accepted configuration the bridge manager
  accepts the topics exactly when at most one advertisement exports and the ROS calls succeed. The loader leaves
  the number of advertisement exporters unchecked.\<close>
theorem accepted_topics_configure:
  assumes "parse_node_config c regex_match doc hostname pattern = Inr cfg"
  shows "snd (configure env (shared_topics cfg) prefix_text whitelist im) = None \<longleftrightarrow>
    length (filter (\<lambda>t. st_transport t = ''advertisement'' \<and> exports_topic t) (shared_topics cfg)) \<le> 1 \<and>
    list_all (topic_available env) (active_topics (shared_topics cfg))"
proof -
  let ?ts = "shared_topics cfg"
  note topics = accepted_topics [OF assms]
  have "distinct (map topic_key (active_topics ?ts))"
  proof (cases "list_ex st_advertisement_bare ?ts")
    case False
    then have "active_topics ?ts = filter framed ?ts"
      unfolding active_topics_def framed_def by (intro filter_cong) (auto simp: list_ex_iff)
    then show ?thesis using topics by (simp add: channel_key_entry)
  next
    case True
    then obtain t where t: "t \<in> set ?ts" "st_advertisement_bare t" by (auto simp: list_ex_iff)
    then have "st_transport t = ''advertisement''"
      using topics by (auto simp: list_all_iff topic_ok_def delivery_ok_def)
    then have all: "\<forall>u \<in> set ?ts. st_transport u = ''advertisement''" using one_transport [OF assms t(1)] by auto
    then have "filter (\<lambda>t. st_transport t = ''advertisement'') ?ts = ?ts" by (simp add: filter_id_conv)
    then have "length ?ts = 1" using accepted_bare [OF assms] True by simp
    then show ?thesis using all by (cases ?ts) (auto simp: active_topics_def)
  qed
  then show ?thesis by (simp add: configure_accepts_iff)
qed

end
