(* ===== verification/Config_Mesh.thy ===== *)
theory Config_Mesh
  imports Config_Topics Swarm_Correct
begin

text \<open>
  The members of an automatic Mesh: what the loader checks of them is what the swarm coordinator needs to start.
\<close>

section \<open>Accepted members\<close>

lemma unique_peers_ok:
  "unique_peers seen raw = Inr peers \<Longrightarrow> distinct peers \<and> [] \<notin> set peers \<and> set peers \<inter> set seen = {} \<and>
     peers = map lower_trim_copy raw"
proof (induction raw arbitrary: seen peers)
  case (Cons raw rest)
  obtain v where v: "unique_peers (lower_trim_copy raw # seen) rest = Inr v" "peers = lower_trim_copy raw # v"
    "lower_trim_copy raw \<noteq> []" "lower_trim_copy raw \<notin> set seen"
    using Cons.prems by (auto simp: attempt_Inr Let_def split: if_splits)
  have ih: "distinct v" "[] \<notin> set v" "set v \<inter> set (lower_trim_copy raw # seen) = {}" "v = map lower_trim_copy rest"
    using Cons.IH [OF v(1)] by blast+
  have "lower_trim_copy raw \<notin> set v" "set v \<inter> set seen = {}"
    using ih(3) by auto
  then show ?case using v ih(1,2) by (simp add: ih(4) [symmetric])
qed simp

definition whitelist_ok :: "node_config \<Rightarrow> bool" where
  "whitelist_ok cfg \<longleftrightarrow> distinct (peer_whitelist cfg) \<and> [] \<notin> set (peer_whitelist cfg) \<and>
     map lower_trim_copy (peer_whitelist cfg) = peer_whitelist cfg"

lemma yields_whitelist: "yields whitelist_ok (read_peer_whitelist c doc)"
  by (auto simp: yields_def read_peer_whitelist_def attempt_Inr whitelist_ok_def comp_def dest!: unique_peers_ok)

text \<open>What \<open>check_members\<close> established, on the fields that stay as they are.\<close>

definition members_ok :: "yaml_conv \<Rightarrow> string \<Rightarrow> node_config \<Rightarrow> bool" where
  "members_ok c hostname cfg \<longleftrightarrow> unique_numbers c [] (peer_whitelist cfg) = None \<and>
     (\<exists>n. number_for c (lower_trim_copy hostname) ''local hostname'' = Inr n) \<and>
     (peer_whitelist cfg \<noteq> [] \<longrightarrow> lower_trim_copy hostname \<in> set (peer_whitelist cfg)) \<and>
     (mesh_provisioner_preference cfg \<noteq> ''ordered'' \<longrightarrow>
        (\<exists>n. number_for c (mesh_provisioner_preference cfg) ''mesh_provisioner_preference'' = Inr n) \<and>
        (peer_whitelist cfg \<noteq> [] \<longrightarrow> mesh_provisioner_preference cfg \<in> set (peer_whitelist cfg)))"

definition auto_roles_ok :: "yaml_conv \<Rightarrow> string \<Rightarrow> node_config \<Rightarrow> bool" where
  "auto_roles_ok c hostname cfg \<longleftrightarrow> (mesh_swarm_auto_provisioning cfg \<longrightarrow>
     enable_mesh cfg \<and> mesh_provisioner cfg \<and> mesh_auto_attach cfg \<and> \<not> mesh_auto_join cfg \<and>
     \<not> mesh_auto_create_network cfg \<and> mesh_auto_configure_relay cfg \<and> mesh_device_uuid cfg = [] \<and>
     mesh_provisioner_preference cfg \<noteq> [] \<and> members_ok c hostname cfg \<and>
     0 < mesh_swarm_startup_grace cfg \<and> 0 < mesh_swarm_heartbeat_period cfg \<and>
     mesh_swarm_heartbeat_period cfg * 2 < mesh_swarm_provisioner_timeout cfg \<and>
     mesh_swarm_provisioner_timeout cfg \<le> 63 \<and>
     0xc000 \<le> mesh_swarm_group_address cfg \<and> mesh_swarm_group_address cfg \<le> 0xfeff)"

lemma check_members_Inr:
  "check_members c hostname cfg = Inr out \<longleftrightarrow> out = cfg \<and> members_ok c hostname cfg"
  by (auto simp: check_members_def members_ok_def attempt_Inr Let_def split: option.split)

lemma in_order_assign: "in_order (assign f # fs) cfg = in_order fs (f cfg)"
  by (simp add: assign_def)

lemma in_order_check_members:
  "in_order (check_members c hostname # fs) cfg = Inr out \<longleftrightarrow> members_ok c hostname cfg \<and> in_order fs cfg = Inr out"
  by (auto simp: attempt_Inr check_members_Inr)

lemma auto_roles_run:
  assumes "in_order (auto_provisioning_roles c hostname) cfg = Inr out" "mesh_swarm_auto_provisioning cfg"
  shows "auto_roles_ok c hostname out"
  using assms(1) assms(2)
  unfolding auto_provisioning_roles_def in_order_require in_order_assign in_order_check_members in_order.simps(1)
  by (auto simp: auto_roles_ok_def members_ok_def)

lemma yields_auto_roles: "yields (auto_roles_ok c hostname) (when_auto (auto_provisioning_roles c hostname))"
  unfolding yields_def when_auto_def
proof (intro allI impI)
  fix cfg out
  assume "(if mesh_swarm_auto_provisioning cfg then in_order (auto_provisioning_roles c hostname) cfg else Inr cfg) = Inr out"
  then show "auto_roles_ok c hostname out"
    by (cases "mesh_swarm_auto_provisioning cfg") (simp_all add: auto_roles_run, simp add: auto_roles_ok_def)
qed

definition auto_identity_ok :: "string \<Rightarrow> node_config \<Rightarrow> bool" where
  "auto_identity_ok hostname cfg \<longleftrightarrow> (mesh_swarm_auto_provisioning cfg \<longrightarrow> peer_whitelist cfg \<noteq> [] \<and>
     (\<exists>n. stoul_digits (number_digits hostname) = Inr n \<and> n \<le> 0x7fff))"

lemma yields_auto_identity: "yields (auto_identity_ok hostname) (when_auto (auto_provisioning_identity hostname))"
  by (auto simp: yields_def when_auto_def auto_provisioning_identity_def require_def assign_def check_local_number_def
      attempt_Inr auto_identity_ok_def split: if_splits)

lemma accepted_members:
  assumes "parse_node_config c regex_match doc hostname pattern = Inr cfg"
  shows "whitelist_ok cfg" "auto_roles_ok c hostname cfg" "auto_identity_ok hostname cfg"
proof -
  have "ends whitelist_ok (read_swarm_options c doc hostname)"
    by (rule ends_nth [of 0], simp add: later_steps, simp add: later_steps yields_whitelist, simp add: later_steps whitelist_ok_def)
  then have "ends whitelist_ok (option_steps c doc hostname)"
    unfolding option_steps_def
    by (intro ends_tail [of _ _ "read_general_options c doc hostname"] ends_tail [of _ _ "read_mesh_roles c doc"] ends_head)
      (simp_all add: later_steps whitelist_ok_def)
  then show "whitelist_ok cfg" by (rule loaded [OF _ _ assms]) (simp add: whitelist_ok_def)
  have roles: "ends (auto_roles_ok c hostname) [when_auto (auto_provisioning_roles c hostname)]"
    by (rule ends_nth [of 0]) (simp_all add: yields_auto_roles)
  have "ends (auto_roles_ok c hostname) (option_steps c doc hostname)"
    unfolding option_steps_def by (rule ends_tail, rule ends_tail, rule ends_tail, rule ends_head [OF roles])
      (simp add: later_steps auto_roles_ok_def members_ok_def)
  then show "auto_roles_ok c hostname cfg" by (rule loaded [OF _ _ assms]) (simp add: auto_roles_ok_def members_ok_def)
  have identity: "ends (auto_identity_ok hostname) [when_auto (auto_provisioning_identity hostname)]"
    by (rule ends_nth [of 0]) (simp_all add: yields_auto_identity)
  have "ends (auto_identity_ok hostname) (option_steps c doc hostname)"
    unfolding option_steps_def by (rule ends_tail, rule ends_tail, rule ends_tail, rule ends_tail, rule ends_tail,
      rule ends_head [OF identity]) (simp add: later_steps auto_identity_ok_def)
  then show "auto_identity_ok hostname cfg" by (rule loaded [OF _ _ assms]) (simp add: auto_identity_ok_def)
qed

section \<open>Numbers\<close>

lemma number_digits_digits: "list_all is_digit (number_digits member)"
proof (induction member)
  case (Cons ch member)
  show ?case
  proof (cases "find_last (\<lambda>ch. \<not> is_digit ch) member")
    case None
    then have "list_all is_digit member" by (simp add: find_last_None)
    then show ?thesis by (simp add: number_digits_def None)
  next
    case (Some i)
    then show ?thesis using Cons.IH by (simp add: number_digits_def)
  qed
qed (simp add: number_digits_def)

lemma digit_facts: "is_digit ch \<Longrightarrow> \<not> is_space ch \<and> ch \<noteq> CHR ''-'' \<and> ch \<noteq> CHR ''+'' \<and> \<not> is_ascii_ws ch \<and> ch \<noteq> CHR ''x'' \<and> ch \<noteq> CHR ''X''"
  by (auto simp: is_digit_def is_space_def is_ascii_ws_def char_code_def)

lemma stoull_digits:
  assumes "ds \<noteq> []" "list_all is_digit ds"
  shows "stoull ds 10 = (if 2 ^ 64 \<le> digits_value ds then Inl (Out_of_range ''stoull'')
    else Inr (of_nat (digits_value ds), length ds))"
proof -
  have t: "takeWhile is_digit ds = ds" using assms(2) by (simp add: takeWhile_eq_all_conv list_all_iff)
  have h: "is_digit (hd ds)" using assms by (cases ds) auto
  have s: "takeWhile is_space ds = []" using h assms(1) by (cases ds) (auto simp: digit_facts)
  have v: "foldl (\<lambda>value ch. value * 10 + hex_digit ch) a ds = foldl (\<lambda>a c. a * 10 + digit_value c) a ds" for a
    using assms(2) by (induction ds arbitrary: a) (auto simp: hex_digit_def digit_value_def)
  show ?thesis
    using digit_facts [OF h] assms(1)
    by (simp add: stoull_def scan_integer_def s t Let_def based_value_def v digits_value_def)
qed

lemma trim_digits:
  assumes "list_all is_digit ds"
  shows "trim_copy ds = ds"
proof (cases ds)
  case (Cons d rest)
  have "is_digit (hd ds)" "is_digit (last ds)" using assms Cons by (auto simp: list_all_iff)
  then show ?thesis by (simp add: trim_copy_def trim_ws_strip strip_id digit_facts)
qed (simp add: trim_copy_def trim_ws_def)

lemma token_base_digits: "list_all is_digit ds \<Longrightarrow> token_base ds = 10"
  using digit_facts by (fastforce simp: token_base_def list_all_length)

text \<open>What yaml-cpp documents for decimal scalars: a string reads as itself, and digits without a leading zero
  convert to their value (with a leading zero they are octal).\<close>

definition plain_conv :: "yaml_conv \<Rightarrow> bool" where
  "plain_conv c \<longleftrightarrow> (\<forall>s. yc_string c (Yaml_scalar s) = Some s) \<and>
     (\<forall>ds v. ds \<noteq> [] \<longrightarrow> list_all is_digit ds \<longrightarrow> hd ds \<noteq> CHR ''0'' \<longrightarrow> yc_u64 c (Yaml_scalar ds) = Some v \<longrightarrow>
        unat v = digits_value ds)"

definition canonical_number :: "string \<Rightarrow> bool" where
  "canonical_number member \<longleftrightarrow> take 1 (number_digits member) \<noteq> ''0''"

lemma number_for_value:
  assumes "plain_conv c" "canonical_number member" "number_for c member context = Inr n"
  shows "number_digits member \<noteq> []" "digits_value (number_digits member) = unat n" "unat n \<noteq> 0" "unat n \<le> 0xffff"
proof -
  let ?ds = "number_digits member"
  note digits = number_digits_digits [of member]
  have parse: "parse_integer_value c (Yaml_scalar ?ds) 0xffff (context @ '' UAV number'') = Inr n"
    and ne: "?ds \<noteq> []" and n0: "n \<noteq> 0"
    using assms(3) by (auto simp: number_for_def attempt_Inr Let_def split: if_splits)
  show "?ds \<noteq> []" by (rule ne)
  show "unat n \<noteq> 0" using n0 by (simp add: unat_eq_0)
  have "n \<le> 0xffff" using parse_integer_bound [OF parse] .
  then show "unat n \<le> 0xffff" by (simp add: word_le_nat_alt)
  have lead: "hd ?ds \<noteq> CHR ''0''" using assms(2) ne by (cases ?ds) (auto simp: canonical_number_def)
  show "digits_value ?ds = unat n"
  proof (cases "yc_u64 c (Yaml_scalar ?ds)")
    case (Some v)
    then have "unat v = digits_value ?ds" using assms(1) ne digits lead unfolding plain_conv_def by blast
    moreover have "v = n" using parse Some by (simp add: parse_integer_value_def split: if_splits)
    ultimately show ?thesis by simp
  next
    case None
    have "yc_string c (Yaml_scalar ?ds) = Some ?ds" using assms(1) by (simp add: plain_conv_def)
    then have "stoull ?ds 10 = Inr (n, length ?ds)"
      using parse None ne
      by (auto simp: parse_integer_value_def text_or_def trim_digits [OF digits] token_base_digits [OF digits]
          attempt_Inr Let_def split: if_splits)
    then have "digits_value ?ds < 2 ^ 64" "n = of_nat (digits_value ?ds)"
      by (auto simp: stoull_digits [OF ne digits] not_le split: if_splits)
    then show ?thesis by (simp add: unat_of_nat)
  qed
qed

lemma uav_number_value:
  assumes "plain_conv c" "canonical_number member" "number_for c member context = Inr n"
  shows "uav_number member = Inr (unat n)"
proof -
  note v = number_for_value [OF assms]
  have "stoul_digits (number_digits member) = Inr (unat n)"
    using v by (simp add: stoul_digits_def)
  moreover have "uav_number member = (if number_digits member = []
      then Inl (Invalid_argument (''automatic Mesh peer must end in a UAV number: '' @ member))
      else case stoul_digits (number_digits member) of
        Inl error \<Rightarrow> Inl error
      | Inr number \<Rightarrow> if number = 0 \<or> 0xffff < number
          then Inl (Invalid_argument (''automatic Mesh UAV number must be in 1..65535: '' @ member)) else Inr number)"
    by (simp only: uav_number_def number_digits_def Let_def)
  ultimately show ?thesis using v by simp
qed

section \<open>The coordinator starts\<close>

lemma members_added:
  assumes "plain_conv c" "unique_numbers c seen peers = None" "list_all canonical_number peers"
    and "map lower_trim_copy peers = peers" "\<forall>n. by_number n \<noteq> None \<longrightarrow> n \<in> unat ` set seen"
  shows "\<exists>r. add_members peers (by_number, priority) = Inr r"
  using assms(2-)
proof (induction peers arbitrary: seen by_number priority)
  case (Cons peer peers)
  obtain n where n: "number_for c peer ''peer_whitelist entry'' = Inr n" "n \<notin> set seen"
    "unique_numbers c (n # seen) peers = None"
    using Cons.prems(1) by (auto split: sum.splits if_splits)
  have u: "uav_number peer = Inr (unat n)" using uav_number_value [OF assms(1) _ n(1)] Cons.prems(2) by simp
  have free: "by_number (unat n) = None"
    using Cons.prems(4) n(2) by (metis (no_types, lifting) imageE word_unat_eq_iff)
  have "\<exists>r. add_members peers (by_number(unat n \<mapsto> peer), priority @ [unat n]) = Inr r"
    using Cons.prems by (intro Cons.IH [OF n(3)]) auto
  then show ?case using Cons.prems(3) by (simp add: u free)
qed simp


end
