(* ===== verification/Config_Loaded.thy ===== *)
theory Config_Loaded
  imports Config_Mesh Overlay_Correct
begin

text \<open>
  The loader inside the overlay manager: the configuration in force, and every configuration a listener
  is told of, is one the loader accepts.
\<close>

section \<open>Valid configurations\<close>

text \<open>What the loader guarantees of a configuration.\<close>

definition valid_config :: "node_config \<Rightarrow> bool" where
  "valid_config cfg \<longleftrightarrow> channel_range cfg \<and> role_ranges cfg \<and> swarm_ranges cfg \<and> identity_ranges cfg \<and> agent_ranges cfg \<and>
     radio_exclusive cfg \<and> list_all topic_ok (shared_topics cfg) \<and> distinct (map unique_key (shared_topics cfg)) \<and>
     distinct (map channel_key (filter framed (shared_topics cfg)))"

lemma valid_parsed: "parse_node_config c regex_match doc hostname pattern = Inr cfg \<Longrightarrow> valid_config cfg"
  unfolding valid_config_def by (intro conjI) (simp_all add: numeric_ranges accepted_radio accepted_topics)

lemma valid_loaded: "load_effective_config c regex_match files default_path overlay hostname = Inr cfg \<Longrightarrow> valid_config cfg"
  by (auto simp: load_effective_config_def attempt_Inr intro: valid_parsed)

lemma valid_default: "valid_config default_node_config"
  by (simp add: valid_config_def channel_range_def role_ranges_def swarm_ranges_def identity_ranges_def agent_ranges_def
      radio_exclusive_def default_node_config_def uses_transport_def advertisement_with_def)

section \<open>Runs\<close>

definition config_inv :: "overlay_manager \<Rightarrow> bool" where
  "config_inv s \<longleftrightarrow> valid_config (om_config s) \<and> list_all (\<lambda>(k, cfg). valid_config cfg) (om_delivered s)"

definition loads_valid :: "overlay_world \<Rightarrow> bool" where
  "loads_valid w \<longleftrightarrow> (\<forall>default_path overlay hostname cfg. ow_load w default_path overlay hostname = Inr cfg \<longrightarrow> valid_config cfg)"

lemma config_inv_more [simp]:
  "config_inv (s\<lparr>om_overlay_path := p\<rparr>) = config_inv s"
  "config_inv (s\<lparr>om_active_source := p\<rparr>) = config_inv s"
  "config_inv (s\<lparr>om_keepalive_topic := p\<rparr>) = config_inv s"
  "config_inv (s\<lparr>om_keepalive_miss_count := n\<rparr>) = config_inv s"
  "config_inv (s\<lparr>om_lease_hold_until := t\<rparr>) = config_inv s"
  "config_inv (s\<lparr>om_overlay_connected_baseline := b\<rparr>) = config_inv s"
  "config_inv (s\<lparr>om_callbacks := m\<rparr>) = config_inv s"
  "config_inv (s\<lparr>om_state_file := f\<rparr>) = config_inv s"
  "config_inv (clear_persisted_overlay w s) = config_inv s"
  by (simp_all add: config_inv_def clear_persisted_overlay_def)

lemma config_inv_notify: "config_inv s \<Longrightarrow> config_inv (fst (notify w s))"
proof -
  have "config_inv (fst (notify_from w ks s))" if "config_inv s" for ks s
    using that by (induction ks arbitrary: s) (auto simp: Let_def config_inv_def split: option.split)
  then show "config_inv s \<Longrightarrow> ?thesis" by (simp add: notify_def)
qed

lemma config_inv_apply:
  assumes "loads_valid w" "config_inv s"
  shows "config_inv (fst (apply_config w overlay s))"
proof (cases "ow_load w (om_default_config_path s) overlay (om_hostname s)")
  case (Inr cfg)
  have cfg: "valid_config cfg" using assms(1) Inr unfolding loads_valid_def by blast
  show ?thesis
  proof (cases "node_prefix (om_hostname s)")
    case prefix: (Inr prefix)
    define a where "a = s\<lparr>om_config := cfg, om_active_source := (if overlay = [] then om_default_config_path s else overlay),
      om_keepalive_topic := prefix @ ''/config/'' @ sanitize_topic_suffix (overlay_keepalive_topic_suffix cfg)\<rparr>"
    define r where "r = (fst (notify w a))\<lparr>om_config := om_config s, om_active_source := om_active_source s,
      om_keepalive_topic := om_keepalive_topic s\<rparr>"
    have a: "config_inv (fst (notify w a))"
      using assms(2) cfg by (intro config_inv_notify) (simp add: a_def config_inv_def)
    then have r: "config_inv r" using assms(2) by (simp add: r_def config_inv_def)
    have "apply_config w overlay s = (case snd (notify w a) of None \<Rightarrow> (fst (notify w a), None)
        | Some e \<Rightarrow> (if om_active_source s \<noteq> [] then fst (notify w r) else r, Some e))"
      using Inr prefix unfolding apply_config_def a_def r_def by (simp add: Let_def split_beta split: option.split)
    then show ?thesis using a r config_inv_notify [OF r] by (simp split: option.split)
  qed (use Inr assms(2) in \<open>simp add: apply_config_def\<close>)
qed (use assms(2) in \<open>simp add: apply_config_def\<close>)

lemma config_inv_applied: "apply_config w overlay s = (t, r) \<Longrightarrow> loads_valid w \<Longrightarrow> config_inv s \<Longrightarrow> config_inv t"
  using config_inv_apply [of w s overlay] by simp

lemma config_inv_persisted: "persist_overlay_path w p s = (t, r) \<Longrightarrow> config_inv s \<Longrightarrow> config_inv t"
  by (auto simp: persist_overlay_path_def split: if_splits sum.splits)

lemma config_inv_revert: "loads_valid w \<Longrightarrow> config_inv s \<Longrightarrow> config_inv (fst (revert_to_default w s))"
  by (auto simp: revert_to_default_def dest: config_inv_applied split: prod.split option.split)

lemma config_inv_reload: "loads_valid w \<Longrightarrow> config_inv s \<Longrightarrow> config_inv (fst (reload w s))"
  by (auto simp: reload_def dest: config_inv_applied split: prod.split option.split)

lemma config_inv_activate:
  assumes "loads_valid w" "config_inv s"
  shows "config_inv (fst (activate_overlay w now path hold s))"
proof (cases hold)
  case (Some h)
  have kept: "config_inv (fst (persist_overlay_path w p u)) = config_inv u" for p u
    by (simp add: persist_overlay_path_def split: sum.split)
  define lease where "lease = (\<lambda>u :: overlay_manager. u\<lparr>om_keepalive_miss_count := 0, om_lease_hold_until := now + seconds_to_ticks h\<rparr>)"
  have lease: "config_inv (lease u) = config_inv u" for u by (simp add: lease_def)
  define b where "b = lease (s\<lparr>om_overlay_path := path\<rparr>)"
  obtain t r where t: "apply_config w path b = (t, r)" by (cases "apply_config w path b")
  have inv_t: "config_inv t" using config_inv_applied [OF t assms(1)] assms(2) by (simp add: b_def lease)
  obtain u e where u: "persist_overlay_path w path t = (u, e)" by (cases "persist_overlay_path w path t")
  have inv_u: "config_inv u" using kept [of path t] u inv_t by simp
  have b_eq: "s\<lparr>om_overlay_path := path, om_keepalive_miss_count := 0, om_lease_hold_until := now + seconds_to_ticks h\<rparr> = b"
    by (simp add: b_def lease_def)
  have same: "config_inv (fst (persist_overlay_path w p (lease s)))" for p using kept lease assms(2) by simp
  show ?thesis
    using assms(2) config_inv_revert [OF assms] same inv_t inv_u
    unfolding activate_overlay_def Some option.case Let_def b_eq t u prod.case lease_def
    by (simp add: split_beta split: option.split sum.split)
qed (use assms(2) in \<open>simp add: activate_overlay_def\<close>)

lemma config_inv_check:
  assumes "loads_valid w" "config_inv s"
  shows "config_inv (check_lease w now has_publishers later s)"
proof -
  have "config_inv (fst (revert_to_default w (s\<lparr>om_keepalive_miss_count := 0\<rparr>)))"
    using assms by (intro config_inv_revert) simp_all
  then show ?thesis using assms(2) by (auto simp: check_lease_def Let_def split: prod.splits bool.splits)
qed

lemma config_inv_restored: "config_inv s \<Longrightarrow> config_inv (fst (restored_overlay_path w s))"
  by (auto simp: restored_overlay_path_def split: option.splits sum.splits)

lemma config_inv_initial:
  assumes "loads_valid w" "config_inv s"
  shows "config_inv (fst (load_initial w now s))"
  using assms config_inv_restored [OF assms(2), of w]
  by (auto simp: load_initial_def config_inv_apply dest!: config_inv_applied split: prod.splits sum.splits option.splits)

lemma config_inv_step:
  assumes "loads_valid (fst e)" "config_inv s"
  shows "config_inv (overlay_step e s)"
  using assms
  by (induction e s rule: overlay_step.induct)
    (simp_all add: config_inv_activate config_inv_reload config_inv_check on_config_changed_def
      capture_connection_baseline_def clear_connection_baseline_def)

text \<open>Worlds whose loader is the program's: only the files may differ from one event to the next.\<close>

definition loader_world ::
    "yaml_conv \<Rightarrow> (string \<Rightarrow> string \<Rightarrow> bool option) \<Rightarrow> (string \<Rightarrow> yaml_file) \<Rightarrow> overlay_world \<Rightarrow> overlay_world" where
  "loader_world c regex_match files w = w\<lparr>ow_load := load_effective_config c regex_match files\<rparr>"

lemma loads_valid_world: "loads_valid (loader_world c regex_match files w)"
  by (auto simp: loads_valid_def loader_world_def dest: valid_loaded)

text \<open>C21: Whatever the files hold at each load, whichever load, save or listener fails, and however overlays come and go:
  the configuration in force, and every configuration that any listener was told of, satisfies all that the loader
  guarantees (ranges, exclusive radio roles, complete shared topics with unique keys and channels).\<close>
theorem overlay_config_valid:
  "let s = fold (\<lambda>(files, w, e). overlay_step (loader_world c regex_match files w, e)) es
        (fst (load_initial (loader_world c regex_match files w) now (new_overlay_manager default_path hostname dir saved)))
   in valid_config (om_config s) \<and> list_all (\<lambda>(k, cfg). valid_config cfg) (om_delivered s)"
proof -
  have fresh: "config_inv (new_overlay_manager default_path hostname dir saved)"
    by (simp add: config_inv_def new_overlay_manager_def valid_default)
  have "config_inv (fold (\<lambda>(files, w, e). overlay_step (loader_world c regex_match files w, e)) es s)" if "config_inv s" for s
    using that by (induction es arbitrary: s) (auto simp: config_inv_step loads_valid_world)
  then show ?thesis
    using config_inv_initial [OF loads_valid_world fresh] unfolding config_inv_def Let_def by blast
qed

end
