(* ===== verification/Config_Examples.thy ===== *)
theory Config_Examples
  imports Config_Loaded
begin

text \<open>
  Concrete runs of the loader: documents it accepts, for the properties that assume one.
\<close>

section \<open>A conversion\<close>

text \<open>Strings, flags and unsigned decimal scalars: the part of yaml-cpp's conversions that the examples need.\<close>

definition decimal_below :: "nat \<Rightarrow> yaml \<Rightarrow> nat option" where
  "decimal_below bound node =
     (case node of
        Yaml_scalar s \<Rightarrow>
          if s \<noteq> [] \<and> list_all is_digit s \<and> digits_value s < bound then Some (digits_value s) else None
      | _ \<Rightarrow> None)"

definition demo_conv :: yaml_conv where
  "demo_conv = \<lparr>
     yc_string = (\<lambda>node. case node of Yaml_scalar s \<Rightarrow> Some s | _ \<Rightarrow> None),
     yc_bool = (\<lambda>node. if node = Yaml_scalar ''true'' then Some True
        else if node = Yaml_scalar ''false'' then Some False else None),
     yc_double = (\<lambda>node. map_option of_nat (decimal_below (2 ^ 32) node)),
     yc_u32 = (\<lambda>node. map_option of_nat (decimal_below (2 ^ 32) node)),
     yc_u64 = (\<lambda>node. map_option of_nat (decimal_below (2 ^ 64) node)),
     yc_i64 = (\<lambda>node. map_option int (decimal_below (2 ^ 63) node)),
     yc_bad_conversion = (\<lambda>node. ''bad conversion''),
     yc_of_u8 = (\<lambda>n. Yaml_scalar (show_nat (unat n))),
     yc_of_u16 = (\<lambda>n. Yaml_scalar (show_nat (unat n))),
     yc_of_int = (\<lambda>n. Yaml_scalar (show_nat (nat n)))\<rparr>"

lemma plain_demo: "plain_conv demo_conv"
  by (auto simp: plain_conv_def demo_conv_def decimal_below_def unat_of_nat split: if_splits)

lemma demo_encoded:
  assumes "n \<le> unat limit"
  shows "parse_integer_value demo_conv (Yaml_scalar (show_nat n)) limit context = Inr (of_nat n)"
proof -
  have n: "n < 2 ^ 64" using assms unsigned_less [of limit, where 'a = nat] by simp
  have "\<not> limit < of_nat n" using assms n by (simp add: word_less_nat_alt unat_of_nat)
  then show ?thesis
    using n by (simp add: parse_integer_value_def demo_conv_def decimal_below_def show_nat_digits)
qed

lemma demo_integer:
  fixes fallback :: "'w::len word"
  assumes "yaml_at doc key = None" "encode fallback = Yaml_scalar (show_nat (unat fallback))" "unat fallback \<le> unat limit"
    "LENGTH('w) \<le> 64"
  shows "integer demo_conv doc encode limit key fallback = Inr fallback"
proof -
  have "unat fallback < 2 ^ LENGTH('w)" by (rule unsigned_less)
  also have "\<dots> \<le> (2 :: nat) ^ 64" using assms(4) by (intro power_increasing) simp_all
  finally have "(ucast (of_nat (unat fallback) :: u64) :: 'w word) = of_nat (unat fallback)"
    by (simp only: unsigned_of_nat take_bit_eq_mod) simp
  then show ?thesis using assms(1-3) by (simp add: integer_def demo_encoded attempt_def)
qed

lemma demo_encodings:
  "yc_of_u8 demo_conv n = Yaml_scalar (show_nat (unat n))" "yc_of_u16 demo_conv m = Yaml_scalar (show_nat (unat m))"
  "yc_of_int demo_conv 0 = Yaml_scalar (show_nat 0)"
  by (simp_all add: demo_conv_def)

section \<open>Documents\<close>

definition mesh_doc :: yaml where
  "mesh_doc = Yaml_map
     [(''enable_mesh'', Yaml_scalar ''true''), (''mesh_swarm_auto_provisioning'', Yaml_scalar ''true''),
      (''peer_whitelist'', Yaml_sequence [Yaml_scalar ''uav1'', Yaml_scalar ''uav2''])]"

lemma mesh_doc_at:
  "yaml_at mesh_doc ''enable_mesh'' = Some (Yaml_scalar ''true'')"
  "yaml_at mesh_doc ''mesh_swarm_auto_provisioning'' = Some (Yaml_scalar ''true'')"
  "yaml_at mesh_doc ''peer_whitelist'' = Some (Yaml_sequence [Yaml_scalar ''uav1'', Yaml_scalar ''uav2''])"
  "key \<notin> {''enable_mesh'', ''mesh_swarm_auto_provisioning'', ''peer_whitelist''} \<Longrightarrow> yaml_at mesh_doc key = None"
  by (simp_all add: mesh_doc_def)

lemma resolved:
  "resolve_topic_path ''~/peers'' ''uav1'' = Inr ''/uav1/bluetooth/peers''"
  "resolve_topic_path ''~/le/advertisement'' ''uav1'' = Inr ''/uav1/bluetooth/le/advertisement''"
  by code_simp+

lemma demo_scalars: "yc_string demo_conv (Yaml_scalar s) = Some s" "yc_bool demo_conv (Yaml_scalar ''true'') = Some True"
  by (simp_all add: demo_conv_def)

lemma demo_members:
  "unique_peers [] [''uav1'', ''uav2''] = Inr [''uav1'', ''uav2'']"
  "number_digits ''uav1'' = ''1''" "number_digits ''uav2'' = ''2''" "lower_trim_copy ''uav1'' = ''uav1''"
  "lower_trim_copy ''uav2'' = ''uav2''"
  by code_simp+

lemma demo_stoul: "stoul_digits ''1'' = Inr 1"
  by (simp add: stoul_digits_def digits_value_def digit_value_def char_code_def)

lemma demo_shown: "show_nat 1 = ''1''" "show_nat 2 = ''2''" "show_nat (Suc 0) = ''1''"
  by code_simp+

lemma demo_digit:
  "parse_integer_value demo_conv (Yaml_scalar ''1'') 0xffff context = Inr 1"
  "parse_integer_value demo_conv (Yaml_scalar ''2'') 0xffff context = Inr 2"
  using demo_encoded [where n = 1 and limit = "0xffff"] demo_encoded [where n = 2 and limit = "0xffff"]
  by (simp_all add: demo_shown)

lemma demo_checks: "number_for demo_conv ''uav1'' context = Inr 1" "number_for demo_conv ''uav2'' context = Inr 2"
  by (simp_all add: number_for_def demo_members demo_digit attempt_simps)

lemma demo_lowered:
  "lower_trim_copy ''ordered'' = ''ordered''" "lower_trim_copy ''peripheral'' = ''peripheral''"
  "lower_trim_copy ''legacy'' = ''legacy''" "lower_trim_copy ''reregister'' = ''reregister''"
  by code_simp+

lemmas run_steps = in_order.simps read_field_def require_def assign_def str_def dbl_def flag_def u32_field_def read_with_def
  expanded_def lowered_def attempt_simps as_value_def demo_integer demo_encodings demo_encoded resolved demo_scalars
  demo_members demo_stoul demo_checks demo_lowered str_list_def text_or_def read_peers_prefix_def read_serial_port_channel_def
  read_peer_whitelist_def read_mesh_device_uuid_def check_members_def when_auto_def read_mesh_token_def check_local_number_def
  read_bytes_field_def read_gatt_profile_uuids_def read_byte_map_def parse_optional_bool_def optional_field_def
  parse_optional_integer_def parse_optional_signed_integer_def read_extra_data_topic_def read_shared_topics_def

lemmas step_lists = read_general_options_def read_mesh_roles_def read_swarm_options_def auto_provisioning_roles_def
  read_mesh_identity_def auto_provisioning_identity_def read_mesh_agent_def read_connection_options_def read_advertise_mode_def
  read_advertise_data_def read_advertise_limits_def auto_provisioning_switches_def check_bridges_def check_roles_def

lemma empty_accepted:
  "\<exists>cfg. parse_node_config demo_conv regex_match (Yaml_map []) ''uav1'' pattern = Inr cfg \<and> shared_topics cfg = []"
  unfolding parse_node_config_def config_steps_def option_steps_def
  by (simp add: step_lists run_steps default_node_config_def Let_def uses_transport_def advertisement_with_def)

lemma mesh_accepted:
  "\<exists>cfg. parse_node_config demo_conv regex_match mesh_doc ''uav1'' pattern = Inr cfg \<and> mesh_swarm_auto_provisioning cfg \<and>
     enable_mesh cfg \<and> peer_whitelist cfg = [''uav1'', ''uav2'']"
proof -
  have "\<exists>entries. mesh_doc = Yaml_map entries \<and> check_mesh_options entries = None"
    unfolding mesh_doc_def by (intro exI conjI, rule refl) code_simp
  then obtain entries where entries: "mesh_doc = Yaml_map entries" "check_mesh_options entries = None" by blast
  have "\<exists>cfg. in_order (config_steps demo_conv regex_match mesh_doc ''uav1'' pattern) default_node_config = Inr cfg \<and>
      mesh_swarm_auto_provisioning cfg \<and> enable_mesh cfg \<and> peer_whitelist cfg = [''uav1'', ''uav2'']"
    unfolding config_steps_def option_steps_def
    by (simp add: step_lists run_steps mesh_doc_at default_node_config_def Let_def uses_transport_def advertisement_with_def)
  moreover have "parse_node_config demo_conv regex_match mesh_doc ''uav1'' pattern =
      in_order (config_steps demo_conv regex_match mesh_doc ''uav1'' pattern) default_node_config"
    unfolding parse_node_config_def entries(1) by (simp add: entries(2))
  ultimately show ?thesis by simp
qed

definition topic_doc :: yaml where
  "topic_doc = Yaml_map [(''shared_topics'', Yaml_sequence [Yaml_map
     [(''transport'', Yaml_scalar ''advertisement''), (''mode'', Yaml_scalar ''export''),
      (''export_topic'', Yaml_scalar ''/a''), (''message_type'', Yaml_scalar ''t''), (''payload_format'', Yaml_scalar ''ros2''),
      (''channel_id'', Yaml_scalar ''1'')]])]"

lemma demo_texts:
  "lower_trim_copy ''advertisement'' = ''advertisement''" "lower_trim_copy ''ros2'' = ''ros2''"
  "lower_trim_copy ''channel'' = ''channel''" "map to_lower ''export'' = ''export''"
  "resolve_topic_path ''/a'' ''uav1'' = Inr ''/a''"
  "canonical_shared_topic (\<lambda>_ _. Some False) ''/a'' p = ''/a''"
  by code_simp+

lemma demo_lower: "to_lower CHR ''e'' = CHR ''e''" "to_lower CHR ''x'' = CHR ''x''" "to_lower CHR ''p'' = CHR ''p''"
  "to_lower CHR ''o'' = CHR ''o''" "to_lower CHR ''r'' = CHR ''r''" "to_lower CHR ''t'' = CHR ''t''"
  by code_simp+

lemma topic_accepted:
  "\<exists>cfg. parse_node_config demo_conv (\<lambda>_ _. Some False) topic_doc ''uav1'' pattern = Inr cfg \<and>
     map st_transport (shared_topics cfg) = [''advertisement'']"
  unfolding parse_node_config_def config_steps_def option_steps_def topic_doc_def
  by (simp add: step_lists run_steps default_node_config_def Let_def uses_transport_def advertisement_with_def
      parse_shared_topic_def parse_bridge_identity_def parse_transport_def parse_mode_def parse_payload_def
      parse_delivery_def parse_channel_def parse_mesh_route_def default_shared_topic_config_def demo_texts demo_digit demo_lower)

section \<open>The properties on the examples\<close>

theorem accepted_radio_exclusive_witness:
  "\<exists>cfg. parse_node_config demo_conv (\<lambda>_ _. None) mesh_doc ''uav1'' [] = Inr cfg \<and> enable_mesh cfg \<and> \<not> enable_scan cfg"
  using mesh_accepted accepted_radio_exclusive by meson


theorem accepted_topics_configure_witness:
  "\<exists>cfg. parse_node_config demo_conv (\<lambda>_ _. Some False) topic_doc ''uav1'' [] = Inr cfg \<and>
     (\<forall>env prefix_text whitelist im. snd (configure env (shared_topics cfg) prefix_text whitelist im) = None \<longleftrightarrow>
        list_all (topic_available env) (active_topics (shared_topics cfg)))"
proof -
  obtain cfg where cfg: "parse_node_config demo_conv (\<lambda>_ _. Some False) topic_doc ''uav1'' [] = Inr cfg"
    "map st_transport (shared_topics cfg) = [''advertisement'']"
    using topic_accepted [of "[]"] by (elim exE conjE)
  have "length (shared_topics cfg) = 1" using arg_cong [OF cfg(2), of length] by simp
  then have one: "length (filter P (shared_topics cfg)) \<le> 1" for P
    using length_filter_le [of P "shared_topics cfg"] by simp
  show ?thesis
    by (intro exI conjI allI, rule cfg(1)) (simp only: accepted_topics_configure [OF cfg(1)] one simp_thms)
qed


end
