(* ===== verification/Bluez_Client.thy ===== *)
theory Bluez_Client
  imports Object_Cache
begin

text \<open>
  \<open>BluezClient\<close> of \<open>src/bluez/bluez_client.cpp\<close>: discovery, connections, pairing and device properties. The BlueZ
  daemon, the clock and the other threads are the environment \<open>bluez_bus\<close>: each field says what one call
  returns, and how the rest of the system has moved on meanwhile. The handlers of signals run between
  operations, not inside them.
\<close>

section \<open>The system bus\<close>

text \<open>What \<open>sdbus::Error\<close> carries.\<close>

record sdbus_error =
  se_name :: string
  se_message :: string

text \<open>The requests that change the state of the daemon, each on the object it names. \<open>Owner_changed\<close> is no request but
  the end of the daemon that answered the earlier ones, and \<open>Close_discovery\<close>
  the closing of the connection that owns the discovery session.\<close>

datatype bluez_request =
    Set_discovery_filter string bool
  | Start_discovery
  | Stop_discovery
  | Close_discovery
  | Owner_changed
  | Device_connect string
  | Bearer_connect string
  | Adapter_connect string string
  | Device_disconnect string
  | Connect_profile string string
  | Disconnect_profile string string
  | Device_pair string
  | Cancel_pairing string
  | Set_property string string dbus_value
  | Remove_device string
  | Start_notify string
  | Stop_notify string
  | Write_characteristic string "u8 list" bool
  | Write_descriptor string "u8 list"

text \<open>\<open>bb_open\<close> opens a blocking connection; \<open>bb_allowed\<close> is \<open>connections_allowed_\<close>, an atomic flag that other threads
  set; \<open>bb_cache\<close> is the shared object cache at the time of the call, and \<open>bb_refresh\<close> its \<open>refresh_device_subtree\<close>.
  Time passes in the environment; \<open>bb_sleep\<close> is \<open>std::this_thread::sleep_for\<close>.\<close>

record 'e bluez_bus =
  bb_open :: "'e \<Rightarrow> sdbus_error option \<times> 'e"
  bb_request :: "bluez_request \<Rightarrow> 'e \<Rightarrow> sdbus_error option \<times> 'e"
  bb_get_all :: "string \<Rightarrow> string \<Rightarrow> 'e \<Rightarrow> (sdbus_error + dbus_props) \<times> 'e"
  bb_managed_objects :: "'e \<Rightarrow> (sdbus_error + managed_objects) \<times> 'e"
  bb_discovering :: "string \<Rightarrow> 'e \<Rightarrow> (sdbus_error + bool) \<times> 'e"
  bb_read_value :: "string \<Rightarrow> string \<Rightarrow> 'e \<Rightarrow> (sdbus_error + u8 list) \<times> 'e"
  bb_clock :: "'e \<Rightarrow> ticks \<times> 'e"
  bb_sleep :: "ticks \<Rightarrow> 'e \<Rightarrow> 'e"
  bb_allowed :: "'e \<Rightarrow> bool \<times> 'e"
  bb_cache :: "'e \<Rightarrow> nat object_cache \<times> 'e"
  bb_refresh :: "string \<Rightarrow> 'e \<Rightarrow> bool \<times> 'e"

section \<open>State\<close>

text \<open>The last three fields are outside the program: the requests sent, with whether the daemon accepted them, and the
  calls of the GATT event handlers and of the notification handlers.\<close>

record 'e bluez_client =
  bc_env :: 'e
  bc_adapter_path :: string
  bc_scan_running :: bool
  bc_discovery_connection :: bool
  bc_last_scan_transport :: string
  bc_last_scan_discoverable :: bool
  bc_gatt_refresh_backoff_until :: "string \<rightharpoonup> ticks"
  bc_next_ntf_token :: int
  bc_notification_cbs :: "(int \<times> nat) list"
  bc_next_gatt_token :: int
  bc_gatt_event_cbs :: "(int \<times> nat) list"
  bc_notify_paths :: "string set"
  bc_sent :: "(bluez_request \<times> bool) list"
  bc_gatt_events :: "(nat \<times> string \<times> string \<times> string) list"
  bc_notifications :: "(nat \<times> u8 list \<times> string \<times> string) list"

definition new_bluez_client :: "string \<Rightarrow> 'e \<Rightarrow> 'e bluez_client" where
  "new_bluez_client adapter_path env = \<lparr>
     bc_env = env, bc_adapter_path = adapter_path, bc_scan_running = False, bc_discovery_connection = False,
     bc_last_scan_transport = ''le'', bc_last_scan_discoverable = False, bc_gatt_refresh_backoff_until = Map.empty,
     bc_next_ntf_token = 1, bc_notification_cbs = [], bc_next_gatt_token = 1, bc_gatt_event_cbs = [],
     bc_notify_paths = {}, bc_sent = [], bc_gatt_events = [], bc_notifications = []\<rparr>"

section \<open>Operations\<close>

text \<open>An operation runs on the client and returns a value or throws an \<open>sdbus::Error\<close>.\<close>

type_synonym ('e, 'a) client_op = "'e bluez_client \<Rightarrow> (sdbus_error + 'a) \<times> 'e bluez_client"

definition give :: "'a \<Rightarrow> ('e, 'a) client_op" where
  "give v s = (Inr v, s)"

definition then_do :: "('e, 'a) client_op \<Rightarrow> ('a \<Rightarrow> ('e, 'b) client_op) \<Rightarrow> ('e, 'b) client_op" where
  "then_do m f s = (case m s of (Inl e, t) \<Rightarrow> (Inl e, t) | (Inr v, t) \<Rightarrow> f v t)"

definition or_catch :: "('e, 'a) client_op \<Rightarrow> (sdbus_error \<Rightarrow> ('e, 'a) client_op) \<Rightarrow> ('e, 'a) client_op" where
  "or_catch m handler s = (case m s of (Inl e, t) \<Rightarrow> handler e t | (Inr v, t) \<Rightarrow> (Inr v, t))"

definition modify :: "('e bluez_client \<Rightarrow> 'e bluez_client) \<Rightarrow> ('e, unit) client_op" where
  "modify f s = (Inr (), f s)"

definition observe :: "('e \<Rightarrow> 'a \<times> 'e) \<Rightarrow> ('e, 'a) client_op" where
  "observe f s = (case f (bc_env s) of (v, env) \<Rightarrow> (Inr v, s\<lparr>bc_env := env\<rparr>))"

definition query :: "('e \<Rightarrow> (sdbus_error + 'a) \<times> 'e) \<Rightarrow> ('e, 'a) client_op" where
  "query f s = (case f (bc_env s) of (r, env) \<Rightarrow> (r, s\<lparr>bc_env := env\<rparr>))"

definition open_bus :: "'e bluez_bus \<Rightarrow> ('e, unit) client_op" where
  "open_bus b s = (case bb_open b (bc_env s) of
     (None, env) \<Rightarrow> (Inr (), s\<lparr>bc_env := env\<rparr>)
   | (Some e, env) \<Rightarrow> (Inl e, s\<lparr>bc_env := env\<rparr>))"

definition request :: "'e bluez_bus \<Rightarrow> bluez_request \<Rightarrow> ('e, unit) client_op" where
  "request b r s = (case bb_request b r (bc_env s) of
     (None, env) \<Rightarrow> (Inr (), s\<lparr>bc_env := env, bc_sent := bc_sent s @ [(r, True)]\<rparr>)
   | (Some e, env) \<Rightarrow> (Inl e, s\<lparr>bc_env := env, bc_sent := bc_sent s @ [(r, False)]\<rparr>))"

definition allowed :: "'e bluez_bus \<Rightarrow> ('e, bool) client_op" where
  "allowed b = observe (bb_allowed b)"

definition find_device :: "'e bluez_bus \<Rightarrow> string \<Rightarrow> ('e, device_info option) client_op" where
  "find_device b mac = then_do (observe (bb_cache b)) (\<lambda>c. give (device_by_mac c mac))"

text \<open>\<open>if (!condition) return value;\<close>\<close>

definition unless :: "bool \<Rightarrow> 'a \<Rightarrow> ('e, 'a) client_op \<Rightarrow> ('e, 'a) client_op" where
  "unless condition v m = (if condition then m else give v)"

section \<open>Helpers\<close>

fun find_text :: "string \<Rightarrow> string \<Rightarrow> nat option" where
  "find_text needle [] = (if needle = [] then Some 0 else None)"
| "find_text needle (c # cs) =
     (if take (length needle) (c # cs) = needle then Some 0 else map_option Suc (find_text needle cs))"

definition mentions :: "string \<Rightarrow> string \<Rightarrow> bool" where
  "mentions message needle \<longleftrightarrow> find_text needle message \<noteq> None"

definition message_contains :: "string \<Rightarrow> string list \<Rightarrow> bool" where
  "message_contains message needles \<longleftrightarrow> list_ex (mentions message) needles"

definition is_missing_object_error :: "string \<Rightarrow> bool" where
  "is_missing_object_error message \<longleftrightarrow>
     message_contains message [''NoSuchObject'', ''UnknownObject''] \<or>
     (mentions message ''GetAll'' \<and> mentions message (''doesn'' @ [CHR 0x27] @ ''t exist''))"

definition is_le_address_type :: "string \<Rightarrow> bool" where
  "is_le_address_type address_type \<longleftrightarrow> address_type = ''public'' \<or> address_type = ''random''"

definition device_root_path :: "string \<Rightarrow> string" where
  "device_root_path object_path =
     (case find_text ''/dev_'' object_path of
        None \<Rightarrow> []
      | Some device_pos \<Rightarrow>
          (case find_text ''/'' (drop (device_pos + 1) object_path) of
             None \<Rightarrow> object_path
           | Some n \<Rightarrow> take (device_pos + 1 + n) object_path))"

definition kLeBearerIface :: string where "kLeBearerIface = ''org.bluez.Bearer.LE1''"

definition read_device_properties :: "'e bluez_bus \<Rightarrow> string \<Rightarrow> ('e, dbus_props) client_op" where
  "read_device_properties b device_path = query (bb_get_all b device_path kDeviceIface)"

definition read_interface_properties :: "'e bluez_bus \<Rightarrow> string \<Rightarrow> string \<Rightarrow> ('e, dbus_props) client_op" where
  "read_interface_properties b object_path iface = query (bb_get_all b object_path iface)"

definition has_flag :: "dbus_props \<Rightarrow> string \<Rightarrow> bool" where
  "has_flag properties key = get_or as_bool properties key False"

definition device_has_resolved_characteristics :: "'e bluez_bus \<Rightarrow> string \<Rightarrow> ('e, bool) client_op" where
  "device_has_resolved_characteristics b device_path =
     then_do (read_device_properties b device_path) (\<lambda>properties.
       unless (has_flag properties ''Connected'' \<and> has_flag properties ''ServicesResolved'') False
         (then_do (query (bb_managed_objects b)) (\<lambda>objects.
            give (list_ex (\<lambda>(path, interfaces).
              take (length device_path + 1) path = device_path @ ''/'' \<and>
              map_of interfaces kGattCharacteristicIface \<noteq> None) objects))))"

text \<open>A loop that sleeps for the interval in every round ends after this many rounds.\<close>

definition kConnectPollInterval :: ticks where "kConnectPollInterval = 300 * 1000000"
definition kPairPollInterval :: ticks where "kPairPollInterval = 500 * 1000000"
definition kGattRefreshRetryBackoff :: ticks where "kGattRefreshRetryBackoff = 3000 * 1000000"

definition timeout_ticks :: "seconds \<Rightarrow> ticks" where
  "timeout_ticks timeout_s = trunc_rat (max 0 timeout_s * 1000) * 1000000"

definition poll_rounds :: "ticks \<Rightarrow> ticks \<Rightarrow> nat" where
  "poll_rounds timeout interval = nat (timeout div interval) + 2"

fun poll_from :: "'e bluez_bus \<Rightarrow> nat \<Rightarrow> ticks \<Rightarrow> ticks \<Rightarrow> ('e, bool) client_op \<Rightarrow> ('e, bool) client_op" where
  "poll_from b 0 deadline interval predicate = predicate"
| "poll_from b (Suc n) deadline interval predicate =
     then_do (observe (bb_clock b)) (\<lambda>now.
       if now < deadline
       then then_do predicate (\<lambda>r.
              if r then give True
              else then_do (observe (\<lambda>env. ((), bb_sleep b interval env))) (\<lambda>_.
                     poll_from b n deadline interval predicate))
       else predicate)"

definition poll_until :: "'e bluez_bus \<Rightarrow> seconds \<Rightarrow> ticks \<Rightarrow> ('e, bool) client_op \<Rightarrow> ('e, bool) client_op" where
  "poll_until b timeout_s interval predicate =
     then_do (observe (bb_clock b)) (\<lambda>start.
       poll_from b (poll_rounds (timeout_ticks timeout_s) interval) (start + timeout_ticks timeout_s) interval predicate)"

text \<open>The predicates that ask for a flag of the device: a vanished object has none, other errors propagate.\<close>

definition device_flag :: "'e bluez_bus \<Rightarrow> string \<Rightarrow> string \<Rightarrow> ('e, bool) client_op" where
  "device_flag b path key =
     or_catch (then_do (read_device_properties b path) (\<lambda>properties. give (has_flag properties key)))
       (\<lambda>e s. if is_missing_object_error (se_message e) then (Inr False, s) else (Inl e, s))"

section \<open>Discovery\<close>

definition close_discovery :: "('e, unit) client_op" where
  "close_discovery = modify (\<lambda>s. s\<lparr>bc_discovery_connection := False, bc_scan_running := False,
     bc_sent := bc_sent s @ [(Close_discovery, True)]\<rparr>)"

definition ensure_discovery_connection :: "'e bluez_bus \<Rightarrow> ('e, unit) client_op" where
  "ensure_discovery_connection b s =
     (if bc_discovery_connection s then (Inr (), s)
      else then_do (open_bus b) (\<lambda>_. modify (\<lambda>s. s\<lparr>bc_discovery_connection := True\<rparr>)) s)"

definition start_scan :: "'e bluez_bus \<Rightarrow> string \<Rightarrow> bool \<Rightarrow> ('e, bool) client_op" where
  "start_scan b transport make_discoverable_while_scanning =
     then_do (ensure_discovery_connection b) (\<lambda>_ s.
       let owned = bc_scan_running s;
           filter_changed = (transport \<noteq> bc_last_scan_transport s \<or>
             make_discoverable_while_scanning \<noteq> bc_last_scan_discoverable s)
       in if owned \<and> \<not> filter_changed then (Inr True, s)
          else or_catch
            (then_do (request b (Set_discovery_filter transport make_discoverable_while_scanning)) (\<lambda>_.
             then_do (modify (\<lambda>s. s\<lparr>bc_last_scan_transport := transport,
               bc_last_scan_discoverable := make_discoverable_while_scanning\<rparr>)) (\<lambda>_.
             if owned then give True
             else then_do (request b Start_discovery) (\<lambda>_.
                  then_do (modify (\<lambda>s. s\<lparr>bc_scan_running := True\<rparr>)) (\<lambda>_. give True)))))
            (\<lambda>e. if owned then give False else then_do close_discovery (\<lambda>_. give False)) s)"

definition stop_scan :: "'e bluez_bus \<Rightarrow> ('e, bool) client_op" where
  "stop_scan b s =
     (if \<not> bc_discovery_connection s \<or> \<not> bc_scan_running s then (Inr True, s)
      else or_catch
        (then_do (request b Stop_discovery) (\<lambda>_.
         then_do (modify (\<lambda>s. s\<lparr>bc_scan_running := False\<rparr>)) (\<lambda>_. give True)))
        (\<lambda>e. if mentions (se_message e) ''NotAuthorized'' \<or> mentions (se_message e) ''No discovery started''
             then then_do (modify (\<lambda>s. s\<lparr>bc_scan_running := False\<rparr>)) (\<lambda>_. give True)
             else then_do close_discovery (\<lambda>_. give True)) s)"

definition is_scanning :: "'e bluez_bus \<Rightarrow> ('e, bool) client_op" where
  "is_scanning b s =
     (if \<not> bc_scan_running s \<or> \<not> bc_discovery_connection s then (Inr False, s)
      else or_catch (query (bb_discovering b (bc_adapter_path s))) (\<lambda>e. give False) s)"

section \<open>Device properties\<close>

text \<open>\<open>trust\<close>, \<open>untrust\<close>, \<open>block\<close>, \<open>unblock\<close> and \<open>set_preferred_bearer\<close>: every error is caught.\<close>

definition set_device_property :: "'e bluez_bus \<Rightarrow> string \<Rightarrow> string \<Rightarrow> dbus_value \<Rightarrow> ('e, unit) client_op" where
  "set_device_property b path prop v = then_do (open_bus b) (\<lambda>_. request b (Set_property path prop v))"

definition device_path_for_mac :: "'e bluez_bus \<Rightarrow> string \<Rightarrow> ('e, string) client_op" where
  "device_path_for_mac b mac =
     then_do (find_device b mac) (\<lambda>dev. give (case dev of None \<Rightarrow> [] | Some d \<Rightarrow> dv_object_path d))"

definition set_flag :: "'e bluez_bus \<Rightarrow> string \<Rightarrow> string \<Rightarrow> dbus_value \<Rightarrow> ('e, bool) client_op" where
  "set_flag b mac prop v =
     then_do (device_path_for_mac b mac) (\<lambda>path.
       unless (path \<noteq> []) False
         (or_catch (then_do (set_device_property b path prop v) (\<lambda>_. give True)) (\<lambda>e. give False)))"

definition trust :: "'e bluez_bus \<Rightarrow> string \<Rightarrow> ('e, bool) client_op" where
  "trust b mac = set_flag b mac ''Trusted'' (V_bool True)"

definition untrust :: "'e bluez_bus \<Rightarrow> string \<Rightarrow> ('e, bool) client_op" where
  "untrust b mac = set_flag b mac ''Trusted'' (V_bool False)"

definition block :: "'e bluez_bus \<Rightarrow> string \<Rightarrow> ('e, bool) client_op" where
  "block b mac = set_flag b mac ''Blocked'' (V_bool True)"

definition unblock :: "'e bluez_bus \<Rightarrow> string \<Rightarrow> ('e, bool) client_op" where
  "unblock b mac = set_flag b mac ''Blocked'' (V_bool False)"

definition set_preferred_bearer :: "'e bluez_bus \<Rightarrow> string \<Rightarrow> string \<Rightarrow> ('e, bool) client_op" where
  "set_preferred_bearer b mac bearer = set_flag b mac ''PreferredBearer'' (V_string bearer)"

section \<open>Connections\<close>

definition missing_exist :: string where
  "missing_exist = ''doesn'' @ [CHR 0x27] @ ''t exist''"

definition disconnect :: "'e bluez_bus \<Rightarrow> string \<Rightarrow> seconds \<Rightarrow> ('e, bool) client_op" where
  "disconnect b mac timeout_s =
     then_do (device_path_for_mac b mac) (\<lambda>path.
     unless (path \<noteq> []) True
     (then_do (find_device b mac) (\<lambda>found.
      case found of None \<Rightarrow> give True | Some dev \<Rightarrow>
      then_do (open_bus b) (\<lambda>_.
      then_do (if dv_trusted dev
               then or_catch (then_do (request b (Set_property path ''Trusted'' (V_bool False))) (\<lambda>_. give True))
                      (\<lambda>e. give False)
               else give True) (\<lambda>suspended.
      unless suspended False
      (then_do (or_catch (then_do (request b (Device_disconnect path)) (\<lambda>_. give True))
        (\<lambda>e. if se_name e = ''org.bluez.Error.NotConnected'' \<or> se_name e = ''org.freedesktop.DBus.Error.UnknownObject''
             then give True
             else if se_name e = ''org.freedesktop.DBus.Error.UnknownMethod''
             then then_do (query (bb_managed_objects b)) (\<lambda>objects.
                    give (case map_of objects path of
                            None \<Rightarrow> True
                          | Some interfaces \<Rightarrow> map_of interfaces kDeviceIface = None))
             else give False)) (\<lambda>disconnected.
       then_do (if disconnected
                then poll_until b timeout_s kConnectPollInterval
                  (or_catch (then_do (read_device_properties b path) (\<lambda>properties. give (\<not> has_flag properties ''Connected'')))
                    (\<lambda>e. give (is_missing_object_error (se_message e))))
                else give False) (\<lambda>released.
       if dv_trusted dev
       then or_catch (then_do (request b (Set_property path ''Trusted'' (V_bool True))) (\<lambda>_. give released)) (\<lambda>e. give False)
       else give released))))))))"

definition device_connected_now :: "'e bluez_bus \<Rightarrow> string \<Rightarrow> string \<Rightarrow> ('e, bool) client_op" where
  "device_connected_now b mac path =
     then_do (find_device b mac) (\<lambda>refreshed.
       case refreshed of
         None \<Rightarrow> device_flag b path ''Connected''
       | Some d \<Rightarrow>
           if dv_connected d then give True
           else device_flag b (if dv_object_path d \<noteq> [] then dv_object_path d else path) ''Connected'')"

definition connect_device :: "'e bluez_bus \<Rightarrow> string \<Rightarrow> seconds \<Rightarrow> bool \<Rightarrow> ('e, bool) client_op" where
  "connect_device b mac timeout_s prefer_le =
     then_do (allowed b) (\<lambda>before.
     unless before False
     (then_do (find_device b mac) (\<lambda>found.
      case found of None \<Rightarrow> give False | Some dev \<Rightarrow>
      if dv_connected dev then give True
      else
        let path = dv_object_path dev in
        then_do (open_bus b) (\<lambda>_.
        then_do (if prefer_le \<and> is_le_address_type (dv_address_type dev)
                 then set_preferred_bearer b mac ''le'' else give False) (\<lambda>_.
        then_do (allowed b) (\<lambda>still.
        unless still False
        (then_do (or_catch (then_do (request b (Device_connect path)) (\<lambda>_. give None))
           (\<lambda>e. then_do (allowed b) (\<lambda>unchanged.
              unless unchanged (Some False)
                (if \<not> message_contains (se_message e) [''Already Connected'', ''AlreadyConnected'', ''InProgress'', ''In Progress'',
                      ''Operation already in progress'', ''No more profiles to connect to'', ''br-connection-already-connected'']
                 then then_do (device_connected_now b mac path) (\<lambda>r. give (Some r))
                 else give None)))) (\<lambda>answer.
         case answer of Some r \<Rightarrow> give r | None \<Rightarrow>
         then_do (allowed b) (\<lambda>after.
         if \<not> after then then_do (disconnect b mac timeout_s) (\<lambda>_. give False)
         else poll_until b timeout_s kConnectPollInterval (device_flag b path ''Connected''))))))))))"

text \<open>The state of the LE bearer; \<open>None\<close> when this BlueZ has no such interface.\<close>

definition le_connected :: "'e bluez_bus \<Rightarrow> string \<Rightarrow> ('e, bool option) client_op" where
  "le_connected b path =
     or_catch (then_do (read_interface_properties b path kLeBearerIface) (\<lambda>properties.
         give (Some (has_flag properties ''Connected''))))
       (\<lambda>e s. if se_name e = ''org.freedesktop.DBus.Error.UnknownInterface'' \<or>
                message_contains (se_message e) [''UnknownInterface'', ''Unknown interface'', ''No such interface'',
                  ''UnknownProperty'', missing_exist]
             then (Inr None, s) else (Inl e, s))"

definition refresh_if :: "'e bluez_bus \<Rightarrow> string \<Rightarrow> bool \<Rightarrow> ('e, bool) client_op" where
  "refresh_if b path ready =
     (if ready then then_do (observe (bb_refresh b path)) (\<lambda>_. give True) else give False)"

text \<open>\<open>Some\<close> is the result; \<open>None\<close> goes on without the interface of the bearer.\<close>

definition connect_by_bearer :: "'e bluez_bus \<Rightarrow> string \<Rightarrow> seconds \<Rightarrow> ('e, bool option) client_op" where
  "connect_by_bearer b path timeout_s =
     or_catch
       (then_do (le_connected b path) (\<lambda>connected.
        case connected of
          None \<Rightarrow> give None
        | Some True \<Rightarrow>
            then_do (poll_until b timeout_s kConnectPollInterval (device_has_resolved_characteristics b path)) (\<lambda>ready.
            then_do (refresh_if b path ready) (\<lambda>r. give (Some r)))
        | Some False \<Rightarrow>
            then_do (or_catch (then_do (request b (Bearer_connect path)) (\<lambda>_. give True))
              (\<lambda>e. give (message_contains (se_message e) [''AlreadyConnected'', ''Already connected'', ''InProgress'',
                 ''In Progress'', ''Operation already in progress'']))) (\<lambda>going.
            unless going (Some False)
            (then_do (poll_until b timeout_s kConnectPollInterval
               (then_do (le_connected b path) (\<lambda>state.
                  if state = Some True then device_has_resolved_characteristics b path else give False))) (\<lambda>ready.
             then_do (refresh_if b path ready) (\<lambda>r. give (Some r)))))))
       (\<lambda>e. give (Some False))"

definition connect_le_bearer :: "'e bluez_bus \<Rightarrow> string \<Rightarrow> seconds \<Rightarrow> ('e, bool) client_op" where
  "connect_le_bearer b mac timeout_s =
     then_do (allowed b) (\<lambda>before.
     unless before False
     (then_do (find_device b mac) (\<lambda>found.
      case found of None \<Rightarrow> give False | Some dev \<Rightarrow>
      let path = dv_object_path dev in
      unless (path \<noteq> []) False
      (then_do (open_bus b) (\<lambda>_.
       then_do (device_has_resolved_characteristics b path) (\<lambda>ready.
       if ready then refresh_if b path True
       else
         then_do (connect_by_bearer b path timeout_s) (\<lambda>answer.
         case answer of Some r \<Rightarrow> give r | None \<Rightarrow>
         then_do (allowed b) (\<lambda>still.
         unless still False
         (then_do (or_catch (then_do (request b (Adapter_connect (dv_mac dev) (dv_address_type dev))) (\<lambda>_. give True))
            (\<lambda>e. if message_contains (se_message e) [''AlreadyConnected'', ''Already connected'', ''AlreadyExists'', ''InProgress'',
                       ''In Progress'', ''Operation already in progress'']
                 then give True else device_has_resolved_characteristics b path)) (\<lambda>going.
          unless going False
          (then_do (poll_until b timeout_s kConnectPollInterval (device_has_resolved_characteristics b path))
            (refresh_if b path))))))))))))"

definition connect_profile :: "'e bluez_bus \<Rightarrow> string \<Rightarrow> string \<Rightarrow> ('e, bool) client_op" where
  "connect_profile b mac uuid =
     then_do (allowed b) (\<lambda>before.
     unless before False
     (then_do (device_path_for_mac b mac) (\<lambda>path.
      unless (path \<noteq> [] \<and> uuid \<noteq> []) False
      (or_catch (then_do (open_bus b) (\<lambda>_. then_do (request b (Connect_profile path uuid)) (\<lambda>_. give True)))
        (\<lambda>e. give (message_contains (se_message e) [''AlreadyConnected'', ''Already connected'']))))))"

definition disconnect_profile :: "'e bluez_bus \<Rightarrow> string \<Rightarrow> string \<Rightarrow> ('e, bool) client_op" where
  "disconnect_profile b mac uuid =
     then_do (device_path_for_mac b mac) (\<lambda>path.
     unless (path \<noteq> [] \<and> uuid \<noteq> []) True
     (or_catch (then_do (open_bus b) (\<lambda>_. then_do (request b (Disconnect_profile path uuid)) (\<lambda>_. give True)))
       (\<lambda>e. give (message_contains (se_message e) [''NotConnected'', ''NoSuchObject'', ''UnknownObject'']))))"

section \<open>Pairing\<close>

text \<open>The result, and \<open>*error_detail\<close> afterwards.\<close>

definition pair_device :: "'e bluez_bus \<Rightarrow> string \<Rightarrow> seconds \<Rightarrow> string \<Rightarrow> ('e, bool \<times> string) client_op" where
  "pair_device b mac timeout_s error_detail =
     then_do (allowed b) (\<lambda>before.
     unless before (False, error_detail)
     (then_do (find_device b mac) (\<lambda>found.
      case found of None \<Rightarrow> give (False, []) | Some dev \<Rightarrow>
      if dv_paired dev then give (True, [])
      else
        let path = dv_object_path dev in
        then_do (observe (bb_clock b)) (\<lambda>start.
        let deadline = start + seconds_to_ticks timeout_s in
        then_do (open_bus b) (\<lambda>_.
        then_do (or_catch (then_do (request b (Device_pair path)) (\<lambda>_. give None))
          (\<lambda>e. then_do (observe (bb_clock b)) (\<lambda>now.
             then_do (if deadline \<le> now
                      then or_catch (request b (Cancel_pairing path)) (\<lambda>e. give ())
                      else give ()) (\<lambda>_.
             give (if message_contains (se_message e) [''AlreadyExists'', ''Already Paired'', ''AlreadyPaired'', ''InProgress'',
                        ''In Progress'', ''Operation already in progress'']
                   then None else Some (se_message e)))))) (\<lambda>failure.
        case failure of Some message \<Rightarrow> give (False, message) | None \<Rightarrow>
        then_do (observe (bb_clock b)) (\<lambda>now.
        then_do (poll_until b (max 0 (ticks_to_seconds (deadline - now))) kPairPollInterval (device_flag b path ''Paired'')) (\<lambda>paired.
          give (paired, if paired then [] else ''timed out waiting for Paired=true'')))))))))"

definition remove_device :: "'e bluez_bus \<Rightarrow> string \<Rightarrow> ('e, bool) client_op" where
  "remove_device b mac =
     then_do (find_device b mac) (\<lambda>found.
      case found of None \<Rightarrow> give True | Some dev \<Rightarrow>
      then_do (or_catch (then_do (request b (Remove_device (dv_object_path dev))) (\<lambda>_. give None))
        (\<lambda>e. give (Some (message_contains (se_message e) [''NoSuchObject'', ''UnknownObject'', missing_exist])))) (\<lambda>answer.
      case answer of Some r \<Rightarrow> give r | None \<Rightarrow>
      poll_until b 8 kConnectPollInterval
        (then_do (find_device b mac) (\<lambda>current.
           give (case current of
                   None \<Rightarrow> True
                 | Some d \<Rightarrow> \<not> dv_connected d \<and> \<not> dv_services_resolved d \<and> \<not> dv_paired d \<and> \<not> dv_bonded d \<and>
                     \<not> dv_trusted d)))))"

definition wait_services_resolved :: "'e bluez_bus \<Rightarrow> string \<Rightarrow> seconds \<Rightarrow> ('e, bool) client_op" where
  "wait_services_resolved b mac timeout_s =
     then_do (find_device b mac) (\<lambda>found.
      case found of None \<Rightarrow> give False | Some dev \<Rightarrow>
      then_do (open_bus b) (\<lambda>_.
      poll_until b timeout_s kConnectPollInterval
        (or_catch (then_do (read_device_properties b (dv_object_path dev)) (\<lambda>properties.
             give (has_flag properties ''Connected'' \<and> has_flag properties ''ServicesResolved'')))
           (\<lambda>e s. if is_missing_object_error (se_message e) then (Inr False, s) else (Inl e, s)))))"

end
