(* ===== verification/Bluez_Client_Gatt.thy ===== *)
theory Bluez_Client_Gatt
  imports Bluez_Client
begin

text \<open>
  The GATT side of \<open>BluezClient\<close>: \<open>src/bluez/bluez_client_gatt.cpp\<close>, and the queries, handlers and signals of
  \<open>src/bluez/bluez_client.cpp\<close>.
\<close>

section \<open>Handlers\<close>

definition add_notification_handler :: "nat \<Rightarrow> 'e bluez_client \<Rightarrow> 'e bluez_client \<times> int" where
  "add_notification_handler cb s =
     (s\<lparr>bc_next_ntf_token := bc_next_ntf_token s + 1,
        bc_notification_cbs := ordered_put (bc_next_ntf_token s) cb (bc_notification_cbs s)\<rparr>, bc_next_ntf_token s)"

definition remove_notification_handler :: "int \<Rightarrow> 'e bluez_client \<Rightarrow> 'e bluez_client" where
  "remove_notification_handler token s = s\<lparr>bc_notification_cbs := ordered_del token (bc_notification_cbs s)\<rparr>"

definition add_gatt_event_handler :: "nat \<Rightarrow> 'e bluez_client \<Rightarrow> 'e bluez_client \<times> int" where
  "add_gatt_event_handler cb s =
     (s\<lparr>bc_next_gatt_token := bc_next_gatt_token s + 1,
        bc_gatt_event_cbs := ordered_put (bc_next_gatt_token s) cb (bc_gatt_event_cbs s)\<rparr>, bc_next_gatt_token s)"

definition remove_gatt_event_handler :: "int \<Rightarrow> 'e bluez_client \<Rightarrow> 'e bluez_client" where
  "remove_gatt_event_handler token s = s\<lparr>bc_gatt_event_cbs := ordered_del token (bc_gatt_event_cbs s)\<rparr>"

text \<open>What a handler throws is dropped.\<close>

definition emitted :: "string \<Rightarrow> string \<Rightarrow> string \<Rightarrow> 'e bluez_client \<Rightarrow> 'e bluez_client" where
  "emitted event path detail s =
     s\<lparr>bc_gatt_events := bc_gatt_events s @ map (\<lambda>(_, cb). (cb, event, path, detail)) (bc_gatt_event_cbs s)\<rparr>"

definition emit_gatt :: "string \<Rightarrow> string \<Rightarrow> string \<Rightarrow> ('e, unit) client_op" where
  "emit_gatt event path detail = modify (emitted event path detail)"

section \<open>Queries\<close>

definition with_device :: "'e bluez_bus \<Rightarrow> string \<Rightarrow> 'a \<Rightarrow> (nat object_cache \<Rightarrow> device_info \<Rightarrow> 'a) \<Rightarrow> ('e, 'a) client_op" where
  "with_device b mac missing f =
     then_do (observe (bb_cache b)) (\<lambda>c.
       give (case device_by_mac c mac of None \<Rightarrow> missing | Some dev \<Rightarrow> f c dev))"

definition list_services :: "'e bluez_bus \<Rightarrow> string \<Rightarrow> ('e, gatt_service_info list) client_op" where
  "list_services b mac = with_device b mac [] (\<lambda>c dev. services_for_device c (dv_object_path dev))"

definition characteristics_of :: "'cb object_cache \<Rightarrow> string \<Rightarrow> gatt_characteristic_info list" where
  "characteristics_of c device_path =
     concat (map (\<lambda>svc. characteristics_for_service c (gs_object_path svc)) (services_for_device c device_path))"

definition list_characteristics :: "'e bluez_bus \<Rightarrow> string \<Rightarrow> ('e, gatt_characteristic_info list) client_op" where
  "list_characteristics b mac = with_device b mac [] (\<lambda>c dev. characteristics_of c (dv_object_path dev))"

definition list_descriptors :: "'e bluez_bus \<Rightarrow> string \<Rightarrow> string \<Rightarrow> ('e, gatt_descriptor_info list) client_op" where
  "list_descriptors b mac chrc_path =
     (if chrc_path \<noteq> [] then then_do (observe (bb_cache b)) (\<lambda>c. give (descriptors_for_characteristic c chrc_path))
      else with_device b mac [] (\<lambda>c dev.
        concat (map (\<lambda>ch. descriptors_for_characteristic c (gc_object_path ch)) (characteristics_of c (dv_object_path dev)))))"

definition characteristic_path_in :: "'cb object_cache \<Rightarrow> string \<Rightarrow> string \<Rightarrow> string" where
  "characteristic_path_in c mac uuid =
     (case device_by_mac c mac of
        None \<Rightarrow> []
      | Some dev \<Rightarrow> (case find_characteristic_by_uuid c (dv_object_path dev) uuid of
                       None \<Rightarrow> [] | Some ch \<Rightarrow> gc_object_path ch))"

definition find_characteristic :: "'e bluez_bus \<Rightarrow> string \<Rightarrow> string \<Rightarrow> ('e, string) client_op" where
  "find_characteristic b mac uuid = then_do (observe (bb_cache b)) (\<lambda>c. give (characteristic_path_in c mac uuid))"

fun first_descriptor :: "'cb object_cache \<Rightarrow> string \<Rightarrow> gatt_characteristic_info list \<Rightarrow> string" where
  "first_descriptor c uuid [] = []"
| "first_descriptor c uuid (ch # chs) =
     (case find_descriptor_by_uuid c (gc_object_path ch) uuid of
        Some d \<Rightarrow> gd_object_path d
      | None \<Rightarrow> first_descriptor c uuid chs)"

definition find_descriptor :: "'e bluez_bus \<Rightarrow> string \<Rightarrow> string \<Rightarrow> string \<Rightarrow> ('e, string) client_op" where
  "find_descriptor b mac uuid chrc_path =
     (if chrc_path \<noteq> []
      then then_do (observe (bb_cache b)) (\<lambda>c.
             give (case find_descriptor_by_uuid c chrc_path uuid of None \<Rightarrow> [] | Some d \<Rightarrow> gd_object_path d))
      else with_device b mac [] (\<lambda>c dev. first_descriptor c uuid (characteristics_of c (dv_object_path dev))))"

section \<open>Reading and writing\<close>

definition read_value :: "'e bluez_bus \<Rightarrow> string \<Rightarrow> string \<Rightarrow> string \<Rightarrow> ('e, u8 list) client_op" where
  "read_value b iface event path =
     or_catch (then_do (query (bb_read_value b path iface)) (\<lambda>bytes.
         then_do (emit_gatt event path []) (\<lambda>_. give bytes)))
       (\<lambda>e. then_do (emit_gatt (event @ ''_failed'') path (se_message e)) (\<lambda>_. give []))"

definition read_characteristic :: "'e bluez_bus \<Rightarrow> string \<Rightarrow> ('e, u8 list) client_op" where
  "read_characteristic b chrc_path = read_value b kGattCharacteristicIface ''client_read'' chrc_path"

definition read_descriptor :: "'e bluez_bus \<Rightarrow> string \<Rightarrow> ('e, u8 list) client_op" where
  "read_descriptor b desc_path = read_value b kGattDescriptorIface ''client_descriptor_read'' desc_path"

definition write_value :: "'e bluez_bus \<Rightarrow> bluez_request \<Rightarrow> string \<Rightarrow> string \<Rightarrow> ('e, bool) client_op" where
  "write_value b r event path =
     or_catch (then_do (request b r) (\<lambda>_. then_do (emit_gatt event path []) (\<lambda>_. give True)))
       (\<lambda>e. then_do (emit_gatt (event @ ''_failed'') path (se_message e)) (\<lambda>_. give False))"

definition write_characteristic :: "'e bluez_bus \<Rightarrow> string \<Rightarrow> u8 list \<Rightarrow> bool \<Rightarrow> ('e, bool) client_op" where
  "write_characteristic b chrc_path bytes with_response =
     write_value b (Write_characteristic chrc_path bytes with_response) ''client_write'' chrc_path"

definition write_descriptor :: "'e bluez_bus \<Rightarrow> string \<Rightarrow> u8 list \<Rightarrow> ('e, bool) client_op" where
  "write_descriptor b desc_path bytes = write_value b (Write_descriptor desc_path bytes) ''client_descriptor_write'' desc_path"

text \<open>The asynchronous variants return when the request is on its way; the reply is handled later.\<close>

definition send_write :: "'e bluez_bus \<Rightarrow> bluez_request \<Rightarrow> string \<Rightarrow> string \<Rightarrow> ('e, bool) client_op" where
  "send_write b r event path =
     or_catch (then_do (request b r) (\<lambda>_. give True))
       (\<lambda>e. then_do (emit_gatt (event @ ''_failed'') path (se_message e)) (\<lambda>_. give False))"

definition write_characteristic_async :: "'e bluez_bus \<Rightarrow> string \<Rightarrow> u8 list \<Rightarrow> bool \<Rightarrow> ('e, bool) client_op" where
  "write_characteristic_async b chrc_path bytes with_response =
     send_write b (Write_characteristic chrc_path bytes with_response) ''client_write'' chrc_path"

definition write_descriptor_async :: "'e bluez_bus \<Rightarrow> string \<Rightarrow> u8 list \<Rightarrow> ('e, bool) client_op" where
  "write_descriptor_async b desc_path bytes = send_write b (Write_descriptor desc_path bytes) ''client_descriptor_write'' desc_path"

definition write_replied :: "string \<Rightarrow> string \<Rightarrow> sdbus_error option \<Rightarrow> 'e bluez_client \<Rightarrow> 'e bluez_client" where
  "write_replied event path reply s =
     (case reply of
        Some e \<Rightarrow> emitted (event @ ''_failed'') path (se_message e) s
      | None \<Rightarrow> emitted event path [] s)"

section \<open>Notifications\<close>

definition is_notify_active :: "string \<Rightarrow> 'e bluez_client \<Rightarrow> bool" where
  "is_notify_active chrc_path s \<longleftrightarrow> chrc_path \<in> bc_notify_paths s"

definition ensure_notify_match :: "string \<Rightarrow> 'e bluez_client \<Rightarrow> 'e bluez_client" where
  "ensure_notify_match chrc_path s = s\<lparr>bc_notify_paths := insert chrc_path (bc_notify_paths s)\<rparr>"

definition remove_notify_match :: "string \<Rightarrow> 'e bluez_client \<Rightarrow> 'e bluez_client" where
  "remove_notify_match chrc_path s = s\<lparr>bc_notify_paths := bc_notify_paths s - {chrc_path}\<rparr>"

definition already_notifying :: "string \<Rightarrow> bool" where
  "already_notifying message \<longleftrightarrow> message_contains message
     [''InProgress'', ''In Progress'', ''Operation already in progress'', ''Already notifying'', ''AlreadyNotifying'']"

definition start_notify :: "'e bluez_bus \<Rightarrow> string \<Rightarrow> ('e, bool) client_op" where
  "start_notify b chrc_path =
     then_do (or_catch (then_do (request b (Start_notify chrc_path)) (\<lambda>_. give None))
       (\<lambda>e. give (if already_notifying (se_message e) then None else Some (se_message e)))) (\<lambda>failure.
     case failure of
       Some message \<Rightarrow> then_do (emit_gatt ''client_notify_failed'' chrc_path message) (\<lambda>_. give False)
     | None \<Rightarrow>
         then_do (modify (ensure_notify_match chrc_path)) (\<lambda>_.
         then_do (emit_gatt ''client_notify_enabled'' chrc_path []) (\<lambda>_. give True)))"

definition stop_notify :: "'e bluez_bus \<Rightarrow> string \<Rightarrow> ('e, bool) client_op" where
  "stop_notify b chrc_path s =
     (if \<not> is_notify_active chrc_path s then (Inr True, s)
      else
        then_do (or_catch (then_do (request b (Stop_notify chrc_path)) (\<lambda>_. give (True, [])))
          (\<lambda>e. give (message_contains (se_message e)
             [missing_exist, ''UnknownObject'', ''NoSuchObject'', ''Not notifying'', ''NotNotifying''], se_message e)))
        (\<lambda>(stopped, detail).
         then_do (modify (remove_notify_match chrc_path)) (\<lambda>_.
         then_do (emit_gatt (if stopped then ''client_notify_disabled'' else ''client_notify_failed'') chrc_path detail) (\<lambda>_.
           give stopped))) s)"

section \<open>Refreshing\<close>

definition refresh_device_gatt_cache :: "'e bluez_bus \<Rightarrow> string \<Rightarrow> ('e, bool) client_op" where
  "refresh_device_gatt_cache b device_path =
     unless (device_path \<noteq> []) False
       (then_do (observe (bb_clock b)) (\<lambda>now s.
          let waiting = (case bc_gatt_refresh_backoff_until s device_path of None \<Rightarrow> False | Some until \<Rightarrow> now < until) in
          if waiting then (Inr False, s)
          else
            then_do (modify (\<lambda>s. s\<lparr>bc_gatt_refresh_backoff_until :=
              (bc_gatt_refresh_backoff_until s)(device_path \<mapsto> now + kGattRefreshRetryBackoff)\<rparr>)) (\<lambda>_.
            then_do (observe (bb_refresh b device_path)) (\<lambda>refreshed.
            if refreshed
            then then_do (modify (\<lambda>s. s\<lparr>bc_gatt_refresh_backoff_until :=
                   (bc_gatt_refresh_backoff_until s)(device_path := None)\<rparr>)) (\<lambda>_. give True)
            else give False)) s))"

definition refresh_gatt_snapshot :: "'e bluez_bus \<Rightarrow> string \<Rightarrow> ('e, bool) client_op" where
  "refresh_gatt_snapshot b mac =
     then_do (find_device b mac) (\<lambda>found.
       case found of
         None \<Rightarrow> give False
       | Some dev \<Rightarrow>
           unless (dv_connected dev \<and> dv_services_resolved dev) False (refresh_device_gatt_cache b (dv_object_path dev)))"

section \<open>Signals\<close>

text \<open>\<open>c\<close> is the object cache when the observer runs.\<close>

definition forget_backoff :: "string \<Rightarrow> 'e bluez_client \<Rightarrow> 'e bluez_client" where
  "forget_backoff object_path s =
     (let device_path = device_root_path object_path in
      if device_path = [] then s
      else s\<lparr>bc_gatt_refresh_backoff_until := (bc_gatt_refresh_backoff_until s)(device_path := None)\<rparr>)"

definition deliver_value :: "'cb object_cache \<Rightarrow> string \<Rightarrow> 'e bluez_client \<Rightarrow> 'e bluez_client" where
  "deliver_value c object_path s =
     (case cached_characteristic c object_path of
        None \<Rightarrow> s
      | Some ch \<Rightarrow> s\<lparr>bc_notifications := bc_notifications s @
          map (\<lambda>(_, cb). (cb, gc_value ch, gc_uuid ch, object_path)) (bc_notification_cbs s)\<rparr>)"

definition on_cache_event :: "'cb object_cache \<Rightarrow> cache_event \<Rightarrow> string \<Rightarrow> 'e bluez_client \<Rightarrow> 'e bluez_client" where
  "on_cache_event c event object_path s =
     (let s = forget_backoff object_path s;
          s = (if event = Adapter_changed \<and> object_path = bc_adapter_path s \<and>
                 (case cached_adapter c (bc_adapter_path s) of None \<Rightarrow> True | Some adapter \<Rightarrow> \<not> ad_powered adapter)
               then s\<lparr>bc_scan_running := False\<rparr> else s)
      in case event of
           Gatt_characteristic_removed \<Rightarrow> remove_notify_match object_path s
         | Gatt_characteristic_changed \<Rightarrow>
             (case cached_characteristic c object_path of
                Some ch \<Rightarrow> if gc_notifying ch then s else remove_notify_match object_path s
              | None \<Rightarrow> remove_notify_match object_path s)
         | Device_removed \<Rightarrow>
             s\<lparr>bc_notify_paths := {p \<in> bc_notify_paths s. \<not> under_path object_path p}\<rparr>
         | Device_property_changed \<Rightarrow>
             (case cached_device c object_path of
                Some d \<Rightarrow> if dv_connected d then s
                  else s\<lparr>bc_notify_paths := {p \<in> bc_notify_paths s. \<not> under_path object_path p}\<rparr>
              | None \<Rightarrow> s)
         | Gatt_characteristic_value_changed \<Rightarrow> deliver_value c object_path s
         | _ \<Rightarrow> s)"

definition on_daemon_owner_changed :: "string \<Rightarrow> string \<Rightarrow> 'e bluez_client \<Rightarrow> 'e bluez_client" where
  "on_daemon_owner_changed previous_owner owner s =
     (let s = s\<lparr>bc_scan_running := False, bc_notify_paths := {}, bc_gatt_refresh_backoff_until := Map.empty,
                bc_sent := bc_sent s @ [(Owner_changed, True)]\<rparr>
      in if owner \<noteq> [] \<and> owner \<noteq> previous_owner then emitted ''bluez_daemon_restarted'' ''/'' owner s else s)"

definition on_device_disconnected :: "string \<Rightarrow> string \<Rightarrow> 'e bluez_client \<Rightarrow> 'e bluez_client" where
  "on_device_disconnected path reason s = emitted ''device_disconnected'' path reason s"

end
