(* ===== verification/Bluez_Client_Correct.thy ===== *)
theory Bluez_Client_Correct
  imports Bluez_Client_Gatt
begin

text \<open>
  The BlueZ client: what it believes to own is what the daemon granted, a disconnection gives the trust of the
  device back, and polling ends.
\<close>

section \<open>Properties of operations\<close>

definition preserves :: "('e bluez_client \<Rightarrow> bool) \<Rightarrow> ('e, 'a) client_op \<Rightarrow> bool" where
  "preserves I m \<longleftrightarrow> (\<forall>s. I s \<longrightarrow> I (snd (m s)))"

lemma preservesI: "(\<And>s. I s \<Longrightarrow> I (snd (m s))) \<Longrightarrow> preserves I m"
  by (simp add: preserves_def)

lemma preservesD: "preserves I m \<Longrightarrow> I s \<Longrightarrow> m s = (r, t) \<Longrightarrow> I t"
  unfolding preserves_def by (metis snd_conv)

lemma preserves_run: "preserves I m \<Longrightarrow> I s \<Longrightarrow> I (snd (m s))"
  by (simp add: preserves_def)

lemma preserves_give: "preserves I (give v)"
  by (simp add: preserves_def give_def)

lemma preserves_then:
  assumes "preserves I m" "\<And>v. preserves I (f v)"
  shows "preserves I (then_do m f)"
proof (rule preservesI)
  fix s assume s: "I s"
  obtain r t where t: "m s = (r, t)" by (cases "m s")
  then have "I t" using preservesD [OF assms(1) s] by simp
  then show "I (snd (then_do m f s))"
    using assms(2) by (cases r) (auto simp: then_do_def t preserves_def)
qed

lemma preserves_catch:
  assumes "preserves I m" "\<And>e. preserves I (h e)"
  shows "preserves I (or_catch m h)"
proof (rule preservesI)
  fix s assume s: "I s"
  obtain r t where t: "m s = (r, t)" by (cases "m s")
  then have "I t" using preservesD [OF assms(1) s] by simp
  then show "I (snd (or_catch m h s))"
    using assms(2) by (cases r) (auto simp: or_catch_def t preserves_def)
qed

lemma preserves_unless: "preserves I m \<Longrightarrow> preserves I (unless c v m)"
  by (simp add: unless_def preserves_give)

lemma preserves_if: "preserves I m \<Longrightarrow> preserves I n \<Longrightarrow> preserves I (if c then m else n)"
  by simp

lemma preserves_raise: "preserves I (\<lambda>s. if c then (Inr v, s) else (Inl e, s))"
  by (simp add: preserves_def)

lemma preserves_branch: "preserves I m \<Longrightarrow> preserves I (\<lambda>s. if c s then (Inr v, s) else m s)"
  by (simp add: preserves_def)

lemma preserves_modify: "(\<And>s. I s \<Longrightarrow> I (f s)) \<Longrightarrow> preserves I (modify f)"
  by (simp add: preserves_def modify_def)

lemma preserves_poll:
  assumes "preserves I p" "\<And>f. preserves I (observe f :: ('e, ticks) client_op)" "\<And>f. preserves I (observe f :: ('e, unit) client_op)"
  shows "preserves I (poll_until (b :: 'e bluez_bus) timeout interval p)"
proof -
  have "preserves I (poll_from b n deadline interval p)" for n deadline
    by (induction n) (auto simp: assms preserves_give intro!: preserves_then preserves_if)
  then show ?thesis unfolding poll_until_def by (intro preserves_then assms)
qed

text \<open>Invariants that do not look at the environment.\<close>

definition env_free :: "('e bluez_client \<Rightarrow> bool) \<Rightarrow> bool" where
  "env_free I \<longleftrightarrow> (\<forall>s env. I (s\<lparr>bc_env := env\<rparr>) = I s)"

lemma env_free_simps:
  assumes "env_free I"
  shows "preserves I (observe f)" "preserves I (query g)" "preserves I (open_bus b)"
  using assms by (auto simp: env_free_def preserves_def observe_def query_def open_bus_def split: prod.split option.split)

text \<open>Invariants that only look at the requests and at what they are compared with.\<close>

definition harmless :: "('e bluez_client \<Rightarrow> bool) \<Rightarrow> bluez_request \<Rightarrow> bool" where
  "harmless I r \<longleftrightarrow> (\<forall>s ok. I s \<longrightarrow> I (s\<lparr>bc_sent := bc_sent s @ [(r, ok)]\<rparr>))"

lemma preserves_request:
  assumes "env_free I" "harmless I r"
  shows "preserves I (request b r)"
proof (rule preservesI)
  fix s assume s: "I s"
  have "I (s\<lparr>bc_sent := bc_sent s @ [(r, ok)]\<rparr>\<lparr>bc_env := env\<rparr>)" for env ok
    using assms s unfolding env_free_def harmless_def by blast
  moreover have "s\<lparr>bc_sent := x\<rparr>\<lparr>bc_env := env\<rparr> = s\<lparr>bc_env := env, bc_sent := x\<rparr>" for x env by simp
  ultimately show "I (snd (request b r s))" by (simp add: request_def split: prod.split option.split)
qed

lemmas preserves_rules = preserves_give preserves_then preserves_catch preserves_unless preserves_if preserves_raise

section \<open>Ownership\<close>

text \<open>The discovery session of the client as the daemon knows it, and whether the client asked for the notifications of a
  characteristic since it last asked for their end.\<close>

definition session_step :: "bluez_request \<times> bool \<Rightarrow> bool \<Rightarrow> bool" where
  "session_step entry session =
     (case entry of
        (Start_discovery, ok) \<Rightarrow> ok \<or> session
      | (Stop_discovery, ok) \<Rightarrow> session \<and> \<not> ok
      | (Close_discovery, ok) \<Rightarrow> False
      | (Owner_changed, ok) \<Rightarrow> False
      | _ \<Rightarrow> session)"

definition discovery_session :: "(bluez_request \<times> bool) list \<Rightarrow> bool" where
  "discovery_session sent = fold session_step sent False"

definition notify_step :: "string \<Rightarrow> bluez_request \<times> bool \<Rightarrow> bool \<Rightarrow> bool" where
  "notify_step p entry wanted =
     (case entry of
        (Start_notify q, ok) \<Rightarrow> q = p \<or> wanted
      | (Stop_notify q, ok) \<Rightarrow> wanted \<and> q \<noteq> p
      | (Owner_changed, ok) \<Rightarrow> False
      | _ \<Rightarrow> wanted)"

definition notify_wanted :: "string \<Rightarrow> (bluez_request \<times> bool) list \<Rightarrow> bool" where
  "notify_wanted p sent = fold (notify_step p) sent False"

lemma session_snoc [simp]: "discovery_session (sent @ rest) = fold session_step rest (discovery_session sent)"
  by (simp add: discovery_session_def)

lemma wanted_snoc [simp]: "notify_wanted p (sent @ rest) = fold (notify_step p) rest (notify_wanted p sent)"
  by (simp add: notify_wanted_def)

definition client_inv :: "'e bluez_client \<Rightarrow> bool" where
  "client_inv s \<longleftrightarrow>
     (bc_scan_running s \<longrightarrow> bc_discovery_connection s \<and> discovery_session (bc_sent s)) \<and>
     (\<forall>p \<in> bc_notify_paths s. notify_wanted p (bc_sent s))"

lemma inv_env: "env_free client_inv"
  by (simp add: env_free_def client_inv_def)

definition plain_request :: "bluez_request \<Rightarrow> bool" where
  "plain_request r \<longleftrightarrow> (case r of Start_discovery \<Rightarrow> True | Stop_discovery \<Rightarrow> False | Close_discovery \<Rightarrow> False |
     Owner_changed \<Rightarrow> False | Stop_notify p \<Rightarrow> False | _ \<Rightarrow> True)"

lemma inv_request: "plain_request r \<Longrightarrow> preserves client_inv (request b r)"
  by (rule preserves_request [OF inv_env])
    (cases r; auto simp: harmless_def client_inv_def plain_request_def session_step_def notify_step_def)

lemmas inv_plain = env_free_simps [OF inv_env] inv_request preserves_poll preserves_rules

lemma emitted_inv [simp]: "client_inv (emitted event path detail s) = client_inv s"
  by (simp add: client_inv_def emitted_def)

lemma inv_emit: "preserves client_inv (emit_gatt event path detail)"
  by (simp add: emit_gatt_def preserves_modify)

lemma inv_find: "preserves client_inv (find_device b mac)"
  unfolding find_device_def by (intro inv_plain)

lemma inv_set_flag: "preserves client_inv (set_flag b mac prop v)"
  unfolding set_flag_def device_path_for_mac_def set_device_property_def
  by (intro inv_plain inv_find) (simp add: plain_request_def)

lemma inv_flags:
  "preserves client_inv (trust b mac)" "preserves client_inv (untrust b mac)" "preserves client_inv (block b mac)"
  "preserves client_inv (unblock b mac)" "preserves client_inv (set_preferred_bearer b mac bearer)"
  by (simp_all add: trust_def untrust_def block_def unblock_def set_preferred_bearer_def inv_set_flag)

lemma inv_device_flag: "preserves client_inv (device_flag b path key)"
  unfolding device_flag_def read_device_properties_def by (intro inv_plain)

lemma inv_disconnect: "preserves client_inv (disconnect b mac timeout)"
  unfolding disconnect_def device_path_for_mac_def read_device_properties_def
  by (auto intro!: inv_plain inv_find simp: plain_request_def split: option.split)

lemma inv_connect: "preserves client_inv (connect_device b mac timeout prefer_le)"
  unfolding connect_device_def allowed_def device_connected_now_def Let_def
  by (auto intro!: inv_plain inv_find inv_flags inv_disconnect inv_device_flag simp: plain_request_def split: option.split)

lemma inv_resolved: "preserves client_inv (device_has_resolved_characteristics b path)"
  unfolding device_has_resolved_characteristics_def read_device_properties_def by (intro inv_plain)

lemma inv_le: "preserves client_inv (le_connected b path)"
  unfolding le_connected_def read_interface_properties_def by (intro inv_plain)

lemma inv_refresh_if: "preserves client_inv (refresh_if b path ready)"
  unfolding refresh_if_def by (intro inv_plain)

lemma inv_connect_le: "preserves client_inv (connect_le_bearer b mac timeout)"
  unfolding connect_le_bearer_def connect_by_bearer_def allowed_def Let_def
  by (auto intro!: inv_plain inv_find inv_resolved inv_le inv_refresh_if simp: plain_request_def split: option.split bool.split)

lemma inv_profiles:
  "preserves client_inv (connect_profile b mac uuid)" "preserves client_inv (disconnect_profile b mac uuid)"
  unfolding connect_profile_def disconnect_profile_def allowed_def device_path_for_mac_def
  by (auto intro!: inv_plain inv_find simp: plain_request_def)

lemma inv_pair: "preserves client_inv (pair_device b mac timeout detail)"
  unfolding pair_device_def allowed_def Let_def
  by (auto intro!: inv_plain inv_find inv_device_flag simp: plain_request_def split: option.split)

lemma inv_remove: "preserves client_inv (remove_device b mac)"
  unfolding remove_device_def
  by (auto intro!: inv_plain inv_find simp: plain_request_def split: option.split)

lemma inv_wait: "preserves client_inv (wait_services_resolved b mac timeout)"
  unfolding wait_services_resolved_def read_device_properties_def
  by (auto intro!: inv_plain inv_find split: option.split)

lemma inv_values: "preserves client_inv (read_value b iface event path)"
  "plain_request r \<Longrightarrow> preserves client_inv (write_value b r event path)"
  "plain_request r \<Longrightarrow> preserves client_inv (send_write b r event path)"
  unfolding read_value_def write_value_def send_write_def by (auto intro!: inv_plain inv_emit)

lemma inv_refresh: "preserves client_inv (refresh_gatt_snapshot b mac)"
proof -
  have "preserves client_inv (refresh_device_gatt_cache b path)" for path
    unfolding refresh_device_gatt_cache_def Let_def
    by (intro inv_plain preserves_branch preserves_modify) (simp_all add: client_inv_def)
  then show ?thesis unfolding refresh_gatt_snapshot_def by (auto intro!: inv_plain inv_find split: option.split)
qed

section \<open>Discovery and notifications\<close>

lemma inv_close: "preserves client_inv close_discovery"
  unfolding close_discovery_def by (rule preserves_modify) (auto simp: client_inv_def session_step_def notify_step_def)

lemma inv_ensure: "preserves client_inv (ensure_discovery_connection b)"
proof -
  have "preserves client_inv (then_do (open_bus b) (\<lambda>_. modify (\<lambda>s. s\<lparr>bc_discovery_connection := True\<rparr>)))"
    by (intro inv_plain preserves_modify) (simp add: client_inv_def)
  then show ?thesis by (simp add: ensure_discovery_connection_def preserves_def)
qed

text \<open>A request runs with the connection that owns the session.\<close>

definition connected_inv :: "'e bluez_client \<Rightarrow> bool" where
  "connected_inv s \<longleftrightarrow> client_inv s \<and> bc_discovery_connection s"

lemma connected_request: "plain_request r \<Longrightarrow> preserves connected_inv (request b r)"
  by (rule preserves_request)
    (cases r; auto simp: harmless_def env_free_def connected_inv_def client_inv_def plain_request_def session_step_def notify_step_def)+

lemma request_fields:
  assumes "request b r s = (x, t)"
  shows "bc_scan_running t = bc_scan_running s" "bc_discovery_connection t = bc_discovery_connection s"
    "bc_last_scan_transport t = bc_last_scan_transport s" "bc_last_scan_discoverable t = bc_last_scan_discoverable s"
    "bc_notify_paths t = bc_notify_paths s" "\<exists>ok. bc_sent t = bc_sent s @ [(r, ok)] \<and> (ok \<longleftrightarrow> x = Inr ())"
  using assms by (auto simp: request_def split: prod.splits option.splits)

lemma ensured:
  assumes "client_inv s" "ensure_discovery_connection b s = (r, t)"
  shows "client_inv t" "r = Inr () \<Longrightarrow> connected_inv t"
    "bc_scan_running t = bc_scan_running s" "bc_last_scan_transport t = bc_last_scan_transport s"
    "bc_last_scan_discoverable t = bc_last_scan_discoverable s"
  using assms preservesD [OF inv_ensure assms]
  by (auto simp: ensure_discovery_connection_def connected_inv_def then_do_def open_bus_def modify_def
      split: if_splits prod.splits sum.splits option.splits)

lemma start_scan_steps:
  assumes "(r, t) = start_scan b transport discoverable s" "ensure_discovery_connection b s = (Inr n, u)"
    "\<not> (bc_scan_running u \<and> \<not> (transport \<noteq> bc_last_scan_transport u \<or> discoverable \<noteq> bc_last_scan_discoverable u))"
    "request b (Set_discovery_filter transport discoverable) u = (y, v)"
    "request b Start_discovery (v\<lparr>bc_last_scan_transport := transport, bc_last_scan_discoverable := discoverable\<rparr>) = (z, q)"
  shows "(r, t) = (if bc_scan_running u
      then (case y of Inr un \<Rightarrow> (Inr True, v\<lparr>bc_last_scan_transport := transport, bc_last_scan_discoverable := discoverable\<rparr>)
             | Inl err \<Rightarrow> (Inr False, v))
      else (case y of
          Inl err \<Rightarrow> (Inr False, snd (close_discovery v))
        | Inr un \<Rightarrow> (case z of Inl err \<Rightarrow> (Inr False, snd (close_discovery q))
                    | Inr un \<Rightarrow> (Inr True, q\<lparr>bc_scan_running := True\<rparr>))))"
proof -
  have plain: "(if c then m else n) x = (if c then m x else n x)" for c and m n :: "'a bluez_client \<Rightarrow> 'b" and x by simp
  show ?thesis
    unfolding assms(1) start_scan_def then_do_def [of "ensure_discovery_connection b"] assms(2) prod.case sum.case Let_def
      if_not_P [OF assms(3)]
    by (cases "bc_scan_running u"; cases y; cases z)
      (simp_all only: plain if_True if_False or_catch_def then_do_def assms(4,5) prod.case sum.case modify_def give_def
        close_discovery_def snd_conv)
qed

lemma start_scan_sound:
  assumes inv: "client_inv s" and run: "start_scan b transport discoverable s = (r, t)"
  shows "client_inv t \<and> (r = Inr True \<longrightarrow> bc_scan_running t \<and> bc_last_scan_transport t = transport \<and>
    bc_last_scan_discoverable t = discoverable)"
proof -
  obtain x u where u: "ensure_discovery_connection b s = (x, u)" by (cases "ensure_discovery_connection b s")
  note e = ensured [OF inv u]
  show ?thesis
  proof (cases x)
    case (Inl err)
    then show ?thesis using run u e(1) by (auto simp: start_scan_def then_do_def)
  next
    case (Inr un)
    then have cu: "connected_inv u" using e(2) by simp
    show ?thesis
    proof (cases "bc_scan_running u \<and> \<not> (transport \<noteq> bc_last_scan_transport u \<or> discoverable \<noteq> bc_last_scan_discoverable u)")
      case True
      then show ?thesis using run u Inr e(1) by (simp add: start_scan_def then_do_def Let_def)
    next
      case False
      obtain y v where v: "request b (Set_discovery_filter transport discoverable) u = (y, v)"
        by (cases "request b (Set_discovery_filter transport discoverable) u")
      have cv: "connected_inv v" using preservesD [OF connected_request cu v] by (simp add: plain_request_def)
      define w where "w = v\<lparr>bc_last_scan_transport := transport, bc_last_scan_discoverable := discoverable\<rparr>"
      have cw: "connected_inv w" "bc_scan_running w = bc_scan_running u"
        using cv request_fields(1) [OF v] by (simp_all add: w_def connected_inv_def client_inv_def)
      obtain z q where q: "request b Start_discovery w = (z, q)" by (cases "request b Start_discovery w")
      have cq: "connected_inv q" using preservesD [OF connected_request cw(1) q] by (simp add: plain_request_def)
      obtain ok where sent: "bc_sent q = bc_sent w @ [(Start_discovery, ok)]" "ok \<longleftrightarrow> z = Inr ()"
        using request_fields(6) [OF q] by blast
      note fields = request_fields(3,4) [OF q]
      have closed: "client_inv (snd (close_discovery a))" if "client_inv a" for a
        using that by (rule preserves_run [OF inv_close])
      have step: "(r, t) = (if bc_scan_running u then (case y of Inr un \<Rightarrow> (Inr True, w) | Inl err \<Rightarrow> (Inr False, v))
          else (case y of
             Inl err \<Rightarrow> (Inr False, snd (close_discovery v))
           | Inr un \<Rightarrow> (case z of Inl err \<Rightarrow> (Inr False, snd (close_discovery q))
                       | Inr un \<Rightarrow> (Inr True, q\<lparr>bc_scan_running := True\<rparr>))))"
        by (rule start_scan_steps [OF run [symmetric] u [unfolded Inr] False v q [unfolded w_def], folded w_def])
      have "client_inv (q\<lparr>bc_scan_running := True\<rparr>)" if "z = Inr ()"
        using cq sent that by (auto simp: connected_inv_def client_inv_def session_step_def)
      then show ?thesis
        using step cv cw cq closed fields
        by (auto simp: connected_inv_def w_def split: sum.splits if_splits)
    qed
  qed
qed

lemma stop_scan_sound:
  assumes "client_inv s" "stop_scan b s = (r, t)"
  shows "client_inv t \<and> r = Inr True \<and> \<not> bc_scan_running t"
proof (cases "bc_discovery_connection s \<and> bc_scan_running s")
  case False
  then show ?thesis using assms by (auto simp: stop_scan_def client_inv_def)
next
  case True
  obtain x u where u: "request b Stop_discovery s = (x, u)" by (cases "request b Stop_discovery s")
  have "client_inv (u\<lparr>bc_scan_running := False\<rparr>)" "client_inv (snd (close_discovery u))" "\<not> bc_scan_running (snd (close_discovery u))"
    using assms(1) request_fields(5,6) [OF u]
    by (auto simp: client_inv_def close_discovery_def modify_def notify_step_def)
  moreover have "(r, t) = (case x of Inr un \<Rightarrow> (Inr True, u\<lparr>bc_scan_running := False\<rparr>)
      | Inl e \<Rightarrow> if mentions (se_message e) ''NotAuthorized'' \<or> mentions (se_message e) ''No discovery started''
               then (Inr True, u\<lparr>bc_scan_running := False\<rparr>) else (Inr True, snd (close_discovery u)))"
    using assms(2) True
    by (cases x) (auto simp: stop_scan_def then_do_def or_catch_def u modify_def give_def close_discovery_def split: if_splits)
  ultimately show ?thesis by (auto split: sum.splits if_splits)
qed

lemma inv_scanning: "preserves client_inv (is_scanning b)"
  by (rule preservesI)
    (auto simp: is_scanning_def or_catch_def query_def give_def client_inv_def split: prod.split sum.split)

lemma inv_scan: "preserves client_inv (start_scan b transport discoverable)" "preserves client_inv (stop_scan b)"
  using start_scan_sound stop_scan_sound by (metis preserves_def prod.collapse)+

lemma inv_notify:
  "client_inv s \<Longrightarrow> (\<And>p. p \<in> bc_notify_paths t \<Longrightarrow> p \<in> bc_notify_paths s) \<Longrightarrow>
   (bc_scan_running t \<Longrightarrow> bc_scan_running s) \<Longrightarrow> bc_discovery_connection t = bc_discovery_connection s \<Longrightarrow>
   bc_sent t = bc_sent s \<Longrightarrow> client_inv t"
  by (auto simp: client_inv_def)

lemma inv_start_notify: "preserves client_inv (start_notify b path)"
proof (rule preservesI)
  fix s :: "'a bluez_client" assume s: "client_inv s"
  obtain x u where u: "request b (Start_notify path) s = (x, u)" by (cases "request b (Start_notify path) s")
  have "client_inv u" using preservesD [OF inv_request s u] by (simp add: plain_request_def)
  moreover have "client_inv (ensure_notify_match path u)"
    using s request_fields [OF u] by (auto simp: client_inv_def ensure_notify_match_def session_step_def notify_step_def)
  ultimately show "client_inv (snd (start_notify b path s))"
    by (simp add: start_notify_def then_do_def or_catch_def u give_def modify_def emit_gatt_def split: sum.split option.split)
qed

lemma inv_stop_notify: "preserves client_inv (stop_notify b path)"
proof (rule preservesI)
  fix s :: "'a bluez_client" assume s: "client_inv s"
  obtain x u where u: "request b (Stop_notify path) s = (x, u)" by (cases "request b (Stop_notify path) s")
  have "client_inv (remove_notify_match path u)"
    using s request_fields [OF u] by (auto simp: client_inv_def remove_notify_match_def session_step_def notify_step_def)
  then show "client_inv (snd (stop_notify b path s))"
    using s by (auto simp: stop_notify_def then_do_def or_catch_def u give_def modify_def emit_gatt_def split: sum.split prod.split)
qed

lemma inv_signals:
  assumes "client_inv s"
  shows "client_inv (on_cache_event c event path s)" "client_inv (on_daemon_owner_changed previous owner s)"
    "client_inv (on_device_disconnected path reason s)" "client_inv (write_replied ev path reply s)"
proof -
  show "client_inv (on_cache_event c event path s)"
    by (rule inv_notify [OF assms])
      (auto simp: on_cache_event_def forget_backoff_def remove_notify_match_def deliver_value_def Let_def
        split: cache_event.splits option.splits if_splits)
qed (use assms in \<open>auto simp: on_daemon_owner_changed_def on_device_disconnected_def write_replied_def client_inv_def Let_def
    emitted_def split: option.split\<close>)

section \<open>Runs\<close>

datatype client_event =
    Ev_start_scan string bool
  | Ev_stop_scan
  | Ev_is_scanning
  | Ev_connect string seconds bool
  | Ev_connect_le string seconds
  | Ev_disconnect string seconds
  | Ev_connect_profile string string
  | Ev_disconnect_profile string string
  | Ev_pair string seconds string
  | Ev_trust string
  | Ev_untrust string
  | Ev_block string
  | Ev_unblock string
  | Ev_bearer string string
  | Ev_remove string
  | Ev_wait_services string seconds
  | Ev_refresh string
  | Ev_read string
  | Ev_read_descriptor string
  | Ev_write string "u8 list" bool
  | Ev_write_descriptor string "u8 list"
  | Ev_write_async string "u8 list" bool
  | Ev_write_descriptor_async string "u8 list"
  | Ev_start_notify string
  | Ev_stop_notify string
  | Ev_write_replied string string "sdbus_error option"
  | Ev_cache "nat object_cache" cache_event string
  | Ev_owner string string
  | Ev_disconnected string string

fun client_step :: "'e bluez_bus \<Rightarrow> client_event \<Rightarrow> 'e bluez_client \<Rightarrow> 'e bluez_client" where
  "client_step b (Ev_start_scan transport discoverable) s = snd (start_scan b transport discoverable s)"
| "client_step b Ev_stop_scan s = snd (stop_scan b s)"
| "client_step b Ev_is_scanning s = snd (is_scanning b s)"
| "client_step b (Ev_connect mac timeout prefer_le) s = snd (connect_device b mac timeout prefer_le s)"
| "client_step b (Ev_connect_le mac timeout) s = snd (connect_le_bearer b mac timeout s)"
| "client_step b (Ev_disconnect mac timeout) s = snd (disconnect b mac timeout s)"
| "client_step b (Ev_connect_profile mac uuid) s = snd (connect_profile b mac uuid s)"
| "client_step b (Ev_disconnect_profile mac uuid) s = snd (disconnect_profile b mac uuid s)"
| "client_step b (Ev_pair mac timeout detail) s = snd (pair_device b mac timeout detail s)"
| "client_step b (Ev_trust mac) s = snd (trust b mac s)"
| "client_step b (Ev_untrust mac) s = snd (untrust b mac s)"
| "client_step b (Ev_block mac) s = snd (block b mac s)"
| "client_step b (Ev_unblock mac) s = snd (unblock b mac s)"
| "client_step b (Ev_bearer mac bearer) s = snd (set_preferred_bearer b mac bearer s)"
| "client_step b (Ev_remove mac) s = snd (remove_device b mac s)"
| "client_step b (Ev_wait_services mac timeout) s = snd (wait_services_resolved b mac timeout s)"
| "client_step b (Ev_refresh mac) s = snd (refresh_gatt_snapshot b mac s)"
| "client_step b (Ev_read path) s = snd (read_characteristic b path s)"
| "client_step b (Ev_read_descriptor path) s = snd (read_descriptor b path s)"
| "client_step b (Ev_write path bytes with_response) s = snd (write_characteristic b path bytes with_response s)"
| "client_step b (Ev_write_descriptor path bytes) s = snd (write_descriptor b path bytes s)"
| "client_step b (Ev_write_async path bytes with_response) s = snd (write_characteristic_async b path bytes with_response s)"
| "client_step b (Ev_write_descriptor_async path bytes) s = snd (write_descriptor_async b path bytes s)"
| "client_step b (Ev_start_notify path) s = snd (start_notify b path s)"
| "client_step b (Ev_stop_notify path) s = snd (stop_notify b path s)"
| "client_step b (Ev_write_replied event path reply) s = write_replied event path reply s"
| "client_step b (Ev_cache c event path) s = on_cache_event c event path s"
| "client_step b (Ev_owner previous owner) s = on_daemon_owner_changed previous owner s"
| "client_step b (Ev_disconnected path reason) s = on_device_disconnected path reason s"

lemma inv_write: "preserves client_inv (write_characteristic b path bytes with_response)"
  "preserves client_inv (write_descriptor b path bytes)" "preserves client_inv (read_characteristic b path)"
  "preserves client_inv (read_descriptor b path)" "preserves client_inv (write_characteristic_async b path bytes with_response)"
  "preserves client_inv (write_descriptor_async b path bytes)"
  by (simp_all add: write_characteristic_def write_descriptor_def read_characteristic_def read_descriptor_def
      write_characteristic_async_def write_descriptor_async_def inv_values plain_request_def)

lemmas inv_operations = inv_scan inv_scanning inv_connect inv_connect_le inv_disconnect inv_profiles inv_pair inv_flags
  inv_remove inv_wait inv_refresh inv_write inv_start_notify inv_stop_notify

lemma inv_client_step: "client_inv s \<Longrightarrow> client_inv (client_step b e s)"
  by (cases e) (simp_all add: inv_signals inv_operations [THEN preserves_run])

interpretation clients: invariant_machine "new_bluez_client path env" "client_step b" "\<lambda>e. True" client_inv for path env b
  by unfold_locales (simp_all add: inv_client_step, simp add: client_inv_def new_bluez_client_def)



text \<open>A daemon that accepts everything, and knows one trusted device; the environment is the time.\<close>

definition obliging_bus :: "int bluez_bus" where
  "obliging_bus = \<lparr>
     bb_open = (\<lambda>env. (None, env)), bb_request = (\<lambda>r env. (None, env)), bb_get_all = (\<lambda>path iface env. (Inr [], env)),
     bb_managed_objects = (\<lambda>env. (Inr [], env)), bb_discovering = (\<lambda>path env. (Inr True, env)),
     bb_read_value = (\<lambda>path iface env. (Inr [], env)), bb_clock = (\<lambda>env. (env, env)), bb_sleep = (\<lambda>i env. env + i),
     bb_allowed = (\<lambda>env. (True, env)),
     bb_cache = (\<lambda>env. (new_object_cache\<lparr>oc_devices := [(''/d'', default_device_info\<lparr>
       dv_object_path := ''/d'', dv_mac := ''M'', dv_trusted := True\<rparr>)]\<rparr>, env)),
     bb_refresh = (\<lambda>path env. (True, env))\<rparr>"


section \<open>Disconnection\<close>

text \<open>What an operation sends, and whether it can throw.\<close>

definition never_throws :: "('e, 'a) client_op \<Rightarrow> bool" where
  "never_throws m \<longleftrightarrow> (\<forall>s. \<not> isl (fst (m s)))"

lemma throws_rules:
  "never_throws (give v)" "never_throws (modify f)" "never_throws (observe g)"
  "never_throws m \<Longrightarrow> (\<And>v. never_throws (k v)) \<Longrightarrow> never_throws (then_do m k)"
  "(\<And>e. never_throws (h e)) \<Longrightarrow> never_throws (or_catch n h)"
  by (auto simp: never_throws_def give_def modify_def observe_def then_do_def or_catch_def split: prod.split sum.split)
    (metis fst_conv sum.disc(1))+

lemma poll_never_throws: "never_throws p \<Longrightarrow> never_throws (poll_until b timeout interval p)"
proof -
  assume p: "never_throws p"
  have "never_throws (poll_from b n deadline interval p)" for n deadline
    by (induction n) (auto simp: p intro!: throws_rules)
  then show ?thesis unfolding poll_until_def by (intro throws_rules)
qed

definition no_longer_connected :: "'e bluez_bus \<Rightarrow> string \<Rightarrow> ('e, bool) client_op" where
  "no_longer_connected b path =
     or_catch (then_do (read_device_properties b path) (\<lambda>properties. give (\<not> has_flag properties ''Connected'')))
       (\<lambda>e. give (is_missing_object_error (se_message e)))"

lemma poll_release:
  assumes "poll_until b timeout interval (no_longer_connected b path) s = (r, t)"
  shows "bc_sent t = bc_sent s \<and> (\<exists>v. r = Inr v)"
proof -
  have free: "env_free (\<lambda>u. bc_sent u = bc_sent s)" by (simp add: env_free_def)
  have "preserves (\<lambda>u. bc_sent u = bc_sent s) (no_longer_connected b path)"
    unfolding no_longer_connected_def read_device_properties_def by (intro preserves_rules env_free_simps [OF free])
  then have "preserves (\<lambda>u. bc_sent u = bc_sent s) (poll_until b timeout interval (no_longer_connected b path))"
    by (rule preserves_poll) (rule env_free_simps [OF free])+
  from preservesD [OF this refl assms] have "bc_sent t = bc_sent s" .
  moreover have "never_throws (no_longer_connected b path)"
    unfolding no_longer_connected_def by (intro throws_rules)
  then have "\<not> isl r" using poll_never_throws assms unfolding never_throws_def by (metis fst_conv)
  ultimately show ?thesis by (cases r) auto
qed


text \<open>What follows the suspension of the trust.\<close>

definition set_trusted :: "string \<Rightarrow> bool \<Rightarrow> bluez_request" where
  "set_trusted path trusted = Set_property path ''Trusted'' (V_bool trusted)"

lemma request_outcome:
  assumes "request b q s = (r, t)"
  shows "bc_sent t = bc_sent s @ [(q, \<not> isl r)]"
  using assms by (auto simp: request_def split: prod.splits option.splits)

lemma find_quiet:
  assumes "find_device b mac s = (r, t)"
  shows "bc_sent t = bc_sent s" "\<exists>d. r = Inr d"
  using assms by (auto simp: find_device_def then_do_def observe_def give_def split: prod.splits)

lemma path_quiet:
  assumes "device_path_for_mac b mac s = (r, t)"
  shows "bc_sent t = bc_sent s" "\<exists>p. r = Inr p"
  using assms by (auto simp: device_path_for_mac_def find_device_def then_do_def observe_def give_def split: prod.splits)

lemma open_quiet: "open_bus b s = (r, t) \<Longrightarrow> bc_sent t = bc_sent s"
  by (auto simp: open_bus_def split: prod.splits option.splits)

lemma query_quiet: "query f s = (r, t) \<Longrightarrow> bc_sent t = bc_sent s"
  by (auto simp: query_def split: prod.splits)

definition release_device :: "'e bluez_bus \<Rightarrow> string \<Rightarrow> seconds \<Rightarrow> ('e, bool) client_op" where
  "release_device b path timeout_s =
     then_do (or_catch (then_do (request b (Device_disconnect path)) (\<lambda>_. give True))
        (\<lambda>e. if se_name e = ''org.bluez.Error.NotConnected'' \<or> se_name e = ''org.freedesktop.DBus.Error.UnknownObject''
             then give True
             else if se_name e = ''org.freedesktop.DBus.Error.UnknownMethod''
             then then_do (query (bb_managed_objects b)) (\<lambda>objects.
                    give (case map_of objects path of
                            None \<Rightarrow> True
                          | Some interfaces \<Rightarrow> map_of interfaces kDeviceIface = None))
             else give False)) (\<lambda>disconnected.
       if disconnected then poll_until b timeout_s kConnectPollInterval (no_longer_connected b path) else give False)"

lemma release_sends:
  assumes "release_device b path timeout s = (r, t)"
  shows "\<exists>ok. bc_sent t = bc_sent s @ [(Device_disconnect path, ok)] \<and> (isl r \<longrightarrow> \<not> ok)"
proof -
  obtain x u where u: "request b (Device_disconnect path) s = (x, u)" by (cases "request b (Device_disconnect path) s")
  obtain y v where v: "query (bb_managed_objects b) u = (y, v)" by (cases "query (bb_managed_objects b) u")
  have polled: "bc_sent t = bc_sent a \<and> \<not> isl r"
    if "poll_until b timeout kConnectPollInterval (no_longer_connected b path) a = (r, t)" for a
    using poll_release [OF that] by auto
  show ?thesis
    using assms request_outcome [OF u] query_quiet [OF v] polled [of u] polled [of v]
    by (cases x; cases y) (auto simp: release_device_def then_do_def or_catch_def u v give_def split: if_splits option.splits)
qed

lemma disconnect_steps:
  "disconnect b mac timeout_s =
     then_do (device_path_for_mac b mac) (\<lambda>path.
     unless (path \<noteq> []) True
     (then_do (find_device b mac) (\<lambda>found.
      case found of None \<Rightarrow> give True | Some dev \<Rightarrow>
      then_do (open_bus b) (\<lambda>_.
      then_do (if dv_trusted dev
               then or_catch (then_do (request b (set_trusted path False)) (\<lambda>_. give True)) (\<lambda>e. give False)
               else give True) (\<lambda>suspended.
      unless suspended False
      (then_do (release_device b path timeout_s) (\<lambda>released.
       if dv_trusted dev
       then or_catch (then_do (request b (set_trusted path True)) (\<lambda>_. give released)) (\<lambda>e. give False)
       else give released)))))))"
proof -
  have assoc: "then_do (then_do m f) g = then_do m (\<lambda>x. then_do (f x) g)" for m :: "('e, bool) client_op" and f :: "bool \<Rightarrow> ('e, bool) client_op" and g :: "bool \<Rightarrow> ('e, bool) client_op"
    by (rule ext) (auto simp: then_do_def split: prod.split sum.split)
  show ?thesis unfolding disconnect_def release_device_def no_longer_connected_def set_trusted_def assoc ..
qed




section \<open>Polling\<close>

text \<open>How far the clock has come, for operations that do not turn it back.\<close>

definition keeps_time :: "('e \<Rightarrow> ticks) \<Rightarrow> ('e, 'a) client_op \<Rightarrow> bool" where
  "keeps_time time m \<longleftrightarrow> (\<forall>s r t. m s = (r, t) \<longrightarrow> time (bc_env s) \<le> time (bc_env t))"

text \<open>Only the first rounds of the loop are run: in the last of them the deadline is over.\<close>

lemma poll_Suc:
  "poll_from b (Suc n) deadline interval p s =
     (case bb_clock b (bc_env s) of (now, env) \<Rightarrow>
        if now < deadline
        then (case p (s\<lparr>bc_env := env\<rparr>) of
                (Inl e, t) \<Rightarrow> (Inl e, t)
              | (Inr True, t) \<Rightarrow> (Inr True, t)
              | (Inr False, t) \<Rightarrow> poll_from b n deadline interval p (t\<lparr>bc_env := bb_sleep b interval (bc_env t)\<rparr>))
        else p (s\<lparr>bc_env := env\<rparr>))"
  by (auto simp: then_do_def observe_def give_def split: prod.split sum.split bool.split)

lemma poll_fuel:
  assumes "keeps_time time p" "0 < interval"
    "\<And>env now env'. bb_clock b env = (now, env') \<Longrightarrow> time env \<le> now \<and> time env \<le> time env'"
    "\<And>env. time env + interval \<le> time (bb_sleep b interval env)"
    "deadline \<le> time (bc_env s) + int n * interval"
  shows "poll_from b (Suc n + k) deadline interval p s = poll_from b (Suc n) deadline interval p s"
  using assms(5)
proof (induction n arbitrary: s)
  case 0
  obtain now env where c: "bb_clock b (bc_env s) = (now, env)" by (cases "bb_clock b (bc_env s)")
  have "\<not> now < deadline" using assms(3) [OF c] 0 by simp
  then show ?case unfolding add_Suc poll_Suc c by simp
next
  case (Suc n)
  obtain now env where c: "bb_clock b (bc_env s) = (now, env)" by (cases "bb_clock b (bc_env s)")
  obtain r t where t: "p (s\<lparr>bc_env := env\<rparr>) = (r, t)" by (cases "p (s\<lparr>bc_env := env\<rparr>)")
  have "time (bc_env s) \<le> time (bc_env t)"
    using assms(1) t assms(3) [OF c] unfolding keeps_time_def by fastforce
  then have "deadline \<le> time (bb_sleep b interval (bc_env t)) + int n * interval"
    using Suc.prems assms(4) [of "bc_env t"] by (simp add: algebra_simps)
  then have "poll_from b (Suc n + k) deadline interval p (t\<lparr>bc_env := bb_sleep b interval (bc_env t)\<rparr>) =
      poll_from b (Suc n) deadline interval p (t\<lparr>bc_env := bb_sleep b interval (bc_env t)\<rparr>)"
    by (intro Suc.IH) simp
  then show ?case unfolding add_Suc [of "Suc n"] poll_Suc [of b "Suc n + k"] poll_Suc [of b "Suc n"] c t prod.case
    by (simp del: poll_from.simps split: sum.split bool.split)
qed

lemma quotient_bound:
  assumes "0 < (d :: int)" "0 \<le> a"
  shows "a \<le> int (nat (a div d) + 1) * d"
proof -
  have "a = a div d * d + a mod d" by simp
  also have "\<dots> \<le> a div d * d + d" using pos_mod_bound [OF assms(1), of a] by linarith
  also have "\<dots> = int (nat (a div d) + 1) * d"
    using assms by (simp add: pos_imp_zdiv_nonneg_iff algebra_simps)
  finally show ?thesis .
qed

text \<open>C8: Polling ends. When a sleep takes at least as long as asked for and neither the clock nor the predicate turns
  time back, the loop of \<open>poll_until\<close> is over after \<open>poll_rounds\<close> rounds whatever the predicate answers: more rounds
  give the same result and the same state.\<close>
theorem polling_ends:
  assumes "keeps_time time p" "0 < interval"
    "\<And>env now env'. bb_clock b env = (now, env') \<Longrightarrow> time env = now \<and> time env \<le> time env'"
    "\<And>env. time env + interval \<le> time (bb_sleep b interval env)"
  shows "then_do (observe (bb_clock b)) (\<lambda>start.
      poll_from b (poll_rounds (timeout_ticks timeout) interval + k) (start + timeout_ticks timeout) interval p) s =
    poll_until b timeout interval p s"
proof -
  obtain start env where c: "bb_clock b (bc_env s) = (start, env)" by (cases "bb_clock b (bc_env s)")
  define n where "n = nat (timeout_ticks timeout div interval) + 1"
  have "0 \<le> timeout_ticks timeout"
    by (simp add: timeout_ticks_def trunc_rat_def)
  then have "timeout_ticks timeout \<le> int n * interval"
    using quotient_bound [OF assms(2)] by (metis n_def)
  then have "start + timeout_ticks timeout \<le> time (bc_env (s\<lparr>bc_env := env\<rparr>)) + int n * interval"
    using assms(3) [OF c] by simp
  then have "poll_from b (Suc n + k) (start + timeout_ticks timeout) interval p (s\<lparr>bc_env := env\<rparr>) =
      poll_from b (Suc n) (start + timeout_ticks timeout) interval p (s\<lparr>bc_env := env\<rparr>)"
    using assms(3) by (intro poll_fuel [OF assms(1,2) _ assms(4)]) auto
  moreover have "poll_rounds (timeout_ticks timeout) interval = Suc n" by (simp add: poll_rounds_def n_def)
  ultimately show ?thesis
    by (simp add: poll_until_def then_do_def [of "observe (bb_clock b)"] observe_def c del: poll_from.simps)
qed

lemma polling_ends_witness:
  "then_do (observe (bb_clock obliging_bus)) (\<lambda>start.
      poll_from obliging_bus (poll_rounds (timeout_ticks 1) kConnectPollInterval + 100) (start + timeout_ticks 1)
        kConnectPollInterval (give False)) (new_bluez_client ''/a'' 0) =
    poll_until obliging_bus 1 kConnectPollInterval (give False) (new_bluez_client ''/a'' 0)"
  by (rule polling_ends [where time = "\<lambda>env. env"])
    (simp_all add: keeps_time_def give_def kConnectPollInterval_def obliging_bus_def)

end
