(* ===== verification/Spec2Isabelle.thy ===== *)
theory Spec2Isabelle
  imports Bt_Prelude Util_Strings Peer_Sync Transport_Config Transport_Safety Md5_Correct
    Uuid_Correct Swarm_System Reliable_Frames Reliable_Progress Reliable_Delivery
    Payload_Correct Member_Path_Correct Math_Expression_Correct Object_Cache_Exact
    Message_Decode Overlay_Correct Config_Merge Config_Examples Bluez_Client_Correct
begin

text \<open>
  Verification of the ROS 2 Bluetooth service \<open>mrs_uav_bluetooth\<close>: its peer sessions, its
  advertisement and Mesh topic bridges with their payload codec and message access, the Mesh swarm
  coordinator, the object cache, the BlueZ client, the configuration loader and the overlays they depend on, and the helpers they rest on.

  \<^bold>\<open>The program.\<close> The object cache mirrors the objects of the BlueZ daemon from D-Bus signals and
  snapshots, and tells its observers of every change; the BlueZ client asks the daemon to scan, connect, pair, read, write
  and notify. The service node feeds its devices to the peer manager, which keeps one connection session per device and decides when to connect, pair, trust and
  repair. The transport bridge manager carries ROS topics in BLE advertisements and Mesh access
  messages. The swarm coordinator keeps the membership of an automatic Mesh network: heartbeats,
  leases, the election of a provisioner, the bootstrap and the enrollment of absent members. Reliable
  Mesh delivery sends each bridge sample to every live member in turn, with receipts and repairs. A
  bridge payload is a sequence of fixed-width scalars computed from ROS fields by configured relations; the
  generic message bridge reads and writes these fields in messages of any type. The configuration in force is the
  default one or an overlay, held by a lease, that replaces it. Names
  and identities are normalised by the helpers of \<open>src/util\<close> and \<open>src/mesh/mesh_application.cpp\<close>.

  \<^bold>\<open>Theories and code.\<close>
  \<^item> \<open>Bt_Prelude\<close>: vocabulary (bytes, C locale character classes, clock and seconds, standard
    exceptions), and the interfaces as locales: \<open>invariant_machine\<close> (steps that keep an invariant),
    \<open>wire_format\<close> and \<open>exact_wire_format\<close> (encoders with a reader). Each is interpreted on the code's
    definitions in the component that provides them.
  \<^item> \<open>Util_Strings\<close>: \<open>src/util/string_utils.cpp\<close>, \<open>topic_utils.cpp\<close>, \<open>hostname_utils.cpp\<close>,
    \<open>device_utils.cpp\<close> and \<open>src/gatt/bridge_naming.cpp\<close>.
  \<^item> \<open>Config_Models\<close>, \<open>Bluez_Types\<close>: the structs of \<open>config_models.hpp\<close> and \<open>bluez_types.hpp\<close>.
  \<^item> \<open>Peer_Session\<close>, \<open>Peer_Policy\<close>, \<open>Peer_Manager\<close>: \<open>src/peer/peer_manager.cpp\<close>. The function
    \<open>sync_device\<close> is one definition per block of the code. \<open>Peer_Correct\<close> has the gates, the repair
    protocol and the session invariant over all runs; \<open>Peer_Sync\<close> idempotence and frame conditions.
  \<^item> \<open>Bridge_Frame\<close>, \<open>Transport_Bridge\<close>: \<open>src/bridge/transport_bridge_manager.cpp\<close>. \<open>flush\<close> is the two
    critical sections \<open>flush_begin\<close> and \<open>flush_end\<close> around the unlocked dispatch, so samples and
    receptions may fall between them. \<open>Transport_Correct\<close> has the delivery and replay theorems,
    \<open>Transport_Config\<close> those of \<open>configure\<close>; \<open>Transport_System\<close> and \<open>Transport_Safety\<close> run the
    operations in any order and prove that no sample is lost, repeated or sent too early.
  \<^item> \<open>Md5_Digest\<close>, \<open>Md5_Correct\<close>: the digest of \<open>src/util/uuid_utils.cpp\<close> and its equality with the
    RFC 1321 construction. \<open>Uuid_Identity\<close>, \<open>Uuid_Correct\<close>: UUID derivation and Mesh identities.
  \<^item> \<open>Swarm_Types\<close>, \<open>Swarm_Coordinator\<close>, \<open>Swarm_Maintain\<close>: \<open>src/mesh/swarm_coordinator.cpp\<close>;
    \<open>Swarm_Correct\<close>: heartbeats, persistence, election; \<open>Swarm_System\<close>: the invariant over all runs
    and the enrollment targets.
  \<^item> \<open>Reliable_Types\<close>, \<open>Reliable_Receive\<close>, \<open>Reliable_Send\<close>, \<open>Reliable_Tick\<close>: the reliable delivery of
    \<open>src/app/service_node_mesh.cpp\<close> (\<open>publish_mesh_message\<close>, \<open>send_mesh_bridge_payload_impl\<close>,
    \<open>maintain_mesh_reliable\<close>), one definition per critical section of \<open>mesh_reliable_mutex_\<close>.
    \<open>Reliable_Frames\<close>: frame round trips and receipts; \<open>Reliable_Correct\<close>: the invariant of each
    section; \<open>Reliable_Progress\<close>: what one tick and one send achieve; \<open>Reliable_System\<close> and
    \<open>Reliable_Delivery\<close>: the sections in any order, and what every run guarantees.
    \<open>Ordered_Map\<close>: the \<open>std::map\<close> that the code iterates over.
  \<^item> \<open>Payload_Codec\<close>, \<open>Member_Path\<close>: \<open>src/bridge/payload_codec.cpp\<close> and
    \<open>src/config/shared_topic_config.cpp\<close>. \<open>Payload_Correct\<close>: coercions and payload round trips;
    \<open>Member_Path_Correct\<close>: the parser of member paths against the texts of its segments.
  \<^item> \<open>Math_Expression\<close>: \<open>src/bridge/math_expression.cpp\<close>, both parsers. \<open>Parser_Fuel\<close>: the locale
    \<open>fuel_parser\<close> of recursive-descent parsers and the termination of both; \<open>Math_Grammar\<close>: trees,
    reference values and grammar of integer relations; \<open>Math_Expression_Correct\<close>: the exact evaluator
    computes precisely these.
  \<^item> \<open>Object_Parsers\<close>, \<open>Object_Cache\<close>: \<open>src/bluez/object_manager_cache.cpp\<close>, the parsers of the BlueZ
    interfaces, then the tables and every signal handler. \<open>Object_Cache_Correct\<close>: observers that replay the
    events hold the cached objects in every run; \<open>Object_Cache_Exact\<close>: what the initial load, a refresh, a
    restart of the daemon and a removal leave in the tables.
  \<^item> \<open>Bluez_Client\<close>, \<open>Bluez_Client_Gatt\<close>: \<open>src/bluez/bluez_client.cpp\<close> and \<open>bluez_client_gatt.cpp\<close>. An operation
    is a function on the client that returns a value or throws an \<open>sdbus::Error\<close>, composed with \<open>then_do\<close> and
    \<open>or_catch\<close>. The daemon, the clock, the cache and the connection gate are the environment \<open>bluez_bus\<close>, whose state
    is a type parameter, so nothing is assumed of their answers. The requests sent are kept in a trace with whether
    the daemon accepted them. \<open>Bluez_Client_Correct\<close>: what the client believes to own, trust across a disconnection,
    and the end of polling.
  \<^item> \<open>Message_Schema\<close>, \<open>Message_Bridge\<close>: \<open>src/bridge/generic_message_bridge.cpp\<close>. A message is a tree of
    values described by the introspection records of rosidl; the raw pointers of the decoder are places in
    that tree with the size of every sequence on the way, so that a pointer into a sequence that has been
    resized since dangles and the result is \<open>None\<close>. \<open>Message_Counts\<close>, \<open>Message_Sizes\<close>: what selectors count and select, and
    the sizes of encoded payloads; \<open>Message_Places\<close>, \<open>Message_Decode\<close>: when decoding is defined and that it
    uses up the payload exactly.
  \<^item> \<open>Overlay_Manager\<close>, \<open>Overlay_Correct\<close>: \<open>src/config/overlay_config_manager.cpp\<close>: atomic transitions, the
    lease, and the restart.
  \<^item> \<open>Yaml_Values\<close>, \<open>Config_Loader\<close>, \<open>Config_Parse\<close>: \<open>src/config/config_loader.cpp\<close>. \<open>parse_node_config\<close>, one
    function of 760 lines, is the list of its statements in order, each a step on the configuration, grouped as in the
    source. YAML text is parsed by yaml-cpp: a file is a parameter that gives a document or a failure, and the scalar
    conversions are the functions of \<open>yaml_conv\<close>; map keys are scalars and numbers that are not finite do not convert.
    \<open>Config_Merge\<close>: what an overlay changes; \<open>Config_Steps\<close>: the library for reasoning about steps (which fields a step
    keeps, what the last step that writes a field establishes); \<open>Config_Correct\<close>: ranges and radio roles;
    \<open>Config_Topics\<close>: shared topics and their acceptance by the bridge manager; \<open>Config_Mesh\<close>: the coordinator
    starts; \<open>Config_Loaded\<close>: the loader inside the overlay manager; \<open>Config_Examples\<close>: documents it accepts.
  \<^item> \<open>Ieee_Float\<close>, \<open>Ieee_Correct\<close>: the \<open>float\<close> and \<open>double\<close> of the codec and the relations, as bit
    patterns with the rounding of IEEE 754 (to nearest, ties to even).

  \<^bold>\<open>Conventions.\<close> A struct is a record with prefixed fields, a thrown standard exception is the
  \<open>Inl\<close> of a sum, bytes and fixed-width integers are words. Clock readings are arguments: steady
  clock points are \<open>int\<close> nanoseconds whose epoch 0 is the code's \<open>time_point{}\<close>, and \<open>double\<close> seconds
  of clocks and rates are rationals, so their rounding is not modelled; the codec and the floating
  relations compute with IEEE 754 doubles. Log output is left out. ROS
  encoding and publication, regular expression matching, D-Bus calls and files are parameters.
  Every loop of the modelled code is a total function; \<open>advance_deadline\<close> and \<open>md5_pad\<close> carry
  termination proofs. Fuel is used three times: \<open>poll_from\<close> runs
  \<open>poll_rounds\<close> rounds, which \<open>polling_ends\<close> shows to reach the deadline; \<open>fresh_sequence\<close> skips the sequence numbers of outstanding
  samples, with the number of those samples as fuel; \<open>reliable_run_inv\<close> shows that in every run it is
  enough. The expression parsers recurse with the fuel \<open>enough_fuel\<close>, four steps for each character
  and four more, which \<open>evaluators_return\<close> shows to be enough for every text. Reliable delivery takes one clock reading per critical section and interleaves whole
  sections; what the Mesh daemon answers to a call may depend on all calls before it.

  \<^bold>\<open>Not modelled.\<close> D-Bus object export, what the daemon does with a request, the creation of ROS publishers and subscriptions
  and ROS serialisation (the introspection records of a message type are data of the model), the parsing of YAML text, the
  interactive front ends, the raw \<open>/mesh/rx\<close> publication of received messages, and thread scheduling below the level of the code's critical sections.
\<close>

end
